(* ===== verification/Prelude.thy ===== *)
theory Prelude
  imports Main "HOL-Library.AList"
begin

text \<open>
  Shared vocabulary of the development: Python exceptions as values, the ASCII part of
  \<open>str\<close>, insertion-ordered dictionaries and time stamps.

  \<^item> A call that may raise returns \<open>pyexc + 'a\<close>; \<open>Inl\<close> carries the exception with the
    literal text of its message (interpolated values are left out).
  \<^item> A \<open>dict\<close> whose order is observed is an association list updated with
    \<open>AList.update\<close>, which overwrites in place and appends a new key, as Python does.
  \<^item> An aware \<open>datetime\<close> is its instant in microseconds since the epoch; where the code
    asks for \<open>tzinfo\<close>, the type \<open>datetime\<close> tells aware from naive values.
\<close>

named_theorems guard_simps "equations of the constructors that check their arguments"
named_theorems frame_simps "fields an operation leaves alone"

section \<open>Exceptions as values\<close>

datatype pyexc =
    ValueError string
  | RuntimeError string
  | PyKeyError string
  | PyTypeError string
  | ZeroDivisionError
  | IndexError string

type_synonym 'a result = "pyexc + 'a"

definition bind_result :: "'a result \<Rightarrow> ('a \<Rightarrow> 'b result) \<Rightarrow> 'b result" where
  "bind_result m f = (case m of Inl e \<Rightarrow> Inl e | Inr x \<Rightarrow> f x)"

lemma bind_result_simps [simp]:
  "bind_result (Inl e) f = Inl e" "bind_result (Inr x) f = f x"
  by (simp_all add: bind_result_def)

lemma bind_result_Inr_iff:
  "bind_result m f = Inr y \<longleftrightarrow> (\<exists>x. m = Inr x \<and> f x = Inr y)"
  by (cases m) auto

lemma bind_result_assoc:
  "bind_result (bind_result m f) g = bind_result m (\<lambda>x. bind_result (f x) g)"
  by (cases m) auto

text \<open>The \<open>for\<close> loop whose body may raise: the first exception ends it.\<close>

fun fold_result :: "('a \<Rightarrow> 's \<Rightarrow> 's result) \<Rightarrow> 'a list \<Rightarrow> 's \<Rightarrow> 's result" where
  "fold_result f [] s = Inr s"
| "fold_result f (x # xs) s = bind_result (f x s) (fold_result f xs)"

lemma fold_result_append:
  "fold_result f (xs @ ys) s = bind_result (fold_result f xs s) (fold_result f ys)"
  by (induction xs arbitrary: s) (auto simp: bind_result_assoc bind_result_def split: sum.splits)

lemma fold_result_invariant:
  assumes "fold_result f xs s = Inr t" and "P s"
    and "\<And>x s t. x \<in> set xs \<Longrightarrow> P s \<Longrightarrow> f x s = Inr t \<Longrightarrow> P t"
  shows "P t"
  using assms
proof (induction xs arbitrary: s)
  case (Cons x xs)
  then obtain u where "f x s = Inr u" "fold_result f xs u = Inr t"
    by (auto simp: bind_result_Inr_iff)
  with Cons show ?case by (metis list.set_intros)
qed simp

text \<open>A list comprehension whose element expression may raise.\<close>

fun map_result :: "('a \<Rightarrow> 'b result) \<Rightarrow> 'a list \<Rightarrow> 'b list result" where
  "map_result f [] = Inr []"
| "map_result f (x # xs) =
     bind_result (f x) (\<lambda>y. bind_result (map_result f xs) (\<lambda>ys. Inr (y # ys)))"

lemma map_result_Inr_length: "map_result f xs = Inr ys \<Longrightarrow> length ys = length xs"
  by (induction xs arbitrary: ys) (auto simp: bind_result_Inr_iff)

lemma map_result_Inr_set:
  "map_result f xs = Inr ys \<Longrightarrow> y \<in> set ys \<Longrightarrow> \<exists>x \<in> set xs. f x = Inr y"
  by (induction xs arbitrary: ys) (auto simp: bind_result_Inr_iff)

section \<open>State and exceptions\<close>

text \<open>
  A method that mutates its object and may raise: the exception leaves the mutations made so
  far in place, so the state comes back on both paths.
\<close>

type_synonym ('s, 'a) act = "'s \<Rightarrow> 'a result \<times> 's"

definition aret :: "'a \<Rightarrow> ('s, 'a) act" where
  "aret x s = (Inr x, s)"

definition araise :: "pyexc \<Rightarrow> ('s, 'a) act" where
  "araise e s = (Inl e, s)"

definition abind :: "('s, 'a) act \<Rightarrow> ('a \<Rightarrow> ('s, 'b) act) \<Rightarrow> ('s, 'b) act" where
  "abind m f s = (case m s of (Inl e, t) \<Rightarrow> (Inl e, t) | (Inr x, t) \<Rightarrow> f x t)"

definition aupd :: "('s \<Rightarrow> 's) \<Rightarrow> ('s, unit) act" where
  "aupd f s = (Inr (), f s)"

definition aget :: "('s \<Rightarrow> 'a) \<Rightarrow> ('s, 'a) act" where
  "aget f s = (Inr (f s), s)"

definition alift :: "'a result \<Rightarrow> ('s, 'a) act" where
  "alift r s = (r, s)"

definition aguard :: "bool \<Rightarrow> pyexc \<Rightarrow> ('s, unit) act" where
  "aguard ok e = (if ok then aret () else araise e)"

lemma act_simps [simp]:
  "aret x s = (Inr x, s)" "araise e s = (Inl e, s)" "aupd f s = (Inr (), f s)"
  "aget g s = (Inr (g s), s)" "alift r s = (r, s)"
  by (simp_all add: aret_def araise_def aupd_def aget_def alift_def)

lemma aguard_simps [simp]:
  "aguard True e = aret ()" "aguard False e = araise e"
  by (simp_all add: aguard_def)

text \<open>A loop that collects what its body returns.\<close>

fun for_each :: "('x \<Rightarrow> ('s, 'a) act) \<Rightarrow> 'x list \<Rightarrow> ('s, 'a list) act" where
  "for_each f [] = aret []"
| "for_each f (x # xs) = abind (f x) (\<lambda>y. abind (for_each f xs) (\<lambda>ys. aret (y # ys)))"

text \<open>An invariant is kept by an action when it holds afterwards on both paths.\<close>

definition keeps :: "('s \<Rightarrow> bool) \<Rightarrow> ('s, 'a) act \<Rightarrow> bool" where
  "keeps P m \<longleftrightarrow> (\<forall>s. P s \<longrightarrow> P (snd (m s)))"

named_theorems keeps_intros "actions that keep an invariant"

lemma keepsI: "(\<And>s. P s \<Longrightarrow> P (snd (m s))) \<Longrightarrow> keeps P m"
  by (simp add: keeps_def)

lemma keepsD: "keeps P m \<Longrightarrow> P s \<Longrightarrow> P (snd (m s))"
  by (simp add: keeps_def)

lemma keeps_aret [keeps_intros]: "keeps P (aret x)"
  by (simp add: keeps_def)

lemma keeps_araise [keeps_intros]: "keeps P (araise e)"
  by (simp add: keeps_def)

lemma keeps_aget [keeps_intros]: "keeps P (aget g)"
  by (simp add: keeps_def)

lemma keeps_alift [keeps_intros]: "keeps P (alift r)"
  by (simp add: keeps_def)

lemma keeps_aguard [keeps_intros]: "keeps P (aguard b e)"
  by (simp add: aguard_def keeps_aret keeps_araise)

lemma keeps_aupd: "(\<And>s. P s \<Longrightarrow> P (f s)) \<Longrightarrow> keeps P (aupd f)"
  by (simp add: keeps_def)

lemma keeps_abind [keeps_intros]: "keeps P m \<Longrightarrow> (\<And>x. keeps P (f x)) \<Longrightarrow> keeps P (abind m f)"
  unfolding keeps_def abind_def
  by (auto split: prod.splits sum.splits)

lemma keeps_for_each [keeps_intros]:
  "(\<And>x. x \<in> set xs \<Longrightarrow> keeps P (f x)) \<Longrightarrow> keeps P (for_each f xs)"
  by (induction xs) (auto intro!: keeps_intros)

lemma keeps_if [keeps_intros]: "keeps P m \<Longrightarrow> keeps P n \<Longrightarrow> keeps P (if b then m else n)"
  by simp

lemma keeps_case_option [keeps_intros]:
  "keeps P m \<Longrightarrow> (\<And>x. keeps P (f x)) \<Longrightarrow> keeps P (case r of None \<Rightarrow> m | Some x \<Rightarrow> f x)"
  by (cases r) auto

lemma abind_Inr_iff:
  "abind m f s = (Inr y, u) \<longleftrightarrow> (\<exists>x t. m s = (Inr x, t) \<and> f x t = (Inr y, u))"
  by (auto simp: abind_def split: prod.splits sum.splits)

text \<open>
  A preorder on states that every primitive step respects is respected by the actions built
  from them, on both paths. \<open>relates R m\<close> is that statement for one action.
\<close>

definition relates :: "('s \<Rightarrow> 's \<Rightarrow> bool) \<Rightarrow> ('s, 'a) act \<Rightarrow> bool" where
  "relates R m \<longleftrightarrow> (\<forall>s. R s (snd (m s)))"

lemma relatesI: "(\<And>s. R s (snd (m s))) \<Longrightarrow> relates R m"
  by (simp add: relates_def)

lemma relatesD: "relates R m \<Longrightarrow> R s (snd (m s))"
  by (simp add: relates_def)

locale state_preorder =
  fixes R :: "'s \<Rightarrow> 's \<Rightarrow> bool"
  assumes R_refl: "R s s" and R_trans: "R s t \<Longrightarrow> R t u \<Longrightarrow> R s u"
begin

lemma relates_aret: "relates R (aret x)"
  by (simp add: relates_def R_refl)

lemma relates_abind_at:
  "R s (snd (m s)) \<Longrightarrow> (\<And>x t. m s = (Inr x, t) \<Longrightarrow> R t (snd (f x t))) \<Longrightarrow> R s (snd (abind m f s))"
  by (auto simp: abind_def split: prod.splits sum.splits intro: R_trans)

lemma relates_abind: "relates R m \<Longrightarrow> (\<And>x. relates R (f x)) \<Longrightarrow> relates R (abind m f)"
  by (rule relatesI) (auto intro: relates_abind_at relatesD)

lemma relates_for_each: "(\<And>x. x \<in> set xs \<Longrightarrow> relates R (f x)) \<Longrightarrow> relates R (for_each f xs)"
  by (induction xs) (auto intro!: relates_abind relates_aret)

end

section \<open>Strings\<close>

text \<open>Decimal rendering of an integer.\<close>

function digits_of :: "int \<Rightarrow> string" where
  "digits_of n = (if n < 10 then [char_of (48 + nat n)]
     else digits_of (n div 10) @ [char_of (48 + nat (n mod 10))])"
  by pat_completeness auto
termination
  by (relation "measure nat") auto

declare digits_of.simps [simp del]

definition show_int :: "int \<Rightarrow> string" where
  "show_int n = (if n < 0 then CHR ''-'' # digits_of (- n) else digits_of n)"

lemma digit_char_inj:
  "0 \<le> m \<Longrightarrow> m < 10 \<Longrightarrow> 0 \<le> n \<Longrightarrow> n < 10 \<Longrightarrow>
   (char_of (48 + nat m) :: char) = char_of (48 + nat n) \<Longrightarrow> m = n"
proof -
  assume mn: "0 \<le> m" "m < 10" "0 \<le> n" "n < 10" and "(char_of (48 + nat m) :: char) = char_of (48 + nat n)"
  then have "(48 + nat m) mod 256 = (48 + nat n) mod 256" by (simp add: char_of_eq_iff [symmetric])
  moreover have "(48 + nat m) mod 256 = 48 + nat m" "(48 + nat n) mod 256 = 48 + nat n"
    using mn by (intro mod_less, linarith)+
  ultimately show "m = n" using mn by linarith
qed

lemma digits_of_ne [simp]: "digits_of n \<noteq> []" "[] \<noteq> digits_of n"
  by (subst digits_of.simps, simp)+

lemma digits_of_inj: "0 \<le> m \<Longrightarrow> 0 \<le> n \<Longrightarrow> digits_of m = digits_of n \<Longrightarrow> m = n"
proof (induction m arbitrary: n rule: digits_of.induct)
  case (1 m)
  show ?case
  proof (cases "m < 10")
    case True
    with "1.prems" have "n < 10"
      by (subst (asm) (1 2) digits_of.simps) (auto split: if_splits)
    with True "1.prems" show ?thesis
      by (subst (asm) (1 2) digits_of.simps) (auto intro: digit_char_inj)
  next
    case False
    with "1.prems" have n: "\<not> n < 10"
      by (subst (asm) (1 2) digits_of.simps) (auto split: if_splits)
    with False "1.prems" have e: "digits_of (m div 10) = digits_of (n div 10)"
      "(char_of (48 + nat (m mod 10)) :: char) = char_of (48 + nat (n mod 10))"
      by (subst (asm) (1 2) digits_of.simps, simp)+
    have "m mod 10 = n mod 10"
      by (rule digit_char_inj [OF _ _ _ _ e(2)]) simp_all
    moreover have "m div 10 = n div 10"
      using False "1.prems" by (intro "1.IH" e(1)) auto
    ultimately show ?thesis by (metis mult_div_mod_eq)
  qed
qed

lemma show_int_inj: "0 \<le> m \<Longrightarrow> 0 \<le> n \<Longrightarrow> show_int m = show_int n \<Longrightarrow> m = n"
  by (simp add: show_int_def digits_of_inj)

definition upper_char :: "char \<Rightarrow> char" where
  "upper_char c =
     (let n = of_char c :: nat in if 97 \<le> n \<and> n \<le> 122 then char_of (n - 32) else c)"

definition lower_char :: "char \<Rightarrow> char" where
  "lower_char c =
     (let n = of_char c :: nat in if 65 \<le> n \<and> n \<le> 90 then char_of (n + 32) else c)"

definition upper :: "string \<Rightarrow> string" where
  "upper s = map upper_char s"

definition lower :: "string \<Rightarrow> string" where
  "lower s = map lower_char s"

definition is_space_char :: "char \<Rightarrow> bool" where
  "is_space_char c = (let n = of_char c :: nat in (9 \<le> n \<and> n \<le> 13) \<or> (28 \<le> n \<and> n \<le> 32))"

definition strip :: "string \<Rightarrow> string" where
  "strip s = rev (dropWhile is_space_char (rev (dropWhile is_space_char s)))"

lemma upper_char_idem [simp]: "upper_char (upper_char c) = upper_char c"
proof (cases "97 \<le> (of_char c :: nat) \<and> (of_char c :: nat) \<le> 122")
  case True
  moreover from True have "((of_char c :: nat) - 32) mod 256 = of_char c - 32"
    by (intro mod_less) linarith
  ultimately have "(of_char (char_of (of_char c - 32 :: nat)) :: nat) = of_char c - 32"
    by simp
  with True show ?thesis by (auto simp: upper_char_def Let_def)
next
  case False
  then show ?thesis by (auto simp: upper_char_def Let_def)
qed

lemma upper_idem [simp]: "upper (upper s) = upper s"
  by (simp add: upper_def)

lemma upper_Nil [simp]: "upper [] = []" "upper s = [] \<longleftrightarrow> s = []"
  by (simp_all add: upper_def)

section \<open>Insertion-ordered dictionaries\<close>

type_synonym ('k, 'v) dict = "('k \<times> 'v) list"

definition dkeys :: "('k, 'v) dict \<Rightarrow> 'k list" where
  "dkeys d = map fst d"

definition dvalues :: "('k, 'v) dict \<Rightarrow> 'v list" where
  "dvalues d = map snd d"

definition well_keyed :: "('k, 'v) dict \<Rightarrow> bool" where
  "well_keyed d = distinct (map fst d)"

text \<open>\<open>dict.get\<close> with a default, and \<open>dict.update\<close>.\<close>

definition dget :: "('k, 'v) dict \<Rightarrow> 'k \<Rightarrow> 'v \<Rightarrow> 'v" where
  "dget d k v = (case map_of d k of None \<Rightarrow> v | Some x \<Rightarrow> x)"

definition dupdate :: "('k, 'v) dict \<Rightarrow> ('k, 'v) dict \<Rightarrow> ('k, 'v) dict" where
  "dupdate d e = fold (\<lambda>(k, v) acc. AList.update k v acc) e d"

text \<open>A dictionary display \<open>{k(x): v(x) for x in xs}\<close>: later rows win, keys keep their
  first position.\<close>

definition dict_of :: "('a \<Rightarrow> 'k) \<Rightarrow> ('a \<Rightarrow> 'v) \<Rightarrow> 'a list \<Rightarrow> ('k, 'v) dict" where
  "dict_of k v xs = fold (\<lambda>x acc. AList.update (k x) (v x) acc) xs []"

lemma map_of_update [simp]:
  "map_of (AList.update k v d) = (map_of d)(k \<mapsto> v)"
  by (rule ext) (simp add: AList.update_conv')

lemma well_keyed_update [simp, intro]:
  "well_keyed d \<Longrightarrow> well_keyed (AList.update k v d)"
  by (simp add: well_keyed_def AList.distinct_update)

lemma well_keyed_Nil [simp, intro]: "well_keyed []"
  by (simp add: well_keyed_def)

lemma well_keyed_filter [simp, intro]: "well_keyed d \<Longrightarrow> well_keyed (filter P d)"
  by (induction d) (auto simp: well_keyed_def)

lemma map_of_filter_key:
  "map_of (filter (\<lambda>(k, v). P k) d) k = (if P k then map_of d k else None)"
  by (induction d) auto

lemma map_of_delete [simp]: "map_of (AList.delete k d) = (map_of d)(k := None)"
  by (rule ext) (simp add: AList.delete_conv')

lemma well_keyed_delete [simp, intro]: "well_keyed d \<Longrightarrow> well_keyed (AList.delete k d)"
  by (simp add: well_keyed_def AList.distinct_delete)

lemma well_keyed_dupdate: "well_keyed d \<Longrightarrow> well_keyed (dupdate d e)"
  unfolding dupdate_def
  by (induction e arbitrary: d) (auto split: prod.splits)

lemma map_of_dupdate:
  "map_of (dupdate d e) k = (case map_of (rev e) k of None \<Rightarrow> map_of d k | Some v \<Rightarrow> Some v)"
  unfolding dupdate_def
proof (induction e arbitrary: d)
  case (Cons p e)
  obtain k' v' where [simp]: "p = (k', v')" by (cases p)
  show ?case
    using Cons.IH [of "AList.update k' v' d"]
    by (auto simp: map_add_def split: option.splits)
qed simp

lemma dict_of_snoc: "dict_of k v (xs @ [x]) = AList.update (k x) (v x) (dict_of k v xs)"
  by (simp add: dict_of_def)

lemma well_keyed_dict_of [simp, intro]: "well_keyed (dict_of k v xs)"
  by (induction xs rule: rev_induct) (simp_all add: dict_of_snoc, simp add: dict_of_def)

lemma set_dict_of_keys: "fst ` set (dict_of k v xs) = k ` set xs"
  by (induction xs rule: rev_induct)
     (auto simp: dict_of_snoc dom_map_of_conv_image_fst [symmetric],
      auto simp: dict_of_def)

lemma well_keyed_map_of_iff:
  "well_keyed d \<Longrightarrow> map_of d k = Some v \<longleftrightarrow> (k, v) \<in> set d"
  by (auto simp: well_keyed_def)

lemma dvalues_map_of: "v \<in> set (dvalues d) \<Longrightarrow> well_keyed d \<Longrightarrow> \<exists>k. map_of d k = Some v"
  by (auto simp: dvalues_def well_keyed_map_of_iff)

text \<open>Rewriting every value of a dictionary in place, as a loop over \<open>d.values()\<close> that
  mutates the objects it visits.\<close>

definition map_values :: "('v \<Rightarrow> 'w) \<Rightarrow> ('k, 'v) dict \<Rightarrow> ('k, 'w) dict" where
  "map_values f d = map (\<lambda>(k, v). (k, f v)) d"

lemma map_of_map_values [simp]: "map_of (map_values f d) k = map_option f (map_of d k)"
  by (induction d) (auto simp: map_values_def)

lemma well_keyed_map_values [simp]: "well_keyed (map_values f d) = well_keyed d"
  by (simp add: well_keyed_def map_values_def comp_def case_prod_beta)

lemma fst_map_values [simp]: "map fst (map_values f d) = map fst d"
  by (simp add: map_values_def comp_def case_prod_beta)

lemma dvalues_map_values [simp]: "dvalues (map_values f d) = map f (dvalues d)"
  by (simp add: dvalues_def map_values_def comp_def case_prod_beta)

section \<open>Time\<close>

datatype datetime = Aware int | Naive int

fun is_aware :: "datetime \<Rightarrow> bool" where
  "is_aware (Aware _) = True"
| "is_aware (Naive _) = False"

fun instant :: "datetime \<Rightarrow> int" where
  "instant (Aware t) = t"
| "instant (Naive t) = t"

section \<open>Small list facts\<close>

lemma sum_list_filter_le:
  fixes f :: "'a \<Rightarrow> 'b::ordered_comm_monoid_add"
  assumes "\<And>x. x \<in> set xs \<Longrightarrow> 0 \<le> f x"
  shows "sum_list (map f (filter P xs)) \<le> sum_list (map f xs)"
  using assms
  by (induction xs) (auto intro: add_mono simp: add_increasing add_left_mono)

end
