(* ===== verification/PyNum.thy ===== *)
theory PyNum
  imports Prelude Complex_Main
begin

text \<open>
  Python's two inexact number types, executable on rationals.

  A \<open>float\<close> is an IEEE-754 binary64 value; the model holds the exact rational it denotes
  (type \<open>f64\<close>) and rounds the exact result of every operation with \<open>fl\<close>: 53 significant
  bits, ties to even, gradual underflow below \<open>2 ^ (-1022)\<close>. Non-finite values and the sign
  of zero are outside the model. A \<open>Decimal\<close> is its exact rational too (type \<open>dec\<close>);
  \<open>dr\<close> rounds to the 28 significant digits of the default context. Both are instances of
  \<open>round_sig\<close>, and the lemmas about it (exact on short numbers, monotone, sign preserving)
  are what the components use.
\<close>

section \<open>Rounding to a number of significant digits\<close>

definition rhe :: "rat \<Rightarrow> int" where
  "rhe x =
     (let f = \<lfloor>x\<rfloor>; d = x - of_int f
      in if d < 1 / 2 then f else if 1 / 2 < d then f + 1 else if even f then f else f + 1)"

text \<open>\<open>ilog b n\<close> is the exponent of the leading base-\<open>b\<close> digit of a positive integer, and
  \<open>expo b r\<close> the same for a positive rational.\<close>

function ilog :: "int \<Rightarrow> int \<Rightarrow> int" where
  "ilog b n = (if n < b \<or> b < 2 then 0 else 1 + ilog b (n div b))"
  by pat_completeness auto
termination
  by (relation "measure (\<lambda>(b, n). nat n)") (auto simp: int_div_less_self)

declare ilog.simps [simp del]

definition expo :: "int \<Rightarrow> rat \<Rightarrow> int" where
  "expo b r =
     (let (p, q) = quotient_of r; k = ilog b p - ilog b q
      in if of_int b powi k \<le> r then k else k - 1)"

definition round_sig :: "int \<Rightarrow> int \<Rightarrow> int \<Rightarrow> rat \<Rightarrow> rat" where
  "round_sig b p emin x =
     (if x = 0 then 0
      else let e = max (expo b \<bar>x\<bar> - p + 1) emin; s = (of_int b :: rat) powi e
           in of_int (rhe (x / s)) * s)"

lemma rhe_of_int [simp]: "rhe (of_int n) = n"
  by (simp add: rhe_def)

lemma rhe_0 [simp]: "rhe 0 = 0"
  by (simp add: rhe_def)

lemma rhe_bounds: "\<lfloor>x\<rfloor> \<le> rhe x" "rhe x \<le> \<lfloor>x\<rfloor> + 1"
  by (simp_all add: rhe_def Let_def)

lemma rhe_error: "\<bar>of_int (rhe x) - x\<bar> \<le> 1 / 2"
proof -
  have "of_int \<lfloor>x\<rfloor> \<le> x" "x < of_int \<lfloor>x\<rfloor> + 1" by linarith+
  then show ?thesis by (auto simp: rhe_def Let_def)
qed

lemma rhe_mono: "x \<le> y \<Longrightarrow> rhe x \<le> rhe y"
proof (cases "\<lfloor>x\<rfloor> = \<lfloor>y\<rfloor>")
  case True
  assume "x \<le> y"
  with True show ?thesis by (auto simp: rhe_def Let_def)
next
  case False
  assume "x \<le> y"
  with False have "\<lfloor>x\<rfloor> + 1 \<le> \<lfloor>y\<rfloor>" using floor_mono [of x y] by linarith
  with rhe_bounds [of x] rhe_bounds [of y] show ?thesis by linarith
qed

lemma rhe_uminus: "rhe (- x) = - rhe x"
proof (cases "x = of_int \<lfloor>x\<rfloor>")
  case True
  then show ?thesis by (metis of_int_minus rhe_of_int)
next
  case False
  have b: "of_int \<lfloor>x\<rfloor> < x" "x < of_int \<lfloor>x\<rfloor> + 1" using False by linarith+
  then have *: "\<lfloor>- x\<rfloor> = - \<lfloor>x\<rfloor> - 1" by (intro floor_unique) auto
  show ?thesis unfolding rhe_def Let_def * using b by auto
qed

lemma ilog_bounds:
  assumes "1 \<le> n" and "2 \<le> b"
  shows "0 \<le> ilog b n \<and> b ^ nat (ilog b n) \<le> n \<and> n < b ^ (nat (ilog b n) + 1)"
  using assms
proof (induction b n rule: ilog.induct)
  case (1 b n)
  show ?case
  proof (cases "n < b")
    case True
    with "1.prems" show ?thesis by (simp add: ilog.simps [of b n])
  next
    case False
    define k where "k = ilog b (n div b)"
    from False "1.prems" have "1 \<le> n div b"
      by (simp add: pos_imp_zdiv_pos_iff int_one_le_iff_zero_less)
    with "1.IH" False "1.prems"
    have k: "0 \<le> k" "b ^ nat k \<le> n div b" "n div b < b ^ (nat k + 1)"
      by (auto simp: k_def)
    have eq: "ilog b n = 1 + k" using False "1.prems" by (simp add: ilog.simps [of b n] k_def)
    have "b * b ^ nat k \<le> b * (n div b)" using k(2) "1.prems" by simp
    also have "\<dots> \<le> n"
      using "1.prems" pos_mod_sign [of b n] mult_div_mod_eq [of b n] by linarith
    finally have lo: "b * b ^ nat k \<le> n" .
    have "n div b + 1 \<le> b ^ (nat k + 1)" using k(3) by simp
    then have "b * (n div b + 1) \<le> b * b ^ (nat k + 1)"
      using "1.prems" by (intro mult_left_mono) auto
    moreover have "n < b * (n div b) + b"
      using "1.prems" pos_mod_bound [of b n] mult_div_mod_eq [of b n] by linarith
    then have "n < b * (n div b + 1)" by (simp add: algebra_simps)
    ultimately have "n < b * b ^ (nat k + 1)" by linarith
    with lo eq k(1) show ?thesis by (simp add: nat_add_distrib)
  qed
qed

lemma powi_nat: "0 \<le> k \<Longrightarrow> (of_int b :: rat) powi k = of_int (b ^ nat k)"
  by (simp add: power_int_def)

lemma powi_split:
  assumes "2 \<le> b" "0 \<le> k"
  shows "(of_int b :: rat) powi (e + k) = of_int (b ^ nat k) * of_int b powi e"
proof -
  have "(of_int b :: rat) powi (e + k) = of_int b powi e * of_int b powi k"
    using assms by (intro power_int_add) auto
  then show ?thesis by (simp only: powi_nat [OF assms(2)] mult.commute)
qed

lemma powi_less_cancel: "1 < (a :: rat) \<Longrightarrow> a powi m < a powi n \<longleftrightarrow> m < n"
  by (metis less_le_not_le linorder_not_less power_int_increasing power_int_strict_increasing)

lemma expo_bounds:
  assumes "0 < r" and b: "2 \<le> b"
  shows "of_int b powi expo b r \<le> r" "r < of_int b powi (expo b r + 1)"
proof -
  obtain p q where pq: "quotient_of r = (p, q)" by (cases "quotient_of r")
  then have q: "0 < q" and r: "r = of_int p / of_int q"
    by (auto dest: quotient_of_denom_pos quotient_of_div)
  with assms have p: "0 < p" by (simp add: zero_less_divide_iff)
  define i j where "i = ilog b p" and "j = ilog b q"
  from ilog_bounds [of p b] ilog_bounds [of q b] p q b
  have i: "0 \<le> i" "b ^ nat i \<le> p" "p < b ^ (nat i + 1)"
    and j: "0 \<le> j" "b ^ nat j \<le> q" "q < b ^ (nat j + 1)"
    by (auto simp: i_def j_def)
  let ?B = "of_int b :: rat"
  have B: "0 < ?B" "1 < ?B" using b by simp_all
  have pw: "of_int (b ^ nat k) = ?B powi k" "of_int (b ^ (nat k + 1)) = ?B powi (k + 1)"
    if "0 \<le> k" for k
    using that powi_nat [of k b] powi_nat [of "k + 1" b] by (simp_all add: nat_add_distrib)
  have p': "?B powi i \<le> of_int p" "of_int p < ?B powi (i + 1)"
    and q': "?B powi j \<le> of_int q" "of_int q < ?B powi (j + 1)"
    using i j pw by (metis of_int_le_iff of_int_less_iff)+
  have up: "r < ?B powi (i - j + 1)"
  proof -
    have "of_int p / of_int q < ?B powi (i + 1) / ?B powi j"
      using p' q' B q by (intro frac_less) (auto simp: p less_imp_le)
    also have "\<dots> = ?B powi (i - j + 1)" using B by (simp add: power_int_diff [symmetric] algebra_simps)
    finally show ?thesis by (simp add: r)
  qed
  have lo: "?B powi (i - j - 1) \<le> r"
  proof -
    have "?B powi (i - j - 1) = ?B powi i / ?B powi (j + 1)"
      using B by (simp add: power_int_diff [symmetric] algebra_simps)
    also have "\<dots> \<le> of_int p / of_int q"
      using p' q' B q p by (intro frac_le) (auto simp: less_imp_le)
    finally show ?thesis by (simp add: r)
  qed
  show "?B powi expo b r \<le> r" "r < ?B powi (expo b r + 1)"
    using up lo by (auto simp: expo_def pq i_def j_def Let_def)
qed

lemma expo_unique:
  assumes b: "2 \<le> b" and r: "of_int b powi k \<le> r" "r < of_int b powi (k + 1)"
  shows "expo b r = k"
proof -
  let ?B = "of_int b :: rat"
  have B: "1 < ?B" using b by simp
  have "0 < ?B powi k" using B by simp
  with r have "0 < r" by linarith
  note e = expo_bounds [OF this b]
  from e(1) r(2) have "?B powi expo b r < ?B powi (k + 1)" by linarith
  with B have "expo b r < k + 1" by (simp add: powi_less_cancel)
  moreover from r(1) e(2) have "?B powi k < ?B powi (expo b r + 1)" by linarith
  with B have "k < expo b r + 1" by (simp add: powi_less_cancel)
  ultimately show ?thesis by simp
qed

lemma expo_mono: "0 < x \<Longrightarrow> x \<le> y \<Longrightarrow> 2 \<le> b \<Longrightarrow> expo b x \<le> expo b y"
proof -
  assume a: "0 < x" "x \<le> y" "2 \<le> b"
  have "of_int b powi expo b x < (of_int b :: rat) powi (expo b y + 1)"
    using expo_bounds [of x b] expo_bounds [of y b] a by linarith
  with a(3) show ?thesis by (simp add: powi_less_cancel)
qed

lemma expo_powi: "2 \<le> b \<Longrightarrow> expo b (of_int b powi k) = k"
  by (rule expo_unique) (simp_all add: powi_less_cancel)

definition sig_exp :: "int \<Rightarrow> int \<Rightarrow> int \<Rightarrow> rat \<Rightarrow> int" where
  "sig_exp b p emin x = max (expo b \<bar>x\<bar> - p + 1) emin"

lemma round_sig_alt:
  "round_sig b p emin x =
     (if x = 0 then 0
      else of_int (rhe (x / of_int b powi sig_exp b p emin x)) * of_int b powi sig_exp b p emin x)"
  by (simp add: round_sig_def sig_exp_def Let_def)

lemma round_sig_0 [simp]: "round_sig b p emin 0 = 0"
  by (simp add: round_sig_def)

lemma round_sig_uminus: "round_sig b p emin (- x) = - round_sig b p emin x"
  by (simp add: round_sig_alt sig_exp_def rhe_uminus)

text \<open>The numbers with at most \<open>p\<close> base-\<open>b\<close> digits.\<close>

definition is_sig :: "int \<Rightarrow> int \<Rightarrow> int \<Rightarrow> rat \<Rightarrow> bool" where
  "is_sig b p emin x \<longleftrightarrow>
     (\<exists>m e. \<bar>m\<bar> \<le> b ^ nat p \<and> emin \<le> e \<and> x = of_int m * of_int b powi e)"

lemma round_sig_near:
  assumes "0 < x" "2 \<le> b" "1 \<le> p"
  shows "round_sig b p emin x \<le> of_int b powi (sig_exp b p emin x + p)"
    and "emin < sig_exp b p emin x \<Longrightarrow>
           of_int b powi (sig_exp b p emin x + p - 1) \<le> round_sig b p emin x"
proof -
  define e where "e = sig_exp b p emin x"
  let ?B = "of_int b :: rat"
  have B: "1 < ?B" using assms by simp
  then have B0: "0 < ?B powi e" by simp
  have r: "round_sig b p emin x = of_int (rhe (x / ?B powi e)) * ?B powi e"
    using assms by (simp add: round_sig_alt e_def)
  have split: "?B powi (e + k) = of_int (b ^ nat k) * ?B powi e" if "0 \<le> k" for k
    using assms that by (intro powi_split)
  have "x < ?B powi (expo b x + 1)" using expo_bounds assms by blast
  also have "\<dots> \<le> ?B powi (e + p)"
    using B assms by (intro power_int_increasing) (auto simp: e_def sig_exp_def)
  finally have "x / ?B powi e \<le> of_int (b ^ nat p)"
    using split [of p] B0 assms by (simp add: field_simps)
  then have "rhe (x / ?B powi e) \<le> b ^ nat p" using rhe_mono by (metis rhe_of_int)
  then have "of_int (rhe (x / ?B powi e)) * ?B powi e \<le> of_int (b ^ nat p) * ?B powi e"
    using B0 by (intro mult_right_mono) auto
  then show "round_sig b p emin x \<le> of_int b powi (sig_exp b p emin x + p)"
    using split [of p] assms r by (simp add: e_def)
  assume "emin < sig_exp b p emin x"
  then have "e + p - 1 = expo b x" using assms by (auto simp: e_def sig_exp_def max_def split: if_splits)
  then have "?B powi (e + (p - 1)) \<le> x" using expo_bounds [of x b] assms
    by (simp add: add_diff_eq)
  then have "of_int (b ^ nat (p - 1)) \<le> x / ?B powi e"
    using split [of "p - 1"] B0 assms by (simp add: field_simps)
  then have "b ^ nat (p - 1) \<le> rhe (x / ?B powi e)" using rhe_mono by (metis rhe_of_int)
  then have "of_int (b ^ nat (p - 1)) * ?B powi e \<le> of_int (rhe (x / ?B powi e)) * ?B powi e"
    using B0 by (intro mult_right_mono) auto
  then show "of_int b powi (sig_exp b p emin x + p - 1) \<le> round_sig b p emin x"
    using split [of "p - 1"] assms r by (simp add: e_def add_diff_eq)
qed

lemma round_sig_mono_pos:
  assumes "0 < x" "x \<le> y" "2 \<le> b" "1 \<le> p"
  shows "round_sig b p emin x \<le> round_sig b p emin y"
proof -
  let ?B = "of_int b :: rat" and ?e = "sig_exp b p emin"
  have B: "1 < ?B" using assms by simp
  have "expo b x \<le> expo b y" using assms by (intro expo_mono) auto
  then have le: "?e x \<le> ?e y" using assms by (auto simp: sig_exp_def)
  show ?thesis
  proof (cases "?e x = ?e y")
    case True
    have "rhe (x / ?B powi ?e y) \<le> rhe (y / ?B powi ?e y)"
      using assms B by (intro rhe_mono divide_right_mono) auto
    with True assms B show ?thesis
      by (simp add: round_sig_alt mult_right_mono)
  next
    case False
    with le have lt: "?e x < ?e y" by simp
    then have "emin < ?e y" by (auto simp: sig_exp_def)
    have "round_sig b p emin x \<le> ?B powi (?e x + p)" using assms by (intro round_sig_near) auto
    also have "\<dots> \<le> ?B powi (?e y + p - 1)" using lt B by (intro power_int_increasing) auto
    also have "\<dots> \<le> round_sig b p emin y"
      using assms \<open>emin < ?e y\<close> by (intro round_sig_near) auto
    finally show ?thesis .
  qed
qed

lemma round_sig_nonneg: "0 \<le> x \<Longrightarrow> 2 \<le> b \<Longrightarrow> 0 \<le> round_sig b p emin x"
proof -
  assume a: "0 \<le> x" "2 \<le> b"
  then have "rhe 0 \<le> rhe (x / of_int b powi sig_exp b p emin x)" by (intro rhe_mono) simp
  with a show ?thesis by (simp add: round_sig_alt)
qed

lemma round_sig_mono:
  assumes "x \<le> y" "2 \<le> b" "1 \<le> p"
  shows "round_sig b p emin x \<le> round_sig b p emin y"
proof -
  consider "0 < x" | "y < 0" | "x \<le> 0" "0 \<le> y" using assms by linarith
  then show ?thesis
  proof cases
    case 2
    then have "round_sig b p emin (- y) \<le> round_sig b p emin (- x)"
      using assms by (intro round_sig_mono_pos) auto
    then show ?thesis by (simp add: round_sig_uminus)
  next
    case 3
    then have "0 \<le> round_sig b p emin (- x)" "0 \<le> round_sig b p emin y"
      using assms by (auto intro: round_sig_nonneg)
    then show ?thesis by (simp add: round_sig_uminus)
  qed (use assms round_sig_mono_pos in blast)
qed

lemma round_sig_exact:
  assumes x: "is_sig b p emin x" and b: "2 \<le> b" and p: "1 \<le> p"
  shows "round_sig b p emin x = x"
proof (cases "x = 0")
  case False
  from x obtain m e where m: "\<bar>m\<bar> \<le> b ^ nat p" and e: "emin \<le> e"
    and xe: "x = of_int m * of_int b powi e" by (auto simp: is_sig_def)
  let ?B = "of_int b :: rat"
  define e' where "e' = sig_exp b p emin x"
  have B: "1 < ?B" using b by simp
  have "\<exists>n. x = of_int n * ?B powi e'"
  proof (cases "e' \<le> e")
    case True
    then have "?B powi e = of_int (b ^ nat (e - e')) * ?B powi e'"
      using b powi_split [of b "e - e'" e'] by simp
    then have "x = of_int (m * b ^ nat (e - e')) * ?B powi e'" by (simp add: xe)
    then show ?thesis by blast
  next
    case less: False
    then have "e' = expo b \<bar>x\<bar> - p + 1" using e by (auto simp: e'_def sig_exp_def max_def split: if_splits)
    then have lo: "?B powi (e' + p - 1) \<le> \<bar>x\<bar>"
      using expo_bounds [of "\<bar>x\<bar>" b] False b by simp
    have "(of_int \<bar>m\<bar> :: rat) \<le> of_int (b ^ nat p)" using m by (simp only: of_int_le_iff)
    then have "of_int \<bar>m\<bar> * ?B powi e \<le> of_int (b ^ nat p) * ?B powi e"
      using B by (intro mult_right_mono) auto
    then have hi: "\<bar>x\<bar> \<le> ?B powi (p + e)"
      using B powi_split [of b p e] b p by (simp add: xe abs_mult add.commute)
    with lo have "?B powi (e' + p - 1) \<le> ?B powi (p + e)" by linarith
    then have "e' + p - 1 \<le> p + e" using B powi_less_cancel [of ?B "p + e" "e' + p - 1"] by linarith
    with less have eq: "e' + p - 1 = p + e" by simp
    have "\<bar>x\<bar> = ?B powi (e' + p - 1)" using lo hi unfolding eq by (rule antisym [rotated])
    then have "\<bar>x\<bar> = ?B powi (e' + (p - 1))" by (simp add: add_diff_eq)
    then have "\<bar>x\<bar> = of_int (b ^ nat (p - 1)) * ?B powi e'"
      using powi_split [of b "p - 1" e'] b p by simp
    then have "x = of_int (b ^ nat (p - 1)) * ?B powi e' \<or>
      x = of_int (- (b ^ nat (p - 1))) * ?B powi e'"
      by (simp only: of_int_minus) linarith
    then show ?thesis by blast
  qed
  then obtain n where n: "x = of_int n * ?B powi e'" by blast
  with B have "x / ?B powi e' = of_int n" by simp
  then have "of_int (rhe (x / ?B powi e')) * ?B powi e' = x" by (simp only: rhe_of_int n)
  then show ?thesis using False by (simp add: round_sig_alt e'_def)
qed simp

lemma is_sig_round_sig:
  assumes "2 \<le> b" "1 \<le> p"
  shows "is_sig b p emin (round_sig b p emin x)"
proof (cases "x = 0")
  case True
  then show ?thesis using assms unfolding is_sig_def
    by (intro exI [of _ 0] exI [of _ emin]) simp
next
  case False
  let ?e = "sig_exp b p emin x" and ?B = "of_int b :: rat"
  have B: "1 < ?B" using assms by simp
  define m where "m = rhe (x / ?B powi ?e)"
  have r: "round_sig b p emin x = of_int m * ?B powi ?e"
    using False by (simp add: round_sig_alt m_def)
  have "\<bar>round_sig b p emin x\<bar> = round_sig b p emin \<bar>x\<bar>"
    using assms round_sig_nonneg [of "\<bar>x\<bar>" b p emin] by (auto simp: abs_if round_sig_uminus)
  also have "\<dots> \<le> ?B powi (?e + p)"
    using round_sig_near(1) [of "\<bar>x\<bar>" b p emin] False assms by (simp add: sig_exp_def)
  finally have "of_int \<bar>m\<bar> * ?B powi ?e \<le> of_int (b ^ nat p) * ?B powi ?e"
    using B assms powi_split [of b p ?e] by (simp add: r abs_mult)
  then have "(of_int \<bar>m\<bar> :: rat) \<le> of_int (b ^ nat p)" using B by simp
  then have "\<bar>m\<bar> \<le> b ^ nat p" using of_int_le_iff by blast
  with r show ?thesis unfolding is_sig_def by (intro exI [of _ m] exI [of _ ?e]) (simp add: sig_exp_def)
qed

section \<open>Binary64\<close>

type_synonym f64 = rat

definition fl :: "rat \<Rightarrow> f64" where
  "fl x = round_sig 2 53 (-1074) x"

definition fadd :: "f64 \<Rightarrow> f64 \<Rightarrow> f64" where "fadd x y = fl (x + y)"
definition fsub :: "f64 \<Rightarrow> f64 \<Rightarrow> f64" where "fsub x y = fl (x - y)"
definition fmul :: "f64 \<Rightarrow> f64 \<Rightarrow> f64" where "fmul x y = fl (x * y)"

text \<open>Division by zero raises; \<open>fquo\<close> is the quotient once the divisor is known to be
  nonzero.\<close>

definition fquo :: "f64 \<Rightarrow> f64 \<Rightarrow> f64" where "fquo x y = fl (x / y)"

definition fdiv :: "f64 \<Rightarrow> f64 \<Rightarrow> f64 result" where
  "fdiv x y = (if y = 0 then Inl ZeroDivisionError else Inr (fquo x y))"

definition fsum :: "f64 list \<Rightarrow> f64" where
  "fsum xs = foldl fadd 0 xs"

text \<open>\<open>is_f64 x\<close>: the number is a double. \<open>is_share x\<close>: a whole number that doubles count
  exactly.\<close>

definition is_f64 :: "rat \<Rightarrow> bool" where
  "is_f64 x = is_sig 2 53 (-1074) x"

definition is_share :: "rat \<Rightarrow> bool" where
  "is_share x \<longleftrightarrow> (\<exists>n. x = of_int n \<and> \<bar>n\<bar> \<le> 2 ^ 53)"

lemma fl_0 [simp]: "fl 0 = 0"
  by (simp add: fl_def)

lemma fl_mono: "x \<le> y \<Longrightarrow> fl x \<le> fl y"
  unfolding fl_def by (intro round_sig_mono) auto

lemma fl_uminus: "fl (- x) = - fl x"
  by (simp add: fl_def round_sig_uminus)

lemma fl_nonneg: "0 \<le> x \<Longrightarrow> 0 \<le> fl x"
  using fl_mono [of 0 x] by simp

lemma fl_nonpos: "x \<le> 0 \<Longrightarrow> fl x \<le> 0"
  using fl_mono [of x 0] by simp

lemma is_f64_fl [simp, intro]: "is_f64 (fl x)"
  unfolding is_f64_def fl_def by (intro is_sig_round_sig) auto

lemma fl_exact: "is_f64 x \<Longrightarrow> fl x = x"
  unfolding is_f64_def fl_def by (intro round_sig_exact) auto

lemma fl_idem [simp]: "fl (fl x) = fl x"
  by (intro fl_exact) simp

lemma fl_le_iff: "is_f64 y \<Longrightarrow> x \<le> y \<Longrightarrow> fl x \<le> y"
  using fl_mono [of x y] fl_exact by simp

lemma fl_ge_iff: "is_f64 y \<Longrightarrow> y \<le> x \<Longrightarrow> y \<le> fl x"
  using fl_mono [of y x] fl_exact by simp

lemma is_f64_of_int: "\<bar>n\<bar> \<le> 2 ^ 53 \<Longrightarrow> is_f64 (of_int n)"
  unfolding is_f64_def is_sig_def by (intro exI [of _ n] exI [of _ 0]) simp

lemma is_f64_dyadic:
  assumes "\<bar>n\<bar> \<le> 2 ^ 53" "k \<le> 1074"
  shows "is_f64 (of_int n / 2 ^ k)"
  unfolding is_f64_def is_sig_def using assms
  by (intro exI [of _ n] exI [of _ "- int k"]) (simp add: power_int_minus divide_inverse)

lemma is_share_f64: "is_share x \<Longrightarrow> is_f64 x"
  by (auto simp: is_share_def intro: is_f64_of_int)

lemma is_share_of_int [intro]: "\<bar>n\<bar> \<le> 2 ^ 53 \<Longrightarrow> is_share (of_int n)"
  by (auto simp: is_share_def)

lemma is_share_0 [simp, intro]: "is_share 0"
  using is_share_of_int [of 0] by simp

lemma is_f64_0 [simp, intro]: "is_f64 0"
  by (intro is_share_f64) simp

lemma fl_numeral [simp]: "(numeral n :: int) \<le> 2 ^ 53 \<Longrightarrow> fl (numeral n) = numeral n"
  using fl_exact [OF is_f64_of_int [of "numeral n"]] by simp

lemma fl_neg_numeral [simp]:
  "(numeral n :: int) \<le> 2 ^ 53 \<Longrightarrow> fl (- numeral n) = - numeral n"
  by (simp add: fl_uminus)

lemma fl_1 [simp]: "fl 1 = 1"
  using fl_exact [OF is_f64_of_int [of 1]] by simp

text \<open>Sums of doubles move in the direction of the added operand.\<close>

lemma fadd_ge_left: "is_f64 x \<Longrightarrow> 0 \<le> y \<Longrightarrow> x \<le> fadd x y"
  unfolding fadd_def by (intro fl_ge_iff) auto

lemma fsub_le_left: "is_f64 x \<Longrightarrow> 0 \<le> y \<Longrightarrow> fsub x y \<le> x"
  unfolding fsub_def by (intro fl_le_iff) auto

lemma fadd_nonneg: "0 \<le> x \<Longrightarrow> 0 \<le> y \<Longrightarrow> 0 \<le> fadd x y"
  by (simp add: fadd_def fl_nonneg)

lemma fmul_nonneg: "0 \<le> x \<Longrightarrow> 0 \<le> y \<Longrightarrow> 0 \<le> fmul x y"
  by (simp add: fmul_def fl_nonneg)

lemma fsub_nonneg: "y \<le> x \<Longrightarrow> 0 \<le> fsub x y"
  by (simp add: fsub_def fl_nonneg)

lemma fadd_0 [simp]: "is_f64 x \<Longrightarrow> fadd x 0 = x" "is_f64 x \<Longrightarrow> fadd 0 x = x"
  by (simp_all add: fadd_def fl_exact)

text \<open>Whole shares are counted without error.\<close>

lemma fadd_share: "is_share (x + y) \<Longrightarrow> fadd x y = x + y"
  by (simp add: fadd_def fl_exact is_share_f64)

lemma fsub_share: "is_share (x - y) \<Longrightarrow> fsub x y = x - y"
  by (simp add: fsub_def fl_exact is_share_f64)

lemma is_share_diff:
  assumes "is_share x" "is_share y" "0 \<le> y" "y \<le> x"
  shows "is_share (x - y)"
proof -
  from assms obtain m n where mn: "x = of_int m" "\<bar>m\<bar> \<le> 2 ^ 53" "y = of_int n" "\<bar>n\<bar> \<le> 2 ^ 53"
    by (auto simp: is_share_def)
  with assms have "0 \<le> n" "n \<le> m" by simp_all
  with mn have "x - y = of_int (m - n)" "\<bar>m - n\<bar> \<le> 2 ^ 53" by simp_all
  then show ?thesis unfolding is_share_def by blast
qed

section \<open>Decimal\<close>

type_synonym dec = rat

definition dr :: "rat \<Rightarrow> dec" where
  "dr x = round_sig 10 28 (-1000026) x"

definition dadd :: "dec \<Rightarrow> dec \<Rightarrow> dec" where "dadd x y = dr (x + y)"
definition dsub :: "dec \<Rightarrow> dec \<Rightarrow> dec" where "dsub x y = dr (x - y)"
definition dmul :: "dec \<Rightarrow> dec \<Rightarrow> dec" where "dmul x y = dr (x * y)"
definition dquo :: "dec \<Rightarrow> dec \<Rightarrow> dec" where "dquo x y = dr (x / y)"

definition is_dec :: "rat \<Rightarrow> bool" where
  "is_dec x = is_sig 10 28 (-1000026) x"

lemma dr_0 [simp]: "dr 0 = 0"
  by (simp add: dr_def)

lemma dr_mono: "x \<le> y \<Longrightarrow> dr x \<le> dr y"
  unfolding dr_def by (intro round_sig_mono) auto

lemma dr_exact: "is_dec x \<Longrightarrow> dr x = x"
  unfolding is_dec_def dr_def by (intro round_sig_exact) auto

lemma dr_nonneg: "0 \<le> x \<Longrightarrow> 0 \<le> dr x"
  using dr_mono [of 0 x] by simp

lemma is_dec_dr [simp, intro]: "is_dec (dr x)"
  unfolding is_dec_def dr_def by (intro is_sig_round_sig) auto

text \<open>\<open>quantize(Decimal("0." + "0" * (n - 1) + "1"), ROUND_HALF_EVEN)\<close>.\<close>

definition dquantize :: "nat \<Rightarrow> dec \<Rightarrow> dec" where
  "dquantize n x = of_int (rhe (x * 10 ^ n)) / 10 ^ n"

lemma dquantize_nonneg: "0 \<le> x \<Longrightarrow> 0 \<le> dquantize n x"
  using rhe_mono [of 0 "x * 10 ^ n"] by (simp add: dquantize_def)

lemma dquantize_mono: "x \<le> y \<Longrightarrow> dquantize n x \<le> dquantize n y"
  unfolding dquantize_def by (intro divide_right_mono) (auto intro!: rhe_mono mult_right_mono)

text \<open>
  \<open>Decimal(str(x))\<close> of a float: \<open>str\<close> prints the shortest decimal that reads back as the
  same double, nearest to it. \<open>short_dec\<close> tries one to seventeen digits; both neighbours of
  \<open>x\<close> at a length are candidates, nearer first.
\<close>

definition dec_candidates :: "nat \<Rightarrow> rat \<Rightarrow> rat list" where
  "dec_candidates n x =
     (let s = 10 powi (expo 10 \<bar>x\<bar> - int n + 1); r = rhe (x / s); t = x / s;
          other = (if t < of_int r then r - 1 else r + 1)
      in [of_int r * s, of_int other * s])"

fun short_dec_from :: "nat \<Rightarrow> nat \<Rightarrow> rat \<Rightarrow> dec" where
  "short_dec_from n 0 x = x"
| "short_dec_from n (Suc k) x =
     (case filter (\<lambda>d. fl d = x) (dec_candidates n x) of
        d # _ \<Rightarrow> d
      | [] \<Rightarrow> short_dec_from (Suc n) k x)"

definition short_dec :: "f64 \<Rightarrow> dec" where
  "short_dec x = (if x = 0 then 0 else short_dec_from 1 17 x)"

text \<open>Reading the printed number back gives the number.\<close>

lemma fl_short_dec_from: "is_f64 x \<Longrightarrow> fl (short_dec_from n k x) = x"
proof (induction n k x rule: short_dec_from.induct)
  case (2 n k x)
  then show ?case
    by (cases "filter (\<lambda>d. fl d = x) (dec_candidates n x)") (auto dest: filter_eq_ConsD)
qed (simp add: fl_exact)

lemma fl_short_dec: "is_f64 x \<Longrightarrow> fl (short_dec x) = x"
  by (simp add: short_dec_def fl_short_dec_from)

lemma short_dec_sign: "is_f64 x \<Longrightarrow> 0 \<le> x \<Longrightarrow> 0 \<le> short_dec x"
  using fl_short_dec [of x] fl_nonpos [of "short_dec x"]
  by (cases "x = 0") (force simp: short_dec_def)+

section \<open>Rounding functions of the standard library\<close>

definition py_floor :: "f64 \<Rightarrow> int" where "py_floor x = \<lfloor>x\<rfloor>"

definition py_round :: "f64 \<Rightarrow> int" where "py_round x = rhe x"

definition float_of_int :: "int \<Rightarrow> f64" where "float_of_int n = fl (of_int n)"

text \<open>\<open>math.isclose\<close> on finite arguments.\<close>

definition isclose :: "f64 \<Rightarrow> f64 \<Rightarrow> f64 \<Rightarrow> f64 \<Rightarrow> bool" where
  "isclose rel_tol abs_tol a b \<longleftrightarrow>
     a = b \<or> (let diff = fl \<bar>b - a\<bar>
              in diff \<le> \<bar>fmul rel_tol b\<bar> \<or> diff \<le> \<bar>fmul rel_tol a\<bar> \<or> diff \<le> abs_tol)"

text \<open>The literals \<open>1e-9\<close> and \<open>1e-12\<close> are the doubles nearest to them.\<close>

definition lit_1e9 :: f64 where "lit_1e9 = fl (1 / 10 ^ 9)"
definition lit_1e12 :: f64 where "lit_1e12 = fl (1 / 10 ^ 12)"

lemma isclose_refl [simp]: "isclose r a x x"
  by (simp add: isclose_def)

lemma lit_1e9_pos: "0 < lit_1e9"
proof -
  have "1 / 2 ^ 30 \<le> fl (1 / 10 ^ 9)"
    using is_f64_dyadic [of 1 30] by (intro fl_ge_iff) auto
  moreover have "(0 :: rat) < 1 / 2 ^ 30" by simp
  ultimately show ?thesis unfolding lit_1e9_def by linarith
qed

lemma lit_1e12_pos: "0 < lit_1e12"
proof -
  have "1 / 2 ^ 40 \<le> fl (1 / 10 ^ 12)"
    using is_f64_dyadic [of 1 40] by (intro fl_ge_iff) auto
  moreover have "(0 :: rat) < 1 / 2 ^ 40" by simp
  ultimately show ?thesis unfolding lit_1e12_def by linarith
qed

section \<open>Whole numbers\<close>

lemma big_f64_Ints:
  assumes "is_f64 x" "2 ^ 53 \<le> \<bar>x\<bar>"
  shows "x \<in> \<int>"
proof -
  from assms(1) obtain m e where m: "\<bar>m\<bar> \<le> 2 ^ 53" and x: "x = of_int m * 2 powi e"
    by (auto simp: is_f64_def is_sig_def)
  have m': "\<bar>of_int m :: rat\<bar> \<le> 2 ^ 53"
    using m by (metis of_int_abs of_int_le_iff of_int_numeral of_int_power)
  have "0 \<le> e"
  proof (rule ccontr)
    assume "\<not> 0 \<le> e"
    then have "(2 :: rat) powi e \<le> 2 powi (-1)" by (intro power_int_increasing) auto
    then have "\<bar>x\<bar> \<le> 2 ^ 53 * (1 / 2)"
      unfolding x abs_mult using m' by (intro mult_mono) (auto simp: power_int_minus)
    with assms(2) show False by simp
  qed
  then have "x = of_int (m * 2 ^ nat e)" by (simp add: x power_int_def)
  then show ?thesis by simp
qed

lemma fl_Ints: "x \<in> \<int> \<Longrightarrow> fl x \<in> \<int>"
proof -
  assume "x \<in> \<int>"
  then obtain n where x: "x = of_int n" by (auto elim: Ints_cases)
  show ?thesis
  proof (cases "\<bar>n\<bar> \<le> 2 ^ 53")
    case True
    with fl_exact [OF is_f64_of_int] show ?thesis by (simp add: x)
  next
    case False
    have "(of_int (2 ^ 53) :: rat) \<le> of_int \<bar>n\<bar>" using False by (simp only: of_int_le_iff)
    then have n: "(2 ^ 53 :: rat) \<le> \<bar>x\<bar>" by (simp add: x)
    have "is_f64 (2 ^ 53)" using is_f64_of_int [of "2 ^ 53"] by simp
    then have "2 ^ 53 \<le> fl \<bar>x\<bar>" using n by (rule fl_ge_iff)
    moreover have "\<bar>fl x\<bar> = fl \<bar>x\<bar>"
      using fl_nonneg [of "\<bar>x\<bar>"] by (auto simp: abs_if fl_uminus)
    ultimately show ?thesis by (intro big_f64_Ints) auto
  qed
qed

lemma lit_1e9_small: "lit_1e9 \<le> 1 / 2"
proof -
  have "fl (1 / 10 ^ 9) \<le> 1 / 2 ^ 1" using is_f64_dyadic [of 1 1] by (intro fl_le_iff) auto
  then show ?thesis by (simp add: lit_1e9_def)
qed

text \<open>\<open>math.floor(x + 1e-9)\<close> gives back a whole number and never goes beyond one.\<close>

lemma floor_bump:
  assumes "0 \<le> n" "n < 2 ^ 52"
  shows "py_floor (fadd (of_int n) lit_1e9) = n"
proof -
  have f: "is_f64 (of_int n)" using assms by (intro is_f64_of_int) auto
  have "(of_int n :: rat) + 1 / 2 = of_int (2 * n + 1) / 2 ^ 1" by (simp add: field_simps)
  moreover have "is_f64 (of_int (2 * n + 1) / 2 ^ 1)" using assms by (intro is_f64_dyadic) auto
  ultimately have "is_f64 ((of_int n :: rat) + 1 / 2)" by (simp only:)
  then have "fadd (of_int n) lit_1e9 \<le> of_int n + 1 / 2"
    using lit_1e9_small unfolding fadd_def by (intro fl_le_iff) auto
  moreover have "of_int n \<le> fadd (of_int n) lit_1e9"
    using f lit_1e9_pos by (intro fadd_ge_left) auto
  ultimately show ?thesis unfolding py_floor_def by linarith
qed

section \<open>Evaluating the arithmetic\<close>

text \<open>
  Code equations that compute on numerators and denominators and return a literal, so that
  the kernel's evaluation of a concrete run does not carry unreduced expressions along.
\<close>

definition ratio :: "int \<Rightarrow> int \<Rightarrow> rat" where
  "ratio n d = of_int n / of_int d"

lemma ratio_code [code]:
  "ratio n d = (let g = gcd n d; n' = n div g; d' = d div g
                in if d' = 1 then of_int n' else of_int n' / of_int d')"
proof (cases "n = 0 \<and> d = 0")
  case False
  define g n' d' where g: "g = gcd n d" and n': "n' = n div g" and d': "d' = d div g"
  have "g \<noteq> 0" using False by (simp add: g)
  moreover have "n = n' * g" "d = d' * g" by (simp_all add: n' d' g)
  ultimately have "(of_int n :: rat) / of_int d = of_int n' / of_int d'" by simp
  then show ?thesis by (auto simp: ratio_def Let_def g n' d')
qed (simp add: ratio_def)

definition idiv_he :: "int \<Rightarrow> int \<Rightarrow> int" where
  "idiv_he m q = (let d = m div q; r = 2 * (m mod q)
                  in if r < q then d else if q < r then d + 1 else if even d then d else d + 1)"

lemma idiv_he: "0 < q \<Longrightarrow> rhe (of_int m / of_int q) = idiv_he m q"
proof -
  assume q: "0 < q"
  have "(of_int m :: rat) = of_int (m div q) * of_int q + of_int (m mod q)"
    by (simp flip: of_int_mult of_int_add)
  then have eq: "(of_int m :: rat) / of_int q - of_int (m div q) = of_int (m mod q) / of_int q"
    using q by (simp add: field_simps)
  have "of_int (m mod q) / of_int q < (1 / 2 :: rat) \<longleftrightarrow> (of_int (2 * (m mod q)) :: rat) < of_int q"
    "(1 / 2 :: rat) < of_int (m mod q) / of_int q \<longleftrightarrow> (of_int q :: rat) < of_int (2 * (m mod q))"
    using q by (simp_all add: field_simps)
  then have "of_int (m mod q) / of_int q < (1 / 2 :: rat) \<longleftrightarrow> 2 * (m mod q) < q"
    "(1 / 2 :: rat) < of_int (m mod q) / of_int q \<longleftrightarrow> q < 2 * (m mod q)"
    by (simp_all only: of_int_less_iff)
  then show ?thesis
    unfolding rhe_def idiv_he_def Let_def floor_divide_of_int_eq eq by (simp only:)
qed

text \<open>\<open>x * b powi k\<close> for an integer \<open>k\<close> of either sign.\<close>

definition shift_num :: "int \<Rightarrow> int \<Rightarrow> int \<Rightarrow> int" where
  "shift_num b k m = (if 0 \<le> k then m * b ^ nat k else m)"

lemma powi_shift:
  assumes "0 < (b :: int)"
  shows "of_int m * of_int b powi k / of_int q = (of_int (shift_num b k m) / of_int (shift_num b (- k) q) :: rat)"
  using assms by (auto simp: shift_num_def power_int_def field_simps)

lemma idiv_he_shift:
  "0 < b \<Longrightarrow> 0 < q \<Longrightarrow>
   rhe (of_int m * of_int b powi k / of_int q) = idiv_he (shift_num b k m) (shift_num b (- k) q)"
proof -
  assume "0 < b" "0 < q"
  then have "0 < shift_num b (- k) q" by (simp add: shift_num_def)
  with powi_shift [OF \<open>0 < b\<close>, of m k q] idiv_he show ?thesis by simp
qed

text \<open>The logarithm by repeated squaring of the base.\<close>

lemma ilog_unique:
  assumes "2 \<le> b" "0 \<le> k" "b ^ nat k \<le> n" "n < b ^ (nat k + 1)"
  shows "ilog b n = k"
proof -
  have "1 \<le> b ^ nat k" using assms(1) by simp
  with assms(3) have n: "1 \<le> n" by linarith
  note i = ilog_bounds [OF n assms(1)]
  have "b ^ nat k < b ^ (nat (ilog b n) + 1)" "b ^ nat (ilog b n) < b ^ (nat k + 1)"
    using i assms by linarith+
  with assms(1) have "nat k < nat (ilog b n) + 1" "nat (ilog b n) < nat k + 1"
    by (meson power_less_imp_less_exp int_one_le_iff_zero_less less_le_trans one_less_numeral_iff semiring_norm(76))+
  with i assms(2) show ?thesis by linarith
qed

lemma ilog_code [code]:
  "ilog b n =
     (if n < b \<or> b < 2 then 0
      else let e = 2 * ilog (b * b) n in if b ^ nat (e + 1) \<le> n then e + 1 else e)"
proof (cases "n < b \<or> b < 2")
  case False
  define k where "k = ilog (b * b) n"
  have b: "2 \<le> b" "2 \<le> b * b" "1 \<le> n" using False by (auto intro: order_trans [OF _ mult_mono [of 2 b 1 b]])
  from ilog_bounds [OF b(3,2)] have k: "0 \<le> k" "(b * b) ^ nat k \<le> n" "n < (b * b) ^ (nat k + 1)"
    by (auto simp: k_def)
  have sq: "(b * b) ^ m = b ^ (2 * m)" for m by (simp add: power_mult power2_eq_square)
  have "ilog b n = (if b ^ nat (2 * k + 1) \<le> n then 2 * k + 1 else 2 * k)"
  proof (cases "b ^ nat (2 * k + 1) \<le> n")
    case True
    with k b(1) have "ilog b n = 2 * k + 1"
      by (intro ilog_unique) (auto simp: sq nat_add_distrib nat_mult_distrib numeral_2_eq_2)
    with True show ?thesis by simp
  next
    case False
    with k b(1) have "ilog b n = 2 * k"
      by (intro ilog_unique) (auto simp: sq nat_add_distrib nat_mult_distrib)
    with False show ?thesis by simp
  qed
  with False show ?thesis by (simp add: k_def Let_def)
qed (simp add: ilog.simps [of b n])

definition expo_ratio :: "int \<Rightarrow> int \<Rightarrow> int \<Rightarrow> int" where
  "expo_ratio b p q =
     (let k = ilog b p - ilog b q in if shift_num b k q \<le> shift_num b (- k) p then k else k - 1)"

lemma expo_ratio:
  assumes "2 \<le> b" and pq: "quotient_of r = (p, q)"
  shows "expo b r = expo_ratio b p q"
proof -
  from pq have q: "0 < q" and r: "r = of_int p / of_int q"
    by (auto dest: quotient_of_denom_pos quotient_of_div)
  have "of_int b powi k \<le> r \<longleftrightarrow> shift_num b k q \<le> shift_num b (- k) p" for k
    using assms q by (auto simp: r shift_num_def power_int_def field_simps simp flip: of_int_mult of_int_power)
  then show ?thesis by (simp add: expo_def expo_ratio_def pq Let_def)
qed

lemma quotient_of_abs: "quotient_of x = (m, q) \<Longrightarrow> quotient_of \<bar>x\<bar> = (\<bar>m\<bar>, q)"
  by (simp add: rat_abs_code)

definition round_ratio :: "int \<Rightarrow> int \<Rightarrow> int \<Rightarrow> int \<Rightarrow> int \<Rightarrow> rat" where
  "round_ratio b p emin m q =
     (if m = 0 then 0
      else let e = max (expo_ratio b \<bar>m\<bar> q - p + 1) emin;
               n = idiv_he (shift_num b (- e) m) (shift_num b e q)
           in ratio (shift_num b e n) (shift_num b (- e) 1))"

lemma round_ratio:
  assumes b: "2 \<le> b" and mq: "quotient_of x = (m, q)"
  shows "round_sig b p emin x = round_ratio b p emin m q"
proof -
  from mq have q: "0 < q" and x: "x = of_int m / of_int q"
    by (auto dest: quotient_of_denom_pos quotient_of_div)
  have "x / of_int b powi e = of_int m * of_int b powi (- e) / of_int q" for e
    by (simp add: x power_int_minus divide_inverse algebra_simps)
  then have "rhe (x / of_int b powi e) = idiv_he (shift_num b (- e) m) (shift_num b e q)" for e
    using idiv_he_shift [of b q m "- e"] b q by simp
  moreover have "of_int n * of_int b powi e = ratio (shift_num b e n) (shift_num b (- e) 1)" for n e
    using powi_shift [of b n e 1] b by (simp add: ratio_def)
  moreover have "x = 0 \<longleftrightarrow> m = 0" using q by (simp add: x)
  ultimately show ?thesis
    by (simp add: round_sig_def round_ratio_def Let_def expo_ratio [OF b quotient_of_abs [OF mq]])
qed

lemma dr_code [code]:
  "dr x = (case quotient_of x of (m, q) \<Rightarrow> round_ratio 10 28 (-1000026) m q)"
  unfolding dr_def by (cases "quotient_of x") (simp add: round_ratio)

text \<open>A whole number of at most 53 bits over a small power of two is a double already.\<close>

definition short_dyadic :: "int \<Rightarrow> int \<Rightarrow> bool" where
  "short_dyadic m q =
     (if \<bar>m\<bar> \<le> 2 ^ 53 then let k = ilog 2 q in if k \<le> 64 then q = 2 ^ nat k else False else False)"

definition fl_ratio :: "int \<Rightarrow> int \<Rightarrow> f64" where
  "fl_ratio m q = (if short_dyadic m q then ratio m q else round_ratio 2 53 (-1074) m q)"

lemma fl_code [code]: "fl x = (case quotient_of x of (m, q) \<Rightarrow> fl_ratio m q)"
proof -
  obtain m q where mq: "quotient_of x = (m, q)" by (cases "quotient_of x")
  then have q: "0 < q" and x: "x = of_int m / of_int q"
    by (auto dest: quotient_of_denom_pos quotient_of_div)
  have "fl x = ratio m q" if "short_dyadic m q"
  proof -
    from that have m: "\<bar>m\<bar> \<le> 2 ^ 53" and d: "ilog 2 q \<le> 64" "q = 2 ^ nat (ilog 2 q)"
      by (auto simp: short_dyadic_def Let_def split: if_splits)
    have "x = of_int m / 2 ^ nat (ilog 2 q)" by (subst x, subst d(2)) simp
    with m d(1) have "is_f64 x" by (simp add: is_f64_dyadic)
    then show ?thesis by (simp add: fl_exact x ratio_def)
  qed
  with round_ratio [OF _ mq, of 2] show ?thesis by (simp add: mq fl_def fl_ratio_def)
qed

definition decimals_near :: "nat \<Rightarrow> int \<Rightarrow> int \<Rightarrow> rat list" where
  "decimals_near n m q =
     (let e = expo_ratio 10 \<bar>m\<bar> q - int n + 1;
          t = shift_num 10 (- e) m; d = shift_num 10 e q; r = idiv_he t d;
          other = (if t < r * d then r - 1 else r + 1)
      in [ratio (shift_num 10 e r) (shift_num 10 (- e) 1), ratio (shift_num 10 e other) (shift_num 10 (- e) 1)])"

lemma dec_candidates_code [code]:
  "dec_candidates n x = (case quotient_of x of (m, q) \<Rightarrow> decimals_near n m q)"
proof -
  obtain m q where mq: "quotient_of x = (m, q)" by (cases "quotient_of x")
  then have q: "0 < q" and x: "x = of_int m / of_int q"
    by (auto dest: quotient_of_denom_pos quotient_of_div)
  have t: "x / 10 powi e = of_int (shift_num 10 (- e) m) / of_int (shift_num 10 e q)" for e
    using powi_shift [of 10 m "- e" q] by (simp add: x power_int_minus divide_inverse algebra_simps)
  have pos: "0 < shift_num 10 e q" for e using q by (simp add: shift_num_def)
  have s: "of_int k * 10 powi e = ratio (shift_num 10 e k) (shift_num 10 (- e) 1)" for k e
    using powi_shift [of 10 k e 1] by (simp add: ratio_def)
  have lt: "of_int a / of_int d < (of_int r :: rat) \<longleftrightarrow> a < r * d" if "0 < d" for a d r :: int
    using that by (simp add: divide_less_eq flip: of_int_mult)
  show ?thesis
    by (simp add: dec_candidates_def decimals_near_def mq Let_def t idiv_he [OF pos] lt [OF pos] s
        expo_ratio [OF _ quotient_of_abs [OF mq]])
qed

definition quantized :: "nat \<Rightarrow> int \<Rightarrow> int \<Rightarrow> dec" where
  "quantized n m q = ratio (idiv_he (m * 10 ^ n) q) (10 ^ n)"

lemma dquantize_code [code]:
  "dquantize n x = (case quotient_of x of (m, q) \<Rightarrow> quantized n m q)"
proof -
  obtain m q where mq: "quotient_of x = (m, q)" by (cases "quotient_of x")
  then have q: "0 < q" and x: "x = of_int m / of_int q"
    by (auto dest: quotient_of_denom_pos quotient_of_div)
  have "x * 10 ^ n = of_int (m * 10 ^ n) / of_int q" by (simp add: x)
  then show ?thesis by (simp only: dquantize_def mq prod.case idiv_he [OF q] quantized_def ratio_def) simp
qed

lemma lit_code [code]:
  "lit_1e9 = ratio 4835703278458517 4835703278458516698824704"
  "lit_1e12 = ratio 4951760157141521 4951760157141521099596496896"
  by code_simp+

section \<open>Rounding error\<close>

lemma fl_error:
  assumes "0 \<le> x"
  shows "\<bar>fl x - x\<bar> \<le> x / 2 ^ 53 + 1 / 2 ^ 64"
proof (cases "x = 0")
  case False
  with assms have pos: "0 < x" by simp
  let ?e = "sig_exp 2 53 (- 1074) x" and ?s = "(2 :: rat) powi sig_exp 2 53 (- 1074) x"
  have s: "0 < ?s" by simp
  have "fl x - x = (of_int (rhe (x / ?s)) - x / ?s) * ?s"
    using False s unfolding fl_def round_sig_alt by (simp add: algebra_simps)
  then have err: "\<bar>fl x - x\<bar> \<le> ?s / 2"
    using mult_right_mono [OF rhe_error [of "x / ?s"], of ?s] s by (simp add: abs_mult)
  have nn: "0 \<le> x / 2 ^ 53" "(0 :: rat) \<le> 1 / 2 ^ 64" using pos by simp_all
  show ?thesis
  proof (cases "?e = expo 2 x - 52")
    case True
    then have "?s = 2 powi expo 2 x / 2 ^ 52" by (simp add: power_int_diff)
    moreover have "2 powi expo 2 x \<le> x" using expo_bounds [OF pos, of 2] by simp
    ultimately have "?s / 2 \<le> x / 2 ^ 53" by simp
    then show ?thesis using err nn by linarith
  next
    case False
    then have "?e = - 1074" using pos by (auto simp: sig_exp_def max_def split: if_splits)
    moreover have "(2 :: rat) powi (- 1074) \<le> 2 powi (- 64)" by (rule power_int_increasing) simp_all
    ultimately have "?s \<le> 2 powi (- 64)" by (simp only:)
    then have "?s / 2 \<le> 1 / 2 ^ 64" by (simp add: power_int_def power_divide)
    then show ?thesis using err nn by linarith
  qed
qed simp

lemma fl_err: "0 \<le> x \<Longrightarrow> \<bar>fl x - x\<bar> \<le> x / 1000000000000000 + 1 / 1000000000000000000"
proof -
  assume x: "0 \<le> x"
  have "x / 2 ^ 53 \<le> x / 1000000000000000" "(1 :: rat) / 2 ^ 64 \<le> 1 / 1000000000000000000"
    using x by (auto simp: divide_left_mono)
  with fl_error [OF x] show ?thesis by linarith
qed

text \<open>A running sum of up to a thousand fractions is exact to a billionth.\<close>

lemma fsum_near:
  assumes "\<forall>x \<in> set xs. 0 \<le> x \<and> x \<le> 1" "length xs \<le> 1000"
  shows "\<bar>fsum xs - sum_list xs\<bar> \<le> of_nat (length xs) * 2 / 1000000000000 \<and> 0 \<le> fsum xs \<and> sum_list xs \<le> of_nat (length xs)"
  using assms
proof (induction xs rule: rev_induct)
  case (snoc x xs)
  let ?y = "fsum xs + x"
  have IH: "\<bar>fsum xs - sum_list xs\<bar> \<le> of_nat (length xs) * 2 / 1000000000000" "0 \<le> fsum xs"
    "sum_list xs \<le> of_nat (length xs)" and x: "0 \<le> x" "x \<le> 1"
    using snoc by auto
  have f: "fsum (xs @ [x]) = fl ?y" by (simp add: fsum_def fadd_def)
  have n: "of_nat (length xs) \<le> (1000 :: rat)" using snoc.prems(2) by simp
  have "of_nat (length xs) * 2 / 1000000000000 \<le> (1 :: rat)" using n by simp
  then have "?y \<le> 1002" using IH x n by linarith
  moreover have "\<bar>fl ?y - ?y\<bar> \<le> ?y / 1000000000000000 + 1 / 1000000000000000000" using IH(2) x(1) by (intro fl_err) simp
  moreover from \<open>?y \<le> 1002\<close> have "?y / 1000000000000000 \<le> 1002 / 1000000000000000"
    by (rule divide_right_mono) simp
  ultimately have "\<bar>fl ?y - ?y\<bar> \<le> 2 / 1000000000000" by linarith
  moreover have "\<bar>fl ?y - (sum_list xs + x)\<bar> \<le> \<bar>fl ?y - ?y\<bar> + \<bar>fsum xs - sum_list xs\<bar>" by linarith
  ultimately have "\<bar>fl ?y - (sum_list xs + x)\<bar> \<le> of_nat (length xs) * 2 / 1000000000000 + 2 / 1000000000000"
    using IH(1) by linarith
  then have "\<bar>fsum (xs @ [x]) - sum_list (xs @ [x])\<bar> \<le> of_nat (length (xs @ [x])) * 2 / 1000000000000"
    by (simp add: f field_simps)
  moreover have "0 \<le> fl ?y" using IH(2) x(1) by (intro fl_nonneg) simp
  ultimately show ?case using IH(3) x by (simp add: f)
qed (simp add: fsum_def)

lemma lit_1e9_bounds: "lit_1e9 \<le> 11 / 10000000000"
  by (simp add: lit_code(1) ratio_def)

text \<open>A running sum of whole shares is exact.\<close>

lemma fsum_append_one: "fsum (xs @ [x]) = fadd (fsum xs) x"
  by (simp add: fsum_def)

lemma fsum_shares:
  assumes "\<forall>x \<in> set xs. x \<in> \<int> \<and> 0 \<le> x" "sum_list xs \<le> 2 ^ 53"
  shows "fsum xs = sum_list xs \<and> sum_list xs \<in> \<int> \<and> 0 \<le> sum_list xs"
  using assms
proof (induction xs rule: rev_induct)
  case (snoc x xs)
  then have x: "x \<in> \<int>" "0 \<le> x" and "sum_list xs \<le> 2 ^ 53" by auto
  with snoc have IH: "fsum xs = sum_list xs" "sum_list xs \<in> \<int>" "0 \<le> sum_list xs" by auto
  have "is_share (sum_list xs + x)"
  proof -
    have "sum_list xs + x \<in> \<int>" using x IH by simp
    then obtain n where n: "sum_list xs + x = of_int n" by (elim Ints_cases)
    with snoc.prems(2) x IH have "(of_int n :: rat) \<le> of_int (2 ^ 53)" "(0 :: rat) \<le> of_int n" by auto
    then have "n \<le> 2 ^ 53" "0 \<le> n" by (simp_all only: of_int_le_iff of_int_0_le_iff)
    with n show ?thesis by (auto simp: is_share_def)
  qed
  then show ?case using x IH by (simp add: fsum_append_one fadd_share)
qed (simp add: fsum_def)

section \<open>Clock readings\<close>

text \<open>
  \<open>datetime.timestamp()\<close> of an aware datetime: its microseconds divided by a million, as a
  double. Until the year 2242 its whole part is the exact second.
\<close>

definition timestamp :: "int \<Rightarrow> f64" where
  "timestamp t = fl (of_int t / 1000000)"

definition clock_range :: "int \<Rightarrow> bool" where
  "clock_range t \<longleftrightarrow> 0 \<le> t \<and> t < 8589934592000000"

lemma timestamp_mono: "s \<le> t \<Longrightarrow> timestamp s \<le> timestamp t"
  by (simp add: timestamp_def fl_mono divide_right_mono)

lemma is_f64_timestamp [simp]: "is_f64 (timestamp t)"
  by (simp add: timestamp_def)

lemma floor_timestamp:
  assumes "clock_range t"
  shows "\<lfloor>timestamp t\<rfloor> = t div 1000000"
proof -
  let ?x = "of_int t / 1000000 :: rat" and ?s = "t div 1000000"
  have t: "0 \<le> t" "t < 8589934592000000" using assms by (auto simp: clock_range_def)
  have "?s * 1000000 \<le> t" "t \<le> ?s * 1000000 + 999999" by linarith+
  then have "of_int (?s * 1000000) \<le> (of_int t :: rat)" "(of_int t :: rat) \<le> of_int (?s * 1000000 + 999999)"
    by (simp_all only: of_int_le_iff)
  then have x: "of_int ?s \<le> ?x" "?x \<le> of_int ?s + 999999 / 1000000" by (simp_all add: field_simps)
  have "is_f64 (of_int ?s)" using t by (intro is_f64_of_int) auto
  with x have lo: "of_int ?s \<le> timestamp t" by (simp add: timestamp_def fl_ge_iff)
  have nn: "0 \<le> ?x" using t by simp
  have "(of_int t :: rat) < 8589934592000000" using t by (metis of_int_less_iff of_int_numeral)
  then have "?x / 9007199254740992 \<le> 8589934592 / 9007199254740992" by (simp add: field_simps)
  moreover have "\<bar>timestamp t - ?x\<bar> \<le> ?x / 9007199254740992 + 1 / 18446744073709551616"
    using fl_error [OF nn] by (simp add: timestamp_def)
  ultimately have "\<bar>timestamp t - ?x\<bar> \<le> 8589934592 / 9007199254740992 + 1 / 18446744073709551616"
    by linarith
  then have "timestamp t < ?x + 1 / 1000000" by linarith
  with x have "timestamp t < of_int ?s + 1" by linarith
  with lo show ?thesis by (intro floor_unique) auto
qed

end
