(* ===== verification/Domain.thy ===== *)
theory Domain
  imports PyNum
begin

text \<open>
  The broker-neutral vocabulary of \<open>src/trading_runtime/domain.py\<close>: the enumerations with
  their wire values and the frozen dataclasses as records, in the source's order. A record
  field carries the source's field name behind a prefix of its class (\<open>oi_quantity\<close> is
  \<open>OrderIntent.quantity\<close>).

  Time stamps are aware in this code, so they are instants (\<open>utc\<close>, microseconds). A
  \<open>dict[str, Any]\<close> is a \<open>json\<close> value; \<open>JTime\<close> is a datetime object that has not been
  rendered yet.
\<close>

type_synonym utc = int

datatype json = JNull | JBool bool | JNum rat | JStr string | JTime datetime | JArr "json list"
  | JObj "(string \<times> json) list"

text \<open>\<open>bool(value)\<close> and \<open>value.get(key)\<close> of a JSON value.\<close>

fun truthy :: "json \<Rightarrow> bool" where
  "truthy JNull = False"
| "truthy (JBool b) = b"
| "truthy (JNum n) = (n \<noteq> 0)"
| "truthy (JStr s) = (s \<noteq> [])"
| "truthy (JTime t) = True"
| "truthy (JArr xs) = (xs \<noteq> [])"
| "truthy (JObj xs) = (xs \<noteq> [])"

fun jget :: "json \<Rightarrow> string \<Rightarrow> json" where
  "jget (JObj xs) k = (case map_of xs k of Some v \<Rightarrow> v | None \<Rightarrow> JNull)"
| "jget _ k = JNull"

datatype ledger_value = LV_dec dec | LV_str string | LV_bool bool

section \<open>Enumerations and dataclasses\<close>

datatype TradingMode =
    MODE_LIVE
  | MODE_PAPER
  | MODE_REPLAY
  | MODE_BACKTEST
  | MODE_BACKTEST_DEBUG

fun TradingMode_value :: "TradingMode \<Rightarrow> string" where
  "TradingMode_value MODE_LIVE = ''live''"
| "TradingMode_value MODE_PAPER = ''paper''"
| "TradingMode_value MODE_REPLAY = ''replay''"
| "TradingMode_value MODE_BACKTEST = ''backtest''"
| "TradingMode_value MODE_BACKTEST_DEBUG = ''backtest_debug''"

datatype BrokerProvider =
    PROVIDER_IBKR_CPAPI
  | PROVIDER_IBKR_TWS
  | PROVIDER_SIMULATED

fun BrokerProvider_value :: "BrokerProvider \<Rightarrow> string" where
  "BrokerProvider_value PROVIDER_IBKR_CPAPI = ''ibkr_cpapi''"
| "BrokerProvider_value PROVIDER_IBKR_TWS = ''ibkr_tws''"
| "BrokerProvider_value PROVIDER_SIMULATED = ''simulated''"

datatype OrderLifecycleState =
    LS_CREATED
  | LS_PENDING_SUBMISSION
  | LS_WORKING
  | LS_TRIGGER_PENDING
  | LS_PARTIALLY_FILLED
  | LS_FILLED
  | LS_CANCEL_PENDING
  | LS_CANCELLED
  | LS_REJECTED
  | LS_EXPIRED
  | LS_INACTIVE
  | LS_UNKNOWN

fun OrderLifecycleState_value :: "OrderLifecycleState \<Rightarrow> string" where
  "OrderLifecycleState_value LS_CREATED = ''created''"
| "OrderLifecycleState_value LS_PENDING_SUBMISSION = ''pending_submission''"
| "OrderLifecycleState_value LS_WORKING = ''working''"
| "OrderLifecycleState_value LS_TRIGGER_PENDING = ''trigger_pending''"
| "OrderLifecycleState_value LS_PARTIALLY_FILLED = ''partially_filled''"
| "OrderLifecycleState_value LS_FILLED = ''filled''"
| "OrderLifecycleState_value LS_CANCEL_PENDING = ''cancel_pending''"
| "OrderLifecycleState_value LS_CANCELLED = ''cancelled''"
| "OrderLifecycleState_value LS_REJECTED = ''rejected''"
| "OrderLifecycleState_value LS_EXPIRED = ''expired''"
| "OrderLifecycleState_value LS_INACTIVE = ''inactive''"
| "OrderLifecycleState_value LS_UNKNOWN = ''unknown''"

definition TERMINAL_ORDER_STATES :: "OrderLifecycleState set" where
  "TERMINAL_ORDER_STATES = {LS_FILLED, LS_CANCELLED, LS_REJECTED, LS_EXPIRED}"

datatype BrokerEventType =
    EV_ORDER_COMMAND
  | EV_ORDER_ACKNOWLEDGED
  | EV_ORDER_STATUS_CHANGED
  | EV_ORDER_WARNING
  | EV_ORDER_REJECTED
  | EV_EXECUTION_REPORTED
  | EV_COMMISSION_REPORTED
  | EV_POSITION_SNAPSHOT_STARTED
  | EV_POSITION_OBSERVED
  | EV_POSITION_SNAPSHOT_COMPLETED
  | EV_ACCOUNT_VALUE_CHANGED
  | EV_LEDGER_VALUE_CHANGED
  | EV_CONNECTION_CHANGED
  | EV_RECONCILIATION_COMPLETED

fun BrokerEventType_value :: "BrokerEventType \<Rightarrow> string" where
  "BrokerEventType_value EV_ORDER_COMMAND = ''order_command''"
| "BrokerEventType_value EV_ORDER_ACKNOWLEDGED = ''order_acknowledged''"
| "BrokerEventType_value EV_ORDER_STATUS_CHANGED = ''order_status_changed''"
| "BrokerEventType_value EV_ORDER_WARNING = ''order_warning''"
| "BrokerEventType_value EV_ORDER_REJECTED = ''order_rejected''"
| "BrokerEventType_value EV_EXECUTION_REPORTED = ''execution_reported''"
| "BrokerEventType_value EV_COMMISSION_REPORTED = ''commission_reported''"
| "BrokerEventType_value EV_POSITION_SNAPSHOT_STARTED = ''position_snapshot_started''"
| "BrokerEventType_value EV_POSITION_OBSERVED = ''position_observed''"
| "BrokerEventType_value EV_POSITION_SNAPSHOT_COMPLETED = ''position_snapshot_completed''"
| "BrokerEventType_value EV_ACCOUNT_VALUE_CHANGED = ''account_value_changed''"
| "BrokerEventType_value EV_LEDGER_VALUE_CHANGED = ''ledger_value_changed''"
| "BrokerEventType_value EV_CONNECTION_CHANGED = ''connection_changed''"
| "BrokerEventType_value EV_RECONCILIATION_COMPLETED = ''reconciliation_completed''"

record InstrumentContract =
  ic_instrument_id :: "string"
  ic_conid :: "int"
  ic_symbol :: "string"
  ic_security_type :: "string"
  ic_currency :: "string"
  ic_exchange :: "string"
  ic_primary_exchange :: "string"
  ic_local_symbol :: "string"
  ic_trading_class :: "string"
  ic_multiplier :: "dec"
  ic_expiry :: "string"
  ic_strike :: "dec option"
  ic_right :: "string"
  ic_provider_ids :: "(string, string) dict"

record BrokerAccount =
  ba_provider :: "BrokerProvider"
  ba_account_id :: "string"
  ba_base_currency :: "string"
  ba_account_type :: "string"
  ba_alias :: "string"
  ba_title :: "string"
  ba_parent_account_id :: "string"
  ba_can_view :: "bool"
  ba_can_trade :: "bool"
  ba_valid_at :: "utc"
  ba_raw :: "json"

record OrderIntent =
  oi_command_id :: "string"
  oi_account_id :: "string"
  oi_instrument :: "InstrumentContract"
  oi_client_order_id :: "string"
  oi_side :: "string"
  oi_order_type :: "string"
  oi_time_in_force :: "string"
  oi_quantity :: "dec option"
  oi_cash_quantity :: "dec option"
  oi_limit_price :: "dec option"
  oi_stop_price :: "dec option"
  oi_trailing_amount :: "dec option"
  oi_trailing_type :: "string"
  oi_outside_rth :: "bool"
  oi_parent_command_id :: "string"
  oi_oca_group :: "string"
  oi_strategy_id :: "string"
  oi_strategy_revision :: "int"
  oi_run_id :: "string"
  oi_created_at :: "utc"
  oi_metadata :: "json"

text \<open>\<open>OrderIntent.__post_init__\<close>: the command's identity, and exactly one of the two ways to
  say how much.\<close>

definition OrderIntent_check :: "OrderIntent \<Rightarrow> OrderIntent result" where
  "OrderIntent_check i =
     (if oi_command_id i = [] \<or> oi_account_id i = [] \<or> oi_client_order_id i = []
      then Inl (ValueError ''command_id, account_id, and client_order_id are required'')
      else if (oi_quantity i = None) = (oi_cash_quantity i = None)
      then Inl (ValueError ''Specify exactly one of quantity or cash_quantity'')
      else Inr i)"

lemma OrderIntent_check_Inr:
  "OrderIntent_check i = Inr j \<longleftrightarrow>
     j = i \<and> oi_command_id i \<noteq> [] \<and> oi_account_id i \<noteq> [] \<and> oi_client_order_id i \<noteq> [] \<and>
     (oi_quantity i = None) \<noteq> (oi_cash_quantity i = None)"
  by (auto simp: OrderIntent_check_def)

record OrderState =
  os_account_id :: "string"
  os_instrument :: "InstrumentContract"
  os_lifecycle_state :: "OrderLifecycleState"
  os_broker_status_raw :: "string"
  os_broker_order_id :: "string"
  os_client_order_id :: "string"
  os_command_id :: "string"
  os_parent_order_id :: "string"
  os_side :: "string"
  os_order_type :: "string"
  os_time_in_force :: "string"
  os_total_quantity :: "dec"
  os_filled_quantity :: "dec"
  os_remaining_quantity :: "dec"
  os_average_fill_price :: "dec"
  os_limit_price :: "dec option"
  os_stop_price :: "dec option"
  os_outside_rth :: "bool"
  os_can_modify :: "bool"
  os_can_cancel :: "bool"
  os_terminal :: "bool"
  os_warning :: "string"
  os_rejection_code :: "string"
  os_rejection_reason :: "string"
  os_source_event_time :: "utc"
  os_received_at :: "utc"
  os_raw :: "json"

record Execution =
  ex_execution_id :: "string"
  ex_account_id :: "string"
  ex_instrument :: "InstrumentContract"
  ex_side :: "string"
  ex_quantity :: "dec"
  ex_price :: "dec"
  ex_source_event_time :: "utc"
  ex_broker_order_id :: "string"
  ex_client_order_id :: "string"
  ex_exchange :: "string"
  ex_commission :: "dec option"
  ex_commission_currency :: "string"
  ex_commission_status :: "string"
  ex_net_amount :: "dec option"
  ex_cumulative_quantity :: "dec option"
  ex_average_price :: "dec option"
  ex_liquidity :: "string"
  ex_liquidation_trade :: "bool"
  ex_strategy_id :: "string"
  ex_strategy_revision :: "int"
  ex_run_id :: "string"
  ex_setup :: "string"
  ex_exit_reason :: "string"
  ex_signal_price :: "dec option"
  ex_arrival_midpoint :: "dec option"
  ex_planned_risk :: "dec option"
  ex_received_at :: "utc"
  ex_raw :: "json"

record CommissionEvent =
  ce_execution_id :: "string"
  ce_account_id :: "string"
  ce_commission :: "dec"
  ce_currency :: "string"
  ce_realized_pnl :: "dec option"
  ce_source_event_time :: "utc"
  ce_received_at :: "utc"
  ce_raw :: "json"

record PositionState =
  ps_snapshot_id :: "string"
  ps_account_id :: "string"
  ps_instrument :: "InstrumentContract"
  ps_quantity :: "dec"
  ps_market_price :: "dec"
  ps_market_value :: "dec"
  ps_average_cost :: "dec"
  ps_average_price :: "dec"
  ps_realized_pnl :: "dec"
  ps_unrealized_pnl :: "dec"
  ps_max_unrealized_pnl :: "dec option"
  ps_max_unrealized_pnl_observed_from :: "string"
  ps_max_unrealized_pnl_as_of :: "string"
  ps_max_unrealized_pnl_basis :: "string"
  ps_model :: "string"
  ps_is_last_to_liquidate :: "bool"
  ps_source_event_time :: "utc"
  ps_received_at :: "utc"
  ps_raw :: "json"

record AccountValue =
  av_account_id :: "string"
  av_key :: "string"
  av_value :: "string"
  av_monetary_value :: "dec option"
  av_currency :: "string"
  av_segment :: "string"
  av_is_null :: "bool"
  av_severity :: "int"
  av_source_event_time :: "utc"
  av_received_at :: "utc"
  av_raw :: "json"

record LedgerBalance =
  lb_account_id :: "string"
  lb_currency :: "string"
  lb_values :: "(string, ledger_value) dict"
  lb_is_base :: "bool"
  lb_source_event_time :: "utc"
  lb_received_at :: "utc"
  lb_raw :: "json"

record SnapshotManifest =
  sm_snapshot_id :: "string"
  sm_entity_kind :: "string"
  sm_account_id :: "string"
  sm_provider :: "BrokerProvider"
  sm_started_at :: "utc"
  sm_completed_at :: "utc option"
  sm_complete :: "bool"
  sm_expected_pages :: "int option"
  sm_received_pages :: "int"
  sm_item_count :: "int"
  sm_source_watermark :: "string"
  sm_error :: "string"

record BrokerEventEnvelope =
  be_event_id :: "string"
  be_event_type :: "BrokerEventType"
  be_provider :: "BrokerProvider"
  be_mode :: "TradingMode"
  be_account_id :: "string"
  be_source_event_time :: "utc"
  be_received_at :: "utc"
  be_recorded_at :: "utc"
  be_payload :: "json"
  be_schema_version :: "int"
  be_run_id :: "string"
  be_broker_session_id :: "string"
  be_broker_event_id :: "string"
  be_command_id :: "string"
  be_correlation_id :: "string"
  be_causation_id :: "string"
  be_broker_order_id :: "string"
  be_client_order_id :: "string"
  be_execution_id :: "string"
  be_source_sequence :: "int"
  be_payload_hash :: "string"

record RoundTripTrade =
  rt_trade_id :: "string"
  rt_account_id :: "string"
  rt_instrument :: "InstrumentContract"
  rt_opened_at :: "utc"
  rt_closed_at :: "utc"
  rt_quantity :: "dec"
  rt_entry_price :: "dec"
  rt_exit_price :: "dec"
  rt_gross_pnl :: "dec"
  rt_fees :: "dec"
  rt_net_pnl :: "dec"
  rt_side :: "string"
  rt_strategy_id :: "string"
  rt_strategy_revision :: "int"
  rt_run_id :: "string"
  rt_setup :: "string"
  rt_exit_reason :: "string"
  rt_mae :: "dec option"
  rt_mfe :: "dec option"
  rt_planned_risk :: "dec option"
  rt_execution_ids :: "string list"

record TradeEpisode =
  te_episode_id :: "string"
  te_account_id :: "string"
  te_instrument :: "InstrumentContract"
  te_opened_at :: "utc"
  te_closed_at :: "utc"
  te_side :: "string"
  te_quantity :: "dec"
  te_entry_price :: "dec"
  te_exit_price :: "dec"
  te_gross_pnl :: "dec"
  te_fees :: "dec"
  te_net_pnl :: "dec"
  te_strategy_id :: "string"
  te_strategy_revision :: "int"
  te_run_id :: "string"
  te_setup :: "string"
  te_exit_reason :: "string"
  te_mae :: "dec option"
  te_mfe :: "dec option"
  te_planned_risk :: "dec option"
  te_execution_ids :: "string list"
  te_order_ids :: "string list"

record TradingStateSnapshot =
  ts_schema_version :: "int"
  ts_mode :: "TradingMode"
  ts_provider :: "BrokerProvider"
  ts_as_of :: "utc"
  ts_account_ids :: "string list"
  ts_complete :: "bool"
  ts_stale :: "bool"
  ts_stale_reason :: "string"
  ts_accounts :: "BrokerAccount list"
  ts_account_values :: "AccountValue list"
  ts_ledger :: "LedgerBalance list"
  ts_positions :: "PositionState list"
  ts_orders :: "OrderState list"
  ts_executions :: "Execution list"
  ts_closed_trades :: "RoundTripTrade list"
  ts_activity :: "BrokerEventEnvelope list"
  ts_protection_events :: "json list"

end
