(* ===== verification/Ibkr.thy ===== *)
theory Ibkr
  imports Domain
begin

text \<open>
  The CPAPI-shaped records of \<open>src/trading_runtime/ibkr_schema.py\<close> and the canonical market
  events of \<open>src/market_engine/events.py\<close>.

  \<open>raw\<close> dictionaries hold only what the runtime writes and reads back: the lineage of an
  order (\<open>OrderLineage\<close>, the five \<open>canonical_\<close> entries; a missing entry is the default its
  readers use), the broker's annotations of a live order, and the provider's fields of an
  event. \<open>ibkr_schema.Execution\<close> is \<open>BrokerExecution\<close> here, to tell it from the canonical one.
  Order ids, decimal renderings of a counter in the code, are integers.
\<close>

section \<open>Orders\<close>

datatype OrderStatus =
    ST_INACTIVE
  | ST_PENDING_SUBMIT
  | ST_PRE_SUBMITTED
  | ST_SUBMITTED
  | ST_FILLED
  | ST_PENDING_CANCEL
  | ST_PRE_CANCELLED
  | ST_CANCELLED
  | ST_WARN_STATE
  | ST_UNKNOWN

fun OrderStatus_value :: "OrderStatus \<Rightarrow> string" where
  "OrderStatus_value ST_INACTIVE = ''Inactive''"
| "OrderStatus_value ST_PENDING_SUBMIT = ''PendingSubmit''"
| "OrderStatus_value ST_PRE_SUBMITTED = ''PreSubmitted''"
| "OrderStatus_value ST_SUBMITTED = ''Submitted''"
| "OrderStatus_value ST_FILLED = ''Filled''"
| "OrderStatus_value ST_PENDING_CANCEL = ''PendingCancel''"
| "OrderStatus_value ST_PRE_CANCELLED = ''PreCancelled''"
| "OrderStatus_value ST_CANCELLED = ''Cancelled''"
| "OrderStatus_value ST_WARN_STATE = ''WarnState''"
| "OrderStatus_value ST_UNKNOWN = ''Unknown''"


definition OrderStatus_all :: "OrderStatus list" where
  "OrderStatus_all = [ST_INACTIVE, ST_PENDING_SUBMIT, ST_PRE_SUBMITTED, ST_SUBMITTED, ST_FILLED,
     ST_PENDING_CANCEL, ST_PRE_CANCELLED, ST_CANCELLED, ST_WARN_STATE, ST_UNKNOWN]"

text \<open>\<open>OrderStatus(value)\<close>.\<close>

definition OrderStatus_of :: "string \<Rightarrow> OrderStatus result" where
  "OrderStatus_of s =
     (case find (\<lambda>x. OrderStatus_value x = s) OrderStatus_all of
        Some x \<Rightarrow> Inr x | None \<Rightarrow> Inl (ValueError ''is not a valid OrderStatus''))"

lemma OrderStatus_of_value [simp]: "OrderStatus_of (OrderStatus_value x) = Inr x"
  by (cases x) (simp_all add: OrderStatus_of_def OrderStatus_all_def)

fun is_open_status :: "OrderStatus \<Rightarrow> bool" where
  "is_open_status s = (s \<in> {ST_INACTIVE, ST_PENDING_SUBMIT, ST_PRE_SUBMITTED, ST_SUBMITTED,
     ST_PENDING_CANCEL, ST_PRE_CANCELLED, ST_WARN_STATE})"

definition SUPPORTED_ORDER_TYPES :: "string list" where
  "SUPPORTED_ORDER_TYPES =
     [''MKT'', ''LMT'', ''STP'', ''STOP_LIMIT'', ''MIDPRICE'', ''TRAIL'', ''TRAILLMT'']"

definition SUPPORTED_TIF :: "string list" where
  "SUPPORTED_TIF = [''DAY'', ''GTC'', ''IOC'', ''OPG'']"

record OrderLineage =
  ol_command_id :: string
  ol_run_id :: string
  ol_strategy_id :: string
  ol_strategy_revision :: int
  ol_metadata :: json

definition no_lineage :: OrderLineage where
  "no_lineage = \<lparr>ol_command_id = [], ol_run_id = [], ol_strategy_id = [],
     ol_strategy_revision = 0, ol_metadata = JObj []\<rparr>"

record OrderRequest =
  or_acctId :: "string"
  or_conid :: "int"
  or_orderType :: "string"
  or_side :: "string"
  or_quantity :: "f64 option"
  or_cashQty :: "f64 option"
  or_secType :: "string"
  or_cOID :: "string"
  or_parentId :: "string option"
  or_ticker :: "string"
  or_tif :: "string"
  or_outsideRTH :: "bool"
  or_price :: "f64 option"
  or_auxPrice :: "f64 option"
  or_trailingAmt :: "f64 option"
  or_trailingType :: "string option"
  or_listingExchange :: "string"
  or_isSingleGroup :: "bool"
  or_manualIndicator :: "bool"
  or_extOperator :: "string option"
  or_referrer :: "string option"
  or_strategy :: "string option"
  or_strategyParameters :: "json list"
  or_raw :: "OrderLineage"

text \<open>\<open>OrderRequest.__post_init__\<close>, its checks in the source's order.\<close>

definition positive_opt :: "f64 option \<Rightarrow> bool" where
  "positive_opt x = (case x of None \<Rightarrow> False | Some v \<Rightarrow> 0 < v)"

definition OrderRequest_check :: "OrderRequest \<Rightarrow> OrderRequest result" where
  "OrderRequest_check r =
     (let order_type = upper (or_orderType r); side = upper (or_side r); tif = upper (or_tif r) in
      if strip (or_acctId r) = [] then Inl (ValueError ''acctId is required'')
      else if or_conid r \<le> 0 then Inl (ValueError ''conid must be positive'')
      else if order_type \<notin> set SUPPORTED_ORDER_TYPES
      then Inl (ValueError ''Unsupported IBKR orderType'')
      else if side \<notin> {''BUY'', ''SELL''} then Inl (ValueError ''side must be BUY or SELL'')
      else if tif \<notin> set SUPPORTED_TIF then Inl (ValueError ''Unsupported IBKR tif'')
      else if (or_quantity r = None) = (or_cashQty r = None)
      then Inl (ValueError ''Specify exactly one of quantity or cashQty'')
      else if or_quantity r \<noteq> None \<and> \<not> positive_opt (or_quantity r)
      then Inl (ValueError ''quantity must be positive'')
      else if or_cashQty r \<noteq> None \<and> \<not> positive_opt (or_cashQty r)
      then Inl (ValueError ''cashQty must be positive'')
      else if order_type \<in> {''LMT'', ''STOP_LIMIT'', ''TRAILLMT''} \<and> \<not> positive_opt (or_price r)
      then Inl (ValueError ''requires a positive price'')
      else if order_type \<in> {''STP'', ''STOP_LIMIT''} \<and> \<not> positive_opt (or_auxPrice r)
      then Inl (ValueError ''requires a positive auxPrice'')
      else if or_cOID r \<noteq> [] \<and> 64 < length (or_cOID r)
      then Inl (ValueError ''cOID cannot exceed 64 characters'')
      else Inr r)"

lemma OrderRequest_check_Inr:
  assumes "OrderRequest_check r = Inr s"
  shows "s = r" "0 < or_conid r" "upper (or_side r) = ''BUY'' \<or> upper (or_side r) = ''SELL''"
    "or_quantity r = Some q \<Longrightarrow> 0 < q" "or_cashQty r = Some c \<Longrightarrow> 0 < c"
    "or_quantity r = None \<longleftrightarrow> or_cashQty r \<noteq> None"
    "upper (or_orderType r) \<in> {''LMT'', ''STOP_LIMIT'', ''TRAILLMT''} \<Longrightarrow> \<exists>p. or_price r = Some p \<and> 0 < p"
    "length (or_cOID r) \<le> 64"
  using assms
  by (auto simp: OrderRequest_check_def Let_def positive_opt_def split: if_splits option.splits)

text \<open>The simulator's annotations of a live order, and the lineage it copies.\<close>

record LiveOrderRaw =
  lr_oca_group :: "int option"
  lr_submitted_at :: "utc option"
  lr_strategy_id :: string
  lr_strategy_revision :: int
  lr_metadata :: json

record LiveOrder =
  lo_account :: "string"
  lo_orderId :: "int"
  lo_conid :: "int"
  lo_ticker :: "string"
  lo_side :: "string"
  lo_orderType :: "string"
  lo_tif :: "string"
  lo_totalSize :: "f64"
  lo_filledQuantity :: "f64"
  lo_remainingQuantity :: "f64"
  lo_avgPrice :: "f64"
  lo_order_status :: "OrderStatus"
  lo_cOID :: "string"
  lo_parentId :: "string option"
  lo_price :: "f64 option"
  lo_auxPrice :: "f64 option"
  lo_outsideRTH :: "bool"
  lo_lastExecutionTime :: "utc option"
  lo_statusDescription :: "string"
  lo_raw :: "LiveOrderRaw"

record BrokerExecution =
  bx_execution_id :: "string"
  bx_symbol :: "string"
  bx_side :: "string"
  bx_order_ref :: "string"
  bx_trade_time :: "utc"
  bx_trade_time_r :: "int"
  bx_size :: "f64"
  bx_price :: "f64"
  bx_order_id :: "int"
  bx_account :: "string"
  bx_conid :: "int"
  bx_commission :: "f64 option"
  bx_currency :: "string"
  bx_raw :: "OrderLineage"

record PortfolioPosition =
  pp_acctId :: "string"
  pp_conid :: "int"
  pp_contractDesc :: "string"
  pp_position :: "f64"
  pp_mktPrice :: "f64"
  pp_mktValue :: "f64"
  pp_avgCost :: "f64"
  pp_avgPrice :: "f64"
  pp_realizedPnl :: "f64"
  pp_unrealizedPnl :: "f64"
  pp_currency :: "string"
  pp_assetClass :: "string"
  pp_raw :: "json"

record AccountSummary =
  as_account_id :: "string"
  as_netliquidation :: "f64"
  as_totalcashvalue :: "f64"
  as_buyingpower :: "f64"
  as_grosspositionvalue :: "f64"
  as_availablefunds :: "f64"
  as_excessliquidity :: "f64"
  as_currency :: "string"
  as_timestamp :: "utc"

record AccountLedger =
  al_acctId :: "string"
  al_cashbalance :: "f64"
  al_settledcash :: "f64"
  al_stockmarketvalue :: "f64"
  al_netliquidationvalue :: "f64"
  al_realizedpnl :: "f64"
  al_unrealizedpnl :: "f64"
  al_currency :: "string"
  al_exchangerate :: "f64"
  al_timestamp :: "utc"

section \<open>Market events\<close>

text \<open>
  The keys of \<open>raw\<close> the code reads. \<open>None\<close> is an absent key, and for \<open>volume_eligible\<close>
  also a value that is not a \<open>bool\<close>, which its readers treat alike.
\<close>

record EventRaw =
  er_conid :: "int option"
  er_con_id :: "int option"
  er_price_eligible :: "bool option"
  er_volume_eligible :: "bool option"

record TradeEvent =
  tr_conditions :: "int list"
  tr_event_id :: "string"
  tr_exchange :: "int"
  tr_ingest_ts :: "utc"
  tr_participant_ts :: "utc option"
  tr_price :: "f64"
  tr_raw :: "EventRaw"
  tr_sequence :: "int"
  tr_size :: "f64"
  tr_source :: "string"
  tr_tape :: "int"
  tr_ticker :: "string"
  tr_trf_id :: "int"
  tr_trf_ts :: "utc option"
  tr_ts :: "utc"

record QuoteEvent =
  qu_ask_exchange :: "int"
  qu_ask_price :: "f64"
  qu_ask_size :: "f64"
  qu_bid_exchange :: "int"
  qu_bid_price :: "f64"
  qu_bid_size :: "f64"
  qu_conditions :: "int list"
  qu_indicators :: "int list"
  qu_ingest_ts :: "utc"
  qu_raw :: "EventRaw"
  qu_sequence :: "int"
  qu_source :: "string"
  qu_tape :: "int"
  qu_ticker :: "string"
  qu_ts :: "utc"

datatype MarketEvent = Trade TradeEvent | Quote QuoteEvent

fun ev_ticker :: "MarketEvent \<Rightarrow> string" where
  "ev_ticker (Trade t) = tr_ticker t" | "ev_ticker (Quote q) = qu_ticker q"

fun ev_ts :: "MarketEvent \<Rightarrow> utc" where
  "ev_ts (Trade t) = tr_ts t" | "ev_ts (Quote q) = qu_ts q"

fun ev_raw :: "MarketEvent \<Rightarrow> EventRaw" where
  "ev_raw (Trade t) = tr_raw t" | "ev_raw (Quote q) = qu_raw q"

definition qu_midpoint :: "QuoteEvent \<Rightarrow> f64" where
  "qu_midpoint q =
     (if qu_bid_price q \<le> 0 \<or> qu_ask_price q \<le> 0 then 0
      else fquo (fadd (qu_bid_price q) (qu_ask_price q)) 2)"

definition qu_spread :: "QuoteEvent \<Rightarrow> f64" where
  "qu_spread q =
     (if qu_bid_price q \<le> 0 \<or> qu_ask_price q \<le> 0 then 0
      else max 0 (fsub (qu_ask_price q) (qu_bid_price q)))"

text \<open>
  The New York wall clock, read from the time zone database, is a parameter: \<open>ny t\<close> is the
  weekday (Monday is 0) and the minute of the day at instant \<open>t\<close>. \<open>fixed_clock\<close> is the clock
  at a constant offset from UTC, in minutes; it runs the model on concrete instants.
\<close>

type_synonym wall_clock = "utc \<Rightarrow> int \<times> int"

definition fixed_clock :: "int \<Rightarrow> wall_clock" where
  "fixed_clock offset t =
     (let m = t div 60000000 + offset in ((m div 1440 + 3) mod 7, m mod 1440))"

definition eligible_trade_time :: "wall_clock \<Rightarrow> utc \<Rightarrow> bool" where
  "eligible_trade_time ny t = (4 * 60 + 5 \<le> snd (ny t))"

definition tr_price_eligible :: "wall_clock \<Rightarrow> TradeEvent \<Rightarrow> bool" where
  "tr_price_eligible ny t =
     (eligible_trade_time ny (tr_ts t) \<and> er_price_eligible (tr_raw t) \<noteq> Some False)"

lemma qu_midpoint_between:
  assumes "0 < qu_bid_price q" "qu_bid_price q \<le> qu_ask_price q"
    "is_f64 (qu_bid_price q)" "is_f64 (qu_ask_price q)"
    "is_f64 (2 * qu_bid_price q)" "is_f64 (2 * qu_ask_price q)"
  shows "qu_bid_price q \<le> qu_midpoint q \<and> qu_midpoint q \<le> qu_ask_price q"
proof -
  let ?b = "qu_bid_price q" and ?a = "qu_ask_price q"
  have "2 * ?b \<le> fadd ?b ?a" "fadd ?b ?a \<le> 2 * ?a"
    unfolding fadd_def using assms by (auto intro: fl_ge_iff fl_le_iff)
  then have "?b \<le> fquo (fadd ?b ?a) 2" "fquo (fadd ?b ?a) 2 \<le> ?a"
    unfolding fquo_def using assms by (auto intro: fl_ge_iff fl_le_iff)
  then show ?thesis using assms by (simp add: qu_midpoint_def)
qed

end
