(* ===== verification/Calendar.thy ===== *)
theory Calendar
  imports Domain
begin

text \<open>
  \<open>datetime.fromisoformat\<close> on the texts \<open>isoformat\<close> writes:
  \<open>YYYY-MM-DD?HH:MM:SS[.ffffff][+HH:MM]\<close>, any separator at \<open>?\<close>. Dates are proleptic
  Gregorian; an offset makes the value aware. \<open>None\<close> is the ValueError the callers catch.
\<close>

definition days_from_civil :: "int \<Rightarrow> int \<Rightarrow> int \<Rightarrow> int" where
  "days_from_civil y m d =
     (let y' = (if m \<le> 2 then y - 1 else y); era = y' div 400; yoe = y' - era * 400;
          mp = (m + 9) mod 12; doy = (153 * mp + 2) div 5 + d - 1;
          doe = yoe * 365 + yoe div 4 - yoe div 100 + doy
      in era * 146097 + doe - 719468)"

definition month_length :: "int \<Rightarrow> int \<Rightarrow> int" where
  "month_length y m =
     (if m = 2 then (if y mod 4 = 0 \<and> (y mod 100 \<noteq> 0 \<or> y mod 400 = 0) then 29 else 28)
      else if m \<in> {4, 6, 9, 11} then 30 else 31)"

definition digit_of :: "char \<Rightarrow> int option" where
  "digit_of c = (let n = of_char c :: nat in if 48 \<le> n \<and> n \<le> 57 then Some (int n - 48) else None)"

fun number_of :: "string \<Rightarrow> int \<Rightarrow> int option" where
  "number_of [] acc = Some acc"
| "number_of (c # cs) acc =
     (case digit_of c of None \<Rightarrow> None | Some d \<Rightarrow> number_of cs (10 * acc + d))"

definition field_of :: "nat \<Rightarrow> nat \<Rightarrow> string \<Rightarrow> int option" where
  "field_of i n s = (if length s < i + n then None else number_of (take n (drop i s)) 0)"

text \<open>Hours and minutes of an offset, as microseconds; \<open>None\<close> when malformed.\<close>

definition parse_offset :: "string \<Rightarrow> int option" where
  "parse_offset s =
     (case (field_of 1 2 s, field_of 4 2 s) of
        (Some h, Some m) \<Rightarrow>
          if length s = 6 \<and> s ! 3 = CHR '':'' \<and> h < 24 \<and> m < 60 \<and> hd s \<in> {CHR ''+'', CHR ''-''}
          then Some ((if hd s = CHR ''-'' then -1 else 1) * (h * 60 + m) * 60000000)
          else None
      | _ \<Rightarrow> None)"

definition parse_zone :: "int \<Rightarrow> string \<Rightarrow> datetime option" where
  "parse_zone t s =
     (if s = [] then Some (Naive t)
      else map_option (\<lambda>off. Aware (t - off)) (parse_offset s))"

definition parse_iso :: "string \<Rightarrow> datetime option" where
  "parse_iso s =
     (case (field_of 0 4 s, field_of 5 2 s, field_of 8 2 s, field_of 11 2 s, field_of 14 2 s,
            field_of 17 2 s) of
        (Some y, Some mo, Some d, Some h, Some mi, Some sec) \<Rightarrow>
          if s ! 4 = CHR ''-'' \<and> s ! 7 = CHR ''-'' \<and> s ! 13 = CHR '':'' \<and> s ! 16 = CHR '':'' \<and>
             1 \<le> y \<and> 1 \<le> mo \<and> mo \<le> 12 \<and> 1 \<le> d \<and> d \<le> month_length y mo \<and>
             h < 24 \<and> mi < 60 \<and> sec < 60
          then let t = ((days_from_civil y mo d * 24 + h) * 60 + mi) * 60 + sec in
            if length s > 19 \<and> s ! 19 = CHR ''.''
            then (case field_of 20 6 s of
                    None \<Rightarrow> None
                  | Some us \<Rightarrow> parse_zone (t * 1000000 + us) (drop 26 s))
            else parse_zone (t * 1000000) (drop 19 s)
          else None
      | _ \<Rightarrow> None)"

text \<open>\<open>str.replace("Z", "+00:00")\<close>, which the callers apply first.\<close>

definition utc_suffix :: "string \<Rightarrow> string" where
  "utc_suffix s = concat (map (\<lambda>c. if c = CHR ''Z'' then ''+00:00'' else [c]) s)"

lemma parse_iso_epoch: "parse_iso (utc_suffix ''1970-01-01T00:00:00Z'') = Some (Aware 0)"
  by code_simp

lemma parse_iso_leap_day:
  "parse_iso ''2024-02-29T09:30:00.250000-05:00'' = Some (Aware 1709217000250000)"
  by code_simp

lemma parse_iso_no_such_day: "parse_iso ''2023-02-29T09:30:00'' = None"
  by code_simp

end
