(* ===== verification/SimState.thy ===== *)
theory SimState
  imports Ibkr Calendar
begin

text \<open>
  The state of \<open>src/trading_runtime/simulated_broker.py\<close>: its configuration, positions,
  orders, and the fields of \<open>SimulatedBrokerAdapter\<close>, with the helpers that only read them.

  Positions and orders are mutable objects the code reaches through several containers; here
  they live in one dictionary each (\<open>b_positions\<close>, \<open>b_orders\<close>) and the derived index
  \<open>b_orders_by_ticker\<close> holds order ids. \<open>o_oca_group = Some n\<close> is the text \<open>sim-oca-n\<close>, and
  \<open>None\<close> the empty one. A key of \<open>b_liquidity_consumed\<close> is the triple behind the code's text
  \<open>ticker:kind:side\<close>, its first component the tuple (or bar) behind the code's \<open>repr\<close>.
\<close>

section \<open>Configuration\<close>

record SimulationConfig =
  sc_initial_cash :: f64
  sc_base_currency :: string
  sc_commission_per_share :: f64
  sc_minimum_commission :: f64
  sc_liquidity_participation :: f64
  sc_marketable_liquidity_participation :: "f64 option"
  sc_market_slippage_bps :: f64
  sc_allow_short :: bool
  sc_new_order_activation_delay_ms :: f64

text \<open>
  The dataclass's defaults and \<open>__post_init__\<close>. \<open>initial_cash\<close> may come in as an \<open>int\<close>
  (\<open>Inl\<close>), which has to survive the conversion, or as a \<open>float\<close>.
\<close>

definition default_config :: SimulationConfig where
  "default_config =
     \<lparr>sc_initial_cash = 100000, sc_base_currency = ''USD'', sc_commission_per_share = fl (5 / 1000),
      sc_minimum_commission = 1, sc_liquidity_participation = 1 / 4,
      sc_marketable_liquidity_participation = None, sc_market_slippage_bps = 0,
      sc_allow_short = False, sc_new_order_activation_delay_ms = 0\<rparr>"

definition SimulationConfig_check :: "int + f64 \<Rightarrow> SimulationConfig \<Rightarrow> SimulationConfig result" where
  "SimulationConfig_check cash c =
     (let normalized = (case cash of Inl n \<Rightarrow> float_of_int n | Inr x \<Rightarrow> x);
          c' = c\<lparr>sc_initial_cash := normalized\<rparr> in
      if (case cash of Inl n \<Rightarrow> \<lfloor>normalized\<rfloor> \<noteq> n | Inr _ \<Rightarrow> False)
      then Inl (ValueError ''initial_cash must be exactly representable as Float64'')
      else if \<not> (0 \<le> sc_new_order_activation_delay_ms c \<and>
                 sc_new_order_activation_delay_ms c \<le> 60000)
      then Inl (ValueError ''New order activation delay must be finite and in [0,60000] ms'')
      else if normalized < 0 then Inl (ValueError ''initial_cash cannot be negative'')
      else if \<not> (0 < sc_liquidity_participation c \<and> sc_liquidity_participation c \<le> 1)
      then Inl (ValueError ''liquidity_participation must be in (0, 1]'')
      else if (case sc_marketable_liquidity_participation c of
                 None \<Rightarrow> False | Some p \<Rightarrow> \<not> (0 < p \<and> p \<le> 1))
      then Inl (ValueError ''marketable_liquidity_participation must be in (0, 1]'')
      else if sc_commission_per_share c < 0 \<or> sc_minimum_commission c < 0
      then Inl (ValueError ''commission values cannot be negative'')
      else Inr c')"

lemma SimulationConfig_check_Inr:
  assumes "SimulationConfig_check cash c = Inr d"
  shows "0 \<le> sc_initial_cash d" "0 < sc_liquidity_participation d" "sc_liquidity_participation d \<le> 1"
    "sc_marketable_liquidity_participation d = Some p \<Longrightarrow> 0 < p \<and> p \<le> 1"
    "0 \<le> sc_commission_per_share d" "0 \<le> sc_minimum_commission d"
    "0 \<le> sc_new_order_activation_delay_ms d" "sc_new_order_activation_delay_ms d \<le> 60000"
    "cash = Inl n \<Longrightarrow> sc_initial_cash d = fl (of_int n) \<and> \<lfloor>sc_initial_cash d\<rfloor> = n"
  using assms
  by (auto simp: SimulationConfig_check_def Let_def float_of_int_def split: if_splits option.splits sum.splits)

section \<open>Positions and orders\<close>

record Position =
  po_conid :: int
  po_ticker :: string
  po_quantity :: f64
  po_avg_cost :: f64
  po_realized_pnl :: f64

definition new_position :: "int \<Rightarrow> string \<Rightarrow> Position" where
  "new_position conid ticker =
     \<lparr>po_conid = conid, po_ticker = ticker, po_quantity = 0, po_avg_cost = 0, po_realized_pnl = 0\<rparr>"

record Order =
  o_request :: OrderRequest
  o_order_id :: int
  o_status :: OrderStatus
  o_submitted_at :: utc
  o_oca_group :: "int option"
  o_filled :: f64
  o_avg_price :: f64
  o_commission_paid :: f64
  o_stop_triggered :: bool
  o_trailing_reference :: f64
  o_status_description :: string

abbreviation o_conid :: "Order \<Rightarrow> int" where "o_conid od \<equiv> or_conid (o_request od)"
abbreviation o_acct :: "Order \<Rightarrow> string" where "o_acct od \<equiv> or_acctId (o_request od)"
abbreviation o_cOID :: "Order \<Rightarrow> string" where "o_cOID od \<equiv> or_cOID (o_request od)"
abbreviation o_side :: "Order \<Rightarrow> string" where "o_side od \<equiv> upper (or_side (o_request od))"
abbreviation o_ticker :: "Order \<Rightarrow> string" where "o_ticker od \<equiv> upper (or_ticker (o_request od))"
abbreviation is_open :: "Order \<Rightarrow> bool" where "is_open od \<equiv> is_open_status (o_status od)"

text \<open>\<open>request.parentId\<close> read as a truth value: the parent's client id, if there is one.\<close>

definition parent_of :: "OrderRequest \<Rightarrow> string option" where
  "parent_of r = (case or_parentId r of Some p \<Rightarrow> if p = [] then None else Some p | None \<Rightarrow> None)"

text \<open>\<open>float(x or 0)\<close> of an optional field.\<close>

definition or0 :: "f64 option \<Rightarrow> f64" where
  "or0 x = (case x of None \<Rightarrow> 0 | Some v \<Rightarrow> v)"

definition requested_quantity :: "Order \<Rightarrow> f64" where
  "requested_quantity od = or0 (or_quantity (o_request od))"

definition remaining :: "Order \<Rightarrow> f64" where
  "remaining od = max 0 (fsub (requested_quantity od) (o_filled od))"

definition o_snapshot :: "Order \<Rightarrow> LiveOrder" where
  "o_snapshot od =
     (let r = o_request od in
      \<lparr>lo_account = or_acctId r, lo_orderId = o_order_id od, lo_conid = or_conid r,
       lo_ticker = or_ticker r, lo_side = upper (or_side r), lo_orderType = upper (or_orderType r),
       lo_tif = upper (or_tif r), lo_totalSize = requested_quantity od,
       lo_filledQuantity = o_filled od, lo_remainingQuantity = remaining od,
       lo_avgPrice = o_avg_price od, lo_order_status = o_status od, lo_cOID = or_cOID r,
       lo_parentId = or_parentId r, lo_price = or_price r, lo_auxPrice = or_auxPrice r,
       lo_outsideRTH = or_outsideRTH r, lo_lastExecutionTime = Some (o_submitted_at od),
       lo_statusDescription = o_status_description od,
       lo_raw = \<lparr>lr_oca_group = o_oca_group od, lr_submitted_at = Some (o_submitted_at od),
         lr_strategy_id = ol_strategy_id (or_raw r),
         lr_strategy_revision = ol_strategy_revision (or_raw r),
         lr_metadata = ol_metadata (or_raw r)\<rparr>\<rparr>)"

lemma remaining_nonneg [simp]: "0 \<le> remaining od"
  by (simp add: remaining_def)

section \<open>The adapter\<close>

datatype liquidity_kind = LK_quote | LK_trade | LK_bar

type_synonym liquidity_slot = "string \<times> liquidity_kind \<times> string"

datatype liquidity_identity =
    LI_quote utc int f64 f64 f64 f64
  | LI_trade utc int f64 f64
  | LI_bar utc int

record Performance =
  pf_complete :: bool
  pf_as_of :: "utc option"
  pf_unrealized :: f64
  pf_market_value :: f64
  pf_peak_unrealized :: f64
  pf_worst_unrealized :: f64
  pf_equity_peak :: f64
  pf_maximum_drawdown :: f64

definition new_performance :: "bool \<Rightarrow> Performance" where
  "new_performance whole =
     \<lparr>pf_complete = whole, pf_as_of = None, pf_unrealized = 0, pf_market_value = 0,
      pf_peak_unrealized = 0, pf_worst_unrealized = 0, pf_equity_peak = 0,
      pf_maximum_drawdown = 0\<rparr>"

record Broker =
  b_config :: SimulationConfig
  b_mode :: TradingMode
  b_initial_time :: "utc option"
  b_account_ids :: "string list"
  b_cash :: "(string, f64) dict"
  b_realized_pnl :: "(string, f64) dict"
  b_positions :: "(string, (int, Position) dict) dict"
  b_orders :: "(int, Order) dict"
  b_orders_by_ticker :: "(string, int list) dict"
  b_position_conids_by_ticker :: "(string, int list) dict"
  b_order_ids_by_coid :: "(string, int) dict"
  b_executions :: "BrokerExecution list"
  b_quotes :: "(int, QuoteEvent) dict"
  b_trades :: "(int, TradeEvent) dict"
  b_quotes_by_ticker :: "(string, QuoteEvent) dict"
  b_trades_by_ticker :: "(string, TradeEvent) dict"
  b_marks :: "(int, f64) dict"
  b_performance_marks :: "(int, f64 \<times> f64) dict"
  b_performance :: Performance
  b_liquidity_consumed :: "(liquidity_slot, liquidity_identity \<times> f64) dict"
  b_bar_mode :: bool
  b_bar_boundaries :: "(string, utc) dict"
  b_bar_marks_by_ticker :: "(string, f64) dict"
  b_next_order_id :: int
  b_next_execution_id :: int
  b_initialized :: bool

text \<open>\<open>__init__\<close>.\<close>

definition SimulatedBrokerAdapter ::
    "string list \<Rightarrow> SimulationConfig \<Rightarrow> TradingMode \<Rightarrow> datetime option \<Rightarrow> Broker result" where
  "SimulatedBrokerAdapter account_ids config mode initial_time =
     (if account_ids = [] \<or> (\<exists>a \<in> set account_ids. strip a = [])
      then Inl (ValueError ''At least one non-empty simulated account id is required'')
      else if \<not> distinct account_ids
      then Inl (ValueError ''Simulated account ids must be unique'')
      else if (case initial_time of Some t \<Rightarrow> \<not> is_aware t | None \<Rightarrow> False)
      then Inl (ValueError ''Simulated initial time requires a timezone'')
      else Inr
        \<lparr>b_config = config, b_mode = mode, b_initial_time = map_option instant initial_time,
         b_account_ids = account_ids,
         b_cash = map (\<lambda>a. (a, sc_initial_cash config)) account_ids,
         b_realized_pnl = map (\<lambda>a. (a, 0)) account_ids,
         b_positions = map (\<lambda>a. (a, [])) account_ids,
         b_orders = [], b_orders_by_ticker = [], b_position_conids_by_ticker = [],
         b_order_ids_by_coid = [], b_executions = [], b_quotes = [], b_trades = [],
         b_quotes_by_ticker = [], b_trades_by_ticker = [], b_marks = [],
         b_performance_marks = [], b_performance = new_performance True,
         b_liquidity_consumed = [], b_bar_mode = False, b_bar_boundaries = [],
         b_bar_marks_by_ticker = [], b_next_order_id = 1, b_next_execution_id = 1,
         b_initialized = False\<rparr>)"

definition initialize :: "(Broker, unit) act" where
  "initialize = aupd (\<lambda>b. b\<lparr>b_initialized := True\<rparr>)"

section \<open>Reading the book\<close>

definition orders_of :: "Broker \<Rightarrow> Order list" where
  "orders_of b = dvalues (b_orders b)"

definition require_initialized :: "Broker \<Rightarrow> unit result" where
  "require_initialized b =
     (if b_initialized b then Inr ()
      else Inl (RuntimeError ''Broker adapter must be initialized before use''))"

definition require_account :: "Broker \<Rightarrow> string \<Rightarrow> unit result" where
  "require_account b a =
     bind_result (require_initialized b) (\<lambda>_.
       if map_of (b_cash b) a = None then Inl (ValueError ''Unknown account'') else Inr ())"

definition require_matching_account :: "string \<Rightarrow> OrderRequest \<Rightarrow> unit result" where
  "require_matching_account a r =
     (if or_acctId r \<noteq> a then Inl (ValueError ''Path account does not match order acctId'')
      else Inr ())"

definition require_order :: "Broker \<Rightarrow> string \<Rightarrow> int \<Rightarrow> Order result" where
  "require_order b a oid =
     (case map_of (b_orders b) oid of
        Some od \<Rightarrow> if o_acct od \<noteq> a then Inl (ValueError ''OrderID does not exist for account'') else Inr od
      | None \<Rightarrow> Inl (ValueError ''OrderID does not exist for account''))"

text \<open>\<open>self._positions[account].get(conid, _Position(conid, ticker))\<close>; every order's account
  is one of the broker's, because \<open>place_orders\<close> asks for it.\<close>

definition account_positions :: "Broker \<Rightarrow> string \<Rightarrow> (int, Position) dict" where
  "account_positions b a = dget (b_positions b) a []"

definition position_or_flat :: "Broker \<Rightarrow> string \<Rightarrow> int \<Rightarrow> string \<Rightarrow> Position" where
  "position_or_flat b a conid ticker = dget (account_positions b a) conid (new_position conid ticker)"

definition account_cash :: "Broker \<Rightarrow> string \<Rightarrow> f64" where
  "account_cash b a = dget (b_cash b) a 0"

definition sorted_orders :: "Broker \<Rightarrow> Order list" where
  "sorted_orders b = sort_key o_order_id (orders_of b)"

definition reference_price :: "Broker \<Rightarrow> int \<Rightarrow> string \<Rightarrow> f64" where
  "reference_price b conid ticker =
     (let direct = dget (b_marks b) conid 0; key = upper ticker in
      if 0 < direct \<or> ticker = [] then direct
      else if b_bar_mode b then dget (b_bar_marks_by_ticker b) key 0
      else case map_of (b_trades_by_ticker b) key of
             Some t \<Rightarrow> tr_price t
           | None \<Rightarrow> (case map_of (b_quotes_by_ticker b) key of
                        Some q \<Rightarrow> qu_midpoint q
                      | None \<Rightarrow> 0))"

text \<open>\<open>value = source.get("conid") or source.get("con_id")\<close>, then the symbol's only
  contract.\<close>

definition event_conid :: "Broker \<Rightarrow> MarketEvent \<Rightarrow> int" where
  "event_conid b e =
     (let nz = (\<lambda>x. case x of Some v \<Rightarrow> if v = 0 then None else Some v | None \<Rightarrow> None) in
      case nz (er_conid (ev_raw e)) of
        Some v \<Rightarrow> v
      | None \<Rightarrow> (case nz (er_con_id (ev_raw e)) of
          Some v \<Rightarrow> v
        | None \<Rightarrow>
            (let matching = remdups (map o_conid
                   (filter (\<lambda>od. or_ticker (o_request od) = ev_ticker e) (orders_of b)))
             in if length matching = 1 then hd matching else 0)))"

definition max_list :: "utc list \<Rightarrow> utc \<Rightarrow> utc" where
  "max_list xs d = (case xs of [] \<Rightarrow> d | x # ys \<Rightarrow> fold max ys x)"

text \<open>\<open>now\<close> is the wall clock of \<open>datetime.now\<close>.\<close>

definition latest_event_time :: "utc \<Rightarrow> Broker \<Rightarrow> utc" where
  "latest_event_time now b =
     max_list (map tr_ts (dvalues (b_trades b)) @ map qu_ts (dvalues (b_quotes b)) @
               map tr_ts (dvalues (b_trades_by_ticker b)) @
               map qu_ts (dvalues (b_quotes_by_ticker b)) @ dvalues (b_bar_boundaries b))
       (case b_initial_time b of Some t \<Rightarrow> t | None \<Rightarrow> now)"

definition event_time :: "utc \<Rightarrow> Broker \<Rightarrow> int \<Rightarrow> string \<Rightarrow> utc" where
  "event_time now b conid ticker =
     (let key = upper ticker in
      case (if b_bar_mode b then map_of (b_bar_boundaries b) key else None) of
        Some t \<Rightarrow> t
      | None \<Rightarrow>
      (case map_of (b_trades b) conid of Some t \<Rightarrow> tr_ts t | None \<Rightarrow>
      (case map_of (b_quotes b) conid of Some q \<Rightarrow> qu_ts q | None \<Rightarrow>
      (if ticker = [] then latest_event_time now b else
      (case map_of (b_trades_by_ticker b) key of Some t \<Rightarrow> tr_ts t | None \<Rightarrow>
      (case map_of (b_quotes_by_ticker b) key of Some q \<Rightarrow> qu_ts q | None \<Rightarrow>
       latest_event_time now b))))))"

definition opt_list :: "'a option \<Rightarrow> 'a list" where
  "opt_list x = (case x of None \<Rightarrow> [] | Some v \<Rightarrow> [v])"

definition order_submission_time :: "utc \<Rightarrow> Broker \<Rightarrow> OrderRequest \<Rightarrow> utc" where
  "order_submission_time now b r =
     (let key = upper (or_ticker r);
          events = map tr_ts (opt_list (map_of (b_trades b) (or_conid r))) @
                   map qu_ts (opt_list (map_of (b_quotes b) (or_conid r))) @
                   map tr_ts (opt_list (map_of (b_trades_by_ticker b) key)) @
                   map qu_ts (opt_list (map_of (b_quotes_by_ticker b) key));
          market = max_list events (event_time now b (or_conid r) (or_ticker r));
          market_time =
            (case (if b_bar_mode b then map_of (b_bar_boundaries b) key else None) of
               Some t \<Rightarrow> max market t | None \<Rightarrow> market) in
      case jget (ol_metadata (or_raw r)) ''decision_event_time'' of
        JStr text \<Rightarrow>
          (case parse_iso (utc_suffix text) of
             Some (Aware t) \<Rightarrow> max market_time t
           | _ \<Rightarrow> market_time)
      | _ \<Rightarrow> market_time)"

lemma fold_max_ge:
  fixes a :: "'a::linorder"
  shows "a \<le> fold max ys a \<and> (\<forall>z \<in> set ys. z \<le> fold max ys a)"
proof (induction ys arbitrary: a)
  case (Cons y ys)
  then have "max y a \<le> fold max ys (max y a)" "\<forall>z \<in> set ys. z \<le> fold max ys (max y a)"
    by blast+
  then show ?case by auto
qed simp

lemma max_list_ge: "x \<in> set xs \<Longrightarrow> x \<le> max_list xs d"
  using fold_max_ge by (cases xs) (auto simp: max_list_def)

end
