(* ===== verification/SimFill.thy ===== *)
theory SimFill
  imports SimState
begin

text \<open>
  Pricing, sizing and booking a fill in \<open>simulated_broker.py\<close>: the commission, the candidate
  price of an order against an event, the quantity it may take, and \<open>_apply_fill\<close>, which
  books the execution and settles the order's group.

  \<open>dataclasses.replace\<close> runs \<open>OrderRequest.__post_init__\<close> again, so writing a quantity of
  zero into a request raises; \<open>replace_quantity\<close> keeps that.
\<close>

section \<open>Commission\<close>

definition commission :: "SimulationConfig \<Rightarrow> f64 \<Rightarrow> f64" where
  "commission c quantity =
     (let minimum = short_dec (sc_minimum_commission c);
          variable = dmul (short_dec \<bar>quantity\<bar>) (short_dec (sc_commission_per_share c))
      in fl (dquantize 10 (max minimum variable)))"

definition incremental_order_commission :: "SimulationConfig \<Rightarrow> Order \<Rightarrow> f64 \<times> Order" where
  "incremental_order_commission c od =
     (let cumulative = commission c (o_filled od);
          incremental = fl (max 0 (dsub (short_dec cumulative) (short_dec (o_commission_paid od))))
      in (incremental, od\<lparr>o_commission_paid := cumulative\<rparr>))"

lemma commission_nonneg: "is_f64 (sc_minimum_commission c) \<Longrightarrow> 0 \<le> sc_minimum_commission c \<Longrightarrow> 0 \<le> commission c q"
  unfolding commission_def Let_def
  by (intro fl_nonneg dquantize_nonneg) (simp add: short_dec_sign le_max_iff_disj)

section \<open>What an event offers\<close>

definition executable_price :: "Broker \<Rightarrow> int \<Rightarrow> string \<Rightarrow> MarketEvent \<Rightarrow> f64" where
  "executable_price b conid side e =
     (let key = upper (ev_ticker e);
          quote = (case e of Quote q \<Rightarrow> Some q
                   | Trade _ \<Rightarrow> (case map_of (b_quotes b) conid of
                       Some q \<Rightarrow> Some q | None \<Rightarrow> map_of (b_quotes_by_ticker b) key));
          trade = (case e of Trade t \<Rightarrow> Some t
                   | Quote _ \<Rightarrow> (case map_of (b_trades b) conid of
                       Some t \<Rightarrow> Some t | None \<Rightarrow> map_of (b_trades_by_ticker b) key));
          touch = (case quote of None \<Rightarrow> 0
                   | Some q \<Rightarrow> if side = ''BUY'' then qu_ask_price q else qu_bid_price q)
      in if 0 < touch then touch else case trade of None \<Rightarrow> 0 | Some t \<Rightarrow> tr_price t)"

fun event_liquidity :: "MarketEvent \<Rightarrow> string \<Rightarrow> f64" where
  "event_liquidity (Quote q) side = max 0 (if side = ''BUY'' then qu_ask_size q else qu_bid_size q)"
| "event_liquidity (Trade t) side = max 0 (tr_size t)"

fun liquidity_identity_of :: "MarketEvent \<Rightarrow> string \<Rightarrow> liquidity_slot \<times> liquidity_identity" where
  "liquidity_identity_of (Quote q) side =
     ((upper (qu_ticker q), LK_quote, side),
      LI_quote (qu_ts q) (qu_sequence q) (qu_bid_price q) (qu_ask_price q) (qu_bid_size q) (qu_ask_size q))"
| "liquidity_identity_of (Trade t) side =
     ((upper (tr_ticker t), LK_trade, side),
      LI_trade (tr_ts t) (tr_sequence t) (tr_price t) (tr_size t))"

definition session_allows :: "wall_clock \<Rightarrow> OrderRequest \<Rightarrow> utc \<Rightarrow> bool" where
  "session_allows ny r t =
     (case ny t of (weekday, minute) \<Rightarrow>
        if 5 \<le> weekday then False
        else if or_outsideRTH r then 4 * 60 \<le> minute \<and> minute < 20 * 60
        else 9 * 60 + 30 \<le> minute \<and> minute < 16 * 60)"

section \<open>How much an order may take\<close>

text \<open>\<open>isclose(requested, round(requested), abs_tol=1e-9)\<close>: the order is for whole shares.\<close>

definition whole_shares :: "Order \<Rightarrow> bool" where
  "whole_shares od =
     isclose lit_1e9 lit_1e9 (requested_quantity od) (float_of_int (py_round (requested_quantity od)))"

definition floor_shares :: "f64 \<Rightarrow> f64" where
  "floor_shares x = float_of_int (py_floor (fadd x lit_1e9))"

definition replace_quantity :: "Order \<Rightarrow> f64 \<Rightarrow> Order result" where
  "replace_quantity od q =
     bind_result (OrderRequest_check ((o_request od)\<lparr>or_quantity := Some q\<rparr>))
       (\<lambda>r. Inr (od\<lparr>o_request := r\<rparr>))"

definition consumed_of :: "Broker \<Rightarrow> liquidity_slot \<Rightarrow> liquidity_identity \<Rightarrow> f64" where
  "consumed_of b slot ident =
     (case map_of (b_liquidity_consumed b) slot of
        None \<Rightarrow> 0
      | Some (prior, consumed) \<Rightarrow> if prior = ident then consumed else 0)"

definition participation_of :: "SimulationConfig \<Rightarrow> bool \<Rightarrow> f64" where
  "participation_of c marketable =
     (case sc_marketable_liquidity_participation c of
        Some p \<Rightarrow> if marketable then p else sc_liquidity_participation c
      | None \<Rightarrow> sc_liquidity_participation c)"

definition slipped_price :: "Broker \<Rightarrow> string \<Rightarrow> string \<Rightarrow> f64 \<Rightarrow> f64" where
  "slipped_price b side order_type price =
     (let bps = sc_market_slippage_bps (b_config b); slippage = fquo bps 10000 in
      if order_type \<in> {''MKT'', ''STP'', ''TRAIL''} \<and> slippage \<noteq> 0 then
        if b_bar_mode b then
          (let adjustment = dquo (short_dec bps) 10000;
               factor = (if side = ''BUY'' then dadd 1 adjustment else dsub 1 adjustment)
           in fl (dmul (short_dec price) factor))
        else fmul price (if side = ''BUY'' then fadd 1 slippage else fsub 1 slippage)
      else price)"

definition affordable_shares :: "Broker \<Rightarrow> Order \<Rightarrow> f64 \<Rightarrow> f64" where
  "affordable_shares b od price =
     (let budget = fadd (account_cash b (o_acct od)) (o_commission_paid od);
          rate = sc_commission_per_share (b_config b);
          affordable = min (fquo (fsub budget (sc_minimum_commission (b_config b))) price)
                           (fquo (fsub budget (fmul (o_filled od) rate)) (fadd price rate))
      in if whole_shares od then floor_shares affordable else affordable)"

text \<open>The no-short cap of a sell: its request shrinks to what the account holds.\<close>

definition cap_to_held :: "Broker \<Rightarrow> string \<Rightarrow> Order \<Rightarrow> Order result" where
  "cap_to_held b side od =
     (if side = ''SELL'' \<and> \<not> sc_allow_short (b_config b) then
        let held = max 0 (po_quantity (position_or_flat b (o_acct od) (o_conid od) (or_ticker (o_request od))))
        in if held < remaining od then replace_quantity od (fadd (o_filled od) held) else Inr od
      else Inr od)"

definition size_capped ::
    "Broker \<Rightarrow> string \<Rightarrow> string \<Rightarrow> bool \<Rightarrow> f64 \<Rightarrow> f64 \<Rightarrow> liquidity_slot \<Rightarrow> liquidity_identity \<Rightarrow>
     Order \<Rightarrow> (f64 \<times> f64) option" where
  "size_capped b side order_type marketable market_price available slot ident od =
     (let available_quantity =
            min (remaining od)
                (max 0 (fsub (fmul available (participation_of (b_config b) marketable))
                             (consumed_of b slot ident)));
          quantity = (if whole_shares od then floor_shares available_quantity
                      else available_quantity)
      in if quantity \<le> 0 then None
         else
           let price = slipped_price b side order_type market_price in
           if side = ''BUY'' \<and> 0 < price then
             let q = min quantity (max 0 (affordable_shares b od price))
             in if q \<le> 0 then None else Some (price, q)
           else Some (price, quantity))"

definition size_candidate ::
    "Broker \<Rightarrow> string \<Rightarrow> string \<Rightarrow> bool \<Rightarrow> f64 \<Rightarrow> f64 \<Rightarrow> liquidity_slot \<Rightarrow> liquidity_identity \<Rightarrow>
     Order \<Rightarrow> (f64 \<times> f64) option result \<times> Order" where
  "size_candidate b side order_type marketable market_price available slot ident od =
     (case cap_to_held b side od of
        Inl e \<Rightarrow> (Inl e, od)
      | Inr od' \<Rightarrow>
          (Inr (size_capped b side order_type marketable market_price available slot ident od'), od'))"

section \<open>The candidate price\<close>

text \<open>\<open>None\<close> in place of a price is the early \<open>return None\<close>. The order comes back with the
  stop flag or the trailing reference it has learned from the event.\<close>

definition stop_trigger :: "wall_clock \<Rightarrow> MarketEvent \<Rightarrow> string \<Rightarrow> f64 \<Rightarrow> Order \<Rightarrow> bool option" where
  "stop_trigger ny e side market_price od =
     (let stop = or0 (or_auxPrice (o_request od));
          reached = (\<lambda>p. if side = ''BUY'' then stop \<le> p else p \<le> stop) in
      if jget (ol_metadata (or_raw (o_request od))) ''stop_trigger_source'' = JStr ''eligible_trade''
      then (case e of
              Trade t \<Rightarrow> if tr_price_eligible ny t then Some (reached (tr_price t)) else None
            | Quote _ \<Rightarrow> None)
      else Some (reached market_price))"

definition is_percent :: "OrderRequest \<Rightarrow> bool" where
  "is_percent r = (case or_trailingType r of Some t \<Rightarrow> strip t = ''%'' | None \<Rightarrow> False)"

definition trail_threshold :: "OrderRequest \<Rightarrow> string \<Rightarrow> f64 \<Rightarrow> f64" where
  "trail_threshold r side reference =
     (let amount = or0 (or_trailingAmt r) in
      if side = ''SELL''
      then if is_percent r then fmul reference (fsub 1 (fquo amount 100)) else fsub reference amount
      else if is_percent r then fmul reference (fadd 1 (fquo amount 100)) else fadd reference amount)"

text \<open>\<open>state.trailing_reference or market_price\<close>, ratcheted in the order's favour.\<close>

definition ratchet :: "string \<Rightarrow> f64 \<Rightarrow> f64 \<Rightarrow> f64" where
  "ratchet side reference market_price =
     (let base = (if reference = 0 then market_price else reference)
      in if side = ''SELL'' then max base market_price else min base market_price)"

definition limit_price :: "Broker \<Rightarrow> MarketEvent \<Rightarrow> string \<Rightarrow> f64 \<Rightarrow> OrderRequest \<Rightarrow> (bool \<times> f64) option" where
  "limit_price b e side market_price r =
     (let limit = or0 (or_price r) in
      case e of
        Trade t \<Rightarrow>
          if (if side = ''BUY'' then tr_price t \<le> limit else limit \<le> tr_price t) then
            let quote = (case map_of (b_quotes b) (or_conid r) of
                           Some q \<Rightarrow> Some q | None \<Rightarrow> map_of (b_quotes_by_ticker b) (upper (or_ticker r)));
                touch = (case quote of None \<Rightarrow> 0
                         | Some q \<Rightarrow> if side = ''BUY'' then qu_ask_price q else qu_bid_price q)
            in if 0 < touch \<and> (if side = ''BUY'' then touch \<le> limit else limit \<le> touch)
               then Some (True, if side = ''BUY'' then min touch limit else max touch limit)
               else Some (False, limit)
          else None
      | Quote _ \<Rightarrow>
          if (side = ''BUY'' \<and> limit < market_price) \<or> (side = ''SELL'' \<and> market_price < limit)
          then None
          else Some (True, if side = ''BUY'' then min market_price limit else max market_price limit))"

text \<open>
  The middle part of \<open>_fill_candidate\<close>: the order type after a triggered stop or trail, and
  whether the order goes on. A \<open>STOP_LIMIT\<close> keeps its type, so a triggered one is priced as
  a limit.
\<close>

definition arm_order :: "wall_clock \<Rightarrow> MarketEvent \<Rightarrow> string \<Rightarrow> f64 \<Rightarrow> Order \<Rightarrow> string option \<times> Order" where
  "arm_order ny e side market_price od =
     (let order_type = upper (or_orderType (o_request od)) in
      if order_type \<in> {''STP'', ''STOP_LIMIT''} \<and> \<not> o_stop_triggered od then
        (case stop_trigger ny e side market_price od of
           None \<Rightarrow> (None, od)
         | Some hit \<Rightarrow>
             (if hit then Some (if order_type = ''STP'' then ''MKT'' else order_type) else None,
              od\<lparr>o_stop_triggered := hit\<rparr>))
      else if order_type = ''TRAIL'' then
        if or0 (or_trailingAmt (o_request od)) \<le> 0 then (None, od)
        else
          let reference = ratchet side (o_trailing_reference od) market_price;
              od' = od\<lparr>o_trailing_reference := reference\<rparr>;
              threshold = trail_threshold (o_request od) side reference
          in (if (if side = ''SELL'' then threshold < market_price else market_price < threshold)
              then None else Some ''MKT'', od')
      else (Some order_type, od))"

text \<open>
  An armed \<open>STP\<close> that is met again after its trigger keeps the type \<open>STP\<close> and counts as
  not marketable, as in the code, where \<open>marketable\<close> is set on the event that triggers it.
\<close>

definition armed_price ::
    "Broker \<Rightarrow> MarketEvent \<Rightarrow> string \<Rightarrow> f64 \<Rightarrow> string \<Rightarrow> OrderRequest \<Rightarrow> (bool \<times> f64) option" where
  "armed_price b e side market_price order_type r =
     (if order_type \<in> {''LMT'', ''STOP_LIMIT'', ''TRAILLMT''} then limit_price b e side market_price r
      else if order_type = ''MIDPRICE'' then
        (case map_of (b_quotes b) (or_conid r) of
           None \<Rightarrow> None
         | Some q \<Rightarrow> if qu_midpoint q \<le> 0 then None else Some (False, qu_midpoint q))
      else if order_type \<in> {''MKT'', ''STP'', ''TRAIL''} then Some (order_type = ''MKT'', market_price)
      else None)"

definition fill_candidate ::
    "wall_clock \<Rightarrow> Broker \<Rightarrow> MarketEvent \<Rightarrow> Order \<Rightarrow> (f64 \<times> f64) option result \<times> Order" where
  "fill_candidate ny b e od =
     (let r = o_request od; side = upper (or_side r);
          market_price = executable_price b (or_conid r) side e in
      if market_price \<le> 0 then (Inr None, od)
      else case arm_order ny e side market_price od of
        (None, od') \<Rightarrow> (Inr None, od')
      | (Some order_type, od') \<Rightarrow>
          (case armed_price b e side market_price order_type r of
             None \<Rightarrow> (Inr None, od')
           | Some (marketable, price) \<Rightarrow>
               (let identity = liquidity_identity_of e side
                in size_candidate b side order_type marketable price (event_liquidity e side)
                     (fst identity) (snd identity) od')))"

end
