(* ===== verification/SimBook.thy ===== *)
theory SimBook
  imports SimFill
begin

text \<open>
  \<open>_apply_fill\<close> of \<open>simulated_broker.py\<close> and what it touches: the order and its group, the
  position, the cash, the running performance figures. \<open>b_orders\<close> holds the one copy of each
  order; a loop over \<open>self._orders.values()\<close> that mutates what it visits is \<open>map_values\<close>, and
  \<open>for_each\<close> where a visit may raise.
\<close>

section \<open>Writing one order\<close>

definition put_order :: "Order \<Rightarrow> Broker \<Rightarrow> Broker" where
  "put_order od b = b\<lparr>b_orders := AList.update (o_order_id od) od (b_orders b)\<rparr>"

definition cancel_with :: "string \<Rightarrow> Order \<Rightarrow> Order" where
  "cancel_with reason od = od\<lparr>o_status := ST_CANCELLED, o_status_description := reason\<rparr>"

definition activate_children :: "string \<Rightarrow> Broker \<Rightarrow> Broker" where
  "activate_children coid b =
     (if coid = [] then b
      else b\<lparr>b_orders := map_values
        (\<lambda>od. if or_parentId (o_request od) = Some coid \<and> o_status od = ST_INACTIVE
              then od\<lparr>o_status := ST_SUBMITTED\<rparr> else od) (b_orders b)\<rparr>)"

definition cancel_children :: "string \<Rightarrow> string \<Rightarrow> Broker \<Rightarrow> Broker" where
  "cancel_children coid reason b =
     (if coid = [] then b
      else b\<lparr>b_orders := map_values
        (\<lambda>od. if or_parentId (o_request od) = Some coid \<and> is_open od
              then cancel_with reason od else od) (b_orders b)\<rparr>)"

text \<open>The group of an order: its one-cancels-all group, else the children of its parent.\<close>

definition in_group :: "Order \<Rightarrow> Order \<Rightarrow> bool" where
  "in_group filled od =
     (case o_oca_group filled of
        Some g \<Rightarrow> o_oca_group od = Some g
      | None \<Rightarrow> (case parent_of (o_request filled) of
                  Some p \<Rightarrow> or_parentId (o_request od) = Some p
                | None \<Rightarrow> False))"

definition oca_reason :: "int \<Rightarrow> string" where
  "oca_reason oid = ''OCA sibling '' @ show_int oid @ '' filled''"

definition cancel_oca_siblings :: "Order \<Rightarrow> Broker \<Rightarrow> Broker" where
  "cancel_oca_siblings filled b =
     (if list_ex (\<lambda>od. in_group filled od \<and> or_isSingleGroup (o_request od)) (orders_of b)
      then b\<lparr>b_orders := map_values
        (\<lambda>od. if in_group filled od \<and> o_order_id od \<noteq> o_order_id filled \<and> is_open od
              then cancel_with (oca_reason (o_order_id filled)) od else od) (b_orders b)\<rparr>
      else b)"

definition is_single_exit_group_member :: "Order \<Rightarrow> bool" where
  "is_single_exit_group_member od =
     (or_isSingleGroup (o_request od) \<and>
      (o_oca_group od \<noteq> None \<or> parent_of (o_request od) \<noteq> None))"

text \<open>One visit of the loop in \<open>_reduce_single_exit_sibling_capacity\<close>, and the loop.\<close>

definition reduce_sibling :: "f64 \<Rightarrow> Order \<Rightarrow> Order result" where
  "reduce_sibling quantity sibling =
     (let next_remaining = max 0 (fsub (remaining sibling) quantity) in
      bind_result (replace_quantity sibling (fadd (o_filled sibling) next_remaining)) (\<lambda>s.
        Inr (if next_remaining \<le> lit_1e12
             then cancel_with ''OCA capacity was filled by a sibling'' s else s)))"

definition reduce_visit :: "Order \<Rightarrow> f64 \<Rightarrow> int \<Rightarrow> (Broker, unit) act" where
  "reduce_visit filled quantity oid b =
     (case map_of (b_orders b) oid of
        None \<Rightarrow> (Inr (), b)
      | Some sibling \<Rightarrow>
          if o_order_id sibling = o_order_id filled \<or> \<not> in_group filled sibling \<or> \<not> is_open sibling
          then (Inr (), b)
          else (case reduce_sibling quantity sibling of
                  Inl e \<Rightarrow> (Inl e, b)
                | Inr s \<Rightarrow> (Inr (), put_order s b)))"

definition reduce_single_exit_sibling_capacity :: "Order \<Rightarrow> f64 \<Rightarrow> (Broker, unit) act" where
  "reduce_single_exit_sibling_capacity filled quantity b =
     abind (for_each (reduce_visit filled quantity) (dkeys (b_orders b))) (\<lambda>_. aret ()) b"

section \<open>Booking\<close>

definition signed_quantity :: "string \<Rightarrow> f64 \<Rightarrow> f64" where
  "signed_quantity side quantity = (if side = ''BUY'' then quantity else - quantity)"

text \<open>The position after an execution, and the profit the execution realized.\<close>

definition book_position :: "Position \<Rightarrow> f64 \<Rightarrow> f64 \<Rightarrow> Position \<times> f64" where
  "book_position p signed price =
     (let old_qty = po_quantity p; new_qty = fadd old_qty signed in
      if old_qty = 0 \<or> 0 < fmul old_qty signed then
        let total_cost = fadd (fmul (po_avg_cost p) \<bar>old_qty\<bar>) (fmul price \<bar>signed\<bar>)
        in (p\<lparr>po_avg_cost := (if new_qty \<noteq> 0 then fquo total_cost \<bar>new_qty\<bar> else 0),
              po_quantity := new_qty\<rparr>, 0)
      else
        let closing = min \<bar>old_qty\<bar> \<bar>signed\<bar>;
            direction = (if 0 < old_qty then 1 else -1);
            realized = fmul (fmul (fsub price (po_avg_cost p)) closing) direction
        in (p\<lparr>po_realized_pnl := fadd (po_realized_pnl p) realized,
              po_avg_cost := (if \<bar>old_qty\<bar> < \<bar>signed\<bar> then price
                              else if new_qty = 0 then 0 else po_avg_cost p),
              po_quantity := new_qty\<rparr>, realized))"

text \<open>The derived index of held contracts: an entry goes in before the booking and comes out
  when no account holds the contract any more.\<close>

definition index_position :: "string \<Rightarrow> int \<Rightarrow> Broker \<Rightarrow> Broker" where
  "index_position ticker conid b =
     b\<lparr>b_position_conids_by_ticker :=
        AList.update ticker (List.insert conid (dget (b_position_conids_by_ticker b) ticker []))
          (b_position_conids_by_ticker b)\<rparr>"

definition unindex_position :: "string \<Rightarrow> int \<Rightarrow> Broker \<Rightarrow> Broker" where
  "unindex_position ticker conid b =
     (if list_ex (\<lambda>ps. case map_of ps conid of Some p \<Rightarrow> po_quantity p \<noteq> 0 | None \<Rightarrow> False)
           (dvalues (b_positions b)) then b
      else case map_of (b_position_conids_by_ticker b) ticker of
        None \<Rightarrow> b
      | Some conids \<Rightarrow>
          (let rest = filter (\<lambda>c. c \<noteq> conid) conids
           in b\<lparr>b_position_conids_by_ticker :=
                 (if rest = [] then AList.delete ticker (b_position_conids_by_ticker b)
                  else AList.update ticker rest (b_position_conids_by_ticker b))\<rparr>))"

definition book_execution :: "OrderRequest \<Rightarrow> f64 \<Rightarrow> f64 \<Rightarrow> f64 \<Rightarrow> Broker \<Rightarrow> Broker" where
  "book_execution r price quantity comm b =
     (let a = or_acctId r; conid = or_conid r; ticker = upper (or_ticker r);
          signed = signed_quantity (upper (or_side r)) quantity;
          booked = book_position (position_or_flat b a conid (or_ticker r)) signed price;
          p = fst booked; realized = snd booked;
          b1 = index_position ticker conid b;
          b2 = b1\<lparr>b_positions := AList.update a (AList.update conid p (account_positions b a)) (b_positions b1),
                  b_realized_pnl := AList.update a (fadd (dget (b_realized_pnl b) a 0) realized) (b_realized_pnl b1)\<rparr>;
          b3 = (if po_quantity p = 0 then unindex_position ticker conid b2 else b2)
      in b3\<lparr>b_cash := AList.update a (fsub (account_cash b a) (fadd (fmul signed price) comm)) (b_cash b3)\<rparr>)"

section \<open>Performance extrema\<close>

definition observe_performance :: "int \<Rightarrow> utc option \<Rightarrow> Broker \<Rightarrow> Broker" where
  "observe_performance conid seen b =
     (let held = filter (\<lambda>p. po_quantity p \<noteq> 0)
            (concat (map (\<lambda>ps. opt_list (map_of ps conid)) (dvalues (b_positions b))));
          mark = (\<lambda>p. dget (b_marks b) conid (po_avg_cost p));
          unrealized = fold (\<lambda>p s. fadd s (fmul (fsub (mark p) (po_avg_cost p)) (po_quantity p))) held 0;
          market_value = fold (\<lambda>p s. fadd s (fmul (mark p) (po_quantity p))) held 0;
          previous = dget (b_performance_marks b) conid (0, 0);
          marks = (if unrealized \<noteq> 0 \<or> market_value \<noteq> 0
                   then AList.update conid (unrealized, market_value) (b_performance_marks b)
                   else AList.delete conid (b_performance_marks b));
          p = b_performance b;
          u = (if marks = [] then 0 else fadd (pf_unrealized p) (fsub unrealized (fst previous)));
          v = (if marks = [] then 0 else fadd (pf_market_value p) (fsub market_value (snd previous)));
          equity = fsub (fadd (fsum (dvalues (b_cash b))) v)
                        (fmul (sc_initial_cash (b_config b)) (float_of_int (int (length (b_account_ids b)))));
          peak = max (pf_equity_peak p) equity
      in b\<lparr>b_performance_marks := marks,
           b_performance := p\<lparr>pf_unrealized := u, pf_market_value := v,
             pf_peak_unrealized := max (pf_peak_unrealized p) u,
             pf_worst_unrealized := min (pf_worst_unrealized p) u,
             pf_equity_peak := peak,
             pf_maximum_drawdown := max (pf_maximum_drawdown p) (fsub peak equity),
             pf_as_of := (case seen of Some t \<Rightarrow> Some t | None \<Rightarrow> pf_as_of p)\<rparr>\<rparr>)"

section \<open>Applying a fill\<close>

text \<open>The order after taking \<open>quantity\<close> at \<open>price\<close>.\<close>

definition fill_order :: "f64 \<Rightarrow> f64 \<Rightarrow> Order \<Rightarrow> Order result" where
  "fill_order price quantity od =
     (let prior_value = fmul (o_avg_price od) (o_filled od);
          od1 = od\<lparr>o_filled := fadd (o_filled od) quantity\<rparr> in
      bind_result (fdiv (fadd prior_value (fmul price quantity)) (o_filled od1)) (\<lambda>avg.
        let od2 = od1\<lparr>o_avg_price := avg\<rparr>
        in Inr (od2\<lparr>o_status := (if remaining od2 \<le> lit_1e12 then ST_FILLED else ST_SUBMITTED)\<rparr>)))"

text \<open>\<open>int(ts.timestamp() * 1000)\<close>.\<close>

definition timestamp_scaled :: "int \<Rightarrow> utc \<Rightarrow> int" where
  "timestamp_scaled factor t =
     (let x = fmul (fquo (of_int t) 1000000) (of_int factor)
      in if 0 \<le> x then \<lfloor>x\<rfloor> else \<lceil>x\<rceil>)"

definition execution_of :: "SimulationConfig \<Rightarrow> int \<Rightarrow> Order \<Rightarrow> utc \<Rightarrow> f64 \<Rightarrow> f64 \<Rightarrow> f64 \<Rightarrow> BrokerExecution" where
  "execution_of c n od t price quantity comm =
     (let r = o_request od in
      \<lparr>bx_execution_id = ''SIM-'' @ show_int n, bx_symbol = or_ticker r,
       bx_side = (if upper (or_side r) = ''BUY'' then ''B'' else ''S''), bx_order_ref = or_cOID r,
       bx_trade_time = t, bx_trade_time_r = timestamp_scaled 1000 t, bx_size = quantity,
       bx_price = price, bx_order_id = o_order_id od, bx_account = or_acctId r,
       bx_conid = or_conid r, bx_commission = Some comm, bx_currency = sc_base_currency c,
       bx_raw = (or_raw r)\<lparr>ol_command_id := []\<rparr>\<rparr>)"

definition record_fill :: "int \<Rightarrow> utc \<Rightarrow> f64 \<Rightarrow> f64 \<Rightarrow> (Broker, BrokerExecution) act" where
  "record_fill oid t price quantity b =
     (case map_of (b_orders b) oid of
        None \<Rightarrow> (Inl (PyKeyError ''order''), b)
      | Some od \<Rightarrow>
          (let settled = incremental_order_commission (b_config b) od;
               comm = fst settled; od' = snd settled;
               x = execution_of (b_config b) (b_next_execution_id b) od' t price quantity comm;
               b1 = (put_order od' b)\<lparr>b_next_execution_id := b_next_execution_id b + 1,
                                      b_executions := b_executions b @ [x]\<rparr>;
               b2 = observe_performance (o_conid od') (Some t)
                      (book_execution (o_request od') price quantity comm b1);
               b3 = (if o_status od' = ST_FILLED
                     then cancel_oca_siblings od' (activate_children (o_cOID od') b2) else b2)
           in (Inr x, b3)))"

definition apply_fill :: "int \<Rightarrow> utc \<Rightarrow> f64 \<Rightarrow> f64 \<Rightarrow> (Broker, BrokerExecution) act" where
  "apply_fill oid t price quantity b =
     (case map_of (b_orders b) oid of
        None \<Rightarrow> (Inl (PyKeyError ''order''), b)
      | Some od \<Rightarrow>
          (case fill_order price quantity od of
             Inl e \<Rightarrow> (Inl e, put_order (od\<lparr>o_filled := fadd (o_filled od) quantity\<rparr>) b)
           | Inr od' \<Rightarrow>
               abind (if is_single_exit_group_member od' \<and> o_status od' \<noteq> ST_FILLED
                      then reduce_single_exit_sibling_capacity od' quantity else aret ())
                 (\<lambda>_. record_fill oid t price quantity) (put_order od' b)))"

end
