(* ===== verification/SimMatch.thy ===== *)
theory SimMatch
  imports SimBook
begin

text \<open>
  Market data and order matching in \<open>simulated_broker.py\<close>: event marks, the matching loop over
  orders frozen as eligible, the re-match of new orders against the current quote, and the
  completed 100 ms liquidity bar with its validation.
\<close>

section \<open>Events\<close>

definition observe_market_event :: "wall_clock \<Rightarrow> MarketEvent \<Rightarrow> (Broker, int) act" where
  "observe_market_event ny e b =
     (case require_initialized b of Inl x \<Rightarrow> (Inl x, b) | Inr _ \<Rightarrow>
      if (case e of Trade t \<Rightarrow> \<not> tr_price_eligible ny t | Quote _ \<Rightarrow> False) then (Inr 0, b)
      else
        let key = upper (ev_ticker e);
            b1 = (case e of
                    Quote q \<Rightarrow> b\<lparr>b_quotes_by_ticker := AList.update key q (b_quotes_by_ticker b)\<rparr>
                  | Trade t \<Rightarrow> b\<lparr>b_trades_by_ticker := AList.update key t (b_trades_by_ticker b)\<rparr>);
            conid = event_conid b1 e in
        if conid \<le> 0 then (Inr 0, b1)
        else
          let b2 = (case e of
                      Quote q \<Rightarrow> b1\<lparr>b_quotes := AList.update conid q (b_quotes b1)\<rparr>
                    | Trade t \<Rightarrow> b1\<lparr>b_trades := AList.update conid t (b_trades b1)\<rparr>);
              price = (case e of Quote q \<Rightarrow> qu_midpoint q | Trade t \<Rightarrow> tr_price t);
              b3 = (if 0 < price then b2\<lparr>b_marks := AList.update conid price (b_marks b2)\<rparr> else b2)
          in (Inr conid, observe_performance conid (Some (ev_ts e)) b3))"

definition is_working :: "Order \<Rightarrow> bool" where
  "is_working od = (o_status od \<in> {ST_SUBMITTED, ST_PRE_SUBMITTED})"

text \<open>\<open>t < submitted_at + timedelta(milliseconds=delay)\<close>; a \<open>timedelta\<close> holds whole
  microseconds, rounded half to even.\<close>

definition activation_pending :: "SimulationConfig \<Rightarrow> Order \<Rightarrow> utc \<Rightarrow> bool" where
  "activation_pending c od t =
     (sc_new_order_activation_delay_ms c \<noteq> 0 \<and>
      t < o_submitted_at od + rhe (sc_new_order_activation_delay_ms c * 1000))"

definition consume :: "liquidity_slot \<Rightarrow> liquidity_identity \<Rightarrow> f64 \<Rightarrow> Broker \<Rightarrow> Broker" where
  "consume slot ident quantity b =
     b\<lparr>b_liquidity_consumed :=
        AList.update slot (ident, fadd (consumed_of b slot ident) quantity) (b_liquidity_consumed b)\<rparr>"

text \<open>One visit of the loop in \<open>_match_orders\<close>.\<close>

definition match_visit :: "wall_clock \<Rightarrow> MarketEvent \<Rightarrow> utc \<Rightarrow> int \<Rightarrow> (Broker, BrokerExecution list) act" where
  "match_visit ny e fill_time oid b =
     (case map_of (b_orders b) oid of
        None \<Rightarrow> (Inr [], b)
      | Some od \<Rightarrow>
          if activation_pending (b_config b) od fill_time \<or> \<not> is_working od \<or>
             \<not> session_allows ny (o_request od) (ev_ts e)
          then (Inr [], b)
          else (case fill_candidate ny b e od of
              (Inl x, od') \<Rightarrow> (Inl x, put_order od' b)
            | (Inr None, od') \<Rightarrow> (Inr [], put_order od' b)
            | (Inr (Some (price, quantity)), od') \<Rightarrow>
                abind (apply_fill oid fill_time price quantity) (\<lambda>x.
                  let (slot, ident) = liquidity_identity_of e (o_side od)
                  in abind (aupd (consume slot ident quantity)) (\<lambda>_. aret [x]))
                  (put_order od' b)))"

definition eligible_ids :: "Broker \<Rightarrow> int \<Rightarrow> int list option \<Rightarrow> int list" where
  "eligible_ids b conid broker_order_ids =
     map o_order_id (filter (\<lambda>od. o_conid od = conid \<and>
         (case broker_order_ids of None \<Rightarrow> True | Some ids \<Rightarrow> o_order_id od \<in> set ids) \<and>
         is_working od) (sorted_orders b))"

definition match_orders ::
    "wall_clock \<Rightarrow> MarketEvent \<Rightarrow> utc \<Rightarrow> int list option \<Rightarrow> (Broker, BrokerExecution list) act" where
  "match_orders ny e fill_time broker_order_ids b =
     (let conid = event_conid b e in
      if conid \<le> 0 then (Inr [], b)
      else abind (for_each (match_visit ny e fill_time) (eligible_ids b conid broker_order_ids))
             (\<lambda>xss. aret (concat xss)) b)"

definition on_market_event :: "wall_clock \<Rightarrow> MarketEvent \<Rightarrow> (Broker, BrokerExecution list) act" where
  "on_market_event ny e b =
     (if b_bar_mode b
      then (Inl (RuntimeError ''Liquidity-bar broker mode cannot mix with market events''), b)
      else abind (observe_market_event ny e) (\<lambda>conid b1.
        if conid \<le> 0 \<or> b_orders b1 = [] then (Inr [], b1)
        else match_orders ny e (ev_ts e) None b1) b)"

text \<open>\<open>match_current_orders\<close>: the quote already visible when the decision was made.\<close>

definition decision_quote ::
    "QuoteEvent \<Rightarrow> utc \<Rightarrow> f64 option \<Rightarrow> f64 option \<Rightarrow> utc option \<Rightarrow> QuoteEvent option" where
  "decision_quote q t bid ask observed =
     (case (bid, ask) of
        (Some x, Some y) \<Rightarrow>
          if 0 < x \<and> x \<le> y then
            (let observed_at = (case observed of Some u \<Rightarrow> u | None \<Rightarrow> t) in
             if t < observed_at then None
             else Some (q\<lparr>qu_bid_price := x, qu_ask_price := y, qu_ts := observed_at\<rparr>))
          else Some q
      | _ \<Rightarrow> Some q)"

definition match_current_orders ::
    "wall_clock \<Rightarrow> string \<Rightarrow> utc \<Rightarrow> int list \<Rightarrow> f64 option \<Rightarrow> f64 option \<Rightarrow> utc option \<Rightarrow>
     (Broker, BrokerExecution list) act" where
  "match_current_orders ny ticker t broker_order_ids bid ask observed b =
     (if b_mode b \<notin> {MODE_REPLAY, MODE_BACKTEST, MODE_BACKTEST_DEBUG} \<or> b_bar_mode b then (Inr [], b)
      else
        let key = upper ticker;
            conids = sort (remdups (map o_conid (filter (\<lambda>od. o_ticker od = key \<and>
               (broker_order_ids = [] \<or> o_order_id od \<in> set broker_order_ids) \<and> is_working od)
               (orders_of b))));
            requested = (if broker_order_ids = [] then None else Some broker_order_ids)
        in abind (for_each (\<lambda>conid b.
             case (case map_of (b_quotes b) conid of Some q \<Rightarrow> Some q
                   | None \<Rightarrow> map_of (b_quotes_by_ticker b) key) of
               None \<Rightarrow> (Inr [], b)
             | Some q \<Rightarrow>
                 if t < qu_ts q then (Inr [], b)
                 else (case decision_quote q t bid ask observed of
                     None \<Rightarrow> (Inr [], b)
                   | Some q' \<Rightarrow> match_orders ny (Quote q') t requested b)) conids)
             (\<lambda>xss. aret (concat xss)) b)"

section \<open>Liquidity bars\<close>

text \<open>The columns of a completed bucket; an absent one is 0, as \<open>row.get(key) or 0\<close> reads it.\<close>

record LiquidityBar =
  lq_resolution_ms :: int
  lq_ticker :: string
  lq_event_count :: int
  lq_bucket_index :: int
  lq_first_event_us :: int
  lq_last_event_us :: int
  lq_quote_timestamp_us :: int
  lq_quote_valid :: bool
  lq_bid_int :: int
  lq_ask_int :: int
  lq_bid_size :: f64
  lq_ask_size :: f64
  lq_extremes_valid :: bool
  lq_low_int :: int
  lq_high_int :: int
  lq_price_valid :: bool
  lq_close_int :: int
  lq_execution_volume :: f64
  lq_levels :: "(int \<times> f64) list option"

definition price_of_int :: "int \<Rightarrow> f64" where
  "price_of_int n = fquo (float_of_int n) 10000"

definition bar_ticker :: "LiquidityBar \<Rightarrow> string" where
  "bar_ticker row = upper (strip (lq_ticker row))"

definition BUCKET_US :: int where "BUCKET_US = 100000"

text \<open>The loop over the price levels: increasing prices, positive volumes, their sum.\<close>

fun check_levels :: "(int \<times> f64) list \<Rightarrow> int \<Rightarrow> f64 \<Rightarrow> f64 result" where
  "check_levels [] prior acc = Inr acc"
| "check_levels ((price, volume) # ls) prior acc =
     (if price \<le> prior \<or> volume \<le> 0
      then Inl (ValueError ''Broker execution price levels are invalid or unordered'')
      else check_levels ls price (fadd acc volume))"

definition passive_without_levels ::
    "wall_clock \<Rightarrow> Broker \<Rightarrow> LiquidityBar \<Rightarrow> bool \<Rightarrow> utc \<Rightarrow> Order \<Rightarrow> bool" where
  "passive_without_levels ny b row valid_quote t od =
     (let r = o_request od; order_type = upper (or_orderType r);
          limit = or0 (or_price r);
          touch = (if valid_quote then price_of_int (if o_side od = ''BUY'' then lq_ask_int row else lq_bid_int row) else 0)
      in is_working od \<and> o_submitted_at od \<le> t - BUCKET_US \<and>
         order_type \<in> {''LMT'', ''STOP_LIMIT''} \<and>
         (order_type = ''STOP_LIMIT'' \<longrightarrow> o_stop_triggered od) \<and>
         session_allows ny r t \<and> 0 < limit \<and>
         \<not> (0 < touch \<and> (if o_side od = ''BUY'' then touch \<le> limit else limit \<le> touch)))"

definition indexed_orders :: "Broker \<Rightarrow> string \<Rightarrow> Order list" where
  "indexed_orders b ticker =
     concat (map (\<lambda>i. opt_list (map_of (b_orders b) i)) (dget (b_orders_by_ticker b) ticker []))"

text \<open>\<open>bool(quote_valid) and 0 < quote_us <= last_us and boundary_us - quote_us <= 1_000_000\<close>.\<close>

definition quote_usable :: "LiquidityBar \<Rightarrow> utc \<Rightarrow> bool" where
  "quote_usable row t =
     (lq_quote_valid row \<and> 0 < lq_quote_timestamp_us row \<and>
      lq_quote_timestamp_us row \<le> lq_last_event_us row \<and>
      timestamp_scaled 1000000 t - lq_quote_timestamp_us row \<le> 1000000)"

definition check_bar_levels :: "wall_clock \<Rightarrow> Broker \<Rightarrow> LiquidityBar \<Rightarrow> utc \<Rightarrow> unit result" where
  "check_bar_levels ny b row t =
     (case lq_levels row of
        Some levels \<Rightarrow>
          bind_result (check_levels levels 0 0) (\<lambda>volume.
            if isclose lit_1e9 (fl (1 / 10 ^ 6)) volume (lq_execution_volume row) then Inr ()
            else Inl (ValueError ''Broker execution price levels differ from eligible volume''))
      | None \<Rightarrow>
          if 0 < lq_execution_volume row \<and>
             list_ex (passive_without_levels ny b row (quote_usable row t) t)
               (indexed_orders b (bar_ticker row))
          then Inl (RuntimeError ''Passive bar fill requires certified eligible price-volume levels'')
          else Inr ())"

definition bar_first_us :: "LiquidityBar \<Rightarrow> int" where
  "bar_first_us row =
     (if lq_first_event_us row = 0 then lq_last_event_us row else lq_first_event_us row)"

definition validate_liquidity_bar ::
    "wall_clock \<Rightarrow> Broker \<Rightarrow> LiquidityBar \<Rightarrow> datetime \<Rightarrow> unit result" where
  "validate_liquidity_bar ny b row at_time =
     (let t = instant at_time; ticker = bar_ticker row;
          start_us = timestamp_scaled 1000000 (t - BUCKET_US);
          boundary_us = timestamp_scaled 1000000 t;
          last_us = lq_last_event_us row; quote_us = lq_quote_timestamp_us row;
          bid = price_of_int (lq_bid_int row); ask = price_of_int (lq_ask_int row);
          low = (if lq_extremes_valid row then price_of_int (lq_low_int row) else 0);
          high = (if lq_extremes_valid row then price_of_int (lq_high_int row) else 0) in
      if \<not> is_aware at_time \<or> lq_resolution_ms row \<noteq> 100
      then Inl (ValueError ''Broker requires a completed, timezone-aware 100ms liquidity bar'')
      else if ticker = [] \<or> lq_event_count row \<le> 0
      then Inl (ValueError ''Broker liquidity bar requires a ticker and source events'')
      else if last_us < start_us \<or> boundary_us \<le> last_us
      then Inl (ValueError ''Broker liquidity events must belong to the completed bucket'')
      else if last_us < bar_first_us row \<or> bar_first_us row < start_us
      then Inl (ValueError ''Broker liquidity bucket has invalid source event bounds'')
      else if (case map_of (b_bar_boundaries b) ticker of Some p \<Rightarrow> t \<le> p | None \<Rightarrow> False)
      then Inl (ValueError ''Broker liquidity buckets must advance by ticker'')
      else if lq_quote_valid row \<and> \<not> (0 < quote_us \<and> quote_us \<le> last_us)
      then Inl (ValueError ''Broker liquidity bar has invalid quote provenance'')
      else if quote_usable row t \<and>
              (bid \<le> 0 \<or> ask < bid \<or> min (lq_bid_size row) (lq_ask_size row) < 0)
      then Inl (ValueError ''Broker liquidity bar contains an invalid quote'')
      else if lq_execution_volume row < 0 \<or> (lq_extremes_valid row \<and> (low \<le> 0 \<or> high < low))
      then Inl (ValueError ''Broker liquidity bar contains invalid trade aggregates'')
      else check_bar_levels ny b row t)"

text \<open>The numbers \<open>_on_validated_liquidity_bar\<close> reads from a row.\<close>

record BarView =
  bv_ticker :: string
  bv_at :: utc
  bv_quote :: "QuoteEvent option"
  bv_bid :: f64
  bv_ask :: f64
  bv_bid_size :: f64
  bv_ask_size :: f64
  bv_close :: f64
  bv_low :: f64
  bv_high :: f64
  bv_volume :: f64
  bv_levels :: "(int \<times> f64) list option"
  bv_identity :: liquidity_identity

definition bar_quote :: "LiquidityBar \<Rightarrow> utc \<Rightarrow> QuoteEvent" where
  "bar_quote row t =
     \<lparr>qu_ask_exchange = 0, qu_ask_price = price_of_int (lq_ask_int row), qu_ask_size = lq_ask_size row,
      qu_bid_exchange = 0, qu_bid_price = price_of_int (lq_bid_int row), qu_bid_size = lq_bid_size row,
      qu_conditions = [], qu_indicators = [], qu_ingest_ts = t,
      qu_raw = \<lparr>er_conid = None, er_con_id = None, er_price_eligible = None, er_volume_eligible = None\<rparr>, qu_sequence = 0,
      qu_source = ''arte.liquidity_100ms_v1'', qu_tape = 0, qu_ticker = bar_ticker row,
      qu_ts = lq_quote_timestamp_us row\<rparr>"

definition view_bar :: "LiquidityBar \<Rightarrow> utc \<Rightarrow> BarView" where
  "view_bar row t =
     (let valid = (lq_quote_valid row \<and> timestamp_scaled 1000000 t - lq_quote_timestamp_us row \<le> 1000000) in
      \<lparr>bv_ticker = bar_ticker row, bv_at = t,
       bv_quote = (if valid then Some (bar_quote row t) else None),
       bv_bid = price_of_int (lq_bid_int row), bv_ask = price_of_int (lq_ask_int row),
       bv_bid_size = lq_bid_size row, bv_ask_size = lq_ask_size row,
       bv_close = (if lq_price_valid row then price_of_int (lq_close_int row) else 0),
       bv_low = (if lq_extremes_valid row then price_of_int (lq_low_int row) else 0),
       bv_high = (if lq_extremes_valid row then price_of_int (lq_high_int row) else 0),
       bv_volume = lq_execution_volume row, bv_levels = lq_levels row,
       bv_identity = LI_bar t (lq_bucket_index row)\<rparr>)"

text \<open>The bar's effect on marks, quotes and the derived index, before any order is visited.\<close>

definition compact_index :: "string \<Rightarrow> Broker \<Rightarrow> Broker" where
  "compact_index ticker b =
     (let ids = dget (b_orders_by_ticker b) ticker [];
          active = filter (\<lambda>i. case map_of (b_orders b) i of Some od \<Rightarrow> is_open od | None \<Rightarrow> False) ids
      in if ids = [] \<or> length active = length ids then b
         else b\<lparr>b_orders_by_ticker :=
                 (if active = [] then AList.delete ticker (b_orders_by_ticker b)
                  else AList.update ticker active (b_orders_by_ticker b))\<rparr>)"

definition publish_bar :: "BarView \<Rightarrow> Broker \<Rightarrow> Broker" where
  "publish_bar v b =
     (let ticker = bv_ticker v;
          mark = (if bv_close v \<noteq> 0 then bv_close v
                  else case bv_quote v of Some q \<Rightarrow> qu_midpoint q | None \<Rightarrow> 0) in
      compact_index ticker
        (b\<lparr>b_trades_by_ticker := AList.delete ticker (b_trades_by_ticker b),
           b_bar_mode := True,
           b_bar_boundaries := AList.update ticker (bv_at v) (b_bar_boundaries b),
           b_bar_marks_by_ticker :=
             (if 0 < mark then AList.update ticker mark (b_bar_marks_by_ticker b)
              else AList.delete ticker (b_bar_marks_by_ticker b)),
           b_quotes_by_ticker :=
             (case bv_quote v of
                Some q \<Rightarrow> AList.update ticker q (AList.delete ticker (b_quotes_by_ticker b))
              | None \<Rightarrow> AList.delete ticker (b_quotes_by_ticker b))\<rparr>))"

definition mark_conid :: "BarView \<Rightarrow> int \<Rightarrow> Broker \<Rightarrow> Broker" where
  "mark_conid v conid b =
     (let mark = (if bv_close v \<noteq> 0 then bv_close v
                  else case bv_quote v of Some q \<Rightarrow> qu_midpoint q | None \<Rightarrow> 0);
          b1 = b\<lparr>b_quotes := (case bv_quote v of Some q \<Rightarrow> AList.update conid q (b_quotes b)
                              | None \<Rightarrow> AList.delete conid (b_quotes b)),
                 b_trades := AList.delete conid (b_trades b)\<rparr>
      in if 0 < mark
         then observe_performance conid (Some (bv_at v))
                (b1\<lparr>b_marks := AList.update conid mark (b_marks b1)\<rparr>)
         else b1)"

text \<open>What a bar does to an order that still waits for its stop or trail.\<close>

definition bar_touch :: "BarView \<Rightarrow> string \<Rightarrow> f64" where
  "bar_touch v side =
     (case bv_quote v of None \<Rightarrow> 0 | Some _ \<Rightarrow> if side = ''BUY'' then bv_ask v else bv_bid v)"

definition bar_trigger :: "BarView \<Rightarrow> Order \<Rightarrow> Order" where
  "bar_trigger v od =
     (let r = o_request od; side = o_side od;
          arm = (\<lambda>hit x. if hit then x\<lparr>o_stop_triggered := True\<rparr> else x) in
      if upper (or_orderType r) = ''TRAIL'' then
        let touch = bar_touch v side;
            reference = (if o_trailing_reference od \<noteq> 0 then o_trailing_reference od
                         else if touch \<noteq> 0 then touch else bv_close v) in
        if reference \<le> 0 \<or> or0 (or_trailingAmt r) \<le> 0 then od
        else
          let threshold = trail_threshold r side reference;
              hit = (if side = ''SELL'' then 0 < bv_low v \<and> bv_low v \<le> threshold
                     else 0 < bv_high v \<and> threshold \<le> bv_high v)
          in arm hit (od\<lparr>o_trailing_reference :=
                 (if side = ''SELL'' then max reference (bv_high v)
                  else min reference (if bv_low v = 0 then reference else bv_low v))\<rparr>)
      else
        let stop = or0 (or_auxPrice r)
        in arm (0 < stop \<and> (if side = ''BUY'' then stop \<le> bv_high v
                            else 0 < bv_low v \<and> bv_low v \<le> stop)) od)"

text \<open>The bar's offer to an armed order: marketable or not, price, size; \<open>None\<close> is \<open>continue\<close>.\<close>

definition levels_within :: "string \<Rightarrow> f64 \<Rightarrow> (int \<times> f64) list \<Rightarrow> f64" where
  "levels_within side limit levels =
     (let bound = fmul limit 10000 in
      fsum (map snd (filter (\<lambda>(p, _). if side = ''BUY'' then of_int p \<le> bound else bound \<le> of_int p) levels)))"

definition bar_offer :: "BarView \<Rightarrow> string \<Rightarrow> string \<Rightarrow> OrderRequest \<Rightarrow> (bool \<times> f64 \<times> f64) option result" where
  "bar_offer v side order_type r =
     (let touch = bar_touch v side;
          displayed = (if side = ''BUY'' then bv_ask_size v else bv_bid_size v) in
      if order_type = ''MKT'' then Inr (if 0 < touch then Some (True, touch, displayed) else None)
      else if order_type = ''LMT'' then
        let limit = or0 (or_price r) in
        if limit \<le> 0 then Inr None
        else if 0 < touch \<and> (if side = ''BUY'' then touch \<le> limit else limit \<le> touch)
        then Inr (Some (True, touch, displayed))
        else if 0 < bv_volume v then
          (case bv_levels v of
             None \<Rightarrow> Inl (RuntimeError ''Passive bar fill requires certified eligible price-volume levels'')
           | Some levels \<Rightarrow>
               (let available = levels_within side limit levels
                in Inr (if 0 < available then Some (False, limit, available) else None)))
        else Inr None
      else if order_type = ''MIDPRICE'' then
        Inr (case bv_quote v of None \<Rightarrow> None
             | Some q \<Rightarrow> Some (False, qu_midpoint q, min (bv_bid_size v) (bv_ask_size v)))
      else Inl (ValueError ''Unsupported liquidity-bar order type''))"

definition bar_order_type :: "string \<Rightarrow> string" where
  "bar_order_type ty =
     (if ty \<in> {''STP'', ''TRAIL''} then ''MKT'' else if ty = ''STOP_LIMIT'' then ''LMT'' else ty)"

definition bar_visit :: "wall_clock \<Rightarrow> BarView \<Rightarrow> int \<Rightarrow> (Broker, BrokerExecution list) act" where
  "bar_visit ny v oid b =
     (case map_of (b_orders b) oid of
        None \<Rightarrow> (Inr [], b)
      | Some od \<Rightarrow>
          (let r = o_request od; side = o_side od; raw_type = upper (or_orderType r);
               ty = bar_order_type raw_type; slot = (bv_ticker v, LK_bar, side) in
           if \<not> is_working od \<or> activation_pending (b_config b) od (bv_at v) \<or>
              \<not> session_allows ny r (bv_at v)
           then (Inr [], b)
           else if raw_type \<in> {''STP'', ''STOP_LIMIT'', ''TRAIL''} \<and> \<not> o_stop_triggered od
           then (Inr [], put_order (bar_trigger v od) b)
           else (case bar_offer v side ty r of
               Inl e \<Rightarrow> (Inl e, b)
             | Inr None \<Rightarrow> (Inr [], b)
             | Inr (Some (marketable, price, available)) \<Rightarrow>
                 if price \<le> 0 \<or> available \<le> 0 then (Inr [], b)
                 else (case size_candidate b side ty marketable price available slot (bv_identity v) od of
                     (Inl e, od') \<Rightarrow> (Inl e, put_order od' b)
                   | (Inr None, od') \<Rightarrow> (Inr [], put_order od' b)
                   | (Inr (Some (fill_price, quantity)), od') \<Rightarrow>
                       abind (apply_fill oid (bv_at v) fill_price quantity) (\<lambda>x.
                         abind (aupd (consume slot (bv_identity v) quantity)) (\<lambda>_. aret [x]))
                         (put_order od' b)))))"

definition bar_eligible_ids :: "Broker \<Rightarrow> BarView \<Rightarrow> int list" where
  "bar_eligible_ids b v =
     map o_order_id (filter (\<lambda>od. is_working od \<and> o_submitted_at od \<le> bv_at v - BUCKET_US)
       (sort_key o_order_id (indexed_orders b (bv_ticker v))))"

definition on_validated_liquidity_bar ::
    "wall_clock \<Rightarrow> LiquidityBar \<Rightarrow> utc \<Rightarrow> (Broker, BrokerExecution list) act" where
  "on_validated_liquidity_bar ny row t b =
     (let v = view_bar row t; b1 = publish_bar v b;
          conids = sort (remdups (map o_conid (indexed_orders b1 (bv_ticker v)) @
                                  dget (b_position_conids_by_ticker b1) (bv_ticker v) [])) in
      if conids = [] then (Inr [], b1)
      else
        let b2 = fold (mark_conid v) conids b1
        in abind (for_each (bar_visit ny v) (bar_eligible_ids b2 v)) (\<lambda>xss. aret (concat xss)) b2)"

definition on_liquidity_bar ::
    "wall_clock \<Rightarrow> LiquidityBar \<Rightarrow> datetime \<Rightarrow> (Broker, BrokerExecution list) act" where
  "on_liquidity_bar ny row at_time b =
     (case validate_liquidity_bar ny b row at_time of
        Inl e \<Rightarrow> (Inl e, b)
      | Inr _ \<Rightarrow> on_validated_liquidity_bar ny row (instant at_time) b)"

definition completed_liquidity_quote :: "Broker \<Rightarrow> string \<Rightarrow> QuoteEvent option result" where
  "completed_liquidity_quote b ticker =
     (if b_bar_mode b then Inr (map_of (b_quotes_by_ticker b) (upper ticker))
      else Inl (RuntimeError ''Completed liquidity quotes require bar-mode execution''))"

end
