(* ===== verification/SimOps.thy ===== *)
theory SimOps
  imports SimMatch "HOL-Library.List_Lexorder" "HOL-Library.Char_ord" "HOL-Library.Product_Lexorder"
begin

text \<open>
  The order commands and account views of \<open>simulated_broker.py\<close>: placing, modifying,
  cancelling and expiring orders with their admission checks, and the CPAPI-shaped reports.

  A command is atomic: \<open>async with self._lock\<close> and no \<open>await\<close> inside. An exception in the
  middle of a batch leaves the legs accepted so far in the book.
\<close>

section \<open>Admission\<close>

definition parent_filled :: "Broker \<Rightarrow> string \<Rightarrow> bool" where
  "parent_filled b coid =
     (case map_of (b_order_ids_by_coid b) coid of
        None \<Rightarrow> False
      | Some oid \<Rightarrow> (case map_of (b_orders b) oid of
                      Some od \<Rightarrow> o_status od = ST_FILLED | None \<Rightarrow> False))"

definition is_supported_group :: "OrderRequest list \<Rightarrow> bool" where
  "is_supported_group orders =
     (let coids = filter (\<lambda>c. c \<noteq> []) (map or_cOID orders) in
      list_ex (\<lambda>r. case parent_of r of Some p \<Rightarrow> p \<in> set coids | None \<Rightarrow> False) orders \<or>
      list_all or_isSingleGroup orders)"

type_synonym strategy_identity = "string \<times> int"

definition metadata_action :: "OrderRequest \<Rightarrow> json" where
  "metadata_action r = jget (ol_metadata (or_raw r)) ''action''"

definition exit_identity :: "OrderRequest \<Rightarrow> strategy_identity option" where
  "exit_identity r =
     (let l = or_raw r in
      if metadata_action r \<noteq> JStr ''exit'' \<or> ol_strategy_id l = [] \<or> ol_strategy_revision l \<le> 0
      then None else Some (ol_strategy_id l, ol_strategy_revision l))"

definition strategy_protection_replacement_identity ::
    "OrderRequest list \<Rightarrow> int option \<Rightarrow> strategy_identity option" where
  "strategy_protection_replacement_identity orders oca_group =
     (if oca_group = None \<or> orders = [] \<or> list_ex (\<lambda>r. exit_identity r = None) orders then None
      else case remdups (map exit_identity orders) of [x] \<Rightarrow> x | _ \<Rightarrow> None)"

definition is_replaced_strategy_protection :: "Order \<Rightarrow> strategy_identity option \<Rightarrow> bool" where
  "is_replaced_strategy_protection od ident =
     (case ident of
        None \<Rightarrow> False
      | Some (sid, revision) \<Rightarrow>
          (let r = o_request od; l = or_raw r in
           metadata_action r \<in> {JStr ''enter_long'', JStr ''add_long''} \<and>
           ol_strategy_id l = sid \<and> ol_strategy_revision l = revision))"

definition resolve_cash_quantity :: "Broker \<Rightarrow> OrderRequest \<Rightarrow> OrderRequest result" where
  "resolve_cash_quantity b r =
     (case or_cashQty r of
        None \<Rightarrow> Inr r
      | Some cash \<Rightarrow>
          (let price = reference_price b (or_conid r) (or_ticker r) in
           if price \<le> 0 then Inl (ValueError ''cashQty orders require current market data'')
           else OrderRequest_check (r\<lparr>or_quantity := Some (fquo cash price), or_cashQty := None\<rparr>)))"

definition resolved_quantity :: "OrderRequest \<Rightarrow> f64 \<Rightarrow> f64" where
  "resolved_quantity r price =
     (case or_quantity r of
        Some q \<Rightarrow> q
      | None \<Rightarrow> if 0 < price then fquo (or0 (or_cashQty r)) price else 0)"

text \<open>\<open>order.price or self._reference_price(order.conid, order.ticker)\<close>.\<close>

definition pricing_reference :: "Broker \<Rightarrow> OrderRequest \<Rightarrow> f64" where
  "pricing_reference b r =
     (case or_price r of
        Some p \<Rightarrow> if p = 0 then reference_price b (or_conid r) (or_ticker r) else p
      | None \<Rightarrow> reference_price b (or_conid r) (or_ticker r))"

definition order_cost :: "Broker \<Rightarrow> OrderRequest \<Rightarrow> f64 \<Rightarrow> f64" where
  "order_cost b r quantity =
     fadd (fmul (pricing_reference b r) quantity) (commission (b_config b) quantity)"

datatype capacity_key = CK_oca int | CK_parent string | CK_order int

definition capacity_key_of :: "Order \<Rightarrow> capacity_key" where
  "capacity_key_of od =
     (case o_oca_group od of
        Some g \<Rightarrow> CK_oca g
      | None \<Rightarrow> (case parent_of (o_request od) of
          Some p \<Rightarrow> if or_isSingleGroup (o_request od) then CK_parent p else CK_order (o_order_id od)
        | None \<Rightarrow> CK_order (o_order_id od)))"

definition grouped_open_sells :: "Order list \<Rightarrow> (capacity_key, f64) dict" where
  "grouped_open_sells ods =
     fold (\<lambda>od acc. AList.update (capacity_key_of od)
             (max (dget acc (capacity_key_of od) 0) (remaining od)) acc) ods []"

record pretrade =
  pt_exclude :: "int option"
  pt_existing_quantity :: "f64 option"
  pt_existing_filled :: f64
  pt_oca_group :: "int option"
  pt_replaced :: "strategy_identity option"

definition competes :: "pretrade \<Rightarrow> OrderRequest \<Rightarrow> Order \<Rightarrow> bool" where
  "competes pt r od =
     (pt_exclude pt \<noteq> Some (o_order_id od) \<and>
      (pt_oca_group pt = None \<or> o_oca_group od \<noteq> pt_oca_group pt) \<and>
      \<not> is_replaced_strategy_protection od (pt_replaced pt) \<and>
      o_acct od = or_acctId r \<and> o_conid od = or_conid r \<and> o_side od = ''SELL'' \<and>
      (parent_of r = None \<or> or_parentId (o_request od) \<noteq> or_parentId r) \<and>
      is_open od \<and> o_status od \<noteq> ST_INACTIVE)"

text \<open>The buy a contingent sell hangs on, if it is the same account's buy of the contract.\<close>

definition attached_parent :: "Broker \<Rightarrow> OrderRequest \<Rightarrow> Order option" where
  "attached_parent b r =
     (case parent_of r of
        None \<Rightarrow> None
      | Some p \<Rightarrow> (case map_of (b_order_ids_by_coid b) p of
          None \<Rightarrow> None
        | Some oid \<Rightarrow> (case map_of (b_orders b) oid of
            None \<Rightarrow> None
          | Some parent \<Rightarrow>
              if o_acct parent = or_acctId r \<and> o_conid parent = or_conid r \<and> o_side parent = ''BUY''
              then Some parent else None)))"

definition validate_sell :: "Broker \<Rightarrow> OrderRequest \<Rightarrow> f64 \<Rightarrow> pretrade \<Rightarrow> unit result" where
  "validate_sell b r quantity pt =
     (let held = po_quantity (position_or_flat b (or_acctId r) (or_conid r) (or_ticker r));
          parent = attached_parent b r;
          parent_capacity = (case parent of Some p \<Rightarrow> requested_quantity p | None \<Rightarrow> 0) in
      if parent \<noteq> None \<and> \<not> parent_filled b (the (parent_of r)) then
        (if parent_capacity < quantity
         then Inl (ValueError ''Attached sell quantity exceeds its parent buy quantity'')
         else Inr ())
      else
        let open_sells = fsum (dvalues (grouped_open_sells (filter (competes pt r) (orders_of b))));
            proposed = max 0 (fsub quantity (pt_existing_filled pt));
            capacity = max (max 0 held) parent_capacity in
        if fadd capacity lit_1e9 < fadd proposed open_sells then
          (case pt_existing_quantity pt of
             Some existing \<Rightarrow>
               if quantity \<le> fadd existing lit_1e12 then Inr ()
               else Inl (ValueError ''Order would create an unconfigured short position'')
           | None \<Rightarrow> Inl (ValueError ''Order would create an unconfigured short position''))
        else Inr ())"

definition pretrade_validate :: "Broker \<Rightarrow> OrderRequest \<Rightarrow> pretrade \<Rightarrow> unit result" where
  "pretrade_validate b r pt =
     (case or_quantity r of
        None \<Rightarrow> Inl (ValueError ''Simulation must resolve cashQty before submission'')
      | Some quantity \<Rightarrow>
          if upper (or_side r) = ''BUY'' then
            let to_fund = (case pt_existing_quantity pt of
                             None \<Rightarrow> quantity | Some _ \<Rightarrow> max 0 (fsub quantity (pt_existing_filled pt)))
            in if 0 < pricing_reference b r \<and> account_cash b (or_acctId r) < order_cost b r to_fund
               then Inl (ValueError ''Order exceeds available cash'') else Inr ()
          else if sc_allow_short (b_config b) then Inr ()
          else validate_sell b r quantity pt)"

section \<open>Placing orders\<close>

datatype place_result =
    Placed "(int \<times> OrderStatus \<times> string) list"
  | Funding_denied f64 f64

definition index_order :: "string \<Rightarrow> int \<Rightarrow> Broker \<Rightarrow> Broker" where
  "index_order ticker oid b =
     b\<lparr>b_orders_by_ticker :=
        AList.update ticker (dget (b_orders_by_ticker b) ticker [] @ [oid]) (b_orders_by_ticker b)\<rparr>"

definition new_order :: "utc \<Rightarrow> Broker \<Rightarrow> int option \<Rightarrow> OrderRequest \<Rightarrow> Order" where
  "new_order now b oca_group r =
     \<lparr>o_request = r, o_order_id = b_next_order_id b,
      o_status = (if parent_of r \<noteq> None then ST_INACTIVE else ST_SUBMITTED),
      o_submitted_at = order_submission_time now b r, o_oca_group = oca_group, o_filled = 0,
      o_avg_price = 0, o_commission_paid = 0, o_stop_triggered = False,
      o_trailing_reference = 0, o_status_description = []\<rparr>"

definition accept_order :: "utc \<Rightarrow> int option \<Rightarrow> OrderRequest \<Rightarrow> Broker \<Rightarrow> Broker" where
  "accept_order now oca_group r b =
     (let od = new_order now b oca_group r; oid = o_order_id od;
          b1 = index_order (o_ticker od) oid (put_order od (b\<lparr>b_next_order_id := oid + 1\<rparr>))
      in if or_cOID r = [] then b1
         else b1\<lparr>b_order_ids_by_coid := AList.update (or_cOID r) oid (b_order_ids_by_coid b1)\<rparr>)"

definition place_one ::
    "utc \<Rightarrow> int option \<Rightarrow> strategy_identity option \<Rightarrow> OrderRequest \<Rightarrow>
     (Broker, int \<times> OrderStatus \<times> string) act" where
  "place_one now oca_group replaced r b =
     (if or_cOID r \<noteq> [] \<and> map_of (b_order_ids_by_coid b) (or_cOID r) \<noteq> None
      then (Inl (ValueError ''cOID must be unique''), b)
      else case pretrade_validate b r
          \<lparr>pt_exclude = None, pt_existing_quantity = None, pt_existing_filled = 0,
           pt_oca_group = oca_group, pt_replaced = replaced\<rparr> of
        Inl e \<Rightarrow> (Inl e, b)
      | Inr _ \<Rightarrow>
          (let od = new_order now b oca_group r
           in (Inr (o_order_id od, o_status od, or_cOID r), accept_order now oca_group r b)))"

definition standalone_oca_group :: "Broker \<Rightarrow> OrderRequest list \<Rightarrow> int option" where
  "standalone_oca_group b orders =
     (if 1 < length orders \<and> list_all (\<lambda>r. or_isSingleGroup r \<and> parent_of r = None) orders
      then Some (b_next_order_id b) else None)"

definition required_cash :: "Broker \<Rightarrow> OrderRequest list \<Rightarrow> f64" where
  "required_cash b resolved =
     (let costs = map (\<lambda>r. order_cost b r (or0 (or_quantity r)))
                    (filter (\<lambda>r. upper (or_side r) = ''BUY'') resolved)
      in case costs of [] \<Rightarrow> 0 | c # cs \<Rightarrow> fold max cs c)"

definition place_orders :: "utc \<Rightarrow> string \<Rightarrow> OrderRequest list \<Rightarrow> (Broker, place_result) act" where
  "place_orders now a orders b =
     (case bind_result (require_account b a) (\<lambda>_.
           if orders = [] then Inl (ValueError ''orders cannot be empty'')
           else if 1 < length orders \<and> \<not> is_supported_group orders
           then Inl (ValueError ''CPAPI bulk placement is limited to bracket or OCA groups'')
           else bind_result (map_result (require_matching_account a) orders)
                  (\<lambda>_. map_result (resolve_cash_quantity b) orders)) of
        Inl e \<Rightarrow> (Inl e, b)
      | Inr resolved \<Rightarrow>
          (let oca_group = standalone_oca_group b orders;
               replaced = strategy_protection_replacement_identity orders oca_group;
               required = required_cash b resolved in
           if account_cash b a < required then (Inr (Funding_denied required (account_cash b a)), b)
           else abind (for_each (place_one now oca_group replaced) resolved)
                  (\<lambda>rows. aret (Placed rows)) b))"

section \<open>Modifying and cancelling\<close>

definition reindex_order :: "string \<Rightarrow> string \<Rightarrow> int \<Rightarrow> Broker \<Rightarrow> Broker result" where
  "reindex_order previous_ticker next_ticker oid b =
     (if previous_ticker = next_ticker then Inr b
      else case map_of (b_orders_by_ticker b) previous_ticker of
        None \<Rightarrow> Inl (PyKeyError previous_ticker)
      | Some ids \<Rightarrow>
          if oid \<notin> set ids then Inl (ValueError ''list.remove(x): x not in list'')
          else
            let rest = remove1 oid ids;
                index = (if rest = [] then AList.delete previous_ticker (b_orders_by_ticker b)
                         else AList.update previous_ticker rest (b_orders_by_ticker b))
            in Inr (index_order next_ticker oid (b\<lparr>b_orders_by_ticker := index\<rparr>)))"

definition modify_check :: "Broker \<Rightarrow> string \<Rightarrow> int \<Rightarrow> OrderRequest \<Rightarrow> Order result" where
  "modify_check b a oid r =
     bind_result (require_account b a) (\<lambda>_.
     bind_result (require_matching_account a r) (\<lambda>_.
     bind_result (require_order b a oid) (\<lambda>od.
       if \<not> is_open od then Inl (ValueError ''Only open orders may be modified'')
       else if or_conid r \<noteq> o_conid od \<or> upper (or_side r) \<noteq> o_side od
       then Inl (ValueError ''Modification must preserve conid and side'')
       else if or_cOID r \<noteq> o_cOID od then Inl (ValueError ''Modification must preserve cOID'')
       else if (case or_quantity r of Some q \<Rightarrow> q < o_filled od | None \<Rightarrow> False)
       then Inl (ValueError ''Modified quantity cannot be below filled quantity'')
       else bind_result (pretrade_validate b r
              \<lparr>pt_exclude = Some oid, pt_existing_quantity = Some (requested_quantity od),
               pt_existing_filled = o_filled od, pt_oca_group = o_oca_group od, pt_replaced = None\<rparr>)
              (\<lambda>_. Inr od))))"

definition modify_order ::
    "string \<Rightarrow> int \<Rightarrow> OrderRequest \<Rightarrow> (Broker, int \<times> OrderStatus \<times> string) act" where
  "modify_order a oid r b =
     (case modify_check b a oid r of
        Inl e \<Rightarrow> (Inl e, b)
      | Inr od \<Rightarrow>
          (case reindex_order (o_ticker od) (upper (or_ticker r)) oid b of
             Inl e \<Rightarrow> (Inl e, b)
           | Inr b1 \<Rightarrow>
               (let status = (case parent_of r of
                                Some p \<Rightarrow> if parent_filled b1 p then ST_SUBMITTED else ST_INACTIVE
                              | None \<Rightarrow> ST_SUBMITTED)
                in (Inr (oid, status, or_cOID r),
                    put_order (od\<lparr>o_request := r, o_status := status\<rparr>) b1))))"

definition cancel_order :: "string \<Rightarrow> int \<Rightarrow> (Broker, int \<times> int \<times> string) act" where
  "cancel_order a oid b =
     (case bind_result (require_account b a) (\<lambda>_. require_order b a oid) of
        Inl e \<Rightarrow> (Inl e, b)
      | Inr od \<Rightarrow>
          if \<not> is_open od then (Inl (ValueError ''Order is not open''), b)
          else (Inr (oid, o_conid od, a),
                cancel_children (o_cOID od) ''Parent order was cancelled''
                  (put_order (cancel_with ''Cancelled by client request'' od) b)))"

definition expires :: "string \<Rightarrow> Order \<Rightarrow> bool" where
  "expires a od = (o_acct od = a \<and> upper (or_tif (o_request od)) = ''DAY'' \<and> is_open od)"

definition expire_order :: "Order \<Rightarrow> Order" where
  "expire_order od = cancel_with ''DAY order expired at '' od"

definition expire_day_orders :: "string \<Rightarrow> (Broker, LiveOrder list) act" where
  "expire_day_orders a b =
     (case require_account b a of
        Inl e \<Rightarrow> (Inl e, b)
      | Inr _ \<Rightarrow>
          (Inr (map (o_snapshot \<circ> expire_order) (filter (expires a) (sorted_orders b))),
           b\<lparr>b_orders := map_values (\<lambda>od. if expires a od then expire_order od else od) (b_orders b)\<rparr>))"

section \<open>Reports\<close>

definition live_orders :: "Broker \<Rightarrow> LiveOrder list result" where
  "live_orders b = bind_result (require_initialized b) (\<lambda>_. Inr (map o_snapshot (sorted_orders b)))"

definition DAY_US :: int where "DAY_US = 86400000000"

definition recent_trades :: "Broker \<Rightarrow> int \<Rightarrow> BrokerExecution list result" where
  "recent_trades b days =
     (if \<not> (1 \<le> days \<and> days \<le> 7)
      then Inl (ValueError ''IBKR trade history supports 1 through 7 days'')
      else case b_executions b of
        [] \<Rightarrow> Inr []
      | x # xs \<Rightarrow>
          (let start = fold max (map bx_trade_time xs) (bx_trade_time x) - days * DAY_US
           in Inr (filter (\<lambda>e. start \<le> bx_trade_time e) (b_executions b))))"

definition position_row :: "Broker \<Rightarrow> string \<Rightarrow> Position \<Rightarrow> PortfolioPosition" where
  "position_row b a p =
     (let mark = dget (b_marks b) (po_conid p) (po_avg_cost p) in
      \<lparr>pp_acctId = a, pp_conid = po_conid p, pp_contractDesc = po_ticker p,
       pp_position = po_quantity p, pp_mktPrice = mark, pp_mktValue = fmul mark (po_quantity p),
       pp_avgCost = po_avg_cost p, pp_avgPrice = po_avg_cost p, pp_realizedPnl = po_realized_pnl p,
       pp_unrealizedPnl = fmul (fsub mark (po_avg_cost p)) (po_quantity p),
       pp_currency = sc_base_currency (b_config b), pp_assetClass = ''STK'', pp_raw = JObj []\<rparr>)"

definition position_rows :: "Broker \<Rightarrow> string \<Rightarrow> PortfolioPosition list result" where
  "position_rows b a =
     bind_result (require_account b a) (\<lambda>_.
       Inr (map (position_row b a)
         (filter (\<lambda>p. \<not> \<bar>po_quantity p\<bar> < lit_1e12)
           (sort_key (\<lambda>p. (po_ticker p, po_conid p)) (dvalues (account_positions b a))))))"

definition summary_from_positions ::
    "Broker \<Rightarrow> string \<Rightarrow> PortfolioPosition list \<Rightarrow> utc \<Rightarrow> AccountSummary" where
  "summary_from_positions b a rows t =
     (let cash = account_cash b a; available = max 0 cash in
      \<lparr>as_account_id = a, as_netliquidation = fadd cash (fsum (map pp_mktValue rows)),
       as_totalcashvalue = cash, as_buyingpower = available,
       as_grosspositionvalue = fsum (map (\<lambda>r. \<bar>pp_mktValue r\<bar>) rows),
       as_availablefunds = available, as_excessliquidity = available,
       as_currency = sc_base_currency (b_config b), as_timestamp = t\<rparr>)"

definition account_summary :: "utc \<Rightarrow> Broker \<Rightarrow> string \<Rightarrow> AccountSummary result" where
  "account_summary now b a =
     bind_result (position_rows b a) (\<lambda>rows.
       Inr (summary_from_positions b a rows (latest_event_time now b)))"

definition ledger_from_positions ::
    "Broker \<Rightarrow> string \<Rightarrow> PortfolioPosition list \<Rightarrow> AccountSummary \<Rightarrow> AccountLedger" where
  "ledger_from_positions b a rows s =
     \<lparr>al_acctId = a, al_cashbalance = as_totalcashvalue s, al_settledcash = as_totalcashvalue s,
      al_stockmarketvalue = fsum (map pp_mktValue rows),
      al_netliquidationvalue = as_netliquidation s,
      al_realizedpnl = dget (b_realized_pnl b) a 0,
      al_unrealizedpnl = fsum (map pp_unrealizedPnl rows),
      al_currency = sc_base_currency (b_config b), al_exchangerate = 1,
      al_timestamp = as_timestamp s\<rparr>"

definition account_ledger :: "utc \<Rightarrow> Broker \<Rightarrow> string \<Rightarrow> AccountLedger result" where
  "account_ledger now b a =
     bind_result (account_summary now b a) (\<lambda>s.
     bind_result (position_rows b a) (\<lambda>rows. Inr (ledger_from_positions b a rows s)))"

record OrderPreview =
  pv_amount :: f64
  pv_commission :: f64
  pv_equity :: f64
  pv_warn :: string
  pv_error :: string

definition preview_order :: "utc \<Rightarrow> Broker \<Rightarrow> string \<Rightarrow> OrderRequest \<Rightarrow> OrderPreview result" where
  "preview_order now b a r =
     bind_result (require_matching_account a r) (\<lambda>_.
       let mark = reference_price b (or_conid r) (or_ticker r); quantity = resolved_quantity r mark in
       bind_result (account_summary now b a) (\<lambda>s.
         Inr \<lparr>pv_amount = fmul quantity mark, pv_commission = commission (b_config b) quantity,
              pv_equity = as_netliquidation s,
              pv_warn = (if 0 < mark then [] else ''No market event is available for price estimation.''),
              pv_error = (if 0 < mark then [] else ''MARKET_DATA_REQUIRED'')\<rparr>))"

definition preview_orders ::
    "utc \<Rightarrow> Broker \<Rightarrow> string \<Rightarrow> OrderRequest list \<Rightarrow> OrderPreview list result" where
  "preview_orders now b a orders =
     bind_result (require_account b a) (\<lambda>_. map_result (preview_order now b a) orders)"

definition financially_active_tickers :: "Broker \<Rightarrow> string list" where
  "financially_active_tickers b =
     sort (remdups
       (map fst (filter (\<lambda>(ticker, ids). list_ex (\<lambda>i. case map_of (b_orders b) i of
            Some od \<Rightarrow> is_open od | None \<Rightarrow> False) ids) (b_orders_by_ticker b)) @
        map (\<lambda>p. upper (po_ticker p))
          (filter (\<lambda>p. lit_1e12 \<le> \<bar>po_quantity p\<bar>) (concat (map dvalues (dvalues (b_positions b)))))))"

end
