(* ===== verification/SimLaws.thy ===== *)
theory SimLaws
  imports SimOps
begin

text \<open>
  What the broker's operations do to an order that is already in the book. \<open>order_law\<close> lists
  the writes the code makes to an order; a relation between an order and its successor that
  allows them all holds across every operation. It is interpreted three times: a terminal
  order is frozen, an order keeps its identity, and fills and triggered stops are never undone.
\<close>

declare is_open_status.simps [simp del]

text \<open>A property of the result of a chain of bindings, without unfolding the chain.\<close>

lemma LetI: "(\<And>x. P (f x)) \<Longrightarrow> P (Let a f)"
  by (simp add: Let_def)

section \<open>Order ids\<close>

definition ids_ok :: "Broker \<Rightarrow> bool" where
  "ids_ok b \<longleftrightarrow> well_keyed (b_orders b) \<and> 1 \<le> b_next_order_id b \<and>
     (\<forall>(k, od) \<in> set (b_orders b). o_order_id od = k \<and> 1 \<le> k \<and> k < b_next_order_id b)"

lemma ids_ok_lookup:
  "ids_ok b \<Longrightarrow> map_of (b_orders b) k = Some od \<Longrightarrow> o_order_id od = k \<and> 1 \<le> k \<and> k < b_next_order_id b"
  by (auto simp: ids_ok_def dest!: map_of_SomeD)

lemma ids_ok_iff:
  "ids_ok b \<longleftrightarrow> well_keyed (b_orders b) \<and> 1 \<le> b_next_order_id b \<and>
     (\<forall>k od. map_of (b_orders b) k = Some od \<longrightarrow> o_order_id od = k \<and> 1 \<le> k \<and> k < b_next_order_id b)"
  by (auto simp: ids_ok_def well_keyed_map_of_iff)

text \<open>A constructed \<open>OrderRequest\<close>, and the order \<open>place_orders\<close> makes of one.\<close>

definition valid_request :: "OrderRequest \<Rightarrow> bool" where
  "valid_request r \<longleftrightarrow> OrderRequest_check r = Inr r"

definition born_order :: "Order \<Rightarrow> bool" where
  "born_order od \<longleftrightarrow>
     (\<exists>now b g r. od = new_order now b g r \<and> valid_request r \<and> or_quantity r \<noteq> None)"

lemma valid_requestD:
  assumes "valid_request r"
  shows "0 < or_conid r" "upper (or_side r) = ''BUY'' \<or> upper (or_side r) = ''SELL''"
    "or_quantity r = Some q \<Longrightarrow> 0 < q" "or_quantity r = None \<longleftrightarrow> or_cashQty r \<noteq> None"
  using OrderRequest_check_Inr [of r r] assms by (auto simp: valid_request_def)

lemma checked_valid: "OrderRequest_check r = Inr r' \<Longrightarrow> valid_request r' \<and> r' = r"
  using OrderRequest_check_Inr(1) by (auto simp: valid_request_def)

lemma resolve_cash_quantity_valid:
  assumes "resolve_cash_quantity b r = Inr r'" and "valid_request r"
  shows "valid_request r' \<and> or_quantity r' \<noteq> None"
proof (cases "or_cashQty r")
  case None
  with assms valid_requestD(4) [of r] show ?thesis by (auto simp: resolve_cash_quantity_def)
next
  case (Some c)
  with assms(1) obtain q where "OrderRequest_check (r\<lparr>or_quantity := Some q, or_cashQty := None\<rparr>) = Inr r'"
    by (auto simp: resolve_cash_quantity_def Let_def split: if_splits)
  with checked_valid show ?thesis by fastforce
qed

lemma modify_check_facts:
  assumes "modify_check b a oid r = Inr od"
  shows "map_of (b_orders b) oid = Some od" "is_open od" "or_conid r = o_conid od"
    "upper (or_side r) = o_side od" "or_cOID r = o_cOID od" "or_acctId r = o_acct od" "o_acct od = a"
    "or_quantity r = Some q \<Longrightarrow> o_filled od \<le> q"
  using assms
  by (auto simp: modify_check_def require_order_def require_matching_account_def bind_result_Inr_iff
      split: option.splits if_splits)

lemma reindex_order_frame:
  "reindex_order p n oid b = Inr b1 \<Longrightarrow> b_orders b1 = b_orders b \<and> b_next_order_id b1 = b_next_order_id b"
  by (auto simp: reindex_order_def index_order_def Let_def split: if_splits option.splits)

text \<open>\<open>moves E X b b'\<close>: every order of \<open>b\<close> outside \<open>X\<close> is related by \<open>E\<close> to the order of the
  same id in \<open>b'\<close>, and every further order of \<open>b'\<close> descends from a new one.\<close>

definition moves :: "(Order \<Rightarrow> Order \<Rightarrow> bool) \<Rightarrow> int set \<Rightarrow> Broker \<Rightarrow> Broker \<Rightarrow> bool" where
  "moves E X b b' \<longleftrightarrow> (ids_ok b \<longrightarrow> ids_ok b' \<and> b_next_order_id b \<le> b_next_order_id b' \<and>
     (\<forall>k od. map_of (b_orders b) k = Some od \<longrightarrow>
        (\<exists>od'. map_of (b_orders b') k = Some od' \<and> (k \<notin> X \<longrightarrow> E od od'))) \<and>
     (\<forall>k od'. map_of (b_orders b') k = Some od' \<longrightarrow> map_of (b_orders b) k = None \<longrightarrow> k \<notin> X \<longrightarrow>
        (\<exists>od. born_order od \<and> E od od')))"

lemma movesI:
  assumes "\<And>k od. ids_ok b \<Longrightarrow> map_of (b_orders b) k = Some od \<Longrightarrow>
      \<exists>od'. map_of (b_orders b') k = Some od' \<and> (k \<notin> X \<longrightarrow> E od od')"
    and "ids_ok b \<Longrightarrow> ids_ok b'" and "ids_ok b \<Longrightarrow> b_next_order_id b \<le> b_next_order_id b'"
    and "\<And>k od'. ids_ok b \<Longrightarrow> map_of (b_orders b') k = Some od' \<Longrightarrow> map_of (b_orders b) k = None \<Longrightarrow>
      k \<notin> X \<Longrightarrow> \<exists>od. born_order od \<and> E od od'"
  shows "moves E X b b'"
  using assms by (auto simp: moves_def)

lemma moves_lookup:
  assumes "moves E X b b'" "ids_ok b" "map_of (b_orders b) k = Some od" "k \<notin> X"
  obtains od' where "map_of (b_orders b') k = Some od'" "E od od'"
  using assms unfolding moves_def by blast

lemma moves_focus:
  assumes "moves E {k} b b'" and "map_of (b_orders b) k = Some od"
    and "map_of (b_orders b') k = Some od'" and "E od od'"
  shows "moves E {} b b'"
  using assms unfolding moves_def by (metis option.distinct(1) option.inject singletonD)

section \<open>Fields an operation leaves alone\<close>

lemma index_position_frame [simp, frame_simps]:
  "b_orders (index_position t c b) = b_orders b" "b_next_order_id (index_position t c b) = b_next_order_id b"
  by (simp_all add: index_position_def)

lemma unindex_position_frame [simp, frame_simps]:
  "b_orders (unindex_position t c b) = b_orders b" "b_next_order_id (unindex_position t c b) = b_next_order_id b"
  by (simp_all add: unindex_position_def Let_def split: option.split)

lemma observe_performance_frame [simp, frame_simps]:
  "b_orders (observe_performance c s b) = b_orders b"
  "b_next_order_id (observe_performance c s b) = b_next_order_id b"
proof -
  have "b_orders (observe_performance c s b) = b_orders b \<and>
      b_next_order_id (observe_performance c s b) = b_next_order_id b"
    unfolding observe_performance_def
    by (rule LetI [where P = "\<lambda>s. b_orders s = b_orders b \<and> b_next_order_id s = b_next_order_id b"])+ simp
  then show "b_orders (observe_performance c s b) = b_orders b"
    "b_next_order_id (observe_performance c s b) = b_next_order_id b" by simp_all
qed

lemma index_frame [simp, frame_simps]:
  "b_orders (consume sl i q b) = b_orders b" "b_next_order_id (consume sl i q b) = b_next_order_id b"
  "b_orders (index_order tk n b) = b_orders b" "b_next_order_id (index_order tk n b) = b_next_order_id b"
  "b_orders (compact_index tk b) = b_orders b" "b_next_order_id (compact_index tk b) = b_next_order_id b"
  by (simp_all add: consume_def index_order_def compact_index_def Let_def)

lemma book_execution_frame [simp, frame_simps]:
  "b_orders (book_execution r p q c b) = b_orders b"
  "b_next_order_id (book_execution r p q c b) = b_next_order_id b"
  by (simp_all add: book_execution_def Let_def split: prod.splits)

lemma bar_frame [simp, frame_simps]:
  "b_orders (publish_bar v b) = b_orders b" "b_next_order_id (publish_bar v b) = b_next_order_id b"
  "b_orders (mark_conid v c b) = b_orders b" "b_next_order_id (mark_conid v c b) = b_next_order_id b"
  by (simp_all add: publish_bar_def mark_conid_def Let_def split: option.splits)

lemma fold_mark_frame [simp, frame_simps]:
  "b_orders (fold (mark_conid v) cs b) = b_orders b"
  "b_next_order_id (fold (mark_conid v) cs b) = b_next_order_id b"
  by (induction cs arbitrary: b) simp_all

lemma put_order_frame [simp, frame_simps]:
  "map_of (b_orders (put_order od b)) = (map_of (b_orders b))(o_order_id od \<mapsto> od)"
  "b_next_order_id (put_order od b) = b_next_order_id b"
  by (simp_all add: put_order_def)

lemma observe_event_frame [simp, frame_simps]:
  "b_orders (snd (observe_market_event ny e b)) = b_orders b"
  "b_next_order_id (snd (observe_market_event ny e b)) = b_next_order_id b"
  by (auto simp: observe_market_event_def Let_def split: sum.splits MarketEvent.splits)

section \<open>Writes to one order\<close>

lemma replace_quantity_Inr:
  "replace_quantity od q = Inr od' \<longleftrightarrow>
     (\<exists>r. OrderRequest_check ((o_request od)\<lparr>or_quantity := Some q\<rparr>) = Inr r) \<and>
     od' = od\<lparr>o_request := (o_request od)\<lparr>or_quantity := Some q\<rparr>\<rparr>"
  using OrderRequest_check_Inr(1) by (auto simp: replace_quantity_def bind_result_Inr_iff)

lemma replace_quantityD:
  "replace_quantity od q = Inr od' \<Longrightarrow> od' = od\<lparr>o_request := (o_request od)\<lparr>or_quantity := Some q\<rparr>\<rparr>"
  using OrderRequest_check_Inr(1) by (auto simp: replace_quantity_def bind_result_Inr_iff)

lemma replace_quantity_id [simp]: "replace_quantity od q = Inr od' \<Longrightarrow> o_order_id od' = o_order_id od"
  by (auto simp: replace_quantity_Inr)

locale order_law =
  fixes E :: "Order \<Rightarrow> Order \<Rightarrow> bool"
  assumes E_refl: "E od od"
    and E_trans: "E od od1 \<Longrightarrow> E od1 od2 \<Longrightarrow> E od od2"
    and E_cancel: "is_open od \<Longrightarrow> E od (cancel_with reason od)"
    and E_activate: "o_status od = ST_INACTIVE \<Longrightarrow> E od (od\<lparr>o_status := ST_SUBMITTED\<rparr>)"
    and E_resize: "is_open od \<Longrightarrow> replace_quantity od q = Inr od' \<Longrightarrow> E od od'"
    and E_trigger: "is_open od \<Longrightarrow>
      E od (od\<lparr>o_stop_triggered := o_stop_triggered od \<or> hit, o_trailing_reference := x\<rparr>)"
    and E_fill: "is_open od \<Longrightarrow> 0 < q \<Longrightarrow> fill_order price q od = Inr od' \<Longrightarrow>
      E od (od'\<lparr>o_commission_paid := c\<rparr>)"
    and E_fill_abort: "is_open od \<Longrightarrow> 0 < q \<Longrightarrow> E od (od\<lparr>o_filled := fadd (o_filled od) q\<rparr>)"
    and E_modify: "modify_check b a oid r = Inr od \<Longrightarrow> valid_request r \<Longrightarrow>
      status \<in> {ST_SUBMITTED, ST_INACTIVE} \<Longrightarrow> E od (od\<lparr>o_request := r, o_status := status\<rparr>)"

sublocale order_law \<subseteq> state_preorder "moves E X"
proof
  show "moves E X s s" for s
    by (auto simp: moves_def E_refl)
  fix s t u assume st: "moves E X s t" and tu: "moves E X t u"
  show "moves E X s u"
  proof (rule movesI)
    fix k od assume ok: "ids_ok s" and k: "map_of (b_orders s) k = Some od"
    from ok st have okt: "ids_ok t" by (simp add: moves_def)
    from st ok k obtain od1 where 1: "map_of (b_orders t) k = Some od1" "k \<notin> X \<Longrightarrow> E od od1"
      unfolding moves_def by blast
    from tu okt 1(1) obtain od2 where 2: "map_of (b_orders u) k = Some od2" "k \<notin> X \<Longrightarrow> E od1 od2"
      unfolding moves_def by blast
    from 1 2 E_trans show "\<exists>od'. map_of (b_orders u) k = Some od' \<and> (k \<notin> X \<longrightarrow> E od od')"
      by blast
  next
    fix k od' assume ok: "ids_ok s" and k: "map_of (b_orders u) k = Some od'" "map_of (b_orders s) k = None" "k \<notin> X"
    show "\<exists>od. born_order od \<and> E od od'"
    proof (cases "map_of (b_orders t) k")
      case None
      with tu st ok k show ?thesis unfolding moves_def by blast
    next
      case (Some od1)
      with st ok k obtain od where "born_order od" "E od od1" unfolding moves_def by blast
      moreover have "E od1 od'"
        using tu st ok k Some unfolding moves_def by (metis option.inject)
      ultimately show ?thesis using E_trans by blast
    qed
  next
    show "ids_ok s \<Longrightarrow> ids_ok u" "ids_ok s \<Longrightarrow> b_next_order_id s \<le> b_next_order_id u"
      using st tu by (auto simp: moves_def)
  qed
qed

context order_law
begin

lemma moves_same: "b_orders b' = b_orders b \<Longrightarrow> b_next_order_id b' = b_next_order_id b \<Longrightarrow> moves E X b b'"
  by (auto simp: moves_def ids_ok_def E_refl)

lemma moves_put:
  assumes "map_of (b_orders b) (o_order_id od') = Some od" and "o_order_id od' \<in> X \<or> E od od'"
  shows "moves E X b (put_order od' b)"
proof (rule movesI)
  assume ok: "ids_ok b"
  then show "ids_ok (put_order od' b)"
    using assms(1) by (auto simp: ids_ok_iff put_order_def)
next
  fix k od1 assume "map_of (b_orders b) k = Some od1"
  with assms E_refl show "\<exists>od2. map_of (b_orders (put_order od' b)) k = Some od2 \<and> (k \<notin> X \<longrightarrow> E od1 od2)"
    by auto
next
  fix k od1 assume "map_of (b_orders (put_order od' b)) k = Some od1" "map_of (b_orders b) k = None"
  with assms(1) show "\<exists>od. born_order od \<and> E od od1" by (auto split: if_splits)
qed simp

lemma moves_map_values:
  assumes "\<And>od. E od (f od)" and "\<And>od. o_order_id (f od) = o_order_id od"
  shows "moves E X b (b\<lparr>b_orders := map_values f (b_orders b)\<rparr>)"
  using assms by (auto simp: moves_def ids_ok_iff)

lemma moves_activate_children: "moves E X b (activate_children coid b)"
  by (auto simp: activate_children_def R_refl E_refl intro!: moves_map_values E_activate)

lemma moves_cancel_children: "moves E X b (cancel_children coid reason b)"
  unfolding cancel_children_def
  by (auto simp: R_refl E_refl cancel_with_def intro!: moves_map_values E_cancel [unfolded cancel_with_def])

lemma moves_cancel_oca: "moves E X b (cancel_oca_siblings od b)"
  unfolding cancel_oca_siblings_def
  by (auto simp: R_refl E_refl cancel_with_def intro!: moves_map_values E_cancel [unfolded cancel_with_def])

lemma reduce_sibling_E:
  assumes "is_open od" "reduce_sibling q od = Inr od'"
  shows "E od od'" "o_order_id od' = o_order_id od"
proof -
  from assms(2) obtain x s where s: "replace_quantity od x = Inr s"
    and od': "od' = s \<or> od' = cancel_with ''OCA capacity was filled by a sibling'' s"
    by (auto simp: reduce_sibling_def Let_def bind_result_Inr_iff split: if_splits)
  have "is_open s" using s assms(1) by (auto simp: replace_quantity_Inr)
  then have "E od s" "E s (cancel_with r s)" for r
    by (auto intro: E_resize [OF assms(1) s] E_cancel)
  with od' show "E od od'" by (auto intro: E_trans)
  from s od' show "o_order_id od' = o_order_id od" by (auto simp: cancel_with_def)
qed

lemma moves_reduce_visit: "moves E X b (snd (reduce_visit filled q oid b))"
proof (cases "map_of (b_orders b) oid")
  case (Some sibling)
  show ?thesis
  proof (cases "ids_ok b")
    case True
    then have "o_order_id sibling = oid" using Some ids_ok_lookup by blast
    with Some show ?thesis
      by (auto simp: reduce_visit_def R_refl reduce_sibling_E split: sum.splits
          intro!: moves_put [where od = sibling])
  qed (simp add: moves_def)
qed (simp add: reduce_visit_def R_refl)

lemma moves_reduce: "moves E X b (snd (reduce_single_exit_sibling_capacity filled q b))"
  unfolding reduce_single_exit_sibling_capacity_def
  by (intro relates_abind_at relatesD [OF relates_for_each] relatesI)
    (auto simp: moves_reduce_visit R_refl)

end

lemma reduce_sibling_id: "reduce_sibling q od = Inr od' \<Longrightarrow> o_order_id od' = o_order_id od"
  by (auto simp: reduce_sibling_def Let_def bind_result_Inr_iff cancel_with_def split: if_splits)

lemma keeps_reduce_lookup:
  "keeps (\<lambda>s. map_of (b_orders s) (o_order_id filled) = x) (reduce_single_exit_sibling_capacity filled q)"
proof -
  have "keeps (\<lambda>s. map_of (b_orders s) (o_order_id filled) = x) (reduce_visit filled q oid)" for oid
    by (rule keepsI) (auto simp: reduce_visit_def reduce_sibling_id split: option.splits sum.splits)
  then have "keeps (\<lambda>s. map_of (b_orders s) (o_order_id filled) = x)
      (abind (for_each (reduce_visit filled q) ids) (\<lambda>_. aret ()))" for ids
    by (auto intro!: keeps_intros)
  then show ?thesis by (auto simp: keeps_def reduce_single_exit_sibling_capacity_def)
qed

lemma reduce_lookup:
  "map_of (b_orders (snd (reduce_single_exit_sibling_capacity filled q b))) (o_order_id filled) =
   map_of (b_orders b) (o_order_id filled)"
  using keepsD [OF keeps_reduce_lookup] by blast

lemma fill_order_Inr:
  assumes "fill_order price q od = Inr od'"
  shows "o_order_id od' = o_order_id od" "o_request od' = o_request od"
    "o_filled od' = fadd (o_filled od) q" "o_oca_group od' = o_oca_group od"
    "o_status od' = (if remaining od' \<le> lit_1e12 then ST_FILLED else ST_SUBMITTED)"
    "o_submitted_at od' = o_submitted_at od" "o_stop_triggered od' = o_stop_triggered od"
    "o_trailing_reference od' = o_trailing_reference od" "o_commission_paid od' = o_commission_paid od"
  using assms by (auto simp: fill_order_def Let_def bind_result_Inr_iff remaining_def requested_quantity_def)

text \<open>The order a fill leaves behind, after its commission is settled.\<close>

definition settle :: "SimulationConfig \<Rightarrow> Order \<Rightarrow> Order" where
  "settle c od = snd (incremental_order_commission c od)"

lemma settle_simps [simp]:
  "o_order_id (settle c od) = o_order_id od" "o_request (settle c od) = o_request od"
  "o_status (settle c od) = o_status od" "o_filled (settle c od) = o_filled od"
  "o_oca_group (settle c od) = o_oca_group od"
  by (simp_all add: settle_def incremental_order_commission_def Let_def)

lemma settle_eq: "settle c od = od\<lparr>o_commission_paid := commission c (o_filled od)\<rparr>"
  by (simp add: settle_def incremental_order_commission_def Let_def)

lemma record_fill_state:
  assumes "map_of (b_orders b) oid = Some od"
  shows "\<exists>x b1. record_fill oid t price q b =
      (Inr x, if o_status od = ST_FILLED
              then cancel_oca_siblings (settle (b_config b) od) (activate_children (o_cOID od) b1)
              else b1) \<and>
    b_orders b1 = AList.update (o_order_id od) (settle (b_config b) od) (b_orders b) \<and>
    b_next_order_id b1 = b_next_order_id b"
  using assms
  by (auto simp: record_fill_def Let_def settle_def incremental_order_commission_def put_order_def)

lemma record_fill_lookup:
  assumes "map_of (b_orders b) oid = Some od" "o_order_id od = oid" "o_status od \<noteq> ST_INACTIVE"
  shows "map_of (b_orders (snd (record_fill oid t price q b))) oid = Some (settle (b_config b) od)"
proof -
  obtain x b1 where 1: "record_fill oid t price q b =
      (Inr x, if o_status od = ST_FILLED
              then cancel_oca_siblings (settle (b_config b) od) (activate_children (o_cOID od) b1)
              else b1)" "b_orders b1 = AList.update (o_order_id od) (settle (b_config b) od) (b_orders b)"
    using record_fill_state [OF assms(1)] by blast
  with assms(2,3) show ?thesis
    by (auto simp: cancel_oca_siblings_def activate_children_def)
qed

context order_law
begin

lemma moves_record_fill:
  assumes "map_of (b_orders b) oid = Some od" "o_order_id od = oid"
  shows "moves E {oid} b (snd (record_fill oid t price q b))"
proof -
  obtain x b1 where 1: "record_fill oid t price q b =
      (Inr x, if o_status od = ST_FILLED
              then cancel_oca_siblings (settle (b_config b) od) (activate_children (o_cOID od) b1)
              else b1)" "b_orders b1 = AList.update (o_order_id od) (settle (b_config b) od) (b_orders b)"
      "b_next_order_id b1 = b_next_order_id b"
    using record_fill_state [OF assms(1)] by blast
  have "moves E {oid} b (put_order (settle (b_config b) od) b)"
    using assms by (auto intro: moves_put)
  moreover have "moves E {oid} (put_order (settle (b_config b) od) b) b1"
    using 1 by (intro moves_same) (simp_all add: put_order_def)
  ultimately have "moves E {oid} b b1" by (rule R_trans)
  then show ?thesis
    by (simp add: 1(1) R_trans [OF R_trans [OF _ moves_activate_children] moves_cancel_oca])
qed

lemma moves_apply_fill:
  assumes ok: "ids_ok b" and od: "map_of (b_orders b) oid = Some od" and "is_open od" "0 < q"
  shows "moves E {} b (snd (apply_fill oid t price q b))"
proof (cases "fill_order price q od")
  case (Inl e)
  with assms ids_ok_lookup [OF ok od] show ?thesis
    by (auto simp: apply_fill_def intro!: moves_put E_fill_abort)
next
  case (Inr od1)
  have id: "o_order_id od = oid" "o_order_id od1 = oid"
    using ids_ok_lookup [OF ok od] fill_order_Inr(1) [OF Inr] by auto
  define reduce where "reduce = (if is_single_exit_group_member od1 \<and> o_status od1 \<noteq> ST_FILLED
      then reduce_single_exit_sibling_capacity od1 q else aret ())"
  let ?b0 = "put_order od1 b"
  have b0: "map_of (b_orders ?b0) oid = Some od1" using id by simp
  have m0: "moves E {oid} b ?b0" using od id by (auto intro: moves_put)
  have m1: "moves E {oid} ?b0 (snd (reduce ?b0))"
    by (auto simp: reduce_def moves_reduce R_refl)
  have k1: "map_of (b_orders (snd (reduce ?b0))) oid = Some od1"
    using reduce_lookup [of od1 q ?b0] id b0 by (auto simp: reduce_def)
  have E1: "E od (od1\<lparr>o_commission_paid := c\<rparr>)" for c
    using assms Inr by (auto intro: E_fill)
  have st: "o_status od1 \<noteq> ST_INACTIVE" using fill_order_Inr(5) [OF Inr] by auto
  have eq: "apply_fill oid t price q b = abind reduce (\<lambda>_. record_fill oid t price q) ?b0"
    using od Inr by (simp add: apply_fill_def reduce_def)
  show ?thesis
  proof (cases "reduce ?b0")
    case (Pair res b1)
    note m01 = R_trans [OF m0 m1]
    show ?thesis
    proof (cases res)
      case (Inl e)
      have "E od od1" using E1 [of "o_commission_paid od1"] by simp
      with moves_focus [OF m01 od k1] Pair Inl show ?thesis
        by (simp add: eq abind_def)
    next
      case (Inr u)
      have "moves E {oid} b (snd (record_fill oid t price q b1))"
        using m01 moves_record_fill [of b1 oid od1] k1 id Pair by (auto intro: R_trans)
      moreover have "map_of (b_orders (snd (record_fill oid t price q b1))) oid =
          Some (settle (b_config b1) od1)"
        using record_fill_lookup [of b1 oid od1] k1 id st Pair by simp
      ultimately have "moves E {} b (snd (record_fill oid t price q b1))"
        unfolding settle_eq using od E1 by (rule_tac moves_focus)
      then show ?thesis
        using Pair Inr by (simp add: eq abind_def)
    qed
  qed
qed

end

section \<open>Sizing and arming write one order\<close>

lemma size_capped_pos: "size_capped b side ty m p a slot ident od = Some (price, q) \<Longrightarrow> 0 < q"
  by (auto simp: size_capped_def Let_def split: if_splits)

lemma size_candidate_pos:
  "size_candidate b side ty m p a slot ident od = (Inr (Some (price, q)), od') \<Longrightarrow> 0 < q"
  by (auto simp: size_candidate_def size_capped_pos split: sum.splits)

lemma fill_candidate_pos:
  "fill_candidate ny b e od = (Inr (Some (price, q)), od') \<Longrightarrow> 0 < q"
  by (auto simp: fill_candidate_def Let_def size_candidate_pos split: if_splits prod.splits option.splits)

definition rearmed :: "Order \<Rightarrow> bool \<Rightarrow> f64 \<Rightarrow> Order" where
  "rearmed od hit x = od\<lparr>o_stop_triggered := o_stop_triggered od \<or> hit, o_trailing_reference := x\<rparr>"

lemma rearmed_same [simp]:
  "o_order_id (rearmed od h x) = o_order_id od" "o_status (rearmed od h x) = o_status od"
  "o_request (rearmed od h x) = o_request od" "o_filled (rearmed od h x) = o_filled od"
  "o_oca_group (rearmed od h x) = o_oca_group od"
  by (simp_all add: rearmed_def)

definition is_rearm :: "Order \<Rightarrow> Order \<Rightarrow> bool" where
  "is_rearm od od' \<longleftrightarrow> (\<exists>hit x. od' = rearmed od hit x)"

lemma is_rearmI: "od' = rearmed od hit x \<Longrightarrow> is_rearm od od'"
  by (auto simp: is_rearm_def)

lemma is_rearm_intros:
  "is_rearm od od" "is_rearm od (od\<lparr>o_stop_triggered := True\<rparr>)"
  "\<not> o_stop_triggered od \<Longrightarrow> is_rearm od (od\<lparr>o_stop_triggered := hit\<rparr>)"
  "is_rearm od (od\<lparr>o_trailing_reference := x\<rparr>)"
  "is_rearm od (od\<lparr>o_trailing_reference := x, o_stop_triggered := True\<rparr>)"
      apply (rule is_rearmI [where hit = False and x = "o_trailing_reference od"], simp add: rearmed_def)
     apply (rule is_rearmI [where hit = True and x = "o_trailing_reference od"], simp add: rearmed_def)
    apply (rule is_rearmI [where hit = hit and x = "o_trailing_reference od"], simp add: rearmed_def)
   apply (rule is_rearmI [where hit = False and x = x], simp add: rearmed_def)
  apply (rule is_rearmI [where hit = True and x = x], simp add: rearmed_def)
  done

lemma is_rearm_if: "is_rearm od x \<Longrightarrow> is_rearm od y \<Longrightarrow> is_rearm od (if c then x else y)"
  by simp

lemma arm_order_rearmed: "is_rearm od (snd (arm_order ny e side mp od))"
  unfolding arm_order_def Let_def by (auto intro: is_rearm_intros split: option.splits)

lemma bar_trigger_rearmed: "is_rearm od (bar_trigger v od)"
  unfolding bar_trigger_def by (simp only: Let_def) (intro is_rearm_if is_rearm_intros)

text \<open>\<open>Prepared od od'\<close>: the order a candidate computation hands on is the order it was given,
  rearmed and perhaps resized.\<close>

definition prepared :: "Order \<Rightarrow> Order \<Rightarrow> bool" where
  "prepared od od' \<longleftrightarrow> (\<exists>hit x. od' = rearmed od hit x \<or>
     (\<exists>q. replace_quantity (rearmed od hit x) q = Inr od'))"

lemma prepared_simps:
  assumes "prepared od od'"
  shows "o_order_id od' = o_order_id od" "o_status od' = o_status od" "o_filled od' = o_filled od"
    "or_conid (o_request od') = or_conid (o_request od)" "or_acctId (o_request od') = or_acctId (o_request od)"
    "or_ticker (o_request od') = or_ticker (o_request od)" "o_oca_group od' = o_oca_group od"
    "or_side (o_request od') = or_side (o_request od)" "or_cOID (o_request od') = or_cOID (o_request od)"
proof -
  from assms obtain h x r where "od' = rearmed od h x \<or> od' = (rearmed od h x)\<lparr>o_request := r\<rparr>"
    and "\<exists>q. r = (o_request od)\<lparr>or_quantity := Some q\<rparr>"
    unfolding prepared_def replace_quantity_Inr by fastforce
  then show "o_order_id od' = o_order_id od" "o_status od' = o_status od" "o_filled od' = o_filled od"
    "or_conid (o_request od') = or_conid (o_request od)" "or_acctId (o_request od') = or_acctId (o_request od)"
    "or_ticker (o_request od') = or_ticker (o_request od)" "o_oca_group od' = o_oca_group od"
    "or_side (o_request od') = or_side (o_request od)" "or_cOID (o_request od') = or_cOID (o_request od)"
    by (elim exE disjE; simp)+
qed

lemma size_candidate_prepared:
  assumes "size_candidate b side ty m p a slot ident (rearmed od h x) = (res, od')"
  shows "prepared od od'"
proof -
  have "od' = rearmed od h x \<or> (\<exists>q. replace_quantity (rearmed od h x) q = Inr od')"
    using assms by (auto simp: size_candidate_def cap_to_held_def Let_def split: sum.splits if_splits)
  then show ?thesis by (auto simp: prepared_def)
qed

lemma rearmed_id [simp]: "rearmed od (o_stop_triggered od) (o_trailing_reference od) = od"
  by (simp add: rearmed_def)

lemma prepared_rearmed: "prepared od (rearmed od hit x)"
  by (auto simp: prepared_def)

lemma prepared_refl: "prepared od od"
  by (metis prepared_rearmed rearmed_id)

lemma size_candidate_prepared':
  "size_candidate b side ty m p a slot ident od = (res, od') \<Longrightarrow> prepared od od'"
  by (metis size_candidate_prepared rearmed_id)

lemma fill_candidate_prepared:
  assumes "fill_candidate ny b e od = (res, od')"
  shows "prepared od od'"
proof -
  let ?side = "upper (or_side (o_request od))"
  let ?mp = "executable_price b (or_conid (o_request od)) ?side e"
  obtain ty od1 where arm: "arm_order ny e ?side ?mp od = (ty, od1)" by force
  then obtain h x where od1: "od1 = rearmed od h x"
    using arm_order_rearmed [of od ny e ?side ?mp] by (auto simp: is_rearm_def)
  from assms arm od1 prepared_rearmed prepared_refl size_candidate_prepared show ?thesis
    by (auto simp: fill_candidate_def Let_def split: if_splits option.splits prod.splits)
qed

lemma is_working_open: "is_working od \<Longrightarrow> is_open od"
  by (auto simp: is_working_def is_open_status.simps)

context order_law
begin

lemma E_prepared: "is_open od \<Longrightarrow> prepared od od' \<Longrightarrow> E od od'"
proof -
  assume od: "is_open od" and "prepared od od'"
  then obtain h x where "od' = rearmed od h x \<or> (\<exists>q. replace_quantity (rearmed od h x) q = Inr od')"
    by (auto simp: prepared_def)
  moreover have "E od (rearmed od h x)" "is_open (rearmed od h x)"
    using od E_trigger by (auto simp: rearmed_def)
  ultimately show ?thesis using E_resize E_trans by blast
qed

lemma moves_prepare:
  assumes "ids_ok b" "map_of (b_orders b) oid = Some od" "is_open od" "prepared od od'"
  shows "moves E {} b (put_order od' b)"
  using assms prepared_simps(1) [OF assms(4)] ids_ok_lookup [OF assms(1,2)] E_prepared [OF assms(3,4)]
  by (intro moves_put [where od = od]) auto

lemma moves_prepare_fill:
  assumes ok: "ids_ok b" and od: "map_of (b_orders b) oid = Some od" and op: "is_open od"
    and p: "prepared od od'" and "0 < q"
  shows "moves E {} b (snd (apply_fill oid t price q (put_order od' b)))"
proof (rule R_trans [OF moves_prepare [OF ok od op p]])
  have "ids_ok (put_order od' b)" using moves_prepare [OF ok od op p] ok by (simp add: moves_def)
  then show "moves E {} (put_order od' b) (snd (apply_fill oid t price q (put_order od' b)))"
    using assms prepared_simps(1,2) [OF p] ids_ok_lookup [OF ok od]
    by (intro moves_apply_fill [where od = od']) auto
qed

lemma moves_consume: "moves E X b s \<Longrightarrow> moves E X b (consume slot ident q s)"
  by (rule R_trans, assumption, rule moves_same) simp_all

lemma moves_match_visit: "moves E {} b (snd (match_visit ny e t oid b))"
proof (cases "ids_ok b \<and> (\<exists>od. map_of (b_orders b) oid = Some od \<and> is_working od)")
  case False
  then show ?thesis
    by (auto simp: match_visit_def E_refl moves_def [of _ _ b] split: option.splits)
next
  case True
  then obtain od where ok: "ids_ok b" and od: "map_of (b_orders b) oid = Some od" and w: "is_working od"
    by blast
  obtain res od' where c: "fill_candidate ny b e od = (res, od')" by force
  note p = fill_candidate_prepared [OF c] and op = is_working_open [OF w]
  have m: "moves E {} b (put_order od' b)" by (rule moves_prepare [OF ok od op p])
  have f: "moves E {} b (snd (apply_fill oid t price q (put_order od' b)))"
    if "res = Inr (Some (price, q))" for price q
    using that fill_candidate_pos c by (intro moves_prepare_fill [OF ok od op p]) auto
  show ?thesis
  proof (cases res)
    case (Inr r)
    show ?thesis
    proof (cases r)
      case (Some pq)
      obtain price q where pq: "pq = (price, q)" by force
      with Some Inr f have "moves E {} b (snd (apply_fill oid t price q (put_order od' b)))" by simp
      with Some Inr pq od w c show ?thesis
        by (cases "apply_fill oid t price q (put_order od' b)")
           (auto simp: match_visit_def R_refl abind_def intro: moves_consume split: sum.splits prod.splits)
    qed (use Inr od w c m in \<open>auto simp: match_visit_def R_refl\<close>)
  qed (use od w c m in \<open>auto simp: match_visit_def R_refl\<close>)
qed

lemma moves_match_orders: "moves E {} b (snd (match_orders ny e t ids b))"
  by (auto simp: match_orders_def Let_def R_refl
      intro!: relates_abind_at relatesD [OF relates_for_each] relatesI moves_match_visit)

lemma moves_observe: "moves E {} b (snd (observe_market_event ny e b))"
  by (rule moves_same) simp_all

lemma moves_on_market_event: "moves E {} b (snd (on_market_event ny e b))"
  by (auto simp: on_market_event_def R_refl moves_match_orders intro!: relates_abind_at moves_observe)

lemma moves_match_current: "moves E {} b (snd (match_current_orders ny ticker t ids bid ask observed b))"
  by (auto simp: match_current_orders_def Let_def R_refl moves_match_orders split: option.splits
      intro!: relates_abind_at relatesD [OF relates_for_each] relatesI)

lemma moves_bar_visit: "moves E {} b (snd (bar_visit ny v oid b))"
proof (cases "ids_ok b \<and> (\<exists>od. map_of (b_orders b) oid = Some od \<and> is_working od)")
  case False
  then show ?thesis
    by (auto simp: bar_visit_def Let_def E_refl moves_def [of _ _ b] split: option.splits)
next
  case True
  then obtain od where ok: "ids_ok b" and od: "map_of (b_orders b) oid = Some od" and w: "is_working od"
    by blast
  note op = is_working_open [OF w]
  have trig: "moves E {} b (put_order (bar_trigger v od) b)"
    using bar_trigger_rearmed [of od v] prepared_rearmed
    by (auto simp: is_rearm_def intro!: moves_prepare [OF ok od op])
  have cand: "moves E {} b (put_order od' b)" "q = Some (x, y) \<Longrightarrow> r = Inr q \<Longrightarrow>
      moves E {} b (snd (apply_fill oid t x y (put_order od' b)))"
    if "size_candidate b side ty m p a slot ident od = (r, od')" for side ty m p a slot ident r od' q x y t
  proof -
    note p = size_candidate_prepared' [OF that]
    show "moves E {} b (put_order od' b)" by (rule moves_prepare [OF ok od op p])
    show "moves E {} b (snd (apply_fill oid t x y (put_order od' b)))" if "q = Some (x, y)" "r = Inr q"
      using that size_candidate_pos [of b side ty m _ a slot ident od x y od']
        \<open>size_candidate b side ty m _ a slot ident od = (r, od')\<close>
      by (intro moves_prepare_fill [OF ok od op p]) blast
  qed
  show ?thesis
    using od cand trig
    by (auto simp: bar_visit_def Let_def R_refl abind_def consume_def [symmetric] intro!: moves_consume
        split: sum.splits option.splits prod.splits)
       (metis snd_conv)+
qed

lemma moves_bar: "moves E {} b (snd (on_liquidity_bar ny row t b))"
proof -
  have 1: "moves E {} b s" if "b_orders s = b_orders b" "b_next_order_id s = b_next_order_id b" for s
    by (rule moves_same [OF that])
  have "moves E {} b (snd (on_validated_liquidity_bar ny row t b))" for t
  proof -
    let ?v = "view_bar row t"
    define f where "f cs = fold (mark_conid ?v) cs (publish_bar ?v b)" for cs
    have "moves E {} b (f cs)" for cs by (rule 1) (simp_all add: f_def)
    moreover have "moves E {} (f cs) (snd (abind (for_each (bar_visit ny ?v) ids) (\<lambda>xss. aret (concat xss)) (f cs)))" for cs ids
      by (intro relates_abind_at relatesD [OF relates_for_each] relatesI) (auto simp: moves_bar_visit R_refl)
    ultimately show ?thesis
      unfolding on_validated_liquidity_bar_def Let_def f_def [symmetric]
      using 1 [of "publish_bar ?v b"] by (auto intro: R_trans)
  qed
  then show ?thesis by (auto simp: on_liquidity_bar_def R_refl split: sum.splits)
qed

lemma moves_accept:
  assumes r: "valid_request r" "or_quantity r \<noteq> None"
  shows "moves E {} b (accept_order now g r b)"
proof (rule movesI)
  assume "ids_ok b"
  then show "ids_ok (accept_order now g r b)"
    by (auto simp: accept_order_def Let_def ids_ok_iff put_order_def new_order_def intro: less_imp_le)
  fix k od assume "map_of (b_orders b) k = Some od"
  with \<open>ids_ok b\<close> ids_ok_lookup [of b k od]
  show "\<exists>od'. map_of (b_orders (accept_order now g r b)) k = Some od' \<and> (k \<notin> {} \<longrightarrow> E od od')"
    by (auto simp: accept_order_def Let_def put_order_def new_order_def E_refl)
next
  fix k od' assume "map_of (b_orders (accept_order now g r b)) k = Some od'" "map_of (b_orders b) k = None"
  then have "od' = new_order now b g r"
    by (auto simp: accept_order_def Let_def put_order_def new_order_def split: if_splits)
  with r show "\<exists>od. born_order od \<and> E od od'" unfolding born_order_def using E_refl by blast
qed (simp add: accept_order_def Let_def put_order_def new_order_def)

lemma moves_place:
  assumes "\<forall>r \<in> set orders. valid_request r"
  shows "moves E {} b (snd (place_orders now a orders b))"
proof -
  have one: "moves E {} s (snd (place_one now g rep r s))"
    if "valid_request r" "or_quantity r \<noteq> None" for s g rep r
    using that by (auto simp: place_one_def R_refl moves_accept Let_def split: sum.splits)
  have "valid_request r \<and> or_quantity r \<noteq> None"
    if "map_result (resolve_cash_quantity b) orders = Inr resolved" "r \<in> set resolved" for r resolved
    using map_result_Inr_set [OF that] resolve_cash_quantity_valid assms by blast
  then have loop: "moves E {} s (snd (abind (for_each (place_one now g rep) resolved) (\<lambda>rows. aret (Placed rows)) s))"
    if "map_result (resolve_cash_quantity b) orders = Inr resolved" for resolved g rep s
    using that by (intro relates_abind_at relatesD [OF relates_for_each] relatesI one) (auto simp: R_refl)
  then show ?thesis
    unfolding place_orders_def Let_def
    by (auto simp: R_refl bind_result_Inr_iff split: sum.splits if_splits)
qed

lemma moves_modify:
  assumes r: "valid_request r"
  shows "moves E {} b (snd (modify_order a oid r b))"
proof (cases "ids_ok b \<and> (\<exists>od b1. modify_check b a oid r = Inr od \<and>
    reindex_order (o_ticker od) (upper (or_ticker r)) oid b = Inr b1)")
  case False
  then show ?thesis
    by (auto simp: modify_order_def R_refl moves_def [of _ _ b] E_refl split: sum.splits)
next
  case True
  then obtain od b1 where ok: "ids_ok b" and c: "modify_check b a oid r = Inr od"
    and i: "reindex_order (o_ticker od) (upper (or_ticker r)) oid b = Inr b1" by blast
  note f = reindex_order_frame [OF i] and g = modify_check_facts(1) [OF c]
  let ?st = "case parent_of r of Some p \<Rightarrow> if parent_filled b1 p then ST_SUBMITTED else ST_INACTIVE
    | None \<Rightarrow> ST_SUBMITTED"
  have "moves E {} b b1" using f by (intro moves_same) auto
  moreover have "moves E {} b1 (put_order (od\<lparr>o_request := r, o_status := ?st\<rparr>) b1)"
    using f g ids_ok_lookup [OF ok g] E_modify [OF c r, of ?st]
    by (intro moves_put [where od = od]) (auto split: option.splits)
  ultimately show ?thesis
    using c i by (auto simp: modify_order_def Let_def intro: R_trans)
qed

lemma moves_cancel: "moves E {} b (snd (cancel_order a oid b))"
proof (cases "ids_ok b \<and> (\<exists>od. map_of (b_orders b) oid = Some od \<and> is_open od)")
  case False
  then show ?thesis
    by (auto simp: cancel_order_def require_order_def R_refl moves_def [of _ _ b] E_refl bind_result_def
        split: sum.splits option.splits if_splits)
next
  case True
  then obtain od where ok: "ids_ok b" and od: "map_of (b_orders b) oid = Some od" and op: "is_open od" by blast
  have "moves E {} b (put_order (cancel_with w od) b)" for w
    using od op ids_ok_lookup [OF ok od] E_cancel by (intro moves_put [where od = od]) (auto simp: cancel_with_def)
  from R_trans [OF this moves_cancel_children] od op show ?thesis
    by (auto simp: cancel_order_def require_order_def R_refl bind_result_def split: sum.splits if_splits)
qed

lemma moves_expire: "moves E {} b (snd (expire_day_orders a b))"
proof -
  have "E od (if expires a od then expire_order od else od)" for od
    using E_cancel [of od] by (auto simp: expires_def expire_order_def E_refl)
  moreover have "o_order_id (if expires a od then expire_order od else od) = o_order_id od" for od
    by (simp add: expire_order_def cancel_with_def)
  ultimately show ?thesis
    by (auto simp: expire_day_orders_def R_refl split: sum.splits intro!: moves_map_values)
qed

lemma moves_initialize: "moves E {} b (snd (initialize b))"
  by (rule moves_same) (simp_all add: initialize_def)

end

section \<open>The broker as a transition system\<close>

text \<open>
  One call of the adapter's interface, on requests that satisfy \<open>V\<close> (constructed requests, where
  nothing more is said). A call that raises is a step too: it may have changed
  the broker before the exception.
\<close>

inductive broker_step_of :: "(OrderRequest \<Rightarrow> bool) \<Rightarrow> Broker \<Rightarrow> Broker \<Rightarrow> bool" for V where
  step_initialize: "broker_step_of V b (snd (initialize b))"
| step_place: "\<forall>r \<in> set orders. V r \<Longrightarrow> broker_step_of V b (snd (place_orders now a orders b))"
| step_modify: "V r \<Longrightarrow> broker_step_of V b (snd (modify_order a oid r b))"
| step_cancel: "broker_step_of V b (snd (cancel_order a oid b))"
| step_expire: "broker_step_of V b (snd (expire_day_orders a b))"
| step_observe: "broker_step_of V b (snd (observe_market_event ny e b))"
| step_event: "broker_step_of V b (snd (on_market_event ny e b))"
| step_current: "broker_step_of V b (snd (match_current_orders ny ticker t ids bid ask observed b))"
| step_bar: "broker_step_of V b (snd (on_liquidity_bar ny row t b))"

inductive_cases broker_stepE: "broker_step_of V b b'"

lemma broker_step_mono: "broker_step_of V b b' \<Longrightarrow> (\<And>r. V r \<Longrightarrow> W r) \<Longrightarrow> broker_step_of W b b'"
  by (erule broker_stepE) (auto intro: broker_step_of.intros)

abbreviation broker_step :: "Broker \<Rightarrow> Broker \<Rightarrow> bool" where
  "broker_step \<equiv> broker_step_of valid_request"

abbreviation broker_run :: "Broker \<Rightarrow> Broker \<Rightarrow> bool" where
  "broker_run \<equiv> rtranclp broker_step"

definition broker_start :: "Broker \<Rightarrow> bool" where
  "broker_start b \<longleftrightarrow> (\<exists>ids config mode t. SimulatedBrokerAdapter ids config mode t = Inr b)"

definition broker_reachable :: "Broker \<Rightarrow> bool" where
  "broker_reachable b \<longleftrightarrow> (\<exists>b0. broker_start b0 \<and> broker_run b0 b)"

context order_law
begin

lemma moves_step: "broker_step b b' \<Longrightarrow> moves E {} b b'"
  by (erule broker_stepE)
     (simp_all add: moves_initialize moves_place moves_modify moves_cancel moves_expire moves_observe
        moves_on_market_event moves_match_current moves_bar)

lemma moves_run: "broker_run b b' \<Longrightarrow> moves E {} b b'"
  by (induction rule: rtranclp_induct) (auto intro: R_refl R_trans moves_step)

end

lemma ids_ok_start: "broker_start b \<Longrightarrow> ids_ok b"
  by (auto simp: broker_start_def SimulatedBrokerAdapter_def ids_ok_def split: if_splits)

lemma start_reachable: "broker_start b \<Longrightarrow> broker_reachable b"
  by (auto simp: broker_reachable_def)

lemma reachable_step: "broker_reachable b \<Longrightarrow> broker_step b b' \<Longrightarrow> broker_reachable b'"
  by (auto simp: broker_reachable_def intro: rtranclp.rtrancl_into_rtrancl)

lemma reachable_induct [consumes 1, case_names start step]:
  assumes "broker_reachable b" and "\<And>b. broker_start b \<Longrightarrow> P b"
    and "\<And>b b'. broker_reachable b \<Longrightarrow> P b \<Longrightarrow> broker_step b b' \<Longrightarrow> P b'"
  shows "P b"
proof -
  from assms(1) obtain b0 where b0: "broker_start b0" "broker_run b0 b" by (auto simp: broker_reachable_def)
  from b0(2) have "broker_reachable b \<and> P b"
    by (induction rule: rtranclp_induct) (use assms b0(1) start_reachable reachable_step in blast)+
  then show ?thesis by simp
qed

end
