(* ===== verification/SimDemo.thy ===== *)
theory SimDemo
  imports SimLaws
begin

text \<open>
  Concrete brokers, orders and events the witnesses run the model on: one account, one
  contract, whole shares, a clock at UTC. \<open>demo_noon\<close> is Monday, 1970-01-05, 12:00.
\<close>

definition demo_request :: OrderRequest where
  "demo_request =
     \<lparr>or_acctId = ''A'', or_conid = 1, or_orderType = ''LMT'', or_side = ''BUY'', or_quantity = Some 10,
      or_cashQty = None, or_secType = ''STK'', or_cOID = ''c1'', or_parentId = None, or_ticker = ''X'',
      or_tif = ''DAY'', or_outsideRTH = True, or_price = Some 50, or_auxPrice = None,
      or_trailingAmt = None, or_trailingType = None, or_listingExchange = ''SMART'',
      or_isSingleGroup = False, or_manualIndicator = False, or_extOperator = None,
      or_referrer = None, or_strategy = None, or_strategyParameters = [], or_raw = no_lineage\<rparr>"

definition demo_config :: SimulationConfig where
  "demo_config =
     \<lparr>sc_initial_cash = 100, sc_base_currency = ''USD'', sc_commission_per_share = 0,
      sc_minimum_commission = 1, sc_liquidity_participation = 1,
      sc_marketable_liquidity_participation = None, sc_market_slippage_bps = 0,
      sc_allow_short = False, sc_new_order_activation_delay_ms = 0\<rparr>"

definition demo_broker :: "f64 \<Rightarrow> Broker" where
  "demo_broker cash =
     (case SimulatedBrokerAdapter [''A''] (demo_config\<lparr>sc_initial_cash := cash\<rparr>) MODE_REPLAY (Some (Aware 0)) of
        Inr b \<Rightarrow> b\<lparr>b_initialized := True\<rparr> | Inl _ \<Rightarrow> undefined)"

definition demo_noon :: utc where
  "demo_noon = (4 * 86400 + 12 * 3600) * 1000000"

definition demo_quote :: "utc \<Rightarrow> f64 \<Rightarrow> f64 \<Rightarrow> f64 \<Rightarrow> MarketEvent" where
  "demo_quote t bid ask shares =
     Quote \<lparr>qu_ask_exchange = 0, qu_ask_price = ask, qu_ask_size = shares, qu_bid_exchange = 0,
       qu_bid_price = bid, qu_bid_size = shares, qu_conditions = [], qu_indicators = [],
       qu_ingest_ts = t, qu_raw = \<lparr>er_conid = Some 1, er_con_id = None, er_price_eligible = None, er_volume_eligible = None\<rparr>,
       qu_sequence = 0, qu_source = ''demo'', qu_tape = 0, qu_ticker = ''X'', qu_ts = t\<rparr>"

abbreviation demo_ny :: wall_clock where
  "demo_ny \<equiv> fixed_clock 0"

abbreviation demo_place :: "OrderRequest list \<Rightarrow> Broker \<Rightarrow> Broker" where
  "demo_place orders b \<equiv> snd (place_orders 0 ''A'' orders b)"

abbreviation demo_event :: "MarketEvent \<Rightarrow> Broker \<Rightarrow> Broker" where
  "demo_event e b \<equiv> snd (on_market_event demo_ny e b)"

definition demo_placed :: Broker where
  "demo_placed = demo_place [demo_request] (demo_broker 1000)"

definition demo_partial :: Broker where
  "demo_partial = demo_event (demo_quote demo_noon 49 50 4) demo_placed"

definition demo_filled :: Broker where
  "demo_filled = demo_event (demo_quote (demo_noon + 1) 49 50 100) demo_partial"

definition demo_cancelled :: Broker where
  "demo_cancelled = snd (cancel_order ''A'' 1 demo_filled)"

lemma demo_request_valid: "valid_request demo_request"
  unfolding valid_request_def by code_simp

lemma demo_start:
  "\<exists>b. broker_start b \<and> demo_broker cash = snd (initialize b)"
proof -
  have "strip ''A'' \<noteq> []" by code_simp
  then obtain b where "SimulatedBrokerAdapter [''A''] (demo_config\<lparr>sc_initial_cash := cash\<rparr>)
      MODE_REPLAY (Some (Aware 0)) = Inr b"
    by (auto simp: SimulatedBrokerAdapter_def)
  then show ?thesis
    unfolding broker_start_def demo_broker_def initialize_def aupd_def by fastforce
qed

lemma demo_broker_reachable: "broker_reachable (demo_broker cash)"
proof -
  obtain b where "broker_start b" "demo_broker cash = snd (initialize b)" using demo_start by blast
  then have "broker_start b" "broker_run b (demo_broker cash)"
    using r_into_rtranclp [of broker_step, OF step_initialize [of valid_request b]] by simp_all
  then show ?thesis unfolding broker_reachable_def by blast
qed

lemma demo_reachable: "broker_reachable demo_placed" "broker_reachable demo_partial" "broker_reachable demo_filled"
proof -
  show 1: "broker_reachable demo_placed"
    unfolding demo_placed_def
    by (rule reachable_step [OF demo_broker_reachable step_place]) (simp add: demo_request_valid)
  show 2: "broker_reachable demo_partial"
    unfolding demo_partial_def by (rule reachable_step [OF 1 step_event])
  show "broker_reachable demo_filled"
    unfolding demo_filled_def by (rule reachable_step [OF 2 step_event])
qed

lemma demo_runs: "broker_run demo_partial demo_filled" "broker_run demo_filled demo_cancelled"
  unfolding demo_filled_def [of, symmetric] demo_cancelled_def
  by (auto simp: demo_filled_def intro: r_into_rtranclp step_event step_cancel)

end
