(* ===== verification/SimOrders.thy ===== *)
theory SimOrders
  imports SimDemo
begin

text \<open>
  The life of an order in the simulated broker. The three interpretations of \<open>order_law\<close> and
  the invariant of single orders give: terminal orders are frozen, the identity of an order
  never changes, fills and triggered stops are never undone, and every order of a reachable
  book is well formed.
\<close>

section \<open>Invariants of single orders\<close>

locale order_invariant = order_law "\<lambda>od od'. I od \<longrightarrow> I od'" for I :: "Order \<Rightarrow> bool" +
  assumes I_born: "born_order od \<Longrightarrow> I od"
begin

lemma reachable_I:
  assumes "broker_reachable b" "map_of (b_orders b) k = Some od"
  shows "I od"
proof -
  from assms obtain b0 where b0: "broker_start b0" "broker_run b0 b"
    by (auto simp: broker_reachable_def)
  have "b_orders b0 = []"
    using b0(1) by (auto simp: broker_start_def SimulatedBrokerAdapter_def split: if_splits)
  with moves_run [OF b0(2)] ids_ok_start [OF b0(1)] assms(2) I_born show ?thesis
    by (auto simp: moves_def)
qed

end

definition keeps_terminal :: "Order \<Rightarrow> Order \<Rightarrow> bool" where
  "keeps_terminal od od' \<longleftrightarrow> (\<not> is_open od \<longrightarrow> od' = od)"

definition keeps_identity :: "Order \<Rightarrow> Order \<Rightarrow> bool" where
  "keeps_identity od od' \<longleftrightarrow>
     o_order_id od' = o_order_id od \<and> o_conid od' = o_conid od \<and> o_acct od' = o_acct od \<and>
     o_cOID od' = o_cOID od \<and> o_side od' = o_side od \<and> o_submitted_at od' = o_submitted_at od \<and>
     o_oca_group od' = o_oca_group od"

definition keeps_progress :: "Order \<Rightarrow> Order \<Rightarrow> bool" where
  "keeps_progress od od' \<longleftrightarrow>
     (is_f64 (o_filled od) \<longrightarrow> is_f64 (o_filled od') \<and> o_filled od \<le> o_filled od') \<and>
     (o_stop_triggered od \<longrightarrow> o_stop_triggered od')"

interpretation terminal: order_law keeps_terminal
proof
  show "keeps_terminal od od2" if "keeps_terminal od od1" "keeps_terminal od1 od2" for od od1 od2
    using that by (cases "is_open od") (auto simp: keeps_terminal_def)
qed (auto simp: keeps_terminal_def is_open_status.simps dest: modify_check_facts(2))

interpretation identity: order_law keeps_identity
proof
  fix od q od' assume "replace_quantity od q = Inr od'"
  then have "od' = od\<lparr>o_request := (o_request od)\<lparr>or_quantity := Some q\<rparr>\<rparr>" by (rule replace_quantityD)
  then show "keeps_identity od od'" by (simp add: keeps_identity_def)
next
  fix od price q od' c assume "fill_order price q od = Inr od'"
  from fill_order_Inr [OF this] show "keeps_identity od (od'\<lparr>o_commission_paid := c\<rparr>)"
    by (simp add: keeps_identity_def)
next
  fix b a oid r od status assume "modify_check b a oid r = Inr od"
  from modify_check_facts [OF this] show "keeps_identity od (od\<lparr>o_request := r, o_status := status\<rparr>)"
    by (simp add: keeps_identity_def)
qed (simp_all add: keeps_identity_def cancel_with_def)

interpretation progress: order_law keeps_progress
proof
  fix od price q od' c assume "0 < q" "fill_order price q od = Inr od'"
  then show "keeps_progress od (od'\<lparr>o_commission_paid := c\<rparr>)"
    using fadd_ge_left [of "o_filled od" q] by (auto simp: keeps_progress_def fill_order_Inr fadd_def)
next
  fix od and q :: f64 assume "0 < q"
  then show "keeps_progress od (od\<lparr>o_filled := fadd (o_filled od) q\<rparr>)"
    using fadd_ge_left [of "o_filled od" q] by (auto simp: keeps_progress_def fadd_def)
qed (auto simp: keeps_progress_def cancel_with_def dest: replace_quantityD)

text \<open>What holds of every order in a reachable book.\<close>

definition well_formed_order :: "Order \<Rightarrow> bool" where
  "well_formed_order od \<longleftrightarrow>
     valid_request (o_request od) \<and> or_quantity (o_request od) \<noteq> None \<and>
     is_f64 (o_filled od) \<and> 0 \<le> o_filled od \<and>
     (o_status od = ST_FILLED \<longrightarrow> remaining od \<le> lit_1e12)"

lemma modify_check_quantity: "modify_check b a oid r = Inr od \<Longrightarrow> or_quantity r \<noteq> None"
  by (auto simp: modify_check_def pretrade_validate_def bind_result_Inr_iff split: option.splits if_splits)

interpretation formed: order_invariant well_formed_order
proof
  fix od q od' assume "is_open od" "replace_quantity od q = Inr od'"
  then show "well_formed_order od \<longrightarrow> well_formed_order od'"
    using checked_valid by (auto simp: well_formed_order_def replace_quantity_Inr is_open_status.simps)
next
  fix od price q od' c assume "0 < q" "fill_order price q od = Inr od'"
  then show "well_formed_order od \<longrightarrow> well_formed_order (od'\<lparr>o_commission_paid := c\<rparr>)"
    using fadd_nonneg [of "o_filled od" q]
    by (auto simp: well_formed_order_def fill_order_Inr fadd_def remaining_def requested_quantity_def)
next
  fix od and q :: f64 assume "is_open od" "0 < q"
  then show "well_formed_order od \<longrightarrow> well_formed_order (od\<lparr>o_filled := fadd (o_filled od) q\<rparr>)"
    using fadd_nonneg [of "o_filled od" q] by (auto simp: well_formed_order_def fadd_def is_open_status.simps)
next
  fix b a oid r od status
  assume "modify_check b a oid r = Inr od" "valid_request r" "status \<in> {ST_SUBMITTED, ST_INACTIVE}"
  then show "well_formed_order od \<longrightarrow> well_formed_order (od\<lparr>o_request := r, o_status := status\<rparr>)"
    using modify_check_quantity by (auto simp: well_formed_order_def)
next
  show "well_formed_order od" if "born_order od" for od
    using that by (auto simp: born_order_def well_formed_order_def new_order_def split: if_splits)
qed (auto simp: well_formed_order_def cancel_with_def remaining_def requested_quantity_def is_open_status.simps)

section \<open>The life of an order\<close>

lemma reachable_ids_ok: "broker_reachable b \<Longrightarrow> ids_ok b"
  using terminal.moves_run ids_ok_start by (auto simp: broker_reachable_def moves_def)

text \<open>
  C2. An order that is filled or cancelled (or otherwise not open) in a reachable book is never
  touched again: whatever commands and market data follow, it is still in the book, unchanged.
\<close>

theorem terminal_orders_frozen:
  assumes "broker_reachable b" and "broker_run b b'"
    and "map_of (b_orders b) oid = Some od" and "\<not> is_open od"
  shows "map_of (b_orders b') oid = Some od"
  using terminal.moves_run [OF assms(2)] reachable_ids_ok [OF assms(1)] assms(3,4)
  by (auto simp: moves_def keeps_terminal_def)

theorem terminal_orders_frozen_witness:
  "\<exists>od. map_of (b_orders demo_filled) 1 = Some od \<and> o_status od = ST_FILLED \<and>
     map_of (b_orders demo_cancelled) 1 = Some od"
proof -
  have "case map_of (b_orders demo_filled) 1 of Some od \<Rightarrow> o_status od = ST_FILLED | None \<Rightarrow> False"
    by code_simp
  then obtain od where od: "map_of (b_orders demo_filled) 1 = Some od" "o_status od = ST_FILLED"
    by (auto split: option.splits)
  have "map_of (b_orders demo_cancelled) 1 = Some od"
    by (rule terminal_orders_frozen [OF demo_reachable(3) demo_runs(2) od(1)])
      (simp add: od(2) is_open_status.simps)
  with od show ?thesis by blast
qed

text \<open>
  An order keeps its identity for good: its id, contract, account, client id, side,
  submission time and one-cancels-all group are the ones it was placed with, across
  modifications, fills, cancellations and expiry.
\<close>

theorem order_identity_fixed:
  assumes "broker_reachable b" and "broker_run b b'" and "map_of (b_orders b) oid = Some od"
  shows "\<exists>od'. map_of (b_orders b') oid = Some od' \<and>
    o_order_id od' = oid \<and> o_conid od' = o_conid od \<and> o_acct od' = o_acct od \<and>
    o_cOID od' = o_cOID od \<and> o_side od' = o_side od \<and> o_submitted_at od' = o_submitted_at od \<and>
    o_oca_group od' = o_oca_group od"
  using identity.moves_run [OF assms(2)] reachable_ids_ok [OF assms(1)] assms(3) ids_ok_lookup [of b oid od]
  by (fastforce simp: moves_def keeps_identity_def)

theorem order_identity_fixed_witness:
  "\<exists>od'. map_of (b_orders demo_filled) 1 = Some od' \<and> o_order_id od' = 1 \<and> o_conid od' = 1"
proof -
  have "case map_of (b_orders demo_partial) 1 of Some od \<Rightarrow> o_conid od = 1 | None \<Rightarrow> False"
    by code_simp
  then obtain od where "map_of (b_orders demo_partial) 1 = Some od" "o_conid od = 1"
    by (auto split: option.splits)
  with order_identity_fixed [OF demo_reachable(2) demo_runs(1), of 1 od] show ?thesis
    by fastforce
qed

text \<open>
  C3. Progress is never undone: the filled quantity of an order never decreases and a
  triggered stop stays triggered.
\<close>

theorem fills_never_undone:
  assumes "broker_reachable b" and "broker_run b b'" and "map_of (b_orders b) oid = Some od"
  shows "\<exists>od'. map_of (b_orders b') oid = Some od' \<and> o_filled od \<le> o_filled od' \<and>
    (o_stop_triggered od \<longrightarrow> o_stop_triggered od')"
proof -
  have "is_f64 (o_filled od)"
    using formed.reachable_I [OF assms(1,3)] by (simp add: well_formed_order_def)
  with progress.moves_run [OF assms(2)] reachable_ids_ok [OF assms(1)] assms(3) show ?thesis
    by (fastforce simp: moves_def keeps_progress_def)
qed

theorem fills_never_undone_witness:
  "\<exists>od'. map_of (b_orders demo_filled) 1 = Some od' \<and> 4 \<le> o_filled od'"
proof -
  have "case map_of (b_orders demo_partial) 1 of Some od \<Rightarrow> o_filled od = 4 | None \<Rightarrow> False"
    by code_simp
  then obtain od where "map_of (b_orders demo_partial) 1 = Some od" "o_filled od = 4"
    by (auto split: option.splits)
  with fills_never_undone [OF demo_reachable(2) demo_runs(1), of 1 od] show ?thesis by fastforce
qed

text \<open>
  C4. Every order of a reachable book is well formed: its request passes the constructor's
  checks and names a quantity, what it has filled is a non-negative double, and \<open>Filled\<close> means
  that no more than \<open>1e-12\<close> of it is left.
\<close>

theorem reachable_orders_well_formed:
  assumes "broker_reachable b" and "map_of (b_orders b) oid = Some od"
  shows "valid_request (o_request od) \<and> or_quantity (o_request od) \<noteq> None \<and>
    is_f64 (o_filled od) \<and> 0 \<le> o_filled od \<and> (o_status od = ST_FILLED \<longrightarrow> remaining od \<le> lit_1e12)"
  using formed.reachable_I [OF assms] by (simp add: well_formed_order_def)

theorem reachable_orders_well_formed_witness:
  "\<exists>od. map_of (b_orders demo_filled) 1 = Some od \<and> o_status od = ST_FILLED \<and> remaining od \<le> lit_1e12"
proof -
  have "case map_of (b_orders demo_filled) 1 of Some od \<Rightarrow> o_status od = ST_FILLED | None \<Rightarrow> False"
    by code_simp
  then obtain od where od: "map_of (b_orders demo_filled) 1 = Some od" "o_status od = ST_FILLED"
    by (auto split: option.splits)
  with reachable_orders_well_formed [OF demo_reachable(3) od(1)] show ?thesis by blast
qed

end
