(* ===== verification/SimAdmission.thy ===== *)
theory SimAdmission
  imports SimOrders
begin

text \<open>
  The order commands of the simulated broker, one property per command: what an accepted batch
  registers, what a denial or a rejection leaves behind, what a cancellation and the end of the
  day touch, and how a complete fill settles the order's group.
\<close>

section \<open>Placing\<close>

lemma place_one_Inr:
  assumes "place_one now g rep r b = (Inr row, b')"
  shows "b' = accept_order now g r b \<and>
    row = (b_next_order_id b, if parent_of r \<noteq> None then ST_INACTIVE else ST_SUBMITTED, or_cOID r)"
  using assms by (auto simp: place_one_def Let_def new_order_def split: if_splits sum.splits)

lemma accept_order_book:
  "map_of (b_orders (accept_order now g r b)) = (map_of (b_orders b))(b_next_order_id b \<mapsto> new_order now b g r)"
  "b_next_order_id (accept_order now g r b) = b_next_order_id b + 1"
  by (simp_all add: accept_order_def Let_def new_order_def put_order_def)

text \<open>One row per request: consecutive ids, the status a new order starts with.\<close>

fun batch_rows :: "int \<Rightarrow> OrderRequest list \<Rightarrow> (int \<times> OrderStatus \<times> string) list" where
  "batch_rows n [] = []"
| "batch_rows n (r # rs) =
     (n, if parent_of r \<noteq> None then ST_INACTIVE else ST_SUBMITTED, or_cOID r) # batch_rows (n + 1) rs"

lemma place_loop:
  assumes "for_each (place_one now g rep) rs b = (Inr rows, b')"
  shows "rows = batch_rows (b_next_order_id b) rs \<and> b_next_order_id b' = b_next_order_id b + int (length rs) \<and>
    (\<forall>k. k < b_next_order_id b \<longrightarrow> map_of (b_orders b') k = map_of (b_orders b) k) \<and>
    (\<forall>i < length rs. \<exists>od. map_of (b_orders b') (b_next_order_id b + int i) = Some od \<and>
       o_request od = rs ! i \<and> o_filled od = 0 \<and>
       o_status od = (if parent_of (rs ! i) \<noteq> None then ST_INACTIVE else ST_SUBMITTED))"
  using assms
proof (induction rs arbitrary: b rows)
  case (Cons r rs)
  from Cons.prems obtain row rest b1 where 1: "place_one now g rep r b = (Inr row, b1)"
    and 2: "for_each (place_one now g rep) rs b1 = (Inr rest, b')" and rows: "rows = row # rest"
    by (auto simp: abind_def split: prod.splits sum.splits)
  note p = place_one_Inr [OF 1]
  with accept_order_book have b1: "map_of (b_orders b1) = (map_of (b_orders b))(b_next_order_id b \<mapsto> new_order now b g r)"
    "b_next_order_id b1 = b_next_order_id b + 1" by simp_all
  note ih = Cons.IH [OF 2]
  have head: "map_of (b_orders b') (b_next_order_id b) = Some (new_order now b g r)"
    using ih b1 by simp
  show ?case
  proof (intro conjI allI impI)
    show "rows = batch_rows (b_next_order_id b) (r # rs)" using rows p ih b1 by simp
    show "b_next_order_id b' = b_next_order_id b + int (length (r # rs))" using ih b1 by simp
    show "map_of (b_orders b') k = map_of (b_orders b) k" if "k < b_next_order_id b" for k
      using ih b1 that by simp
    fix i assume i: "i < length (r # rs)"
    show "\<exists>od. map_of (b_orders b') (b_next_order_id b + int i) = Some od \<and>
       o_request od = (r # rs) ! i \<and> o_filled od = 0 \<and>
       o_status od = (if parent_of ((r # rs) ! i) \<noteq> None then ST_INACTIVE else ST_SUBMITTED)"
    proof (cases i)
      case 0
      with head show ?thesis by (simp add: new_order_def)
    next
      case (Suc j)
      with i ih b1 show ?thesis by (auto simp: algebra_simps)
    qed
  qed
qed simp

text \<open>
  C7. An accepted batch is registered leg by leg: the legs get consecutive new order ids in the
  order given, a leg with a parent starts inactive and every other submitted, unfilled, under
  the request with its cash quantity resolved; no order already in the book changes.
\<close>

theorem placed_batch_registered:
  assumes "broker_reachable b" and "place_orders now a orders b = (Inr (Placed rows), b')"
  shows "\<exists>resolved. map_result (resolve_cash_quantity b) orders = Inr resolved \<and>
    rows = batch_rows (b_next_order_id b) resolved \<and>
    (\<forall>i < length orders. \<exists>od. map_of (b_orders b') (b_next_order_id b + int i) = Some od \<and>
       o_request od = resolved ! i \<and> o_filled od = 0 \<and>
       o_status od = (if parent_of (resolved ! i) \<noteq> None then ST_INACTIVE else ST_SUBMITTED)) \<and>
    (\<forall>k od. map_of (b_orders b) k = Some od \<longrightarrow> map_of (b_orders b') k = Some od)"
proof -
  from assms(2) obtain resolved g rep where r: "map_result (resolve_cash_quantity b) orders = Inr resolved"
    and l: "for_each (place_one now g rep) resolved b = (Inr rows, b')"
    unfolding place_orders_def Let_def
    by (auto simp: bind_result_Inr_iff abind_def split: sum.splits if_splits prod.splits)
  note pl = place_loop [OF l]
  have "map_of (b_orders b') k = Some od" if "map_of (b_orders b) k = Some od" for k od
    using pl that ids_ok_lookup [OF reachable_ids_ok [OF assms(1)] that] by simp
  with pl r map_result_Inr_length [OF r] show ?thesis
    by (intro exI [of _ resolved] conjI) simp_all
qed

text \<open>A parent and its protective stop.\<close>

definition demo_child :: OrderRequest where
  "demo_child = demo_request\<lparr>or_orderType := ''STP'', or_side := ''SELL'', or_price := None,
     or_auxPrice := Some 45, or_cOID := ''c2'', or_parentId := Some ''c1''\<rparr>"

theorem placed_batch_registered_witness:
  "\<exists>b' od. place_orders 0 ''A'' [demo_request, demo_child] (demo_broker 1000) =
      (Inr (Placed [(1, ST_SUBMITTED, ''c1''), (2, ST_INACTIVE, ''c2'')]), b') \<and>
    map_of (b_orders b') 2 = Some od \<and> o_status od = ST_INACTIVE"
proof -
  have "fst (place_orders 0 ''A'' [demo_request, demo_child] (demo_broker 1000)) =
      Inr (Placed [(1, ST_SUBMITTED, ''c1''), (2, ST_INACTIVE, ''c2'')])" by code_simp
  then obtain b' where p: "place_orders 0 ''A'' [demo_request, demo_child] (demo_broker 1000) =
      (Inr (Placed [(1, ST_SUBMITTED, ''c1''), (2, ST_INACTIVE, ''c2'')]), b')" by (metis prod.collapse)
  have r: "map_result (resolve_cash_quantity (demo_broker 1000)) [demo_request, demo_child] =
      Inr [demo_request, demo_child]"
    by (simp add: resolve_cash_quantity_def demo_request_def demo_child_def)
  have n: "b_next_order_id (demo_broker 1000) = 1" by code_simp
  have c: "parent_of demo_child \<noteq> None" by code_simp
  from placed_batch_registered [OF demo_broker_reachable p] r n
  have "\<forall>i < 2. \<exists>od. map_of (b_orders b') (1 + int i) = Some od \<and>
       o_status od = (if parent_of ([demo_request, demo_child] ! i) \<noteq> None then ST_INACTIVE else ST_SUBMITTED)"
    by (auto simp: numeral_2_eq_2)
  from this [rule_format, of 1] c obtain od where "map_of (b_orders b') 2 = Some od" "o_status od = ST_INACTIVE"
    by auto
  with p show ?thesis by blast
qed

text \<open>
  A batch that available cash cannot fund is answered as a funding denial; the broker is
  exactly what it was and the two numbers reported are the required and available cash.
\<close>

theorem place_orders_denied_unchanged:
  assumes "place_orders now a orders b = (Inr (Funding_denied required available), b')"
  shows "b' = b \<and> available = account_cash b a \<and> available < required"
  using assms
  by (auto simp: place_orders_def Let_def abind_def split: sum.splits if_splits prod.splits)

theorem place_orders_denied_witness:
  "(case place_orders 0 ''A'' [demo_request] (demo_broker 100) of
      (Inr (Funding_denied required available), b') \<Rightarrow> b' = demo_broker 100 \<and> available < required
    | _ \<Rightarrow> False)"
proof -
  have "place_orders 0 ''A'' [demo_request] (demo_broker 100) =
      (Inr (Funding_denied 501 100), demo_broker 100)"
    by code_simp
  from place_orders_denied_unchanged [OF this] this show ?thesis by simp
qed

text \<open>
  C8. A modification, a cancellation, the end-of-day expiry or the placement of a single order
  that raises leaves the broker exactly what it was, and so does a liquidity bar that fails its
  validation. (A batch of several orders is the next property.)
\<close>

theorem rejected_commands_change_nothing:
  "(fst (modify_order a oid r b) = Inl e \<longrightarrow> snd (modify_order a oid r b) = b) \<and>
   (fst (cancel_order a oid b) = Inl e \<longrightarrow> snd (cancel_order a oid b) = b) \<and>
   (fst (expire_day_orders a b) = Inl e \<longrightarrow> snd (expire_day_orders a b) = b) \<and>
   (fst (place_orders now a [r] b) = Inl e \<longrightarrow> snd (place_orders now a [r] b) = b) \<and>
   (validate_liquidity_bar ny b row t = Inl e \<longrightarrow> on_liquidity_bar ny row t b = (Inl e, b))"
proof (intro conjI impI)
  have one: "fst (place_one now g rep r b) = Inl e \<Longrightarrow> snd (place_one now g rep r b) = b" for g rep r e
    by (auto simp: place_one_def Let_def split: if_splits sum.splits)
  assume f: "fst (place_orders now a [r] b) = Inl e"
  have loop: "snd (abind (for_each (place_one now g rep) [x]) (\<lambda>rows. aret (Placed rows)) b) = b"
    if "fst (abind (for_each (place_one now g rep) [x]) (\<lambda>rows. aret (Placed rows)) b) = Inl e" for g rep x
  proof (cases "place_one now g rep x b")
    case (Pair res s)
    with that one [of g rep x] show ?thesis by (cases res) (auto simp: abind_def)
  qed
  show "snd (place_orders now a [r] b) = b"
    using f unfolding place_orders_def Let_def
    by (auto simp: bind_result_Inr_iff simp del: for_each.simps intro!: loop split: sum.splits if_splits)
qed (auto simp: modify_order_def cancel_order_def expire_day_orders_def on_liquidity_bar_def Let_def
       split: sum.splits if_splits)

theorem rejected_commands_change_nothing_witness:
  "snd (cancel_order ''A'' 1 demo_filled) = demo_filled \<and>
   snd (modify_order ''A'' 1 demo_request demo_filled) = demo_filled \<and>
   snd (place_orders 0 ''A'' [demo_request\<lparr>or_quantity := Some 1\<rparr>] demo_filled) = demo_filled \<and>
   snd (expire_day_orders ''B'' demo_filled) = demo_filled"
proof (intro conjI)
  note p = rejected_commands_change_nothing
  have "fst (cancel_order ''A'' 1 demo_filled) = Inl (ValueError ''Order is not open'')" by code_simp
  with p [of "''A''" 1 demo_request demo_filled] show "snd (cancel_order ''A'' 1 demo_filled) = demo_filled"
    by blast
  have "fst (modify_order ''A'' 1 demo_request demo_filled) =
    Inl (ValueError ''Only open orders may be modified'')" by code_simp
  with p [of "''A''" 1 demo_request demo_filled]
  show "snd (modify_order ''A'' 1 demo_request demo_filled) = demo_filled" by blast
  have "fst (place_orders 0 ''A'' [demo_request\<lparr>or_quantity := Some 1\<rparr>] demo_filled) = Inl (ValueError ''cOID must be unique'')"
    by code_simp
  with p [of "''A''" 1 "demo_request\<lparr>or_quantity := Some 1\<rparr>" demo_filled] show "snd (place_orders 0 ''A'' [demo_request\<lparr>or_quantity := Some 1\<rparr>] demo_filled) = demo_filled"
    by blast
  have "isl (fst (expire_day_orders ''B'' demo_filled))" by code_simp
  with p [of "''B''" 1 demo_request demo_filled] show "snd (expire_day_orders ''B'' demo_filled) = demo_filled"
    by (cases "fst (expire_day_orders ''B'' demo_filled)") auto
qed

lemma place_one_Inl: "place_one now g rep r b = (Inl e, b') \<Longrightarrow> b' = b"
  by (auto simp: place_one_def Let_def split: if_splits sum.splits)

text \<open>The legs accepted before the one that raised, and the broker they left.\<close>

lemma place_loop_raises:
  assumes "for_each (place_one now g rep) rs b = (Inl e, b')"
  shows "\<exists>k rows. k < length rs \<and> for_each (place_one now g rep) (take k rs) b = (Inr rows, b') \<and>
    place_one now g rep (rs ! k) b' = (Inl e, b')"
  using assms
proof (induction rs arbitrary: b)
  case (Cons r rs)
  show ?case
  proof (cases "place_one now g rep r b")
    case (Pair res s)
    show ?thesis
    proof (cases res)
      case (Inl e')
      with Pair Cons.prems place_one_Inl have "e' = e" "b' = b" "s = b" by (auto simp: abind_def)
      with Pair Inl show ?thesis by (intro exI [of _ 0] exI [of _ "[]"]) (simp add: aret_def)
    next
      case (Inr row)
      with Pair Cons.prems have "for_each (place_one now g rep) rs s = (Inl e, b')"
        by (auto simp: abind_def aret_def split: prod.splits sum.splits)
      from Cons.IH [OF this] obtain k rows where "k < length rs"
        "for_each (place_one now g rep) (take k rs) s = (Inr rows, b')"
        "place_one now g rep (rs ! k) b' = (Inl e, b')" by blast
      with Pair Inr show ?thesis
        by (intro exI [of _ "Suc k"] exI [of _ "row # rows"]) (simp add: abind_def aret_def)
    qed
  qed
qed (simp add: aret_def)

text \<open>
  C9. A batch is not atomic, and this is what a raising batch leaves behind. Either the broker
  is exactly what it was, or the legs before one refused leg are in the book, under consecutive
  ids in the order given, unfilled and with the status of a new order; the exception is the one
  that refused leg meets on the broker so left, no order id beyond those legs is used up, and
  no order already in the book changes.
\<close>

theorem raising_batch_keeps_accepted_legs:
  assumes "broker_reachable b" and "place_orders now a orders b = (Inl e, b')"
  shows "b' = b \<or> (\<exists>resolved k. map_result (resolve_cash_quantity b) orders = Inr resolved \<and>
    k < length orders \<and> b_next_order_id b' = b_next_order_id b + int k \<and>
    (\<forall>i < k. \<exists>od. map_of (b_orders b') (b_next_order_id b + int i) = Some od \<and>
       o_request od = resolved ! i \<and> o_filled od = 0 \<and>
       o_status od = (if parent_of (resolved ! i) \<noteq> None then ST_INACTIVE else ST_SUBMITTED)) \<and>
    (\<forall>j od. map_of (b_orders b) j = Some od \<longrightarrow> map_of (b_orders b') j = Some od) \<and>
    (\<exists>g rep. place_one now g rep (resolved ! k) b' = (Inl e, b')))"
proof (cases "b' = b")
  case False
  with assms(2) obtain resolved g rep where r: "map_result (resolve_cash_quantity b) orders = Inr resolved"
    and l: "for_each (place_one now g rep) resolved b = (Inl e, b')"
    unfolding place_orders_def Let_def
    by (auto simp: bind_result_Inr_iff abind_def aret_def split: sum.splits if_splits prod.splits)
  from place_loop_raises [OF l] obtain k rows where k: "k < length resolved"
    and p: "for_each (place_one now g rep) (take k resolved) b = (Inr rows, b')"
    and f: "place_one now g rep (resolved ! k) b' = (Inl e, b')" by blast
  note pl = place_loop [OF p]
  have "map_of (b_orders b') j = Some od" if "map_of (b_orders b) j = Some od" for j od
    using pl that ids_ok_lookup [OF reachable_ids_ok [OF assms(1)] that] by simp
  with pl r k f map_result_Inr_length [OF r] show ?thesis
    by (intro disjI2 exI [of _ resolved] exI [of _ k] conjI) (auto simp: min_def)
qed simp

text \<open>The second leg repeats the client id of the first: the call raises, and order 1 is left submitted.\<close>

definition demo_twin :: OrderRequest where
  "demo_twin = demo_request\<lparr>or_isSingleGroup := True\<rparr>"

theorem raising_batch_keeps_accepted_legs_witness:
  "\<exists>b' od. place_orders 0 ''A'' [demo_twin, demo_twin] (demo_broker 1000) =
      (Inl (ValueError ''cOID must be unique''), b') \<and> b_next_order_id b' = 2 \<and>
    map_of (b_orders b') 1 = Some od \<and> o_status od = ST_SUBMITTED \<and> o_filled od = 0"
proof -
  let ?p = "place_orders 0 ''A'' [demo_twin, demo_twin] (demo_broker 1000)"
  have e: "fst ?p = Inl (ValueError ''cOID must be unique'')" by code_simp
  have n: "b_next_order_id (snd ?p) = 2" and n0: "b_next_order_id (demo_broker 1000) = 1" by code_simp+
  from e have p: "?p = (Inl (ValueError ''cOID must be unique''), snd ?p)" by (metis prod.collapse)
  have r: "map_result (resolve_cash_quantity (demo_broker 1000)) [demo_twin, demo_twin] = Inr [demo_twin, demo_twin]"
    by (simp add: resolve_cash_quantity_def demo_request_def demo_twin_def)
  have c: "parent_of demo_twin = None" by code_simp
  from raising_batch_keeps_accepted_legs [OF demo_broker_reachable p] n n0 r
  have "\<exists>k. int k = 1 \<and> (\<forall>i < k. \<exists>od. map_of (b_orders (snd ?p)) (1 + int i) = Some od \<and> o_filled od = 0 \<and>
      o_status od = (if parent_of ([demo_twin, demo_twin] ! i) \<noteq> None then ST_INACTIVE else ST_SUBMITTED))"
    by fastforce
  then obtain od where "map_of (b_orders (snd ?p)) 1 = Some od" "o_filled od = 0" "o_status od = ST_SUBMITTED"
    using c by (auto dest: spec [of _ 0])
  with p n show ?thesis by blast
qed

section \<open>Cancelling and expiring\<close>

text \<open>
  Cancelling an order touches that order and its open children and nothing else: the order
  becomes cancelled by request, each open order attached to its client id becomes cancelled
  with the parent, and every other order of the book is left exactly as it was.
\<close>

theorem cancel_order_exact:
  assumes "broker_reachable b" and "cancel_order a oid b = (Inr row, b')"
    and "map_of (b_orders b) oid = Some od"
  shows "map_of (b_orders b') k =
    (if k = oid then Some (cancel_with ''Cancelled by client request'' od)
     else map_option (\<lambda>c. if o_cOID od \<noteq> [] \<and> or_parentId (o_request c) = Some (o_cOID od) \<and> is_open c
                          then cancel_with ''Parent order was cancelled'' c else c) (map_of (b_orders b) k))"
proof -
  have id: "o_order_id od = oid"
    using ids_ok_lookup [OF reachable_ids_ok [OF assms(1)] assms(3)] by simp
  have "b' = cancel_children (o_cOID od) ''Parent order was cancelled''
      (put_order (cancel_with ''Cancelled by client request'' od) b)"
    using assms(2,3) by (auto simp: cancel_order_def require_order_def bind_result_def split: sum.splits if_splits)
  then show ?thesis
    using id by (auto simp: cancel_children_def cancel_with_def is_open_status.simps option.map_ident intro: option.map_cong)
qed

theorem cancel_order_exact_witness:
  "map_option o_status (map_of (b_orders (snd (cancel_order ''A'' 1
     (demo_place [demo_request, demo_child] (demo_broker 1000))))) 2) = Some ST_CANCELLED"
proof -
  let ?b = "demo_place [demo_request, demo_child] (demo_broker 1000)"
  have valid: "valid_request demo_child" unfolding valid_request_def by code_simp
  have reach: "broker_reachable ?b"
    by (rule reachable_step [OF demo_broker_reachable step_place]) (simp add: demo_request_valid valid)
  have "fst (cancel_order ''A'' 1 ?b) = Inr (1, 1, ''A'')" by code_simp
  then have c: "cancel_order ''A'' 1 ?b = (Inr (1, 1, ''A''), snd (cancel_order ''A'' 1 ?b))"
    by (metis prod.collapse)
  have "case (map_of (b_orders ?b) 1, map_of (b_orders ?b) 2) of
      (Some x, Some y) \<Rightarrow> o_cOID x \<noteq> [] \<and> or_parentId (o_request y) = Some (o_cOID x) \<and> is_open y | _ \<Rightarrow> False"
    by code_simp
  then obtain x y where xy: "map_of (b_orders ?b) 1 = Some x" "map_of (b_orders ?b) 2 = Some y"
    "o_cOID x \<noteq> []" "or_parentId (o_request y) = Some (o_cOID x)" "is_open y"
    by (auto split: option.splits)
  from cancel_order_exact [OF reach c xy(1), of 2] xy show ?thesis by (simp add: cancel_with_def)
qed

text \<open>
  The end of the day cancels exactly the account's open DAY orders: each one becomes
  cancelled, every other order is left as it was, and the report lists them in id order.
\<close>

theorem expire_day_orders_exact:
  assumes "expire_day_orders a b = (Inr rows, b')"
  shows "map_of (b_orders b') k =
      map_option (\<lambda>od. if o_acct od = a \<and> upper (or_tif (o_request od)) = ''DAY'' \<and> is_open od
                       then expire_order od else od) (map_of (b_orders b) k) \<and>
    map lo_orderId rows = map o_order_id (filter (expires a) (sorted_orders b)) \<and>
    (\<forall>row \<in> set rows. lo_order_status row = ST_CANCELLED)"
proof -
  from assms have b': "b' = b\<lparr>b_orders := map_values (\<lambda>od. if expires a od then expire_order od else od) (b_orders b)\<rparr>"
    and rows: "rows = map (o_snapshot \<circ> expire_order) (filter (expires a) (sorted_orders b))"
    by (auto simp: expire_day_orders_def split: sum.splits)
  have "lo_orderId ((o_snapshot \<circ> expire_order) od) = o_order_id od"
    "lo_order_status ((o_snapshot \<circ> expire_order) od) = ST_CANCELLED" for od
    by (simp_all add: o_snapshot_def expire_order_def cancel_with_def Let_def)
  then show ?thesis by (simp add: b' rows expires_def)
qed

theorem expire_day_orders_exact_witness:
  "map_option o_status (map_of (b_orders (snd (expire_day_orders ''A'' demo_partial))) 1) = Some ST_CANCELLED"
proof -
  have "case fst (expire_day_orders ''A'' demo_partial) of Inr _ \<Rightarrow> True | _ \<Rightarrow> False" by code_simp
  then obtain rows where "fst (expire_day_orders ''A'' demo_partial) = Inr rows" by (auto split: sum.splits)
  then have e: "expire_day_orders ''A'' demo_partial = (Inr rows, snd (expire_day_orders ''A'' demo_partial))"
    by (metis prod.collapse)
  have "case map_of (b_orders demo_partial) 1 of
      Some od \<Rightarrow> o_acct od = ''A'' \<and> upper (or_tif (o_request od)) = ''DAY'' \<and> is_open od | None \<Rightarrow> False"
    by code_simp
  then show ?thesis
    using expire_day_orders_exact [OF e, of 1] by (auto simp: expire_order_def cancel_with_def split: option.splits)
qed

end
