(* ===== verification/SimFills.thy ===== *)
theory SimFills
  imports SimOrders
begin

text \<open>
  The execution journal of the simulated broker. \<open>record_fill\<close> is the only writer: the journal
  grows by appending, ids are \<open>SIM-1\<close>, \<open>SIM-2\<close>, and so on, and what an event or a bar returns
  is exactly what it appended. Both matching loops satisfy one contract, \<open>fill_loop\<close>.
\<close>

section \<open>Who writes the journal\<close>

definition journal :: "Broker \<Rightarrow> BrokerExecution list \<times> int" where
  "journal b = (b_executions b, b_next_execution_id b)"

lemma journal_put [simp]: "journal (put_order od b) = journal b"
  by (simp add: journal_def put_order_def)

lemma journal_children [simp]:
  "journal (activate_children c b) = journal b" "journal (cancel_children c r b) = journal b"
  "journal (cancel_oca_siblings od b) = journal b"
  by (simp_all add: journal_def activate_children_def cancel_children_def cancel_oca_siblings_def)

lemma journal_index [simp]:
  "journal (index_position t c b) = journal b" "journal (unindex_position t c b) = journal b"
  "journal (consume sl i q b) = journal b" "journal (index_order tk n b) = journal b"
  "journal (compact_index tk b) = journal b"
  by (simp_all add: journal_def index_position_def unindex_position_def consume_def index_order_def
      compact_index_def Let_def split: option.split)

lemma journal_observe_performance [simp]: "journal (observe_performance c s b) = journal b"
  unfolding observe_performance_def
  by (rule LetI [where P = "\<lambda>s. journal s = journal b"])+ (simp add: journal_def)

lemma journal_book_execution [simp]: "journal (book_execution r p q c b) = journal b"
proof -
  have "journal (s\<lparr>b_cash := x\<rparr>) = journal s" for s x by (simp add: journal_def)
  moreover have "journal (s\<lparr>b_positions := x, b_realized_pnl := y\<rparr>) = journal s" for s x y
    by (simp add: journal_def)
  ultimately show ?thesis
    by (simp add: book_execution_def Let_def)
qed

lemma journal_bar [simp]:
  "journal (publish_bar v b) = journal b" "journal (mark_conid v c b) = journal b"
  "journal (fold (mark_conid v) cs b) = journal b"
proof -
  have mark: "journal (mark_conid v c b) = journal b" for c b
    by (simp add: mark_conid_def Let_def) (simp add: journal_def)
  then show "journal (mark_conid v c b) = journal b" .
  show "journal (fold (mark_conid v) cs b) = journal b"
    by (induction cs arbitrary: b) (simp_all add: mark)
qed (simp add: publish_bar_def Let_def, simp add: journal_def)

lemma journal_observe_event [simp]: "journal (snd (observe_market_event ny e b)) = journal b"
  by (simp add: observe_market_event_def Let_def split: sum.split MarketEvent.split)
     (simp add: journal_def)

lemma journal_reduce [simp]: "journal (snd (reduce_single_exit_sibling_capacity od q b)) = journal b"
proof -
  have "keeps (\<lambda>s. journal s = j) (reduce_visit od q oid)" for oid j
    by (rule keepsI) (simp add: reduce_visit_def split: option.splits sum.splits)
  then have "keeps (\<lambda>s. journal s = j) (abind (for_each (reduce_visit od q) ids) (\<lambda>_. aret ()))" for ids j
    by (intro keeps_abind keeps_for_each keeps_aret)
  then show ?thesis
    by (simp add: keeps_def reduce_single_exit_sibling_capacity_def)
qed

lemma record_fill_journal:
  assumes "map_of (b_orders b) oid = Some od"
  shows "\<exists>x. fst (record_fill oid t price q b) = Inr x \<and>
    journal (snd (record_fill oid t price q b)) = (b_executions b @ [x], b_next_execution_id b + 1) \<and>
    bx_execution_id x = ''SIM-'' @ show_int (b_next_execution_id b) \<and>
    bx_order_id x = o_order_id od \<and> bx_size x = q \<and> bx_price x = price \<and> bx_trade_time x = t"
proof -
  define od' where "od' = snd (incremental_order_commission (b_config b) od)"
  define x where "x = execution_of (b_config b) (b_next_execution_id b) od' t price q
      (fst (incremental_order_commission (b_config b) od))"
  define b1 where "b1 = (put_order od' b)\<lparr>b_next_execution_id := b_next_execution_id b + 1,
      b_executions := b_executions b @ [x]\<rparr>"
  have "journal b1 = (b_executions b @ [x], b_next_execution_id b + 1)"
    by (simp add: b1_def journal_def)
  moreover have "bx_execution_id x = ''SIM-'' @ show_int (b_next_execution_id b) \<and>
      bx_order_id x = o_order_id od \<and> bx_size x = q \<and> bx_price x = price \<and> bx_trade_time x = t"
    by (simp add: x_def execution_of_def od'_def incremental_order_commission_def Let_def)
  moreover have "fst (record_fill oid t price q b) = Inr x \<and> journal (snd (record_fill oid t price q b)) = journal b1"
    using assms by (simp add: record_fill_def Let_def x_def b1_def od'_def)
  ultimately show ?thesis by auto
qed

section \<open>The contract of a fill\<close>

text \<open>
  \<open>fills_only ids t b out\<close>: the outcome of a call on \<open>b\<close> appended executions for orders in
  \<open>ids\<close>, of positive size, stamped \<open>t\<close>, with the next execution ids; when it returned, it
  returned exactly those.
\<close>

definition fills_only :: "int set \<Rightarrow> utc \<Rightarrow> Broker \<Rightarrow> BrokerExecution list result \<times> Broker \<Rightarrow> bool" where
  "fills_only ids t b out \<longleftrightarrow> (ids_ok b \<longrightarrow> ids_ok (snd out) \<and>
     (\<exists>xs. journal (snd out) = (b_executions b @ xs, b_next_execution_id b + int (length xs)) \<and>
        map bx_execution_id xs =
          map (\<lambda>i. ''SIM-'' @ show_int (b_next_execution_id b + int i)) [0..<length xs] \<and>
        (\<forall>x \<in> set xs. bx_order_id x \<in> ids \<and> 0 < bx_size x \<and> bx_trade_time x = t) \<and>
        (\<forall>ys. fst out = Inr ys \<longrightarrow> ys = xs)))"

lemma fills_none:
  assumes "journal b' = journal b" "ids_ok b \<Longrightarrow> ids_ok b'" "\<And>ys. r = Inr ys \<Longrightarrow> ys = []"
  shows "fills_only ids t b (r, b')"
  unfolding fills_only_def using assms
  by (auto simp: journal_def intro!: exI [of _ "[]"])

lemma fills_nil [simp]: "fills_only ids t b (Inr [], b)" "fills_only ids t b (Inl e, b)"
  by (rule fills_none; simp)+

lemma ids_ok_moves: "ids_ok b \<Longrightarrow> moves E X b b' \<Longrightarrow> ids_ok b'"
  by (simp add: moves_def)

lemma fills_apply:
  assumes ok: "ids_ok b" and od: "map_of (b_orders b) oid = Some od" and "is_open od" "0 < q"
    and out: "apply_fill oid t price q b = (r, b')"
  shows "fills_only {oid} t b (map_sum id (\<lambda>x. [x]) r, b')"
proof -
  have ok': "ids_ok b'"
    using identity.moves_apply_fill [OF ok od assms(3,4), of t price] out ok by (auto intro: ids_ok_moves)
  show ?thesis
  proof (cases "fill_order price q od")
    case (Inl e)
    with out od ok' show ?thesis by (auto simp: apply_fill_def intro!: fills_none)
  next
    case (Inr od1)
    define reduce where "reduce = (if is_single_exit_group_member od1 \<and> o_status od1 \<noteq> ST_FILLED
        then reduce_single_exit_sibling_capacity od1 q else aret ())"
    let ?b0 = "put_order od1 b"
    have id: "o_order_id od1 = oid" using ids_ok_lookup [OF ok od] fill_order_Inr(1) [OF Inr] by simp
    obtain u b1 where u: "reduce ?b0 = (u, b1)" by force
    have j: "journal b1 = journal b"
      using u journal_reduce [of od1 q ?b0] journal_put [of od1 b]
      by (auto simp: reduce_def simp del: journal_reduce split: if_splits)
    have k: "map_of (b_orders b1) oid = Some od1"
      using u reduce_lookup [of od1 q ?b0] id by (auto simp: reduce_def split: if_splits)
    have eq: "(r, b') = abind reduce (\<lambda>_. record_fill oid t price q) ?b0"
      using out od Inr by (simp add: apply_fill_def reduce_def)
    show ?thesis
    proof (cases u)
      case (Inl e)
      with eq u j ok' show ?thesis by (auto simp: abind_def intro!: fills_none)
    next
      case (Inr w)
      have rf: "record_fill oid t price q b1 = (r, b')"
        using eq u Inr by (simp add: abind_def)
      with record_fill_journal [OF k, of t price q] obtain x where r: "r = Inr x"
        and x: "journal b' = (b_executions b @ [x], b_next_execution_id b + 1)"
          "bx_execution_id x = ''SIM-'' @ show_int (b_next_execution_id b)"
          "bx_order_id x = oid" "bx_size x = q" "bx_trade_time x = t"
        using j id by (auto simp: journal_def)
      show ?thesis
        unfolding fills_only_def using ok' r x \<open>0 < q\<close> by (auto intro!: exI [of _ "[x]"])
    qed
  qed
qed

lemma fills_after_write:
  assumes "fills_only ids t (put_order od b) out" and "ids_ok (put_order od b)"
  shows "fills_only ids t b out"
  using assms journal_put [of od b] unfolding fills_only_def journal_def by simp

text \<open>Charging the liquidity of a fill does not touch the journal.\<close>

lemma fills_charged:
  assumes "fills_only ids t b (map_sum id (\<lambda>x. [x]) r, b')"
  shows "fills_only ids t b (case r of Inl e \<Rightarrow> (Inl e, b') | Inr x \<Rightarrow> (Inr [x], consume sl i q b'))"
proof (cases r)
  case (Inr x)
  have "ids_ok (consume sl i q b')" if "ids_ok b'"
    using that identity.moves_same [of "consume sl i q b'" b' "{}"] by (auto intro: ids_ok_moves)
  with Inr assms show ?thesis by (simp add: fills_only_def)
qed (use assms in simp)

section \<open>The two matching loops\<close>

lemma map_upt_shift: "map f [n..<n + m] = map (\<lambda>i. f (n + i)) [0..<m]"
  by (induction m) simp_all

lemma fills_for_each:
  assumes visit: "\<And>x b. x \<in> set xs \<Longrightarrow> fills_only ids t b (visit x b)"
  shows "fills_only ids t b (abind (for_each visit xs) (\<lambda>xss. aret (concat xss)) b)"
  using assms
proof (induction xs arbitrary: b)
  case Nil
  show ?case by (simp add: abind_def)
next
  case (Cons oid rest)
  show ?case
  proof (cases "ids_ok b")
    case ok: True
    obtain r b1 where v: "visit oid b = (r, b1)" by force
    have "fills_only ids t b (visit oid b)" by (rule Cons.prems) simp
    with ok obtain xs where ok1: "ids_ok b1"
      and j1: "journal b1 = (b_executions b @ xs, b_next_execution_id b + int (length xs))"
      and n1: "map bx_execution_id xs = map (\<lambda>i. ''SIM-'' @ show_int (b_next_execution_id b + int i)) [0..<length xs]"
      and p1: "\<forall>x \<in> set xs. bx_order_id x \<in> ids \<and> 0 < bx_size x \<and> bx_trade_time x = t"
      and r1: "\<forall>ys. r = Inr ys \<longrightarrow> ys = xs"
      by (auto simp: fills_only_def v)
    show ?thesis
    proof (cases r)
      case (Inl e)
      with v ok1 j1 n1 p1 show ?thesis
        by (auto simp: fills_only_def abind_def intro!: exI [of _ xs])
    next
      case (Inr ys)
      obtain r2 b2 where l: "for_each visit rest b1 = (r2, b2)" by force
      have "fills_only ids t b1 (abind (for_each visit rest) (\<lambda>xss. aret (concat xss)) b1)"
        by (rule Cons.IH) (rule Cons.prems, simp)
      with l ok1 obtain zs where ok2: "ids_ok b2"
        and j2: "journal b2 = (b_executions b1 @ zs, b_next_execution_id b1 + int (length zs))"
        and n2: "map bx_execution_id zs = map (\<lambda>i. ''SIM-'' @ show_int (b_next_execution_id b1 + int i)) [0..<length zs]"
        and p2: "\<forall>x \<in> set zs. bx_order_id x \<in> ids \<and> 0 < bx_size x \<and> bx_trade_time x = t"
        and r2: "\<forall>yss. r2 = Inr yss \<longrightarrow> concat yss = zs"
        by (cases r2) (auto simp: fills_only_def abind_def)
      have "map bx_execution_id (xs @ zs) =
          map (\<lambda>i. ''SIM-'' @ show_int (b_next_execution_id b + int i)) [0..<length (xs @ zs)]"
        using n1 n2 j1 by (simp add: journal_def upt_add_eq_append [of 0] map_upt_shift add.assoc)
      with v l Inr r1 r2 ok2 j1 j2 p1 p2 show ?thesis
        by (cases r2) (auto simp: fills_only_def abind_def journal_def intro!: exI [of _ "xs @ zs"])
    qed
  qed (simp add: fills_only_def)
qed

lemma fills_mono: "fills_only X t b out \<Longrightarrow> X \<subseteq> Y \<Longrightarrow> fills_only Y t b out"
  unfolding fills_only_def by blast

locale fill_loop =
  fixes visit :: "int \<Rightarrow> (Broker, BrokerExecution list) act" and t :: utc
  assumes visit_fills: "fills_only {oid} t b (visit oid b)"
begin

lemma loop_fills:
  "fills_only (set ids) t b (abind (for_each visit ids) (\<lambda>xss. aret (concat xss)) b)"
  by (rule fills_for_each) (rule fills_mono [OF visit_fills], simp)

end

lemma fills_prepared:
  assumes ok: "ids_ok b" and od: "map_of (b_orders b) oid = Some od" and op: "is_open od"
    and p: "prepared od od'"
  shows "fills_only {oid} t b (Inr [], put_order od' b)" and "fills_only {oid} t b (Inl e, put_order od' b)"
    and "0 < q \<Longrightarrow> apply_fill oid t price q (put_order od' b) = (Inl e, s) \<Longrightarrow> fills_only {oid} t b (Inl e, s)"
    and "0 < q \<Longrightarrow> apply_fill oid t price q (put_order od' b) = (Inr x, s) \<Longrightarrow>
      fills_only {oid} t b (Inr [x], consume sl i q s)"
proof -
  have ok': "ids_ok (put_order od' b)"
    by (rule ids_ok_moves [OF ok identity.moves_prepare [OF ok od op p]])
  then show "fills_only {oid} t b (Inr [], put_order od' b)" "fills_only {oid} t b (Inl e, put_order od' b)"
    by (auto intro: fills_none)
  have fill: "fills_only {oid} t b (case r of Inl e \<Rightarrow> (Inl e, s) | Inr x \<Rightarrow> (Inr [x], consume sl i q s))"
    if "0 < q" "apply_fill oid t price q (put_order od' b) = (r, s)" for r
  proof -
    have "fills_only {oid} t (put_order od' b) (map_sum id (\<lambda>x. [x]) r, s)"
      using that ids_ok_lookup [OF ok od] prepared_simps(1,2) [OF p] op
      by (intro fills_apply [OF ok', of _ od']) auto
    from fills_charged [OF fills_after_write [OF this ok']] show ?thesis .
  qed
  show "fills_only {oid} t b (Inl e, s)" if "0 < q" "apply_fill oid t price q (put_order od' b) = (Inl e, s)"
    using fill [OF that] by simp
  show "fills_only {oid} t b (Inr [x], consume sl i q s)"
    if "0 < q" "apply_fill oid t price q (put_order od' b) = (Inr x, s)"
    using fill [OF that] by simp
qed

lemma fills_match_visit: "fills_only {oid} t b (match_visit ny e t oid b)"
proof (cases "ids_ok b \<and> (\<exists>od. map_of (b_orders b) oid = Some od \<and> is_working od)")
  case False
  then show ?thesis
    by (auto simp: match_visit_def fills_none journal_def fills_only_def [of _ _ b] split: option.splits)
next
  case True
  then obtain od where ok: "ids_ok b" and od: "map_of (b_orders b) oid = Some od" and w: "is_working od"
    by blast
  obtain res od' where c: "fill_candidate ny b e od = (res, od')" by force
  note f = fills_prepared [OF ok od is_working_open [OF w] fill_candidate_prepared [OF c]]
  show ?thesis
  proof (cases "\<exists>price q. res = Inr (Some (price, q))")
    case True
    then obtain price q where res: "res = Inr (Some (price, q))" by blast
    then have q: "0 < q" using c fill_candidate_pos by blast
    obtain r s where "apply_fill oid t price q (put_order od' b) = (r, s)" by force
    with res q od w c f show ?thesis
      by (cases r) (auto simp: match_visit_def abind_def fills_none split: prod.split)
  qed (use od w c f(1,2) in \<open>auto simp: match_visit_def fills_none ok split: sum.splits option.splits\<close>)
qed

interpretation event_loop: fill_loop "match_visit ny e t" t for ny e t
  by standard (rule fills_match_visit)

lemma fills_bar_visit: "fills_only {oid} (bv_at v) b (bar_visit ny v oid b)"
proof (cases "ids_ok b \<and> (\<exists>od. map_of (b_orders b) oid = Some od \<and> is_working od)")
  case False
  then show ?thesis
    by (auto simp: bar_visit_def Let_def fills_none journal_def fills_only_def [of _ _ b] split: option.splits)
next
  case True
  then obtain od where ok: "ids_ok b" and od: "map_of (b_orders b) oid = Some od" and w: "is_working od"
    by blast
  note op = is_working_open [OF w]
  have trig: "prepared od (bar_trigger v od)"
    using bar_trigger_rearmed [of od v] prepared_rearmed by (auto simp: is_rearm_def)
  have size: "fills_only {oid} (bv_at v) b
      (case size_candidate b side ty m p a slot ident od of
         (Inl e, od') \<Rightarrow> (Inl e, put_order od' b)
       | (Inr None, od') \<Rightarrow> (Inr [], put_order od' b)
       | (Inr (Some (fill_price, quantity)), od') \<Rightarrow>
           abind (apply_fill oid (bv_at v) fill_price quantity) (\<lambda>x.
             abind (aupd (consume slot ident quantity)) (\<lambda>_. aret [x])) (put_order od' b))"
    for side ty m p a slot ident
  proof -
    obtain res od' where c: "size_candidate b side ty m p a slot ident od = (res, od')" by force
    note f = fills_prepared [OF ok od op size_candidate_prepared' [OF c]]
    show ?thesis
    proof (cases "\<exists>price q. res = Inr (Some (price, q))")
      case True
      then obtain price q where res: "res = Inr (Some (price, q))" by blast
      then have q: "0 < q" using c size_candidate_pos by blast
      obtain r s where "apply_fill oid (bv_at v) price q (put_order od' b) = (r, s)" by force
      with res q c f show ?thesis by (cases r) (auto simp: abind_def)
    qed (use c f(1,2) in \<open>auto split: sum.splits option.splits\<close>)
  qed
  have offer: "fills_only {oid} (bv_at v) b
      (case bar_offer v side ty r of
         Inl e \<Rightarrow> (Inl e, b)
       | Inr None \<Rightarrow> (Inr [], b)
       | Inr (Some (marketable, price, available)) \<Rightarrow>
           if price \<le> 0 \<or> available \<le> 0 then (Inr [], b)
           else (case size_candidate b side ty marketable price available slot ident od of
               (Inl e, od') \<Rightarrow> (Inl e, put_order od' b)
             | (Inr None, od') \<Rightarrow> (Inr [], put_order od' b)
             | (Inr (Some (fill_price, quantity)), od') \<Rightarrow>
                 abind (apply_fill oid (bv_at v) fill_price quantity) (\<lambda>x.
                   abind (aupd (consume slot ident quantity)) (\<lambda>_. aret [x])) (put_order od' b)))"
    for side ty r slot ident
    using size by (auto simp: fills_none ok split: sum.splits option.splits)
  show ?thesis
    unfolding bar_visit_def od option.case Let_def
    using fills_prepared(1,2) [OF ok od op trig] offer by (auto simp: fills_none ok)
qed

interpretation bar_loop: fill_loop "bar_visit ny v" "bv_at v" for ny v
  by standard (rule fills_bar_visit)

section \<open>The journal of a run\<close>

lemma fills_then:
  assumes "journal b1 = journal b" "ids_ok b \<Longrightarrow> ids_ok b1" "fills_only ids t b1 out"
  shows "fills_only ids t b out"
  using assms unfolding fills_only_def journal_def by auto

lemma fills_match_orders: "\<exists>ids. set ids \<subseteq> set (eligible_ids b (event_conid b e) sel) \<and>
    fills_only (set ids) t b (match_orders ny e t sel b)"
proof (cases "event_conid b e \<le> 0")
  case True
  then show ?thesis by (intro exI [of _ "[]"]) (simp add: match_orders_def)
next
  case False
  then show ?thesis
    using event_loop.loop_fills by (intro exI [of _ "eligible_ids b (event_conid b e) sel"]) (simp add: match_orders_def)
qed

lemma fills_event:
  assumes "\<not> b_bar_mode b"
  shows "fills_only {oid. \<exists>od. map_of (b_orders b) oid = Some od \<and> is_working od} (ev_ts e) b (on_market_event ny e b)"
proof -
  let ?W = "{oid. \<exists>od. map_of (b_orders b) oid = Some od \<and> is_working od}"
  obtain r b1 where o: "observe_market_event ny e b = (r, b1)" by force
  have b1: "b_orders b1 = b_orders b" "b_next_order_id b1 = b_next_order_id b" "journal b1 = journal b"
    using observe_event_frame [of ny e b] journal_observe_event [of ny e b] o by simp_all
  have ok1: "ids_ok b \<Longrightarrow> ids_ok b1" using b1 by (simp add: ids_ok_def)
  have out: "fills_only ?W (ev_ts e) b (Inr [], b1)" "fills_only ?W (ev_ts e) b (Inl x, b1)" for x
    using b1 ok1 by (auto intro: fills_none)
  have "set (eligible_ids b1 c sel) \<subseteq> ?W" if "ids_ok b" for c sel
  proof
    fix oid assume "oid \<in> set (eligible_ids b1 c sel)"
    then obtain od where "od \<in> set (dvalues (b_orders b))" "is_working od" "oid = o_order_id od"
      by (auto simp: eligible_ids_def sorted_orders_def orders_of_def b1)
    with that show "oid \<in> ?W"
      using dvalues_map_of [of od "b_orders b"] ids_ok_lookup [OF that] by (fastforce simp: ids_ok_def)
  qed
  then have "fills_only ?W (ev_ts e) b (match_orders ny e (ev_ts e) sel b1)" if "ids_ok b" for sel
    using fills_match_orders [of b1 e sel "ev_ts e" ny] fills_then [OF b1(3) ok1] that
    by (meson fills_mono order_trans)
  then have loop: "fills_only ?W (ev_ts e) b (match_orders ny e (ev_ts e) sel b1)" for sel
    by (cases "ids_ok b") (auto simp: fills_only_def)
  show ?thesis
    unfolding on_market_event_def abind_def using assms o out loop by (auto split: sum.split)
qed

lemma fills_bar: "\<exists>ids t. fills_only ids t b (on_liquidity_bar ny row at_time b)"
proof -
  let ?t = "instant at_time" and ?v = "view_bar row (instant at_time)"
  have out: "fills_only UNIV ?t b (Inr [], b1)" if "b_orders b1 = b_orders b"
      "b_next_order_id b1 = b_next_order_id b" "journal b1 = journal b" for b1
    using that by (auto intro!: fills_none simp: ids_ok_def)
  define f where "f cs = fold (mark_conid ?v) cs (publish_bar ?v b)" for cs
  have f: "b_orders (f cs) = b_orders b" "b_next_order_id (f cs) = b_next_order_id b" "journal (f cs) = journal b" for cs
    by (simp_all add: f_def)
  have at_v: "bv_at ?v = ?t" by (simp add: view_bar_def Let_def)
  have "fills_only UNIV ?t b (abind (for_each (bar_visit ny ?v) ids) (\<lambda>xss. aret (concat xss)) (f cs))" for ids cs
  proof (rule fills_then [OF f(3)])
    show "ids_ok b \<Longrightarrow> ids_ok (f cs)" using f by (simp add: ids_ok_def)
    have "fills_only (set ids) (bv_at ?v) (f cs) (abind (for_each (bar_visit ny ?v) ids) (\<lambda>xss. aret (concat xss)) (f cs))"
      by (rule bar_loop.loop_fills)
    then show "fills_only UNIV ?t (f cs) (abind (for_each (bar_visit ny ?v) ids) (\<lambda>xss. aret (concat xss)) (f cs))"
      unfolding at_v by (rule fills_mono) simp
  qed
  then have "fills_only UNIV ?t b (on_validated_liquidity_bar ny row ?t b)"
    unfolding on_validated_liquidity_bar_def Let_def f_def [symmetric] using out by simp
  then show ?thesis
    unfolding on_liquidity_bar_def
    by (cases "validate_liquidity_bar ny b row at_time") (auto intro!: exI [of _ UNIV] exI [of _ ?t])
qed

lemma fills_current: "fills_only UNIV t b (match_current_orders ny ticker t ids bid ask observed b)"
proof -
  define f where "f sel = (\<lambda>conid b. case (case map_of (b_quotes b) conid of Some q \<Rightarrow> Some q
                   | None \<Rightarrow> map_of (b_quotes_by_ticker b) (upper ticker)) of
               None \<Rightarrow> (Inr [], b)
             | Some q \<Rightarrow>
                 if t < qu_ts q then (Inr [], b)
                 else (case decision_quote q t bid ask observed of
                     None \<Rightarrow> (Inr [], b)
                   | Some q' \<Rightarrow> match_orders ny (Quote q') t sel b))" for sel
  have "fills_only UNIV t s (match_orders ny e t sel s)" for s e sel
    using fills_match_orders [of s e sel t ny] by (auto intro: fills_mono)
  then have visit: "fills_only UNIV t s (f sel conid s)" for sel conid s
    by (auto simp: f_def split: option.split)
  have "fills_only UNIV t s (abind (for_each (f sel) cs) (\<lambda>xss. aret (concat xss)) s)" for sel cs s
    by (rule fills_for_each) (rule visit)
  then show ?thesis
    unfolding match_current_orders_def Let_def f_def by simp
qed

text \<open>The journal of a run: every execution has its own id, in booking order.\<close>

definition journal_ok :: "Broker \<Rightarrow> bool" where
  "journal_ok b \<longleftrightarrow>
     map bx_execution_id (b_executions b) =
       map (\<lambda>i. ''SIM-'' @ show_int (1 + int i)) [0..<length (b_executions b)] \<and>
     b_next_execution_id b = 1 + int (length (b_executions b))"

lemma journal_ok_same: "journal b' = journal b \<Longrightarrow> journal_ok b \<Longrightarrow> journal_ok b'"
  by (simp add: journal_ok_def journal_def)

lemma journal_ok_fills: "fills_only ids t b out \<Longrightarrow> ids_ok b \<Longrightarrow> journal_ok b \<Longrightarrow> journal_ok (snd out)"
  by (auto simp: fills_only_def journal_ok_def journal_def upt_add_eq_append [of 0] map_upt_shift add.assoc)

lemma journal_place [simp]: "journal (snd (place_orders now a orders b)) = journal b"
proof -
  have "journal (accept_order now g r s) = journal s" for g r s
  proof -
    have "journal (x\<lparr>b_order_ids_by_coid := y\<rparr>) = journal x" "journal (x\<lparr>b_next_order_id := n\<rparr>) = journal x" for x y n
      by (simp_all add: journal_def)
    then show ?thesis by (simp add: accept_order_def Let_def)
  qed
  then have "keeps (\<lambda>s. journal s = j) (place_one now g rep r)" for g rep r j
    by (intro keepsI) (simp add: place_one_def Let_def split: sum.split)
  then have "keeps (\<lambda>s. journal s = j) (abind (for_each (place_one now g rep) rs) (\<lambda>rows. aret (Placed rows)))" for g rep rs j
    by (intro keeps_abind keeps_for_each keeps_aret)
  then show ?thesis
    unfolding place_orders_def Let_def by (auto simp: keeps_def split: sum.split)
qed

lemma journal_commands [simp]:
  "journal (snd (initialize b)) = journal b" "journal (snd (modify_order a oid r b)) = journal b"
  "journal (snd (cancel_order a oid b)) = journal b" "journal (snd (expire_day_orders a b)) = journal b"
proof -
  have "journal b1 = journal b" if "reindex_order p n oid b = Inr b1" for p n b1
    using that by (auto simp: reindex_order_def Let_def journal_def split: if_splits option.splits)
       (auto simp: index_order_def)
  then show "journal (snd (modify_order a oid r b)) = journal b"
    by (auto simp: modify_order_def Let_def split: sum.split)
  show "journal (snd (initialize b)) = journal b" by (simp add: initialize_def journal_def)
  show "journal (snd (cancel_order a oid b)) = journal b"
    by (simp add: cancel_order_def split: sum.split)
  show "journal (snd (expire_day_orders a b)) = journal b"
    by (simp add: expire_day_orders_def journal_def split: sum.split)
qed

lemma journal_ok_step:
  assumes "broker_step b b'" "ids_ok b" "journal_ok b"
  shows "journal_ok b'"
  using assms(1)
proof (cases rule: broker_step_of.cases)
  case (step_event ny e)
  show ?thesis
  proof (cases "b_bar_mode b")
    case True
    with assms step_event show ?thesis by (simp add: on_market_event_def)
  next
    case False
    from journal_ok_fills [OF fills_event [OF this]] assms step_event show ?thesis by simp
  qed
next
  case (step_current ny ticker t ids bid ask observed)
  with journal_ok_fills [OF fills_current] assms show ?thesis by simp
next
  case (step_bar ny row t)
  obtain ids u where "fills_only ids u b (on_liquidity_bar ny row t b)" using fills_bar by blast
  from journal_ok_fills [OF this] step_bar assms show ?thesis by simp
qed (use assms in \<open>auto intro: journal_ok_same\<close>)

lemma reachable_journal_ok: "broker_reachable b \<Longrightarrow> journal_ok b"
proof (induction rule: reachable_induct)
  case (start b)
  then show ?case
    by (auto simp: broker_start_def SimulatedBrokerAdapter_def journal_ok_def split: if_splits)
qed (auto intro: journal_ok_step reachable_ids_ok)

section \<open>Properties\<close>

text \<open>
  C5. What a market event returns is what it booked: the executions are appended to the journal
  in order, each has a positive size and the event's time, and each belongs to an order that
  was already working when the event arrived. So an attached order that a fill of this event
  activates is not filled by the same event.
\<close>

theorem event_fills_only_working_orders:
  assumes "broker_reachable b" and "on_market_event ny e b = (Inr xs, b')"
  shows "b_executions b' = b_executions b @ xs \<and>
    (\<forall>x \<in> set xs. 0 < bx_size x \<and> bx_trade_time x = ev_ts e \<and>
       (\<exists>od. map_of (b_orders b) (bx_order_id x) = Some od \<and> is_working od))"
proof -
  have "\<not> b_bar_mode b" using assms(2) by (auto simp: on_market_event_def)
  from fills_event [OF this, of e ny] reachable_ids_ok [OF assms(1)] assms(2) show ?thesis
    by (auto simp: fills_only_def journal_def)
qed

theorem event_fills_only_working_orders_witness:
  "\<exists>xs b'. on_market_event demo_ny (demo_quote demo_noon 49 50 4) demo_placed = (Inr xs, b') \<and>
    xs \<noteq> [] \<and> b_executions b' = b_executions demo_placed @ xs \<and> (\<forall>x \<in> set xs. 0 < bx_size x)"
proof -
  have "case on_market_event demo_ny (demo_quote demo_noon 49 50 4) demo_placed of
      (Inr xs, _) \<Rightarrow> xs \<noteq> [] | _ \<Rightarrow> False" by code_simp
  then obtain xs b' where e: "on_market_event demo_ny (demo_quote demo_noon 49 50 4) demo_placed = (Inr xs, b')" "xs \<noteq> []"
    by (auto split: prod.splits sum.splits)
  from event_fills_only_working_orders [OF demo_reachable(1) e(1)] e show ?thesis by blast
qed

text \<open>
  C6. Execution ids identify executions: in a reachable broker no two executions of the journal
  have the same id, and the next id is one past the number booked.
\<close>

theorem execution_ids_unique:
  assumes "broker_reachable b"
  shows "distinct (map bx_execution_id (b_executions b)) \<and>
    b_next_execution_id b = 1 + int (length (b_executions b))"
proof -
  from reachable_journal_ok [OF assms]
  have ids: "map bx_execution_id (b_executions b) =
      map (\<lambda>i. ''SIM-'' @ show_int (1 + int i)) [0..<length (b_executions b)]"
    and n: "b_next_execution_id b = 1 + int (length (b_executions b))"
    by (simp_all add: journal_ok_def)
  have "inj_on (\<lambda>i. ''SIM-'' @ show_int (1 + int i)) S" for S
  proof (rule inj_onI)
    fix x y assume "''SIM-'' @ show_int (1 + int x) = ''SIM-'' @ show_int (1 + int y)"
    then have "1 + int x = 1 + int y" by (intro show_int_inj) simp_all
    then show "x = y" by simp
  qed
  then show ?thesis unfolding ids distinct_map using n by simp
qed

theorem execution_ids_unique_witness:
  "distinct (map bx_execution_id (b_executions demo_filled)) \<and> length (b_executions demo_filled) = 2"
proof -
  have "length (b_executions demo_filled) = 2" by code_simp
  with execution_ids_unique [OF demo_reachable(3)] show ?thesis by blast
qed

end
