(* ===== verification/SimShares.thy ===== *)
theory SimShares
  imports SimFills
begin

text \<open>
  Whole-share trading in the simulated broker. With whole-share orders the float arithmetic of
  the sizing code is exact, and the code's cap on a sell is enough: an account without
  permission to go short never holds a negative position. The cap is taken against the position
  at the moment of the fill, so this holds for any number of resting sells.
\<close>

definition share_count :: "f64 \<Rightarrow> bool" where
  "share_count x \<longleftrightarrow> (\<exists>n. x = of_int n \<and> 0 \<le> n \<and> n < 2 ^ 52)"

definition whole_request :: "OrderRequest \<Rightarrow> bool" where
  "whole_request r \<longleftrightarrow> valid_request r \<and> (\<exists>q. or_quantity r = Some q \<and> share_count q)"

definition share_order :: "Order \<Rightarrow> bool" where
  "share_order od \<longleftrightarrow> whole_request (o_request od) \<and> share_count (o_filled od) \<and>
     o_filled od \<le> requested_quantity od"

lemma share_count_share: "share_count x \<Longrightarrow> is_share x"
  by (auto simp: share_count_def)

lemma share_count_nonneg: "share_count x \<Longrightarrow> 0 \<le> x"
  by (auto simp: share_count_def)

lemma share_count_between:
  assumes "share_count y" "x \<in> \<int>" "0 \<le> x" "x \<le> y"
  shows "share_count x"
proof -
  from assms(1,2) obtain m n where "y = of_int m" "m < 2 ^ 52" "x = of_int n"
    by (auto simp: share_count_def elim: Ints_cases)
  with assms(3,4) show ?thesis by (auto simp: share_count_def intro!: exI [of _ n])
qed

lemma share_count_diff: "share_count x \<Longrightarrow> share_count y \<Longrightarrow> y \<le> x \<Longrightarrow> fsub x y = x - y \<and> share_count (x - y)"
proof -
  assume x: "share_count x" "share_count y" "y \<le> x"
  then have "share_count (x - y)"
    by (intro share_count_between [OF x(1)]) (auto simp: share_count_def)
  then show ?thesis by (simp add: fsub_share share_count_share)
qed

lemma share_count_sum: "share_count (x + y) \<Longrightarrow> fadd x y = x + y"
  by (simp add: fadd_share share_count_share)

lemma floor_shares_count: "share_count x \<Longrightarrow> floor_shares x = x"
proof -
  assume "share_count x"
  then obtain n where n: "x = of_int n" "0 \<le> n" "n < 2 ^ 52" by (auto simp: share_count_def)
  with floor_bump [of n] is_f64_of_int [of n] show ?thesis
    by (simp add: floor_shares_def float_of_int_def fl_exact)
qed

lemma floor_shares_mono: "x \<le> y \<Longrightarrow> floor_shares x \<le> floor_shares y"
  unfolding floor_shares_def float_of_int_def py_floor_def fadd_def
  by (intro fl_mono) (simp add: floor_mono fl_mono)

lemma floor_shares_Ints [simp]: "floor_shares x \<in> \<int>"
  by (simp add: floor_shares_def float_of_int_def fl_Ints)

lemma share_order_facts:
  assumes "share_order od"
  shows "valid_request (o_request od)" "or_quantity (o_request od) = Some (requested_quantity od)"
    "share_count (requested_quantity od)" "share_count (o_filled od)" "o_filled od \<le> requested_quantity od"
    "remaining od = requested_quantity od - o_filled od" "share_count (remaining od)" "whole_shares od"
proof -
  from assms obtain q where q: "or_quantity (o_request od) = Some q" "share_count q"
    and f: "valid_request (o_request od)" "share_count (o_filled od)" "o_filled od \<le> requested_quantity od"
    by (auto simp: share_order_def whole_request_def)
  then show r: "valid_request (o_request od)" "or_quantity (o_request od) = Some (requested_quantity od)"
    "share_count (requested_quantity od)" "share_count (o_filled od)" "o_filled od \<le> requested_quantity od"
    by (auto simp: requested_quantity_def or0_def)
  from share_count_diff [OF r(3,4,5)]
  show m: "remaining od = requested_quantity od - o_filled od"
    using r(5) by (simp add: remaining_def)
  from share_count_diff [OF r(3,4,5)] show "share_count (remaining od)" by (simp add: m)
  from r(3) obtain n where "requested_quantity od = of_int n" "0 \<le> n" "n < 2 ^ 52"
    by (auto simp: share_count_def)
  then show "whole_shares od"
    using is_f64_of_int [of n] by (simp add: whole_shares_def py_round_def float_of_int_def fl_exact)
qed

lemma share_order_resize:
  assumes "share_order od" and "replace_quantity od q = Inr od'" and "share_count q" "o_filled od \<le> q"
  shows "share_order od'"
proof -
  have "valid_request (o_request od')"
    using assms(2) checked_valid by (auto simp: replace_quantity_def bind_result_Inr_iff)
  with assms replace_quantityD [OF assms(2)] show ?thesis
    by (simp add: share_order_def whole_request_def requested_quantity_def or0_def)
qed

section \<open>Sizing\<close>

text \<open>What an order may take: whole shares, no more than it has left, and for a sell without
  short permission no more than the account holds.\<close>

definition held_by :: "Broker \<Rightarrow> OrderRequest \<Rightarrow> f64" where
  "held_by b r = po_quantity (position_or_flat b (or_acctId r) (or_conid r) (or_ticker r))"

lemma affordable_shares_Ints: "whole_shares od \<Longrightarrow> affordable_shares b od price \<in> \<int>"
  by (simp add: affordable_shares_def Let_def)

lemma size_capped_share:
  assumes "share_order od" and "size_capped b side ty m mp av slot ident od = Some (price, q)"
  shows "share_count q" "0 < q" "q \<le> remaining od"
proof -
  note f = share_order_facts [OF assms(1)]
  define a where "a = min (remaining od)
      (max 0 (fsub (fmul av (participation_of (b_config b) m)) (consumed_of b slot ident)))"
  have "floor_shares a \<le> floor_shares (remaining od)"
    by (rule floor_shares_mono) (simp add: a_def)
  also have "\<dots> = remaining od" by (rule floor_shares_count [OF f(7)])
  finally have a: "floor_shares a \<le> remaining od" .
  from assms(2) f(8) have pos: "0 < floor_shares a"
    and q: "q = floor_shares a \<or> q = min (floor_shares a) (max 0 (affordable_shares b od price))" "0 < q"
    by (auto simp: size_capped_def Let_def a_def [symmetric] split: if_splits)
  then have "q \<le> floor_shares a" "q \<in> \<int>"
    using affordable_shares_Ints [OF f(8)] by (auto simp: min_def max_def)
  with a q(2) show "q \<le> remaining od" "0 < q" by auto
  with \<open>q \<in> \<int>\<close> show "share_count q" by (intro share_count_between [OF f(7)]) auto
qed

lemma cap_to_held_share:
  assumes "share_order od" and "cap_to_held b side od = Inr od'"
    and held: "held_by b (o_request od) \<in> \<int>"
  shows "share_order od' \<and> o_filled od' = o_filled od \<and>
    (side = ''SELL'' \<longrightarrow> \<not> sc_allow_short (b_config b) \<longrightarrow> remaining od' \<le> max 0 (held_by b (o_request od)))"
proof -
  note f = share_order_facts [OF assms(1)]
  define h where "h = max 0 (held_by b (o_request od))"
  have h_eq: "max 0 (po_quantity (position_or_flat b (o_acct od) (o_conid od) (or_ticker (o_request od)))) = h"
    by (simp add: h_def held_by_def)
  show ?thesis
  proof (cases "side = ''SELL'' \<and> \<not> sc_allow_short (b_config b) \<and> h < remaining od")
    case True
    with assms(2) have rq: "replace_quantity od (fadd (o_filled od) h) = Inr od'"
      unfolding cap_to_held_def h_eq Let_def by simp
    have hs: "h \<in> \<int>" "0 \<le> h" using held by (auto simp: h_def max_def)
    have "share_count (o_filled od + h)"
    proof (rule share_count_between [OF f(3)])
      show "o_filled od + h \<in> \<int>" using hs f(4) by (auto simp: share_count_def)
      show "0 \<le> o_filled od + h" using hs share_count_nonneg [OF f(4)] by simp
      show "o_filled od + h \<le> requested_quantity od" using True f(6) by simp
    qed
    note s = this share_count_sum [OF this]
    with share_order_resize [OF assms(1) rq] hs have so: "share_order od'" by simp
    have "requested_quantity od' = o_filled od + h" "o_filled od' = o_filled od"
      using replace_quantityD [OF rq] s by (simp_all add: requested_quantity_def or0_def)
    with share_order_facts(6) [OF so] so show ?thesis by (simp add: h_def)
  next
    case False
    with assms(2) have "od' = od" unfolding cap_to_held_def h_eq Let_def by (auto split: if_splits)
    with False assms(1) show ?thesis by (auto simp: h_def)
  qed
qed

text \<open>A fill as \<open>apply_fill\<close> receives it: the order is whole-share, the quantity fits.\<close>

definition sound_fill :: "Broker \<Rightarrow> Order \<Rightarrow> f64 \<Rightarrow> bool" where
  "sound_fill b od q \<longleftrightarrow> share_order od \<and> share_count q \<and> 0 < q \<and> q \<le> remaining od \<and>
     (upper (or_side (o_request od)) = ''SELL'' \<longrightarrow> \<not> sc_allow_short (b_config b) \<longrightarrow> q \<le> held_by b (o_request od))"

lemma size_candidate_share:
  assumes "share_order od" and "size_candidate b (upper (or_side (o_request od))) ty m mp av slot ident od = (res, od')"
    and held: "held_by b (o_request od) \<in> \<int>"
  shows "share_order od'" "res = Inr (Some (price, q)) \<Longrightarrow> sound_fill b od' q"
proof -
  let ?side = "upper (or_side (o_request od))"
  note p = prepared_simps [OF size_candidate_prepared' [OF assms(2)]]
  have h: "held_by b (o_request od') = held_by b (o_request od)" by (simp add: held_by_def p)
  show so: "share_order od'"
  proof (cases "cap_to_held b ?side od")
    case (Inl e)
    with assms(1,2) show ?thesis by (auto simp: size_candidate_def)
  next
    case (Inr x)
    with cap_to_held_share [OF assms(1) Inr held] assms(2) show ?thesis by (auto simp: size_candidate_def)
  qed
  assume "res = Inr (Some (price, q))"
  with assms(2) have c: "cap_to_held b ?side od = Inr od'"
    and s: "size_capped b ?side ty m mp av slot ident od' = Some (price, q)"
    by (auto simp: size_candidate_def split: sum.splits)
  from cap_to_held_share [OF assms(1) c held] size_capped_share [OF so s] show "sound_fill b od' q"
    by (auto simp: sound_fill_def so h p max_def split: if_splits)
qed

lemma rearmed_share: "share_order (rearmed od h x) = share_order od"
  by (simp add: share_order_def requested_quantity_def)

lemma fill_candidate_share:
  assumes "share_order od" and "fill_candidate ny b e od = (res, od')" and held: "held_by b (o_request od) \<in> \<int>"
  shows "share_order od'" "res = Inr (Some (price, q)) \<Longrightarrow> sound_fill b od' q"
proof -
  let ?side = "upper (or_side (o_request od))"
  let ?mp = "executable_price b (or_conid (o_request od)) ?side e"
  obtain ty od1 where arm: "arm_order ny e ?side ?mp od = (ty, od1)" by force
  then obtain h x where od1: "od1 = rearmed od h x"
    using arm_order_rearmed [of od ny e ?side ?mp] by (auto simp: is_rearm_def)
  have so1: "share_order od1" using assms(1) by (simp add: od1 rearmed_share)
  have size: "share_order od2 \<and> (r = Inr (Some (price, q)) \<longrightarrow> sound_fill b od2 q)"
    if "size_candidate b ?side t m mp av slot ident od1 = (r, od2)" for t m mp av slot ident r od2
  proof -
    have 1: "size_candidate b (upper (or_side (o_request od1))) t m mp av slot ident od1 = (r, od2)"
      and 2: "held_by b (o_request od1) \<in> \<int>" using that held by (simp_all add: od1)
    from size_candidate_share [OF so1 1 2] show ?thesis by blast
  qed
  from assms(1,2) arm so1 size have "share_order od' \<and> (res = Inr (Some (price, q)) \<longrightarrow> sound_fill b od' q)"
    by (auto simp: fill_candidate_def Let_def split: if_splits option.splits prod.splits)
  then show "share_order od'" "res = Inr (Some (price, q)) \<Longrightarrow> sound_fill b od' q" by simp_all
qed

section \<open>Long books\<close>

definition long_positions :: "Broker \<Rightarrow> bool" where
  "long_positions b \<longleftrightarrow> (\<forall>a ps c p. map_of (b_positions b) a = Some ps \<longrightarrow> map_of ps c = Some p \<longrightarrow>
     po_quantity p \<in> \<int> \<and> 0 \<le> po_quantity p)"

definition long_book :: "Broker \<Rightarrow> bool" where
  "long_book b \<longleftrightarrow> (\<forall>k od. map_of (b_orders b) k = Some od \<longrightarrow> share_order od) \<and>
     long_positions b \<and> \<not> sc_allow_short (b_config b)"

definition holdings :: "Broker \<Rightarrow> (string, (int, Position) dict) dict \<times> SimulationConfig" where
  "holdings b = (b_positions b, b_config b)"

lemma held_by_long: "long_positions b \<Longrightarrow> held_by b r \<in> \<int> \<and> 0 \<le> held_by b r"
  by (auto simp: long_positions_def held_by_def position_or_flat_def account_positions_def dget_def
      new_position_def split: option.splits)

lemma held_by_holdings: "holdings b' = holdings b \<Longrightarrow> held_by b' r = held_by b r"
  by (simp add: holdings_def held_by_def position_or_flat_def account_positions_def)

lemma long_book_write:
  assumes "long_book b" and "holdings b' = holdings b"
    and "\<And>k od'. map_of (b_orders b') k = Some od' \<Longrightarrow>
      share_order od' \<or> (\<exists>od. map_of (b_orders b) k = Some od \<and> (share_order od \<longrightarrow> share_order od'))"
  shows "long_book b'"
proof -
  have "b_positions b' = b_positions b" "b_config b' = b_config b" using assms(2) by (simp_all add: holdings_def)
  moreover have "share_order od'" if "map_of (b_orders b') k = Some od'" for k od'
    using assms(1) assms(3) [OF that] by (auto simp: long_book_def)
  ultimately show ?thesis using assms(1) by (auto simp: long_book_def long_positions_def)
qed

lemma holdings_put [simp]: "holdings (put_order od b) = holdings b"
  by (simp add: holdings_def put_order_def)

lemma long_book_put: "long_book b \<Longrightarrow> share_order od \<Longrightarrow> long_book (put_order od b)"
  by (erule long_book_write) (auto split: if_splits)

lemma long_book_order: "long_book b \<Longrightarrow> map_of (b_orders b) k = Some od \<Longrightarrow> share_order od"
  by (simp add: long_book_def)

lemma long_book_map_values:
  assumes "long_book b" and "\<And>od. share_order od \<Longrightarrow> share_order (f od)"
  shows "long_book (b\<lparr>b_orders := map_values f (b_orders b)\<rparr>)"
  using assms(1) by (rule long_book_write) (auto simp: holdings_def assms(2))

lemma share_status [simp]:
  "share_order (od\<lparr>o_status := s\<rparr>) = share_order od" "share_order (cancel_with r od) = share_order od"
  "share_order (od\<lparr>o_commission_paid := c\<rparr>) = share_order od" "share_order (settle cfg od) = share_order od"
  by (simp_all add: share_order_def requested_quantity_def cancel_with_def settle_eq)

lemma long_book_children:
  assumes "long_book b"
  shows "long_book (activate_children c b)" "long_book (cancel_children c r b)" "long_book (cancel_oca_siblings od b)"
  using assms by (auto simp: activate_children_def cancel_children_def cancel_oca_siblings_def intro!: long_book_map_values)

lemma reduce_sibling_share:
  assumes "share_order od" "share_count q" "reduce_sibling q od = Inr od'"
  shows "share_order od'"
proof -
  note f = share_order_facts [OF assms(1)]
  define n where "n = max 0 (fsub (remaining od) q)"
  have n: "share_count n \<and> n \<le> remaining od"
  proof (cases "q \<le> remaining od")
    case True
    with share_count_diff [OF f(7) assms(2)] share_count_nonneg [OF assms(2)] show ?thesis
      by (auto simp: n_def share_count_nonneg max_def)
  next
    case False
    then have "fsub (remaining od) q \<le> 0" unfolding fsub_def by (intro fl_nonpos) simp
    then have "n = 0" by (simp add: n_def)
    moreover have "share_count 0" by (auto simp: share_count_def intro: exI [of _ 0])
    ultimately show ?thesis using share_count_nonneg [OF f(7)] by simp
  qed
  have "share_count (o_filled od + n)"
    using n f(6) by (intro share_count_between [OF f(3)]) (use f(4) share_count_nonneg in \<open>auto simp: share_count_def\<close>)
  note s = this share_count_sum [OF this]
  from assms(3) obtain x where "replace_quantity od (o_filled od + n) = Inr x"
    and "od' = x \<or> (\<exists>r. od' = cancel_with r x)"
    by (auto simp: reduce_sibling_def Let_def n_def [symmetric] bind_result_Inr_iff s split: if_splits)
  with share_order_resize [OF assms(1) _ s(1)] n show ?thesis by (auto simp: share_count_nonneg)
qed

lemma keeps_long_reduce:
  assumes "share_count q"
  shows "keeps long_book (reduce_single_exit_sibling_capacity od q)"
proof -
  have "keeps long_book (reduce_visit od q oid)" for oid
    by (rule keepsI)
      (auto simp: reduce_visit_def intro: long_book_put reduce_sibling_share [OF _ assms] long_book_order
        split: option.splits sum.splits)
  then have "keeps long_book (abind (for_each (reduce_visit od q) ids) (\<lambda>_. aret ()))" for ids
    by (intro keeps_abind keeps_for_each keeps_aret)
  then show ?thesis
    by (simp add: keeps_def reduce_single_exit_sibling_capacity_def)
qed

lemma holdings_reduce [simp]: "holdings (snd (reduce_single_exit_sibling_capacity od q b)) = holdings b"
proof -
  have "keeps (\<lambda>s. holdings s = j) (reduce_visit od q oid)" for oid j
    by (rule keepsI) (simp add: reduce_visit_def split: option.splits sum.splits)
  then have "keeps (\<lambda>s. holdings s = j) (abind (for_each (reduce_visit od q) ids) (\<lambda>_. aret ()))" for ids j
    by (intro keeps_abind keeps_for_each keeps_aret)
  then show ?thesis
    by (simp add: keeps_def reduce_single_exit_sibling_capacity_def)
qed

section \<open>Booking\<close>

lemma book_position_quantity: "po_quantity (fst (book_position p signed price)) = fadd (po_quantity p) signed"
  by (simp add: book_position_def Let_def)

lemma holdings_observe [simp]: "holdings (observe_performance c s b) = holdings b"
  unfolding observe_performance_def
  by (rule LetI [where P = "\<lambda>s. holdings s = holdings b"])+ (simp add: holdings_def)

lemma book_execution_long:
  assumes "long_book b" "share_count q" "valid_request r" "upper (or_side r) = ''SELL'' \<Longrightarrow> q \<le> held_by b r"
  shows "long_book (book_execution r price q comm b)"
proof -
  let ?p = "position_or_flat b (or_acctId r) (or_conid r) (or_ticker r)"
  let ?s = "signed_quantity (upper (or_side r)) q"
  let ?new = "fst (book_position ?p ?s price)"
  have h: "po_quantity ?p \<in> \<int>" "0 \<le> po_quantity ?p"
    using held_by_long [of b r] assms(1) by (simp_all add: held_by_def long_book_def)
  have q: "q \<in> \<int>" "0 \<le> q" using assms(2) by (auto simp: share_count_def)
  have "0 \<le> po_quantity ?p + ?s" "po_quantity ?p + ?s \<in> \<int>"
    using h q assms(4) valid_requestD(2) [OF assms(3)] by (auto simp: signed_quantity_def held_by_def)
  then have new: "po_quantity ?new \<in> \<int>" "0 \<le> po_quantity ?new"
    by (simp_all add: book_position_quantity fadd_def fl_Ints fl_nonneg)
  define b' where "b' = book_execution r price q comm b"
  have "b_positions b' = AList.update (or_acctId r)
      (AList.update (or_conid r) ?new (account_positions b (or_acctId r))) (b_positions b)"
    "b_config b' = b_config b"
    by (simp_all add: b'_def book_execution_def Let_def index_position_def unindex_position_def split: option.split)
  moreover have "b_orders b' = b_orders b" by (simp add: b'_def)
  ultimately have "long_book b'"
    using assms(1) new
    by (auto simp: long_book_def long_positions_def account_positions_def dget_def split: if_splits option.splits)
  then show ?thesis by (simp add: b'_def)
qed

lemma fill_order_share:
  assumes "share_order od" "share_count q" "q \<le> remaining od"
  shows "share_order (od\<lparr>o_filled := fadd (o_filled od) q\<rparr>)"
    and "fill_order price q od = Inr od' \<Longrightarrow> share_order od'"
proof -
  note f = share_order_facts [OF assms(1)]
  have "share_count (o_filled od + q)"
    using assms f by (intro share_count_between [OF f(3)])
      (auto simp: share_count_nonneg share_count_def [of "o_filled od"] share_count_def [of q])
  note s = this share_count_sum [OF this]
  have le: "o_filled od + q \<le> requested_quantity od" using assms(3) f(6) by simp
  have keep: "share_order od'" if "o_request od' = o_request od" "o_filled od' = fadd (o_filled od) q" for od'
  proof -
    have "requested_quantity od' = requested_quantity od" using that by (simp add: requested_quantity_def)
    with that s le assms(1) show ?thesis by (simp add: share_order_def)
  qed
  show "share_order (od\<lparr>o_filled := fadd (o_filled od) q\<rparr>)" by (rule keep) simp_all
  show "share_order od'" if "fill_order price q od = Inr od'"
    using fill_order_Inr(2,3) [OF that] by (intro keep)
qed

lemma long_apply_fill:
  assumes lb: "long_book b" and od: "map_of (b_orders b) oid = Some od" and id: "o_order_id od = oid"
    and ok: "sound_fill b od q"
  shows "long_book (snd (apply_fill oid t price q b))"
proof (cases "fill_order price q od")
  case (Inl e)
  with od lb ok show ?thesis
    by (auto simp: apply_fill_def sound_fill_def intro!: long_book_put fill_order_share(1))
next
  case (Inr od1)
  have s1: "share_order od1" using ok Inr fill_order_share(2) by (auto simp: sound_fill_def)
  have id1: "o_order_id od1 = oid" "o_request od1 = o_request od" using id fill_order_Inr(1,2) [OF Inr] by auto
  define reduce where "reduce = (if is_single_exit_group_member od1 \<and> o_status od1 \<noteq> ST_FILLED
      then reduce_single_exit_sibling_capacity od1 q else aret ())"
  obtain u b1 where u: "reduce (put_order od1 b) = (u, b1)" by force
  have b1: "long_book b1" "holdings b1 = holdings b" "map_of (b_orders b1) oid = Some od1"
    using u keepsD [OF keeps_long_reduce [of q od1], of "put_order od1 b"] ok lb s1 id1
      holdings_reduce [of od1 q "put_order od1 b"] reduce_lookup [of od1 q "put_order od1 b"]
    by (auto simp: reduce_def sound_fill_def long_book_put simp del: holdings_reduce split: if_splits)
  have held: "upper (or_side (o_request od1)) = ''SELL'' \<Longrightarrow> q \<le> held_by b1 (o_request od1)"
    using ok lb held_by_holdings [OF b1(2)] by (auto simp: sound_fill_def long_book_def id1)
  have "long_book (snd (record_fill oid t price q b1))"
  proof -
    define od2 where "od2 = snd (incremental_order_commission (b_config b1) od1)"
    have s2: "share_order od2" "o_request od2 = o_request od1"
      using s1 by (simp_all add: od2_def settle_def [symmetric])
    define s where "s x n = (put_order od2 b1)\<lparr>b_next_execution_id := n, b_executions := x\<rparr>" for x n
    have "long_book (s x n)" for x n
      using long_book_put [OF b1(1) s2(1)] by (rule long_book_write) (auto simp: s_def holdings_def)
    moreover have "held_by (s x n) r = held_by b1 r" for x n r
      by (rule held_by_holdings) (simp add: s_def holdings_def put_order_def)
    ultimately have "long_book (book_execution (o_request od2) price q comm (s x n))" for comm x n
      using ok held s2 share_order_facts(1) [OF s1] by (intro book_execution_long) (auto simp: sound_fill_def)
    then have "long_book (observe_performance c (Some t) (book_execution (o_request od2) price q comm (s x n)))" for c comm x n
      by (rule long_book_write) auto
    then show ?thesis
      using b1(3) by (simp add: record_fill_def Let_def od2_def [symmetric] s_def [symmetric] long_book_children)
  qed
  moreover have "apply_fill oid t price q b = abind reduce (\<lambda>_. record_fill oid t price q) (put_order od1 b)"
    using od Inr by (simp add: apply_fill_def reduce_def)
  ultimately show ?thesis using u b1(1) by (cases u) (auto simp: abind_def)
qed

lemma long_prepared_fill:
  assumes ok: "ids_ok b" and lb: "long_book b" and od: "map_of (b_orders b) oid = Some od"
    and p: "prepared od od'" and s: "sound_fill b od' q"
  shows "long_book (snd (apply_fill oid t price q (put_order od' b)))"
proof -
  have id: "o_order_id od' = oid" using ids_ok_lookup [OF ok od] prepared_simps(1) [OF p] by simp
  have "sound_fill (put_order od' b) od' q"
    using s held_by_holdings [OF holdings_put, of od' b] by (simp add: sound_fill_def put_order_def)
  with id s lb show ?thesis
    by (intro long_apply_fill [where od = od']) (auto simp: sound_fill_def intro: long_book_put)
qed

lemma long_consume: "long_book b \<Longrightarrow> long_book (consume sl i q b)"
  by (erule long_book_write) (auto simp: holdings_def consume_def)

section \<open>Every operation\<close>

definition long_ids :: "Broker \<Rightarrow> bool" where
  "long_ids b \<longleftrightarrow> ids_ok b \<and> long_book b"

lemma long_idsI: "long_ids b \<Longrightarrow> moves keeps_identity X b b' \<Longrightarrow> long_book b' \<Longrightarrow> long_ids b'"
  by (auto simp: long_ids_def intro: ids_ok_moves)

lemma long_ids_frame:
  assumes "long_ids b" "b_orders b' = b_orders b" "b_next_order_id b' = b_next_order_id b" "holdings b' = holdings b"
  shows "long_ids b'"
proof (rule long_idsI [OF assms(1) identity.moves_same [OF assms(2,3)]])
  have "long_book b" using assms(1) by (simp add: long_ids_def)
  then show "long_book b'" by (rule long_book_write) (use assms in auto)
qed

lemma held_whole: "long_book b \<Longrightarrow> held_by b r \<in> \<int>"
  using held_by_long by (simp add: long_book_def)

lemma long_match_visit: "keeps long_ids (match_visit ny e t oid)"
proof (rule keepsI)
  fix b assume li: "long_ids b"
  then have ok: "ids_ok b" and lb: "long_book b" by (simp_all add: long_ids_def)
  show "long_ids (snd (match_visit ny e t oid b))"
  proof (rule long_idsI [OF li identity.moves_match_visit])
    show "long_book (snd (match_visit ny e t oid b))"
    proof (cases "map_of (b_orders b) oid")
      case None
      with lb show ?thesis by (simp add: match_visit_def)
    next
      case (Some od)
      obtain res od' where c: "fill_candidate ny b e od = (res, od')" by force
      note so = long_book_order [OF lb Some]
      note fc = fill_candidate_share [OF so c held_whole [OF lb]]
      have fill: "long_book (snd (apply_fill oid t price q (put_order od' b)))"
        if "res = Inr (Some (price, q))" for price q
        using fc(2) [OF that] by (rule long_prepared_fill [OF ok lb Some fill_candidate_prepared [OF c]])
      have put: "long_book (put_order od' b)" by (rule long_book_put [OF lb fc(1)])
      show ?thesis
      proof (cases "\<exists>price q. res = Inr (Some (price, q))")
        case True
        then obtain price q where res: "res = Inr (Some (price, q))" by blast
        obtain r s where a: "apply_fill oid t price q (put_order od' b) = (r, s)" by force
        with fill [OF res] have "long_book s" by simp
        with res Some c a lb show ?thesis
          by (cases r) (auto simp: match_visit_def abind_def long_consume split: prod.split)
      qed (use Some c lb put in \<open>auto simp: match_visit_def split: sum.splits option.splits\<close>)
    qed
  qed
qed

lemma long_bar_visit: "keeps long_ids (bar_visit ny v oid)"
proof (rule keepsI)
  fix b assume li: "long_ids b"
  then have ok: "ids_ok b" and lb: "long_book b" by (simp_all add: long_ids_def)
  show "long_ids (snd (bar_visit ny v oid b))"
  proof (rule long_idsI [OF li identity.moves_bar_visit])
    show "long_book (snd (bar_visit ny v oid b))"
    proof (cases "map_of (b_orders b) oid")
      case None
      with lb show ?thesis by (simp add: bar_visit_def)
    next
      case (Some od)
      note so = long_book_order [OF lb Some]
      have trig: "long_book (put_order (bar_trigger v od) b)"
        using bar_trigger_rearmed [of od v] so lb by (auto simp: is_rearm_def rearmed_share intro: long_book_put)
      have size: "long_book (snd (case size_candidate b (o_side od) ty m p a slot ident od of
         (Inl e, od') \<Rightarrow> (Inl e, put_order od' b)
       | (Inr None, od') \<Rightarrow> (Inr [], put_order od' b)
       | (Inr (Some (fill_price, quantity)), od') \<Rightarrow>
           abind (apply_fill oid (bv_at v) fill_price quantity) (\<lambda>x.
             abind (aupd (consume slot ident quantity)) (\<lambda>_. aret [x])) (put_order od' b)))"
        for ty m p a slot ident
      proof -
        obtain res od' where c: "size_candidate b (o_side od) ty m p a slot ident od = (res, od')" by force
        note sc = size_candidate_share [OF so c held_whole [OF lb]]
        have put: "long_book (put_order od' b)" by (rule long_book_put [OF lb sc(1)])
        show ?thesis
        proof (cases "\<exists>price q. res = Inr (Some (price, q))")
          case True
          then obtain price q where res: "res = Inr (Some (price, q))" by blast
          obtain r s where f: "apply_fill oid (bv_at v) price q (put_order od' b) = (r, s)" by force
          have "long_book s"
            using long_prepared_fill [OF ok lb Some size_candidate_prepared' [OF c] sc(2) [OF res], of "bv_at v" price] f by simp
          with res c f show ?thesis by (cases r) (auto simp: abind_def long_consume)
        qed (use c put in \<open>auto split: sum.splits option.splits\<close>)
      qed
      show ?thesis
        unfolding bar_visit_def Some option.case Let_def
        using trig size lb by (auto split: sum.split option.split)
    qed
  qed
qed

lemma keeps_loop: "(\<And>x. keeps P (f x)) \<Longrightarrow> P b \<Longrightarrow> P (snd (abind (for_each f xs) (\<lambda>xss. aret (concat xss)) b))"
  by (erule keepsD [rotated]) (intro keeps_abind keeps_for_each keeps_aret)

lemma long_match_orders: "long_ids b \<Longrightarrow> long_ids (snd (match_orders ny e t sel b))"
  by (auto simp: match_orders_def Let_def intro: keeps_loop long_match_visit)

lemma long_observe: "long_ids b \<Longrightarrow> long_ids (snd (observe_market_event ny e b))"
proof (erule long_ids_frame)
  show "holdings (snd (observe_market_event ny e b)) = holdings b"
    by (simp add: observe_market_event_def Let_def split: sum.split MarketEvent.split)
       (simp add: holdings_def)
qed simp_all

lemma long_event: "long_ids b \<Longrightarrow> long_ids (snd (on_market_event ny e b))"
  using long_observe [of b ny e]
  by (auto simp: on_market_event_def abind_def long_match_orders split: prod.splits sum.splits)

lemma long_current:
  assumes "long_ids b"
  shows "long_ids (snd (match_current_orders ny ticker t ids bid ask observed b))"
proof -
  define f where "f sel = (\<lambda>conid b. case (case map_of (b_quotes b) conid of Some q \<Rightarrow> Some q
                   | None \<Rightarrow> map_of (b_quotes_by_ticker b) (upper ticker)) of
               None \<Rightarrow> (Inr [], b)
             | Some q \<Rightarrow>
                 if t < qu_ts q then (Inr [], b)
                 else (case decision_quote q t bid ask observed of
                     None \<Rightarrow> (Inr [], b)
                   | Some q' \<Rightarrow> match_orders ny (Quote q') t sel b))" for sel
  have "keeps long_ids (f sel c)" for sel c
    by (rule keepsI) (simp add: f_def long_match_orders split: option.split)
  then have "long_ids (snd (abind (for_each (f sel) cs) (\<lambda>xss. aret (concat xss)) b))" for sel cs
    using assms by (rule keeps_loop)
  with assms show ?thesis
    unfolding match_current_orders_def Let_def f_def by simp
qed

lemma holdings_bar [simp]:
  "holdings (publish_bar v b) = holdings b" "holdings (fold (mark_conid v) cs b) = holdings b"
proof -
  have "holdings (compact_index t x) = holdings x" for t x
    by (simp add: compact_index_def holdings_def Let_def)
  then show "holdings (publish_bar v b) = holdings b"
    by (simp add: publish_bar_def Let_def) (simp add: holdings_def)
  have "holdings (mark_conid v c x) = holdings x" for c x
    by (simp add: mark_conid_def Let_def) (simp add: holdings_def)
  then show "holdings (fold (mark_conid v) cs b) = holdings b"
    by (induction cs arbitrary: b) simp_all
qed

lemma long_bar: "long_ids b \<Longrightarrow> long_ids (snd (on_liquidity_bar ny row t b))"
proof -
  assume li: "long_ids b"
  let ?v = "view_bar row (instant t)"
  define f where "f cs = fold (mark_conid ?v) cs (publish_bar ?v b)" for cs
  have "long_ids (f cs)" "long_ids (publish_bar ?v b)" for cs
    using li by (auto simp: f_def intro: long_ids_frame [OF li])
  then have "long_ids (snd (on_validated_liquidity_bar ny row (instant t) b))"
    unfolding on_validated_liquidity_bar_def Let_def f_def [symmetric]
    by (auto intro: keeps_loop long_bar_visit)
  with li show ?thesis by (simp add: on_liquidity_bar_def split: sum.split)
qed

lemma long_place:
  assumes "\<forall>r \<in> set orders. whole_request r" "long_ids b"
  shows "long_ids (snd (place_orders now a orders b))"
proof -
  have one: "keeps long_ids (place_one now g rep r)" if w: "whole_request r" for g rep r
  proof (rule keepsI)
    fix s assume s: "long_ids s"
    have v: "valid_request r" "or_quantity r \<noteq> None" using w by (auto simp: whole_request_def)
    obtain q where q: "or_quantity r = Some q" "share_count q" using w unfolding whole_request_def by blast
    have "share_order (new_order now s g r)"
      using w q share_count_nonneg [OF q(2)]
      by (auto simp: share_order_def new_order_def requested_quantity_def or0_def share_count_def intro!: exI [of _ "0::int"])
    then have "long_book (accept_order now g r s)"
      using s by (auto simp: long_ids_def accept_order_def Let_def holdings_def put_order_def index_order_def
          split: if_splits elim!: long_book_write)
    then have "long_ids (accept_order now g r s)"
      by (intro long_idsI [OF s identity.moves_accept [OF v]])
    with s show "long_ids (snd (place_one now g rep r s))"
      by (simp add: place_one_def Let_def split: sum.split)
  qed
  have same: "resolved = orders" if "map_result (resolve_cash_quantity b) orders = Inr resolved" for resolved
  proof -
    have "resolve_cash_quantity b r = Inr r" if "r \<in> set orders" for r
      using assms(1) that valid_requestD(4) [of r] by (auto simp: whole_request_def resolve_cash_quantity_def)
    then have "map_result (resolve_cash_quantity b) orders = Inr orders"
      by (induction orders) auto
    with that show ?thesis by simp
  qed
  have "long_ids (snd (abind (for_each (place_one now g rep) orders) (\<lambda>rows. aret (Placed rows)) b))" for g rep
    using assms(2) by (rule keepsD [rotated], intro keeps_abind keeps_for_each keeps_aret) (use one assms(1) in blast)
  with assms(2) same show ?thesis
    unfolding place_orders_def Let_def by (auto simp: bind_result_Inr_iff split: sum.splits if_splits)
qed

lemma long_modify:
  assumes r: "whole_request r" and li: "long_ids b"
  shows "long_ids (snd (modify_order a oid r b))"
proof (rule long_idsI [OF li identity.moves_modify])
  show "valid_request r" using r by (simp add: whole_request_def)
  have lb: "long_book b" using li by (simp add: long_ids_def)
  have "long_book (put_order (od\<lparr>o_request := r, o_status := st\<rparr>) b1)"
    if c: "modify_check b a oid r = Inr od" and i: "reindex_order p n oid b = Inr b1" for od p n b1 st
  proof -
    have "long_book b1"
      using i lb by (auto simp: reindex_order_def index_order_def holdings_def Let_def
          elim!: long_book_write split: if_splits option.splits)
    moreover have "share_order (od\<lparr>o_request := r, o_status := st\<rparr>)"
    proof -
      from r obtain q where q: "or_quantity r = Some q" "share_count q" by (auto simp: whole_request_def)
      have "o_filled od \<le> q" by (rule modify_check_facts(8) [OF c q(1)])
      moreover have "share_count (o_filled od)"
        using share_order_facts(4) [OF long_book_order [OF lb modify_check_facts(1) [OF c]]] .
      ultimately show ?thesis using r q by (simp add: share_order_def requested_quantity_def or0_def)
    qed
    ultimately show ?thesis by (rule long_book_put)
  qed
  with lb show "long_book (snd (modify_order a oid r b))"
    by (simp add: modify_order_def Let_def split: sum.split)
qed

lemma long_cancel: "long_ids b \<Longrightarrow> long_ids (snd (cancel_order a oid b))"
proof (rule long_idsI [OF _ identity.moves_cancel])
  assume li: "long_ids b"
  then show "long_ids b" .
  from li have lb: "long_book b" by (simp add: long_ids_def)
  show "long_book (snd (cancel_order a oid b))"
  proof (cases "bind_result (require_account b a) (\<lambda>_. require_order b a oid)")
    case (Inr od)
    then have "map_of (b_orders b) oid = Some od"
      by (auto simp: bind_result_Inr_iff require_order_def split: option.splits if_splits)
    from long_book_order [OF lb this] lb Inr show ?thesis
      by (simp add: cancel_order_def long_book_put long_book_children)
  qed (use lb in \<open>simp add: cancel_order_def\<close>)
qed

lemma long_expire: "long_ids b \<Longrightarrow> long_ids (snd (expire_day_orders a b))"
proof (rule long_idsI [OF _ identity.moves_expire])
  assume li: "long_ids b"
  then show "long_ids b" .
  from li have "long_book b" by (simp add: long_ids_def)
  then show "long_book (snd (expire_day_orders a b))"
    by (auto simp: expire_day_orders_def expire_order_def split: sum.split intro!: long_book_map_values)
qed

lemma long_initialize: "long_ids b \<Longrightarrow> long_ids (snd (initialize b))"
  by (erule long_ids_frame) (simp_all add: initialize_def holdings_def)

lemma long_step: "broker_step_of whole_request b b' \<Longrightarrow> long_ids b \<Longrightarrow> long_ids b'"
  by (erule broker_stepE)
     (simp_all add: long_initialize long_place long_modify long_cancel long_expire long_observe
        long_event long_current long_bar)

lemma long_start: "broker_start b \<Longrightarrow> \<not> sc_allow_short (b_config b) \<Longrightarrow> long_ids b"
  using ids_ok_start [of b]
  by (auto simp: broker_start_def SimulatedBrokerAdapter_def long_ids_def long_book_def long_positions_def
      map_of_map_restrict restrict_map_def split: if_splits dest!: map_of_SomeD)

text \<open>
  C1. Without short permission a broker that only ever trades whole shares never goes short:
  from a fresh adapter, through any sequence of commands with whole-share requests, market
  events and liquidity bars, no account's position in any contract is ever negative, and every
  position is a whole number of shares.
\<close>

theorem whole_shares_never_short:
  assumes "broker_start b0" and "\<not> sc_allow_short (b_config b0)"
    and "(broker_step_of whole_request)\<^sup>*\<^sup>* b0 b"
    and "map_of (b_positions b) a = Some ps" and "map_of ps conid = Some p"
  shows "0 \<le> po_quantity p \<and> po_quantity p \<in> \<int>"
proof -
  from assms(3) have "long_ids b"
    by (induction rule: rtranclp_induct) (use long_start [OF assms(1,2)] long_step in blast)+
  with assms(4,5) show ?thesis by (auto simp: long_ids_def long_book_def long_positions_def)
qed

lemma demo_whole: "whole_request demo_request"
proof -
  have "share_count 10" unfolding share_count_def by (rule exI [of _ 10]) simp
  then show ?thesis using demo_request_valid by (simp add: whole_request_def demo_request_def)
qed

theorem whole_shares_never_short_witness:
  "\<exists>ps p. map_of (b_positions demo_partial) ''A'' = Some ps \<and> map_of ps 1 = Some p \<and>
     po_quantity p = 4 \<and> 0 \<le> po_quantity p"
proof -
  have "case map_of (b_positions demo_partial) ''A'' of None \<Rightarrow> False
      | Some ps \<Rightarrow> (case map_of ps 1 of Some p \<Rightarrow> po_quantity p = 4 | None \<Rightarrow> False)"
    by code_simp
  then obtain ps p where p: "map_of (b_positions demo_partial) ''A'' = Some ps" "map_of ps 1 = Some p" "po_quantity p = 4"
    by (auto split: option.splits)
  obtain b0 where b0: "broker_start b0" "demo_broker 1000 = snd (initialize b0)" using demo_start by blast
  let ?S = "broker_step_of whole_request"
  have "?S\<^sup>*\<^sup>* b0 (demo_broker 1000)" unfolding b0(2) by (rule r_into_rtranclp) (rule step_initialize)
  moreover have "?S (demo_broker 1000) demo_placed"
    unfolding demo_placed_def by (rule step_place) (simp add: demo_whole)
  moreover have "?S demo_placed demo_partial" unfolding demo_partial_def by (rule step_event)
  ultimately have run: "?S\<^sup>*\<^sup>* b0 demo_partial" by (meson rtranclp.rtrancl_into_rtrancl)
  have "b_config (snd (initialize b0)) = demo_config\<lparr>sc_initial_cash := 1000\<rparr>"
    unfolding b0(2) [symmetric] by code_simp
  then have "\<not> sc_allow_short (b_config b0)" by (simp add: initialize_def demo_config_def)
  from whole_shares_never_short [OF b0(1) this run p(1,2)] p show ?thesis by blast
qed

end
