(* ===== verification/RoundTrips.thy ===== *)
theory RoundTrips
  imports Domain "HOL-Library.Multiset" "HOL-Library.Product_Lexorder" "HOL-Library.List_Lexorder"
    "HOL-Library.Char_ord"
begin

text \<open>
  \<open>src/trading_runtime/round_trips.py\<close>: first-in first-out pairing of executions into closed
  trades. \<open>lots\<close> and \<open>match_sequence\<close> are default dictionaries whose order is never
  observed, so they are total functions; the deque of an account and contract is a list,
  oldest lot first. \<open>uuid5(NAMESPACE_URL, _)\<close> is the parameter \<open>uuid\<close>.

  The specification of the whole routine is \<open>closed_quantity_is_min\<close>: whatever the pairing
  order, the quantity closed on a contract is the smaller of what was bought and what was
  sold.
\<close>

section \<open>The program\<close>

record Lot =
  lot_execution_id :: string
  lot_side :: string
  lot_quantity :: dec
  lot_price :: dec
  lot_commission_per_unit :: dec
  lot_opened_at :: utc
  lot_strategy_id :: string
  lot_strategy_revision :: int
  lot_run_id :: string
  lot_setup :: string
  lot_planned_risk :: "dec option"

type_synonym lot_key = "string \<times> int"
type_synonym match_counts = "string \<times> string \<Rightarrow> int"

definition commission_per_unit :: "Execution \<Rightarrow> dec" where
  "commission_per_unit e =
     (if ex_quantity e \<noteq> 0
      then dquo (case ex_commission e of None \<Rightarrow> 0 | Some c \<Rightarrow> c) (ex_quantity e) else 0)"

fun join_with :: "string \<Rightarrow> string list \<Rightarrow> string" where
  "join_with sep [] = []"
| "join_with sep [x] = x"
| "join_with sep (x # y # xs) = x @ sep @ join_with sep (y # xs)"

definition trade_name :: "Execution \<Rightarrow> Lot \<Rightarrow> int \<Rightarrow> string" where
  "trade_name e lot n =
     join_with '':'' [ex_account_id e, show_int (ic_conid (ex_instrument e)), lot_execution_id lot,
       ex_execution_id e, show_int n]"

definition closed_trade :: "(string \<Rightarrow> string) \<Rightarrow> Execution \<Rightarrow> Lot \<Rightarrow> dec \<Rightarrow> int \<Rightarrow> RoundTripTrade" where
  "closed_trade uuid e lot matched n =
     (let long = lot_side lot = ''BUY'';
          gross = (if long then dmul (dsub (ex_price e) (lot_price lot)) matched
                   else dmul (dsub (lot_price lot) (ex_price e)) matched);
          fees = dmul matched (dadd (lot_commission_per_unit lot) (commission_per_unit e))
      in \<lparr>rt_trade_id = uuid (trade_name e lot n), rt_account_id = ex_account_id e,
          rt_instrument = ex_instrument e, rt_opened_at = lot_opened_at lot,
          rt_closed_at = ex_source_event_time e, rt_quantity = matched,
          rt_entry_price = lot_price lot, rt_exit_price = ex_price e, rt_gross_pnl = gross,
          rt_fees = fees, rt_net_pnl = dsub gross fees,
          rt_side = (if long then ''LONG'' else ''SHORT''),
          rt_strategy_id = lot_strategy_id lot, rt_strategy_revision = lot_strategy_revision lot,
          rt_run_id = lot_run_id lot, rt_setup = lot_setup lot,
          rt_exit_reason = ex_exit_reason e, rt_mae = None, rt_mfe = None,
          rt_planned_risk = lot_planned_risk lot,
          rt_execution_ids = [lot_execution_id lot, ex_execution_id e]\<rparr>)"

text \<open>
  The \<open>while\<close> loop over the oldest lots of the other side: its variables are the quantity
  left, the deque, the counters and the trades so far.
\<close>

type_synonym match_state = "dec \<times> Lot list \<times> match_counts \<times> RoundTripTrade list"

fun can_match :: "Execution \<Rightarrow> match_state \<Rightarrow> bool" where
  "can_match e (remaining, [], seq, trades) = False"
| "can_match e (remaining, lot # queue, seq, trades) =
     (0 < remaining \<and> lot_side lot \<noteq> upper (ex_side e))"

fun match_step :: "(string \<Rightarrow> string) \<Rightarrow> Execution \<Rightarrow> match_state \<Rightarrow> match_state" where
  "match_step uuid e (remaining, [], seq, trades) = (remaining, [], seq, trades)"
| "match_step uuid e (remaining, lot # queue, seq, trades) =
     (let matched = min remaining (lot_quantity lot);
          key = (lot_execution_id lot, ex_execution_id e);
          seq' = seq(key := seq key + 1);
          lot' = lot\<lparr>lot_quantity := dsub (lot_quantity lot) matched\<rparr>
      in (dsub remaining matched, (if lot_quantity lot' \<le> 0 then queue else lot' # queue), seq',
          trades @ [closed_trade uuid e lot matched (seq' key)]))"

function match_lots :: "(string \<Rightarrow> string) \<Rightarrow> Execution \<Rightarrow> match_state \<Rightarrow> match_state" where
  "match_lots uuid e m =
     (if can_match e m then match_lots uuid e (match_step uuid e m) else m)"
  by pat_completeness auto

text \<open>Every iteration either uses up a lot or uses up the execution.\<close>

termination
proof (relation "measure (\<lambda>(u, e, r, q, s, t). 2 * length q + (if 0 < r then 1 else 0))", goal_cases)
  case (2 u e m)
  then obtain r lot q s t where "m = (r, lot # q, s, t)" "0 < r"
    by (cases "(e, m)" rule: can_match.cases) auto
  then show ?case by (auto simp: Let_def dsub_def min_def)
qed auto

declare match_lots.simps [simp del]

definition new_lot :: "Execution \<Rightarrow> dec \<Rightarrow> Lot" where
  "new_lot e remaining =
     \<lparr>lot_execution_id = ex_execution_id e, lot_side = upper (ex_side e),
      lot_quantity = remaining, lot_price = ex_price e,
      lot_commission_per_unit = commission_per_unit e,
      lot_opened_at = ex_source_event_time e, lot_strategy_id = ex_strategy_id e,
      lot_strategy_revision = ex_strategy_revision e, lot_run_id = ex_run_id e,
      lot_setup = ex_setup e, lot_planned_risk = ex_planned_risk e\<rparr>"

record PairingState =
  pair_lots :: "lot_key \<Rightarrow> Lot list"
  pair_counts :: match_counts
  pair_trades :: "RoundTripTrade list"

definition pairing_start :: PairingState where
  "pairing_start = \<lparr>pair_lots = (\<lambda>_. []), pair_counts = (\<lambda>_. 0), pair_trades = []\<rparr>"

definition execution_key :: "Execution \<Rightarrow> lot_key" where
  "execution_key e = (ex_account_id e, ic_conid (ex_instrument e))"

definition pair_execution :: "(string \<Rightarrow> string) \<Rightarrow> Execution \<Rightarrow> PairingState \<Rightarrow> PairingState" where
  "pair_execution uuid e s =
     (case match_lots uuid e (ex_quantity e, pair_lots s (execution_key e), pair_counts s, pair_trades s)
      of (remaining, queue, seq, trades) \<Rightarrow>
        \<lparr>pair_lots = (pair_lots s)(execution_key e :=
            if 0 < remaining then queue @ [new_lot e remaining] else queue),
         pair_counts = seq, pair_trades = trades\<rparr>)"

definition replay_order :: "Execution list \<Rightarrow> Execution list" where
  "replay_order = sort_key (\<lambda>e. (ex_source_event_time e, ex_execution_id e))"

definition pair_executions :: "(string \<Rightarrow> string) \<Rightarrow> Execution list \<Rightarrow> PairingState" where
  "pair_executions uuid es = fold (pair_execution uuid) es pairing_start"

definition derive_round_trip_trades ::
  "(string \<Rightarrow> string) \<Rightarrow> Execution list \<Rightarrow> RoundTripTrade list" where
  "derive_round_trip_trades uuid es = pair_trades (pair_executions uuid (replay_order es))"


section \<open>The matching loop\<close>

lemma match_lots_rule:
  assumes "J m" and "\<And>m. J m \<Longrightarrow> can_match e m \<Longrightarrow> J (match_step uuid e m)"
  shows "J (match_lots uuid e m) \<and> \<not> can_match e (match_lots uuid e m)"
  using assms
proof (induction uuid e m rule: match_lots.induct)
  case (1 uuid e m)
  show ?case
  proof (cases "can_match e m")
    case True
    have "J (match_step uuid e m)" by (rule "1.prems"(2) [OF "1.prems"(1) True])
    from "1.IH" [OF True this "1.prems"(2)] True show ?thesis by (simp add: match_lots.simps [of uuid e m])
  qed (simp add: match_lots.simps [of uuid e m] "1.prems"(1))
qed

lemma can_match_cases:
  assumes "can_match e m"
  obtains r lot q s t where "m = (r, lot # q, s, t)" "0 < r" "lot_side lot \<noteq> upper (ex_side e)"
  using assms by (cases "(e, m)" rule: can_match.cases) auto

text \<open>
  Quantities of at most eight decimals below \<open>10 ^ 20\<close>: on them the decimal context never
  rounds, which is what the bookkeeping below needs.
\<close>

definition on_grid :: "dec \<Rightarrow> bool" where
  "on_grid q \<longleftrightarrow> 0 \<le> q \<and> q \<le> 10 ^ 20 \<and> q * 10 ^ 8 = of_int \<lfloor>q * 10 ^ 8\<rfloor>"

lemma on_grid_iff: "on_grid q \<longleftrightarrow> (\<exists>n. 0 \<le> n \<and> n \<le> 10 ^ 28 \<and> q = of_int n / 10 ^ 8)"
proof
  assume q: "on_grid q"
  then have "0 \<le> q * 10 ^ 8" "q * 10 ^ 8 \<le> 10 ^ 28" by (auto simp: on_grid_def)
  then have "0 \<le> \<lfloor>q * 10 ^ 8\<rfloor>" "\<lfloor>q * 10 ^ 8\<rfloor> \<le> 10 ^ 28" by (auto simp: floor_le_iff)
  moreover have "q = of_int \<lfloor>q * 10 ^ 8\<rfloor> / 10 ^ 8" using q by (simp add: on_grid_def field_simps)
  ultimately show "\<exists>n. 0 \<le> n \<and> n \<le> 10 ^ 28 \<and> q = of_int n / 10 ^ 8" by blast
next
  assume "\<exists>n. 0 \<le> n \<and> n \<le> 10 ^ 28 \<and> q = of_int n / 10 ^ 8"
  then obtain n where n: "0 \<le> n" "n \<le> 10 ^ 28" "q = of_int n / 10 ^ 8" by blast
  from n(2) have "(of_int n :: rat) \<le> of_int (10 ^ 28)" by (simp only: of_int_le_iff)
  then have "(of_int n :: rat) \<le> 10 ^ 28" by simp
  with n show "on_grid q" by (simp add: on_grid_def field_simps)
qed

lemma on_grid_is_dec:
  assumes "on_grid q"
  shows "is_dec q"
proof -
  from assms obtain n where n: "0 \<le> n" "n \<le> 10 ^ 28" "q = of_int n / 10 ^ 8"
    unfolding on_grid_iff by blast
  have "q = of_int n * of_int 10 powi (- 8)" by (simp add: n(3) power_int_def field_simps)
  moreover have "\<bar>n\<bar> \<le> 10 ^ nat 28" using n(1,2) by (simp only: abs_of_nonneg nat_numeral)
  ultimately show ?thesis unfolding is_dec_def is_sig_def by (intro exI [of _ n] exI [of _ "- 8"]) simp
qed

lemma dsub_on_grid:
  assumes "on_grid x" "on_grid y" "y \<le> x"
  shows "on_grid (x - y)" "dsub x y = x - y"
proof -
  from assms obtain m n where mn: "x = of_int m / 10 ^ 8" "y = of_int n / 10 ^ 8"
    "m \<le> 10 ^ 28" "0 \<le> n" by (auto simp: on_grid_iff)
  with assms(3) have "n \<le> m" by (simp add: divide_le_cancel)
  with mn have "0 \<le> m - n \<and> m - n \<le> 10 ^ 28 \<and> x - y = of_int (m - n) / 10 ^ 8"
    by (simp add: diff_divide_distrib)
  then show *: "on_grid (x - y)" unfolding on_grid_iff by blast
  then show "dsub x y = x - y" by (simp add: dsub_def dr_exact on_grid_is_dec)
qed

definition lots_of :: "string \<Rightarrow> Lot list \<Rightarrow> dec" where
  "lots_of side q = sum_list (map lot_quantity (filter (\<lambda>l. lot_side l = side) q))"

definition trade_key :: "RoundTripTrade \<Rightarrow> lot_key" where
  "trade_key t = (rt_account_id t, ic_conid (rt_instrument t))"

definition closed_quantity :: "lot_key \<Rightarrow> RoundTripTrade list \<Rightarrow> dec" where
  "closed_quantity k ts = sum_list (map rt_quantity (filter (\<lambda>t. trade_key t = k) ts))"

lemma lots_of_simps [simp]:
  "lots_of side [] = 0"
  "lots_of side (l # q) = (if lot_side l = side then lot_quantity l else 0) + lots_of side q"
  "lots_of side (p @ q) = lots_of side p + lots_of side q"
  by (simp_all add: lots_of_def)

lemma closed_quantity_append [simp]:
  "closed_quantity k (ts @ us) = closed_quantity k ts + closed_quantity k us"
  by (simp add: closed_quantity_def)

lemma closed_quantity_trade [simp]:
  "closed_quantity k [closed_trade uuid e lot m n] = (if k = execution_key e then m else 0)"
  by (auto simp: closed_quantity_def trade_key_def execution_key_def closed_trade_def Let_def)

text \<open>A deque holds positive quantities of one side only.\<close>

definition good_queue :: "Lot list \<Rightarrow> bool" where
  "good_queue q \<longleftrightarrow> (\<forall>l \<in> set q. on_grid (lot_quantity l) \<and> 0 < lot_quantity l) \<and>
     (\<exists>side. \<forall>l \<in> set q. lot_side l = side)"

lemma good_queue_Nil [simp]: "good_queue []"
  by (simp add: good_queue_def)

lemma good_queue_Cons:
  "good_queue (l # q) \<longleftrightarrow> on_grid (lot_quantity l) \<and> 0 < lot_quantity l \<and> good_queue q \<and>
     (\<forall>k \<in> set q. lot_side k = lot_side l)"
  by (auto simp: good_queue_def)

lemma good_queue_one_side: "good_queue q \<Longrightarrow> side \<noteq> other \<Longrightarrow> lots_of side q = 0 \<or> lots_of other q = 0"
  by (induction q) (auto simp: good_queue_Cons lots_of_def filter_empty_conv)

lemma good_queue_nonneg: "good_queue q \<Longrightarrow> 0 \<le> lots_of side q"
  by (induction q) (auto simp: good_queue_Cons)

text \<open>What one iteration conserves: closed plus waiting plus still to match, on each side.\<close>

definition side_account :: "Execution \<Rightarrow> string \<Rightarrow> match_state \<Rightarrow> dec" where
  "side_account e side m = (case m of (r, q, s, t) \<Rightarrow>
     closed_quantity (execution_key e) t + lots_of side q + (if side = upper (ex_side e) then r else 0))"

definition loop_state :: "match_state \<Rightarrow> bool" where
  "loop_state m = (case m of (r, q, s, t) \<Rightarrow> on_grid r \<and> good_queue q \<and> set (map lot_side q) \<subseteq> {''BUY'', ''SELL''})"

lemma match_step_account:
  assumes m: "loop_state m" "can_match e m" and e: "upper (ex_side e) \<in> {''BUY'', ''SELL''}"
  shows "loop_state (match_step uuid e m)"
    and "side \<in> {''BUY'', ''SELL''} \<Longrightarrow> side_account e side (match_step uuid e m) = side_account e side m"
    and "k \<noteq> execution_key e \<Longrightarrow>
      closed_quantity k (snd (snd (snd (match_step uuid e m)))) = closed_quantity k (snd (snd (snd m)))"
proof -
  from m(2) obtain r lot q s t where M: "m = (r, lot # q, s, t)" "0 < r" "lot_side lot \<noteq> upper (ex_side e)"
    by (rule can_match_cases)
  define k where "k = min r (lot_quantity lot)"
  have g: "on_grid r" "on_grid (lot_quantity lot)" "0 < lot_quantity lot" "good_queue q"
    "\<forall>l \<in> set q. lot_side l = lot_side lot" "lot_side lot \<in> {''BUY'', ''SELL''}"
    using m(1) by (auto simp: loop_state_def M good_queue_Cons)
  have gk: "on_grid k" "k \<le> r" "k \<le> lot_quantity lot" using g by (auto simp: k_def min_def)
  note sub = dsub_on_grid [OF g(1) gk(1,2)] dsub_on_grid [OF g(2) gk(1,3)]
  have le: "lot_quantity lot - k \<le> 0 \<longleftrightarrow> k = lot_quantity lot" using gk by auto
  show "loop_state (match_step uuid e m)"
    using m(1) sub gk g by (auto simp: loop_state_def M Let_def good_queue_Cons simp flip: k_def)
  have "side = lot_side lot \<or> side = upper (ex_side e)" if "side \<in> {''BUY'', ''SELL''}"
    using that g(6) e M(3) by auto
  then show "side_account e side (match_step uuid e m) = side_account e side m"
    if "side \<in> {''BUY'', ''SELL''}"
    using that M(3) le by (auto simp: side_account_def M Let_def sub simp flip: k_def)
  show "closed_quantity k' (snd (snd (snd (match_step uuid e m)))) = closed_quantity k' (snd (snd (snd m)))"
    if "k' \<noteq> execution_key e" for k'
    using that by (simp add: M Let_def)
qed

section \<open>The closed quantity\<close>

definition side_quantity :: "string \<Rightarrow> lot_key \<Rightarrow> Execution list \<Rightarrow> dec" where
  "side_quantity side k es =
     sum_list (map ex_quantity (filter (\<lambda>e. execution_key e = k \<and> upper (ex_side e) = side) es))"

lemma side_quantity_simps [simp]:
  "side_quantity side k [] = 0"
  "side_quantity side k (e # es) =
     (if execution_key e = k \<and> upper (ex_side e) = side then ex_quantity e else 0) + side_quantity side k es"
  "side_quantity side k (ds @ es) = side_quantity side k ds + side_quantity side k es"
  by (simp_all add: side_quantity_def)

definition tradable :: "Execution \<Rightarrow> bool" where
  "tradable e \<longleftrightarrow> upper (ex_side e) \<in> {''BUY'', ''SELL''} \<and> on_grid (ex_quantity e)"

definition balanced_at :: "lot_key \<Rightarrow> Execution list \<Rightarrow> Lot list \<Rightarrow> RoundTripTrade list \<Rightarrow> bool" where
  "balanced_at k es q ts \<longleftrightarrow>
     good_queue q \<and> set (map lot_side q) \<subseteq> {''BUY'', ''SELL''} \<and>
     (\<forall>side \<in> {''BUY'', ''SELL''}. side_quantity side k es = closed_quantity k ts + lots_of side q)"

definition balanced :: "Execution list \<Rightarrow> PairingState \<Rightarrow> bool" where
  "balanced es s \<longleftrightarrow> (\<forall>k. balanced_at k es (pair_lots s k) (pair_trades s))"

lemma balanced_start: "balanced [] pairing_start"
  by (simp add: balanced_def balanced_at_def pairing_start_def closed_quantity_def)

lemma pair_execution_balanced:
  assumes b: "balanced es s" and e: "tradable e"
  shows "balanced (es @ [e]) (pair_execution uuid e s)"
proof -
  define k where "k = execution_key e"
  define m0 where "m0 = (ex_quantity e, pair_lots s k, pair_counts s, pair_trades s)"
  have sides: "upper (ex_side e) \<in> {''BUY'', ''SELL''}" using e by (simp add: tradable_def)
  have bk: "good_queue (pair_lots s k)" "set (map lot_side (pair_lots s k)) \<subseteq> {''BUY'', ''SELL''}"
    "\<And>side. side \<in> {''BUY'', ''SELL''} \<Longrightarrow>
       side_quantity side k es = closed_quantity k (pair_trades s) + lots_of side (pair_lots s k)"
    using b unfolding balanced_def balanced_at_def by blast+
  let ?J = "\<lambda>m. loop_state m \<and> (\<forall>side \<in> {''BUY'', ''SELL''}. side_account e side m = side_account e side m0) \<and>
    (\<forall>j. j \<noteq> k \<longrightarrow> closed_quantity j (snd (snd (snd m))) = closed_quantity j (pair_trades s))"
  have "?J m0" using bk e by (simp add: m0_def loop_state_def tradable_def)
  moreover have "?J (match_step uuid e m)" if "?J m" "can_match e m" for m
    using that match_step_account [of m e] sides by (simp add: k_def)
  ultimately have J: "?J (match_lots uuid e m0)" "\<not> can_match e (match_lots uuid e m0)"
    using match_lots_rule [of ?J m0 e uuid] by blast+
  obtain r q c t where m: "match_lots uuid e m0 = (r, q, c, t)" by (cases "match_lots uuid e m0") auto
  have r: "on_grid r" and q: "good_queue q" "set (map lot_side q) \<subseteq> {''BUY'', ''SELL''}"
    and others: "\<And>j. j \<noteq> k \<Longrightarrow> closed_quantity j t = closed_quantity j (pair_trades s)"
    using J(1) by (auto simp: m loop_state_def)
  have acc: "closed_quantity k t + lots_of side q + (if side = upper (ex_side e) then r else 0) =
      side_quantity side k (es @ [e])" if "side \<in> {''BUY'', ''SELL''}" for side
  proof -
    have "side_account e side (match_lots uuid e m0) = side_account e side m0" using J(1) that by blast
    then have "side_account e side (r, q, c, t) = side_account e side m0" by (simp only: m)
    then show ?thesis using bk(3) [OF that] by (simp add: m0_def side_account_def k_def)
  qed
  have same: "\<forall>l \<in> set q. lot_side l = upper (ex_side e)" if "0 < r"
    using J(2) that q(1) by (cases q) (auto simp: m good_queue_Cons)
  define q' where "q' = (if 0 < r then q @ [new_lot e r] else q)"
  have "good_queue q' \<and> set (map lot_side q') \<subseteq> {''BUY'', ''SELL''}"
    using r q same sides by (auto simp: good_queue_def new_lot_def q'_def)
  moreover have "side_quantity side k (es @ [e]) = closed_quantity k t + lots_of side q'"
    if "side \<in> {''BUY'', ''SELL''}" for side
    using acc [OF that] r by (auto simp: new_lot_def on_grid_def q'_def)
  ultimately have "balanced_at k (es @ [e]) q' t" unfolding balanced_at_def by blast
  moreover have "balanced_at j (es @ [e]) (pair_lots s j) t" if "j \<noteq> k" for j
  proof -
    have "balanced_at j es (pair_lots s j) (pair_trades s)" using b unfolding balanced_def ..
    with others [OF that] that show ?thesis by (simp add: balanced_at_def k_def)
  qed
  moreover have "pair_execution uuid e s = \<lparr>pair_lots = (pair_lots s)(k := q'), pair_counts = c, pair_trades = t\<rparr>"
    using m by (simp add: pair_execution_def k_def m0_def q'_def)
  ultimately show ?thesis by (simp add: balanced_def del: split_paired_All)
qed

lemma pair_executions_balanced:
  "\<forall>e \<in> set es. tradable e \<Longrightarrow> balanced es (pair_executions uuid es)"
proof (induction es rule: rev_induct)
  case (snoc e es)
  then show ?case
    using pair_execution_balanced [of es "pair_executions uuid es" e uuid] by (simp add: pair_executions_def)
qed (simp add: pair_executions_def balanced_start)

lemma side_quantity_mset: "mset ds = mset es \<Longrightarrow> side_quantity side k ds = side_quantity side k es"
proof -
  have "side_quantity side k es = sum_mset (image_mset ex_quantity (filter_mset (\<lambda>e. execution_key e = k \<and> upper (ex_side e) = side) (mset es)))" for es
    by (simp add: side_quantity_def flip: sum_mset_sum_list mset_filter)
  then show "mset ds = mset es \<Longrightarrow> ?thesis" by simp
qed

text \<open>
  C10. FIFO pairing closes on every account and contract exactly the smaller of the quantity
  bought and the quantity sold there, for executions whose quantities have at most eight
  decimals.
\<close>

theorem closed_quantity_is_min:
  assumes "\<forall>e \<in> set es. tradable e"
  shows "closed_quantity k (derive_round_trip_trades uuid es) =
    min (side_quantity ''BUY'' k es) (side_quantity ''SELL'' k es)"
proof -
  define s where "s = pair_executions uuid (replay_order es)"
  have "balanced (replay_order es) s"
    unfolding s_def using assms by (intro pair_executions_balanced) (simp add: replay_order_def)
  then have q: "good_queue (pair_lots s k)"
    "\<And>side. side \<in> {''BUY'', ''SELL''} \<Longrightarrow>
       side_quantity side k (replay_order es) = closed_quantity k (pair_trades s) + lots_of side (pair_lots s k)"
    unfolding balanced_def balanced_at_def by blast+
  have es: "side_quantity side k (replay_order es) = side_quantity side k es" for side
    by (rule side_quantity_mset) (simp add: replay_order_def)
  have "lots_of ''BUY'' (pair_lots s k) = 0 \<or> lots_of ''SELL'' (pair_lots s k) = 0"
    by (rule good_queue_one_side [OF q(1)]) simp
  with q(2) [of "''BUY''"] q(2) [of "''SELL''"]
    good_queue_nonneg [OF q(1), of "''BUY''"] good_queue_nonneg [OF q(1), of "''SELL''"] show ?thesis
    by (auto simp: derive_round_trip_trades_def es min_def simp flip: s_def)
qed

section \<open>Order and provenance of the trades\<close>

definition trades_of :: "lot_key \<Rightarrow> RoundTripTrade list \<Rightarrow> RoundTripTrade list" where
  "trades_of k ts = filter (\<lambda>t. trade_key t = k) ts"

text \<open>A trade that pairs two executions of opposite sides, the earlier one being the entry.\<close>

definition traced :: "(string \<Rightarrow> string) \<Rightarrow> Execution list \<Rightarrow> RoundTripTrade \<Rightarrow> bool" where
  "traced uuid es t \<longleftrightarrow> (\<exists>entry \<in> set es. \<exists>exit \<in> set es. \<exists>q n.
     execution_key entry = execution_key exit \<and> upper (ex_side entry) \<noteq> upper (ex_side exit) \<and>
     ex_source_event_time entry \<le> ex_source_event_time exit \<and> 0 < rt_quantity t \<and>
     t = closed_trade uuid exit (new_lot entry q) (rt_quantity t) n)"

definition lot_from :: "lot_key \<Rightarrow> Execution list \<Rightarrow> Lot \<Rightarrow> bool" where
  "lot_from k es l \<longleftrightarrow> 0 < lot_quantity l \<and> (\<exists>e \<in> set es. execution_key e = k \<and> l = new_lot e (lot_quantity l))"

definition fifo_at ::
  "(string \<Rightarrow> string) \<Rightarrow> Execution list \<Rightarrow> utc \<Rightarrow> lot_key \<Rightarrow> Lot list \<Rightarrow> RoundTripTrade list \<Rightarrow> bool" where
  "fifo_at uuid es now k q ts \<longleftrightarrow>
     sorted (map rt_opened_at (trades_of k ts) @ map lot_opened_at q) \<and>
     sorted (map rt_closed_at (trades_of k ts)) \<and>
     (\<forall>l \<in> set q. lot_opened_at l \<le> now \<and> lot_from k es l) \<and>
     (\<forall>t \<in> set (trades_of k ts). rt_closed_at t \<le> now \<and> traced uuid es t)"

lemma trades_of_append [simp]: "trades_of k (ts @ us) = trades_of k ts @ trades_of k us"
  by (simp add: trades_of_def)

lemma trades_of_trade [simp]:
  "trades_of k [closed_trade uuid e lot m n] =
     (if k = execution_key e then [closed_trade uuid e lot m n] else [])"
  by (auto simp: trades_of_def trade_key_def execution_key_def closed_trade_def Let_def)

lemma closed_trade_fields [simp]:
  "rt_opened_at (closed_trade uuid e l m n) = lot_opened_at l"
  "rt_closed_at (closed_trade uuid e l m n) = ex_source_event_time e"
  "rt_quantity (closed_trade uuid e l m n) = m"
  by (simp_all add: closed_trade_def Let_def)

lemma new_lot_fields [simp]:
  "lot_opened_at (new_lot e x) = ex_source_event_time e" "lot_side (new_lot e x) = upper (ex_side e)"
  "lot_quantity (new_lot e x) = x" "lot_execution_id (new_lot e x) = ex_execution_id e"
  "(new_lot e x)\<lparr>lot_quantity := y\<rparr> = new_lot e y"
  by (simp_all add: new_lot_def)

lemma traced_times: "traced uuid es t \<Longrightarrow> rt_opened_at t \<le> rt_closed_at t"
  unfolding traced_def by (metis closed_trade_fields(1,2) new_lot_fields(1))

lemma fifo_at_later:
  "fifo_at uuid es now k q ts \<Longrightarrow> now \<le> later \<Longrightarrow> set es \<subseteq> set fs \<Longrightarrow> fifo_at uuid fs later k q ts"
  unfolding fifo_at_def traced_def lot_from_def by (meson order_trans subsetD)

lemma match_step_fifo:
  assumes m: "can_match e m" and f: "fifo_at uuid es (ex_source_event_time e) (execution_key e) (fst (snd m)) (snd (snd (snd m)))"
    and e: "e \<in> set es"
  shows "fifo_at uuid es (ex_source_event_time e) (execution_key e)
    (fst (snd (match_step uuid e m))) (snd (snd (snd (match_step uuid e m))))"
proof -
  from m obtain r l q s ts where M: "m = (r, l # q, s, ts)" "0 < r" "lot_side l \<noteq> upper (ex_side e)"
    by (rule can_match_cases)
  let ?k = "execution_key e"
  have l: "lot_opened_at l \<le> ex_source_event_time e" "lot_from ?k es l"
    and sl: "sorted (map rt_opened_at (trades_of ?k ts) @ lot_opened_at l # map lot_opened_at q)"
    and rest: "\<forall>l \<in> set q. lot_opened_at l \<le> ex_source_event_time e \<and> lot_from ?k es l"
    and closed: "sorted (map rt_closed_at (trades_of ?k ts))"
      "\<forall>t \<in> set (trades_of ?k ts). rt_closed_at t \<le> ex_source_event_time e \<and> traced uuid es t"
    using f by (simp_all add: fifo_at_def M)
  obtain d y where d: "d \<in> set es" "execution_key d = ?k" "l = new_lot d y" "0 < y"
    using l(2) by (auto simp: lot_from_def)
  define x where "x = min r (lot_quantity l)"
  define l' where "l' = l\<lparr>lot_quantity := dsub (lot_quantity l) x\<rparr>"
  define t where "t = closed_trade uuid e l x (s (lot_execution_id l, ex_execution_id e) + 1)"
  have x: "0 < x" using M(2) d(3,4) by (simp add: x_def)
  have "traced uuid es t"
    unfolding traced_def
    using d e M(3) l(1) x by (intro bexI [of _ d] bexI [of _ e] exI) (auto simp: t_def)
  moreover have "lot_from ?k es l'" if "0 < lot_quantity l'"
    using d that by (auto simp: lot_from_def l'_def)
  moreover have "lot_opened_at l' = lot_opened_at l" by (simp add: l'_def)
  moreover have "match_step uuid e m = (dsub r x, (if lot_quantity l' \<le> 0 then q else l' # q),
      s((lot_execution_id l, ex_execution_id e) := s (lot_execution_id l, ex_execution_id e) + 1), ts @ [t])"
    by (simp add: M Let_def x_def l'_def t_def)
  moreover have "rt_opened_at t = lot_opened_at l" "rt_closed_at t = ex_source_event_time e"
    "trades_of ?k [t] = [t]" by (simp_all add: t_def)
  ultimately show ?thesis
    using sl rest closed l(1) by (simp add: fifo_at_def sorted_append not_le)
qed

lemma match_step_other:
  "can_match e m \<Longrightarrow> k \<noteq> execution_key e \<Longrightarrow>
   trades_of k (snd (snd (snd (match_step uuid e m)))) = trades_of k (snd (snd (snd m)))"
  by (erule can_match_cases) (simp add: Let_def)

definition fifo :: "(string \<Rightarrow> string) \<Rightarrow> Execution list \<Rightarrow> utc \<Rightarrow> PairingState \<Rightarrow> bool" where
  "fifo uuid es now s \<longleftrightarrow> (\<forall>k. fifo_at uuid es now k (pair_lots s k) (pair_trades s))"

lemma pair_execution_fifo:
  assumes f: "fifo uuid es now s" and now: "now \<le> ex_source_event_time e"
  shows "fifo uuid (es @ [e]) (ex_source_event_time e) (pair_execution uuid e s)"
proof -
  define k where "k = execution_key e"
  define m0 where "m0 = (ex_quantity e, pair_lots s k, pair_counts s, pair_trades s)"
  have later: "fifo_at uuid (es @ [e]) (ex_source_event_time e) j (pair_lots s j) (pair_trades s)" for j
  proof -
    have "fifo_at uuid es now j (pair_lots s j) (pair_trades s)" using f unfolding fifo_def ..
    then show ?thesis by (rule fifo_at_later) (use now in auto)
  qed
  let ?J = "\<lambda>m. fifo_at uuid (es @ [e]) (ex_source_event_time e) k (fst (snd m)) (snd (snd (snd m))) \<and>
    (\<forall>j. j \<noteq> k \<longrightarrow> trades_of j (snd (snd (snd m))) = trades_of j (pair_trades s))"
  have "?J m0" using later by (simp add: m0_def)
  moreover have "?J (match_step uuid e m)" if "?J m" "can_match e m" for m
    using that match_step_fifo [of e m uuid "es @ [e]"] by (simp add: k_def match_step_other)
  ultimately have J: "?J (match_lots uuid e m0)" using match_lots_rule [of ?J m0 e uuid] by blast
  obtain r q c t where m: "match_lots uuid e m0 = (r, q, c, t)" by (cases "match_lots uuid e m0") auto
  have q: "fifo_at uuid (es @ [e]) (ex_source_event_time e) k q t"
    and others: "\<And>j. j \<noteq> k \<Longrightarrow> trades_of j t = trades_of j (pair_trades s)"
    using J by (auto simp: m)
  define q' where "q' = (if 0 < r then q @ [new_lot e r] else q)"
  have "\<forall>u \<in> set (trades_of k t). rt_opened_at u \<le> ex_source_event_time e"
    using q unfolding fifo_at_def by (meson order_trans traced_times)
  with q have "fifo_at uuid (es @ [e]) (ex_source_event_time e) k q' t"
    by (auto simp: fifo_at_def sorted_append lot_from_def k_def q'_def)
  moreover have "fifo_at uuid (es @ [e]) (ex_source_event_time e) j (pair_lots s j) t" if "j \<noteq> k" for j
    using later [of j] others [OF that] by (simp add: fifo_at_def)
  moreover have "pair_execution uuid e s = \<lparr>pair_lots = (pair_lots s)(k := q'), pair_counts = c, pair_trades = t\<rparr>"
    using m by (simp add: pair_execution_def k_def m0_def q'_def)
  ultimately show ?thesis by (simp add: fifo_def del: split_paired_All)
qed

lemma pair_executions_fifo:
  "sorted (map ex_source_event_time es) \<Longrightarrow> \<forall>e \<in> set es. ex_source_event_time e \<le> now \<Longrightarrow>
   fifo uuid es now (pair_executions uuid es)"
proof (induction es arbitrary: now rule: rev_induct)
  case Nil
  then show ?case by (simp add: pair_executions_def fifo_def fifo_at_def pairing_start_def trades_of_def)
next
  case (snoc e es)
  then have "fifo uuid es (ex_source_event_time e) (pair_executions uuid es)"
    by (simp add: sorted_append)
  then have "fifo uuid (es @ [e]) (ex_source_event_time e) (pair_executions uuid (es @ [e]))"
    using pair_execution_fifo by (simp add: pair_executions_def)
  with snoc.prems show ?case
    unfolding fifo_def by (auto intro: fifo_at_later simp del: split_paired_All)
qed

lemma replay_order_sorted: "sorted (map ex_source_event_time (replay_order es))"
proof -
  have "sorted (map (\<lambda>e. (ex_source_event_time e, ex_execution_id e)) (replay_order es))"
    by (simp add: replay_order_def)
  then show ?thesis
    by (simp add: sorted_map less_eq_prod_def) (auto elim: sorted_wrt_mono_rel [rotated])
qed

lemma derived_fifo: "\<exists>now q. fifo_at uuid es now k q (derive_round_trip_trades uuid es)"
proof -
  let ?now = "Max (insert 0 (ex_source_event_time ` set es))"
  have "fifo uuid (replay_order es) ?now (pair_executions uuid (replay_order es))"
    by (intro pair_executions_fifo replay_order_sorted) (simp add: replay_order_def)
  then have "fifo_at uuid es ?now k (pair_lots (pair_executions uuid (replay_order es)) k)
      (derive_round_trip_trades uuid es)"
    unfolding fifo_def derive_round_trip_trades_def
    by (elim allE [of _ k]) (erule fifo_at_later, simp_all add: replay_order_def)
  then show ?thesis by blast
qed

text \<open>
  C12. The trades of a contract come out first in, first out: opening times and closing times
  both never decrease along the list.
\<close>

theorem round_trips_first_in_first_out:
  "sorted (map rt_opened_at (trades_of k (derive_round_trip_trades uuid es))) \<and>
   sorted (map rt_closed_at (trades_of k (derive_round_trip_trades uuid es)))"
  using derived_fifo [of uuid es k] by (auto simp: fifo_at_def sorted_append)

text \<open>
  C11. Every trade pairs two of the given executions of one account and contract, on opposite
  sides and the entry not after the exit; its prices, times and direction are theirs, its
  quantity is positive and its net result is the gross result less both fees.
\<close>

theorem round_trip_pairs_executions:
  assumes "t \<in> set (derive_round_trip_trades uuid es)"
  shows "\<exists>entry \<in> set es. \<exists>exit \<in> set es.
    execution_key entry = execution_key exit \<and> trade_key t = execution_key entry \<and>
    upper (ex_side entry) \<noteq> upper (ex_side exit) \<and>
    rt_side t = (if upper (ex_side entry) = ''BUY'' then ''LONG'' else ''SHORT'') \<and>
    rt_opened_at t = ex_source_event_time entry \<and> rt_closed_at t = ex_source_event_time exit \<and>
    rt_opened_at t \<le> rt_closed_at t \<and> 0 < rt_quantity t \<and>
    rt_entry_price t = ex_price entry \<and> rt_exit_price t = ex_price exit \<and>
    rt_fees t = dmul (rt_quantity t) (dadd (commission_per_unit entry) (commission_per_unit exit)) \<and>
    rt_net_pnl t = dsub (rt_gross_pnl t) (rt_fees t) \<and>
    rt_execution_ids t = [ex_execution_id entry, ex_execution_id exit]"
proof -
  obtain now q where "fifo_at uuid es now (trade_key t) q (derive_round_trip_trades uuid es)"
    using derived_fifo by blast
  with assms have "traced uuid es t" by (auto simp: fifo_at_def trades_of_def)
  then obtain entry exit x n where t: "entry \<in> set es" "exit \<in> set es"
    "execution_key entry = execution_key exit" "upper (ex_side entry) \<noteq> upper (ex_side exit)"
    "ex_source_event_time entry \<le> ex_source_event_time exit" "0 < rt_quantity t"
    "t = closed_trade uuid exit (new_lot entry x) (rt_quantity t) n" unfolding traced_def by blast
  from t(3,7) have "trade_key t = execution_key entry"
    by (metis closed_quantity_trade execution_key_def trade_key_def closed_trade_def RoundTripTrade.select_convs(2,3))
  moreover have "rt_side t = (if upper (ex_side entry) = ''BUY'' then ''LONG'' else ''SHORT'') \<and>
    rt_opened_at t = ex_source_event_time entry \<and> rt_closed_at t = ex_source_event_time exit \<and>
    rt_entry_price t = ex_price entry \<and> rt_exit_price t = ex_price exit \<and>
    rt_fees t = dmul (rt_quantity t) (dadd (commission_per_unit entry) (commission_per_unit exit)) \<and>
    rt_net_pnl t = dsub (rt_gross_pnl t) (rt_fees t) \<and>
    rt_execution_ids t = [ex_execution_id entry, ex_execution_id exit]"
    by (subst (1 2 3 4 5 6 8 9 10 11) t(7)) (simp add: closed_trade_def new_lot_def Let_def)
  ultimately show ?thesis using t(1-6) by (intro bexI [of _ entry] bexI [of _ exit]) auto
qed

section \<open>One contract at a time\<close>

text \<open>
  The pairing of one account and contract next to the pairing of all of them: the same deque and
  the same trades. Only the number in a trade's name may differ, as the counters are shared by
  everything that uses the same pair of execution ids.
\<close>

definition unnamed :: "RoundTripTrade \<Rightarrow> RoundTripTrade" where
  "unnamed t = t\<lparr>rt_trade_id := []\<rparr>"

definition same_pairing :: "lot_key \<Rightarrow> Lot list \<times> RoundTripTrade list \<Rightarrow> Lot list \<times> RoundTripTrade list \<Rightarrow> bool" where
  "same_pairing k s s' \<longleftrightarrow> fst s = fst s' \<and> map unnamed (trades_of k (snd s)) = map unnamed (snd s')"

lemma unnamed_closed [simp]: "unnamed (closed_trade uuid e lot m n) = unnamed (closed_trade uuid e lot m n')"
  by (simp add: unnamed_def closed_trade_def Let_def)

lemma match_lots_same:
  assumes "map unnamed (trades_of (execution_key e) ts) = map unnamed us"
  shows "\<exists>r' q' c' d' ts' us'. match_lots uuid e (r, q, c, ts) = (r', q', c', ts') \<and>
    match_lots uuid e (r, q, d, us) = (r', q', d', us') \<and>
    map unnamed (trades_of (execution_key e) ts') = map unnamed us'"
  using assms
proof (induction uuid e "(r, q, c, ts)" arbitrary: r q c d ts us rule: match_lots.induct)
  case (1 uuid e)
  show ?case
  proof (cases "can_match e (r, q, c, ts)")
    case False
    moreover from False have "\<not> can_match e (r, q, d, us)" by (cases q) simp_all
    ultimately show ?thesis using 1(2) by (simp add: match_lots.simps [of _ _ "(r, q, _, _)"])
  next
    case True
    then obtain lot rest where q: "q = lot # rest" by (cases q) auto
    define m where "m = min r (lot_quantity lot)"
    obtain r1 q1 c1 ts1 where one: "match_step uuid e (r, q, c, ts) = (r1, q1, c1, ts1)"
      by (cases "match_step uuid e (r, q, c, ts)") auto
    obtain d1 us1 where two: "match_step uuid e (r, q, d, us) = (r1, q1, d1, us1)"
      and same: "map unnamed (trades_of (execution_key e) ts1) = map unnamed us1"
      using one 1(2) by (fastforce simp: q Let_def intro: unnamed_closed)
    from True have "can_match e (r, q, d, us)" by (simp add: q)
    with two have "match_lots uuid e (r, q, d, us) = match_lots uuid e (r1, q1, d1, us1)"
      by (simp add: match_lots.simps [of _ _ "(r, q, d, us)"])
    moreover from True one have "match_lots uuid e (r, q, c, ts) = match_lots uuid e (r1, q1, c1, ts1)"
      by (simp add: match_lots.simps [of _ _ "(r, q, c, ts)"])
    ultimately show ?thesis using 1(1) [OF True one same, of d1] by simp
  qed
qed

lemma match_lots_other:
  assumes "k \<noteq> execution_key e"
  shows "trades_of k (snd (snd (snd (match_lots uuid e m)))) = trades_of k (snd (snd (snd m)))"
  using match_lots_rule [of "\<lambda>n. trades_of k (snd (snd (snd n))) = trades_of k (snd (snd (snd m)))" m e uuid]
    match_step_other [OF _ assms] by metis

abbreviation pairing_at :: "lot_key \<Rightarrow> PairingState \<Rightarrow> Lot list \<times> RoundTripTrade list" where
  "pairing_at k s \<equiv> (pair_lots s k, pair_trades s)"

lemma pair_execution_same:
  assumes "same_pairing k (pairing_at k s) (pairing_at k s')"
  shows "same_pairing k (pairing_at k (pair_execution uuid e s))
    (pairing_at k (if execution_key e = k then pair_execution uuid e s' else s'))"
proof (cases "execution_key e = k")
  case True
  with assms match_lots_same [of e "pair_trades s" "pair_trades s'" uuid "ex_quantity e" "pair_lots s k" "pair_counts s" "pair_counts s'"]
  show ?thesis by (auto simp: same_pairing_def pair_execution_def)
next
  case False
  then have "k \<noteq> execution_key e" by simp
  from match_lots_other [OF this] False assms show ?thesis
    by (auto simp: same_pairing_def pair_execution_def split: prod.splits)
       (metis snd_conv)+
qed

lemma pair_executions_same:
  "same_pairing k (pairing_at k (pair_executions uuid es))
     (pairing_at k (pair_executions uuid (filter (\<lambda>e. execution_key e = k) es)))"
proof (induction es rule: rev_induct)
  case (snoc e es)
  from pair_execution_same [OF this, of uuid e] show ?case
    by (cases "execution_key e = k") (simp_all add: pair_executions_def)
qed (simp add: same_pairing_def pair_executions_def pairing_start_def trades_of_def)

text \<open>
  C13. Every account and contract is paired on its own: the trades of one among all the executions
  are, in the same order and in everything but the name, the trades derived from the executions
  of that account and contract alone.
\<close>

theorem round_trips_per_contract:
  "map unnamed (trades_of k (derive_round_trip_trades uuid es)) =
   map unnamed (derive_round_trip_trades uuid (filter (\<lambda>e. execution_key e = k) es))"
proof -
  have "replay_order (filter (\<lambda>e. execution_key e = k) es) = filter (\<lambda>e. execution_key e = k) (replay_order es)"
    by (simp add: replay_order_def filter_sort)
  then show ?thesis using pair_executions_same [of k uuid "replay_order es"]
    by (simp add: derive_round_trip_trades_def same_pairing_def)
qed

section \<open>A concrete day\<close>

definition demo_instrument :: InstrumentContract where
  "demo_instrument =
     \<lparr>ic_instrument_id = ''7'', ic_conid = 7, ic_symbol = ''ABC'', ic_security_type = ''STK'',
      ic_currency = ''USD'', ic_exchange = ''SMART'', ic_primary_exchange = ''NASDAQ'',
      ic_local_symbol = '''', ic_trading_class = '''', ic_multiplier = 1, ic_expiry = '''',
      ic_strike = None, ic_right = '''', ic_provider_ids = []\<rparr>"

definition demo_execution :: "string \<Rightarrow> string \<Rightarrow> dec \<Rightarrow> dec \<Rightarrow> utc \<Rightarrow> Execution" where
  "demo_execution i side q p t =
     \<lparr>ex_execution_id = i, ex_account_id = ''U1'', ex_instrument = demo_instrument, ex_side = side,
      ex_quantity = q, ex_price = p, ex_source_event_time = t, ex_broker_order_id = '''',
      ex_client_order_id = '''', ex_exchange = '''', ex_commission = Some 1, ex_commission_currency = '''',
      ex_commission_status = '''', ex_net_amount = None, ex_cumulative_quantity = None,
      ex_average_price = None, ex_liquidity = '''', ex_liquidation_trade = False,
      ex_strategy_id = '''', ex_strategy_revision = 0, ex_run_id = '''', ex_setup = '''',
      ex_exit_reason = '''', ex_signal_price = None, ex_arrival_midpoint = None,
      ex_planned_risk = None, ex_received_at = t, ex_raw = JNull\<rparr>"

definition demo_executions :: "Execution list" where
  "demo_executions =
     [demo_execution ''c'' ''SELL'' 7 (13 / 2) 30, demo_execution ''a'' ''buy'' 4 5 10,
      demo_execution ''b'' ''BUY'' 5 6 20]"

lemma demo_trades:
  "map (\<lambda>t. (rt_execution_ids t, rt_quantity t, rt_gross_pnl t)) (derive_round_trip_trades id demo_executions) =
     [([''a'', ''c''], 4, 6), ([''b'', ''c''], 3, 3 / 2)]"
  by code_simp

lemma demo_tradable: "\<forall>e \<in> set demo_executions. tradable e"
  by code_simp

theorem closed_quantity_is_min_witness:
  "closed_quantity (''U1'', 7) (derive_round_trip_trades id demo_executions) = 7"
  unfolding closed_quantity_is_min [OF demo_tradable] by code_simp

theorem round_trip_pairs_executions_witness:
  "\<exists>entry \<in> set demo_executions. \<exists>exit \<in> set demo_executions.
     rt_opened_at (hd (derive_round_trip_trades id demo_executions)) = ex_source_event_time entry \<and>
     rt_closed_at (hd (derive_round_trip_trades id demo_executions)) = ex_source_event_time exit"
proof -
  have "hd (derive_round_trip_trades id demo_executions) \<in> set (derive_round_trip_trades id demo_executions)"
    using demo_trades by (intro list.set_sel) auto
  from round_trip_pairs_executions [OF this] show ?thesis by blast
qed

end
