(* ===== verification/Payload.thy ===== *)
theory Payload
  imports Ibkr Calendar
begin

text \<open>
  Reading and writing stored payloads: the conversions Python applies to JSON-like values,
  keyword construction of a dataclass, and the facts that make round trips automatic.
\<close>

text \<open>\<open>Enum(value)\<close> looks a member up by its value.\<close>

definition enum_of :: "('e \<Rightarrow> string) \<Rightarrow> 'e list \<Rightarrow> string \<Rightarrow> 'e result" where
  "enum_of val xs s = (case find (\<lambda>x. val x = s) xs of
     Some x \<Rightarrow> Inr x | None \<Rightarrow> Inl (ValueError ''is not a valid enumeration value''))"

section \<open>Reading stored payloads\<close>

text \<open>
  A payload is JSON-like data. \<open>render\<close> is \<open>str\<close> on values that are not strings. A number
  stored in a field keeps its value; \<open>to_float\<close> and \<open>to_int\<close> are the calls \<open>float(v)\<close> and
  \<open>int(v)\<close> (digits with an optional sign, point and exponent; underscores and non-finite
  spellings are outside the model).
\<close>

definition str_of :: "(json \<Rightarrow> string) \<Rightarrow> json \<Rightarrow> string" where
  "str_of render v = (case v of JStr s \<Rightarrow> s | _ \<Rightarrow> render v)"

text \<open>\<open>str(v or d)\<close>.\<close>

definition str_or :: "(json \<Rightarrow> string) \<Rightarrow> json \<Rightarrow> string \<Rightarrow> string" where
  "str_or render v d = (if truthy v then str_of render v else d)"

definition signed_digits :: "string \<Rightarrow> int option" where
  "signed_digits s =
     (case s of
        [] \<Rightarrow> None
      | c # cs \<Rightarrow>
          if c = CHR ''-'' then (if cs = [] then None else map_option uminus (number_of cs 0))
          else if c = CHR ''+'' then (if cs = [] then None else number_of cs 0)
          else number_of s 0)"

definition is_digit :: "char \<Rightarrow> bool" where
  "is_digit c \<longleftrightarrow> digit_of c \<noteq> None"

definition unsigned_decimal :: "string \<Rightarrow> rat option" where
  "unsigned_decimal s =
     (let whole = takeWhile is_digit s; rest = dropWhile is_digit s;
          frac = (case rest of [] \<Rightarrow> [] | c # cs \<Rightarrow> if c = CHR ''.'' then takeWhile is_digit cs else []);
          tail = (case rest of [] \<Rightarrow> [] | c # cs \<Rightarrow> if c = CHR ''.'' then dropWhile is_digit cs else rest);
          ex = (case tail of [] \<Rightarrow> Some 0 | c # cs \<Rightarrow> if lower_char c = CHR ''e'' then signed_digits cs else None)
      in if whole @ frac = [] then None
         else case (number_of (whole @ frac) 0, ex) of
           (Some n, Some e) \<Rightarrow> Some (of_int n * 10 powi (e - int (length frac)))
         | _ \<Rightarrow> None)"

definition decimal_text :: "string \<Rightarrow> rat option" where
  "decimal_text s =
     (case s of
        [] \<Rightarrow> None
      | c # cs \<Rightarrow>
          if c = CHR ''-'' then map_option uminus (unsigned_decimal cs)
          else if c = CHR ''+'' then unsigned_decimal cs
          else unsigned_decimal s)"

definition to_float :: "json \<Rightarrow> f64 result" where
  "to_float v =
     (case v of
        JNum n \<Rightarrow> Inr (fl n)
      | JBool b \<Rightarrow> Inr (if b then 1 else 0)
      | JStr s \<Rightarrow> (case decimal_text (strip s) of
          Some n \<Rightarrow> Inr (fl n) | None \<Rightarrow> Inl (ValueError ''could not convert string to float''))
      | _ \<Rightarrow> Inl (PyTypeError ''float() argument must be a string or a real number''))"

definition to_int :: "json \<Rightarrow> int result" where
  "to_int v =
     (case v of
        JNum n \<Rightarrow> Inr (if 0 \<le> n then \<lfloor>n\<rfloor> else \<lceil>n\<rceil>)
      | JBool b \<Rightarrow> Inr (if b then 1 else 0)
      | JStr s \<Rightarrow> (case signed_digits (strip s) of
          Some n \<Rightarrow> Inr n | None \<Rightarrow> Inl (ValueError ''invalid literal for int()''))
      | _ \<Rightarrow> Inl (PyTypeError ''int() argument must be a string or a real number''))"

text \<open>\<open>int(v or d)\<close>.\<close>

definition int_or :: "json \<Rightarrow> int \<Rightarrow> int result" where
  "int_or v d = (if truthy v then to_int v else Inr d)"

text \<open>
  Keyword construction \<open>Class(**values)\<close>: an unknown key raises, a missing one takes the
  default. Fields annotated with a number hold a number: for any other value the comparison
  in \<open>__post_init__\<close> raises the TypeError; a field annotated \<open>str\<close> is read only as a string.
\<close>

definition fields_known :: "string list \<Rightarrow> json \<Rightarrow> bool" where
  "fields_known names v = (case v of JObj kvs \<Rightarrow> set (map fst kvs) \<subseteq> set names | _ \<Rightarrow> False)"

definition unexpected_keyword :: pyexc where
  "unexpected_keyword = PyTypeError ''got an unexpected keyword argument''"

definition has_key :: "json \<Rightarrow> string \<Rightarrow> bool" where
  "has_key v k = (case v of JObj kvs \<Rightarrow> map_of kvs k \<noteq> None | _ \<Rightarrow> False)"

definition number_value :: "json \<Rightarrow> rat result" where
  "number_value v =
     (case v of JNum n \<Rightarrow> Inr n | JBool b \<Rightarrow> Inr (if b then 1 else 0)
      | _ \<Rightarrow> Inl (PyTypeError ''not supported between instances''))"

definition number_field :: "json \<Rightarrow> string \<Rightarrow> rat \<Rightarrow> rat result" where
  "number_field v k d = (if has_key v k then number_value (jget v k) else Inr d)"

definition optional_field :: "json \<Rightarrow> string \<Rightarrow> rat option result" where
  "optional_field v k =
     (if jget v k = JNull then Inr None else bind_result (number_value (jget v k)) (\<lambda>n. Inr (Some n)))"

definition string_field :: "json \<Rightarrow> string \<Rightarrow> string \<Rightarrow> string result" where
  "string_field v k d =
     (if has_key v k
      then (case jget v k of JStr s \<Rightarrow> Inr s | _ \<Rightarrow> Inl (PyTypeError ''expected str''))
      else Inr d)"

text \<open>\<open>payload[key]\<close>.\<close>

definition item :: "json \<Rightarrow> string \<Rightarrow> json result" where
  "item v k = (if has_key v k then Inr (jget v k) else Inl (PyKeyError k))"

lemma bind_lift_simps [simp]:
  "str_of render (JStr s) = s" "number_value (JNum n) = Inr n" "number_value (JBool b) = Inr (if b then 1 else 0)"
  "to_float (JNum n) = Inr (fl n)" "to_int (JNum (of_int k)) = Inr k"
  by (simp_all add: str_of_def number_value_def to_float_def to_int_def)

text \<open>\<open>float(v) if v else None\<close>.\<close>

definition float_if :: "json \<Rightarrow> f64 option result" where
  "float_if v = (if truthy v then bind_result (to_float v) (\<lambda>x. Inr (Some x)) else Inr None)"

text \<open>\<open>dict(v or {})\<close> of a stored mapping.\<close>

definition dict_or :: "json \<Rightarrow> json" where
  "dict_or v = (if truthy v then v else JObj [])"

text \<open>\<open>float(v) if v is not None else None\<close>.\<close>

definition float_unless_none :: "json \<Rightarrow> f64 option result" where
  "float_unless_none v =
     (if v = JNull then Inr None else bind_result (to_float v) (\<lambda>x. Inr (Some x)))"

text \<open>Iterating over \<open>v or ()\<close>.\<close>

definition rows_of :: "json \<Rightarrow> json list result" where
  "rows_of v = (if \<not> truthy v then Inr []
     else case v of JArr xs \<Rightarrow> Inr xs | _ \<Rightarrow> Inl (PyTypeError ''object is not a list of mappings''))"

definition aware_value :: "(json \<Rightarrow> string) \<Rightarrow> json \<Rightarrow> datetime result" where
  "aware_value render v =
     bind_result (case v of JTime t \<Rightarrow> Inr t
       | _ \<Rightarrow> (case parse_iso (utc_suffix (str_of render v)) of
           Some t \<Rightarrow> Inr t | None \<Rightarrow> Inl (ValueError ''Invalid isoformat string''))) (\<lambda>parsed.
     if is_aware parsed then Inr parsed
     else Inl (ValueError ''must include a timezone''))"

section \<open>Writing\<close>

definition opt_num :: "rat option \<Rightarrow> json" where
  "opt_num x = (case x of None \<Rightarrow> JNull | Some n \<Rightarrow> JNum n)"

section \<open>What is written is read back\<close>

lemma jget_simps [simp]:
  "jget (JObj []) k = JNull" "jget (JObj ((j, v) # xs)) k = (if j = k then v else jget (JObj xs) k)"
  by auto

lemma has_key_simps [simp]:
  "\<not> has_key (JObj []) k" "has_key (JObj ((j, v) # xs)) k \<longleftrightarrow> j = k \<or> has_key (JObj xs) k"
  by (auto simp: has_key_def)

declare jget.simps(1) [simp del]

lemma optional_field_opt_num [simp]: "jget v k = opt_num x \<Longrightarrow> optional_field v k = Inr x"
  by (cases x) (simp_all add: optional_field_def opt_num_def)

lemma number_field_JNum [simp]: "has_key v k \<Longrightarrow> jget v k = JNum n \<Longrightarrow> number_field v k d = Inr n"
  by (simp add: number_field_def)

lemma str_or_JStr [simp]: "s \<noteq> [] \<Longrightarrow> str_or render (JStr s) d = s" "str_or render (JStr []) [] = []"
  by (simp_all add: str_or_def)

lemma str_or_same [simp]: "str_or render (JStr s) [] = s"
  by (cases "s = []") simp_all

lemma float_unless_none_opt_num:
  "\<forall>p. x = Some p \<longrightarrow> is_f64 p \<Longrightarrow> float_unless_none (opt_num x) = Inr x"
  by (cases x) (simp_all add: float_unless_none_def opt_num_def fl_exact)

lemma int_or_nonzero [simp]: "n \<noteq> 0 \<Longrightarrow> int_or (JNum (of_int n)) d = Inr n"
  by (simp add: int_or_def)

section \<open>Stored values as an interface\<close>

text \<open>
  What a client of a stored payload relies on: a storable value is read back from what was
  written. Lists of such values are then read back too, and different values are written
  differently.
\<close>

locale codec =
  fixes encode :: "'a \<Rightarrow> json" and decode :: "json \<Rightarrow> 'a result" and storable :: "'a \<Rightarrow> bool"
  assumes decode_encode: "storable x \<Longrightarrow> decode (encode x) = Inr x"
begin

lemma list_round_trip: "\<forall>x \<in> set xs. storable x \<Longrightarrow> map_result decode (map encode xs) = Inr xs"
  by (induction xs) (simp_all add: decode_encode)

lemma encode_inj: "storable x \<Longrightarrow> storable y \<Longrightarrow> encode x = encode y \<Longrightarrow> x = y"
  by (metis decode_encode sum.inject(2))

end

end
