(* ===== verification/ExecPolicy.thy ===== *)
theory ExecPolicy
  imports Payload
begin

text \<open>
  \<open>src/trading_runtime/execution_policies.py\<close>: the execution envelope and policy, protective
  stop rules, trailing rules, protection profiles, the execution market data, and the
  recovery of policies from their stored payload. Every dataclass is a record whose
  \<open>__post_init__\<close> is the function \<open>..._check\<close>; the checks keep the source's order.
\<close>

section \<open>Enumerations\<close>

datatype ExecutionPolicyName =
    XP_PASSIVE
  | XP_MIDPOINT
  | XP_ADAPTIVE_PATIENT
  | XP_ADAPTIVE_REGULAR
  | XP_ADAPTIVE_URGENT
  | XP_ADAPTIVE_VERY_URGENT
  | XP_IMMEDIATE_WITH_LIMIT
  | XP_IBKR_NATIVE_ADAPTIVE
  | XP_CANCEL_IF_NOT_FILLED

fun ExecutionPolicyName_value :: "ExecutionPolicyName \<Rightarrow> string" where
  "ExecutionPolicyName_value XP_PASSIVE = ''passive''"
| "ExecutionPolicyName_value XP_MIDPOINT = ''midpoint''"
| "ExecutionPolicyName_value XP_ADAPTIVE_PATIENT = ''adaptive_patient''"
| "ExecutionPolicyName_value XP_ADAPTIVE_REGULAR = ''adaptive_regular''"
| "ExecutionPolicyName_value XP_ADAPTIVE_URGENT = ''adaptive_urgent''"
| "ExecutionPolicyName_value XP_ADAPTIVE_VERY_URGENT = ''adaptive_very_urgent''"
| "ExecutionPolicyName_value XP_IMMEDIATE_WITH_LIMIT = ''immediate_with_limit''"
| "ExecutionPolicyName_value XP_IBKR_NATIVE_ADAPTIVE = ''ibkr_native_adaptive''"
| "ExecutionPolicyName_value XP_CANCEL_IF_NOT_FILLED = ''cancel_if_not_filled''"

datatype PartialFillPolicy =
    PF_COMPLETE_REMAINDER
  | PF_ACCEPT_PARTIAL
  | PF_CANCEL_REMAINDER

fun PartialFillPolicy_value :: "PartialFillPolicy \<Rightarrow> string" where
  "PartialFillPolicy_value PF_COMPLETE_REMAINDER = ''complete_remainder''"
| "PartialFillPolicy_value PF_ACCEPT_PARTIAL = ''accept_partial''"
| "PartialFillPolicy_value PF_CANCEL_REMAINDER = ''cancel_remainder''"

datatype StopRuleType =
    SR_FIXED_PRICE
  | SR_FIXED_PERCENT
  | SR_FIXED_BPS
  | SR_FIXED_CASH_RISK
  | SR_SWING_ANCHORED
  | SR_VOLATILITY
  | SR_HYBRID
  | SR_BREAKEVEN
  | SR_CATASTROPHIC

fun StopRuleType_value :: "StopRuleType \<Rightarrow> string" where
  "StopRuleType_value SR_FIXED_PRICE = ''fixed_price''"
| "StopRuleType_value SR_FIXED_PERCENT = ''fixed_percent''"
| "StopRuleType_value SR_FIXED_BPS = ''fixed_bps''"
| "StopRuleType_value SR_FIXED_CASH_RISK = ''fixed_cash_risk''"
| "StopRuleType_value SR_SWING_ANCHORED = ''swing_anchored''"
| "StopRuleType_value SR_VOLATILITY = ''volatility''"
| "StopRuleType_value SR_HYBRID = ''hybrid''"
| "StopRuleType_value SR_BREAKEVEN = ''breakeven''"
| "StopRuleType_value SR_CATASTROPHIC = ''catastrophic''"

datatype StopOrderType = SO_STOP | SO_STOP_LIMIT

fun StopOrderType_value :: "StopOrderType \<Rightarrow> string" where
  "StopOrderType_value SO_STOP = ''STP''"
| "StopOrderType_value SO_STOP_LIMIT = ''STOP_LIMIT''"

datatype TrailingRuleType =
    TR_NONE
  | TR_BROKER_AMOUNT
  | TR_BROKER_PERCENT
  | TR_VOLATILITY_TRAIL
  | TR_SWING_TRAIL
  | TR_CHANDELIER
  | TR_BREAKEVEN_THEN_TRAIL
  | TR_PROFIT_LOCK_R
  | TR_TIME_TIGHTENING

fun TrailingRuleType_value :: "TrailingRuleType \<Rightarrow> string" where
  "TrailingRuleType_value TR_NONE = ''none''"
| "TrailingRuleType_value TR_BROKER_AMOUNT = ''broker_amount''"
| "TrailingRuleType_value TR_BROKER_PERCENT = ''broker_percent''"
| "TrailingRuleType_value TR_VOLATILITY_TRAIL = ''volatility_trail''"
| "TrailingRuleType_value TR_SWING_TRAIL = ''swing_trail''"
| "TrailingRuleType_value TR_CHANDELIER = ''chandelier''"
| "TrailingRuleType_value TR_BREAKEVEN_THEN_TRAIL = ''breakeven_then_trail''"
| "TrailingRuleType_value TR_PROFIT_LOCK_R = ''profit_lock_r''"
| "TrailingRuleType_value TR_TIME_TIGHTENING = ''time_tightening''"

datatype ProfitPocketTransition =
    PT_KEEP_EXISTING
  | PT_MOVE_TO_BREAKEVEN
  | PT_LOCK_PROFIT_PRICE
  | PT_START_BROKER_TRAIL
  | PT_START_VOLATILITY_TRAIL
  | PT_START_SWING_TRAIL
  | PT_TIGHTEN_EXISTING
  | PT_REPLAN_REMAINING_SLICES
  | PT_FULL_EXIT_AND_OPTIONAL_REENTRY

fun ProfitPocketTransition_value :: "ProfitPocketTransition \<Rightarrow> string" where
  "ProfitPocketTransition_value PT_KEEP_EXISTING = ''keep_existing''"
| "ProfitPocketTransition_value PT_MOVE_TO_BREAKEVEN = ''move_to_breakeven''"
| "ProfitPocketTransition_value PT_LOCK_PROFIT_PRICE = ''lock_profit_price''"
| "ProfitPocketTransition_value PT_START_BROKER_TRAIL = ''start_broker_trail''"
| "ProfitPocketTransition_value PT_START_VOLATILITY_TRAIL = ''start_volatility_trail''"
| "ProfitPocketTransition_value PT_START_SWING_TRAIL = ''start_swing_trail''"
| "ProfitPocketTransition_value PT_TIGHTEN_EXISTING = ''tighten_existing''"
| "ProfitPocketTransition_value PT_REPLAN_REMAINING_SLICES = ''replan_remaining_slices''"
| "ProfitPocketTransition_value PT_FULL_EXIT_AND_OPTIONAL_REENTRY = ''full_exit_and_optional_reentry''"

datatype AddProtectionPolicy =
    AP_INDEPENDENT_SLICE
  | AP_INHERIT_POSITION_STOP
  | AP_REBASE_ALL
  | AP_TIGHTEN_ONLY
  | AP_PRESERVE_EXISTING

fun AddProtectionPolicy_value :: "AddProtectionPolicy \<Rightarrow> string" where
  "AddProtectionPolicy_value AP_INDEPENDENT_SLICE = ''independent_slice''"
| "AddProtectionPolicy_value AP_INHERIT_POSITION_STOP = ''inherit_position_stop''"
| "AddProtectionPolicy_value AP_REBASE_ALL = ''rebase_all''"
| "AddProtectionPolicy_value AP_TIGHTEN_ONLY = ''tighten_only''"
| "AddProtectionPolicy_value AP_PRESERVE_EXISTING = ''preserve_existing''"

definition ExecutionPolicyName_of :: "string \<Rightarrow> ExecutionPolicyName result" where
  "ExecutionPolicyName_of = enum_of ExecutionPolicyName_value
     [XP_PASSIVE, XP_MIDPOINT, XP_ADAPTIVE_PATIENT, XP_ADAPTIVE_REGULAR, XP_ADAPTIVE_URGENT,
      XP_ADAPTIVE_VERY_URGENT, XP_IMMEDIATE_WITH_LIMIT, XP_IBKR_NATIVE_ADAPTIVE, XP_CANCEL_IF_NOT_FILLED]"

definition PartialFillPolicy_of :: "string \<Rightarrow> PartialFillPolicy result" where
  "PartialFillPolicy_of = enum_of PartialFillPolicy_value
     [PF_COMPLETE_REMAINDER, PF_ACCEPT_PARTIAL, PF_CANCEL_REMAINDER]"

definition StopRuleType_of :: "string \<Rightarrow> StopRuleType result" where
  "StopRuleType_of = enum_of StopRuleType_value
     [SR_FIXED_PRICE, SR_FIXED_PERCENT, SR_FIXED_BPS, SR_FIXED_CASH_RISK, SR_SWING_ANCHORED,
      SR_VOLATILITY, SR_HYBRID, SR_BREAKEVEN, SR_CATASTROPHIC]"

definition StopOrderType_of :: "string \<Rightarrow> StopOrderType result" where
  "StopOrderType_of = enum_of StopOrderType_value [SO_STOP, SO_STOP_LIMIT]"

definition TrailingRuleType_of :: "string \<Rightarrow> TrailingRuleType result" where
  "TrailingRuleType_of = enum_of TrailingRuleType_value
     [TR_NONE, TR_BROKER_AMOUNT, TR_BROKER_PERCENT, TR_VOLATILITY_TRAIL, TR_SWING_TRAIL,
      TR_CHANDELIER, TR_BREAKEVEN_THEN_TRAIL, TR_PROFIT_LOCK_R, TR_TIME_TIGHTENING]"

definition ProfitPocketTransition_of :: "string \<Rightarrow> ProfitPocketTransition result" where
  "ProfitPocketTransition_of = enum_of ProfitPocketTransition_value
     [PT_KEEP_EXISTING, PT_MOVE_TO_BREAKEVEN, PT_LOCK_PROFIT_PRICE, PT_START_BROKER_TRAIL,
      PT_START_VOLATILITY_TRAIL, PT_START_SWING_TRAIL, PT_TIGHTEN_EXISTING,
      PT_REPLAN_REMAINING_SLICES, PT_FULL_EXIT_AND_OPTIONAL_REENTRY]"

definition AddProtectionPolicy_of :: "string \<Rightarrow> AddProtectionPolicy result" where
  "AddProtectionPolicy_of = enum_of AddProtectionPolicy_value
     [AP_INDEPENDENT_SLICE, AP_INHERIT_POSITION_STOP, AP_REBASE_ALL, AP_TIGHTEN_ONLY, AP_PRESERVE_EXISTING]"

lemma ExecutionPolicyName_of_value [simp]: "ExecutionPolicyName_of (ExecutionPolicyName_value x) = Inr x"
  by (cases x) (simp_all add: ExecutionPolicyName_of_def enum_of_def)

lemma PartialFillPolicy_of_value [simp]: "PartialFillPolicy_of (PartialFillPolicy_value x) = Inr x"
  by (cases x) (simp_all add: PartialFillPolicy_of_def enum_of_def)

lemma StopRuleType_of_value [simp]: "StopRuleType_of (StopRuleType_value x) = Inr x"
  by (cases x) (simp_all add: StopRuleType_of_def enum_of_def)

lemma StopOrderType_of_value [simp]: "StopOrderType_of (StopOrderType_value x) = Inr x"
  by (cases x) (simp_all add: StopOrderType_of_def enum_of_def)

lemma TrailingRuleType_of_value [simp]: "TrailingRuleType_of (TrailingRuleType_value x) = Inr x"
  by (cases x) (simp_all add: TrailingRuleType_of_def enum_of_def)

lemma ProfitPocketTransition_of_value [simp]: "ProfitPocketTransition_of (ProfitPocketTransition_value x) = Inr x"
  by (cases x) (simp_all add: ProfitPocketTransition_of_def enum_of_def)

lemma AddProtectionPolicy_of_value [simp]: "AddProtectionPolicy_of (AddProtectionPolicy_value x) = Inr x"
  by (cases x) (simp_all add: AddProtectionPolicy_of_def enum_of_def)

section \<open>Execution envelope and policy\<close>

record ExecutionEnvelope =
  xe_maximum_buy_price :: "f64 option"
  xe_minimum_sell_price :: "f64 option"
  xe_deadline_ms :: rat
  xe_maximum_reprices :: rat
  xe_minimum_reprice_interval_ms :: rat
  xe_persist_until_cancelled :: bool

definition ExecutionEnvelope_default :: ExecutionEnvelope where
  "ExecutionEnvelope_default =
     \<lparr>xe_maximum_buy_price = None, xe_minimum_sell_price = None, xe_deadline_ms = 750,
      xe_maximum_reprices = 4, xe_minimum_reprice_interval_ms = 50,
      xe_persist_until_cancelled = False\<rparr>"

definition ExecutionEnvelope_check :: "ExecutionEnvelope \<Rightarrow> ExecutionEnvelope result" where
  "ExecutionEnvelope_check x =
     (if (case xe_maximum_buy_price x of Some p \<Rightarrow> p \<le> 0 | None \<Rightarrow> False)
      then Inl (ValueError ''maximum_buy_price must be positive'')
      else if (case xe_minimum_sell_price x of Some p \<Rightarrow> p \<le> 0 | None \<Rightarrow> False)
      then Inl (ValueError ''minimum_sell_price must be positive'')
      else if xe_deadline_ms x < 0 \<or> xe_maximum_reprices x < 0
      then Inl (ValueError ''execution deadline and maximum reprices cannot be negative'')
      else if xe_minimum_reprice_interval_ms x < 0
      then Inl (ValueError ''minimum reprice interval cannot be negative'')
      else Inr x)"

definition envelope_bound :: "ExecutionEnvelope \<Rightarrow> string \<Rightarrow> f64 \<Rightarrow> f64" where
  "envelope_bound x side price =
     (case (if upper side = ''BUY'' then xe_maximum_buy_price x else None) of
        Some p \<Rightarrow> min price p
      | None \<Rightarrow>
      (case (if upper side = ''SELL'' then xe_minimum_sell_price x else None) of
        Some p \<Rightarrow> max price p
      | None \<Rightarrow> price))"

definition envelope_permits :: "ExecutionEnvelope \<Rightarrow> string \<Rightarrow> f64 \<Rightarrow> bool" where
  "envelope_permits x side price = isclose 0 lit_1e12 (envelope_bound x side price) price"

record ExecutionPolicy =
  xp_policy_id :: string
  xp_revision :: int
  xp_name :: ExecutionPolicyName
  xp_envelope :: ExecutionEnvelope
  xp_partial_fill_policy :: PartialFillPolicy
  xp_quote_source :: string

definition ExecutionPolicy_check :: "ExecutionPolicy \<Rightarrow> ExecutionPolicy result" where
  "ExecutionPolicy_check x =
     (if xp_policy_id x = [] \<or> xp_revision x < 1
      then Inl (ValueError ''execution policy identity and revision are required'')
      else if xp_quote_source x \<notin> {''qmd'', ''ibkr'', ''simulated''}
      then Inl (ValueError ''execution quote source must be qmd, ibkr, or simulated'')
      else Inr x)"

definition policy_identity :: "ExecutionPolicy \<Rightarrow> string" where
  "policy_identity x = xp_policy_id x @ ''@'' @ show_int (xp_revision x)"

section \<open>Stop rules\<close>

record StructuralAnchor =
  sa_observation_id :: string
  sa_price :: f64
  sa_confirmed_at :: datetime
  sa_timeframe :: string
  sa_ordinal :: string

definition StructuralAnchor_check :: "StructuralAnchor \<Rightarrow> StructuralAnchor result" where
  "StructuralAnchor_check a =
     (if sa_observation_id a = [] \<or> sa_price a \<le> 0
      then Inl (ValueError ''structural anchors require an observation id and positive price'')
      else if \<not> is_aware (sa_confirmed_at a)
      then Inl (ValueError ''structural anchor confirmation time must include a timezone'')
      else Inr a)"

record StopRule =
  sr_rule_type :: StopRuleType
  sr_order_type :: StopOrderType
  sr_price :: "f64 option"
  sr_distance_percent :: "f64 option"
  sr_distance_bps :: "f64 option"
  sr_maximum_cash_risk :: "f64 option"
  sr_volatility_multiple :: "f64 option"
  sr_buffer_bps :: f64
  sr_anchor :: "StructuralAnchor option"
  sr_stop_limit_offset_bps :: "f64 option"

definition StopRule_default :: StopRule where
  "StopRule_default =
     \<lparr>sr_rule_type = SR_FIXED_PRICE, sr_order_type = SO_STOP, sr_price = None,
      sr_distance_percent = None, sr_distance_bps = None, sr_maximum_cash_risk = None,
      sr_volatility_multiple = None, sr_buffer_bps = 0, sr_anchor = None,
      sr_stop_limit_offset_bps = None\<rparr>"

definition negative_opt :: "f64 option \<Rightarrow> bool" where
  "negative_opt x = (case x of None \<Rightarrow> False | Some v \<Rightarrow> v < 0)"

text \<open>\<open>not x\<close> of an optional number.\<close>

definition falsy_opt :: "f64 option \<Rightarrow> bool" where
  "falsy_opt x \<longleftrightarrow> x = None \<or> x = Some 0"

text \<open>\<open>float(x or 0)\<close>.\<close>

definition or_zero :: "f64 option \<Rightarrow> f64" where
  "or_zero x = (case x of None \<Rightarrow> 0 | Some v \<Rightarrow> v)"

definition StopRule_check :: "StopRule \<Rightarrow> StopRule result" where
  "StopRule_check s =
     (if negative_opt (sr_price s) \<or> negative_opt (sr_distance_percent s) \<or>
         negative_opt (sr_distance_bps s) \<or> negative_opt (sr_maximum_cash_risk s) \<or>
         negative_opt (sr_volatility_multiple s)
      then Inl (ValueError ''stop rule values cannot be negative'')
      else if sr_rule_type s \<in> {SR_FIXED_PRICE, SR_CATASTROPHIC} \<and> falsy_opt (sr_price s)
      then Inl (ValueError ''stop requires a positive price'')
      else if sr_rule_type s = SR_SWING_ANCHORED \<and> sr_anchor s = None
      then Inl (ValueError ''swing-anchored stop requires a causal structural anchor'')
      else if sr_order_type s = SO_STOP_LIMIT \<and> \<not> positive_opt (sr_stop_limit_offset_bps s)
      then Inl (ValueError ''stop-limit protection requires a positive limit offset'')
      else Inr s)"

text \<open>A price moved by a fraction against the position: \<open>price * (1.0 + direction * f)\<close>.\<close>

definition scaled_price :: "f64 \<Rightarrow> f64 \<Rightarrow> f64" where
  "scaled_price price f = fmul price (fadd 1 f)"

definition anchored_price :: "StopRule \<Rightarrow> f64 \<Rightarrow> f64 \<Rightarrow> f64" where
  "anchored_price s direction price =
     scaled_price price (fquo (fmul direction (sr_buffer_bps s)) 10000)"

definition raw_stop :: "StopRule \<Rightarrow> f64 \<Rightarrow> bool \<Rightarrow> f64 \<Rightarrow> f64 \<Rightarrow> f64" where
  "raw_stop s reference long quantity volatility =
     (let direction = (if long then - 1 else 1) in
      case sr_rule_type s of
        SR_FIXED_PRICE \<Rightarrow> or_zero (sr_price s)
      | SR_CATASTROPHIC \<Rightarrow> or_zero (sr_price s)
      | SR_SWING_ANCHORED \<Rightarrow>
          anchored_price s direction (case sr_anchor s of Some a \<Rightarrow> sa_price a | None \<Rightarrow> 0)
      | SR_FIXED_PERCENT \<Rightarrow>
          scaled_price reference (fquo (fmul direction (or_zero (sr_distance_percent s))) 100)
      | SR_FIXED_BPS \<Rightarrow>
          scaled_price reference (fquo (fmul direction (or_zero (sr_distance_bps s))) 10000)
      | SR_FIXED_CASH_RISK \<Rightarrow>
          fadd reference (fmul direction (fquo (or_zero (sr_maximum_cash_risk s)) (max quantity lit_1e12)))
      | SR_VOLATILITY \<Rightarrow>
          fadd reference (fmul (fmul direction volatility) (or_zero (sr_volatility_multiple s)))
      | SR_HYBRID \<Rightarrow>
          (let result = fadd reference (fmul (fmul direction volatility) (or_zero (sr_volatility_multiple s))) in
           case sr_anchor s of
             None \<Rightarrow> result
           | Some a \<Rightarrow>
               (let structural = anchored_price s direction (sa_price a) in
                if (if long then structural < reference else reference < structural)
                then if long then max result structural else min result structural
                else result))
      | SR_BREAKEVEN \<Rightarrow> reference)"

definition resolve_stop :: "StopRule \<Rightarrow> f64 \<Rightarrow> string \<Rightarrow> f64 \<Rightarrow> f64 \<Rightarrow> f64 result" where
  "resolve_stop s reference side quantity volatility =
     (let long = (lower side = ''long''); result = raw_stop s reference long quantity volatility in
      if result \<le> 0 then Inl (ValueError ''resolved stop price must be positive'')
      else if long \<and> reference \<le> result
      then Inl (ValueError ''long protective stop must be below the reference price'')
      else if \<not> long \<and> result \<le> reference
      then Inl (ValueError ''short protective stop must be above the reference price'')
      else Inr result)"

section \<open>Trailing rules, slices and profiles\<close>

record TrailingRule =
  tg_rule_type :: TrailingRuleType
  tg_amount :: "f64 option"
  tg_percent :: "f64 option"
  tg_volatility_multiple :: "f64 option"
  tg_activation_gain_percent :: f64
  tg_breakeven_buffer_bps :: f64
  tg_structural_timeframe :: string

definition TrailingRule_default :: TrailingRule where
  "TrailingRule_default =
     \<lparr>tg_rule_type = TR_NONE, tg_amount = None, tg_percent = None, tg_volatility_multiple = None,
      tg_activation_gain_percent = 0, tg_breakeven_buffer_bps = 0, tg_structural_timeframe = []\<rparr>"

definition TrailingRule_check :: "TrailingRule \<Rightarrow> TrailingRule result" where
  "TrailingRule_check t =
     (if negative_opt (tg_amount t) \<or> negative_opt (tg_percent t) \<or>
         negative_opt (tg_volatility_multiple t) \<or> tg_activation_gain_percent t < 0
      then Inl (ValueError ''trailing rule values cannot be negative'')
      else if tg_rule_type t = TR_BROKER_AMOUNT \<and> falsy_opt (tg_amount t)
      then Inl (ValueError ''broker amount trail requires a positive amount'')
      else if tg_rule_type t = TR_BROKER_PERCENT \<and> falsy_opt (tg_percent t)
      then Inl (ValueError ''broker percent trail requires a positive percent'')
      else Inr t)"

record ProtectionSlice =
  sl_slice_id :: string
  sl_quantity_fraction :: f64
  sl_stop :: StopRule
  sl_profit_target_price :: "f64 option"
  sl_trailing :: TrailingRule
  sl_inherit_profit_target :: bool

definition ProtectionSlice_check :: "ProtectionSlice \<Rightarrow> ProtectionSlice result" where
  "ProtectionSlice_check s =
     (if sl_slice_id s = [] \<or> \<not> (0 < sl_quantity_fraction s \<and> sl_quantity_fraction s \<le> 1)
      then Inl (ValueError ''protection slice identity and fraction are required'')
      else if (case sl_profit_target_price s of Some p \<Rightarrow> p \<le> 0 | None \<Rightarrow> False)
      then Inl (ValueError ''profit target must be positive'')
      else Inr s)"

record ProtectionProfile =
  pr_profile_id :: string
  pr_revision :: int
  pr_slices :: "ProtectionSlice list"
  pr_add_policy :: AddProtectionPolicy
  pr_profit_pocket_transition :: ProfitPocketTransition
  pr_mandatory_catastrophic_backstop :: bool
  pr_emergency_repair_deadline_ms :: int

definition ProtectionProfile_check :: "ProtectionProfile \<Rightarrow> ProtectionProfile result" where
  "ProtectionProfile_check p =
     (if pr_profile_id p = [] \<or> pr_revision p < 1 \<or> pr_slices p = []
      then Inl (ValueError ''protection profile identity, revision, and slices are required'')
      else if \<not> isclose lit_1e9 lit_1e9 (fsum (map sl_quantity_fraction (pr_slices p))) 1
      then Inl (ValueError ''protection slice fractions must total exactly one'')
      else if card (sl_slice_id ` set (pr_slices p)) \<noteq> length (pr_slices p)
      then Inl (ValueError ''protection slice ids must be unique'')
      else if pr_emergency_repair_deadline_ms p < 1
      then Inl (ValueError ''protection repair deadline must be positive'')
      else Inr p)"

definition profile_identity :: "ProtectionProfile \<Rightarrow> string" where
  "profile_identity p = pr_profile_id p @ ''@'' @ show_int (pr_revision p)"

section \<open>Execution market data\<close>

record ExecutionMarketSnapshot =
  ms_ticker :: string
  ms_bid :: f64
  ms_ask :: f64
  ms_tick_size :: f64
  ms_observed_at :: datetime
  ms_source :: string
  ms_volatility :: f64
  ms_upper_price_band :: "f64 option"
  ms_lower_price_band :: "f64 option"
  ms_metadata :: json

definition ExecutionMarketSnapshot_check :: "ExecutionMarketSnapshot \<Rightarrow> ExecutionMarketSnapshot result" where
  "ExecutionMarketSnapshot_check s =
     (if ms_ticker s = [] \<or> ms_bid s \<le> 0 \<or> ms_ask s \<le> 0 \<or> ms_ask s < ms_bid s
      then Inl (ValueError ''execution market snapshot requires a positive non-crossed quote'')
      else if ms_tick_size s \<le> 0 \<or> \<not> is_aware (ms_observed_at s) \<or> ms_source s = []
      then Inl (ValueError ''execution market snapshot requires tick size, source, and timezone'')
      else Inr s)"

definition ms_midpoint :: "ExecutionMarketSnapshot \<Rightarrow> f64" where
  "ms_midpoint s = fquo (fadd (ms_bid s) (ms_ask s)) 2"

text \<open>\<open>ExecutionMarketDataProvider\<close>: its one dictionary. The order of the keys is never read.\<close>

type_synonym market_data = "string \<Rightarrow> ExecutionMarketSnapshot option"

definition market_data_update :: "ExecutionMarketSnapshot \<Rightarrow> market_data \<Rightarrow> market_data" where
  "market_data_update s d =
     (let key = upper (ms_ticker s) in
      case d key of
        Some p \<Rightarrow> if instant (ms_observed_at s) < instant (ms_observed_at p) then d else d(key := Some s)
      | None \<Rightarrow> d(key := Some s))"

definition market_data_snapshot :: "market_data \<Rightarrow> string \<Rightarrow> ExecutionMarketSnapshot option" where
  "market_data_snapshot d ticker = d (upper ticker)"

section \<open>Recovering policies\<close>

definition legacy_policy_name :: "string \<Rightarrow> ExecutionPolicyName" where
  "legacy_policy_name urgency =
     (case map_of
        [(''patient'', XP_ADAPTIVE_PATIENT), (''passive_limit'', XP_PASSIVE),
         (''regular'', XP_ADAPTIVE_REGULAR), (''urgent'', XP_ADAPTIVE_URGENT),
         (''aggressive_limit'', XP_ADAPTIVE_URGENT), (''market'', XP_ADAPTIVE_VERY_URGENT),
         (''very_urgent'', XP_ADAPTIVE_VERY_URGENT)] (lower urgency) of
        Some n \<Rightarrow> n | None \<Rightarrow> XP_ADAPTIVE_REGULAR)"

definition legacy_execution_policy :: "(json \<Rightarrow> string) \<Rightarrow> string \<Rightarrow> json \<Rightarrow> ExecutionPolicy result" where
  "legacy_execution_policy render urgency metadata =
     bind_result (float_if (jget metadata ''maximum_buy_price'')) (\<lambda>maximum_buy.
     bind_result (float_if (jget metadata ''minimum_sell_price'')) (\<lambda>minimum_sell.
     bind_result (int_or (jget metadata ''execution_deadline_ms'') 750) (\<lambda>deadline.
     bind_result (ExecutionEnvelope_check
       (ExecutionEnvelope_default\<lparr>xe_maximum_buy_price := maximum_buy,
          xe_minimum_sell_price := minimum_sell, xe_deadline_ms := of_int deadline\<rparr>)) (\<lambda>envelope.
     ExecutionPolicy_check
       \<lparr>xp_policy_id = ''legacy-'' @ ExecutionPolicyName_value (legacy_policy_name urgency),
        xp_revision = 1, xp_name = legacy_policy_name urgency, xp_envelope = envelope,
        xp_partial_fill_policy = PF_COMPLETE_REMAINDER,
        xp_quote_source = str_or render (jget metadata ''execution_quote_source'') ''qmd''\<rparr>))))"

definition envelope_from_payload :: "json \<Rightarrow> ExecutionEnvelope result" where
  "envelope_from_payload v =
     (if \<not> fields_known [''maximum_buy_price'', ''minimum_sell_price'', ''deadline_ms'',
           ''maximum_reprices'', ''minimum_reprice_interval_ms'', ''persist_until_cancelled''] v
      then Inl unexpected_keyword
      else
     bind_result (optional_field v ''maximum_buy_price'') (\<lambda>maximum_buy.
     bind_result (optional_field v ''minimum_sell_price'') (\<lambda>minimum_sell.
     bind_result (number_field v ''deadline_ms'' 750) (\<lambda>deadline.
     bind_result (number_field v ''maximum_reprices'' 4) (\<lambda>reprices.
     bind_result (number_field v ''minimum_reprice_interval_ms'' 50) (\<lambda>interval.
     ExecutionEnvelope_check
       \<lparr>xe_maximum_buy_price = maximum_buy, xe_minimum_sell_price = minimum_sell,
        xe_deadline_ms = deadline, xe_maximum_reprices = reprices,
        xe_minimum_reprice_interval_ms = interval,
        xe_persist_until_cancelled = truthy (jget v ''persist_until_cancelled'')\<rparr>))))))"

definition execution_policy_from_payload :: "(json \<Rightarrow> string) \<Rightarrow> json \<Rightarrow> ExecutionPolicy result" where
  "execution_policy_from_payload render v =
     bind_result (int_or (jget v ''revision'') 1) (\<lambda>revision.
     bind_result (ExecutionPolicyName_of (str_or render (jget v ''name'') ''adaptive_regular'')) (\<lambda>name.
     bind_result (envelope_from_payload
       (if truthy (jget v ''envelope'') then jget v ''envelope'' else JObj [])) (\<lambda>envelope.
     bind_result (PartialFillPolicy_of
       (str_or render (jget v ''partial_fill_policy'') ''complete_remainder'')) (\<lambda>partial.
     ExecutionPolicy_check
       \<lparr>xp_policy_id = str_or render (jget v ''policy_id'') ''recovered'', xp_revision = revision,
        xp_name = name, xp_envelope = envelope, xp_partial_fill_policy = partial,
        xp_quote_source = str_or render (jget v ''quote_source'') ''qmd''\<rparr>))))"

definition anchor_from_payload :: "(json \<Rightarrow> string) \<Rightarrow> json \<Rightarrow> StructuralAnchor result" where
  "anchor_from_payload render v =
     bind_result (item v ''observation_id'') (\<lambda>observation.
     bind_result (item v ''price'') (\<lambda>price_value.
     bind_result (to_float price_value) (\<lambda>price.
     bind_result (item v ''confirmed_at'') (\<lambda>confirmed.
     bind_result (aware_value render confirmed) (\<lambda>confirmed_at.
     StructuralAnchor_check
       \<lparr>sa_observation_id = str_of render observation, sa_price = price, sa_confirmed_at = confirmed_at,
        sa_timeframe = str_or render (jget v ''timeframe'') [],
        sa_ordinal = str_or render (jget v ''ordinal'') ''most_recent''\<rparr>)))))"

definition stop_anchor :: "(json \<Rightarrow> string) \<Rightarrow> json \<Rightarrow> StructuralAnchor option result" where
  "stop_anchor render v =
     (if truthy (jget v ''anchor'')
      then bind_result (anchor_from_payload render (jget v ''anchor'')) (\<lambda>a. Inr (Some a))
      else Inr None)"

definition build_stop :: "json \<Rightarrow> StructuralAnchor option \<Rightarrow> StopRuleType \<Rightarrow> StopOrderType \<Rightarrow> StopRule result" where
  "build_stop v anchor rule_type order_type =
     (if \<not> fields_known [''rule_type'', ''order_type'', ''price'', ''distance_percent'',
          ''distance_bps'', ''maximum_cash_risk'', ''volatility_multiple'', ''buffer_bps'',
          ''anchor'', ''stop_limit_offset_bps''] v
     then Inl unexpected_keyword
     else
     bind_result (optional_field v ''price'') (\<lambda>price.
     bind_result (optional_field v ''distance_percent'') (\<lambda>percent.
     bind_result (optional_field v ''distance_bps'') (\<lambda>bps.
     bind_result (optional_field v ''maximum_cash_risk'') (\<lambda>cash.
     bind_result (optional_field v ''volatility_multiple'') (\<lambda>multiple.
     bind_result (number_field v ''buffer_bps'' 0) (\<lambda>buffer.
     bind_result (optional_field v ''stop_limit_offset_bps'') (\<lambda>offset.
     StopRule_check
       \<lparr>sr_rule_type = rule_type, sr_order_type = order_type, sr_price = price,
        sr_distance_percent = percent, sr_distance_bps = bps, sr_maximum_cash_risk = cash,
        sr_volatility_multiple = multiple, sr_buffer_bps = buffer, sr_anchor = anchor,
        sr_stop_limit_offset_bps = offset\<rparr>))))))))"

definition build_trailing :: "json \<Rightarrow> TrailingRuleType \<Rightarrow> TrailingRule result" where
  "build_trailing v rule_type =
     (if \<not> fields_known [''rule_type'', ''amount'', ''percent'', ''volatility_multiple'',
          ''activation_gain_percent'', ''breakeven_buffer_bps'', ''structural_timeframe''] v
     then Inl unexpected_keyword
     else
     bind_result (optional_field v ''amount'') (\<lambda>amount.
     bind_result (optional_field v ''percent'') (\<lambda>percent.
     bind_result (optional_field v ''volatility_multiple'') (\<lambda>multiple.
     bind_result (number_field v ''activation_gain_percent'' 0) (\<lambda>activation.
     bind_result (number_field v ''breakeven_buffer_bps'' 0) (\<lambda>buffer.
     bind_result (string_field v ''structural_timeframe'' []) (\<lambda>timeframe.
     TrailingRule_check
       \<lparr>tg_rule_type = rule_type, tg_amount = amount, tg_percent = percent,
        tg_volatility_multiple = multiple, tg_activation_gain_percent = activation,
        tg_breakeven_buffer_bps = buffer, tg_structural_timeframe = timeframe\<rparr>)))))))"

definition slice_from_payload :: "(json \<Rightarrow> string) \<Rightarrow> json \<Rightarrow> ProtectionSlice result" where
  "slice_from_payload render v =
     (let stop_raw = dict_or (jget v ''stop''); trailing_raw = dict_or (jget v ''trailing'') in
     bind_result (stop_anchor render stop_raw) (\<lambda>anchor.
     bind_result (StopRuleType_of (str_or render (jget stop_raw ''rule_type'') ''fixed_price'')) (\<lambda>rule_type.
     bind_result (StopOrderType_of (str_or render (jget stop_raw ''order_type'') ''STP'')) (\<lambda>order_type.
     bind_result (TrailingRuleType_of (str_or render (jget trailing_raw ''rule_type'') ''none'')) (\<lambda>trail_type.
     bind_result (item v ''slice_id'') (\<lambda>slice_id.
     bind_result (item v ''quantity_fraction'') (\<lambda>fraction_value.
     bind_result (to_float fraction_value) (\<lambda>fraction.
     bind_result (build_stop stop_raw anchor rule_type order_type) (\<lambda>stop.
     bind_result (float_unless_none (jget v ''profit_target_price'')) (\<lambda>target.
     bind_result (build_trailing trailing_raw trail_type) (\<lambda>trailing.
     ProtectionSlice_check
       \<lparr>sl_slice_id = str_of render slice_id, sl_quantity_fraction = fraction, sl_stop = stop,
        sl_profit_target_price = target, sl_trailing = trailing,
        sl_inherit_profit_target =
          (if has_key v ''inherit_profit_target'' then truthy (jget v ''inherit_profit_target'') else True)\<rparr>)))))))))))"

definition protection_profile_from_payload :: "(json \<Rightarrow> string) \<Rightarrow> json \<Rightarrow> ProtectionProfile result" where
  "protection_profile_from_payload render v =
     bind_result (rows_of (jget v ''slices'')) (\<lambda>rows.
     bind_result (map_result (slice_from_payload render) rows) (\<lambda>slices.
     bind_result (int_or (jget v ''revision'') 1) (\<lambda>revision.
     bind_result (AddProtectionPolicy_of (str_or render (jget v ''add_policy'') ''independent_slice'')) (\<lambda>add_policy.
     bind_result (ProfitPocketTransition_of
       (str_or render (jget v ''profit_pocket_transition'') ''keep_existing'')) (\<lambda>transition.
     bind_result (int_or (jget v ''emergency_repair_deadline_ms'') 500) (\<lambda>deadline.
     ProtectionProfile_check
       \<lparr>pr_profile_id = str_or render (jget v ''profile_id'') ''recovered'', pr_revision = revision,
        pr_slices = slices, pr_add_policy = add_policy, pr_profit_pocket_transition = transition,
        pr_mandatory_catastrophic_backstop =
          (if has_key v ''mandatory_catastrophic_backstop''
           then truthy (jget v ''mandatory_catastrophic_backstop'') else True),
        pr_emergency_repair_deadline_ms = deadline\<rparr>))))))"

section \<open>Writing payloads\<close>

text \<open>\<open>asdict\<close>: every field under its name, nested dataclasses and tuples included.\<close>

definition anchor_payload :: "StructuralAnchor \<Rightarrow> json" where
  "anchor_payload a = JObj
     [(''observation_id'', JStr (sa_observation_id a)), (''price'', JNum (sa_price a)),
      (''confirmed_at'', JTime (sa_confirmed_at a)), (''timeframe'', JStr (sa_timeframe a)),
      (''ordinal'', JStr (sa_ordinal a))]"

definition stop_payload :: "StopRule \<Rightarrow> json" where
  "stop_payload s = JObj
     [(''rule_type'', JStr (StopRuleType_value (sr_rule_type s))),
      (''order_type'', JStr (StopOrderType_value (sr_order_type s))),
      (''price'', opt_num (sr_price s)), (''distance_percent'', opt_num (sr_distance_percent s)),
      (''distance_bps'', opt_num (sr_distance_bps s)),
      (''maximum_cash_risk'', opt_num (sr_maximum_cash_risk s)),
      (''volatility_multiple'', opt_num (sr_volatility_multiple s)),
      (''buffer_bps'', JNum (sr_buffer_bps s)),
      (''anchor'', case sr_anchor s of None \<Rightarrow> JNull | Some a \<Rightarrow> anchor_payload a),
      (''stop_limit_offset_bps'', opt_num (sr_stop_limit_offset_bps s))]"

definition trailing_payload :: "TrailingRule \<Rightarrow> json" where
  "trailing_payload t = JObj
     [(''rule_type'', JStr (TrailingRuleType_value (tg_rule_type t))),
      (''amount'', opt_num (tg_amount t)), (''percent'', opt_num (tg_percent t)),
      (''volatility_multiple'', opt_num (tg_volatility_multiple t)),
      (''activation_gain_percent'', JNum (tg_activation_gain_percent t)),
      (''breakeven_buffer_bps'', JNum (tg_breakeven_buffer_bps t)),
      (''structural_timeframe'', JStr (tg_structural_timeframe t))]"

definition slice_payload :: "ProtectionSlice \<Rightarrow> json" where
  "slice_payload s = JObj
     [(''slice_id'', JStr (sl_slice_id s)), (''quantity_fraction'', JNum (sl_quantity_fraction s)),
      (''stop'', stop_payload (sl_stop s)), (''profit_target_price'', opt_num (sl_profit_target_price s)),
      (''trailing'', trailing_payload (sl_trailing s)),
      (''inherit_profit_target'', JBool (sl_inherit_profit_target s))]"

definition profile_payload :: "ProtectionProfile \<Rightarrow> json" where
  "profile_payload p = JObj
     [(''profile_id'', JStr (pr_profile_id p)), (''revision'', JNum (of_int (pr_revision p))),
      (''slices'', JArr (map slice_payload (pr_slices p))),
      (''add_policy'', JStr (AddProtectionPolicy_value (pr_add_policy p))),
      (''profit_pocket_transition'', JStr (ProfitPocketTransition_value (pr_profit_pocket_transition p))),
      (''mandatory_catastrophic_backstop'', JBool (pr_mandatory_catastrophic_backstop p)),
      (''emergency_repair_deadline_ms'', JNum (of_int (pr_emergency_repair_deadline_ms p)))]"

end
