(* ===== verification/ExecPolicyLaws.thy ===== *)
theory ExecPolicyLaws
  imports ExecPolicy
begin

text \<open>
  Properties of the execution policies: stored protection profiles are recovered exactly,
  protective stops lie on the protective side and sensible distances always resolve, the
  envelope admits no price worse than its bound, and the execution market data keep the
  latest observation of every ticker.
\<close>

section \<open>Recovering a stored profile\<close>

lemma value_nonempty [simp]:
  "StopRuleType_value a \<noteq> []" "StopOrderType_value b \<noteq> []" "TrailingRuleType_value c \<noteq> []"
  "AddProtectionPolicy_value d \<noteq> []" "ProfitPocketTransition_value e \<noteq> []"
proof -
  show "StopRuleType_value a \<noteq> []" by (cases a) simp_all
  show "StopOrderType_value b \<noteq> []" by (cases b) simp_all
  show "TrailingRuleType_value c \<noteq> []" by (cases c) simp_all
  show "AddProtectionPolicy_value d \<noteq> []" by (cases d) simp_all
  show "ProfitPocketTransition_value e \<noteq> []" by (cases e) simp_all
qed

lemma truthy_payloads [simp]:
  "truthy (anchor_payload a)" "truthy (stop_payload s)" "truthy (trailing_payload t)"
  by (simp_all add: anchor_payload_def stop_payload_def trailing_payload_def)

definition storable_anchor :: "StructuralAnchor \<Rightarrow> bool" where
  "storable_anchor a \<longleftrightarrow> StructuralAnchor_check a = Inr a \<and> is_f64 (sa_price a) \<and> sa_ordinal a \<noteq> []"

lemma anchor_round_trip: "storable_anchor a \<Longrightarrow> anchor_from_payload render (anchor_payload a) = Inr a"
  by (auto simp: anchor_from_payload_def anchor_payload_def storable_anchor_def item_def aware_value_def
      StructuralAnchor_check_def fl_exact split: if_splits)

interpretation anchor_codec: codec anchor_payload "anchor_from_payload render" storable_anchor for render
  by unfold_locales (rule anchor_round_trip)

definition storable_stop :: "StopRule \<Rightarrow> bool" where
  "storable_stop s \<longleftrightarrow> StopRule_check s = Inr s \<and> (\<forall>a. sr_anchor s = Some a \<longrightarrow> storable_anchor a)"

lemma stop_round_trip:
  assumes "storable_stop s"
  shows "stop_anchor render (stop_payload s) = Inr (sr_anchor s)"
    and "build_stop (stop_payload s) (sr_anchor s) (sr_rule_type s) (sr_order_type s) = Inr s"
proof -
  show "stop_anchor render (stop_payload s) = Inr (sr_anchor s)"
    using assms by (cases "sr_anchor s")
      (auto simp: stop_anchor_def stop_payload_def storable_stop_def anchor_round_trip)
  show "build_stop (stop_payload s) (sr_anchor s) (sr_rule_type s) (sr_order_type s) = Inr s"
    using assms by (cases s) (simp add: build_stop_def stop_payload_def fields_known_def storable_stop_def)
qed

lemma trailing_round_trip:
  "TrailingRule_check t = Inr t \<Longrightarrow> build_trailing (trailing_payload t) (tg_rule_type t) = Inr t"
  by (cases t) (simp add: build_trailing_def trailing_payload_def fields_known_def string_field_def)

definition storable_slice :: "ProtectionSlice \<Rightarrow> bool" where
  "storable_slice s \<longleftrightarrow> ProtectionSlice_check s = Inr s \<and> storable_stop (sl_stop s) \<and>
     TrailingRule_check (sl_trailing s) = Inr (sl_trailing s) \<and> is_f64 (sl_quantity_fraction s) \<and>
     (\<forall>p. sl_profit_target_price s = Some p \<longrightarrow> is_f64 p)"

lemma payload_types [simp]:
  "jget (stop_payload s) ''rule_type'' = JStr (StopRuleType_value (sr_rule_type s))"
  "jget (stop_payload s) ''order_type'' = JStr (StopOrderType_value (sr_order_type s))"
  "jget (trailing_payload t) ''rule_type'' = JStr (TrailingRuleType_value (tg_rule_type t))"
  by (simp_all add: stop_payload_def trailing_payload_def)

lemma slice_payload_fields [simp]:
  "jget (slice_payload s) ''slice_id'' = JStr (sl_slice_id s)"
  "jget (slice_payload s) ''quantity_fraction'' = JNum (sl_quantity_fraction s)"
  "jget (slice_payload s) ''stop'' = stop_payload (sl_stop s)"
  "jget (slice_payload s) ''profit_target_price'' = opt_num (sl_profit_target_price s)"
  "jget (slice_payload s) ''trailing'' = trailing_payload (sl_trailing s)"
  "jget (slice_payload s) ''inherit_profit_target'' = JBool (sl_inherit_profit_target s)"
  "has_key (slice_payload s) ''slice_id''" "has_key (slice_payload s) ''quantity_fraction''"
  "has_key (slice_payload s) ''inherit_profit_target''"
  by (simp_all add: slice_payload_def)

lemma slice_round_trip:
  assumes "storable_slice s"
  shows "slice_from_payload render (slice_payload s) = Inr s"
  using assms by (cases s)
    (simp add: slice_from_payload_def storable_slice_def dict_or_def item_def stop_round_trip
      trailing_round_trip fl_exact float_unless_none_opt_num)

definition storable_profile :: "ProtectionProfile \<Rightarrow> bool" where
  "storable_profile p \<longleftrightarrow> ProtectionProfile_check p = Inr p \<and> (\<forall>s \<in> set (pr_slices p). storable_slice s)"

interpretation slice_codec: codec slice_payload "slice_from_payload render" storable_slice for render
  by unfold_locales (rule slice_round_trip)

text \<open>
  C27. A protection profile is recovered exactly from its stored payload, whatever the number of
  slices and whichever optional fields they use, when it and its parts pass their checks, its
  fractions, targets and anchor prices are doubles and no anchor has an empty ordinal. (An empty
  ordinal is the one checked value that does not come back: \<open>blank_ordinal_replaced\<close>.)
\<close>

theorem protection_profile_round_trip:
  assumes "storable_profile p"
  shows "protection_profile_from_payload render (profile_payload p) = Inr p"
proof -
  have c: "ProtectionProfile_check p = Inr p" and "\<forall>s \<in> set (pr_slices p). storable_slice s"
    using assms by (simp_all add: storable_profile_def)
  from c have nz: "pr_profile_id p \<noteq> []" "pr_revision p \<noteq> 0" "pr_slices p \<noteq> []"
    "pr_emergency_repair_deadline_ms p \<noteq> 0"
    by (auto simp: ProtectionProfile_check_def split: if_splits)
  then show ?thesis
    using slice_codec.list_round_trip [OF \<open>\<forall>s \<in> set (pr_slices p). storable_slice s\<close>, of render] c
    by (cases p) (simp add: protection_profile_from_payload_def profile_payload_def rows_of_def)
qed

text \<open>The reader takes an empty ordinal for a missing one and fills in the default.\<close>

lemma blank_ordinal_replaced:
  assumes "storable_anchor a"
  shows "anchor_from_payload render (anchor_payload (a\<lparr>sa_ordinal := []\<rparr>)) = Inr (a\<lparr>sa_ordinal := ''most_recent''\<rparr>)"
  using assms
  by (auto simp: anchor_from_payload_def anchor_payload_def storable_anchor_def item_def aware_value_def
      StructuralAnchor_check_def fl_exact str_or_def split: if_splits)

section \<open>The execution envelope\<close>

lemma envelope_bound_idem [simp]:
  "envelope_bound x side (envelope_bound x side price) = envelope_bound x side price"
  by (auto simp: envelope_bound_def split: option.splits)

lemma isclose_abs_bound:
  assumes "isclose 0 lit_1e12 a b"
  shows "\<bar>b - a\<bar> < 2 * lit_1e12"
proof (rule ccontr)
  assume far: "\<not> \<bar>b - a\<bar> < 2 * lit_1e12"
  have d: "is_f64 (of_int 4951760157141521 / 2 ^ 91)" by (rule is_f64_dyadic) auto
  have eq: "2 * lit_1e12 = of_int 4951760157141521 / 2 ^ 91" by (simp add: lit_code(2) ratio_def)
  have "is_f64 (2 * lit_1e12)" unfolding eq by (rule d)
  then have "2 * lit_1e12 \<le> fl \<bar>b - a\<bar>" using far by (intro fl_ge_iff) (auto simp: not_less)
  moreover have "fl \<bar>b - a\<bar> \<le> lit_1e12"
    using assms lit_1e12_pos far by (auto simp: isclose_def Let_def fmul_def)
  ultimately show False using lit_1e12_pos by simp
qed

text \<open>
  The envelope permits the price it bounds an order to, and every price it permits is
  within two billionths of a cent of that bound: a buy is never above the maximum and a sell
  never below the minimum by more.
\<close>

theorem envelope_permits_only_bounded_prices:
  "envelope_permits x side (envelope_bound x side price) \<and>
   (envelope_permits x side price \<longrightarrow>
      (\<forall>m. upper side = ''BUY'' \<and> xe_maximum_buy_price x = Some m \<longrightarrow> price < m + 2 * lit_1e12) \<and>
      (\<forall>m. upper side = ''SELL'' \<and> xe_minimum_sell_price x = Some m \<longrightarrow> m - 2 * lit_1e12 < price))"
proof (intro conjI impI allI)
  show "envelope_permits x side (envelope_bound x side price)" by (simp add: envelope_permits_def)
  show "price < m + 2 * lit_1e12"
    if "envelope_permits x side price" "upper side = ''BUY'' \<and> xe_maximum_buy_price x = Some m" for m
    using isclose_abs_bound [of "min price m" price] that lit_1e12_pos
    by (auto simp: envelope_permits_def envelope_bound_def min_def split: if_splits)
  show "m - 2 * lit_1e12 < price"
    if "envelope_permits x side price" "upper side = ''SELL'' \<and> xe_minimum_sell_price x = Some m" for m
    using isclose_abs_bound [of "max price m" price] that lit_1e12_pos
    by (auto simp: envelope_permits_def envelope_bound_def max_def split: if_splits)
qed

theorem envelope_permits_only_bounded_prices_witness:
  "\<not> envelope_permits (ExecutionEnvelope_default\<lparr>xe_maximum_buy_price := Some 10\<rparr>) ''buy'' 11"
proof
  let ?x = "ExecutionEnvelope_default\<lparr>xe_maximum_buy_price := Some 10\<rparr>"
  assume "envelope_permits ?x ''buy'' 11"
  moreover have "upper ''buy'' = ''BUY''" by code_simp
  ultimately have "(11 :: rat) < 10 + 2 * lit_1e12"
    using envelope_permits_only_bounded_prices [of ?x "''buy''" 11] by simp
  then show False by (simp add: lit_code(2) ratio_def)
qed

section \<open>Execution market data\<close>

definition market_data_after :: "ExecutionMarketSnapshot list \<Rightarrow> market_data" where
  "market_data_after xs = fold market_data_update xs (\<lambda>_. None)"

definition latest_for :: "ExecutionMarketSnapshot list \<Rightarrow> string \<Rightarrow> ExecutionMarketSnapshot option \<Rightarrow> bool" where
  "latest_for xs key r = (case r of
     None \<Rightarrow> \<forall>s \<in> set xs. upper (ms_ticker s) \<noteq> key
   | Some s \<Rightarrow> s \<in> set xs \<and> upper (ms_ticker s) = key \<and>
       (\<forall>p \<in> set xs. upper (ms_ticker p) = key \<longrightarrow> instant (ms_observed_at p) \<le> instant (ms_observed_at s)))"

text \<open>
  After any sequence of updates, in any order of arrival, the snapshot of a ticker is one
  of the observations given for it and none of them is later; there is none only when no
  observation of the ticker was given.
\<close>

theorem market_data_keeps_latest:
  "latest_for xs (upper ticker) (market_data_snapshot (market_data_after xs) ticker)"
proof -
  have "latest_for xs key (market_data_after xs key)" for key
  proof (induction xs rule: rev_induct)
    case (snoc s xs)
    let ?d = "market_data_after xs"
    have "market_data_after (xs @ [s]) key = market_data_update s ?d key"
      by (simp add: market_data_after_def)
    then show ?case
      using snoc by (cases "?d key") (auto simp: market_data_update_def Let_def latest_for_def split: option.splits)
  qed (simp add: market_data_after_def latest_for_def)
  then show ?thesis by (simp add: market_data_snapshot_def)
qed

section \<open>Protective stops\<close>

text \<open>A double that is not tiny has neighbours within \<open>2 ^ (- 52)\<close> of it.\<close>

lemma f64_neighbours:
  assumes x: "is_f64 x" "1 / 2 ^ 64 \<le> x"
  obtains u where "0 < u" "u \<le> x / 2 ^ 52" "is_f64 (x - u)" "is_f64 (x + u)"
proof -
  define k where "k = expo 2 x"
  have pos: "0 < x" using x(2) by (meson less_le_trans zero_less_divide_1_iff zero_less_numeral zero_less_power)
  from expo_bounds [OF pos, of 2] have k: "2 powi k \<le> x" "x < 2 powi (k + 1)" by (simp_all add: k_def)
  have p2: "(2 :: rat) powi (- 64) = 1 / 2 ^ 64" by (simp add: power_int_def power_divide)
  have "- 64 < k + 1" using k(2) x(2) p2 by (intro powi_less_cancel [of 2, THEN iffD1]) linarith+
  then have e: "sig_exp 2 53 (- 1074) x = k - 52" using pos by (simp add: sig_exp_def k_def)
  define n where "n = rhe (x / 2 powi (k - 52))"
  have "fl x = of_int n * 2 powi (k - 52)"
    using pos unfolding fl_def round_sig_alt by (simp add: e n_def)
  then have xn: "x = of_int n * 2 powi (k - 52)" using fl_exact [OF x(1)] by simp
  let ?u = "(2 :: rat) powi (k - 52)"
  have u: "0 < ?u" by simp
  have "?u = 2 powi k / 2 ^ 52" by (simp add: power_int_diff)
  then have small: "?u \<le> x / 2 ^ 52" using k(1) by (simp add: divide_right_mono)
  have "2 powi (k + 1) = 2 ^ 53 * ?u"
    using powi_split [of 2 53 "k - 52"] by (simp add: add.commute)
  then have "of_int n * ?u < 2 ^ 53 * ?u" using k(2) xn by simp
  then have "(of_int n :: rat) < of_int (2 ^ 53)" using u by simp
  then have n: "n < 2 ^ 53" by (simp only: of_int_less_iff)
  have "0 < (of_int n :: rat)" using pos u xn by (simp add: zero_less_mult_iff)
  then have "0 < n" by simp
  have sig: "is_f64 (of_int m * ?u)" if "\<bar>m\<bar> \<le> 2 ^ 53" for m
    unfolding is_f64_def is_sig_def using that \<open>- 64 < k + 1\<close>
    by (intro exI [of _ m] exI [of _ "k - 52"]) simp
  have "x - ?u = of_int (n - 1) * ?u" "x + ?u = of_int (n + 1) * ?u" by (simp_all add: xn algebra_simps)
  with sig [of "n - 1"] sig [of "n + 1"] n \<open>0 < n\<close> show thesis
    by (intro that [OF u small]) simp_all
qed

lemma fl_less: "is_f64 x \<Longrightarrow> 1 / 2 ^ 64 \<le> x \<Longrightarrow> y \<le> x - x / 2 ^ 52 \<Longrightarrow> fl y < x"
proof -
  assume a: "is_f64 x" "1 / 2 ^ 64 \<le> x" "y \<le> x - x / 2 ^ 52"
  from a(1,2) obtain u where u: "0 < u" "u \<le> x / 2 ^ 52" "is_f64 (x - u)" by (rule f64_neighbours)
  then have "fl y \<le> x - u" using a(3) by (intro fl_le_iff) auto
  with u(1) show ?thesis by linarith
qed

lemma fl_greater: "is_f64 x \<Longrightarrow> 1 / 2 ^ 64 \<le> x \<Longrightarrow> x + x / 2 ^ 52 \<le> y \<Longrightarrow> x < fl y"
proof -
  assume a: "is_f64 x" "1 / 2 ^ 64 \<le> x" "x + x / 2 ^ 52 \<le> y"
  from a(1,2) obtain u where u: "0 < u" "u \<le> x / 2 ^ 52" "is_f64 (x + u)" by (rule f64_neighbours)
  then have "x + u \<le> fl y" using a(3) by (intro fl_ge_iff) auto
  with u(1) show ?thesis by linarith
qed

lemma scaled_below:
  assumes x: "is_f64 x" "1 / 2 ^ 40 \<le> x" and f: "1 / 2 ^ 30 \<le> f" "f \<le> 1 - 1 / 2 ^ 10"
  shows "0 < scaled_price x (- f)" "scaled_price x (- f) < x"
proof -
  define g where "g = fl (1 - f)"
  have d: "is_f64 (of_int (2 ^ 30 - 1) / 2 ^ 30)" "is_f64 (of_int 1 / 2 ^ 10)" "is_f64 (of_int 1 / 2 ^ 50)"
    by (rule is_f64_dyadic; simp)+
  have g: "g \<le> 1 - 1 / 2 ^ 30" "1 / 2 ^ 10 \<le> g"
    unfolding g_def using fl_le_iff [OF d(1), of "1 - f"] fl_ge_iff [OF d(2), of "1 - f"] f by simp_all
  have pos: "0 < x" using x(2) by (rule less_le_trans [rotated]) simp
  have s: "scaled_price x (- f) = fl (x * g)" by (simp add: scaled_price_def fmul_def fadd_def g_def)
  have "x * g \<le> x * (1 - 1 / 2 ^ 30)" using g(1) pos by (intro mult_left_mono) auto
  then have "x * g \<le> x - x / 2 ^ 52" using pos by (simp add: field_simps)
  moreover have "1 / 2 ^ 64 \<le> x" using x(2) by (rule order_trans [rotated]) simp
  ultimately show "scaled_price x (- f) < x" unfolding s using x(1) by (intro fl_less)
  have "1 / 2 ^ 40 * (1 / 2 ^ 10) \<le> x * g" using x(2) g(2) by (intro mult_mono) auto
  then have "of_int 1 / 2 ^ 50 \<le> fl (x * g)" using d(3) by (intro fl_ge_iff) auto
  then show "0 < scaled_price x (- f)" unfolding s by (rule less_le_trans [rotated]) simp
qed

lemma scaled_above:
  assumes x: "is_f64 x" "1 / 2 ^ 40 \<le> x" and f: "1 / 2 ^ 30 \<le> f"
  shows "x < scaled_price x f"
proof -
  define g where "g = fl (1 + f)"
  have d: "is_f64 (of_int (2 ^ 30 + 1) / 2 ^ 30)" by (rule is_f64_dyadic; simp)
  have g: "1 + 1 / 2 ^ 30 \<le> g"
    unfolding g_def using fl_ge_iff [OF d, of "1 + f"] f by simp
  have pos: "0 < x" using x(2) by (rule less_le_trans [rotated]) simp
  have s: "scaled_price x f = fl (x * g)" by (simp add: scaled_price_def fmul_def fadd_def g_def)
  have "x * (1 + 1 / 2 ^ 30) \<le> x * g" using g pos by (intro mult_left_mono) auto
  then have "x + x / 2 ^ 52 \<le> x * g" using pos by (simp add: field_simps)
  moreover have "1 / 2 ^ 64 \<le> x" using x(2) by (rule order_trans [rotated]) simp
  ultimately show "x < scaled_price x f" unfolding s using x(1) by (intro fl_greater)
qed

text \<open>The distance of a percentage or basis point rule as a fraction of the price.\<close>

definition stop_distance :: "StopRule \<Rightarrow> rat" where
  "stop_distance s =
     (if sr_rule_type s = SR_FIXED_PERCENT then or_zero (sr_distance_percent s) / 100
      else or_zero (sr_distance_bps s) / 10000)"

text \<open>
  C28. A percentage or basis point stop always resolves, rounding included: for a reference
  price of at least a ten-thousandth and a distance between a millionth and 99 percent of it,
  the stop is positive and strictly on the losing side of the reference.
\<close>

theorem distance_stops_resolve:
  assumes rule: "sr_rule_type s \<in> {SR_FIXED_PERCENT, SR_FIXED_BPS}"
    and d: "1 / 10 ^ 6 \<le> stop_distance s" "stop_distance s \<le> 99 / 100"
    and f64: "is_f64 (or_zero (sr_distance_percent s))" "is_f64 (or_zero (sr_distance_bps s))"
    and ref: "is_f64 reference" "1 / 10 ^ 4 \<le> reference"
  shows "\<exists>p. resolve_stop s reference side quantity volatility = Inr p \<and> 0 < p \<and>
    (if lower side = ''long'' then p < reference else reference < p)"
proof -
  define f where "f = fl (stop_distance s)"
  have m: "fmul (- 1) x = - x" "fmul 1 x = x" if "is_f64 x" for x
    using that by (simp_all add: fmul_def fl_uminus fl_exact)
  have raw: "raw_stop s reference long quantity volatility = scaled_price reference (if long then - f else f)"
    for long
    using rule f64 by (auto simp: raw_stop_def f_def stop_distance_def m fquo_def fl_uminus)
  have b: "is_f64 (of_int 1 / 2 ^ 30)" "is_f64 (of_int (2 ^ 10 - 1) / 2 ^ 10)"
    by (rule is_f64_dyadic; simp)+
  have f: "1 / 2 ^ 30 \<le> f" "f \<le> 1 - 1 / 2 ^ 10"
    unfolding f_def using fl_ge_iff [OF b(1), of "stop_distance s"] fl_le_iff [OF b(2), of "stop_distance s"] d
    by simp_all
  have "1 / 2 ^ 40 \<le> reference" using ref(2) by (rule order_trans [rotated]) simp
  note below = scaled_below [OF ref(1) this f] and above = scaled_above [OF ref(1) this f(1)]
  have "0 < reference" using ref(2) by (rule less_le_trans [rotated]) simp
  with below above show ?thesis
    by (auto simp: resolve_stop_def Let_def raw)
qed

text \<open>
  C29. Whatever its rule, a stop that resolves is positive and strictly protective. A hybrid stop
  is moreover no looser than the volatility distance, and no looser than its structural level when
  that lies on the losing side of the market: for a long position it is no lower than either, for
  a short one no higher.
\<close>

theorem resolved_stop_protects:
  assumes "resolve_stop s reference side quantity volatility = Inr p"
  defines "direction \<equiv> if lower side = ''long'' then - 1 else 1"
  defines "distance_stop \<equiv> fadd reference (fmul (fmul direction volatility) (or_zero (sr_volatility_multiple s)))"
  shows "0 < p \<and> (if lower side = ''long'' then p < reference else reference < p) \<and>
    (sr_rule_type s = SR_HYBRID \<longrightarrow>
       (if lower side = ''long'' then distance_stop \<le> p else p \<le> distance_stop) \<and>
       (\<forall>a. sr_anchor s = Some a \<longrightarrow>
          (if lower side = ''long''
           then anchored_price s direction (sa_price a) < reference \<longrightarrow> anchored_price s direction (sa_price a) \<le> p
           else reference < anchored_price s direction (sa_price a) \<longrightarrow> p \<le> anchored_price s direction (sa_price a))))"
  using assms
  by (auto simp: resolve_stop_def raw_stop_def Let_def split: if_splits option.splits)

section \<open>Concrete policies\<close>

definition demo_stop :: StopRule where
  "demo_stop = StopRule_default\<lparr>sr_rule_type := SR_FIXED_PERCENT, sr_distance_percent := Some 2\<rparr>"

definition demo_hybrid :: StopRule where
  "demo_hybrid = StopRule_default\<lparr>sr_rule_type := SR_HYBRID, sr_volatility_multiple := Some 2,
     sr_anchor := Some \<lparr>sa_observation_id = ''swing-1'', sa_price = 97, sa_confirmed_at = Aware 5,
       sa_timeframe = ''5m'', sa_ordinal = ''most_recent''\<rparr>\<rparr>"

definition demo_profile :: ProtectionProfile where
  "demo_profile =
     \<lparr>pr_profile_id = ''two-slices'', pr_revision = 3,
      pr_slices =
        [\<lparr>sl_slice_id = ''core'', sl_quantity_fraction = 3 / 4, sl_stop = demo_stop,
          sl_profit_target_price = Some 110, sl_trailing = TrailingRule_default,
          sl_inherit_profit_target = False\<rparr>,
         \<lparr>sl_slice_id = ''runner'', sl_quantity_fraction = 1 / 4, sl_stop = demo_hybrid,
          sl_profit_target_price = None,
          sl_trailing = TrailingRule_default\<lparr>tg_rule_type := TR_BROKER_AMOUNT, tg_amount := Some (1 / 2)\<rparr>,
          sl_inherit_profit_target = True\<rparr>],
      pr_add_policy = AP_INHERIT_POSITION_STOP, pr_profit_pocket_transition = PT_TIGHTEN_EXISTING,
      pr_mandatory_catastrophic_backstop = True, pr_emergency_repair_deadline_ms = 500\<rparr>"

lemma is_f64_by_rounding: "fl x = x \<Longrightarrow> is_f64 x"
  by (metis is_f64_fl)

lemma demo_storable: "storable_profile demo_profile"
proof -
  have "is_f64 (3 / 4)" "is_f64 (1 / 4)" "is_f64 110" "is_f64 97"
    by (rule is_f64_by_rounding, code_simp)+
  moreover have "ProtectionProfile_check demo_profile = Inr demo_profile" by code_simp
  ultimately show ?thesis
    by (simp add: storable_profile_def storable_slice_def storable_stop_def storable_anchor_def
        demo_profile_def demo_stop_def demo_hybrid_def StopRule_default_def TrailingRule_default_def
        ProtectionSlice_check_def StopRule_check_def TrailingRule_check_def StructuralAnchor_check_def
        negative_opt_def falsy_opt_def)
qed

theorem protection_profile_round_trip_witness:
  "protection_profile_from_payload (\<lambda>_. ''?'') (profile_payload demo_profile) = Inr demo_profile"
  by (rule protection_profile_round_trip [OF demo_storable])

theorem distance_stops_resolve_witness:
  "\<exists>p. resolve_stop demo_stop 100 ''long'' 10 0 = Inr p \<and> 0 < p \<and> p < 100"
proof -
  have "is_f64 0" "is_f64 2" "is_f64 100" by (rule is_f64_by_rounding, code_simp)+
  then show ?thesis
    using distance_stops_resolve [of demo_stop 100 "''long''" 10 0]
    by (simp add: demo_stop_def StopRule_default_def stop_distance_def or_zero_def lower_def lower_char_def)
qed

text \<open>A short hybrid stop: four above the market by volatility, three by the level at 103.\<close>

theorem resolved_stop_protects_witness:
  "resolve_stop demo_hybrid 100 ''long'' 10 2 = Inr 97 \<and> 96 \<le> (97 :: rat) \<and>
   resolve_stop (demo_hybrid\<lparr>sr_anchor := Some \<lparr>sa_observation_id = ''swing-2'', sa_price = 103, sa_confirmed_at = Aware 5,
     sa_timeframe = ''5m'', sa_ordinal = ''most_recent''\<rparr>\<rparr>) 100 ''short'' 10 2 = Inr 103 \<and> 103 \<le> (104 :: rat)"
proof -
  have r: "resolve_stop demo_hybrid 100 ''long'' 10 2 = Inr 97" by code_simp
  have "fadd 100 (fmul (fmul (- 1) 2) (or_zero (sr_volatility_multiple demo_hybrid))) = 96"
    "sr_rule_type demo_hybrid = SR_HYBRID" "lower ''long'' = ''long''" by code_simp+
  with resolved_stop_protects [OF r] have long: "96 \<le> (97 :: rat)" by simp
  let ?s = "demo_hybrid\<lparr>sr_anchor := Some \<lparr>sa_observation_id = ''swing-2'', sa_price = 103, sa_confirmed_at = Aware 5,
     sa_timeframe = ''5m'', sa_ordinal = ''most_recent''\<rparr>\<rparr>"
  have t: "resolve_stop ?s 100 ''short'' 10 2 = Inr 103" by code_simp
  have "fadd 100 (fmul (fmul 1 2) (or_zero (sr_volatility_multiple ?s))) = 104"
    "sr_rule_type ?s = SR_HYBRID" "lower ''short'' \<noteq> ''long''" by code_simp+
  with resolved_stop_protects [OF t] have "103 \<le> (104 :: rat)" by simp
  with long r t show ?thesis by blast
qed

end
