(* ===== verification/Taxonomy.thy ===== *)
theory Taxonomy
  imports Payload
begin

text \<open>
  \<open>src/trading_runtime/taxonomy.py\<close>: clock contracts, indicator and signal definitions, the
  inputs a strategy declares, and the taxonomy payload with its migration of legacy inputs.
  Reading a payload and writing it back reaches a normal form at once
  (\<open>taxonomy_migration_idempotent\<close>).
\<close>

definition TAXONOMY_SCHEMA_VERSION :: int where "TAXONOMY_SCHEMA_VERSION = 3"

definition SUPPORTED_TAXONOMY_SCHEMA_VERSIONS :: "int list" where
  "SUPPORTED_TAXONOMY_SCHEMA_VERSIONS = [1, 2, TAXONOMY_SCHEMA_VERSION]"

definition LEGACY_QMD_INPUT_CAPABILITIES :: "(string, string) dict" where
  "LEGACY_QMD_INPUT_CAPABILITIES =
     [(''flow_structure_composite'', ''flow_structure_composite''), (''vwap'', ''momentum_core''),
      (''macd'', ''momentum_core''), (''generic_structure'', ''qmd_generic_structure''),
      (''price_volume_expansion'', ''price_volume_expansion''), (''vwap_transition'', ''vwap_transition''),
      (''flow_price_divergence'', ''flow_price_divergence''),
      (''liquidity_dislocation'', ''liquidity_dislocation'')]"

definition LEGACY_EXTERNAL_INPUT_PRODUCERS :: "(string, string) dict" where
  "LEGACY_EXTERNAL_INPUT_PRODUCERS = [(''company_news'', ''news_gateway''), (''sec_filing'', ''sec_gateway'')]"

section \<open>Enumerations and clocks\<close>

datatype IndicatorType = IT_TECHNICAL | IT_QMD | IT_FUNDAMENTAL | IT_REFERENCE | IT_MODEL

fun IndicatorType_value :: "IndicatorType \<Rightarrow> string" where
  "IndicatorType_value IT_TECHNICAL = ''technical''"
| "IndicatorType_value IT_QMD = ''qmd''"
| "IndicatorType_value IT_FUNDAMENTAL = ''fundamental''"
| "IndicatorType_value IT_REFERENCE = ''reference''"
| "IndicatorType_value IT_MODEL = ''model''"

datatype SignalDomain = SD_MARKET | SD_NEWS | SD_SEC | SD_MODEL

fun SignalDomain_value :: "SignalDomain \<Rightarrow> string" where
  "SignalDomain_value SD_MARKET = ''market''"
| "SignalDomain_value SD_NEWS = ''news''"
| "SignalDomain_value SD_SEC = ''sec''"
| "SignalDomain_value SD_MODEL = ''model''"

datatype InputBasis =
    IB_EVENT_NATIVE
  | IB_BAR_DERIVED
  | IB_INDICATOR_DERIVED
  | IB_DOCUMENT_EVENT
  | IB_REFERENCE_SNAPSHOT
  | IB_MODEL_OUTPUT

fun InputBasis_value :: "InputBasis \<Rightarrow> string" where
  "InputBasis_value IB_EVENT_NATIVE = ''event_native''"
| "InputBasis_value IB_BAR_DERIVED = ''bar_derived''"
| "InputBasis_value IB_INDICATOR_DERIVED = ''indicator_derived''"
| "InputBasis_value IB_DOCUMENT_EVENT = ''document_event''"
| "InputBasis_value IB_REFERENCE_SNAPSHOT = ''reference_snapshot''"
| "InputBasis_value IB_MODEL_OUTPUT = ''model_output''"

datatype EvaluationMode = EM_DEVELOPING | EM_CLOSED_ONLY | EM_POINT_IN_TIME

fun EvaluationMode_value :: "EvaluationMode \<Rightarrow> string" where
  "EvaluationMode_value EM_DEVELOPING = ''developing''"
| "EvaluationMode_value EM_CLOSED_ONLY = ''closed_only''"
| "EvaluationMode_value EM_POINT_IN_TIME = ''point_in_time''"

datatype UpdateTrigger =
    UT_MARKET_EVENT
  | UT_BAR_CLOSE
  | UT_INDICATOR_UPDATE
  | UT_SOURCE_EVENT
  | UT_SCHEDULE
  | UT_MANUAL

fun UpdateTrigger_value :: "UpdateTrigger \<Rightarrow> string" where
  "UpdateTrigger_value UT_MARKET_EVENT = ''market_event''"
| "UpdateTrigger_value UT_BAR_CLOSE = ''bar_close''"
| "UpdateTrigger_value UT_INDICATOR_UPDATE = ''indicator_update''"
| "UpdateTrigger_value UT_SOURCE_EVENT = ''source_event''"
| "UpdateTrigger_value UT_SCHEDULE = ''schedule''"
| "UpdateTrigger_value UT_MANUAL = ''manual''"

datatype PublicationCadence =
    PC_EVERY_EVENT
  | PC_INTERVAL
  | PC_BAR_CLOSE
  | PC_ON_CHANGE
  | PC_SOURCE_EVENT
  | PC_ON_DEMAND

fun PublicationCadence_value :: "PublicationCadence \<Rightarrow> string" where
  "PublicationCadence_value PC_EVERY_EVENT = ''every_event''"
| "PublicationCadence_value PC_INTERVAL = ''interval''"
| "PublicationCadence_value PC_BAR_CLOSE = ''bar_close''"
| "PublicationCadence_value PC_ON_CHANGE = ''on_change''"
| "PublicationCadence_value PC_SOURCE_EVENT = ''source_event''"
| "PublicationCadence_value PC_ON_DEMAND = ''on_demand''"

definition SignalDomain_of :: "string \<Rightarrow> SignalDomain result" where
  "SignalDomain_of = enum_of SignalDomain_value [SD_MARKET, SD_NEWS, SD_SEC, SD_MODEL]"

definition InputBasis_of :: "string \<Rightarrow> InputBasis result" where
  "InputBasis_of = enum_of InputBasis_value
     [IB_EVENT_NATIVE, IB_BAR_DERIVED, IB_INDICATOR_DERIVED, IB_DOCUMENT_EVENT,
      IB_REFERENCE_SNAPSHOT, IB_MODEL_OUTPUT]"

definition EvaluationMode_all :: "EvaluationMode list" where
  "EvaluationMode_all = [EM_DEVELOPING, EM_CLOSED_ONLY, EM_POINT_IN_TIME]"

definition EvaluationMode_of :: "string \<Rightarrow> EvaluationMode result" where
  "EvaluationMode_of = enum_of EvaluationMode_value EvaluationMode_all"

definition UpdateTrigger_of :: "string \<Rightarrow> UpdateTrigger result" where
  "UpdateTrigger_of = enum_of UpdateTrigger_value
     [UT_MARKET_EVENT, UT_BAR_CLOSE, UT_INDICATOR_UPDATE, UT_SOURCE_EVENT, UT_SCHEDULE, UT_MANUAL]"

definition PublicationCadence_of :: "string \<Rightarrow> PublicationCadence result" where
  "PublicationCadence_of = enum_of PublicationCadence_value
     [PC_EVERY_EVENT, PC_INTERVAL, PC_BAR_CLOSE, PC_ON_CHANGE, PC_SOURCE_EVENT, PC_ON_DEMAND]"

record ClockContract =
  cc_input_basis :: InputBasis
  cc_evaluation_mode :: EvaluationMode
  cc_update_trigger :: UpdateTrigger
  cc_publication_cadence :: PublicationCadence
  cc_calculation_window :: "string option"
  cc_publication_interval_ms :: "int option"

definition ClockContract_check :: "ClockContract \<Rightarrow> ClockContract result" where
  "ClockContract_check c =
     (if cc_publication_cadence c = PC_INTERVAL \<and>
         (case cc_publication_interval_ms c of None \<Rightarrow> True | Some n \<Rightarrow> n \<le> 0)
      then Inl (ValueError ''Interval publication requires publication_interval_ms > 0'')
      else if cc_publication_cadence c \<noteq> PC_INTERVAL \<and> cc_publication_interval_ms c \<noteq> None
      then Inl (ValueError ''publication_interval_ms is valid only for interval publication'')
      else if cc_update_trigger c = UT_BAR_CLOSE \<and> cc_calculation_window c \<in> {None, Some []}
      then Inl (ValueError ''Bar-close evaluation requires a calculation_window'')
      else Inr c)"

section \<open>Definitions of indicators and signals\<close>

definition require_identifier :: "string \<Rightarrow> unit result" where
  "require_identifier value =
     (let normalized = strip value in
      if normalized = [] \<or> list_ex is_space_char normalized
      then Inl (ValueError ''must be a non-empty identifier without whitespace'')
      else Inr ())"

record IndicatorDefinition =
  id_indicator_id :: string
  id_label :: string
  id_indicator_type :: IndicatorType
  id_producer :: string
  id_outputs :: "string list"
  id_clock :: ClockContract
  id_description :: string

definition IndicatorDefinition_check :: "IndicatorDefinition \<Rightarrow> IndicatorDefinition result" where
  "IndicatorDefinition_check d =
     bind_result (require_identifier (id_indicator_id d)) (\<lambda>_.
     if strip (id_producer d) = [] then Inl (ValueError ''Indicator producer is required'')
     else if id_outputs d = [] \<or> list_ex (\<lambda>x. strip x = []) (id_outputs d)
     then Inl (ValueError ''Indicator outputs must contain at least one named field'')
     else Inr d)"

record SignalDefinition =
  sd_signal_id :: string
  sd_label :: string
  sd_domain :: SignalDomain
  sd_producer :: string
  sd_clock :: ClockContract
  sd_description :: string
  sd_score_required :: bool
  sd_rank_score_required :: bool

definition SignalDefinition_check :: "SignalDefinition \<Rightarrow> SignalDefinition result" where
  "SignalDefinition_check d =
     bind_result (require_identifier (sd_signal_id d)) (\<lambda>_.
     if strip (sd_producer d) = [] then Inl (ValueError ''Signal producer is required'')
     else if \<not> sd_score_required d then Inl (ValueError ''Every ranked signal must require a score'')
     else if \<not> sd_rank_score_required d
     then Inl (ValueError ''Every scanner signal must require an authority rank score'')
     else Inr d)"

section \<open>Strategy inputs\<close>

record StrategyInputRef =
  ir_key :: string
  ir_producer :: string
  ir_capability_key :: string
  ir_required :: bool
  ir_timeframe :: string
  ir_role :: string
  ir_evaluation_mode :: string
  ir_maximum_age_ms :: "int option"
  ir_weight :: f64
  ir_minimum_score :: "f64 option"
  ir_minimum_confidence :: "f64 option"
  ir_parameters :: json

definition strategy_input_roles :: "string list" where
  "strategy_input_roles = [''trigger'', ''confirmation'', ''veto'', ''sizing'', ''exit'', ''context'']"

definition outside_opt :: "f64 \<Rightarrow> f64 \<Rightarrow> f64 option \<Rightarrow> bool" where
  "outside_opt lo hi x = (case x of None \<Rightarrow> False | Some v \<Rightarrow> \<not> (lo \<le> v \<and> v \<le> hi))"

definition StrategyInputRef_check :: "StrategyInputRef \<Rightarrow> StrategyInputRef result" where
  "StrategyInputRef_check r =
     bind_result (require_identifier (ir_key r)) (\<lambda>_.
     if ir_capability_key r \<noteq> [] \<and> ir_producer r = []
     then Inl (ValueError ''Strategy input capability_key requires a producer'')
     else if ir_role r \<notin> set strategy_input_roles
     then Inl (ValueError ''Unsupported strategy input role'')
     else if ir_evaluation_mode r \<notin> set (map EvaluationMode_value EvaluationMode_all)
     then Inl (ValueError ''Unsupported strategy input evaluation mode'')
     else if (case ir_maximum_age_ms r of None \<Rightarrow> False | Some n \<Rightarrow> n \<le> 0)
     then Inl (ValueError ''Strategy input maximum_age_ms must be positive'')
     else if ir_weight r < 0 then Inl (ValueError ''Strategy input weight cannot be negative'')
     else if outside_opt (- 1) 1 (ir_minimum_score r)
     then Inl (ValueError ''Strategy input minimum_score must be between -1 and 1'')
     else if outside_opt 0 1 (ir_minimum_confidence r)
     then Inl (ValueError ''Strategy input minimum_confidence must be between 0 and 1'')
     else Inr r)"

definition input_payload :: "StrategyInputRef \<Rightarrow> json" where
  "input_payload r = JObj
     [(''key'', JStr (ir_key r)), (''producer'', JStr (ir_producer r)),
      (''capability_key'', JStr (ir_capability_key r)), (''required'', JBool (ir_required r)),
      (''timeframe'', JStr (ir_timeframe r)), (''role'', JStr (ir_role r)),
      (''evaluation_mode'', JStr (ir_evaluation_mode r)),
      (''maximum_age_ms'', opt_num (map_option of_int (ir_maximum_age_ms r))),
      (''weight'', JNum (ir_weight r)), (''minimum_score'', opt_num (ir_minimum_score r)),
      (''minimum_confidence'', opt_num (ir_minimum_confidence r)), (''parameters'', ir_parameters r)]"

text \<open>\<open>input_ref\<close>: the producer and the capability a legacy input did not name are inferred.\<close>

definition inferred_capability :: "string \<Rightarrow> string \<Rightarrow> string" where
  "inferred_capability producer key =
     (if producer \<in> {[], ''qmd''} then dget LEGACY_QMD_INPUT_CAPABILITIES key [] else [])"

definition inferred_producer :: "string \<Rightarrow> string \<Rightarrow> string" where
  "inferred_producer producer key =
     (if producer \<noteq> [] then producer
      else if inferred_capability producer key \<noteq> [] then ''qmd''
      else dget LEGACY_EXTERNAL_INPUT_PRODUCERS key [])"

definition int_unless_none :: "json \<Rightarrow> int option result" where
  "int_unless_none v = (if v = JNull then Inr None else bind_result (to_int v) (\<lambda>n. Inr (Some n)))"

definition dict_value :: "json \<Rightarrow> json result" where
  "dict_value v = (case dict_or v of JObj kvs \<Rightarrow> Inr (JObj kvs) | _ \<Rightarrow> Inl (PyTypeError ''not a mapping''))"

definition bool_field :: "json \<Rightarrow> string \<Rightarrow> bool \<Rightarrow> bool" where
  "bool_field v k d = (if has_key v k then truthy (jget v k) else d)"

definition raw_input :: "(json \<Rightarrow> string) \<Rightarrow> json \<Rightarrow> json" where
  "raw_input render v = (case v of JObj kvs \<Rightarrow> v | _ \<Rightarrow> JObj [(''key'', JStr (str_of render v))])"

definition input_ref :: "(json \<Rightarrow> string) \<Rightarrow> json \<Rightarrow> StrategyInputRef result" where
  "input_ref render v =
     (let raw = raw_input render v;
          key = str_or render (jget raw ''key'') [];
          explicit_producer = str_or render (jget raw ''producer'') [];
          capability = inferred_capability explicit_producer key
      in bind_result (int_unless_none (jget raw ''maximum_age_ms'')) (\<lambda>age.
         bind_result (if has_key raw ''weight'' then to_float (jget raw ''weight'') else Inr 1) (\<lambda>weight.
         bind_result (float_unless_none (jget raw ''minimum_score'')) (\<lambda>score.
         bind_result (float_unless_none (jget raw ''minimum_confidence'')) (\<lambda>confidence.
         bind_result (dict_value (jget raw ''parameters'')) (\<lambda>parameters.
         StrategyInputRef_check
           \<lparr>ir_key = key, ir_producer = inferred_producer explicit_producer key,
            ir_capability_key = str_or render (jget raw ''capability_key'') capability,
            ir_required = bool_field raw ''required'' True,
            ir_timeframe = str_or render (jget raw ''timeframe'') [],
            ir_role = str_or render (jget raw ''role'') ''context'',
            ir_evaluation_mode = str_or render (jget raw ''evaluation_mode'') ''closed_only'',
            ir_maximum_age_ms = age, ir_weight = weight, ir_minimum_score = score,
            ir_minimum_confidence = confidence, ir_parameters = parameters\<rparr>))))))"

definition input_refs :: "(json \<Rightarrow> string) \<Rightarrow> json \<Rightarrow> StrategyInputRef list result" where
  "input_refs render v =
     (if v \<in> {JNull, JStr []} then Inr []
      else case v of
        JArr xs \<Rightarrow> map_result (input_ref render) xs
      | _ \<Rightarrow> Inl (ValueError ''Strategy taxonomy inputs must be lists''))"

section \<open>The taxonomy\<close>

record StrategyPresentation =
  sp_show_entries :: bool
  sp_show_adds :: bool
  sp_show_reductions :: bool
  sp_show_exits :: bool
  sp_show_holds :: bool
  sp_show_waits :: bool
  sp_show_invalidation :: bool
  sp_show_confidence :: bool
  sp_label :: string

definition presentation_payload :: "StrategyPresentation \<Rightarrow> json" where
  "presentation_payload p = JObj
     [(''show_entries'', JBool (sp_show_entries p)), (''show_adds'', JBool (sp_show_adds p)),
      (''show_reductions'', JBool (sp_show_reductions p)), (''show_exits'', JBool (sp_show_exits p)),
      (''show_holds'', JBool (sp_show_holds p)), (''show_waits'', JBool (sp_show_waits p)),
      (''show_invalidation'', JBool (sp_show_invalidation p)),
      (''show_confidence'', JBool (sp_show_confidence p)), (''label'', JStr (sp_label p))]"

record StrategyTaxonomy =
  tx_indicators :: "StrategyInputRef list"
  tx_signals :: "StrategyInputRef list"
  tx_allow_developing_inputs :: bool
  tx_presentation :: StrategyPresentation
  tx_schema_version :: int

definition reject_duplicate_inputs :: "StrategyInputRef list \<Rightarrow> unit result" where
  "reject_duplicate_inputs xs =
     (if distinct (map ir_key xs) then Inr ()
      else Inl (ValueError ''Strategy taxonomy contains duplicate inputs''))"

definition StrategyTaxonomy_check :: "StrategyTaxonomy \<Rightarrow> StrategyTaxonomy result" where
  "StrategyTaxonomy_check t =
     (if tx_schema_version t \<notin> set SUPPORTED_TAXONOMY_SCHEMA_VERSIONS
      then Inl (ValueError ''Unsupported strategy taxonomy schema version'')
      else bind_result (reject_duplicate_inputs (tx_indicators t)) (\<lambda>_.
           bind_result (reject_duplicate_inputs (tx_signals t)) (\<lambda>_. Inr t)))"

definition taxonomy_payload :: "StrategyTaxonomy \<Rightarrow> json" where
  "taxonomy_payload t = JObj
     [(''schema_version'', JNum (of_int TAXONOMY_SCHEMA_VERSION)),
      (''indicators'', JArr (map input_payload (tx_indicators t))),
      (''signals'', JArr (map input_payload (tx_signals t))),
      (''allow_developing_inputs'', JBool (tx_allow_developing_inputs t)),
      (''presentation'', presentation_payload (tx_presentation t))]"

definition presentation_from_payload :: "(json \<Rightarrow> string) \<Rightarrow> json \<Rightarrow> StrategyPresentation" where
  "presentation_from_payload render v =
     \<lparr>sp_show_entries = bool_field v ''show_entries'' True,
      sp_show_adds = bool_field v ''show_adds'' True,
      sp_show_reductions = bool_field v ''show_reductions'' True,
      sp_show_exits = bool_field v ''show_exits'' True,
      sp_show_holds = bool_field v ''show_holds'' False,
      sp_show_waits = bool_field v ''show_waits'' False,
      sp_show_invalidation = bool_field v ''show_invalidation'' True,
      sp_show_confidence = bool_field v ''show_confidence'' True,
      sp_label = str_or render (jget v ''label'') []\<rparr>"

definition taxonomy_from_payload :: "(json \<Rightarrow> string) \<Rightarrow> json \<Rightarrow> StrategyTaxonomy result" where
  "taxonomy_from_payload render payload =
     bind_result (dict_value payload) (\<lambda>v.
     bind_result (dict_value (jget v ''presentation'')) (\<lambda>presentation.
     bind_result (input_refs render (jget v ''indicators'')) (\<lambda>indicators.
     bind_result (input_refs render (jget v ''signals'')) (\<lambda>signals.
     StrategyTaxonomy_check
       \<lparr>tx_indicators = indicators, tx_signals = signals,
        tx_allow_developing_inputs = bool_field v ''allow_developing_inputs'' False,
        tx_presentation = presentation_from_payload render presentation,
        tx_schema_version = TAXONOMY_SCHEMA_VERSION\<rparr>))))"

section \<open>Migration\<close>

text \<open>\<open>str\<close> of a value that is not a string is never empty.\<close>

definition renders_text :: "(json \<Rightarrow> string) \<Rightarrow> bool" where
  "renders_text render \<longleftrightarrow> (\<forall>v. render v \<noteq> [])"

lemma int_unless_none_opt [simp]: "int_unless_none (opt_num (map_option of_int x)) = Inr x"
  by (cases x) (simp_all add: int_unless_none_def opt_num_def)

lemma to_float_f64: "to_float v = Inr x \<Longrightarrow> is_f64 x"
  by (cases v) (auto simp: to_float_def is_f64_of_int [of 1, simplified] split: if_splits option.splits)

lemma float_unless_none_f64: "float_unless_none v = Inr x \<Longrightarrow> \<forall>p. x = Some p \<longrightarrow> is_f64 p"
  by (auto simp: float_unless_none_def bind_result_Inr_iff to_float_f64 split: if_splits)

lemma dict_value_fixed: "dict_value v = Inr d \<Longrightarrow> dict_value d = Inr d"
  by (cases "dict_or v") (auto simp: dict_value_def dict_or_def split: if_splits)

lemma str_or_empty: "renders_text render \<Longrightarrow> str_or render v d = [] \<Longrightarrow> d = []"
  by (cases v) (auto simp: str_or_def str_of_def renders_text_def split: if_splits)

lemma StrategyInputRef_check_Inr: "StrategyInputRef_check r = Inr s \<Longrightarrow> s = r \<and> ir_role r \<noteq> [] \<and> ir_evaluation_mode r \<noteq> []"
  by (auto simp: StrategyInputRef_check_def bind_result_Inr_iff strategy_input_roles_def EvaluationMode_all_def
      split: if_splits)

lemma input_payload_fields [simp]:
  "raw_input render (input_payload r) = input_payload r"
  "jget (input_payload r) ''key'' = JStr (ir_key r)"
  "jget (input_payload r) ''producer'' = JStr (ir_producer r)"
  "jget (input_payload r) ''capability_key'' = JStr (ir_capability_key r)"
  "jget (input_payload r) ''required'' = JBool (ir_required r)"
  "jget (input_payload r) ''timeframe'' = JStr (ir_timeframe r)"
  "jget (input_payload r) ''role'' = JStr (ir_role r)"
  "jget (input_payload r) ''evaluation_mode'' = JStr (ir_evaluation_mode r)"
  "jget (input_payload r) ''maximum_age_ms'' = opt_num (map_option of_int (ir_maximum_age_ms r))"
  "jget (input_payload r) ''weight'' = JNum (ir_weight r)"
  "jget (input_payload r) ''minimum_score'' = opt_num (ir_minimum_score r)"
  "jget (input_payload r) ''minimum_confidence'' = opt_num (ir_minimum_confidence r)"
  "jget (input_payload r) ''parameters'' = ir_parameters r"
  "has_key (input_payload r) ''weight''" "has_key (input_payload r) ''required''"
  by (simp_all add: input_payload_def raw_input_def)

lemma inferred_stable:
  assumes "producer = inferred_producer p key"
  shows "inferred_producer producer key = producer"
    and "inferred_capability producer key = inferred_capability p key"
  using assms
  by (auto simp: inferred_producer_def inferred_capability_def dget_def LEGACY_EXTERNAL_INPUT_PRODUCERS_def
      split: if_splits)

lemma input_round_trip:
  assumes "input_ref render v = Inr r" "renders_text render"
  shows "input_ref render (input_payload r) = Inr r"
proof -
  define raw where "raw = raw_input render v"
  define key where "key = str_or render (jget raw ''key'') []"
  define producer where "producer = str_or render (jget raw ''producer'') []"
  from assms(1) obtain age weight score confidence parameters where
    parts: "(if has_key raw ''weight'' then to_float (jget raw ''weight'') else Inr 1) = Inr weight"
      "float_unless_none (jget raw ''minimum_score'') = Inr score"
      "float_unless_none (jget raw ''minimum_confidence'') = Inr confidence"
      "dict_value (jget raw ''parameters'') = Inr parameters"
    and check: "StrategyInputRef_check
           \<lparr>ir_key = key, ir_producer = inferred_producer producer key,
            ir_capability_key = str_or render (jget raw ''capability_key'') (inferred_capability producer key),
            ir_required = bool_field raw ''required'' True,
            ir_timeframe = str_or render (jget raw ''timeframe'') [],
            ir_role = str_or render (jget raw ''role'') ''context'',
            ir_evaluation_mode = str_or render (jget raw ''evaluation_mode'') ''closed_only'',
            ir_maximum_age_ms = age, ir_weight = weight, ir_minimum_score = score,
            ir_minimum_confidence = confidence, ir_parameters = parameters\<rparr> = Inr r"
    unfolding input_ref_def Let_def raw_def key_def producer_def by (auto simp: bind_result_Inr_iff)
  note r = StrategyInputRef_check_Inr [OF check]
  have w: "is_f64 weight" using parts(1) is_f64_of_int [of 1] by (auto simp: to_float_f64 split: if_splits)
  have cap: "str_or render (JStr (ir_capability_key r)) (inferred_capability (ir_producer r) (ir_key r)) = ir_capability_key r"
  proof (cases "ir_capability_key r = []")
    case True
    with r assms(2) have "inferred_capability producer key = []" by (auto dest: str_or_empty)
    with True r inferred_stable [of "ir_producer r" producer key] show ?thesis by (simp add: str_or_def)
  qed simp
  have check': "StrategyInputRef_check r = Inr r" using check r by simp
  have "inferred_producer (ir_producer r) (ir_key r) = ir_producer r"
    using r inferred_stable(1) [of "ir_producer r" producer key] by simp
  then show ?thesis
    using r check' cap parts w dict_value_fixed [OF parts(4)]
      float_unless_none_opt_num [OF float_unless_none_f64 [OF parts(2)]]
      float_unless_none_opt_num [OF float_unless_none_f64 [OF parts(3)]]
    unfolding input_ref_def Let_def
    by (cases r) (simp add: fl_exact bool_field_def)
qed

definition normal_input :: "(json \<Rightarrow> string) \<Rightarrow> StrategyInputRef \<Rightarrow> bool" where
  "normal_input render r \<longleftrightarrow> renders_text render \<and> (\<exists>v. input_ref render v = Inr r)"

interpretation input_codec: codec input_payload "input_ref render" "normal_input render" for render
  by unfold_locales (auto simp: normal_input_def input_round_trip)

lemma input_refs_round_trip:
  assumes "input_refs render v = Inr rs" "renders_text render"
  shows "input_refs render (JArr (map input_payload rs)) = Inr rs"
proof -
  have "\<forall>r \<in> set rs. normal_input render r"
    using assms map_result_Inr_set [of "input_ref render" _ rs]
    by (auto simp: input_refs_def normal_input_def split: if_splits json.splits)
  then show ?thesis using input_codec.list_round_trip by (auto simp: input_refs_def)
qed

lemma presentation_round_trip:
  "presentation_from_payload render (presentation_payload p) = p"
  by (cases p) (simp add: presentation_from_payload_def presentation_payload_def bool_field_def)

text \<open>
  Reading a stored taxonomy migrates it to a normal form: written out and read again it
  comes back unchanged, legacy inputs included.
\<close>

theorem taxonomy_migration_idempotent:
  assumes "taxonomy_from_payload render v = Inr t" "renders_text render"
  shows "taxonomy_from_payload render (taxonomy_payload t) = Inr t"
proof -
  obtain d q xs ys where parts: "input_refs render (jget d ''indicators'') = Inr xs"
      "input_refs render (jget d ''signals'') = Inr ys"
    and check: "StrategyTaxonomy_check
       \<lparr>tx_indicators = xs, tx_signals = ys,
        tx_allow_developing_inputs = bool_field d ''allow_developing_inputs'' False,
        tx_presentation = presentation_from_payload render q,
        tx_schema_version = TAXONOMY_SCHEMA_VERSION\<rparr> = Inr t"
    using assms(1) unfolding taxonomy_from_payload_def by (auto simp: bind_result_Inr_iff)
  from check have t: "t = \<lparr>tx_indicators = xs, tx_signals = ys,
        tx_allow_developing_inputs = bool_field d ''allow_developing_inputs'' False,
        tx_presentation = presentation_from_payload render q,
        tx_schema_version = TAXONOMY_SCHEMA_VERSION\<rparr>"
    by (auto simp: StrategyTaxonomy_check_def bind_result_Inr_iff split: if_splits)
  have p: "dict_value (presentation_payload p) = Inr (presentation_payload p)" for p
    by (simp add: dict_value_def dict_or_def presentation_payload_def)
  show ?thesis
    using input_refs_round_trip [OF parts(1) assms(2)] input_refs_round_trip [OF parts(2) assms(2)] check
    by (simp add: taxonomy_from_payload_def taxonomy_payload_def dict_value_def [of "JObj _"] dict_or_def
        p presentation_round_trip t bool_field_def [of "JObj _" "''allow_developing_inputs''"])
qed

text \<open>A legacy input named only by its key takes the producer and capability of its entry.\<close>

definition demo_taxonomy_payload :: json where
  "demo_taxonomy_payload = JObj
     [(''indicators'', JArr [JStr ''vwap'', JObj [(''key'', JStr ''spread''), (''producer'', JStr ''desk''),
         (''weight'', JNum (1 / 2))]]),
      (''signals'', JArr [JStr ''company_news'']),
      (''presentation'', JObj [(''show_waits'', JBool True), (''label'', JStr ''core'')])]"

definition demo_taxonomy :: StrategyTaxonomy where
  "demo_taxonomy = (case taxonomy_from_payload (\<lambda>_. ''?'') demo_taxonomy_payload of Inr t \<Rightarrow> t)"

lemma demo_taxonomy_inputs:
  "map (\<lambda>r. (ir_key r, ir_producer r, ir_capability_key r)) (tx_indicators demo_taxonomy @ tx_signals demo_taxonomy) =
     [(''vwap'', ''qmd'', ''momentum_core''), (''spread'', ''desk'', []), (''company_news'', ''news_gateway'', [])]"
  by code_simp

theorem taxonomy_migration_idempotent_witness:
  "taxonomy_from_payload (\<lambda>_. ''?'') (taxonomy_payload demo_taxonomy) = Inr demo_taxonomy"
proof (rule taxonomy_migration_idempotent)
  show "taxonomy_from_payload (\<lambda>_. ''?'') demo_taxonomy_payload = Inr demo_taxonomy" by code_simp
  show "renders_text (\<lambda>_. ''?'')" by (simp add: renders_text_def)
qed

end
