(* ===== verification/Signals.thy ===== *)
theory Signals
  imports ExecPolicyLaws Taxonomy
begin

text \<open>
  \<open>src/trading_runtime/signals.py\<close>: market signals validated at the strategy boundary, and
  the broker-neutral intents a strategy emits. \<open>Literal\<close> annotations are not enforced by the
  code, so actions, states and directions are strings. The rendering of evidence by
  \<open>market_engine/immutable_evidence.py\<close> is not modelled.
\<close>

definition STRATEGY_INTENT_SCHEMA_VERSION :: int where "STRATEGY_INTENT_SCHEMA_VERSION = 1"

definition SUPPORTED_STRATEGY_INTENT_SCHEMA_VERSIONS :: "int list" where
  "SUPPORTED_STRATEGY_INTENT_SCHEMA_VERSIONS = [STRATEGY_INTENT_SCHEMA_VERSION]"

section \<open>Market signals\<close>

record MarketSignal =
  mk_signal_id :: string
  mk_event_id :: string
  mk_signal_key :: string
  mk_schema_version :: int
  mk_signal_version :: int
  mk_engine_version :: string
  mk_producer :: string
  mk_ticker :: string
  mk_working_timeframe :: string
  mk_observed_at :: datetime
  mk_effective_at :: datetime
  mk_state :: string
  mk_direction :: string
  mk_score :: f64
  mk_rank_score :: f64
  mk_confidence :: f64
  mk_trigger_reason :: string
  mk_reference_price :: f64
  mk_confirmation_timeframe :: "string option"
  mk_resolution_reason :: string
  mk_invalidation_price :: "f64 option"
  mk_expires_at :: "datetime option"
  mk_evidence :: json
  mk_domain :: SignalDomain
  mk_clock :: "ClockContract option"

text \<open>\<open>MarketSignal.__post_init__\<close>; it fills in the clock of a bar-close producer.\<close>

definition MarketSignal_check :: "MarketSignal \<Rightarrow> MarketSignal result" where
  "MarketSignal_check s =
     (if mk_domain s \<noteq> SD_MARKET then Inl (ValueError ''MarketSignal domain must be market'')
      else if \<not> (- 1 \<le> mk_score s \<and> mk_score s \<le> 1)
      then Inl (ValueError ''MarketSignal score must be between -1 and 1'')
      else if \<not> (0 \<le> mk_rank_score s \<and> mk_rank_score s \<le> 1)
      then Inl (ValueError ''MarketSignal rank_score must be between 0 and 1'')
      else if \<not> (0 \<le> mk_confidence s \<and> mk_confidence s \<le> 1)
      then Inl (ValueError ''MarketSignal confidence must be between 0 and 1'')
      else case mk_clock s of
        Some _ \<Rightarrow> Inr s
      | None \<Rightarrow>
          bind_result (ClockContract_check
            \<lparr>cc_input_basis = IB_BAR_DERIVED, cc_evaluation_mode = EM_CLOSED_ONLY,
             cc_update_trigger = UT_BAR_CLOSE, cc_publication_cadence = PC_BAR_CLOSE,
             cc_calculation_window = Some (mk_working_timeframe s),
             cc_publication_interval_ms = None\<rparr>) (\<lambda>c. Inr (s\<lparr>mk_clock := Some c\<rparr>)))"

definition required_fields :: "int \<Rightarrow> string list" where
  "required_fields version =
     [''signal_id'', ''event_id'', ''signal_key'', ''schema_version'', ''engine_version'',
      ''ticker'', ''working_timeframe'', ''observed_at'', ''effective_at'', ''state'',
      ''direction'', ''score''] @
     (if 3 \<le> version then [''signal_version'', ''rank_score'', ''clock''] else [])"

text \<open>\<open>float(v or 0.0)\<close>.\<close>

definition float_or_zero :: "json \<Rightarrow> f64 result" where
  "float_or_zero v = (if truthy v then to_float v else Inr 0)"

definition clock_from_payload :: "(json \<Rightarrow> string) \<Rightarrow> json \<Rightarrow> json \<Rightarrow> ClockContract result" where
  "clock_from_payload render v timeframe =
     bind_result (InputBasis_of (str_or render (jget v ''input_basis'') ''bar_derived'')) (\<lambda>basis.
     bind_result (EvaluationMode_of (str_or render (jget v ''evaluation_mode'') ''closed_only'')) (\<lambda>mode.
     bind_result (UpdateTrigger_of (str_or render (jget v ''update_trigger'') ''bar_close'')) (\<lambda>trigger.
     bind_result (PublicationCadence_of (str_or render (jget v ''publication_cadence'') ''bar_close'')) (\<lambda>cadence.
     bind_result (int_unless_none (jget v ''publication_interval_ms'')) (\<lambda>interval.
     ClockContract_check
       \<lparr>cc_input_basis = basis, cc_evaluation_mode = mode, cc_update_trigger = trigger,
        cc_publication_cadence = cadence,
        cc_calculation_window =
          Some (str_of render (if truthy (jget v ''calculation_window'') then jget v ''calculation_window'' else timeframe)),
        cc_publication_interval_ms = interval\<rparr>)))))"

definition signal_states :: "string list" where
  "signal_states = [''triggered'', ''updated'', ''resolved'', ''expired'']"

definition signal_directions :: "string list" where
  "signal_directions = [''bullish'', ''bearish'', ''neutral'']"

definition signal_times :: "(json \<Rightarrow> string) \<Rightarrow> json \<Rightarrow> (datetime \<times> datetime \<times> datetime option) result" where
  "signal_times render v =
     bind_result (aware_value render (jget v ''observed_at'')) (\<lambda>observed.
     bind_result (aware_value render (jget v ''effective_at'')) (\<lambda>effective.
     if instant observed < instant effective
     then Inl (ValueError ''QMD signal effective_at cannot be later than observed_at'')
     else if truthy (jget v ''expires_at'')
     then bind_result (aware_value render (jget v ''expires_at'')) (\<lambda>expires. Inr (observed, effective, Some expires))
     else Inr (observed, effective, None)))"

definition signal_from_fields ::
  "(json \<Rightarrow> string) \<Rightarrow> json \<Rightarrow> string \<Rightarrow> string \<Rightarrow> datetime \<times> datetime \<times> datetime option \<Rightarrow> SignalDomain
   \<Rightarrow> ClockContract \<Rightarrow> MarketSignal result" where
  "signal_from_fields render v state direction stamps domain clock =
     bind_result (to_int (jget v ''schema_version'')) (\<lambda>schema_version.
     bind_result (int_or (jget v ''signal_version'') 1) (\<lambda>signal_version.
     bind_result (float_or_zero (jget v ''score'')) (\<lambda>score.
     bind_result (if jget v ''rank_score'' \<noteq> JNull then to_float (jget v ''rank_score'') else Inr \<bar>score\<bar>) (\<lambda>rank_score.
     bind_result (float_or_zero (jget v ''confidence'')) (\<lambda>confidence.
     bind_result (float_or_zero (jget v ''reference_price'')) (\<lambda>reference_price.
     bind_result (float_unless_none (jget v ''invalidation_price'')) (\<lambda>invalidation.
     bind_result (dict_value (jget v ''evidence'')) (\<lambda>evidence.
     MarketSignal_check
       \<lparr>mk_signal_id = str_of render (jget v ''signal_id''), mk_event_id = str_of render (jget v ''event_id''),
        mk_signal_key = str_of render (jget v ''signal_key''), mk_schema_version = schema_version,
        mk_signal_version = signal_version, mk_engine_version = str_of render (jget v ''engine_version''),
        mk_producer = str_or render (jget v ''producer'') ''qmd'',
        mk_ticker = upper (str_of render (jget v ''ticker'')),
        mk_working_timeframe = str_of render (jget v ''working_timeframe''),
        mk_observed_at = fst stamps, mk_effective_at = fst (snd stamps), mk_state = state,
        mk_direction = direction, mk_score = score, mk_rank_score = rank_score,
        mk_confidence = confidence, mk_trigger_reason = str_or render (jget v ''trigger_reason'') [],
        mk_reference_price = reference_price,
        mk_confirmation_timeframe =
          (if truthy (jget v ''confirmation_timeframe'')
           then Some (str_of render (jget v ''confirmation_timeframe'')) else None),
        mk_resolution_reason = str_or render (jget v ''resolution_reason'') [],
        mk_invalidation_price = invalidation, mk_expires_at = snd (snd stamps),
        mk_evidence = evidence, mk_domain = domain, mk_clock = Some clock\<rparr>))))))))"

definition from_qmd_payload :: "(json \<Rightarrow> string) \<Rightarrow> json \<Rightarrow> MarketSignal result" where
  "from_qmd_payload render v =
     bind_result (int_or (jget v ''schema_version'') 0) (\<lambda>version.
     let missing = filter (\<lambda>k. jget v k \<in> {JNull, JStr []}) (required_fields version);
         state = lower (str_of render (jget v ''state''));
         direction = lower (str_of render (jget v ''direction''))
     in if missing \<noteq> [] then Inl (ValueError ''QMD market signal is missing fields'')
     else if state \<notin> set signal_states then Inl (ValueError ''Unsupported QMD signal state'')
     else if direction \<notin> set signal_directions then Inl (ValueError ''Unsupported QMD signal direction'')
     else
     bind_result (signal_times render v) (\<lambda>stamps.
     bind_result (SignalDomain_of (str_or render (jget v ''domain'') ''market'')) (\<lambda>domain.
     bind_result (dict_value (jget v ''clock'')) (\<lambda>clock_payload.
     bind_result (clock_from_payload render clock_payload (jget v ''working_timeframe'')) (\<lambda>clock.
     signal_from_fields render v state direction stamps domain clock)))))"

section \<open>Strategy signals and intents\<close>

record StrategySignal =
  ss_signal_id :: string
  ss_signal_type :: string
  ss_ticker :: string
  ss_event_time :: datetime
  ss_action :: string
  ss_direction :: string
  ss_score :: f64
  ss_confidence :: f64
  ss_reason :: string
  ss_source_signal_ids :: "string list"
  ss_working_timeframe :: string
  ss_invalidation_price :: "f64 option"
  ss_metadata :: json

record CapitalRequest =
  cr_mode :: string
  cr_value :: f64
  cr_minimum_quantity :: f64
  cr_maximum_quantity :: "f64 option"
  cr_allow_replacement :: bool

definition CapitalRequest_check :: "CapitalRequest \<Rightarrow> CapitalRequest result" where
  "CapitalRequest_check c =
     (if cr_value c < 0 \<or> cr_minimum_quantity c < 0
      then Inl (ValueError ''Capital request values cannot be negative'')
      else if (case cr_maximum_quantity c of Some q \<Rightarrow> q \<le> 0 | None \<Rightarrow> False)
      then Inl (ValueError ''Capital request maximum quantity must be positive'')
      else Inr c)"

record StrategyIntent =
  si_intent_id :: string
  si_ticker :: string
  si_event_time :: datetime
  si_action :: string
  si_quantity :: f64
  si_reference_price :: f64
  si_schema_version :: int
  si_capital_request :: "CapitalRequest option"
  si_invalidation_price :: "f64 option"
  si_profit_target_price :: "f64 option"
  si_trailing_amount :: "f64 option"
  si_execution_policy :: "ExecutionPolicy option"
  si_protection_profile :: "ProtectionProfile option"
  si_urgency :: string
  si_time_in_force :: string
  si_outside_rth :: bool
  si_reason :: string
  si_metadata :: json

definition sized_actions :: "string list" where
  "sized_actions = [''enter_long'', ''add_long'', ''reduce_long'', ''take_profit'', ''exit'',
     ''enter_short'', ''add_short'', ''reduce_short'', ''cover'']"

definition StrategyIntent_check :: "StrategyIntent \<Rightarrow> StrategyIntent result" where
  "StrategyIntent_check i =
     (if si_schema_version i \<notin> set SUPPORTED_STRATEGY_INTENT_SCHEMA_VERSIONS
      then Inl (ValueError ''Unsupported Strategy intent schema version'')
      else if si_intent_id i = [] \<or> si_ticker i = []
      then Inl (ValueError ''Strategy intent identity and ticker are required'')
      else if si_quantity i < 0 then Inl (ValueError ''Strategy intent quantity cannot be negative'')
      else if si_action i \<in> set sized_actions \<and> si_quantity i \<le> 0 \<and> si_capital_request i = None \<and>
        \<not> (si_action i \<in> {''exit'', ''cover''} \<and> truthy (jget (si_metadata i) ''cancel_entry_acquisition''))
      then Inl (ValueError ''requires a positive quantity'')
      else Inr i)"

definition resolved_execution_policy :: "(json \<Rightarrow> string) \<Rightarrow> StrategyIntent \<Rightarrow> ExecutionPolicy result" where
  "resolved_execution_policy render i =
     (case si_execution_policy i of
        Some p \<Rightarrow> Inr p
      | None \<Rightarrow> legacy_execution_policy render (si_urgency i) (si_metadata i))"

definition legacy_trailing :: "StrategyIntent \<Rightarrow> TrailingRule result" where
  "legacy_trailing i =
     TrailingRule_check
       (if positive_opt (si_trailing_amount i)
        then TrailingRule_default\<lparr>tg_rule_type := TR_BROKER_AMOUNT, tg_amount := si_trailing_amount i\<rparr>
        else TrailingRule_default)"

definition resolved_protection_profile :: "StrategyIntent \<Rightarrow> ProtectionProfile option result" where
  "resolved_protection_profile i =
     (if si_protection_profile i \<noteq> None then Inr (si_protection_profile i)
      else if \<not> positive_opt (si_invalidation_price i) then Inr None
      else
      bind_result (StopRule_check (StopRule_default\<lparr>sr_price := si_invalidation_price i\<rparr>)) (\<lambda>stop.
      bind_result (legacy_trailing i) (\<lambda>trailing.
      bind_result (ProtectionSlice_check
        \<lparr>sl_slice_id = ''position'', sl_quantity_fraction = 1, sl_stop = stop,
         sl_profit_target_price = None, sl_trailing = trailing, sl_inherit_profit_target = True\<rparr>) (\<lambda>slice.
      bind_result (ProtectionProfile_check
        \<lparr>pr_profile_id = ''legacy-single-stop'', pr_revision = 1, pr_slices = [slice],
         pr_add_policy = AP_INDEPENDENT_SLICE, pr_profit_pocket_transition = PT_KEEP_EXISTING,
         pr_mandatory_catastrophic_backstop = True, pr_emergency_repair_deadline_ms = 500\<rparr>) (\<lambda>p.
      Inr (Some p))))))"

record StrategyEvaluation =
  ev_signals :: "StrategySignal list"
  ev_intents :: "StrategyIntent list"

text \<open>What a strategy may hand back: nothing, an evaluation, or any other object.\<close>

datatype strategy_output = NoEvaluation | Evaluated StrategyEvaluation | OtherObject

fun normalize_strategy_evaluation :: "strategy_output \<Rightarrow> StrategyEvaluation result" where
  "normalize_strategy_evaluation NoEvaluation = Inr \<lparr>ev_signals = [], ev_intents = []\<rparr>"
| "normalize_strategy_evaluation (Evaluated e) = Inr e"
| "normalize_strategy_evaluation OtherObject =
     Inl (PyTypeError ''Strategy must return StrategyEvaluation; direct broker orders are forbidden'')"

section \<open>Properties\<close>

lemma MarketSignal_check_Inr:
  assumes "MarketSignal_check s = Inr t"
  shows "mk_domain s = SD_MARKET \<and> - 1 \<le> mk_score s \<and> mk_score s \<le> 1 \<and> 0 \<le> mk_rank_score s \<and>
    mk_rank_score s \<le> 1 \<and> 0 \<le> mk_confidence s \<and> mk_confidence s \<le> 1 \<and>
    (\<exists>c. t = s\<lparr>mk_clock := Some c\<rparr>) \<and> (mk_clock s \<noteq> None \<longrightarrow> t = s)"
  using assms
  by (cases s) (auto simp: MarketSignal_check_def bind_result_Inr_iff split: if_splits option.splits)

lemma aware_value_Inr: "aware_value render v = Inr t \<Longrightarrow> is_aware t"
  by (auto simp: aware_value_def bind_result_Inr_iff split: if_splits)

lemma signal_times_Inr:
  assumes "signal_times render v = Inr stamps"
  shows "is_aware (fst stamps) \<and> is_aware (fst (snd stamps)) \<and> instant (fst (snd stamps)) \<le> instant (fst stamps) \<and>
    (\<forall>e. snd (snd stamps) = Some e \<longrightarrow> is_aware e)"
  using assms by (auto simp: signal_times_def bind_result_Inr_iff aware_value_Inr split: if_splits)

lemma ClockContract_check_Inr: "ClockContract_check c = Inr d \<Longrightarrow> d = c \<and> ClockContract_check c = Inr c"
  by (auto simp: ClockContract_check_def split: if_splits)

lemma lower_upper_fixed: "upper (upper s) = upper s"
  by simp

text \<open>
  A market signal the strategy boundary accepts is well formed: its scores are in range,
  its state and direction are known, its times carry a zone and it is not effective before
  it could be observed, its ticker is upper case, and its clock satisfies the clock rules.
\<close>

theorem accepted_signal_well_formed:
  assumes "from_qmd_payload render v = Inr s"
  shows "- 1 \<le> mk_score s \<and> mk_score s \<le> 1 \<and> 0 \<le> mk_rank_score s \<and> mk_rank_score s \<le> 1 \<and>
    0 \<le> mk_confidence s \<and> mk_confidence s \<le> 1 \<and> mk_domain s = SD_MARKET \<and>
    mk_state s \<in> set signal_states \<and> mk_direction s \<in> set signal_directions \<and>
    is_aware (mk_observed_at s) \<and> is_aware (mk_effective_at s) \<and>
    instant (mk_effective_at s) \<le> instant (mk_observed_at s) \<and>
    upper (mk_ticker s) = mk_ticker s \<and>
    (\<exists>c. mk_clock s = Some c \<and> ClockContract_check c = Inr c)"
proof -
  from assms obtain stamps domain clock_payload clock state direction where
    p: "state \<in> set signal_states" "direction \<in> set signal_directions" "signal_times render v = Inr stamps"
      "clock_from_payload render clock_payload (jget v ''working_timeframe'') = Inr clock"
      "signal_from_fields render v state direction stamps domain clock = Inr s"
    unfolding from_qmd_payload_def Let_def by (auto simp: bind_result_Inr_iff split: if_splits)
  from p(5) obtain r where r: "MarketSignal_check r = Inr s" "mk_state r = state" "mk_direction r = direction"
    "mk_observed_at r = fst stamps" "mk_effective_at r = fst (snd stamps)" "mk_clock r = Some clock"
    "mk_ticker r = upper (str_of render (jget v ''ticker''))"
    unfolding signal_from_fields_def by (auto simp: bind_result_Inr_iff)
  from MarketSignal_check_Inr [OF r(1)] r(6) have s: "s = r" by simp
  have "ClockContract_check clock = Inr clock"
    using p(4) unfolding clock_from_payload_def by (auto simp: bind_result_Inr_iff dest: ClockContract_check_Inr)
  with s r(2-7) p(1,2) MarketSignal_check_Inr [OF r(1)] signal_times_Inr [OF p(3)] show ?thesis by simp
qed

text \<open>
  A payload that lacks one of the fields its schema version requires is rejected, and
  from version three the rank score and the clock are among them.
\<close>

theorem incomplete_signal_rejected:
  assumes "int_or (jget v ''schema_version'') 0 = Inr version"
    and "k \<in> set (required_fields version)" "jget v k \<in> {JNull, JStr []}"
  shows "from_qmd_payload render v = Inl (ValueError ''QMD market signal is missing fields'')"
  using assms by (auto simp: from_qmd_payload_def Let_def filter_empty_conv)

text \<open>
  An intent with a positive invalidation price and no profile of its own always gets the
  single-slice profile: the whole position under one fixed stop at that price, and a broker
  trail exactly when a positive trailing amount is given. No input makes this raise.
\<close>

theorem legacy_protection_profile:
  assumes "si_protection_profile i = None" "si_invalidation_price i = Some p" "0 < p"
  shows "\<exists>profile s. resolved_protection_profile i = Inr (Some profile) \<and> pr_slices profile = [s] \<and>
    sl_quantity_fraction s = 1 \<and> sl_stop s = StopRule_default\<lparr>sr_price := Some p\<rparr> \<and>
    (tg_rule_type (sl_trailing s) = TR_BROKER_AMOUNT \<longleftrightarrow> positive_opt (si_trailing_amount i))"
proof -
  have "StopRule_check (StopRule_default\<lparr>sr_price := Some p\<rparr>) = Inr (StopRule_default\<lparr>sr_price := Some p\<rparr>)"
    using assms(3) by (simp add: StopRule_check_def StopRule_default_def negative_opt_def falsy_opt_def)
  moreover have "\<exists>t. legacy_trailing i = Inr t \<and> (tg_rule_type t = TR_BROKER_AMOUNT \<longleftrightarrow> positive_opt (si_trailing_amount i))"
  proof (cases "positive_opt (si_trailing_amount i)")
    case True
    then obtain a where "si_trailing_amount i = Some a" "0 < a" by (auto simp: positive_opt_def split: option.splits)
    with True show ?thesis
      by (simp add: legacy_trailing_def TrailingRule_check_def TrailingRule_default_def negative_opt_def falsy_opt_def)
  next
    case False
    then show ?thesis
      by (simp add: legacy_trailing_def TrailingRule_check_def TrailingRule_default_def negative_opt_def)
  qed
  ultimately show ?thesis
    using assms
    by (auto simp: resolved_protection_profile_def positive_opt_def [of "Some p"] ProtectionSlice_check_def
        ProtectionProfile_check_def fsum_def fadd_def)
qed

section \<open>A concrete signal\<close>

definition demo_signal_payload :: json where
  "demo_signal_payload = JObj
     [(''signal_id'', JStr ''s1''), (''event_id'', JStr ''e1''), (''signal_key'', JStr ''k1''),
      (''schema_version'', JNum 3), (''engine_version'', JStr ''7''), (''ticker'', JStr ''abc''),
      (''working_timeframe'', JStr ''5m''), (''observed_at'', JStr ''2024-02-29T09:30:01Z''),
      (''effective_at'', JStr ''2024-02-29T09:30:00Z''), (''state'', JStr ''Triggered''),
      (''direction'', JStr ''bullish''), (''score'', JNum (1 / 2)), (''signal_version'', JNum 1),
      (''rank_score'', JNum (3 / 4)), (''clock'', JObj [(''evaluation_mode'', JStr ''closed_only'')])]"

definition demo_signal :: MarketSignal where
  "demo_signal = (case from_qmd_payload (\<lambda>_. ''?'') demo_signal_payload of Inr s \<Rightarrow> s)"

lemma demo_signal_accepted: "from_qmd_payload (\<lambda>_. ''?'') demo_signal_payload = Inr demo_signal"
  by code_simp

theorem accepted_signal_well_formed_witness:
  "mk_ticker demo_signal = ''ABC'' \<and> instant (mk_effective_at demo_signal) \<le> instant (mk_observed_at demo_signal)"
proof
  show "mk_ticker demo_signal = ''ABC''" by code_simp
  show "instant (mk_effective_at demo_signal) \<le> instant (mk_observed_at demo_signal)"
    using accepted_signal_well_formed [OF demo_signal_accepted] by blast
qed

theorem incomplete_signal_rejected_witness:
  "from_qmd_payload (\<lambda>_. ''?'') (JObj [(''schema_version'', JNum 3), (''signal_id'', JStr [])]) =
     Inl (ValueError ''QMD market signal is missing fields'')"
  by (rule incomplete_signal_rejected [where version = 3 and k = "''signal_id''"])
     (code_simp, simp_all add: required_fields_def)

definition demo_intent :: StrategyIntent where
  "demo_intent =
     \<lparr>si_intent_id = ''i1'', si_ticker = ''ABC'', si_event_time = Aware 5, si_action = ''enter_long'',
      si_quantity = 10, si_reference_price = 100, si_schema_version = 1, si_capital_request = None,
      si_invalidation_price = Some 98, si_profit_target_price = Some 110,
      si_trailing_amount = Some (1 / 2), si_execution_policy = None, si_protection_profile = None,
      si_urgency = ''aggressive_limit'', si_time_in_force = ''DAY'', si_outside_rth = False,
      si_reason = ''breakout'', si_metadata = JObj []\<rparr>"

theorem legacy_protection_profile_witness:
  "\<exists>profile s. resolved_protection_profile demo_intent = Inr (Some profile) \<and> pr_slices profile = [s] \<and>
     sl_quantity_fraction s = 1 \<and> tg_rule_type (sl_trailing s) = TR_BROKER_AMOUNT"
  using legacy_protection_profile [of demo_intent 98] by (auto simp: demo_intent_def positive_opt_def)

end
