(* ===== verification/StrategyOrders.thy ===== *)
theory StrategyOrders
  imports Signals
begin

text \<open>
  \<open>src/trading_runtime/strategy_orders.py\<close>: the translation of one semantic intent into an
  IBKR order plan, and the runtime adapter that stamps every order with its lineage.

  \<open>nonce\<close> stands for \<open>uuid4().hex[:12]\<close> and \<open>isoformat\<close> for \<open>datetime.isoformat\<close> (the zone an
  aware value is printed in is not part of its instant). \<open>round(x, 4)\<close> rounds the exact
  value half to even at the fourth decimal and returns the nearest double.
\<close>

section \<open>Plans\<close>

record StrategyOrderPlan =
  pl_orders :: "OrderRequest list"
  pl_cancel_oca_groups :: "string list"
  pl_cancel_strategy_protection :: bool
  pl_protection_reconciliation_required :: bool
  pl_batches :: "OrderRequest list list"
  pl_order_slice_ids :: "string list"

definition orders_plan :: "OrderRequest list \<Rightarrow> StrategyOrderPlan" where
  "orders_plan os =
     \<lparr>pl_orders = os, pl_cancel_oca_groups = [], pl_cancel_strategy_protection = False,
      pl_protection_reconciliation_required = False, pl_batches = [], pl_order_slice_ids = []\<rparr>"

definition StrategyOrderPlan_check :: "StrategyOrderPlan \<Rightarrow> StrategyOrderPlan result" where
  "StrategyOrderPlan_check p =
     (if pl_order_slice_ids p \<noteq> [] \<and> length (pl_order_slice_ids p) \<noteq> length (pl_orders p)
      then Inl (ValueError ''order_slice_ids must align with flattened orders'')
      else if pl_batches p \<noteq> [] \<and> concat (pl_batches p) \<noteq> pl_orders p
      then Inl (ValueError ''StrategyOrderPlan batches must flatten to orders'')
      else Inr p)"

definition broker_batches :: "StrategyOrderPlan \<Rightarrow> OrderRequest list list" where
  "broker_batches p =
     (if pl_batches p \<noteq> [] then pl_batches p else if pl_orders p \<noteq> [] then [pl_orders p] else [])"

section \<open>Quantities and prices\<close>

definition executable_quantity :: "InstrumentContract \<Rightarrow> f64 \<Rightarrow> f64" where
  "executable_quantity c q =
     (if upper (ic_security_type c) = ''STK'' then float_of_int (py_floor (fadd q lit_1e9)) else q)"

definition aggressive_limit :: "f64 \<Rightarrow> string \<Rightarrow> f64 \<Rightarrow> f64" where
  "aggressive_limit reference side offset_bps =
     (let direction = (if side = ''BUY'' then 1 else - 1) in
      fl (dquantize 4 (fmul reference (fadd 1 (fquo (fmul direction offset_bps) 10000)))))"

text \<open>\<open>for index in range(k): allocated[index % len(allocated)] += 1\<close>.\<close>

definition add_one_at :: "nat \<Rightarrow> int list \<Rightarrow> int list" where
  "add_one_at i xs = xs[i mod length xs := xs ! (i mod length xs) + 1]"

definition spread_remainder :: "int \<Rightarrow> int list \<Rightarrow> int list" where
  "spread_remainder k xs = fold add_one_at [0 ..< nat k] xs"

definition whole_slices :: "int \<Rightarrow> f64 list \<Rightarrow> int list" where
  "whole_slices shares fractions =
     (let allocated = map (\<lambda>f. py_floor (fmul (float_of_int shares) f)) fractions
      in spread_remainder (shares - sum_list allocated) allocated)"

definition slice_quantities :: "f64 \<Rightarrow> f64 list \<Rightarrow> f64 list result" where
  "slice_quantities q fractions =
     (if q \<le> 0 \<or> fractions = []
      then Inl (ValueError ''positive quantity and protection fractions are required'')
      else if isclose lit_1e9 lit_1e9 q (float_of_int (py_round q))
      then (let allocated = whole_slices (py_round q) fractions in
            if list_ex (\<lambda>v. v \<le> 0) allocated
            then Inl (ValueError ''approved quantity is too small for the requested protection slices'')
            else Inr (map float_of_int allocated))
      else (let head = map (fmul q) (butlast fractions); result = head @ [fsub q (fsum head)] in
            if list_ex (\<lambda>v. v \<le> 0) result
            then Inl (ValueError ''protection slice quantity must be positive'')
            else Inr result))"

section \<open>Orders\<close>

text \<open>\<open>{str(value) for value in v}\<close>.\<close>

definition string_items :: "(json \<Rightarrow> string) \<Rightarrow> json \<Rightarrow> string list result" where
  "string_items render v =
     (case v of
        JArr xs \<Rightarrow> Inr (map (str_of render) xs)
      | JStr s \<Rightarrow> Inr (map (\<lambda>c. [c]) s)
      | JObj kvs \<Rightarrow> Inr (map fst kvs)
      | _ \<Rightarrow> Inl (PyTypeError ''object is not iterable''))"

definition smart_broker_session_fields :: "(json \<Rightarrow> string) \<Rightarrow> StrategyIntent \<Rightarrow> (string \<times> bool) result" where
  "smart_broker_session_fields render i =
     (if jget (si_metadata i) ''session_routing'' \<noteq> JStr ''smart''
      then Inr (if si_time_in_force i = [] then ''DAY'' else si_time_in_force i, si_outside_rth i)
      else
        (let eligible = jget (si_metadata i) ''eligible_sessions'' in
         bind_result (if truthy eligible then string_items render eligible else Inr [''regular'']) (\<lambda>sessions.
         Inr (''DAY'', ''premarket'' \<in> set sessions \<or> ''after_hours'' \<in> set sessions))))"

text \<open>
  The keyword arguments of \<open>_order\<close> that vary: parent, limit price, stop price, trailing
  amount and type, and grouping.
\<close>

record OrderTerms =
  ot_parent_id :: "string option"
  ot_price :: "f64 option"
  ot_stop :: "f64 option"
  ot_trailing :: "f64 option"
  ot_trailing_type :: "string option"
  ot_grouped :: bool

definition plain_terms :: OrderTerms where
  "plain_terms = \<lparr>ot_parent_id = None, ot_price = None, ot_stop = None, ot_trailing = None,
     ot_trailing_type = None, ot_grouped = False\<rparr>"

definition make_order ::
  "(json \<Rightarrow> string) \<Rightarrow> string \<Rightarrow> InstrumentContract \<Rightarrow> string \<Rightarrow> string \<Rightarrow> string \<Rightarrow> f64 \<Rightarrow> StrategyIntent
   \<Rightarrow> OrderTerms \<Rightarrow> OrderRequest result" where
  "make_order render account c client_id side order_type q i t =
     bind_result (smart_broker_session_fields render i) (\<lambda>session.
     OrderRequest_check
       \<lparr>or_acctId = account, or_conid = ic_conid c, or_orderType = order_type, or_side = side,
        or_quantity = Some q, or_cashQty = None, or_secType = ic_security_type c,
        or_cOID = take 64 client_id, or_parentId = ot_parent_id t, or_ticker = ic_symbol c,
        or_tif = fst session, or_outsideRTH = snd session, or_price = ot_price t,
        or_auxPrice = ot_stop t, or_trailingAmt = ot_trailing t,
        or_trailingType =
          (if ot_trailing_type t \<notin> {None, Some []} then ot_trailing_type t
           else if ot_trailing t \<noteq> None then Some ''amt'' else None),
        or_listingExchange = ic_exchange c, or_isSingleGroup = ot_grouped t,
        or_manualIndicator = False, or_extOperator = None, or_referrer = None, or_strategy = None,
        or_strategyParameters = [], or_raw = no_lineage\<rparr>)"

section \<open>The planner\<close>

definition entry_actions :: "string list" where
  "entry_actions = [''enter_long'', ''add_long'', ''enter_short'', ''add_short'']"

definition order_prefix :: "string \<Rightarrow> string \<Rightarrow> int \<Rightarrow> string" where
  "order_prefix nonce strategy revision =
     take 14 strategy @ ''-v'' @ show_int revision @ ''-'' @ nonce"

definition single_order_plan ::
  "(json \<Rightarrow> string) \<Rightarrow> string \<Rightarrow> InstrumentContract \<Rightarrow> string \<Rightarrow> string \<Rightarrow> f64 \<Rightarrow> StrategyIntent
   \<Rightarrow> f64 \<Rightarrow> bool \<Rightarrow> (StrategyOrderPlan \<Rightarrow> StrategyOrderPlan) \<Rightarrow> StrategyOrderPlan result" where
  "single_order_plan render account c client_id side q i price grouped f =
     bind_result (make_order render account c client_id side ''LMT'' q i
       (plain_terms\<lparr>ot_price := Some price, ot_grouped := grouped\<rparr>)) (\<lambda>r.
     StrategyOrderPlan_check (f (orders_plan [r])))"

definition replacement_target_ok :: "StrategyIntent \<Rightarrow> bool \<Rightarrow> f64 \<Rightarrow> bool" where
  "replacement_target_ok i short target \<longleftrightarrow>
     0 < target \<and> (truthy (jget (si_metadata i) ''momentum_target_multiplier'') \<or>
       \<not> (if short then si_reference_price i \<le> target else target \<le> si_reference_price i))"

text \<open>The stop price of one slice: inherited from the position on an add, or resolved.\<close>

definition slice_stop_price ::
  "StrategyIntent \<Rightarrow> ProtectionProfile \<Rightarrow> ProtectionSlice \<Rightarrow> bool \<Rightarrow> f64 \<Rightarrow> f64 \<Rightarrow> f64 result" where
  "slice_stop_price i profile s short q volatility =
     (if si_action i \<in> {''add_long'', ''add_short''} \<and> pr_add_policy profile = AP_INHERIT_POSITION_STOP
      then bind_result (float_or_zero (jget (si_metadata i) ''position_stop_price'')) (\<lambda>stop.
        if stop \<le> 0
        then Inl (ValueError ''inherit_position_stop add policy requires position_stop_price'')
        else if (if short then stop \<le> si_reference_price i else si_reference_price i \<le> stop)
        then Inl (ValueError ''inherited position stop is on the wrong side of the add'')
        else Inr stop)
      else resolve_stop (sl_stop s) (si_reference_price i) (if short then ''short'' else ''long'') q volatility)"

definition stop_limit_price :: "ProtectionSlice \<Rightarrow> bool \<Rightarrow> f64 \<Rightarrow> f64 option" where
  "stop_limit_price s short stop =
     (if sr_order_type (sl_stop s) = SO_STOP_LIMIT
      then (let offset = fquo (or_zero (sr_stop_limit_offset_bps (sl_stop s))) 10000 in
            Some (fmul stop (if short then fadd 1 offset else fsub 1 offset)))
      else None)"

definition slice_target :: "StrategyIntent \<Rightarrow> ProtectionSlice \<Rightarrow> bool \<Rightarrow> f64 option" where
  "slice_target i s short =
     (case (if sl_profit_target_price s = None \<and> sl_inherit_profit_target s
            then si_profit_target_price i else sl_profit_target_price s) of
        Some t \<Rightarrow> if (if short then t < si_reference_price i else si_reference_price i < t) then Some t else None
      | None \<Rightarrow> None)"

definition slice_trail :: "ProtectionSlice \<Rightarrow> (f64 option \<times> string) option" where
  "slice_trail s =
     (case tg_rule_type (sl_trailing s) of
        TR_BROKER_AMOUNT \<Rightarrow> Some (tg_amount (sl_trailing s), ''amt'')
      | TR_BROKER_PERCENT \<Rightarrow> Some (tg_percent (sl_trailing s), ''%'')
      | _ \<Rightarrow> None)"

text \<open>An optional child: no order when there is nothing to ask for.\<close>

definition optional_order :: "'a option \<Rightarrow> ('a \<Rightarrow> OrderRequest result) \<Rightarrow> OrderRequest list result" where
  "optional_order x f =
     (case x of None \<Rightarrow> Inr [] | Some v \<Rightarrow> bind_result (f v) (\<lambda>r. Inr [r]))"

definition slice_batch ::
  "(json \<Rightarrow> string) \<Rightarrow> string \<Rightarrow> InstrumentContract \<Rightarrow> string \<Rightarrow> StrategyIntent \<Rightarrow> ProtectionProfile \<Rightarrow> bool
   \<Rightarrow> f64 \<Rightarrow> f64 \<Rightarrow> nat \<times> ProtectionSlice \<times> f64 \<Rightarrow> OrderRequest list result" where
  "slice_batch render account c prefix i profile short entry_price volatility row =
     (let s = fst (snd row); q = snd (snd row);
          name = prefix @ ''-s'' @ show_int (int (fst row) + 1);
          entry_side = (if short then ''SELL'' else ''BUY''); exit_side = (if short then ''BUY'' else ''SELL'')
      in
     bind_result (make_order render account c (name @ ''-entry'') entry_side ''LMT'' q i
       (plain_terms\<lparr>ot_price := Some entry_price, ot_grouped := True\<rparr>)) (\<lambda>parent.
     bind_result (slice_stop_price i profile s short q volatility) (\<lambda>stop.
     bind_result (optional_order (slice_target i s short) (\<lambda>t.
       make_order render account c (name @ ''-target'') exit_side ''LMT'' q i
         (plain_terms\<lparr>ot_parent_id := Some (or_cOID parent), ot_price := Some t, ot_grouped := True\<rparr>))) (\<lambda>targets.
     bind_result (make_order render account c (name @ ''-stop'') exit_side
       (StopOrderType_value (sr_order_type (sl_stop s))) q i
       (plain_terms\<lparr>ot_parent_id := Some (or_cOID parent), ot_price := stop_limit_price s short stop,
          ot_stop := Some stop, ot_grouped := True\<rparr>)) (\<lambda>protection.
     bind_result (optional_order (slice_trail s) (\<lambda>t.
       make_order render account c (name @ ''-trail'') exit_side ''TRAIL'' q i
         (plain_terms\<lparr>ot_parent_id := Some (or_cOID parent), ot_trailing := fst t,
            ot_trailing_type := Some (snd t), ot_grouped := True\<rparr>))) (\<lambda>trails.
     Inr (parent # targets @ protection # trails)))))))"

definition entry_plan ::
  "(json \<Rightarrow> string) \<Rightarrow> string \<Rightarrow> InstrumentContract \<Rightarrow> string \<Rightarrow> StrategyIntent \<Rightarrow> f64 \<Rightarrow> f64
   \<Rightarrow> StrategyOrderPlan result" where
  "entry_plan render account c prefix i q limit_offset_bps =
     (let short = si_action i \<in> {''enter_short'', ''add_short''};
          entry_side = (if short then ''SELL'' else ''BUY'');
          entry_price = aggressive_limit (si_reference_price i) entry_side limit_offset_bps
      in
     bind_result (make_order render account c (prefix @ ''-entry'') entry_side ''LMT'' q i
       (plain_terms\<lparr>ot_price := Some entry_price, ot_grouped := True\<rparr>)) (\<lambda>_.
     bind_result (resolved_protection_profile i) (\<lambda>found.
     case found of
       None \<Rightarrow>
         if truthy (jget (si_metadata i) ''unprotected_backtest_authorized'') \<and>
            jget (si_metadata i) ''contract'' = JStr ''macd-threshold-100ms-1''
         then single_order_plan render account c (prefix @ ''-entry'') entry_side q i entry_price False id
         else Inl (ValueError ''Entry and add intents require a broker-held protection profile'')
     | Some profile \<Rightarrow>
         bind_result (float_or_zero (jget (si_metadata i) ''volatility'')) (\<lambda>volatility.
         bind_result (slice_quantities q (map sl_quantity_fraction (pr_slices profile))) (\<lambda>qs.
         bind_result (map_result (slice_batch render account c prefix i profile short entry_price volatility)
           (enumerate 0 (zip (pr_slices profile) qs))) (\<lambda>batches.
         StrategyOrderPlan_check
           \<lparr>pl_orders = concat batches, pl_cancel_oca_groups = [], pl_cancel_strategy_protection = False,
            pl_protection_reconciliation_required = si_action i \<in> {''add_long'', ''add_short''},
            pl_batches = batches,
            pl_order_slice_ids =
              concat (map (\<lambda>(s, b). replicate (length b) (sl_slice_id s)) (zip (pr_slices profile) batches))\<rparr>))))))"

definition plan ::
  "(json \<Rightarrow> string) \<Rightarrow> string \<Rightarrow> string \<Rightarrow> InstrumentContract \<Rightarrow> StrategyIntent \<Rightarrow> string \<Rightarrow> int \<Rightarrow> f64
   \<Rightarrow> StrategyOrderPlan result" where
  "plan render nonce account c i strategy revision limit_offset_bps =
     (let q = executable_quantity c (si_quantity i);
          prefix = order_prefix nonce strategy revision;
          short = lower (str_or render (jget (si_metadata i) ''position_side'') ''long'') = ''short'';
          exit_side = (if short then ''BUY'' else ''SELL'')
      in
      if q \<le> 0 then Inl (ValueError ''Order planning requires at least one executable share'')
      else if si_action i = ''replace_profit_target''
      then (let target = or_zero (si_profit_target_price i) in
            if \<not> replacement_target_ok i short target
            then Inl (ValueError ''Replacement profit target is on the wrong side of the market'')
            else single_order_plan render account c (prefix @ ''-target-replacement'') exit_side q i target True id)
      else if si_action i = ''exit''
      then single_order_plan render account c (prefix @ ''-exit'') exit_side q i
             (aggressive_limit (si_reference_price i) exit_side limit_offset_bps) True
             (pl_cancel_strategy_protection_update (\<lambda>_. True))
      else if si_action i \<in> {''reduce_long'', ''take_profit''}
      then single_order_plan render account c (prefix @ ''-reduce'') ''SELL'' q i
             (aggressive_limit (si_reference_price i) ''SELL'' limit_offset_bps) False
             (pl_protection_reconciliation_required_update (\<lambda>_. True))
      else if si_action i \<in> {''reduce_short'', ''cover''}
      then single_order_plan render account c (prefix @ ''-cover'') ''BUY'' q i
             (aggressive_limit (si_reference_price i) ''BUY'' limit_offset_bps) False
             (pl_protection_reconciliation_required_update (\<lambda>_. True))
      else if si_action i \<notin> set entry_actions then StrategyOrderPlan_check (orders_plan [])
      else entry_plan render account c prefix i q limit_offset_bps)"

section \<open>Lineage\<close>

definition planned_execution_role :: "OrderRequest \<Rightarrow> string \<Rightarrow> string" where
  "planned_execution_role r action =
     (let order_type = upper (or_orderType r) in
      if or_parentId r \<in> {None, Some []}
      then (if action \<in> set entry_actions then ''entry'' else ''managed_exit'')
      else if order_type = ''LMT'' then ''profit_target''
      else if order_type \<in> {''STP'', ''STOP_LIMIT''} then ''protective_stop''
      else if order_type \<in> {''TRAIL'', ''TRAILLMT''} then ''trailing_stop''
      else ''protective_exit'')"

text \<open>\<open>metadata['momentum_target']['multiplier']\<close> inside an f-string.\<close>

definition momentum_reason :: "(json \<Rightarrow> string) \<Rightarrow> json \<Rightarrow> string result" where
  "momentum_reason render target =
     bind_result (item target ''multiplier'') (\<lambda>m. Inr (''momentum_target_'' @ str_of render m @ ''x''))"

definition default_reason :: "string \<Rightarrow> string \<Rightarrow> string" where
  "default_reason role intent_reason =
     dget [(''profit_target'', ''structural_profit_target_filled''),
       (''protective_stop'', ''protective_stop_filled''), (''trailing_stop'', ''trailing_stop_filled''),
       (''protective_exit'', ''protective_exit_filled'')] role intent_reason"

definition execution_reason :: "(json \<Rightarrow> string) \<Rightarrow> string \<Rightarrow> string \<Rightarrow> json \<Rightarrow> json result" where
  "execution_reason render role intent_reason metadata =
     (let target = jget metadata ''momentum_target'' in
      if truthy target \<and> role = ''profit_target''
      then bind_result (momentum_reason render target) (\<lambda>s. Inr (JStr s))
      else if truthy target \<and> role = ''protective_stop''
      then Inr (if has_key metadata ''stop_exit_reason'' then jget metadata ''stop_exit_reason''
                else JStr ''protective_stop'')
      else Inr (JStr (default_reason role intent_reason)))"

text \<open>\<open>{**base, ...}\<close>.\<close>

definition merged :: "json \<Rightarrow> (string \<times> json) list \<Rightarrow> json" where
  "merged base kvs = (case base of JObj xs \<Rightarrow> JObj (dupdate xs kvs) | _ \<Rightarrow> JObj (dupdate [] kvs))"

fun contains_text :: "string \<Rightarrow> string \<Rightarrow> bool" where
  "contains_text pat [] = (pat = [])"
| "contains_text pat (c # cs) = (take (length pat) (c # cs) = pat \<or> contains_text pat cs)"

definition lineage_entries :: "(datetime \<Rightarrow> string) \<Rightarrow> StrategyIntent \<Rightarrow> string \<Rightarrow> json \<Rightarrow> (string \<times> json) list" where
  "lineage_entries isoformat i role reason =
     [(''action'', JStr (si_action i)), (''decision_event_time'', JStr (isoformat (si_event_time i))),
      (''execution_role'', JStr role), (''reason'', reason)]"

definition canonical_runtime_metadata ::
  "(json \<Rightarrow> string) \<Rightarrow> (datetime \<Rightarrow> string) \<Rightarrow> OrderRequest \<Rightarrow> StrategyIntent \<Rightarrow> json result" where
  "canonical_runtime_metadata render isoformat r i =
     (let base = si_metadata i; target = jget base ''momentum_target'';
          price = (''signal_price'', JNum (si_reference_price i)) in
      if contains_text ''repair-target-'' (or_cOID r)
      then (if truthy target
            then bind_result (momentum_reason render target) (\<lambda>default.
              Inr (merged base (lineage_entries isoformat i ''profit_target'' (JStr ''restore_position_profit_target'') @
                [price,
                 (''exit_reason'', if has_key target ''exit_reason'' then jget target ''exit_reason'' else JStr default),
                 (''momentum_target'', target), (''momentum_fill_average'', jget base ''momentum_fill_average'')])))
            else Inr (merged base (lineage_entries isoformat i ''profit_target'' (JStr ''restore_position_profit_target'') @ [price])))
      else if contains_text ''-repair-'' (or_cOID r) \<and> upper (or_orderType r) \<in> {''STP'', ''STOP_LIMIT''}
      then bind_result (execution_reason render ''protective_stop'' (si_reason i) base) (\<lambda>reason.
        Inr (merged base (lineage_entries isoformat i ''protective_stop'' reason @
          (if truthy target then [(''exit_reason'', reason)] else []) @ [price])))
      else
        (let role = planned_execution_role r (si_action i) in
         bind_result (execution_reason render role (si_reason i) base) (\<lambda>reason.
         Inr (merged base (lineage_entries isoformat i role reason @
           (if truthy target \<and> role \<noteq> ''entry'' then [(''exit_reason'', reason)] else []) @ [price])))))"

definition canonical_runtime_order ::
  "(json \<Rightarrow> string) \<Rightarrow> (datetime \<Rightarrow> string) \<Rightarrow> StrategyIntent \<Rightarrow> string \<Rightarrow> string \<Rightarrow> int \<Rightarrow> OrderRequest
   \<Rightarrow> OrderRequest result" where
  "canonical_runtime_order render isoformat i run strategy revision r =
     bind_result (canonical_runtime_metadata render isoformat r i) (\<lambda>metadata.
     OrderRequest_check (r\<lparr>or_raw := (or_raw r)\<lparr>ol_run_id := run, ol_strategy_id := strategy,
       ol_strategy_revision := revision, ol_metadata := metadata\<rparr>\<rparr>))"

section \<open>The runtime planner\<close>

record RuntimePlanner =
  rp_instruments :: "string \<Rightarrow> InstrumentContract option"
  rp_strategy_id :: string
  rp_strategy_revision :: int
  rp_run_id :: string
  rp_limit_offset_bps :: f64

definition runtime_planner ::
  "(string, InstrumentContract) dict \<Rightarrow> string \<Rightarrow> int \<Rightarrow> string \<Rightarrow> f64 \<Rightarrow> RuntimePlanner" where
  "runtime_planner instruments strategy revision run offset =
     \<lparr>rp_instruments = fold (\<lambda>(k, v) m. m(upper k := Some v)) instruments (\<lambda>_. None),
      rp_strategy_id = strategy, rp_strategy_revision = revision, rp_run_id = run,
      rp_limit_offset_bps = offset\<rparr>"

definition upsert_instrument :: "InstrumentContract \<Rightarrow> RuntimePlanner \<Rightarrow> RuntimePlanner" where
  "upsert_instrument c p = p\<lparr>rp_instruments := (rp_instruments p)(upper (ic_symbol c) := Some c)\<rparr>"

text \<open>
  The code keeps the enriched orders by object identity; the batches of a plan hold the very
  objects of its order list, so both lists are enriched element by element.
\<close>

definition runtime_plan ::
  "(json \<Rightarrow> string) \<Rightarrow> (datetime \<Rightarrow> string) \<Rightarrow> string \<Rightarrow> RuntimePlanner \<Rightarrow> StrategyIntent \<Rightarrow> string
   \<Rightarrow> StrategyOrderPlan result" where
  "runtime_plan render isoformat nonce p i account =
     (case rp_instruments p (upper (si_ticker i)) of
        None \<Rightarrow> Inl (ValueError ''No point-in-time instrument contract for strategy ticker'')
      | Some c \<Rightarrow>
          bind_result (plan render nonce account c i (rp_strategy_id p) (rp_strategy_revision p)
            (rp_limit_offset_bps p)) (\<lambda>planned.
          let enrich = canonical_runtime_order render isoformat i (rp_run_id p) (rp_strategy_id p) (rp_strategy_revision p) in
          bind_result (map_result enrich (pl_orders planned)) (\<lambda>orders.
          bind_result (map_result (map_result enrich) (pl_batches planned)) (\<lambda>batches.
          StrategyOrderPlan_check (planned\<lparr>pl_orders := orders, pl_batches := batches\<rparr>)))))"

definition should_cancel_strategy_protection :: "StrategyIntent \<Rightarrow> bool" where
  "should_cancel_strategy_protection i \<longleftrightarrow> si_action i = ''exit''"

definition protective_order_prefix :: "RuntimePlanner \<Rightarrow> string" where
  "protective_order_prefix p = take 14 (rp_strategy_id p) @ ''-v'' @ show_int (rp_strategy_revision p) @ ''-''"

end
