(* ===== verification/StrategyOrdersLaws.thy ===== *)
theory StrategyOrdersLaws
  imports StrategyOrders SimState
begin

text \<open>
  Properties of the order planner: the protection slices cover the approved quantity exactly,
  every entry batch is protected, the other actions send one order, and the lineage the
  runtime stamps on an order keeps its submission from preceding the decision.
\<close>

section \<open>Slices\<close>

lemma fractions_sum:
  assumes xs: "\<forall>x \<in> set xs. 0 \<le> x \<and> x \<le> 1" "length xs \<le> 1000"
    and close: "isclose lit_1e9 lit_1e9 (fsum xs) 1"
  shows "sum_list xs \<le> 1 + 4 / 1000000000"
proof -
  define f where "f = fsum xs"
  have n: "of_nat (length xs) \<le> (1000 :: rat)" using xs(2) by simp
  have near: "\<bar>f - sum_list xs\<bar> \<le> 2 / 1000000000" and f0: "0 \<le> f"
    using fsum_near [OF xs] n by (auto simp: f_def)
  have l: "0 < lit_1e9" "lit_1e9 \<le> 11 / 10000000000" by (rule lit_1e9_pos, rule lit_1e9_bounds)
  have "f \<le> 1 + 2 / 1000000000"
  proof (rule ccontr)
    assume "\<not> ?thesis"
    then have big: "1 + 2 / 1000000000 < f" by simp
    define d where "d = f - 1"
    have d: "2 / 1000000000 < d" "\<bar>1 - f\<bar> = d" using big by (simp_all add: d_def)
    have up: "fmul lit_1e9 1 \<le> 12 / 10000000000"
      using fl_err [of lit_1e9] l by (simp add: fmul_def)
    have fd: "d - d / 1000000000000000 - 1 / 1000000000000000000 \<le> fl d" using fl_err [of d] d by simp
    have lf: "lit_1e9 * f \<le> 11 / 10000000000 * (1 + d)"
      using mult_right_mono [OF l(2) f0] by (simp add: d_def)
    have "fmul lit_1e9 f \<le> lit_1e9 * f + lit_1e9 * f / 1000000000000000 + 1 / 1000000000000000000"
      using fl_err [of "lit_1e9 * f"] l f0 by (simp add: fmul_def)
    also have "\<dots> \<le> 11 / 10000000000 * (1 + d) + 11 / 10000000000 * (1 + d) / 1000000000000000 + 1 / 1000000000000000000"
      using lf by (intro add_mono divide_right_mono) simp_all
    also have "\<dots> \<le> 12 / 10000000000 * (1 + d) + 1 / 1000000000000000000" using d(1) by (simp add: field_simps)
    finally have ub: "fmul lit_1e9 f \<le> d * (12 / 10000000000) + 12 / 10000000000 + 1 / 1000000000000000000"
      by (simp only: ring_distribs mult.commute mult_1_left)
    have "0 \<le> fmul lit_1e9 1" "0 \<le> fmul lit_1e9 f" using l f0 by (simp_all add: fmul_nonneg)
    then have "fl d \<le> fmul lit_1e9 1 \<or> fl d \<le> fmul lit_1e9 f \<or> fl d \<le> lit_1e9"
      using close big d by (auto simp: isclose_def Let_def simp flip: f_def)
    moreover have "d / 1000000000000000 \<le> d / 1000" using d(1) by (simp add: field_simps)
    ultimately show False using fd up ub d(1) l by (elim disjE) linarith+
  qed
  with near show ?thesis by linarith
qed

text \<open>Handing out the remainder adds it up.\<close>

lemma sum_list_update_int: "i < length xs \<Longrightarrow> sum_list (xs[i := (v :: int)]) = sum_list xs + v - xs ! i"
  by (induction xs arbitrary: i) (auto split: nat.splits)

lemma add_one_at_props [simp]:
  "length (add_one_at i xs) = length xs" "xs \<noteq> [] \<Longrightarrow> sum_list (add_one_at i xs) = sum_list xs + 1"
proof -
  show "length (add_one_at i xs) = length xs" by (simp add: add_one_at_def)
  assume "xs \<noteq> []"
  then have "i mod length xs < length xs" by simp
  then show "sum_list (add_one_at i xs) = sum_list xs + 1" by (simp add: add_one_at_def sum_list_update_int)
qed

lemma spread_remainder_props:
  "length (spread_remainder k xs) = length xs"
  "xs \<noteq> [] \<Longrightarrow> 0 \<le> k \<Longrightarrow> sum_list (spread_remainder k xs) = sum_list xs + k"
proof -
  have "length (fold add_one_at is xs) = length xs" for "is"
    by (induction "is" arbitrary: xs) simp_all
  then show "length (spread_remainder k xs) = length xs" by (simp add: spread_remainder_def)
  have "xs \<noteq> [] \<Longrightarrow> sum_list (fold add_one_at is xs) = sum_list xs + int (length is)" for "is"
  proof (induction "is" arbitrary: xs)
    case (Cons i "is")
    have "add_one_at i xs \<noteq> []" using Cons.prems by (simp add: add_one_at_def)
    with Cons show ?case by simp
  qed simp
  then show "xs \<noteq> [] \<Longrightarrow> 0 \<le> k \<Longrightarrow> sum_list (spread_remainder k xs) = sum_list xs + k"
    by (simp add: spread_remainder_def)
qed

lemma floors_within:
  assumes xs: "\<forall>x \<in> set xs. 0 \<le> x" "length xs \<le> 1000" and s: "sum_list xs \<le> 1 + 4 / 1000000000"
    and n: "0 \<le> n" "n \<le> 100000000"
  shows "(\<Sum>f \<leftarrow> xs. py_floor (fmul (of_int n) f)) \<le> n"
proof -
  have n': "0 \<le> (of_int n :: rat)" "of_int n \<le> (100000000 :: rat)"
    using n by simp_all
  have bound: "of_int (py_floor (fmul (of_int n) f)) \<le> of_int n * f * (1 + 1 / 1000000000000000) + 1 / 1000000000000000000" if "0 \<le> f" for f :: rat
  proof -
    define y where "y = of_int n * f"
    have "\<bar>fl y - y\<bar> \<le> y / 1000000000000000 + 1 / 1000000000000000000"
      using that n'(1) by (intro fl_err) (simp add: y_def)
    moreover have "of_int \<lfloor>fl y\<rfloor> \<le> fl y" by simp
    ultimately have "of_int \<lfloor>fl y\<rfloor> \<le> y + y / 1000000000000000 + 1 / 1000000000000000000" by linarith
    then show ?thesis
      by (simp only: fmul_def py_floor_def y_def ring_distribs mult_1_right times_divide_eq_right)
  qed
  have "of_int (\<Sum>f \<leftarrow> xs. py_floor (fmul (of_int n) f)) \<le>
      of_int n * sum_list xs * (1 + 1 / 1000000000000000) + of_nat (length xs) / 1000000000000000000"
    using xs(1)
  proof (induction xs)
    case (Cons f fs)
    then show ?case using bound [of f] by (simp add: algebra_simps add_divide_distrib)
  qed simp
  also have "\<dots> \<le> of_int n * (1 + 4 / 1000000000) * (1 + 1 / 1000000000000000) + 1000 / 1000000000000000000"
    using n' s xs(2) sum_list_nonneg [of xs] xs(1)
    by (intro add_mono mult_mono divide_right_mono mult_nonneg_nonneg) simp_all
  also have "\<dots> < of_int n + 1" using n' by simp
  finally show ?thesis by linarith
qed

lemma whole_slices_sum:
  assumes xs: "\<forall>x \<in> set xs. 0 \<le> x" "length xs \<le> 1000" "xs \<noteq> []"
    and s: "sum_list xs \<le> 1 + 4 / 1000000000" and n: "0 \<le> n" "n \<le> 100000000"
  shows "sum_list (whole_slices n xs) = n \<and> length (whole_slices n xs) = length xs"
proof -
  have "float_of_int n = of_int n"
    using n by (simp add: float_of_int_def fl_exact is_f64_of_int)
  with floors_within [OF xs(1,2) s n] xs(3) show ?thesis
    by (simp add: whole_slices_def Let_def spread_remainder_props)
qed

lemma py_round_of_int [simp]: "py_round (of_int n) = n"
  by (simp add: py_round_def)

lemma slice_quantities_whole:
  assumes profile: "ProtectionProfile_check p = Inr p"
      "\<forall>s \<in> set (pr_slices p). ProtectionSlice_check s = Inr s" "length (pr_slices p) \<le> 1000"
    and n: "n \<le> 100000000"
    and slices: "slice_quantities (of_int n) (map sl_quantity_fraction (pr_slices p)) = Inr qs"
  shows "sum_list qs = of_int n \<and> length qs = length (pr_slices p) \<and>
    (\<forall>q \<in> set qs. 1 \<le> q \<and> q = of_int \<lfloor>q\<rfloor>)"
proof -
  define xs where "xs = map sl_quantity_fraction (pr_slices p)"
  define ns where "ns = whole_slices n xs"
  from slices have n0: "0 < n" and xs0: "xs \<noteq> []"
    by (auto simp: slice_quantities_def xs_def split: if_splits)
  have f: "float_of_int k = of_int k" if "0 \<le> k" "k \<le> n" for k
    using that n by (simp add: float_of_int_def fl_exact is_f64_of_int)
  have qs: "qs = map float_of_int ns" and pos: "\<forall>v \<in> set ns. 0 < v"
    using slices n0 xs0 by (auto simp: slice_quantities_def ns_def f list_ex_iff not_le Let_def simp flip: xs_def split: if_splits)
  have "\<forall>x \<in> set xs. 0 \<le> x \<and> x \<le> 1"
    using profile(2) by (auto simp: xs_def ProtectionSlice_check_def split: if_splits)
  moreover have "isclose lit_1e9 lit_1e9 (fsum xs) 1"
    using profile(1) by (auto simp: xs_def ProtectionProfile_check_def split: if_splits)
  ultimately have ns: "sum_list ns = n \<and> length ns = length xs"
    unfolding ns_def using profile(3) xs0 n0 n by (intro whole_slices_sum fractions_sum) (auto simp: xs_def)
  have "v \<le> n" if "v \<in> set ns" for v
    using that pos ns member_le_sum_list [of v ns] by (auto simp: order_less_imp_le)
  then have qs': "qs = map of_int ns" using f pos by (auto simp: qs intro!: map_cong)
  moreover have "sum_list (map (of_int :: int \<Rightarrow> rat) ns) = of_int (sum_list ns)" by (induction ns) simp_all
  ultimately show ?thesis using ns pos by (auto simp: xs_def int_one_le_iff_zero_less)
qed

text \<open>
  C15. For a whole number of shares and the slices of a checked protection profile, the slice
  quantities are whole, positive, one per slice, and add up to exactly the approved quantity.
\<close>

theorem slice_quantities_exact:
  assumes profile: "ProtectionProfile_check p = Inr p"
      "\<forall>s \<in> set (pr_slices p). ProtectionSlice_check s = Inr s" "length (pr_slices p) \<le> 1000"
    and n: "n \<le> 100000000"
    and slices: "slice_quantities (of_int n) (map sl_quantity_fraction (pr_slices p)) = Inr qs"
  shows "sum_list qs = of_int n \<and> length qs = length (pr_slices p) \<and>
    (\<forall>q \<in> set qs. 1 \<le> q \<and> q = of_int \<lfloor>q\<rfloor>)"
  using assms by (rule slice_quantities_whole)

section \<open>Orders of a plan\<close>

lemma make_order_Inr:
  assumes "make_order render account c cid side ty q i t = Inr r"
  shows "or_side r = side \<and> or_orderType r = ty \<and> or_quantity r = Some q \<and> or_cashQty r = None \<and>
    or_acctId r = account \<and> or_conid r = ic_conid c \<and> or_ticker r = ic_symbol c \<and>
    or_parentId r = ot_parent_id t \<and> or_price r = ot_price t \<and> or_auxPrice r = ot_stop t \<and>
    or_isSingleGroup r = ot_grouped t \<and> or_cOID r = take 64 cid \<and> or_raw r = no_lineage \<and>
    OrderRequest_check r = Inr r"
  using assms unfolding make_order_def
  by (auto simp: bind_result_Inr_iff dest: OrderRequest_check_Inr(1))

text \<open>One protected entry: what a batch of the planner is.\<close>

definition opposite :: "string \<Rightarrow> string" where
  "opposite side = (if side = ''BUY'' then ''SELL'' else ''BUY'')"

definition protects :: "f64 \<Rightarrow> OrderRequest \<Rightarrow> OrderRequest \<Rightarrow> bool" where
  "protects reference parent r \<longleftrightarrow>
     or_orderType r \<in> {''STP'', ''STOP_LIMIT''} \<and> or_quantity r = or_quantity parent \<and>
     or_side r = opposite (or_side parent) \<and> or_parentId r = Some (or_cOID parent) \<and>
     or_isSingleGroup r \<and>
     (\<exists>p. or_auxPrice r = Some p \<and> 0 < p \<and> (if or_side parent = ''BUY'' then p < reference else reference < p))"

definition protected_batch :: "f64 \<Rightarrow> string \<Rightarrow> f64 \<Rightarrow> OrderRequest list \<Rightarrow> bool" where
  "protected_batch reference side q batch \<longleftrightarrow> (\<exists>parent children. batch = parent # children \<and>
     or_parentId parent = None \<and> or_cOID parent \<noteq> [] \<and> or_side parent = side \<and> or_quantity parent = Some q \<and>
     or_orderType parent = ''LMT'' \<and> (\<exists>r \<in> set children. protects reference parent r) \<and>
     (\<forall>r \<in> set children. or_parentId r = Some (or_cOID parent) \<and> or_side r = opposite side \<and>
        or_quantity r = Some q \<and> or_isSingleGroup r))"

lemma resolve_stop_Inr:
  "resolve_stop s reference side q v = Inr p \<Longrightarrow>
   0 < p \<and> (if lower side = ''long'' then p < reference else reference < p)"
  by (auto simp: resolve_stop_def Let_def split: if_splits)

lemma lower_sides [simp]: "lower ''long'' = ''long''" "lower ''short'' = ''short''"
  by code_simp+

lemma slice_stop_price_Inr:
  "slice_stop_price i profile s short q v = Inr p \<Longrightarrow>
   0 < p \<and> (if short then si_reference_price i < p else p < si_reference_price i)"
  by (auto simp: slice_stop_price_def bind_result_Inr_iff dest!: resolve_stop_Inr split: if_splits)

lemma optional_order_Inr:
  "optional_order x f = Inr rs \<Longrightarrow> r \<in> set rs \<Longrightarrow> \<exists>v. x = Some v \<and> f v = Inr r"
  by (cases x) (auto simp: optional_order_def bind_result_Inr_iff)

lemma slice_batch_protected:
  assumes "slice_batch render account c prefix i profile short entry_price volatility (k, s, q) = Inr batch"
  shows "protected_batch (si_reference_price i) (if short then ''SELL'' else ''BUY'') q batch"
proof -
  let ?entry = "if short then ''SELL'' else ''BUY''" and ?exit = "if short then ''BUY'' else ''SELL''"
  let ?name = "prefix @ ''-s'' @ show_int (int k + 1)"
  obtain parent stop targets protection trails where
    parent: "make_order render account c (?name @ ''-entry'') ?entry ''LMT'' q i
       (plain_terms\<lparr>ot_price := Some entry_price, ot_grouped := True\<rparr>) = Inr parent"
    and stop: "slice_stop_price i profile s short q volatility = Inr stop"
    and targets: "optional_order (slice_target i s short) (\<lambda>t.
       make_order render account c (?name @ ''-target'') ?exit ''LMT'' q i
         (plain_terms\<lparr>ot_parent_id := Some (or_cOID parent), ot_price := Some t, ot_grouped := True\<rparr>)) = Inr targets"
    and protection: "make_order render account c (?name @ ''-stop'') ?exit
       (StopOrderType_value (sr_order_type (sl_stop s))) q i
       (plain_terms\<lparr>ot_parent_id := Some (or_cOID parent), ot_price := stop_limit_price s short stop,
          ot_stop := Some stop, ot_grouped := True\<rparr>) = Inr protection"
    and trails: "optional_order (slice_trail s) (\<lambda>t.
       make_order render account c (?name @ ''-trail'') ?exit ''TRAIL'' q i
         (plain_terms\<lparr>ot_parent_id := Some (or_cOID parent), ot_trailing := fst t,
            ot_trailing_type := Some (snd t), ot_grouped := True\<rparr>)) = Inr trails"
    and batch: "batch = parent # targets @ protection # trails"
    using assms unfolding slice_batch_def Let_def by (auto simp: bind_result_Inr_iff)
  have child: "or_parentId r = Some (or_cOID parent) \<and> or_side r = ?exit \<and> or_quantity r = Some q \<and> or_isSingleGroup r"
    if "r \<in> set (targets @ protection # trails)" for r
    using that optional_order_Inr [OF targets, of r] optional_order_Inr [OF trails, of r]
      make_order_Inr [OF protection]
    by (auto dest!: make_order_Inr)
  have p: "or_side parent = ?entry \<and> or_quantity parent = Some q \<and> or_parentId parent = None \<and> or_orderType parent = ''LMT'' \<and> or_cOID parent \<noteq> []"
    using make_order_Inr [OF parent] by (simp add: plain_terms_def)
  moreover have "StopOrderType_value (sr_order_type (sl_stop s)) \<in> {''STP'', ''STOP_LIMIT''}"
    by (cases "sr_order_type (sl_stop s)") simp_all
  ultimately have "protects (si_reference_price i) parent protection"
    using make_order_Inr [OF protection] slice_stop_price_Inr [OF stop]
    by (auto simp: protects_def opposite_def)
  with p child show ?thesis
    unfolding protected_batch_def batch by (intro exI conjI) (auto simp: opposite_def)
qed

section \<open>Whole plans\<close>

lemma map_result_nth:
  "map_result f xs = Inr ys \<Longrightarrow> k < length xs \<Longrightarrow> f (xs ! k) = Inr (ys ! k)"
proof (induction xs arbitrary: ys k)
  case (Cons x xs)
  then show ?case by (cases k) (auto simp: bind_result_Inr_iff)
qed simp

lemma StrategyOrderPlan_check_Inr:
  "StrategyOrderPlan_check p = Inr r \<Longrightarrow> r = p \<and> (pl_batches p \<noteq> [] \<longrightarrow> concat (pl_batches p) = pl_orders p)"
  by (auto simp: StrategyOrderPlan_check_def split: if_splits)

lemma slice_quantities_length: "slice_quantities q fs = Inr qs \<Longrightarrow> length qs = length fs"
  by (auto simp: slice_quantities_def Let_def whole_slices_def spread_remainder_props split: if_splits)

definition short_entry :: "StrategyIntent \<Rightarrow> bool" where
  "short_entry i \<longleftrightarrow> si_action i \<in> {''enter_short'', ''add_short''}"

definition entry_side :: "StrategyIntent \<Rightarrow> string" where
  "entry_side i = (if short_entry i then ''SELL'' else ''BUY'')"

lemma plan_entry:
  assumes "plan render nonce account c i strategy revision offset = Inr p"
    and "si_action i \<in> set entry_actions"
  shows "entry_plan render account c (order_prefix nonce strategy revision) i
      (executable_quantity c (si_quantity i)) offset = Inr p"
    and "0 < executable_quantity c (si_quantity i)"
  using assms by (auto simp: plan_def Let_def entry_actions_def split: if_splits)

lemma entry_plan_batches:
  assumes p: "entry_plan render account c prefix i q offset = Inr p"
    and profile: "resolved_protection_profile i = Inr (Some profile)"
  obtains qs where "slice_quantities q (map sl_quantity_fraction (pr_slices profile)) = Inr qs"
    "length qs = length (pr_slices profile)" "length (pl_batches p) = length (pr_slices profile)"
    "\<And>k. k < length (pr_slices profile) \<Longrightarrow> protected_batch (si_reference_price i) (entry_side i) (qs ! k) (pl_batches p ! k)"
    "pl_orders p = concat (pl_batches p)"
proof -
  let ?price = "aggressive_limit (si_reference_price i) (if si_action i \<in> {''enter_short'', ''add_short''} then ''SELL'' else ''BUY'') offset"
  from p profile obtain volatility qs batches where
    qs: "slice_quantities q (map sl_quantity_fraction (pr_slices profile)) = Inr qs"
    and b: "map_result (slice_batch render account c prefix i profile (short_entry i) ?price volatility)
           (enumerate 0 (zip (pr_slices profile) qs)) = Inr batches"
    and pl: "pl_batches p = batches" "pl_orders p = concat batches"
    unfolding entry_plan_def Let_def short_entry_def
    by (auto simp: bind_result_Inr_iff dest!: StrategyOrderPlan_check_Inr [THEN conjunct1])
  have len: "length qs = length (pr_slices profile)" using slice_quantities_length [OF qs] by simp
  have lb: "length batches = length (pr_slices profile)" using map_result_Inr_length [OF b] len by simp
  have "protected_batch (si_reference_price i) (entry_side i) (qs ! k) (batches ! k)"
    if "k < length (pr_slices profile)" for k
  proof -
    have "slice_batch render account c prefix i profile (short_entry i) ?price volatility
        (k, pr_slices profile ! k, qs ! k) = Inr (batches ! k)"
      using map_result_nth [OF b, of k] that len by (simp add: nth_enumerate_eq)
    then show ?thesis unfolding entry_side_def by (rule slice_batch_protected)
  qed
  with qs len lb pl show thesis by (intro that) simp_all
qed

definition batch_quantity :: "OrderRequest list \<Rightarrow> f64" where
  "batch_quantity b = (case b of [] \<Rightarrow> 0 | r # _ \<Rightarrow> or_zero (or_quantity r))"

lemma protected_batch_quantity: "protected_batch reference side q b \<Longrightarrow> batch_quantity b = q"
  by (auto simp: protected_batch_def batch_quantity_def or_zero_def)

text \<open>
  The profile of an intent, where it has one, is an object the constructors accepted. The bound
  on its slices keeps float sums of fractions within reach of the tolerance of one.
\<close>

definition sound_profile :: "StrategyIntent \<Rightarrow> bool" where
  "sound_profile i \<longleftrightarrow> (case resolved_protection_profile i of
     Inr (Some p) \<Rightarrow> ProtectionProfile_check p = Inr p \<and> length (pr_slices p) \<le> 1000 \<and>
       (\<forall>s \<in> set (pr_slices p). ProtectionSlice_check s = Inr s)
   | _ \<Rightarrow> True)"

lemma sliced_entry_protected:
  assumes p: "plan render nonce account c i strategy revision offset = Inr p"
    and entry: "si_action i \<in> set entry_actions"
    and profile: "resolved_protection_profile i = Inr (Some profile)"
      "ProtectionProfile_check profile = Inr profile"
      "\<forall>s \<in> set (pr_slices profile). ProtectionSlice_check s = Inr s" "length (pr_slices profile) \<le> 1000"
    and shares: "upper (ic_security_type c) = ''STK''" "executable_quantity c (si_quantity i) \<le> 10 ^ 8"
  shows "length (pl_batches p) = length (pr_slices profile) \<and> pl_orders p = concat (pl_batches p) \<and>
    (\<forall>b \<in> set (pl_batches p). protected_batch (si_reference_price i) (entry_side i) (batch_quantity b) b) \<and>
    sum_list (map batch_quantity (pl_batches p)) = executable_quantity c (si_quantity i)"
proof -
  define q where "q = executable_quantity c (si_quantity i)"
  define n where "n = py_floor (fadd (si_quantity i) lit_1e9)"
  obtain qs where qs: "slice_quantities q (map sl_quantity_fraction (pr_slices profile)) = Inr qs"
    "length qs = length (pr_slices profile)" and len: "length (pl_batches p) = length (pr_slices profile)"
    and prot: "\<And>k. k < length (pr_slices profile) \<Longrightarrow>
       protected_batch (si_reference_price i) (entry_side i) (qs ! k) (pl_batches p ! k)"
    and flat: "pl_orders p = concat (pl_batches p)"
    using entry_plan_batches [OF plan_entry(1) [OF p entry] profile(1)] unfolding q_def by blast
  have qn: "q = float_of_int n" using shares(1) by (simp add: q_def n_def executable_quantity_def)
  have "n \<le> 100000000"
  proof (rule ccontr)
    assume "\<not> ?thesis"
    then have "(100000001 :: rat) \<le> of_int n" by simp
    moreover have "is_f64 100000001" using is_f64_of_int [of 100000001] by simp
    ultimately have "100000001 \<le> q" unfolding qn float_of_int_def by (intro fl_ge_iff)
    with shares(2) show False by (simp add: q_def)
  qed
  moreover have "0 < n"
  proof (rule ccontr)
    assume "\<not> 0 < n"
    then have "q \<le> 0" unfolding qn float_of_int_def by (intro fl_nonpos) simp
    with plan_entry(2) [OF p entry] show False by (simp add: q_def)
  qed
  ultimately have q: "q = of_int n" unfolding qn by (simp add: float_of_int_def fl_exact is_f64_of_int)
  then have sum: "sum_list qs = q"
    using slice_quantities_whole [OF profile(2-4) \<open>n \<le> 100000000\<close>] qs(1) by simp
  have bq: "batch_quantity (pl_batches p ! k) = qs ! k" if "k < length (pr_slices profile)" for k
    using prot [OF that] by (rule protected_batch_quantity)
  then have "map batch_quantity (pl_batches p) = qs" using len qs(2) by (intro nth_equalityI) simp_all
  moreover have "protected_batch (si_reference_price i) (entry_side i) (batch_quantity b) b"
    if "b \<in> set (pl_batches p)" for b
    using that prot bq len by (auto simp: in_set_conv_nth)
  ultimately show ?thesis using len flat sum by (simp add: q_def)
qed

lemma unprotected_entry_single:
  assumes "plan render nonce account c i strategy revision offset = Inr p"
    and "si_action i \<in> set entry_actions" "resolved_protection_profile i = Inr None"
  shows "truthy (jget (si_metadata i) ''unprotected_backtest_authorized'') \<and>
    jget (si_metadata i) ''contract'' = JStr ''macd-threshold-100ms-1'' \<and> pl_batches p = [] \<and>
    (\<exists>r. pl_orders p = [r] \<and> or_parentId r = None \<and> or_orderType r = ''LMT'' \<and> or_side r = entry_side i \<and>
       or_quantity r = Some (executable_quantity c (si_quantity i)))"
  using plan_entry(1) [OF assms(1,2)] assms(3)
  by (auto simp: entry_plan_def Let_def single_order_plan_def bind_result_Inr_iff orders_plan_def plain_terms_def
      entry_side_def short_entry_def dest!: StrategyOrderPlan_check_Inr [THEN conjunct1] make_order_Inr split: if_splits)

text \<open>
  C14. An accepted entry in shares (at most a hundred million) is fully protected or expressly
  exempt. With a resolved protection profile -- one that passes its own checks, of at most a
  thousand slices -- there is one batch per slice; every batch opens with one limit order and holds
  a stop for the same quantity, on the other side and on the losing side of the reference price,
  attached to it as one group; no child is larger than its entry, and the entries add up to exactly
  the executable quantity. Without one, the intent carries the backtest authorisation of its
  contract, and the plan is a single limit order for the executable quantity with no batch at all.
\<close>

theorem entry_plan_fully_protected:
  assumes p: "plan render nonce account c i strategy revision offset = Inr p"
    and entry: "si_action i \<in> set entry_actions" and sound: "sound_profile i"
    and shares: "upper (ic_security_type c) = ''STK''" "executable_quantity c (si_quantity i) \<le> 10 ^ 8"
  shows "case resolved_protection_profile i of
      Inr (Some profile) \<Rightarrow>
        length (pl_batches p) = length (pr_slices profile) \<and> pl_orders p = concat (pl_batches p) \<and>
        (\<forall>b \<in> set (pl_batches p). protected_batch (si_reference_price i) (entry_side i) (batch_quantity b) b) \<and>
        sum_list (map batch_quantity (pl_batches p)) = executable_quantity c (si_quantity i)
    | Inr None \<Rightarrow>
        truthy (jget (si_metadata i) ''unprotected_backtest_authorized'') \<and>
        jget (si_metadata i) ''contract'' = JStr ''macd-threshold-100ms-1'' \<and> pl_batches p = [] \<and>
        (\<exists>r. pl_orders p = [r] \<and> or_parentId r = None \<and> or_orderType r = ''LMT'' \<and> or_side r = entry_side i \<and>
           or_quantity r = Some (executable_quantity c (si_quantity i)))
    | Inl _ \<Rightarrow> False"
proof (cases "resolved_protection_profile i")
  case (Inl e)
  with plan_entry(1) [OF p entry] show ?thesis by (auto simp: entry_plan_def Let_def bind_result_Inr_iff)
next
  case (Inr found)
  show ?thesis
  proof (cases found)
    case None
    with Inr unprotected_entry_single [OF p entry] show ?thesis by simp
  next
    case (Some profile)
    with Inr sound sliced_entry_protected [OF p entry, of profile] shares show ?thesis by (simp add: sound_profile_def)
  qed
qed

text \<open>
  Every other action becomes at most one limit order, for the whole executable quantity: an
  exit or a new target leaves the position's side, reductions sell and covers buy, and holding
  sends nothing.
\<close>

theorem closing_plans_send_one_order:
  assumes "plan render nonce account c i strategy revision offset = Inr p"
    and "si_action i \<notin> set entry_actions"
  shows "if si_action i \<in> {''replace_profit_target'', ''exit'', ''reduce_long'', ''take_profit'', ''reduce_short'', ''cover''}
    then \<exists>r. pl_orders p = [r] \<and> pl_batches p = [] \<and> or_orderType r = ''LMT'' \<and> or_parentId r = None \<and>
      or_quantity r = Some (executable_quantity c (si_quantity i)) \<and>
      or_isSingleGroup r = (si_action i \<in> {''replace_profit_target'', ''exit''}) \<and>
      or_side r =
        (if si_action i \<in> {''reduce_long'', ''take_profit''} then ''SELL''
         else if si_action i \<in> {''reduce_short'', ''cover''} then ''BUY''
         else if lower (str_or render (jget (si_metadata i) ''position_side'') ''long'') = ''short'' then ''BUY'' else ''SELL'') \<and>
      pl_cancel_strategy_protection p = (si_action i = ''exit'') \<and>
      pl_protection_reconciliation_required p = (si_action i \<in> {''reduce_long'', ''take_profit'', ''reduce_short'', ''cover''})
    else pl_orders p = []"
  using assms
  by (auto simp: plan_def Let_def single_order_plan_def bind_result_Inr_iff orders_plan_def plain_terms_def
      dest!: StrategyOrderPlan_check_Inr [THEN conjunct1] make_order_Inr split: if_splits)

section \<open>Lineage of runtime orders\<close>

lemma jget_merged:
  "jget (merged base kvs) k = (case map_of (rev kvs) k of Some v \<Rightarrow> v | None \<Rightarrow> jget base k)"
  by (cases base) (auto simp: merged_def jget.simps map_of_dupdate split: option.splits)

lemma runtime_metadata_decision_time:
  "canonical_runtime_metadata render isoformat r i = Inr m \<Longrightarrow>
   jget m ''decision_event_time'' = JStr (isoformat (si_event_time i))"
  by (auto simp: canonical_runtime_metadata_def Let_def bind_result_Inr_iff jget_merged lineage_entries_def
      split: if_splits)

lemma runtime_order_Inr:
  assumes "canonical_runtime_order render isoformat i run strategy revision r = Inr s"
  shows "s\<lparr>or_raw := or_raw r\<rparr> = r \<and> ol_strategy_id (or_raw s) = strategy \<and> ol_run_id (or_raw s) = run \<and>
    ol_strategy_revision (or_raw s) = revision \<and>
    jget (ol_metadata (or_raw s)) ''decision_event_time'' = JStr (isoformat (si_event_time i))"
  using assms unfolding canonical_runtime_order_def
  by (auto simp: bind_result_Inr_iff runtime_metadata_decision_time dest!: OrderRequest_check_Inr(1))

lemma order_submission_time_decision:
  "jget (ol_metadata (or_raw r)) ''decision_event_time'' = JStr text \<Longrightarrow>
   parse_iso (utc_suffix text) = Some (Aware t) \<Longrightarrow> t \<le> order_submission_time now b r"
  by (simp add: order_submission_time_def Let_def)

text \<open>
  C26. An order of a runtime plan carries its run, strategy and revision, and the simulated
  broker never gives it a submission time before the decision that created it, however old
  the broker's own market data are.
\<close>

theorem runtime_orders_follow_decision:
  assumes p: "runtime_plan render isoformat nonce planner i account = Inr p" "r \<in> set (pl_orders p)"
    and decision: "si_event_time i = Aware t"
    and isoformat: "parse_iso (utc_suffix (isoformat (si_event_time i))) = Some (si_event_time i)"
  shows "t \<le> order_submission_time now b r \<and> ol_run_id (or_raw r) = rp_run_id planner \<and>
    ol_strategy_id (or_raw r) = rp_strategy_id planner \<and>
    ol_strategy_revision (or_raw r) = rp_strategy_revision planner"
proof -
  from p(1) obtain planned :: StrategyOrderPlan where
    "map_result (canonical_runtime_order render isoformat i (rp_run_id planner) (rp_strategy_id planner)
       (rp_strategy_revision planner)) (pl_orders planned) = Inr (pl_orders p)"
    unfolding runtime_plan_def Let_def
    by (auto simp: bind_result_Inr_iff split: option.splits dest!: StrategyOrderPlan_check_Inr [THEN conjunct1])
  with p(2) obtain s where "canonical_runtime_order render isoformat i (rp_run_id planner) (rp_strategy_id planner)
       (rp_strategy_revision planner) s = Inr r"
    by (auto dest: map_result_Inr_set)
  note r = runtime_order_Inr [OF this]
  have "t \<le> order_submission_time now b r"
    using r isoformat decision by (intro order_submission_time_decision) auto
  with r show ?thesis by blast
qed

section \<open>Concrete plans\<close>

definition demo_contract :: InstrumentContract where
  "demo_contract =
     \<lparr>ic_instrument_id = ''7'', ic_conid = 7, ic_symbol = ''ABC'', ic_security_type = ''STK'',
      ic_currency = ''USD'', ic_exchange = ''SMART'', ic_primary_exchange = ''NASDAQ'',
      ic_local_symbol = '''', ic_trading_class = '''', ic_multiplier = 1, ic_expiry = '''',
      ic_strike = None, ic_right = '''', ic_provider_ids = []\<rparr>"

definition demo_add :: StrategyIntent where
  "demo_add = demo_intent\<lparr>si_quantity := 19 / 2, si_protection_profile := Some demo_profile,
     si_event_time := Aware 5000000, si_metadata := JObj [(''volatility'', JNum 2)]\<rparr>"

abbreviation no_render :: "json \<Rightarrow> string" where "no_render \<equiv> (\<lambda>_. ''?'')"

definition demo_plan :: StrategyOrderPlan where
  "demo_plan = (case plan no_render ''a1'' ''U1'' demo_contract demo_add ''core'' 2 5 of Inr p \<Rightarrow> p)"

lemma demo_plan_made: "plan no_render ''a1'' ''U1'' demo_contract demo_add ''core'' 2 5 = Inr demo_plan"
  by code_simp

lemma demo_plan_orders:
  "map (\<lambda>r. (or_side r, or_orderType r, or_quantity r, or_price r, or_auxPrice r)) (pl_orders demo_plan) =
     [(''BUY'', ''LMT'', Some 7, Some (fl (10005 / 100)), None),
      (''SELL'', ''LMT'', Some 7, Some 110, None),
      (''SELL'', ''STP'', Some 7, None, Some 98),
      (''BUY'', ''LMT'', Some 2, Some (fl (10005 / 100)), None),
      (''SELL'', ''LMT'', Some 2, Some 110, None),
      (''SELL'', ''STP'', Some 2, None, Some 97),
      (''SELL'', ''TRAIL'', Some 2, None, None)]"
  by code_simp

theorem slice_quantities_exact_witness:
  "sum_list [6, 1] = (of_int 7 :: rat) \<and> list_all (\<lambda>q. 1 \<le> q) [6, 1 :: rat]"
proof -
  have "slice_quantities (of_int 7) (map sl_quantity_fraction (pr_slices demo_profile)) = Inr [6, 1]" by code_simp
  moreover have "ProtectionProfile_check demo_profile = Inr demo_profile" by code_simp
  ultimately show ?thesis
    using slice_quantities_exact [of demo_profile 7 "[6, 1]"] demo_storable
    by (auto simp: storable_profile_def storable_slice_def demo_profile_def)
qed

theorem entry_plan_fully_protected_witness:
  "list_all (\<lambda>b. protected_batch 100 ''BUY'' (batch_quantity b) b) (pl_batches demo_plan)"
proof -
  have "executable_quantity demo_contract (si_quantity demo_add) = 9" by code_simp
  moreover have "ProtectionProfile_check demo_profile = Inr demo_profile"
    "\<forall>s \<in> set (pr_slices demo_profile). ProtectionSlice_check s = Inr s"
    using demo_storable by (auto simp: storable_profile_def storable_slice_def)
  moreover have "upper (ic_security_type demo_contract) = ''STK''" by code_simp
  moreover have "length (pr_slices demo_profile) = 2" by (simp add: demo_profile_def)
  ultimately show ?thesis
    using entry_plan_fully_protected [OF demo_plan_made]
    by (simp add: demo_add_def demo_intent_def entry_actions_def resolved_protection_profile_def sound_profile_def
        entry_side_def short_entry_def list_all_iff)
qed

definition demo_exit :: StrategyIntent where
  "demo_exit = demo_add\<lparr>si_action := ''exit''\<rparr>"

definition demo_exit_plan :: StrategyOrderPlan where
  "demo_exit_plan = (case plan no_render ''a1'' ''U1'' demo_contract demo_exit ''core'' 2 5 of Inr p \<Rightarrow> p)"

lemma demo_exit_plan_made: "plan no_render ''a1'' ''U1'' demo_contract demo_exit ''core'' 2 5 = Inr demo_exit_plan"
  by code_simp

theorem closing_plans_send_one_order_witness:
  "\<exists>r. pl_orders demo_exit_plan = [r] \<and> or_side r = ''SELL'' \<and> pl_cancel_strategy_protection demo_exit_plan"
proof -
  have "\<not> lower (str_or no_render (jget (si_metadata demo_exit) ''position_side'') ''long'') = ''short''"
    by code_simp
  then show ?thesis
    using closing_plans_send_one_order [OF demo_exit_plan_made]
    by (auto simp: demo_exit_def entry_actions_def)
qed

definition demo_planner :: RuntimePlanner where
  "demo_planner = runtime_planner [(''abc'', demo_contract)] ''core'' 2 ''run-9'' 5"

definition demo_runtime_plan :: StrategyOrderPlan where
  "demo_runtime_plan =
     (case runtime_plan no_render (\<lambda>_. ''1970-01-01T00:00:05+00:00'') ''a1'' demo_planner demo_exit ''U1'' of Inr p \<Rightarrow> p)"

theorem runtime_orders_follow_decision_witness:
  "\<forall>b. \<exists>r \<in> set (pl_orders demo_runtime_plan). 5000000 \<le> order_submission_time 0 b r \<and> ol_run_id (or_raw r) = ''run-9''"
proof
  fix b
  let ?isoformat = "\<lambda>_. ''1970-01-01T00:00:05+00:00''"
  have made: "runtime_plan no_render ?isoformat ''a1'' demo_planner demo_exit ''U1'' = Inr demo_runtime_plan" by code_simp
  have "length (pl_orders demo_runtime_plan) = 1" by code_simp
  then have r: "hd (pl_orders demo_runtime_plan) \<in> set (pl_orders demo_runtime_plan)"
    by (intro list.set_sel) auto
  have e: "si_event_time demo_exit = Aware 5000000" by (simp add: demo_exit_def demo_add_def)
  have "parse_iso (utc_suffix (?isoformat (si_event_time demo_exit))) = Some (Aware 5000000)" by code_simp
  then show "\<exists>r \<in> set (pl_orders demo_runtime_plan). 5000000 \<le> order_submission_time 0 b r \<and> ol_run_id (or_raw r) = ''run-9''"
    using runtime_orders_follow_decision [OF made r e, of 0 b] r e
    by (intro bexI [OF _ r]) (simp add: demo_planner_def runtime_planner_def)
qed

end
