(* ===== verification/Risk.thy ===== *)
theory Risk
  imports StrategyOrdersLaws
begin

text \<open>
  \<open>src/trading_runtime/risk.py\<close>: the order safety guard between the planner and the broker.
  The awaited broker calls enter as their outcomes: \<open>live\<close> for \<open>broker.live_orders()\<close> and
  \<open>summary account\<close> for \<open>broker.account_summary(account)\<close>; \<open>now\<close> is the clock.
\<close>

section \<open>The program\<close>

record RiskConfig =
  rc_max_open_orders_per_account :: int
  rc_maximum_snapshot_age_ms :: int

definition RiskConfig_default :: RiskConfig where
  "RiskConfig_default = \<lparr>rc_max_open_orders_per_account = 100, rc_maximum_snapshot_age_ms = 6000\<rparr>"

record RiskSnapshot =
  rs_account_id :: string
  rs_open_orders :: int
  rs_gross_position_value :: f64
  rs_available_funds :: f64
  rs_observed_at :: utc
  rs_reserved_orders :: int
  rs_reserved_notional :: f64

record OrderSafetyGuard =
  gd_config :: RiskConfig
  gd_snapshots :: "string \<Rightarrow> RiskSnapshot option"

definition new_guard :: "RiskConfig option \<Rightarrow> OrderSafetyGuard" where
  "new_guard config =
     \<lparr>gd_config = (case config of None \<Rightarrow> RiskConfig_default | Some c \<Rightarrow> c), gd_snapshots = (\<lambda>_. None)\<rparr>"

definition put_snapshot :: "string \<Rightarrow> RiskSnapshot \<Rightarrow> OrderSafetyGuard \<Rightarrow> OrderSafetyGuard" where
  "put_snapshot account s g = g\<lparr>gd_snapshots := (gd_snapshots g)(account := Some s)\<rparr>"

definition open_orders_of :: "LiveOrder list \<Rightarrow> string \<Rightarrow> int" where
  "open_orders_of live account =
     int (length (filter (\<lambda>r. lo_account r = account \<and> is_open_status (lo_order_status r)) live))"

fun prime_accounts ::
  "utc \<Rightarrow> LiveOrder list \<Rightarrow> (string \<Rightarrow> AccountSummary result) \<Rightarrow> string list \<Rightarrow> (OrderSafetyGuard, unit) act" where
  "prime_accounts now live summary [] = aret ()"
| "prime_accounts now live summary (account # accounts) =
     abind (alift (summary account)) (\<lambda>s.
     abind (aupd (put_snapshot account
       \<lparr>rs_account_id = account, rs_open_orders = open_orders_of live account,
        rs_gross_position_value = as_grosspositionvalue s, rs_available_funds = as_availablefunds s,
        rs_observed_at = now, rs_reserved_orders = 0, rs_reserved_notional = 0\<rparr>)) (\<lambda>_.
     prime_accounts now live summary accounts))"

definition prime ::
  "utc \<Rightarrow> LiveOrder list result \<Rightarrow> (string \<Rightarrow> AccountSummary result) \<Rightarrow> string list \<Rightarrow> (OrderSafetyGuard, unit) act" where
  "prime now live summary accounts =
     abind (alift live) (\<lambda>rows. prime_accounts now rows summary accounts)"

definition guard_update ::
  "utc \<Rightarrow> string \<Rightarrow> int \<Rightarrow> f64 \<Rightarrow> f64 \<Rightarrow> utc option \<Rightarrow> OrderSafetyGuard \<Rightarrow> OrderSafetyGuard" where
  "guard_update now account open_orders gross available observed_at g =
     (let previous = gd_snapshots g account in
      put_snapshot account
        \<lparr>rs_account_id = account, rs_open_orders = max 0 open_orders,
         rs_gross_position_value = gross, rs_available_funds = available,
         rs_observed_at = (case observed_at of None \<Rightarrow> now | Some t \<Rightarrow> t),
         rs_reserved_orders = (case previous of None \<Rightarrow> 0 | Some s \<Rightarrow> rs_reserved_orders s),
         rs_reserved_notional = (case previous of None \<Rightarrow> 0 | Some s \<Rightarrow> rs_reserved_notional s)\<rparr> g)"

text \<open>\<open>(now - observed_at).total_seconds() * 1000.0\<close>.\<close>

definition age_ms :: "utc \<Rightarrow> utc \<Rightarrow> f64" where
  "age_ms now observed = fmul (fl (of_int (now - observed) / 1000000)) 1000"

definition root_orders :: "OrderRequest list \<Rightarrow> OrderRequest list" where
  "root_orders os = filter (\<lambda>r. or_parentId r \<in> {None, Some []}) os"

text \<open>The alternatives of an exit exclude each other; the entries of a plan add up.\<close>

definition root_quantity :: "StrategyIntent \<Rightarrow> OrderRequest list \<Rightarrow> f64" where
  "root_quantity i roots =
     (let qs = map (\<lambda>r. or_zero (or_quantity r)) roots in
      if si_action i = ''exit'' \<and> roots \<noteq> [] \<and> list_all or_isSingleGroup roots
      then fold max (tl qs) (hd qs) else fsum qs)"

definition outside_envelope :: "ExecutionEnvelope \<Rightarrow> OrderRequest \<Rightarrow> bool" where
  "outside_envelope x r \<longleftrightarrow> upper (or_orderType r) \<in> {''LMT'', ''STOP_LIMIT'', ''TRAILLMT''} \<and>
     (case or_price r of None \<Rightarrow> False | Some p \<Rightarrow> \<not> envelope_permits x (or_side r) p)"

definition validate_intent :: "(json \<Rightarrow> string) \<Rightarrow> StrategyIntent \<Rightarrow> OrderRequest list \<Rightarrow> unit result" where
  "validate_intent render i os =
     (let roots = root_orders os in
      if fadd (si_quantity i) lit_1e9 < root_quantity i roots
      then Inl (ValueError ''Order safety violation: broker plan exceeds portfolio-approved quantity'')
      else bind_result (resolved_execution_policy render i) (\<lambda>policy.
        if list_ex (outside_envelope (xp_envelope policy)) roots
        then Inl (ValueError ''Order safety violation: price exceeds the portfolio-approved execution envelope'')
        else Inr ()))"

definition validate_snapshot ::
  "(json \<Rightarrow> string) \<Rightarrow> utc \<Rightarrow> RiskConfig \<Rightarrow> RiskSnapshot \<Rightarrow> OrderRequest list \<Rightarrow> StrategyIntent option
   \<Rightarrow> bool \<Rightarrow> unit result" where
  "validate_snapshot render now c s os intent require_fresh =
     (if require_fresh \<and> of_int (rc_maximum_snapshot_age_ms c) < age_ms now (rs_observed_at s)
      then Inl (ValueError ''Risk snapshot is stale; execution is frozen'')
      else if rc_max_open_orders_per_account c < rs_open_orders s + rs_reserved_orders s + int (length os)
      then Inl (ValueError ''Order safety limit exceeded: too many open orders'')
      else case intent of None \<Rightarrow> Inr () | Some i \<Rightarrow> validate_intent render i os)"

definition validate ::
  "(json \<Rightarrow> string) \<Rightarrow> utc \<Rightarrow> LiveOrder list result \<Rightarrow> (string \<Rightarrow> AccountSummary result) \<Rightarrow> string
   \<Rightarrow> OrderRequest list \<Rightarrow> StrategyIntent option \<Rightarrow> bool \<Rightarrow> (OrderSafetyGuard, unit) act" where
  "validate render now live summary account os intent require_fresh =
     abind (\<lambda>g. (if gd_snapshots g account = None then prime now live summary [account] else aret ()) g) (\<lambda>_.
     abind (aget (\<lambda>g. (gd_config g, gd_snapshots g account))) (\<lambda>state.
     case snd state of
       None \<Rightarrow> araise (PyKeyError account)
     | Some s \<Rightarrow> alift (validate_snapshot render now (fst state) s os intent require_fresh)))"

text \<open>\<open>float(order.price or order.auxPrice or 0)\<close>.\<close>

definition reference_value :: "OrderRequest \<Rightarrow> f64" where
  "reference_value r = (if \<not> falsy_opt (or_price r) then or_zero (or_price r) else or_zero (or_auxPrice r))"

definition buy_notional :: "OrderRequest list \<Rightarrow> f64" where
  "buy_notional os =
     fsum (map (\<lambda>r. fmul (or_zero (or_quantity r)) (reference_value r)) (filter (\<lambda>r. upper (or_side r) = ''BUY'') os))"

definition reserve :: "string \<Rightarrow> OrderRequest list \<Rightarrow> OrderSafetyGuard \<Rightarrow> OrderSafetyGuard result" where
  "reserve account os g =
     (case gd_snapshots g account of
        None \<Rightarrow> Inl (RuntimeError ''Risk authority must be primed before reserving an order'')
      | Some s \<Rightarrow> Inr (put_snapshot account
          (s\<lparr>rs_reserved_orders := rs_reserved_orders s + int (length os),
             rs_reserved_notional := fadd (rs_reserved_notional s) (buy_notional os)\<rparr>) g))"

definition release :: "string \<Rightarrow> OrderRequest list \<Rightarrow> OrderSafetyGuard \<Rightarrow> OrderSafetyGuard" where
  "release account os g =
     (case gd_snapshots g account of
        None \<Rightarrow> g
      | Some s \<Rightarrow> put_snapshot account
          (s\<lparr>rs_reserved_orders := max 0 (rs_reserved_orders s - int (length os)),
             rs_reserved_notional := max 0 (fsub (rs_reserved_notional s) (buy_notional os))\<rparr>) g)"

section \<open>Planned orders pass the guard\<close>

lemma fsum_whole:
  assumes "\<forall>q \<in> set qs. 0 \<le> q \<and> q = of_int \<lfloor>q\<rfloor>" "sum_list qs \<le> 2 ^ 53"
  shows "fsum qs = sum_list qs \<and> 0 \<le> sum_list qs \<and> sum_list qs = of_int \<lfloor>sum_list qs\<rfloor>"
  using assms
proof (induction qs rule: rev_induct)
  case (snoc q qs)
  then have IH: "fsum qs = sum_list qs" "0 \<le> sum_list qs" "sum_list qs = of_int \<lfloor>sum_list qs\<rfloor>" by auto
  define m n where "m = \<lfloor>sum_list qs\<rfloor>" and "n = \<lfloor>q\<rfloor>"
  have mn: "sum_list qs = of_int m" "q = of_int n" using IH(3) snoc.prems(1) by (simp_all add: m_def n_def)
  have "0 \<le> (of_int (m + n) :: rat)" "of_int (m + n) \<le> (of_int (2 ^ 53) :: rat)"
    using snoc.prems IH(2) by (simp_all add: mn)
  then have "0 \<le> m + n" "m + n \<le> 2 ^ 53" by (simp_all only: of_int_le_iff of_int_0_le_iff)
  then have "is_f64 (of_int (m + n))" by (intro is_f64_of_int) simp
  then have "fadd (of_int m) (of_int n) = of_int (m + n)" by (simp add: fadd_def fl_exact)
  moreover have "fsum (qs @ [q]) = fadd (fsum qs) q" by (simp add: fsum_def)
  ultimately have "fsum (qs @ [q]) = of_int (m + n)" by (simp add: IH(1) mn)
  moreover have "sum_list (qs @ [q]) = of_int (m + n)" by (simp add: mn)
  ultimately show ?case using \<open>0 \<le> m + n\<close> by (simp only: floor_of_int of_int_0_le_iff)
qed (simp add: fsum_def)

lemma root_orders_batches:
  "\<forall>b \<in> set bs. protected_batch reference side (batch_quantity b) b \<Longrightarrow>
   map (\<lambda>r. or_zero (or_quantity r)) (root_orders (concat bs)) = map batch_quantity bs"
proof (induction bs)
  case (Cons b bs)
  then obtain parent children where b: "b = parent # children" "or_parentId parent = None"
    "or_cOID parent \<noteq> []" "\<forall>r \<in> set children. or_parentId r = Some (or_cOID parent)"
    by (auto simp: protected_batch_def)
  then have "filter (\<lambda>r. or_parentId r \<in> {None, Some []}) children = []"
    by (auto simp: filter_empty_conv)
  with b Cons show ?case by (simp add: root_orders_def batch_quantity_def)
qed (simp add: root_orders_def)

lemma root_quantity_single:
  assumes "or_parentId r = None" "or_quantity r = Some (of_int n)" "0 \<le> n" "n \<le> 100000000"
  shows "root_quantity i [r] = of_int n"
proof -
  have "fl (of_int n) = of_int n" using assms(3,4) by (intro fl_exact is_f64_of_int) simp
  with assms show ?thesis by (simp add: root_quantity_def or_zero_def fsum_def fadd_def Let_def)
qed

text \<open>The executable quantity of shares, as the whole number it is.\<close>

lemma executable_whole:
  assumes "upper (ic_security_type c) = ''STK''" "executable_quantity c q \<le> 10 ^ 8" "0 < executable_quantity c q"
  obtains n where "executable_quantity c q = of_int n" "0 < n" "n \<le> 100000000" "of_int n \<le> fadd q lit_1e9"
proof -
  define n where "n = py_floor (fadd q lit_1e9)"
  have e: "executable_quantity c q = float_of_int n" using assms(1) by (simp add: n_def executable_quantity_def)
  have "n \<le> 100000000"
  proof (rule ccontr)
    assume "\<not> ?thesis"
    then have "(100000001 :: rat) \<le> of_int n" by simp
    moreover have "is_f64 100000001" using is_f64_of_int [of 100000001] by simp
    ultimately have "100000001 \<le> executable_quantity c q" unfolding e float_of_int_def by (intro fl_ge_iff)
    with assms(2) show False by simp
  qed
  moreover have "0 < n"
  proof (rule ccontr)
    assume "\<not> 0 < n"
    then have "executable_quantity c q \<le> 0" unfolding e float_of_int_def by (intro fl_nonpos) simp
    with assms(3) show False by simp
  qed
  moreover from calculation have "executable_quantity c q = of_int n"
    unfolding e by (simp add: float_of_int_def fl_exact is_f64_of_int)
  moreover have "of_int n \<le> fadd q lit_1e9" by (simp add: n_def py_floor_def)
  ultimately show thesis by (intro that)
qed

text \<open>The root orders of a sliced entry add up to the executable quantity.\<close>

lemma sliced_root_quantity:
  assumes p: "plan render nonce account c i strategy revision offset = Inr p" and entry: "si_action i \<in> set entry_actions"
    and r: "resolved_protection_profile i = Inr (Some prof)" and profile: "sound_profile i"
    and q: "executable_quantity c (si_quantity i) = of_int n" "0 < n" "n \<le> 100000000"
  shows "root_quantity i (root_orders (pl_orders p)) = of_int n"
proof -
  have pc: "ProtectionProfile_check prof = Inr prof"
    "\<forall>s \<in> set (pr_slices prof). ProtectionSlice_check s = Inr s" "length (pr_slices prof) \<le> 1000"
    using profile r by (simp_all add: sound_profile_def)
  obtain qs where qs: "slice_quantities (of_int n) (map sl_quantity_fraction (pr_slices prof)) = Inr qs"
    "length qs = length (pr_slices prof)" and len: "length (pl_batches p) = length (pr_slices prof)"
    and prot: "\<And>k. k < length (pr_slices prof) \<Longrightarrow>
       protected_batch (si_reference_price i) (entry_side i) (qs ! k) (pl_batches p ! k)"
    and flat: "pl_orders p = concat (pl_batches p)"
    using entry_plan_batches [OF plan_entry(1) [OF p entry] r] unfolding q(1) by blast
  have w: "sum_list qs = of_int n" "\<forall>x \<in> set qs. 0 \<le> x \<and> x = of_int \<lfloor>x\<rfloor>"
    using slice_quantities_whole [OF pc q(3)] qs(1) by fastforce+
  have bq: "batch_quantity (pl_batches p ! k) = qs ! k" if "k < length (pr_slices prof)" for k
    using prot [OF that] by (rule protected_batch_quantity)
  then have m: "map batch_quantity (pl_batches p) = qs" using len qs(2) by (intro nth_equalityI) simp_all
  have "\<forall>b \<in> set (pl_batches p). protected_batch (si_reference_price i) (entry_side i) (batch_quantity b) b"
    using prot bq len by (auto simp: in_set_conv_nth)
  then have "map (\<lambda>r. or_zero (or_quantity r)) (root_orders (pl_orders p)) = qs"
    using root_orders_batches m flat by simp
  moreover have "fsum qs = of_int n" using fsum_whole [OF w(2)] w(1) q(2,3) by simp
  moreover have "si_action i \<noteq> ''exit''" using entry by (auto simp: entry_actions_def)
  ultimately show ?thesis by (simp add: root_quantity_def)
qed

lemma plan_root_quantity:
  assumes p: "plan render nonce account c i strategy revision offset = Inr p" and profile: "sound_profile i"
    and q: "executable_quantity c (si_quantity i) = of_int n" "0 < n" "n \<le> 100000000"
  shows "root_quantity i (root_orders (pl_orders p)) = of_int n \<or> pl_orders p = []"
proof (cases "si_action i \<in> set entry_actions")
  case False
  then show ?thesis
    using closing_plans_send_one_order [OF p False] root_quantity_single [of _ n i] q
    by (auto simp: root_orders_def split: if_splits)
next
  case entry: True
  note e = plan_entry(1) [OF p entry]
  show ?thesis
  proof (cases "resolved_protection_profile i")
    case (Inr found)
    show ?thesis
    proof (cases found)
      case None
      with e Inr obtain r where "pl_orders p = [r]" "or_parentId r = None" "or_quantity r = Some (of_int n)"
        by (auto simp: entry_plan_def Let_def bind_result_Inr_iff single_order_plan_def orders_plan_def
            plain_terms_def q(1) dest!: StrategyOrderPlan_check_Inr [THEN conjunct1] make_order_Inr split: if_splits)
      then show ?thesis using root_quantity_single [of r n i] q by (simp add: root_orders_def)
    next
      case (Some prof)
      with Inr sliced_root_quantity [OF p entry _ profile q] show ?thesis by simp
    qed
  qed (use e in \<open>auto simp: entry_plan_def Let_def bind_result_Inr_iff\<close>)
qed

text \<open>
  C16. The guard never objects to the size of what the planner made. For shares, up to a hundred
  million of them and with a protection profile, if any, that passes its own checks and has at most
  a thousand slices, the root orders of any plan amount to no more than the intent's quantity plus
  the guard's tolerance of 1e-9, the mutually exclusive alternatives of an exit counted once and
  the slices of an entry added up; a price outside the envelope is the only objection left.
\<close>

theorem planned_orders_pass_size_check:
  assumes p: "plan render nonce account c i strategy revision offset = Inr p"
    and shares: "upper (ic_security_type c) = ''STK''" "executable_quantity c (si_quantity i) \<le> 10 ^ 8"
    and profile: "sound_profile i"
  shows "root_quantity i (root_orders (pl_orders p)) \<le> fadd (si_quantity i) lit_1e9 \<and>
    (\<forall>policy. resolved_execution_policy render i = Inr policy \<longrightarrow>
       validate_intent render i (pl_orders p) =
         (if list_ex (outside_envelope (xp_envelope policy)) (root_orders (pl_orders p))
          then Inl (ValueError ''Order safety violation: price exceeds the portfolio-approved execution envelope'')
          else Inr ()))"
proof -
  define q where "q = executable_quantity c (si_quantity i)"
  have "0 < q" using p by (auto simp: plan_def Let_def q_def split: if_splits)
  then obtain n where n: "q = of_int n" "0 < n" "n \<le> 100000000" "of_int n \<le> fadd (si_quantity i) lit_1e9"
    using executable_whole [OF shares] unfolding q_def by blast
  have "root_quantity i (root_orders (pl_orders p)) \<le> fadd (si_quantity i) lit_1e9"
    using plan_root_quantity [OF p profile n(1) [unfolded q_def] n(2,3)]
  proof
    assume "pl_orders p = []"
    moreover have "(0 :: rat) < of_int n" using n(2) by simp
    then have "0 \<le> fadd (si_quantity i) lit_1e9" using n(4) by linarith
    ultimately show ?thesis by (simp add: root_orders_def root_quantity_def fsum_def)
  qed (use n in simp)
  then show ?thesis by (simp add: validate_intent_def Let_def)
qed

section \<open>Capacity and reservations\<close>

text \<open>The calls the order manager makes on the guard; a call that raises leaves what it changed.\<close>

datatype guard_event =
    CallPrime utc "LiveOrder list result" "string \<Rightarrow> AccountSummary result" "string list"
  | CallUpdate utc string int f64 f64 "utc option"
  | CallReserve string "OrderRequest list"
  | CallRelease string "OrderRequest list"

fun guard_call :: "guard_event \<Rightarrow> OrderSafetyGuard \<Rightarrow> OrderSafetyGuard" where
  "guard_call (CallPrime now live summary accounts) g = snd (prime now live summary accounts g)"
| "guard_call (CallUpdate now account open_orders gross available seen) g =
     guard_update now account open_orders gross available seen g"
| "guard_call (CallReserve account os) g = (case reserve account os g of Inl _ \<Rightarrow> g | Inr h \<Rightarrow> h)"
| "guard_call (CallRelease account os) g = release account os g"

definition counts_ok :: "OrderSafetyGuard \<Rightarrow> bool" where
  "counts_ok g \<longleftrightarrow> (\<forall>account s. gd_snapshots g account = Some s \<longrightarrow>
     0 \<le> rs_open_orders s \<and> 0 \<le> rs_reserved_orders s)"

lemma counts_ok_put: "counts_ok g \<Longrightarrow> 0 \<le> rs_open_orders s \<Longrightarrow> 0 \<le> rs_reserved_orders s \<Longrightarrow> counts_ok (put_snapshot account s g)"
  by (simp add: counts_ok_def put_snapshot_def)

lemma prime_accounts_keeps: "keeps counts_ok (prime_accounts now live summary accounts)"
proof (induction accounts)
  case Nil
  show ?case unfolding prime_accounts.simps by (rule keeps_aret)
next
  case (Cons account accounts)
  show ?case
    unfolding prime_accounts.simps
    by (intro keeps_intros keeps_aupd counts_ok_put Cons.IH) (simp_all add: open_orders_of_def)
qed

lemma guard_call_keeps: "counts_ok g \<Longrightarrow> counts_ok (guard_call c g)"
proof (cases c)
  case (CallPrime now live summary accounts)
  have "keeps counts_ok (prime now live summary accounts)"
    unfolding prime_def by (intro keeps_intros prime_accounts_keeps)
  then show "counts_ok g \<Longrightarrow> ?thesis" by (simp add: CallPrime keepsD)
next
  case (CallUpdate now account open_orders gross available seen)
  then show "counts_ok g \<Longrightarrow> ?thesis"
    by (auto simp: guard_update_def Let_def counts_ok_def put_snapshot_def split: option.splits)
next
  case (CallReserve account os)
  then show "counts_ok g \<Longrightarrow> ?thesis"
    by (auto simp: reserve_def counts_ok_def put_snapshot_def split: option.splits)
next
  case (CallRelease account os)
  then show "counts_ok g \<Longrightarrow> ?thesis"
    by (auto simp: release_def counts_ok_def put_snapshot_def split: option.splits)
qed

text \<open>
  C17. Through any sequence of guard calls from a new guard, an admission that validates and then
  reserves keeps the account within its order limit, and releasing the same orders gives back
  exactly the reservation count and leaves every other account alone; the counts never go
  negative.
\<close>

theorem admission_within_capacity:
  assumes g: "g = fold guard_call calls (new_guard config)"
    and valid: "validate render now live summary account os intent fresh g = (Inr (), h)"
    and reserved: "reserve account os h = Inr k"
  shows "(\<exists>s t. gd_snapshots h account = Some s \<and> gd_snapshots k account = Some t \<and>
      rs_open_orders t + rs_reserved_orders t \<le> rc_max_open_orders_per_account (gd_config h) \<and>
      0 \<le> rs_open_orders t \<and> 0 \<le> rs_reserved_orders s \<and>
      (\<exists>u. gd_snapshots (release account os k) account = Some u \<and> rs_reserved_orders u = rs_reserved_orders s) \<and>
      (\<forall>other. other \<noteq> account \<longrightarrow> gd_snapshots (release account os k) other = gd_snapshots h other))"
proof -
  have new: "counts_ok (new_guard config)" by (simp add: counts_ok_def new_guard_def)
  have "counts_ok (fold guard_call calls x)" if "counts_ok x" for x
    using that by (induction calls arbitrary: x) (simp_all add: guard_call_keeps)
  then have ok: "counts_ok g" using new by (simp add: g)
  have prime_ok: "counts_ok (snd ((if gd_snapshots g account = None then prime now live summary [account] else aret ()) g))"
    using guard_call_keeps [OF ok, of "CallPrime now live summary [account]"] ok by simp
  from valid obtain s where s: "gd_snapshots h account = Some s" "counts_ok h"
    "validate_snapshot render now (gd_config h) s os intent fresh = Inr ()"
    using prime_ok by (auto simp: validate_def abind_Inr_iff split: option.splits)
  from s(3) have cap: "rs_open_orders s + rs_reserved_orders s + int (length os) \<le> rc_max_open_orders_per_account (gd_config h)"
    by (auto simp: validate_snapshot_def split: if_splits)
  have "0 \<le> rs_open_orders s" "0 \<le> rs_reserved_orders s" using s(1,2) by (auto simp: counts_ok_def)
  with s(1) cap reserved show ?thesis by (auto simp: reserve_def release_def put_snapshot_def)
qed

section \<open>A concrete admission\<close>

definition demo_summary :: AccountSummary where
  "demo_summary = \<lparr>as_account_id = ''U1'', as_netliquidation = 1000, as_totalcashvalue = 1000,
     as_buyingpower = 1000, as_grosspositionvalue = 0, as_availablefunds = 1000,
     as_excessliquidity = 1000, as_currency = ''USD'', as_timestamp = 0\<rparr>"

lemma demo_admission:
  "\<exists>h. validate no_render 5 (Inr []) (\<lambda>_. Inr demo_summary) ''U1'' (pl_orders demo_plan) None True (new_guard None) = (Inr (), h) \<and>
     (\<exists>k. reserve ''U1'' (pl_orders demo_plan) h = Inr k)"
proof -
  have "length (pl_orders demo_plan) = 7" by code_simp
  moreover have "age_ms 5 5 = 0" by (simp add: age_ms_def fmul_def)
  ultimately show ?thesis
    by (simp add: validate_def prime_def new_guard_def abind_def put_snapshot_def validate_snapshot_def
        RiskConfig_default_def open_orders_of_def reserve_def)
qed

theorem admission_within_capacity_witness:
  "\<exists>h k t. reserve ''U1'' (pl_orders demo_plan) h = Inr k \<and> gd_snapshots k ''U1'' = Some t \<and>
     rs_open_orders t + rs_reserved_orders t \<le> rc_max_open_orders_per_account (gd_config h)"
proof -
  obtain h k where d: "validate no_render 5 (Inr []) (\<lambda>_. Inr demo_summary) ''U1'' (pl_orders demo_plan) None True (new_guard None) = (Inr (), h)"
    "reserve ''U1'' (pl_orders demo_plan) h = Inr k" using demo_admission by blast
  have "new_guard None = fold guard_call [] (new_guard None)" by simp
  from admission_within_capacity [OF this d] d(2) show ?thesis by blast
qed

theorem planned_orders_pass_size_check_witness:
  "root_quantity demo_add (root_orders (pl_orders demo_plan)) \<le> fadd (si_quantity demo_add) lit_1e9"
proof -
  have "executable_quantity demo_contract (si_quantity demo_add) = 9" by code_simp
  moreover have "upper (ic_security_type demo_contract) = ''STK''" by code_simp
  moreover have "ProtectionProfile_check demo_profile = Inr demo_profile"
    "\<forall>s \<in> set (pr_slices demo_profile). ProtectionSlice_check s = Inr s"
    using demo_storable by (auto simp: storable_profile_def storable_slice_def)
  moreover have "length (pr_slices demo_profile) = 2" by (simp add: demo_profile_def)
  ultimately show ?thesis
    using planned_orders_pass_size_check [OF demo_plan_made]
    by (simp add: sound_profile_def resolved_protection_profile_def demo_add_def)
qed

end
