(* ===== verification/Windows.thy ===== *)
theory Windows
  imports Main
begin

text \<open>
  The interface the rolling trackers of market data share. A tracker keeps a deque of
  buckets, one per period, oldest first. An event first drops the buckets older than its
  cutoff; then, when it is relevant, it is absorbed by the bucket of its period, which it
  creates when it is the first of the period. \<open>bucket_of\<close> is what a tracker that forgets
  nothing would know about one period; the laws show the deque agrees with it on every
  period the cutoff retains.
\<close>

section \<open>Deques ordered by period\<close>

definition bucket_of ::
    "('e \<Rightarrow> bool) \<Rightarrow> ('e \<Rightarrow> 'k) \<Rightarrow> ('e \<Rightarrow> 'b) \<Rightarrow> ('e \<Rightarrow> 'b \<Rightarrow> 'b) \<Rightarrow> 'e list \<Rightarrow> 'k \<Rightarrow> 'b option" where
  "bucket_of relevant period fresh absorb es k =
     (case filter (\<lambda>e. relevant e \<and> period e = k) es of
        [] \<Rightarrow> None
      | e # rest \<Rightarrow> Some (fold absorb (e # rest) (fresh e)))"

definition ordered :: "('b \<Rightarrow> 'k :: linorder) \<Rightarrow> 'b list \<Rightarrow> bool" where
  "ordered key bs = sorted_wrt (<) (map key bs)"

definition bucket_at :: "('b \<Rightarrow> 'k) \<Rightarrow> 'b list \<Rightarrow> 'k \<Rightarrow> 'b option" where
  "bucket_at key bs k = find (\<lambda>b. key b = k) bs"

lemma ordered_simps [simp]:
  "ordered key []" "ordered key (b # bs) \<longleftrightarrow> (\<forall>c \<in> set bs. key b < key c) \<and> ordered key bs"
  "ordered key (bs @ [b]) \<longleftrightarrow> ordered key bs \<and> (\<forall>c \<in> set bs. key c < key b)"
  by (auto simp: ordered_def sorted_wrt_append)

lemma ordered_filter: "ordered key bs \<Longrightarrow> ordered key (filter P bs)"
  by (induction bs) auto

lemma ordered_butlast: "ordered key bs \<Longrightarrow> ordered key (butlast bs)"
  by (induction bs rule: rev_induct) auto

lemma ordered_drop_old:
  "ordered key bs \<Longrightarrow> dropWhile (\<lambda>b. key b < c) bs = filter (\<lambda>b. c \<le> key b) bs"
proof (induction bs)
  case (Cons b bs)
  show ?case
  proof (cases "key b < c")
    case False
    with Cons.prems have "\<forall>d \<in> set bs. c \<le> key d" by force
    with False show ?thesis by auto
  qed (use Cons in auto)
qed simp

lemma bucket_at_Some: "bucket_at key bs k = Some b \<Longrightarrow> b \<in> set bs \<and> key b = k"
  by (auto simp: bucket_at_def find_Some_iff)

lemma bucket_at_None: "bucket_at key bs k = None \<longleftrightarrow> k \<notin> key ` set bs"
  by (auto simp: bucket_at_def find_None_iff)

lemma bucket_at_filter: "bucket_at key (filter (\<lambda>b. P (key b)) bs) k = (if P k then bucket_at key bs k else None)"
  by (induction bs) (auto simp: bucket_at_def)

lemma bucket_at_append: "bucket_at key (bs @ cs) k = (case bucket_at key bs k of None \<Rightarrow> bucket_at key cs k | Some b \<Rightarrow> Some b)"
  by (induction bs) (auto simp: bucket_at_def)

lemma bucket_at_one [simp]: "bucket_at key [b] k = (if key b = k then Some b else None)" "bucket_at key [] k = None"
  by (simp_all add: bucket_at_def)

lemma bucket_at_member: "ordered key bs \<Longrightarrow> b \<in> set bs \<Longrightarrow> bucket_at key bs (key b) = Some b"
  by (induction bs) (auto simp: bucket_at_def)

lemma fold_key: "(\<And>e b. key (absorb e b) = key b) \<Longrightarrow> key (fold absorb es b) = key b"
  by (induction es arbitrary: b) auto

lemma bucket_of_append:
  "bucket_of relevant period fresh absorb (es @ [e]) k =
     (if relevant e \<and> period e = k
      then Some (absorb e (case bucket_of relevant period fresh absorb es k of None \<Rightarrow> fresh e | Some b \<Rightarrow> b))
      else bucket_of relevant period fresh absorb es k)"
  by (auto simp: bucket_of_def split: list.splits)

lemma bucket_of_None:
  "bucket_of relevant period fresh absorb es k = None \<longleftrightarrow> (\<forall>e \<in> set es. relevant e \<longrightarrow> period e \<noteq> k)"
  by (auto simp: bucket_of_def filter_empty_conv split: list.splits)
    (metis (mono_tags, lifting) filter_empty_conv list.distinct(1))

lemma map_filter_same: "(\<And>x. x \<in> set xs \<Longrightarrow> f x = g x) \<Longrightarrow> List.map_filter f xs = List.map_filter g xs"
  by (induction xs) (auto simp: List.map_filter_simps split: option.splits)

lemma ordered_inj: "ordered key bs \<Longrightarrow> inj_on key (set bs)"
  by (rule inj_onI) (metis bucket_at_member option.inject)

lemma ordered_unique: "ordered key xs \<Longrightarrow> ordered key ys \<Longrightarrow> set xs = set ys \<Longrightarrow> xs = ys"
  using map_sorted_distinct_set_unique [of key xs ys] ordered_inj [of key ys]
  by (simp add: ordered_def strict_sorted_iff)

text \<open>Rows between two periods, listed in the order of a strictly increasing list of them.\<close>

lemma ordered_rows:
  assumes "ordered key bs" "sorted_wrt (<) ks" "\<And>b. b \<in> set bs \<Longrightarrow> P (key b) \<longleftrightarrow> key b \<in> set ks"
  shows "filter (\<lambda>b. P (key b)) bs = List.map_filter (bucket_at key bs) ks"
proof -
  let ?l = "filter (\<lambda>b. P (key b)) bs" and ?r = "List.map_filter (bucket_at key bs) ks"
  have sl: "ordered key ?l" using assms(1) by (rule ordered_filter)
  have "map key ?r = filter (\<lambda>k. bucket_at key bs k \<noteq> None) ks"
    by (induction ks) (auto simp: List.map_filter_simps dest: bucket_at_Some split: option.splits)
  then have sr: "ordered key ?r"
    using assms(2) by (simp add: ordered_def sorted_wrt_filter)
  moreover have "set ?r = set ?l"
    using assms(1,3) by (force simp: List.map_filter_def bucket_at_member dest: bucket_at_Some)
  with sl sr show ?thesis by (intro ordered_unique) auto
qed

section \<open>The interface\<close>

locale bucket_window =
  fixes relevant :: "'e \<Rightarrow> bool" and period :: "'e \<Rightarrow> 'k :: linorder" and fresh :: "'e \<Rightarrow> 'b"
    and absorb :: "'e \<Rightarrow> 'b \<Rightarrow> 'b" and key :: "'b \<Rightarrow> 'k" and cutoff :: "'k \<Rightarrow> 'k"
    and step :: "'e \<Rightarrow> 'b list \<Rightarrow> 'b list"
  assumes cutoff_mono: "j \<le> k \<Longrightarrow> cutoff j \<le> cutoff k"
    and cutoff_le: "cutoff k \<le> k"
    and key_fresh: "key (fresh e) = period e"
    and key_absorb: "key (absorb e b) = key b"
    and step: "ordered key bs \<Longrightarrow> \<forall>b \<in> set bs. key b \<le> period e \<and> cutoff (period e) \<le> key b \<Longrightarrow>
      step e bs = (if \<not> relevant e then bs
        else if bs = [] \<or> key (last bs) \<noteq> period e then bs @ [absorb e (fresh e)]
        else butlast bs @ [absorb e (last bs)])"
    and step_drops: "ordered key bs \<Longrightarrow> step e bs = step e (dropWhile (\<lambda>b. key b < cutoff (period e)) bs)"
begin

abbreviation "history \<equiv> bucket_of relevant period fresh absorb"

lemma history_key: "history es k = Some b \<Longrightarrow> key b = k"
  by (auto simp: bucket_of_def key_fresh fold_key key_absorb filter_eq_Cons_iff split: list.splits)

lemma history_bound: "history es k = Some b \<Longrightarrow> \<forall>e \<in> set es. period e \<le> n \<Longrightarrow> k \<le> n"
  by (metis bucket_of_None option.distinct(1))

lemma retained:
  assumes "sorted (map period es)"
  shows "ordered key (fold step es []) \<and>
    (\<forall>k. bucket_at key (fold step es []) k =
       (if es \<noteq> [] \<and> cutoff (period (last es)) \<le> k then history es k else None))"
  using assms
proof (induction es rule: rev_induct)
  case (snoc e es)
  let ?old = "fold step es []" and ?c = "cutoff (period e)"
  let ?kept = "filter (\<lambda>b. ?c \<le> key b) ?old"
  have so: "sorted (map period es)" and le: "\<forall>d \<in> set es. period d \<le> period e"
    using snoc.prems by (auto simp: sorted_append)
  have o: "ordered key ?old" and look: "bucket_at key ?old k =
      (if es \<noteq> [] \<and> cutoff (period (last es)) \<le> k then history es k else None)" for k
    using snoc.IH [OF so] by auto
  have mono: "es \<noteq> [] \<Longrightarrow> cutoff (period (last es)) \<le> ?c"
    using le by (intro cutoff_mono) simp
  have lookk: "bucket_at key ?kept k = (if ?c \<le> k then history es k else None)" for k
  proof (cases "es = []")
    case False
    then show ?thesis
      using mono by (auto simp: bucket_at_filter [where P = "\<lambda>k. ?c \<le> k"] look)
  qed (auto simp: bucket_of_def)
  have ok: "ordered key ?kept" using o by (rule ordered_filter)
  have inside: "\<forall>b \<in> set ?kept. key b \<le> period e \<and> ?c \<le> key b"
  proof
    fix b assume b: "b \<in> set ?kept"
    then have "bucket_at key ?kept (key b) = Some b" using ok by (intro bucket_at_member)
    then have "history es (key b) = Some b" using lookk by (metis option.distinct(1))
    then show "key b \<le> period e \<and> ?c \<le> key b" using history_bound le b by auto
  qed
  have eq: "fold step (es @ [e]) [] = step e ?kept"
    using step_drops [OF o] by (simp add: ordered_drop_old [OF o])
  note st = step [OF ok inside]
  show ?case
  proof (cases "relevant e")
    case False
    then have "step e ?kept = ?kept" using st by simp
    with False ok show ?thesis unfolding eq by (simp add: lookk bucket_of_append)
  next
    case rel: True
    show ?thesis
    proof (cases "?kept = [] \<or> key (last ?kept) \<noteq> period e")
      case True
      have below: "\<forall>b \<in> set ?kept. key b < period e"
      proof
        fix b assume b: "b \<in> set ?kept"
        then have "?kept \<noteq> []" by (metis empty_iff empty_set)
        then obtain l cs where kept: "?kept = cs @ [l]" by (metis rev_exhaust)
        with inside True have "key l < period e" by force
        moreover from ok b kept have "key b \<le> key l" by auto
        ultimately show "key b < period e" by simp
      qed
      have none: "history es (period e) = None"
      proof (rule ccontr)
        assume "history es (period e) \<noteq> None"
        then obtain b where "bucket_at key ?kept (period e) = Some b" using lookk [of "period e"] cutoff_le by auto
        with below show False by (metis bucket_at_Some less_irrefl)
      qed
      have "step e ?kept = ?kept @ [absorb e (fresh e)]" using st rel True by simp
      then show ?thesis
        unfolding eq using ok below none cutoff_le [of "period e"]
        by (auto simp: bucket_at_append lookk bucket_of_append rel key_absorb key_fresh split: option.splits)
    next
      case False
      then obtain l cs where kept: "?kept = cs @ [l]" and l: "key l = period e" by (metis last_snoc rev_exhaust)
      have some: "history es (period e) = Some l"
        using lookk [of "period e"] bucket_at_member [OF ok, of l] kept l cutoff_le [of "period e"] by simp
      have new: "step e ?kept = cs @ [absorb e l]" using st rel False kept by simp
      have absent: "bucket_at key cs (period e) = None"
        using ok l unfolding kept by (auto simp: bucket_at_None)
      have "bucket_at key (cs @ [absorb e l]) k = (if k = period e then Some (absorb e l) else bucket_at key (cs @ [l]) k)" for k
        using l absent by (auto simp: bucket_at_append key_absorb split: option.splits)
      then show ?thesis
        unfolding eq new using ok lookk some l cutoff_le [of "period e"] unfolding kept
        by (auto simp: bucket_of_append rel key_absorb)
    qed
  qed
qed simp

text \<open>A query over retained periods reads the history.\<close>

lemma window_rows:
  assumes "sorted (map period es)" "es \<noteq> []" "sorted_wrt (<) ks" "\<forall>k \<in> set ks. cutoff (period (last es)) \<le> k"
    and "\<And>b. b \<in> set (fold step es []) \<Longrightarrow> P (key b) \<longleftrightarrow> key b \<in> set ks"
  shows "filter (\<lambda>b. P (key b)) (fold step es []) = List.map_filter (history es) ks"
proof -
  have "filter (\<lambda>b. P (key b)) (fold step es []) = List.map_filter (bucket_at key (fold step es [])) ks"
    using retained [OF assms(1)] assms(3,5) by (intro ordered_rows) auto
  also have "\<dots> = List.map_filter (history es) ks"
    using retained [OF assms(1)] assms(2,4) by (intro map_filter_same) auto
  finally show ?thesis .
qed

lemma retained_member:
  assumes "sorted (map period es)" "b \<in> set (fold step es [])"
  shows "history es (key b) = Some b \<and> cutoff (period (last es)) \<le> key b"
  using retained [OF assms(1)] bucket_at_member [of key "fold step es []" b] assms(2)
  by (metis option.distinct(1))

end

end
