(* ===== verification/TradeVolume.thy ===== *)
theory TradeVolume
  imports Ibkr Windows
begin

text \<open>
  \<open>src/trading_runtime/trade_volume.py\<close>: the rolling share volume of the last five completed
  seconds against the fifty-five before them, from trades the producer certified. The
  evidence dictionary is a record whose optional fields are the keys a refused reading lacks;
  \<open>number\<close> holds of every double of the model.
\<close>

section \<open>The tracker\<close>

definition VOLUME_CONTRACT :: string where
  "VOLUME_CONTRACT = ''completed-trade-volume-5s-55s-v1''"

record VolumeBucket =
  vb_index :: int
  vb_volume :: f64
  vb_trades :: int
  vb_invalid :: int

record TradeVolumeTracker =
  vt_buckets :: "VolumeBucket list"
  vt_coverage_start :: "f64 option"
  vt_last_time :: f64
  vt_rejected :: int
  vt_last_rejected_at :: "f64 option"

record VolumeCheckpoint =
  vc_contract :: string
  vc_tracker :: TradeVolumeTracker

definition new_volume_tracker :: TradeVolumeTracker where
  "new_volume_tracker = \<lparr>vt_buckets = [], vt_coverage_start = None, vt_last_time = - 1,
     vt_rejected = 0, vt_last_rejected_at = None\<rparr>"

definition volume_tracker :: "VolumeCheckpoint option \<Rightarrow> TradeVolumeTracker result" where
  "volume_tracker saved =
     (case saved of
        None \<Rightarrow> Inr new_volume_tracker
      | Some c \<Rightarrow>
          if vc_contract c \<noteq> VOLUME_CONTRACT then Inl (ValueError ''Unknown trade volume checkpoint contract'')
          else Inr (vc_tracker c))"

definition volume_checkpoint :: "TradeVolumeTracker \<Rightarrow> VolumeCheckpoint" where
  "volume_checkpoint v = \<lparr>vc_contract = VOLUME_CONTRACT, vc_tracker = v\<rparr>"

definition count_trade :: "TradeEvent \<Rightarrow> VolumeBucket \<Rightarrow> VolumeBucket" where
  "count_trade t b =
     (case er_volume_eligible (tr_raw t) of
        None \<Rightarrow> b\<lparr>vb_invalid := vb_invalid b + 1\<rparr>
      | Some eligible \<Rightarrow>
          if tr_size t < 0 then b\<lparr>vb_invalid := vb_invalid b + 1\<rparr>
          else if eligible then b\<lparr>vb_volume := fadd (vb_volume b) (tr_size t), vb_trades := vb_trades b + 1\<rparr>
          else b)"

definition empty_volume :: "int \<Rightarrow> VolumeBucket" where
  "empty_volume index = \<lparr>vb_index = index, vb_volume = 0, vb_trades = 0, vb_invalid = 0\<rparr>"

text \<open>What one accepted event does to the deque.\<close>

definition observe_volume :: "MarketEvent \<Rightarrow> VolumeBucket list \<Rightarrow> VolumeBucket list" where
  "observe_volume e bs =
     (let index = \<lfloor>timestamp (ev_ts e)\<rfloor>;
          kept = dropWhile (\<lambda>b. vb_index b < index - 60) bs
      in case e of
           Quote q \<Rightarrow> kept
         | Trade t \<Rightarrow>
             let rows = if kept = [] \<or> vb_index (last kept) \<noteq> index then kept @ [empty_volume index] else kept
             in butlast rows @ [count_trade t (last rows)])"

definition volume_observe :: "MarketEvent \<Rightarrow> TradeVolumeTracker \<Rightarrow> TradeVolumeTracker" where
  "volume_observe e v =
     (let now = timestamp (ev_ts e) in
      if now < vt_last_time v
      then v\<lparr>vt_rejected := vt_rejected v + 1, vt_last_rejected_at := Some (vt_last_time v)\<rparr>
      else v\<lparr>vt_coverage_start := (case vt_coverage_start v of None \<Rightarrow> Some now | Some s \<Rightarrow> Some s),
             vt_last_time := now, vt_buckets := observe_volume e (vt_buckets v)\<rparr>)"

section \<open>Readings\<close>

record VolumeEvidence =
  ve_contract :: string
  ve_observed_at :: f64
  ve_end :: int
  ve_ready :: bool
  ve_coverage_start :: "f64 option"
  ve_source_at :: f64
  ve_rejected_out_of_order :: int
  ve_reason :: string
  ve_ratio :: "f64 option"
  ve_recent_5s :: "f64 option"
  ve_prior_55s :: "f64 option"
  ve_observed_trade_seconds :: "int option"

definition volume_snapshot :: "utc \<Rightarrow> TradeVolumeTracker \<Rightarrow> VolumeEvidence" where
  "volume_snapshot as_of v =
     (let now = timestamp as_of; end = \<lfloor>now\<rfloor>;
          refused = (\<lambda>reason. \<lparr>ve_contract = VOLUME_CONTRACT, ve_observed_at = now, ve_end = end, ve_ready = False,
            ve_coverage_start = vt_coverage_start v, ve_source_at = vt_last_time v,
            ve_rejected_out_of_order = vt_rejected v, ve_reason = reason, ve_ratio = None,
            ve_recent_5s = None, ve_prior_55s = None, ve_observed_trade_seconds = None\<rparr>)
      in if now < vt_last_time v then refused ''future_source''
         else if (case vt_last_rejected_at v of None \<Rightarrow> False | Some r \<Rightarrow> fsub now r \<le> 60)
         then refused ''out_of_order_history''
         else if (case vt_coverage_start v of None \<Rightarrow> True | Some s \<Rightarrow> of_int (end - 60) < s)
         then refused ''insufficient_history''
         else
           (let rows = filter (\<lambda>b. end - 60 \<le> vb_index b \<and> vb_index b < end) (vt_buckets v) in
            if list_ex (\<lambda>b. vb_invalid b \<noteq> 0) rows then refused ''volume_eligibility_or_size_invalid''
            else
              (let recent = fsum (map vb_volume (filter (\<lambda>b. end - 5 \<le> vb_index b) rows));
                   prior = fsum (map vb_volume (filter (\<lambda>b. vb_index b < end - 5) rows));
                   rate = (if 0 < prior then Some (fquo (fmul 11 recent) prior) else None)
               in (refused (if rate \<noteq> None then ''measured'' else ''prior_volume_missing''))
                    \<lparr>ve_ready := rate \<noteq> None, ve_ratio := rate, ve_recent_5s := Some recent,
                     ve_prior_55s := Some prior, ve_observed_trade_seconds := Some (int (length rows))\<rparr>)))"

record VolumeVerdict =
  vv_evidence :: "VolumeEvidence option"
  vv_minimum_ratio :: f64
  vv_passed :: bool
  vv_reason :: string

definition confirm_volume :: "VolumeEvidence option \<Rightarrow> f64 \<Rightarrow> f64 \<Rightarrow> VolumeVerdict" where
  "confirm_volume evidence now minimum_ratio =
     (let verdict = (\<lambda>passed reason. \<lparr>vv_evidence = evidence, vv_minimum_ratio = minimum_ratio,
            vv_passed = passed, vv_reason = reason\<rparr>)
      in case evidence of
           None \<Rightarrow> verdict False ''volume_history_missing_or_stale''
         | Some e \<Rightarrow>
             if ve_contract e \<noteq> VOLUME_CONTRACT \<or>
                \<not> (0 \<le> fsub now (ve_observed_at e) \<and> fsub now (ve_observed_at e) \<le> 1) \<or>
                ve_end e \<noteq> \<lfloor>now\<rfloor> \<or> now < ve_source_at e
             then verdict False ''volume_history_missing_or_stale''
             else (case ve_ratio e of
                 Some rate \<Rightarrow>
                   if \<not> ve_ready e \<or> rate < 0
                   then verdict False (if ve_reason e \<noteq> [] then ve_reason e else ''volume_history_invalid'')
                   else verdict (minimum_ratio \<le> rate)
                     (if minimum_ratio \<le> rate then ''confirmed'' else ''volume_rate_below_minimum'')
               | None \<Rightarrow> verdict False (if ve_reason e \<noteq> [] then ve_reason e else ''volume_history_invalid'')))"

section \<open>What the deque retains\<close>

fun is_trade :: "MarketEvent \<Rightarrow> bool" where
  "is_trade (Trade t) = True" | "is_trade (Quote q) = False"

definition event_second :: "MarketEvent \<Rightarrow> int" where
  "event_second e = \<lfloor>timestamp (ev_ts e)\<rfloor>"

fun count_event :: "MarketEvent \<Rightarrow> VolumeBucket \<Rightarrow> VolumeBucket" where
  "count_event (Trade t) b = count_trade t b" | "count_event (Quote q) b = b"

lemma count_trade_index [simp]: "vb_index (count_trade t b) = vb_index b"
  by (simp add: count_trade_def split: option.splits)

lemma count_event_index [simp]: "vb_index (count_event e b) = vb_index b"
  by (cases e) simp_all

lemma observe_volume_alt:
  "observe_volume e bs = (let kept = dropWhile (\<lambda>b. vb_index b < event_second e - 60) bs in
     if \<not> is_trade e then kept
     else if kept = [] \<or> vb_index (last kept) \<noteq> event_second e
     then kept @ [count_event e (empty_volume (event_second e))]
     else butlast kept @ [count_event e (last kept)])"
  by (cases e) (simp_all add: observe_volume_def event_second_def Let_def)

interpretation volume: bucket_window is_trade event_second "\<lambda>e. empty_volume (event_second e)"
    count_event vb_index "\<lambda>k. k - 60" observe_volume
proof (unfold_locales, goal_cases)
  case (5 bs e)
  then have "dropWhile (\<lambda>b. vb_index b < event_second e - 60) bs = bs"
    by (cases bs) auto
  then show ?case by (simp only: observe_volume_alt Let_def)
qed (simp_all add: empty_volume_def observe_volume_alt dropWhile_idem)

end
