(* ===== verification/TradeVolumeLaws.thy ===== *)
theory TradeVolumeLaws
  imports TradeVolume
begin

text \<open>
  The rolling windows of the volume tracker count exactly the shares of the certified trades
  of their seconds: nothing is lost by the eviction, by the arrival of quotes in between, or by
  the float sums.
\<close>

section \<open>The events a tracker accepts\<close>

fun in_order :: "f64 \<Rightarrow> MarketEvent list \<Rightarrow> MarketEvent list" where
  "in_order last_time [] = []"
| "in_order last_time (e # es) =
     (if timestamp (ev_ts e) < last_time then in_order last_time es
      else e # in_order (timestamp (ev_ts e)) es)"

lemma in_order_sorted:
  "sorted (map (\<lambda>e. timestamp (ev_ts e)) (in_order l es)) \<and> (\<forall>e \<in> set (in_order l es). l \<le> timestamp (ev_ts e))"
  by (induction es arbitrary: l) force+

lemma in_order_subset: "set (in_order l es) \<subseteq> set es"
  by (induction es arbitrary: l) auto

lemma in_order_seconds: "sorted (map event_second (in_order l es))"
proof -
  have eq: "map event_second (in_order l es) = map floor (map (\<lambda>e. timestamp (ev_ts e)) (in_order l es))"
    by (simp add: event_second_def)
  have "sorted xs \<Longrightarrow> sorted (map floor xs)" for xs :: "rat list"
    by (induction xs) (auto intro: floor_mono)
  then show ?thesis unfolding eq using in_order_sorted by blast
qed

lemma tracker_buckets:
  "vt_buckets (fold volume_observe es v) = fold observe_volume (in_order (vt_last_time v) es) (vt_buckets v)"
  by (induction es arbitrary: v) (simp_all add: volume_observe_def Let_def)

lemma tracker_last_time:
  "vt_last_time (fold volume_observe es v) =
     (if in_order (vt_last_time v) es = [] then vt_last_time v
      else timestamp (ev_ts (last (in_order (vt_last_time v) es))))"
  by (induction es arbitrary: v) (simp_all add: volume_observe_def Let_def)

section \<open>Shares\<close>

text \<open>A trade that counts: certified for volume, with a size that is not negative.\<close>

fun counted :: "MarketEvent \<Rightarrow> bool" where
  "counted (Trade t) \<longleftrightarrow> er_volume_eligible (tr_raw t) = Some True \<and> 0 \<le> tr_size t"
| "counted (Quote q) \<longleftrightarrow> False"

fun traded_size :: "MarketEvent \<Rightarrow> rat" where
  "traded_size (Trade t) = tr_size t" | "traded_size (Quote q) = 0"

definition shares_between :: "int \<Rightarrow> int \<Rightarrow> MarketEvent list \<Rightarrow> rat" where
  "shares_between lo hi es =
     sum_list (map traded_size (filter (\<lambda>e. counted e \<and> lo \<le> ev_ts e div 1000000 \<and> ev_ts e div 1000000 < hi) es))"

lemma counted_trade: "counted e \<Longrightarrow> is_trade e \<and> 0 \<le> traded_size e"
  by (cases e) auto

lemma count_events_volume:
  "vb_volume (fold count_event es b) = fold (\<lambda>e v. fadd v (traded_size e)) (filter counted es) (vb_volume b)"
proof (induction es arbitrary: b)
  case (Cons e es)
  then show ?case by (cases e) (auto simp: count_trade_def split: option.splits)
qed simp

lemma history_volume:
  assumes "volume.history es k = Some b"
  shows "vb_volume b = fsum (map traded_size (filter (\<lambda>e. counted e \<and> event_second e = k) es))"
proof -
  let ?rel = "filter (\<lambda>e. is_trade e \<and> event_second e = k) es"
  obtain e rest where r: "?rel = e # rest" and b: "b = fold count_event (e # rest) (empty_volume (event_second e))"
    using assms by (auto simp: bucket_of_def simp del: fold_simps split: list.splits)
  have "filter counted (e # rest) = filter (\<lambda>e. counted e \<and> event_second e = k) es"
    unfolding r [symmetric] filter_filter by (rule filter_cong) (auto dest: counted_trade)
  then show ?thesis
    unfolding b count_events_volume by (simp add: empty_volume_def fsum_def foldl_conv_fold fold_map comp_def)
qed

lemma history_no_volume:
  assumes "volume.history es k = None"
  shows "filter (\<lambda>e. counted e \<and> event_second e = k) es = []"
  using assms counted_trade by (fastforce simp: bucket_of_None filter_empty_conv)

lemma sum_list_filter_disjoint:
  fixes f :: "'a \<Rightarrow> 'b :: comm_monoid_add"
  assumes "\<And>x. \<not> (P x \<and> Q x)"
  shows "sum_list (map f (filter (\<lambda>x. P x \<or> Q x) xs)) =
    sum_list (map f (filter P xs)) + sum_list (map f (filter Q xs))"
  by (induction xs) (use assms in \<open>auto simp: algebra_simps\<close>)

lemma sum_by_second:
  "distinct ks \<Longrightarrow>
   sum_list (map (\<lambda>k. sum_list (map traded_size (filter (\<lambda>e. counted e \<and> event_second e = k) es))) ks) =
   sum_list (map traded_size (filter (\<lambda>e. counted e \<and> event_second e \<in> set ks) es))"
proof (induction ks)
  case (Cons k ks)
  have "filter (\<lambda>e. counted e \<and> event_second e \<in> set (k # ks)) es =
      filter (\<lambda>e. counted e \<and> event_second e = k \<or> counted e \<and> event_second e \<in> set ks) es"
    by (rule filter_cong) auto
  moreover have "\<not> ((counted e \<and> event_second e = k) \<and> (counted e \<and> event_second e \<in> set ks))" for e
    using Cons.prems by auto
  ultimately show ?case using Cons by (simp add: sum_list_filter_disjoint)
qed simp

text \<open>A window of the retained rows sums to the shares of its seconds.\<close>

lemma window_shares:
  assumes whole: "\<And>e. e \<in> set es \<Longrightarrow> counted e \<Longrightarrow> traded_size e \<in> \<int>"
    and total: "sum_list (map traded_size (filter counted es)) \<le> 2 ^ 53"
    and range: "\<And>e. e \<in> set es \<Longrightarrow> clock_range (ev_ts e)"
    and sorted: "sorted (map event_second es)" and some: "es \<noteq> []"
    and lo: "event_second (last es) - 60 \<le> lo"
  shows "fsum (map vb_volume (filter (\<lambda>b. lo \<le> vb_index b \<and> vb_index b < hi) (fold observe_volume es []))) =
    shares_between lo hi es"
proof -
  let ?ks = "[lo..hi - 1]" and ?S = "\<lambda>k. sum_list (map traded_size (filter (\<lambda>e. counted e \<and> event_second e = k) es))"
  let ?rows = "List.map_filter (volume.history es) ?ks"
  have part: "sum_list (map traded_size (filter (\<lambda>e. counted e \<and> P e) es)) \<le> 2 ^ 53" for P
    using total sum_list_filter_le [of "filter counted es" traded_size P] counted_trade
    by (fastforce simp: filter_filter conj_commute)
  have vol: "vb_volume b = ?S k \<and> ?S k \<in> \<int> \<and> 0 \<le> ?S k" if "volume.history es k = Some b" for k b
    using fsum_shares [OF _ part [of "\<lambda>e. event_second e = k"]] whole counted_trade
    unfolding history_volume [OF that] by fastforce
  have rows: "filter (\<lambda>b. lo \<le> vb_index b \<and> vb_index b < hi) (fold observe_volume es []) = ?rows"
    using sorted some lo by (intro volume.window_rows [where P = "\<lambda>k. lo \<le> k \<and> k < hi"]) auto
  have sums: "sum_list (map vb_volume (List.map_filter (volume.history es) ks)) = sum_list (map ?S ks)" for ks
    by (induction ks) (auto simp: List.map_filter_simps vol history_no_volume split: option.splits)
  have "sum_list (map vb_volume ?rows) = sum_list (map traded_size (filter (\<lambda>e. counted e \<and> event_second e \<in> set ?ks) es))"
    unfolding sums by (rule sum_by_second) simp
  also have "\<dots> = shares_between lo hi es"
    unfolding shares_between_def
    by (intro arg_cong [where f = sum_list] arg_cong [where f = "map _"] filter_cong)
      (auto simp: event_second_def floor_timestamp range)
  finally have total_rows: "sum_list (map vb_volume ?rows) = shares_between lo hi es" .
  moreover have "shares_between lo hi es \<le> 2 ^ 53"
    unfolding shares_between_def by (rule part)
  moreover have "\<forall>x \<in> set (map vb_volume ?rows). x \<in> \<int> \<and> 0 \<le> x"
    using vol by (auto simp: List.map_filter_def)
  ultimately show ?thesis unfolding rows using fsum_shares [of "map vb_volume ?rows"] by simp
qed

section \<open>The property\<close>

lemma ready_snapshot:
  assumes "ve_ready (volume_snapshot as_of v)"
  shows "timestamp as_of \<ge> vt_last_time v \<and> vt_coverage_start v \<noteq> None \<and>
    (let s = \<lfloor>timestamp as_of\<rfloor>;
         recent = fsum (map vb_volume (filter (\<lambda>b. s - 5 \<le> vb_index b \<and> vb_index b < s) (vt_buckets v)));
         prior = fsum (map vb_volume (filter (\<lambda>b. s - 60 \<le> vb_index b \<and> vb_index b < s - 5) (vt_buckets v)))
     in ve_recent_5s (volume_snapshot as_of v) = Some recent \<and>
        ve_prior_55s (volume_snapshot as_of v) = Some prior \<and> 0 < prior \<and>
        ve_ratio (volume_snapshot as_of v) = Some (fquo (fmul 11 recent) prior))"
proof -
  have windows: "filter (\<lambda>b. s - 5 \<le> vb_index b) (filter (\<lambda>b. s - 60 \<le> vb_index b \<and> vb_index b < s) bs) =
      filter (\<lambda>b. s - 5 \<le> vb_index b \<and> vb_index b < s) bs"
    "filter (\<lambda>b. vb_index b < s - 5) (filter (\<lambda>b. s - 60 \<le> vb_index b \<and> vb_index b < s) bs) =
      filter (\<lambda>b. s - 60 \<le> vb_index b \<and> vb_index b < s - 5) bs" for s and bs :: "VolumeBucket list"
    unfolding filter_filter by (auto intro: filter_cong)
  show ?thesis
    using assms unfolding volume_snapshot_def Let_def windows
    by (simp split: if_splits option.splits)
qed

text \<open>
  C33. When a reading is ready, its two windows hold exactly the shares of the certified trades
  accepted in the last five completed seconds and in the fifty-five before them, counted over
  the whole history of the tracker, whatever quotes and rejected late events came in between;
  the rate compares the two. Sizes are whole and add up to at most 2^53.
\<close>

theorem volume_windows_exact:
  assumes ready: "ve_ready (volume_snapshot as_of (fold volume_observe es new_volume_tracker))"
    and clock: "clock_range as_of" "\<forall>e \<in> set es. clock_range (ev_ts e)"
    and whole: "\<forall>e \<in> set es. traded_size e \<in> \<int>"
    and total: "sum_list (map traded_size (filter counted (in_order (- 1) es))) \<le> 2 ^ 53"
  shows "let now = as_of div 1000000; seen = in_order (- 1) es; reading = volume_snapshot as_of (fold volume_observe es new_volume_tracker);
             recent = shares_between (now - 5) now seen; prior = shares_between (now - 60) (now - 5) seen
         in ve_recent_5s reading = Some recent \<and> ve_prior_55s reading = Some prior \<and> 0 < prior \<and>
            ve_ratio reading = Some (fquo (fmul 11 recent) prior)"
proof -
  let ?v = "fold volume_observe es new_volume_tracker" and ?seen = "in_order (- 1) es"
  have bs: "vt_buckets ?v = fold observe_volume ?seen []"
    by (simp add: tracker_buckets new_volume_tracker_def)
  note r = ready_snapshot [OF ready]
  have some: "?seen \<noteq> []"
  proof
    assume "?seen = []"
    then have "vt_buckets ?v = []" using bs by simp
    with r show False by (simp add: Let_def fsum_def)
  qed
  have last: "timestamp (ev_ts (last ?seen)) \<le> timestamp as_of"
    using r some tracker_last_time [of es new_volume_tracker] by (simp add: new_volume_tracker_def)
  then have "event_second (last ?seen) \<le> as_of div 1000000"
    using floor_mono floor_timestamp [OF clock(1)] by (fastforce simp: event_second_def)
  then have window: "fsum (map vb_volume (filter (\<lambda>b. lo \<le> vb_index b \<and> vb_index b < hi) (vt_buckets ?v))) =
      shares_between lo hi ?seen" if "as_of div 1000000 - 60 \<le> lo" for lo hi
    unfolding bs using that some whole clock(2) total in_order_subset [of "- 1" es]
    by (intro window_shares in_order_seconds) auto
  show ?thesis
    using r unfolding Let_def floor_timestamp [OF clock(1)] by (simp add: window)
qed

definition demo_print :: "utc \<Rightarrow> f64 \<Rightarrow> MarketEvent" where
  "demo_print t n = Trade \<lparr>tr_conditions = [], tr_event_id = [], tr_exchange = 0, tr_ingest_ts = t,
     tr_participant_ts = None, tr_price = 10, tr_raw = \<lparr>er_conid = None, er_con_id = None,
     er_price_eligible = None, er_volume_eligible = Some True\<rparr>, tr_sequence = 0, tr_size = n,
     tr_source = [], tr_tape = 0, tr_ticker = ''A'', tr_trf_id = 0, tr_trf_ts = None, tr_ts = t\<rparr>"

definition demo_prints :: "MarketEvent list" where
  "demo_prints = [demo_print 0 100, demo_print 3000000 200, demo_print 58000000 300, demo_print 61500000 50]"

theorem volume_windows_exact_witness:
  "ve_recent_5s (volume_snapshot 63000000 (fold volume_observe demo_prints new_volume_tracker)) = Some 350 \<and>
   shares_between 58 63 (in_order (- 1) demo_prints) = 350"
proof -
  let ?es = demo_prints
  have ready: "ve_ready (volume_snapshot 63000000 (fold volume_observe ?es new_volume_tracker))" by code_simp
  have "in_order (- 1) ?es = ?es" "shares_between 58 63 ?es = 350" "sum_list (map traded_size (filter counted ?es)) = 650"
    by code_simp+
  moreover have "list_all (\<lambda>e. clock_range (ev_ts e) \<and> traded_size e \<in> {50, 100, 200, 300}) ?es" by code_simp
  then have "\<forall>e \<in> set ?es. clock_range (ev_ts e) \<and> traded_size e \<in> \<int>" by (auto simp: list_all_iff)
  moreover have "clock_range 63000000" by (simp add: clock_range_def)
  ultimately show ?thesis
    using volume_windows_exact [OF ready] by (simp add: Let_def)
qed

end
