(* ===== verification/MarketPressure.thy ===== *)
theory MarketPressure
  imports Ibkr Windows
begin

text \<open>
  \<open>src/trading_runtime/market_pressure.py\<close>: order-flow pressure from trades and top-of-book
  quotes in 100 ms buckets, and the confirmed-exit state machine over its readings. Prices
  and sizes are finite in the model, so \<open>isfinite\<close> holds of them.
\<close>

section \<open>The tracker\<close>

definition PRESSURE_CONTRACT :: string where
  "PRESSURE_CONTRACT = ''trade-nbbo-pressure-v1''"

record PressurePolicy =
  pp_minimum_trades :: int
  pp_minimum_classified_fraction :: f64
  pp_trade_imbalance :: f64
  pp_quote_imbalance :: f64
  pp_retreat_spreads :: f64
  pp_confirmation_ms :: f64

definition DEFAULT_POLICY :: PressurePolicy where
  "DEFAULT_POLICY = \<lparr>pp_minimum_trades = 3, pp_minimum_classified_fraction = fl (5 / 10),
     pp_trade_imbalance = fl (3 / 10), pp_quote_imbalance = fl (2 / 10), pp_retreat_spreads = 1,
     pp_confirmation_ms = 200\<rparr>"

record PressureBucket =
  pb_index :: int
  pb_first :: "f64 option"
  pb_last :: "f64 option"
  pb_high :: f64
  pb_low :: "f64 option"
  pb_count :: int
  pb_total :: f64
  pb_buy :: f64
  pb_sell :: f64
  pb_ofi :: f64
  pb_depth :: f64

record PressureQuote =
  pq_time :: f64
  pq_bid :: f64
  pq_ask :: f64
  pq_bs :: f64
  pq_ass :: f64

type_synonym windows = "(string \<times> int) list"

record PressureTracker =
  pt_extra_windows :: windows
  pt_retention_buckets :: int
  pt_buckets :: "PressureBucket list"
  pt_quote :: "PressureQuote option"
  pt_last_time :: f64
  pt_rejected :: int

record PressureCheckpoint =
  pc_buckets :: "PressureBucket list"
  pc_quote :: "PressureQuote option"
  pc_last_time :: f64
  pc_rejected :: int
  pc_extra_windows :: windows

text \<open>\<open>deque(xs, maxlen)\<close> keeps the newest entries.\<close>

definition newest :: "int \<Rightarrow> 'a list \<Rightarrow> 'a list" where
  "newest maxlen xs = drop (length xs - nat maxlen) xs"

definition valid_window :: "string \<times> int \<Rightarrow> bool" where
  "valid_window w \<longleftrightarrow> take 7 (fst w) = ''window_'' \<and> 1 \<le> snd w \<and> snd w \<le> 60"

definition retention_of :: "windows \<Rightarrow> int" where
  "retention_of ws = (if ws = [] then 30 else foldl max 3 (map snd ws) * 10)"

definition pressure_tracker ::
    "PressureCheckpoint option \<Rightarrow> windows option \<Rightarrow> PressureTracker result" where
  "pressure_tracker saved extra_windows =
     (let stored = (case saved of None \<Rightarrow> [] | Some c \<Rightarrow> pc_extra_windows c);
          ws = (case extra_windows of None \<Rightarrow> stored | Some ws \<Rightarrow> ws)
      in if extra_windows \<noteq> None \<and> saved \<noteq> None \<and> set ws \<noteq> set stored
         then Inl (ValueError ''Cannot change pressure windows when restoring a checkpoint'')
         else if \<not> list_all valid_window ws
         then Inl (ValueError ''Pressure window names must start with window_ and durations must be 1-60 integer seconds'')
         else Inr \<lparr>pt_extra_windows = ws, pt_retention_buckets = retention_of ws,
             pt_buckets = newest (retention_of ws + 1) (case saved of None \<Rightarrow> [] | Some c \<Rightarrow> pc_buckets c),
             pt_quote = (case saved of None \<Rightarrow> None | Some c \<Rightarrow> pc_quote c),
             pt_last_time = (case saved of None \<Rightarrow> - 1 | Some c \<Rightarrow> pc_last_time c),
             pt_rejected = (case saved of None \<Rightarrow> 0 | Some c \<Rightarrow> pc_rejected c)\<rparr>)"

definition pressure_checkpoint :: "PressureTracker \<Rightarrow> PressureCheckpoint" where
  "pressure_checkpoint p = \<lparr>pc_buckets = pt_buckets p, pc_quote = pt_quote p,
     pc_last_time = pt_last_time p, pc_rejected = pt_rejected p, pc_extra_windows = pt_extra_windows p\<rparr>"

definition py_trunc :: "f64 \<Rightarrow> int" where
  "py_trunc x = (if 0 \<le> x then \<lfloor>x\<rfloor> else \<lceil>x\<rceil>)"

definition pressure_index :: "f64 \<Rightarrow> int" where
  "pressure_index now = py_trunc (fmul now 10)"

definition empty_pressure :: "int \<Rightarrow> PressureBucket" where
  "empty_pressure index = \<lparr>pb_index = index, pb_first = None, pb_last = None, pb_high = 0, pb_low = None,
     pb_count = 0, pb_total = 0, pb_buy = 0, pb_sell = 0, pb_ofi = 0, pb_depth = 0\<rparr>"

definition fresh_quote :: "f64 \<Rightarrow> PressureQuote \<Rightarrow> bool" where
  "fresh_quote now q \<longleftrightarrow> 0 \<le> fsub now (pq_time q) \<and> fsub now (pq_time q) \<le> 1"

definition usable_quote :: "QuoteEvent \<Rightarrow> bool" where
  "usable_quote q \<longleftrightarrow> 0 < qu_bid_price q \<and> qu_bid_price q < qu_ask_price q \<and>
     0 \<le> min (qu_bid_size q) (qu_ask_size q)"

definition quote_at :: "f64 \<Rightarrow> QuoteEvent \<Rightarrow> PressureQuote" where
  "quote_at now q = \<lparr>pq_time = now, pq_bid = qu_bid_price q, pq_ask = qu_ask_price q,
     pq_bs = qu_bid_size q, pq_ass = qu_ask_size q\<rparr>"

definition add_flow :: "PressureQuote \<Rightarrow> PressureQuote \<Rightarrow> PressureBucket \<Rightarrow> PressureBucket" where
  "add_flow p q b =
     (let flow = fadd (fsub (fsub (if pq_bid p \<le> pq_bid q then pq_bs q else 0)
                              (if pq_bid q \<le> pq_bid p then pq_bs p else 0))
                        (if pq_ask q \<le> pq_ask p then pq_ass q else 0))
                   (if pq_ask p \<le> pq_ask q then pq_ass p else 0);
          size = fadd (fadd (fadd (pq_bs q) (pq_ass q)) (pq_bs p)) (pq_ass p)
      in b\<lparr>pb_ofi := fadd (pb_ofi b) flow, pb_depth := fadd (pb_depth b) size\<rparr>)"

definition add_print :: "f64 \<Rightarrow> PressureQuote option \<Rightarrow> TradeEvent \<Rightarrow> PressureBucket \<Rightarrow> PressureBucket" where
  "add_print now quote t b =
     (let b1 = b\<lparr>pb_first := (case pb_first b of None \<Rightarrow> Some (tr_price t) | Some x \<Rightarrow> Some x),
            pb_last := Some (tr_price t), pb_high := max (pb_high b) (tr_price t),
            pb_low := Some (case pb_low b of None \<Rightarrow> tr_price t | Some l \<Rightarrow> min l (tr_price t)),
            pb_count := pb_count b + 1, pb_total := fadd (pb_total b) (tr_size t)\<rparr>
      in case quote of
           None \<Rightarrow> b1
         | Some q \<Rightarrow>
             if \<not> fresh_quote now q then b1
             else if pq_ask q \<le> tr_price t then b1\<lparr>pb_buy := fadd (pb_buy b1) (tr_size t)\<rparr>
             else if tr_price t \<le> pq_bid q then b1\<lparr>pb_sell := fadd (pb_sell b1) (tr_size t)\<rparr>
             else b1)"

definition volume_print :: "wall_clock \<Rightarrow> TradeEvent \<Rightarrow> bool" where
  "volume_print ny t \<longleftrightarrow> tr_price_eligible ny t \<and> er_volume_eligible (tr_raw t) \<noteq> Some False \<and>
     0 < tr_price t \<and> 0 < tr_size t"

text \<open>What an event does to the bucket of its time, given the quote the tracker holds.\<close>

definition absorb_event :: "wall_clock \<Rightarrow> MarketEvent \<times> PressureQuote option \<Rightarrow> PressureBucket \<Rightarrow> PressureBucket" where
  "absorb_event ny e b =
     (let now = timestamp (ev_ts (fst e)) in
      case fst e of
        Quote q \<Rightarrow>
          (if \<not> usable_quote q then b
           else case snd e of
             None \<Rightarrow> b
           | Some p \<Rightarrow> if fresh_quote now p then add_flow p (quote_at now q) b else b)
      | Trade t \<Rightarrow> if volume_print ny t then add_print now (snd e) t b else b)"

definition quote_after :: "MarketEvent \<Rightarrow> PressureQuote option \<Rightarrow> PressureQuote option" where
  "quote_after e quote =
     (case e of
        Quote q \<Rightarrow> if usable_quote q then Some (quote_at (timestamp (ev_ts e)) q) else None
      | Trade t \<Rightarrow> quote)"

definition observe_pressure ::
    "wall_clock \<Rightarrow> int \<Rightarrow> MarketEvent \<times> PressureQuote option \<Rightarrow> PressureBucket list \<Rightarrow> PressureBucket list" where
  "observe_pressure ny retention e bs =
     (let index = pressure_index (timestamp (ev_ts (fst e)));
          kept = dropWhile (\<lambda>b. pb_index b < index - retention) bs;
          rows = (if kept = [] \<or> pb_index (last kept) \<noteq> index
                  then newest (retention + 1) (kept @ [empty_pressure index]) else kept)
      in butlast rows @ [absorb_event ny e (last rows)])"

definition pressure_observe :: "wall_clock \<Rightarrow> MarketEvent \<Rightarrow> PressureTracker \<Rightarrow> PressureTracker" where
  "pressure_observe ny e p =
     (let now = timestamp (ev_ts e) in
      if now < pt_last_time p then p\<lparr>pt_rejected := pt_rejected p + 1\<rparr>
      else p\<lparr>pt_last_time := now,
             pt_buckets := observe_pressure ny (pt_retention_buckets p) (e, pt_quote p) (pt_buckets p),
             pt_quote := quote_after e (pt_quote p)\<rparr>)"

section \<open>Readings\<close>

record MicroReading =
  mr_high :: f64
  mr_low :: f64
  mr_trades :: int
  mr_span_ms :: int

record WindowTotals =
  wt_window_seconds :: int
  wt_total_volume :: f64
  wt_buy_volume :: f64
  wt_sell_volume :: f64
  wt_unknown_volume :: f64
  wt_signed_volume :: f64
  wt_order_flow_imbalance :: f64
  wt_quote_depth_sum :: f64
  wt_first :: "f64 option"
  wt_last :: "f64 option"
  wt_high :: "f64 option"
  wt_low :: "f64 option"
  wt_body_to_range :: "f64 option"
  wt_close_location :: "f64 option"

record WindowReading =
  wr_trades :: int
  wr_classified_fraction :: f64
  wr_trade_imbalance :: f64
  wr_quote_imbalance :: f64
  wr_quote_ready :: bool
  wr_progress_spreads :: f64
  wr_retreat_spreads :: f64
  wr_totals :: "WindowTotals option"

record PressureEvidence =
  pe_contract :: string
  pe_observed_at :: utc
  pe_ready :: bool
  pe_rejected_out_of_order :: int
  pe_micro :: "MicroReading option"
  pe_quote_age_ms :: "f64 option"
  pe_spread :: "f64 option"
  pe_windows :: "(string \<times> WindowReading) list"

definition first_price :: "PressureBucket \<Rightarrow> f64" where
  "first_price b = (case pb_first b of None \<Rightarrow> 0 | Some x \<Rightarrow> x)"

definition last_price :: "PressureBucket \<Rightarrow> f64" where
  "last_price b = (case pb_last b of None \<Rightarrow> 0 | Some x \<Rightarrow> x)"

text \<open>\<open>b.get("low") or b["first"]\<close>.\<close>

definition low_price :: "PressureBucket \<Rightarrow> f64" where
  "low_price b = (case pb_low b of None \<Rightarrow> first_price b | Some l \<Rightarrow> if l = 0 then first_price b else l)"

definition max_of :: "f64 list \<Rightarrow> f64" where "max_of xs = foldl max (hd xs) (tl xs)"
definition min_of :: "f64 list \<Rightarrow> f64" where "min_of xs = foldl min (hd xs) (tl xs)"

definition micro_reading :: "f64 \<Rightarrow> PressureBucket list \<Rightarrow> MicroReading option" where
  "micro_reading now bs =
     (let prior = filter (\<lambda>b. fsub now 1 \<le> fl (of_int (pb_index b) / 10) \<and>
            fl (of_int (pb_index b) / 10) < fl (of_int (pressure_index now) / 10) \<and> pb_count b \<noteq> 0) bs
      in if prior = [] then None
         else Some \<lparr>mr_high = max_of (map pb_high prior), mr_low = min_of (map low_price prior),
           mr_trades = sum_list (map pb_count prior),
           mr_span_ms = (pb_index (last prior) - pb_index (hd prior)) * 100\<rparr>)"

definition window_buckets :: "f64 \<Rightarrow> int \<Rightarrow> PressureBucket list \<Rightarrow> PressureBucket list" where
  "window_buckets now seconds bs =
     filter (\<lambda>b. fsub now (of_int seconds) \<le> fl (of_int (pb_index b) / 10) \<and> fl (of_int (pb_index b) / 10) \<le> now) bs"

definition window_totals :: "int \<Rightarrow> PressureBucket list \<Rightarrow> WindowTotals" where
  "window_totals seconds rows =
     (let trades = filter (\<lambda>b. pb_count b \<noteq> 0) rows;
          some = (\<lambda>x. if trades = [] then None else Some x);
          total = fsum (map pb_total rows); buy = fsum (map pb_buy rows); sell = fsum (map pb_sell rows);
          high = max_of (map pb_high trades); low = min_of (map low_price trades);
          opened = first_price (hd trades); closed = last_price (last trades);
          span = (if trades = [] then 0 else fsub high low)
      in \<lparr>wt_window_seconds = seconds, wt_total_volume = total, wt_buy_volume = buy, wt_sell_volume = sell,
          wt_unknown_volume = fsub (fsub total buy) sell, wt_signed_volume = fsub buy sell,
          wt_order_flow_imbalance = fsum (map pb_ofi rows), wt_quote_depth_sum = fsum (map pb_depth rows),
          wt_first = some opened, wt_last = some closed, wt_high = some high, wt_low = some low,
          wt_body_to_range = (if span \<noteq> 0 then Some (fquo (fsub closed opened) span) else None),
          wt_close_location = (if span \<noteq> 0 then Some (fquo (fsub closed low) span) else None)\<rparr>)"

definition window_reading :: "f64 \<Rightarrow> f64 \<Rightarrow> bool \<Rightarrow> int \<Rightarrow> PressureBucket list \<Rightarrow> WindowReading" where
  "window_reading now spread include_totals seconds bs =
     (let rows = window_buckets now seconds bs; trades = filter (\<lambda>b. pb_count b \<noteq> 0) rows;
          total = fsum (map pb_total rows); buy = fsum (map pb_buy rows); sell = fsum (map pb_sell rows);
          depth = fsum (map pb_depth rows)
      in \<lparr>wr_trades = sum_list (map pb_count rows),
          wr_classified_fraction = (if total \<noteq> 0 then fquo (fadd buy sell) total else 0),
          wr_trade_imbalance = (if fadd buy sell \<noteq> 0 then fquo (fsub buy sell) (fadd buy sell) else 0),
          wr_quote_imbalance = (if depth \<noteq> 0
            then max (- 1) (min 1 (fquo (fmul 2 (fsum (map pb_ofi rows))) depth)) else 0),
          wr_quote_ready = (0 < depth),
          wr_progress_spreads = (if trades \<noteq> []
            then fquo (fsub (last_price (last trades)) (first_price (hd trades))) spread else 0),
          wr_retreat_spreads = (if trades \<noteq> []
            then fquo (fsub (max_of (map pb_high trades)) (last_price (last trades))) spread else 0),
          wr_totals = (if include_totals then Some (window_totals seconds rows) else None)\<rparr>)"

definition pressure_snapshot :: "utc \<Rightarrow> bool \<Rightarrow> PressureTracker \<Rightarrow> PressureEvidence" where
  "pressure_snapshot as_of include_totals p =
     (let now = timestamp as_of;
          unready = \<lparr>pe_contract = PRESSURE_CONTRACT, pe_observed_at = as_of, pe_ready = False,
            pe_rejected_out_of_order = pt_rejected p, pe_micro = None, pe_quote_age_ms = None,
            pe_spread = None, pe_windows = []\<rparr>
      in case pt_quote p of
           None \<Rightarrow> unready
         | Some q \<Rightarrow>
             if \<not> fresh_quote now q \<or> now < pt_last_time p then unready
             else
               (let spread = fsub (pq_ask q) (pq_bid q) in
                unready\<lparr>pe_ready := True, pe_micro := micro_reading now (pt_buckets p),
                  pe_quote_age_ms := Some (fmul (fsub now (pq_time q)) 1000), pe_spread := Some spread,
                  pe_windows := map (\<lambda>(name, seconds). (name, window_reading now spread include_totals seconds (pt_buckets p)))
                    ((''fast'', 1) # (''slow'', 3) # pt_extra_windows p)\<rparr>))"

section \<open>The confirmed exit\<close>

text \<open>The two keys of the assignment state the evaluation owns.\<close>

record PressureState =
  ps_evaluated_at :: "f64 option"
  ps_adverse_since :: "f64 option"

record PressureVerdict =
  pv_evidence :: "PressureEvidence option"
  pv_usable :: bool
  pv_adverse :: bool
  pv_exit_confirmed :: bool
  pv_recovered :: bool
  pv_reason :: string

text \<open>\<open>None\<close> is an empty evidence dictionary.\<close>

definition evidence_age :: "utc \<Rightarrow> PressureEvidence option \<Rightarrow> f64" where
  "evidence_age observed_at evidence =
     (case evidence of None \<Rightarrow> - 1 | Some e \<Rightarrow> timestamp (observed_at - pe_observed_at e))"

definition fast_reading :: "PressureEvidence option \<Rightarrow> WindowReading option" where
  "fast_reading evidence = (case evidence of None \<Rightarrow> None | Some e \<Rightarrow> map_of (pe_windows e) ''fast'')"

definition pressure_usable :: "PressurePolicy \<Rightarrow> utc \<Rightarrow> PressureEvidence option \<Rightarrow> bool" where
  "pressure_usable p observed_at evidence =
     (let age = evidence_age observed_at evidence in
      case (evidence, fast_reading evidence) of
        (Some e, Some fast) \<Rightarrow>
          pe_contract e = PRESSURE_CONTRACT \<and> pe_ready e \<and> 0 \<le> age \<and> age \<le> 25 / 100 \<and>
          pp_minimum_trades p \<le> wr_trades fast \<and>
          pp_minimum_classified_fraction p \<le> wr_classified_fraction fast \<and> wr_quote_ready fast
      | _ \<Rightarrow> False)"

definition selling_pressure :: "PressurePolicy \<Rightarrow> WindowReading \<Rightarrow> bool" where
  "selling_pressure p fast \<longleftrightarrow>
     wr_trade_imbalance fast \<le> - pp_trade_imbalance p \<and> wr_quote_imbalance fast \<le> - pp_quote_imbalance p \<and>
     pp_retreat_spreads p \<le> wr_retreat_spreads fast"

definition seller_absorption :: "PressurePolicy \<Rightarrow> WindowReading \<Rightarrow> bool" where
  "seller_absorption p fast \<longleftrightarrow>
     pp_trade_imbalance p \<le> wr_trade_imbalance fast \<and> wr_quote_imbalance fast \<le> - pp_quote_imbalance p \<and>
     wr_progress_spreads fast \<le> 0 \<and> pp_retreat_spreads p \<le> wr_retreat_spreads fast"

definition buying_recovery :: "WindowReading \<Rightarrow> bool" where
  "buying_recovery fast \<longleftrightarrow> 0 \<le> wr_trade_imbalance fast \<and> 0 < wr_progress_spreads fast \<and> 0 \<le> wr_quote_imbalance fast"

definition reading_holds :: "(WindowReading \<Rightarrow> bool) \<Rightarrow> PressureEvidence option \<Rightarrow> bool" where
  "reading_holds P evidence = (case fast_reading evidence of None \<Rightarrow> False | Some fast \<Rightarrow> P fast)"

definition evaluate_pressure ::
    "PressurePolicy \<Rightarrow> utc \<Rightarrow> PressureEvidence option \<Rightarrow> PressureState \<Rightarrow> PressureVerdict \<times> PressureState" where
  "evaluate_pressure p observed_at evidence s =
     (let ready = pressure_usable p observed_at evidence;
          selling = (ready \<and> reading_holds (selling_pressure p) evidence);
          absorption = (ready \<and> reading_holds (seller_absorption p) evidence);
          adverse = (selling \<or> absorption);
          now = timestamp observed_at;
          gap = fsub now (case ps_evaluated_at s of None \<Rightarrow> now | Some t \<Rightarrow> t);
          kept = (if 0 \<le> gap \<and> gap \<le> 25 / 100 then ps_adverse_since s else None);
          since = (if adverse then Some (case kept of None \<Rightarrow> now | Some t \<Rightarrow> t) else None)
      in (\<lparr>pv_evidence = evidence, pv_usable = ready, pv_adverse = adverse,
            pv_exit_confirmed = (case since of None \<Rightarrow> False
              | Some t \<Rightarrow> 0 \<le> fsub now t \<and> pp_confirmation_ms p \<le> fmul (fsub now t) 1000),
            pv_recovered = (ready \<and> \<not> adverse \<and> reading_holds buying_recovery evidence),
            pv_reason = (if absorption then ''seller_absorption'' else if selling then ''selling_pressure''
              else if ready then ''clear'' else ''unavailable'')\<rparr>,
          \<lparr>ps_evaluated_at = Some now, ps_adverse_since = since\<rparr>))"


end
