(* ===== verification/MarketPressureLaws.thy ===== *)
theory MarketPressureLaws
  imports MarketPressure
begin

text \<open>
  The pressure tracker as a bucket window, the range of its imbalances, and the confirmed exit:
  a run of adverse readings with no gap.
\<close>

section \<open>The deque as a window\<close>

lemma ordered_length:
  assumes "ordered key bs" "\<forall>b \<in> set bs. lo \<le> key b \<and> key b < (hi :: int)"
  shows "length bs \<le> nat (hi - lo)"
proof -
  have "distinct (map key bs)" using assms(1) by (simp add: ordered_def strict_sorted_iff)
  then have "length bs = card (set (map key bs))" using distinct_card by fastforce
  also have "\<dots> \<le> card {lo..<hi}" using assms(2) by (intro card_mono) auto
  finally show ?thesis by simp
qed

definition pressure_period :: "MarketEvent \<times> PressureQuote option \<Rightarrow> int" where
  "pressure_period e = pressure_index (timestamp (ev_ts (fst e)))"

lemma absorb_event_index [simp]: "pb_index (absorb_event ny e b) = pb_index b"
  by (simp add: absorb_event_def add_print_def add_flow_def Let_def split: MarketEvent.splits option.splits)

text \<open>The bound of the deque never drops a bucket: the cutoff leaves at most one per index.\<close>

lemma observe_pressure_step:
  assumes "ordered pb_index bs" "\<forall>b \<in> set bs. pb_index b \<le> pressure_period e \<and> pressure_period e - int n \<le> pb_index b"
  shows "observe_pressure ny (int n) e bs =
    (if bs = [] \<or> pb_index (last bs) \<noteq> pressure_period e
     then bs @ [absorb_event ny e (empty_pressure (pressure_period e))]
     else butlast bs @ [absorb_event ny e (last bs)])"
proof -
  have kept: "dropWhile (\<lambda>b. pb_index b < pressure_period e - int n) bs = bs"
    using assms(2) by (cases bs) auto
  have "newest (int n + 1) (bs @ [b]) = bs @ [b]" if "bs = [] \<or> pb_index (last bs) \<noteq> pressure_period e" for b
  proof -
    have "\<forall>c \<in> set bs. pb_index c < pressure_period e"
    proof (cases "bs = []")
      case False
      then obtain l cs where bs: "bs = cs @ [l]" by (metis rev_exhaust)
      with that assms have "pb_index l < pressure_period e" by force
      with assms(1) bs show ?thesis by force
    qed simp
    with assms have "length bs \<le> nat (pressure_period e - (pressure_period e - int n))"
      by (intro ordered_length) auto
    then show ?thesis by (simp add: newest_def)
  qed
  then show ?thesis
    unfolding observe_pressure_def Let_def pressure_period_def [symmetric] kept by auto
qed

interpretation pressure: bucket_window "\<lambda>_. True" pressure_period "\<lambda>e. empty_pressure (pressure_period e)"
    "absorb_event ny" pb_index "\<lambda>k. k - int n" "observe_pressure ny (int n)"
  for ny n
proof (unfold_locales, goal_cases)
  case (5 bs e)
  then show ?case using observe_pressure_step [of bs e n ny] by simp
next
  case (6 bs e)
  show ?case unfolding observe_pressure_def pressure_period_def Let_def dropWhile_idem ..
qed (simp_all add: empty_pressure_def)

section \<open>Imbalances\<close>

lemma fquo_unit: "\<bar>x\<bar> \<le> y \<Longrightarrow> - 1 \<le> fquo x y \<and> fquo x y \<le> 1"
proof -
  assume "\<bar>x\<bar> \<le> y"
  then have "- 1 \<le> x / y" "x / y \<le> 1" by (cases "y = 0"; simp add: field_simps)+
  then have "fl (- 1) \<le> fl (x / y)" "fl (x / y) \<le> fl 1" by (simp_all only: fl_mono)
  then show ?thesis by (simp add: fquo_def fl_uminus)
qed

lemma imbalance_unit:
  assumes "0 \<le> buy" "0 \<le> sell"
  shows "- 1 \<le> fquo (fsub buy sell) (fadd buy sell) \<and> fquo (fsub buy sell) (fadd buy sell) \<le> 1"
proof -
  have "fl (- (buy + sell)) \<le> fl (buy - sell)" "fl (buy - sell) \<le> fl (buy + sell)"
    using assms by (auto intro: fl_mono)
  then have "\<bar>fsub buy sell\<bar> \<le> fadd buy sell" unfolding fsub_def fadd_def fl_uminus by linarith
  then show ?thesis by (rule fquo_unit)
qed

lemma fsum_nonneg: "\<forall>x \<in> set xs. 0 \<le> x \<Longrightarrow> 0 \<le> fsum xs"
  by (induction xs rule: rev_induct) (auto simp: fsum_append_one fadd_nonneg, simp add: fsum_def)

text \<open>A bucket only ever adds positive sizes.\<close>

lemma absorbed_nonneg:
  "0 \<le> pb_buy b \<and> 0 \<le> pb_sell b \<Longrightarrow> 0 \<le> pb_buy (absorb_event ny e b) \<and> 0 \<le> pb_sell (absorb_event ny e b)"
  by (auto simp: absorb_event_def add_print_def add_flow_def volume_print_def Let_def fadd_nonneg
      split: MarketEvent.splits option.splits)

lemma history_nonneg: "pressure.history ny es k = Some b \<Longrightarrow> 0 \<le> pb_buy b \<and> 0 \<le> pb_sell b"
proof -
  have "0 \<le> pb_buy b \<and> 0 \<le> pb_sell b \<Longrightarrow>
      0 \<le> pb_buy (fold (absorb_event ny) xs b) \<and> 0 \<le> pb_sell (fold (absorb_event ny) xs b)" for xs b
    by (induction xs arbitrary: b) (auto simp: absorbed_nonneg)
  moreover assume "pressure.history ny es k = Some b"
  ultimately show ?thesis
    by (auto simp: bucket_of_def empty_pressure_def absorbed_nonneg simp del: fold_simps split: list.splits)
qed

section \<open>The confirmed exit\<close>

fun evaluate_all ::
    "PressurePolicy \<Rightarrow> PressureState \<Rightarrow> (utc \<times> PressureEvidence option) list \<Rightarrow> PressureVerdict list \<times> PressureState" where
  "evaluate_all p s [] = ([], s)"
| "evaluate_all p s (ob # obs) =
     (case evaluate_pressure p (fst ob) (snd ob) s of (v, s1) \<Rightarrow>
      case evaluate_all p s1 obs of (vs, s2) \<Rightarrow> (v # vs, s2))"

definition clear_state :: PressureState where
  "clear_state = \<lparr>ps_evaluated_at = None, ps_adverse_since = None\<rparr>"

lemma evaluate_all_snoc:
  "evaluate_all p s (obs @ [ob]) =
     (case evaluate_all p s obs of (vs, s1) \<Rightarrow>
      case evaluate_pressure p (fst ob) (snd ob) s1 of (v, s2) \<Rightarrow> (vs @ [v], s2))"
  by (induction obs arbitrary: s) (auto split: prod.splits)

lemma exit_confirmed_state:
  "evaluate_pressure p now evidence s = (v, r) \<Longrightarrow>
   pv_exit_confirmed v = (case ps_adverse_since r of None \<Rightarrow> False
     | Some t \<Rightarrow> 0 \<le> fsub (timestamp now) t \<and> pp_confirmation_ms p \<le> fmul (fsub (timestamp now) t) 1000)"
  unfolding evaluate_pressure_def Let_def by (simp only: prod.inject) (elim conjE, hypsubst, simp only: PressureVerdict.simps PressureState.simps)

text \<open>
  \<open>sustained obs vs j k\<close>: evaluations \<open>j\<close> to \<open>k\<close> are all adverse and no more than a quarter of
  a second apart.
\<close>

definition sustained :: "(utc \<times> PressureEvidence option) list \<Rightarrow> PressureVerdict list \<Rightarrow> nat \<Rightarrow> nat \<Rightarrow> bool" where
  "sustained obs vs j k \<longleftrightarrow> j \<le> k \<and> (\<forall>i \<in> {j..k}. pv_adverse (vs ! i)) \<and>
     (\<forall>i \<in> {j..<k}. 0 \<le> fsub (timestamp (fst (obs ! Suc i))) (timestamp (fst (obs ! i))) \<and>
        fsub (timestamp (fst (obs ! Suc i))) (timestamp (fst (obs ! i))) \<le> 1 / 4)"

lemma sustained_append:
  "k < length obs \<Longrightarrow> k < length vs \<Longrightarrow> sustained (obs @ os) (vs @ ws) j k = sustained obs vs j k"
  by (auto simp: sustained_def nth_append)

lemma sustained_Suc:
  "sustained obs vs j k \<Longrightarrow> pv_adverse (vs ! Suc k) \<Longrightarrow>
   0 \<le> fsub (timestamp (fst (obs ! Suc k))) (timestamp (fst (obs ! k))) \<Longrightarrow>
   fsub (timestamp (fst (obs ! Suc k))) (timestamp (fst (obs ! k))) \<le> 1 / 4 \<Longrightarrow> sustained obs vs j (Suc k)"
  by (auto simp: sustained_def atLeastAtMostSuc_conv atLeastLessThanSuc)

definition adverse_run ::
    "PressurePolicy \<Rightarrow> (utc \<times> PressureEvidence option) list \<Rightarrow> PressureVerdict list \<Rightarrow> f64 \<Rightarrow> bool" where
  "adverse_run p obs vs t \<longleftrightarrow> obs \<noteq> [] \<and>
     (\<exists>j. timestamp (fst (obs ! j)) = t \<and> sustained obs vs j (length obs - 1))"

lemma evaluate_all_state:
  assumes "evaluate_all p clear_state obs = (vs, s)"
  shows "length vs = length obs \<and>
    ps_evaluated_at s = (if obs = [] then None else Some (timestamp (fst (last obs)))) \<and>
    (\<forall>t. ps_adverse_since s = Some t \<longrightarrow> adverse_run p obs vs t)"
  using assms
proof (induction obs arbitrary: vs s rule: rev_induct)
  case Nil
  then show ?case by (auto simp: clear_state_def)
next
  case (snoc ob obs)
  obtain us r where prev: "evaluate_all p clear_state obs = (us, r)" by fastforce
  obtain v where last: "evaluate_pressure p (fst ob) (snd ob) r = (v, s)" and vs: "vs = us @ [v]"
    using snoc.prems prev by (auto simp: evaluate_all_snoc split: prod.splits)
  note IH = snoc.IH [OF prev]
  let ?n = "length obs" and ?now = "timestamp (fst ob)"
  have single: "adverse_run p (obs @ [ob]) vs ?now" if "pv_adverse v"
    using that IH by (auto simp: adverse_run_def sustained_def vs nth_append intro!: exI [of _ ?n])
  have "adverse_run p (obs @ [ob]) vs t" if t: "ps_adverse_since s = Some t" for t
  proof -
    have adv: "pv_adverse v" using last t by (auto simp: evaluate_pressure_def Let_def split: if_splits)
    show ?thesis
    proof (cases "t = ?now")
      case False
      then have old: "ps_adverse_since r = Some t" and
        gap: "0 \<le> fsub ?now (case ps_evaluated_at r of None \<Rightarrow> ?now | Some u \<Rightarrow> u)"
          "fsub ?now (case ps_evaluated_at r of None \<Rightarrow> ?now | Some u \<Rightarrow> u) \<le> 1 / 4"
        using last t by (auto simp: evaluate_pressure_def Let_def split: if_splits option.splits)
      with IH obtain j where j: "timestamp (fst (obs ! j)) = t" "sustained obs us j (?n - 1)" and "obs \<noteq> []"
        by (auto simp: adverse_run_def)
      then have n: "Suc (?n - 1) = ?n" "j < ?n" by (cases obs; auto simp: sustained_def)+
      have "sustained (obs @ [ob]) vs j (?n - 1)"
        unfolding vs using j n IH by (subst sustained_append) auto
      moreover have "pv_adverse (vs ! ?n)" using adv IH by (simp add: vs nth_append)
      moreover have "(obs @ [ob]) ! (?n - 1) = last obs" using \<open>obs \<noteq> []\<close> by (simp add: nth_append last_conv_nth)
      ultimately have "sustained (obs @ [ob]) vs j ?n"
        using gap IH \<open>obs \<noteq> []\<close> n sustained_Suc [of "obs @ [ob]" vs j "?n - 1"] by (simp add: nth_append)
      then show ?thesis using j n by (auto simp: adverse_run_def nth_append intro!: exI [of _ j])
    qed (use single adv in simp)
  qed
  then show ?case
    using IH last by (auto simp: vs evaluate_pressure_def Let_def)
qed

text \<open>
  C34. From a clear state, an exit is confirmed only at the end of an unbroken run of adverse
  evaluations: every evaluation of the run is adverse, each follows the one before it within a
  quarter of a second, and the run lasts at least the confirmation time.
\<close>

theorem exit_confirmed_after_sustained_pressure:
  assumes "evaluate_all p clear_state obs = (verdicts, s)" "k < length obs" "pv_exit_confirmed (verdicts ! k)"
  shows "\<exists>j. sustained obs verdicts j k \<and>
    pp_confirmation_ms p \<le> fmul (fsub (timestamp (fst (obs ! k))) (timestamp (fst (obs ! j)))) 1000"
proof -
  let ?pre = "take (Suc k) obs" and ?rest = "drop (Suc k) obs"
  obtain vs r where pre: "evaluate_all p clear_state ?pre = (vs, r)" by fastforce
  have split: "evaluate_all p s0 (xs @ ys) =
      (case evaluate_all p s0 xs of (vs, s1) \<Rightarrow> case evaluate_all p s1 ys of (ws, s2) \<Rightarrow> (vs @ ws, s2))" for s0 xs ys
    by (induction xs arbitrary: s0) (auto split: prod.splits)
  have n: "length vs = Suc k" using evaluate_all_state [OF pre] assms(2) by simp
  obtain ws where verdicts: "verdicts = vs @ ws"
    using assms(1) pre split [of clear_state ?pre ?rest] by (auto split: prod.splits)
  have pk: "?pre = take k obs @ [obs ! k]" using assms(2) by (simp add: take_Suc_conv_app_nth)
  obtain us u v where "evaluate_all p clear_state (take k obs) = (us, u)"
    and v: "evaluate_pressure p (fst (obs ! k)) (snd (obs ! k)) u = (v, r)" and vs: "vs = us @ [v]"
    using pre unfolding pk evaluate_all_snoc by (auto split: prod.splits)
  then have "verdicts ! k = v" using n by (simp add: verdicts nth_append)
  with v assms(3) obtain t where t: "ps_adverse_since r = Some t"
    and long: "pp_confirmation_ms p \<le> fmul (fsub (timestamp (fst (obs ! k))) t) 1000"
    by (auto simp: exit_confirmed_state split: option.splits)
  from evaluate_all_state [OF pre] t have "adverse_run p ?pre vs t" by simp
  moreover have "length ?pre - 1 = k" using assms(2) by simp
  ultimately obtain j where j: "timestamp (fst (?pre ! j)) = t" "sustained ?pre vs j k"
    by (metis adverse_run_def)
  then have "j \<le> k" by (simp add: sustained_def)
  moreover have "sustained (?pre @ ?rest) (vs @ ws) j k"
    using j(2) n assms(2) by (subst sustained_append) auto
  ultimately show ?thesis using j(1) long by (auto simp: verdicts)
qed

definition demo_selling :: "utc \<Rightarrow> PressureEvidence option" where
  "demo_selling t = Some \<lparr>pe_contract = PRESSURE_CONTRACT, pe_observed_at = t, pe_ready = True,
     pe_rejected_out_of_order = 0, pe_micro = None, pe_quote_age_ms = Some 0, pe_spread = Some 1,
     pe_windows = [(''fast'', \<lparr>wr_trades = 4, wr_classified_fraction = 1, wr_trade_imbalance = - 1,
       wr_quote_imbalance = - 1, wr_quote_ready = True, wr_progress_spreads = - 2, wr_retreat_spreads = 2,
       wr_totals = None\<rparr>)]\<rparr>"

definition demo_observations :: "(utc \<times> PressureEvidence option) list" where
  "demo_observations = [(10000000, None), (10000000, demo_selling 10000000), (10250000, demo_selling 10250000)]"

theorem exit_confirmed_after_sustained_pressure_witness:
  "\<exists>j. sustained demo_observations (fst (evaluate_all DEFAULT_POLICY clear_state demo_observations)) j 2 \<and>
    200 \<le> fmul (fsub (timestamp 10250000) (timestamp (fst (demo_observations ! j)))) 1000"
proof -
  let ?r = "evaluate_all DEFAULT_POLICY clear_state demo_observations"
  have "evaluate_all DEFAULT_POLICY clear_state demo_observations = (fst ?r, snd ?r)" by simp
  moreover have "2 < length demo_observations" "pv_exit_confirmed (fst ?r ! 2)" by code_simp+
  moreover have "pp_confirmation_ms DEFAULT_POLICY = 200" "fst (demo_observations ! 2) = 10250000"
    by (simp_all add: DEFAULT_POLICY_def demo_observations_def)
  ultimately show ?thesis
    using exit_confirmed_after_sustained_pressure [of DEFAULT_POLICY demo_observations "fst ?r" "snd ?r" 2] by simp
qed

end
