(* ===== verification/CandleRange.thy ===== *)
theory CandleRange
  imports Windows Payload
begin

text \<open>
  \<open>src/trading_runtime/completed_candle_range.py\<close>: the highs of the completed candles of a
  rolling duration. Clocks and prices are finite doubles.
\<close>

definition CANDLE_CONTRACT :: string where
  "CANDLE_CONTRACT = ''completed-candle-range-1''"

record CandleRange =
  cr_seconds :: f64
  cr_coverage_start :: f64
  cr_rows :: "(f64 \<times> f64) list"

definition CompletedCandleRange :: "f64 \<Rightarrow> f64 \<Rightarrow> CandleRange result" where
  "CompletedCandleRange seconds coverage_start =
     (if \<not> (0 < seconds \<and> seconds \<le> 3600)
      then Inl (ValueError ''Completed candle range requires a bounded duration and coverage start'')
      else Inr \<lparr>cr_seconds = seconds, cr_coverage_start = coverage_start, cr_rows = []\<rparr>)"

definition push_candle :: "f64 \<Rightarrow> f64 \<times> f64 \<Rightarrow> (f64 \<times> f64) list \<Rightarrow> (f64 \<times> f64) list" where
  "push_candle seconds row rows = dropWhile (\<lambda>r. fst r < fsub (fst row) seconds) (rows @ [row])"

definition observe_candle :: "f64 \<times> f64 \<Rightarrow> CandleRange \<Rightarrow> CandleRange result" where
  "observe_candle row c =
     (if snd row \<le> 0 \<or> fst row < cr_coverage_start c
      then Inl (ValueError ''Completed candle range received an invalid candle'')
      else if cr_rows c \<noteq> [] \<and> fst row \<le> fst (last (cr_rows c))
      then (if row = last (cr_rows c) then Inr c
            else Inl (ValueError ''Completed candle history is unordered or conflicting''))
      else Inr (c\<lparr>cr_rows := push_candle (cr_seconds c) row (cr_rows c)\<rparr>))"

record CandleContext =
  cx_contract :: string
  cx_ready :: bool
  cx_as_of :: f64
  cx_seconds :: f64
  cx_coverage_start :: "f64 option"
  cx_window_start :: "f64 option"
  cx_high :: "f64 option"
  cx_samples :: "int option"

definition candle_context :: "f64 \<Rightarrow> CandleRange \<Rightarrow> CandleContext" where
  "candle_context as_of c =
     (if cr_rows c = [] \<or> fst (last (cr_rows c)) \<noteq> as_of
      then \<lparr>cx_contract = CANDLE_CONTRACT, cx_ready = False, cx_as_of = as_of, cx_seconds = cr_seconds c,
        cx_coverage_start = None, cx_window_start = None, cx_high = None, cx_samples = None\<rparr>
      else
        (let prior = filter (\<lambda>r. fsub as_of (cr_seconds c) \<le> fst r \<and> fst r < as_of) (cr_rows c)
         in \<lparr>cx_contract = CANDLE_CONTRACT, cx_ready = True, cx_as_of = as_of, cx_seconds = cr_seconds c,
           cx_coverage_start = Some (cr_coverage_start c),
           cx_window_start = Some (max (cr_coverage_start c) (fsub as_of (cr_seconds c))),
           cx_high = (case map snd prior of [] \<Rightarrow> None | h # hs \<Rightarrow> Some (foldl max h hs)),
           cx_samples = Some (int (length prior))\<rparr>))"

text \<open>
  \<open>checkpoint()\<close> is the triple of the fields. \<open>restore\<close> replays its rows; the previous row of
  the loop is an argument, starting below every clock.
\<close>

definition candle_checkpoint :: "CandleRange \<Rightarrow> f64 \<times> f64 \<times> (f64 \<times> f64) list" where
  "candle_checkpoint c = (cr_seconds c, cr_coverage_start c, cr_rows c)"

fun replay_candles :: "(f64 \<times> f64) list \<Rightarrow> f64 option \<Rightarrow> CandleRange \<Rightarrow> CandleRange result" where
  "replay_candles [] previous c = Inr c"
| "replay_candles (row # rows) previous c =
     (if (case previous of None \<Rightarrow> False | Some p \<Rightarrow> fst row \<le> p)
      then Inl (ValueError ''Completed candle checkpoint has duplicate or unordered rows'')
      else bind_result (observe_candle row c) (replay_candles rows (Some (fst row))))"

definition restore_candles :: "f64 \<times> f64 \<times> (f64 \<times> f64) list \<Rightarrow> CandleRange result" where
  "restore_candles value =
     (case value of (seconds, coverage_start, rows) \<Rightarrow>
        bind_result (CompletedCandleRange seconds coverage_start) (replay_candles rows None))"

section \<open>A checkpoint restores the range\<close>

definition candle_ok :: "CandleRange \<Rightarrow> bool" where
  "candle_ok c \<longleftrightarrow> 0 < cr_seconds c \<and> cr_seconds c \<le> 3600 \<and> ordered fst (cr_rows c) \<and>
     list_all (\<lambda>r. 0 < snd r \<and> cr_coverage_start c \<le> fst r \<and>
       fsub (fst (last (cr_rows c))) (cr_seconds c) \<le> fst r) (cr_rows c)"

lemma candle_ok_new: "CompletedCandleRange seconds start = Inr c \<Longrightarrow> candle_ok c"
  by (auto simp: CompletedCandleRange_def candle_ok_def split: if_splits)

lemma push_candle_rows:
  assumes "ordered fst (rows @ [row])"
  shows "push_candle seconds row rows = filter (\<lambda>r. fsub (fst row) seconds \<le> fst r) (rows @ [row])"
  using assms unfolding push_candle_def by (rule ordered_drop_old)

lemma observe_candle_ok:
  assumes "candle_ok c" "observe_candle row c = Inr d" "is_f64 (fst row)"
  shows "candle_ok d"
proof (cases "d = c")
  case False
  then have d: "d = c\<lparr>cr_rows := push_candle (cr_seconds c) row (cr_rows c)\<rparr>" and row: "0 < snd row" "cr_coverage_start c \<le> fst row"
    and later: "cr_rows c \<noteq> [] \<longrightarrow> fst (last (cr_rows c)) < fst row"
    using assms(2) by (auto simp: observe_candle_def split: if_splits)
  have "ordered fst (cr_rows c @ [row])"
  proof (cases "cr_rows c = []")
    case False
    then obtain l rs where l: "cr_rows c = rs @ [l]" by (metis rev_exhaust)
    have "fst l < fst row" using later l by simp
    with assms(1) show ?thesis
      unfolding l ordered_simps(3) [of fst "rs @ [l]" row] by (auto simp: candle_ok_def l)
  qed simp
  note rows = push_candle_rows [OF this, of "cr_seconds c"]
  have "fsub (fst row) (cr_seconds c) \<le> fst row"
    using assms(1,3) by (intro fsub_le_left) (auto simp: candle_ok_def)
  then have "last (cr_rows d) = row" unfolding d by (simp add: rows)
  then show ?thesis
    using assms(1) row \<open>ordered fst (cr_rows c @ [row])\<close> ordered_filter [of fst "cr_rows c"]
    unfolding d candle_ok_def rows by (auto simp: list_all_iff rows)
qed (use assms in simp)

lemma replay_candles_append:
  assumes "ordered fst (done @ rows)" "list_all (\<lambda>r. 0 < snd r \<and> start \<le> fst r) (done @ rows)"
    and "\<forall>r \<in> set (done @ rows). fsub (fst (last (done @ rows))) seconds \<le> fst r"
  shows "replay_candles rows (if done = [] then None else Some (fst (last done)))
      \<lparr>cr_seconds = seconds, cr_coverage_start = start, cr_rows = done\<rparr> =
    Inr \<lparr>cr_seconds = seconds, cr_coverage_start = start, cr_rows = done @ rows\<rparr>"
  using assms
proof (induction rows arbitrary: "done")
  case (Cons row rows)
  let ?c = "\<lparr>cr_seconds = seconds, cr_coverage_start = start, cr_rows = done\<rparr>"
  have ord: "ordered fst (done @ [row])"
    using Cons.prems(1) by (auto simp: ordered_def sorted_wrt_append)
  then have later: "done \<noteq> [] \<Longrightarrow> fst (last done) < fst row" by simp
  have "fst row \<le> fst (last (done @ row # rows))"
    using Cons.prems(1) by (cases rows rule: rev_cases) (auto simp: ordered_def sorted_wrt_append less_imp_le)
  then have "fsub (fst row) seconds \<le> fsub (fst (last (done @ row # rows))) seconds"
    unfolding fsub_def by (intro fl_mono) simp
  with Cons.prems(3) have "\<forall>r \<in> set (done @ [row]). fsub (fst row) seconds \<le> fst r"
    by (auto intro: order_trans)
  then have "push_candle seconds row done = done @ [row]"
    unfolding push_candle_rows [OF ord] by (simp add: filter_id_conv)
  then have obs: "observe_candle row ?c = Inr (?c\<lparr>cr_rows := done @ [row]\<rparr>)"
    using Cons.prems(2) later by (auto simp: observe_candle_def)
  show ?case
    using Cons.IH [of "done @ [row]"] Cons.prems obs later by auto
qed simp

text \<open>Whatever a range has observed, its checkpoint restores it.\<close>

lemma candle_checkpoint_restores:
  assumes "candle_ok c"
  shows "restore_candles (candle_checkpoint c) = Inr c"
proof -
  have new: "CompletedCandleRange (cr_seconds c) (cr_coverage_start c) =
      Inr \<lparr>cr_seconds = cr_seconds c, cr_coverage_start = cr_coverage_start c, cr_rows = []\<rparr>"
    using assms by (simp add: CompletedCandleRange_def candle_ok_def)
  show ?thesis
    using replay_candles_append [of "[]" "cr_rows c" "cr_coverage_start c" "cr_seconds c"] assms new
    by (simp add: restore_candles_def candle_checkpoint_def candle_ok_def list_all_iff)
qed

end
