(* ===== verification/PivotProduct.thy ===== *)
theory PivotProduct
  imports Payload "HOL-Library.List_Lexorder" "HOL-Library.Char_ord" "HOL-Library.Product_Lexorder"
begin

text \<open>
  \<open>src/trading_runtime/strategy_one_pivot_product.py\<close>: the producer that collapses the pivots
  the structural detector shows at every completed second into one validity interval per
  appearance, and the validation and content hash of the published rows.

  A detector snapshot is a \<open>json\<close> value whose numbers are doubles. A \<open>frozenset\<close> of keys is a
  list without duplicates; its order is never observed. The SHA-256 digest of a byte string is
  the parameter \<open>sha256\<close>.
\<close>

section \<open>Intervals\<close>

type_synonym pivot_key = "string \<times> int \<times> int \<times> int"

record PivotInterval =
  pi_side :: string
  pi_price_int :: int
  pi_pivot_at_us :: int
  pi_confirmed_at_us :: int
  pi_valid_from_boundary_ms :: int
  pi_valid_to_boundary_ms :: "int option"

definition pi_key :: "PivotInterval \<Rightarrow> pivot_key" where
  "pi_key i = (pi_side i, pi_price_int i, pi_pivot_at_us i, pi_confirmed_at_us i)"

definition interval_of :: "pivot_key \<Rightarrow> int \<Rightarrow> int option \<Rightarrow> PivotInterval" where
  "interval_of k start stop =
     (case k of (side, price, occurred, confirmed) \<Rightarrow>
        \<lparr>pi_side = side, pi_price_int = price, pi_pivot_at_us = occurred, pi_confirmed_at_us = confirmed,
         pi_valid_from_boundary_ms = start, pi_valid_to_boundary_ms = stop\<rparr>)"

section \<open>What a snapshot shows\<close>

definition DETECTOR_VERSION :: string where
  "DETECTOR_VERSION = ''structural-candle-detector-11''"

definition event_us :: "json \<Rightarrow> int result" where
  "event_us v =
     (case v of
        JNum n \<Rightarrow>
          if n \<le> 0 then Inl (ValueError ''Structural pivot has a nonfinite event clock'')
          else
            (let scaled = fmul n 1000000; micros = py_round scaled
             in if fl (1 / 100) < \<bar>fsub scaled (float_of_int micros)\<bar>
                then Inl (ValueError ''Structural pivot clock exceeds microsecond precision'')
                else Inr micros)
      | _ \<Rightarrow> Inl (ValueError ''Structural pivot has a nonfinite event clock''))"

text \<open>\<open>side in (1, "support")\<close>, where \<open>True == 1\<close>.\<close>

definition pivot_side :: "json \<Rightarrow> string option" where
  "pivot_side v =
     (if v = JNum 1 \<or> v = JBool True \<or> v = JStr ''support'' then Some ''low''
      else if v = JNum (- 1) \<or> v = JStr ''resistance'' then Some ''high''
      else None)"

text \<open>The loop body: \<open>None\<close> is \<open>continue\<close>.\<close>

definition pivot_entry :: "int \<Rightarrow> json \<Rightarrow> pivot_key option result" where
  "pivot_entry effective pivot =
     (case pivot of
        JObj _ \<Rightarrow>
          if has_key pivot ''state'' \<and> jget pivot ''state'' \<noteq> JStr ''active'' then Inr None
          else (case (pivot_side (jget pivot ''side''), jget pivot ''price'') of
              (Some side, JNum price) \<Rightarrow>
                if price \<le> 0 then Inr None
                else
                  (let scaled = fmul price 10000; price_int = py_round scaled
                   in if price_int \<le> 0 \<or> fl (1 / 10000) < \<bar>fsub scaled (float_of_int price_int)\<bar>
                      then Inl (ValueError ''Structural pivot price exceeds source precision'')
                      else (case (event_us (jget pivot ''pivot_at''), event_us (jget pivot ''confirmed_at'')) of
                          (Inr occurred, Inr confirmed) \<Rightarrow>
                            Inr (if 0 < occurred \<and> occurred < confirmed \<and> confirmed \<le> effective
                                 then Some (side, price_int, occurred, confirmed) else None)
                        | _ \<Rightarrow> Inr None))
            | _ \<Rightarrow> Inr None)
      | _ \<Rightarrow> Inl (ValueError ''Structural pivot entry is malformed''))"

definition swing_entries :: "json \<Rightarrow> string \<Rightarrow> json list result" where
  "swing_entries row field =
     (case jget row field of
        JArr entries \<Rightarrow> Inr entries
      | _ \<Rightarrow> Inl (ValueError ''Structural pivot snapshot lacks a swing set''))"

definition swing_pivots :: "int \<Rightarrow> json \<Rightarrow> string \<Rightarrow> pivot_key list result" where
  "swing_pivots effective row field =
     bind_result (swing_entries row field) (\<lambda>entries.
     bind_result (map_result (pivot_entry effective) entries) (\<lambda>ks.
     Inr (List.map_filter id ks)))"

definition snapshot_confirmed_pivots :: "json \<Rightarrow> pivot_key list result" where
  "snapshot_confirmed_pivots row =
     (case row of
        JObj _ \<Rightarrow>
          if jget row ''contract'' \<noteq> JStr DETECTOR_VERSION
          then Inl (ValueError ''Unknown structural detector contract'')
          else bind_result (event_us (jget row ''effective_at'')) (\<lambda>effective.
               bind_result (swing_pivots effective row ''local_swings'') (\<lambda>local.
               bind_result (swing_pivots effective row ''confirmed_swings'') (\<lambda>confirmed.
               Inr (remdups (local @ confirmed)))))
      | _ \<Rightarrow> Inl (ValueError ''Unknown structural detector contract''))"

section \<open>The builder\<close>

record PivotIntervalBuilder =
  ib_last_boundary :: int
  ib_active :: "(pivot_key, int) dict"
  ib_closed :: "PivotInterval list"

definition new_builder :: PivotIntervalBuilder where
  "new_builder = \<lparr>ib_last_boundary = 0, ib_active = [], ib_closed = []\<rparr>"

text \<open>\<open>sorted(self._active.items())\<close>: the keys are unique.\<close>

definition close_all :: "int \<Rightarrow> PivotIntervalBuilder \<Rightarrow> PivotIntervalBuilder" where
  "close_all boundary b =
     b\<lparr>ib_closed := ib_closed b @ map (\<lambda>(k, start). interval_of k start (Some boundary)) (sort (ib_active b)),
       ib_active := []\<rparr>"

definition close_missing :: "int \<Rightarrow> pivot_key list \<Rightarrow> PivotIntervalBuilder \<Rightarrow> PivotIntervalBuilder" where
  "close_missing boundary visible b =
     b\<lparr>ib_closed := ib_closed b @ map (\<lambda>(k, start). interval_of k start (Some boundary))
         (sort (filter (\<lambda>(k, start). k \<notin> set visible) (ib_active b))),
       ib_active := filter (\<lambda>(k, start). k \<in> set visible) (ib_active b)\<rparr>"

definition open_new :: "int \<Rightarrow> pivot_key list \<Rightarrow> PivotIntervalBuilder \<Rightarrow> PivotIntervalBuilder" where
  "open_new boundary visible b =
     b\<lparr>ib_active := ib_active b @ map (\<lambda>k. (k, boundary)) (filter (\<lambda>k. k \<notin> fst ` set (ib_active b)) visible)\<rparr>"

definition builder_observe :: "int \<Rightarrow> json \<Rightarrow> PivotIntervalBuilder \<Rightarrow> PivotIntervalBuilder result" where
  "builder_observe boundary row b =
     (if boundary \<le> ib_last_boundary b \<or> boundary mod 1000 \<noteq> 0
      then Inl (ValueError ''Pivot product needs ordered completed 1s boundaries'')
      else bind_result (snapshot_confirmed_pivots row) (\<lambda>visible.
        let b1 = (if ib_last_boundary b \<noteq> 0 \<and> boundary \<noteq> ib_last_boundary b + 1000
                  then close_all (ib_last_boundary b + 1000) b else b)
        in Inr ((open_new boundary visible (close_missing boundary visible b1))\<lparr>ib_last_boundary := boundary\<rparr>)))"

definition row_order :: "PivotInterval \<Rightarrow> int \<times> pivot_key \<times> int" where
  "row_order i = (pi_valid_from_boundary_ms i, pi_key i,
     (case pi_valid_to_boundary_ms i of None \<Rightarrow> 0 | Some e \<Rightarrow> e))"

definition builder_finish :: "PivotIntervalBuilder \<Rightarrow> PivotInterval list result" where
  "builder_finish b =
     (if ib_last_boundary b = 0 then Inl (ValueError ''Pivot product has no completed source bar'')
      else Inr (sort_key row_order
        (ib_closed b @ map (\<lambda>(k, start). interval_of k start None) (sort (ib_active b)))))"

section \<open>Validation and content hash\<close>

definition interval_valid :: "PivotInterval \<Rightarrow> bool" where
  "interval_valid i \<longleftrightarrow>
     pi_side i \<in> {''low'', ''high''} \<and> 0 < pi_price_int i \<and> 0 < pi_pivot_at_us i \<and>
     0 < pi_confirmed_at_us i \<and> 0 < pi_valid_from_boundary_ms i \<and>
     pi_pivot_at_us i < pi_confirmed_at_us i \<and> pi_valid_from_boundary_ms i \<le> 57600000 \<and>
     pi_valid_from_boundary_ms i mod 1000 = 0 \<and>
     (case pi_valid_to_boundary_ms i of None \<Rightarrow> True
      | Some e \<Rightarrow> pi_valid_from_boundary_ms i < e \<and> e \<le> 57600000 \<and> e mod 1000 = 0)"

definition big_endian :: "nat \<Rightarrow> string" where
  "big_endian n = map (\<lambda>k. char_of (n div 256 ^ k mod 256)) [3, 2, 1, 0]"

definition hash_field :: "string \<Rightarrow> string" where
  "hash_field s = big_endian (length s) @ s"

definition hash_row :: "PivotInterval \<Rightarrow> string" where
  "hash_row i = concat (map hash_field
     [pi_side i, show_int (pi_price_int i), show_int (pi_pivot_at_us i), show_int (pi_confirmed_at_us i),
      show_int (pi_valid_from_boundary_ms i),
      show_int (case pi_valid_to_boundary_ms i of None \<Rightarrow> 0 | Some e \<Rightarrow> e)])"

text \<open>The loop over the rows: the previous row's order, the last end of every pivot, the bytes.\<close>

fun check_rows ::
    "PivotInterval list \<Rightarrow> (int \<times> pivot_key \<times> int) option \<Rightarrow> (pivot_key \<Rightarrow> int option) \<Rightarrow> string \<Rightarrow> string result" where
  "check_rows [] previous ends bytes = Inr bytes"
| "check_rows (i # rest) previous ends bytes =
     (if \<not> interval_valid i then Inl (ValueError ''Pivot product interval is invalid'')
      else if (case previous of None \<Rightarrow> False | Some p \<Rightarrow> row_order i \<le> p)
      then Inl (ValueError ''Pivot product intervals are unordered or duplicate'')
      else if (case ends (pi_key i) of None \<Rightarrow> False | Some e \<Rightarrow> pi_valid_from_boundary_ms i < e)
      then Inl (ValueError ''Pivot product has overlapping identity intervals'')
      else check_rows rest (Some (row_order i))
        (ends(pi_key i \<mapsto> (case pi_valid_to_boundary_ms i of None \<Rightarrow> 57600001 | Some e \<Rightarrow> e)))
        (bytes @ hash_row i))"

definition interval_content_hash :: "(string \<Rightarrow> string) \<Rightarrow> PivotInterval list \<Rightarrow> string result" where
  "interval_content_hash sha256 rows =
     bind_result (check_rows rows None (\<lambda>_. None) (''strategy-one-pivot-interval-content-v1'' @ [char_of (0 :: nat)]))
       (\<lambda>bytes. Inr (sha256 bytes))"

end
