(* ===== verification/PivotTimeline.thy ===== *)
theory PivotTimeline
  imports PivotProduct
begin

text \<open>
  \<open>src/trading_runtime/strategy_one_pivot_timeline.py\<close>, the cursor over validated pivot
  intervals, and the break-of-structure transition of \<open>strategy_one_bos.py\<close> that reads its
  pivots. The instant of 04:00 New York on the session date, which the calendar and the time
  zone database give, is the parameter \<open>origin_us\<close>.
\<close>

section \<open>The cursor\<close>

record ConfirmedPivot =
  cp_pivot_id :: string
  cp_side :: string
  cp_price_int :: int
  cp_pivot_boundary_ms :: int
  cp_confirmed_boundary_ms :: int

definition pivot_identity :: "PivotInterval \<Rightarrow> string" where
  "pivot_identity i = pi_side i @ '':'' @ show_int (pi_price_int i) @ '':'' @
     show_int (pi_pivot_at_us i) @ '':'' @ show_int (pi_confirmed_at_us i)"

definition confirmed_pivot :: "int \<Rightarrow> PivotInterval \<Rightarrow> ConfirmedPivot" where
  "confirmed_pivot origin_us i =
     \<lparr>cp_pivot_id = pivot_identity i, cp_side = pi_side i, cp_price_int = pi_price_int i,
      cp_pivot_boundary_ms = (pi_pivot_at_us i - origin_us) div 1000,
      cp_confirmed_boundary_ms = (pi_confirmed_at_us i - origin_us) div 1000\<rparr>"

definition causal_clocks :: "int \<Rightarrow> PivotInterval \<Rightarrow> bool" where
  "causal_clocks origin_us i \<longleftrightarrow>
     (let occurred = pi_pivot_at_us i - origin_us; confirmed = pi_confirmed_at_us i - origin_us
      in 0 < occurred \<and> occurred < confirmed \<and> confirmed \<le> pi_valid_from_boundary_ms i * 1000 \<and>
         occurred mod 1000 = 0 \<and> confirmed mod 1000 = 0)"

record PivotTimeline =
  tl_starts :: "(nat \<times> PivotInterval \<times> ConfirmedPivot) list"
  tl_ends :: "(int \<times> nat) list"
  tl_next_start :: nat
  tl_next_end :: nat
  tl_active :: "(nat, ConfirmedPivot) dict"
  tl_boundary_ms :: int

definition ends_of :: "PivotInterval list \<Rightarrow> (int \<times> nat) list" where
  "ends_of rows = sort (List.map_filter
     (\<lambda>(index, i). map_option (\<lambda>e. (e, index)) (pi_valid_to_boundary_ms i)) (enumerate 0 rows))"

definition timeline :: "(string \<Rightarrow> string) \<Rightarrow> int \<Rightarrow> PivotInterval list \<Rightarrow> PivotTimeline result" where
  "timeline sha256 origin_us rows =
     bind_result (interval_content_hash sha256 rows) (\<lambda>_.
       if \<not> list_all (causal_clocks origin_us) rows
       then Inl (ValueError ''Pivot interval has noncausal session clocks'')
       else Inr \<lparr>tl_starts = map (\<lambda>(index, i). (index, i, confirmed_pivot origin_us i)) (enumerate 0 rows),
         tl_ends = ends_of rows, tl_next_start = 0, tl_next_end = 0, tl_active = [], tl_boundary_ms = 0\<rparr>)"

text \<open>The two loops of \<open>at\<close>.\<close>

function open_started :: "int \<Rightarrow> PivotTimeline \<Rightarrow> PivotTimeline" where
  "open_started boundary c =
     (if tl_next_start c < length (tl_starts c) \<and>
         pi_valid_from_boundary_ms (fst (snd (tl_starts c ! tl_next_start c))) \<le> boundary
      then open_started boundary
        (c\<lparr>tl_active := AList.update (fst (tl_starts c ! tl_next_start c))
               (snd (snd (tl_starts c ! tl_next_start c))) (tl_active c),
           tl_next_start := tl_next_start c + 1\<rparr>)
      else c)"
  by pat_completeness auto
termination
  by (relation "measure (\<lambda>(b, c). length (tl_starts c) - tl_next_start c)") auto

function close_ended :: "int \<Rightarrow> PivotTimeline \<Rightarrow> PivotTimeline" where
  "close_ended boundary c =
     (if tl_next_end c < length (tl_ends c) \<and> fst (tl_ends c ! tl_next_end c) \<le> boundary
      then close_ended boundary
        (c\<lparr>tl_active := AList.delete (snd (tl_ends c ! tl_next_end c)) (tl_active c),
           tl_next_end := tl_next_end c + 1\<rparr>)
      else c)"
  by pat_completeness auto
termination
  by (relation "measure (\<lambda>(b, c). length (tl_ends c) - tl_next_end c)") auto

declare open_started.simps [simp del] close_ended.simps [simp del]

definition pivot_order :: "ConfirmedPivot \<Rightarrow> int \<times> int \<times> string" where
  "pivot_order p = (cp_pivot_boundary_ms p, cp_confirmed_boundary_ms p, cp_pivot_id p)"

definition timeline_at :: "int \<Rightarrow> PivotTimeline \<Rightarrow> ConfirmedPivot list result \<times> PivotTimeline" where
  "timeline_at boundary c =
     (if boundary \<le> tl_boundary_ms c \<or> 57600000 < boundary \<or> boundary mod 100 \<noteq> 0
      then (Inl (ValueError ''Pivot cursor needs increasing completed boundaries''), c)
      else
        (let d = close_ended boundary (open_started boundary c)
         in (Inr (sort_key pivot_order (dvalues (tl_active d))), d\<lparr>tl_boundary_ms := boundary\<rparr>)))"

section \<open>Break of structure\<close>

record BosBreak =
  bb_boundary_ms :: int
  bb_broken_pivot :: ConfirmedPivot
  bb_close_int :: int

record BosObservation =
  bo_boundary_ms :: int
  bo_close_int :: int
  bo_reference :: "ConfirmedPivot option"
  bo_open_break :: "BosBreak option"

text \<open>The completed bar: the keys the transition reads.\<close>

record PriceBar =
  br_boundary_ms :: int
  br_resolution_ms :: int
  br_price_valid :: int
  br_close_int :: int

definition pivot_visible :: "int \<Rightarrow> ConfirmedPivot \<Rightarrow> bool" where
  "pivot_visible boundary p \<longleftrightarrow>
     cp_pivot_id p \<noteq> [] \<and> cp_side p \<in> {''high'', ''low''} \<and> 0 < cp_price_int p \<and>
     0 < cp_pivot_boundary_ms p \<and> cp_pivot_boundary_ms p < cp_confirmed_boundary_ms p \<and>
     cp_confirmed_boundary_ms p \<le> boundary"

definition latest_high :: "ConfirmedPivot list \<Rightarrow> ConfirmedPivot option" where
  "latest_high ps =
     (case filter (\<lambda>p. cp_side p = ''high'') ps of
        [] \<Rightarrow> None
      | p # rest \<Rightarrow> Some (foldl (\<lambda>best q. if pivot_order best < pivot_order q then q else best) p rest))"

definition observe_completed_bos ::
    "BosObservation \<Rightarrow> PriceBar \<Rightarrow> ConfirmedPivot list \<Rightarrow> (BosObservation \<times> BosBreak option) result" where
  "observe_completed_bos state bar pivots =
     (if br_boundary_ms bar \<le> bo_boundary_ms state \<or> br_boundary_ms bar mod 1000 \<noteq> 0 \<or>
         br_resolution_ms bar \<noteq> 1000 \<or> br_price_valid bar \<noteq> 1 \<or> br_close_int bar \<le> 0
      then Inl (ValueError ''Strategy 1 BOS requires a completed 1s price bar'')
      else if \<not> (list_all (pivot_visible (br_boundary_ms bar)) pivots \<and> distinct (map cp_pivot_id pivots))
      then Inl (ValueError ''Strategy 1 BOS pivot evidence is invalid or future'')
      else
        (let boundary = br_boundary_ms bar; close = br_close_int bar; prior = bo_reference state;
             contiguous = (boundary = bo_boundary_ms state + 1000);
             broken = (case prior of
                 None \<Rightarrow> None
               | Some p \<Rightarrow>
                   if contiguous \<and> cp_confirmed_boundary_ms p < boundary \<and>
                      bo_close_int state \<le> cp_price_int p \<and> cp_price_int p < close
                   then Some \<lparr>bb_boundary_ms = boundary, bb_broken_pivot = p, bb_close_int = close\<rparr>
                   else None);
             reference = (case latest_high pivots of
                 None \<Rightarrow> prior
               | Some l \<Rightarrow>
                   (case prior of
                      None \<Rightarrow> Some l
                    | Some p \<Rightarrow> if cp_pivot_boundary_ms p < cp_pivot_boundary_ms l then Some l else prior))
         in Inr (\<lparr>bo_boundary_ms = boundary, bo_close_int = close, bo_reference = reference,
               bo_open_break = (case broken of None \<Rightarrow> bo_open_break state | Some k \<Rightarrow> Some k)\<rparr>, broken)))"

end
