(* ===== verification/PivotCursor.thy ===== *)
theory PivotCursor
  imports PivotTimeline
begin

text \<open>
  The cursor over validated intervals answers like a filter over all of them: at every boundary
  of an increasing sequence it shows the pivots whose interval contains the boundary.
\<close>

section \<open>What validation guarantees\<close>

definition stop_of :: "PivotInterval \<Rightarrow> int" where
  "stop_of i = (case pi_valid_to_boundary_ms i of None \<Rightarrow> 57600001 | Some e \<Rightarrow> e)"

definition precedes :: "PivotInterval \<Rightarrow> PivotInterval \<Rightarrow> bool" where
  "precedes i j \<longleftrightarrow> row_order i < row_order j \<and>
     (pi_key i = pi_key j \<longrightarrow> stop_of i \<le> pi_valid_from_boundary_ms j)"

lemma interval_valid_span: "interval_valid i \<Longrightarrow> pi_valid_from_boundary_ms i < stop_of i"
  by (auto simp: interval_valid_def stop_of_def split: option.splits)

lemma check_rows_iff:
  "(\<exists>out. check_rows rows previous ends bytes = Inr out) \<longleftrightarrow>
     list_all interval_valid rows \<and> sorted_wrt precedes rows \<and>
     (\<forall>p. previous = Some p \<longrightarrow> (\<forall>i \<in> set rows. p < row_order i)) \<and>
     (\<forall>i \<in> set rows. \<forall>e. ends (pi_key i) = Some e \<longrightarrow> e \<le> pi_valid_from_boundary_ms i)"
proof (induction rows arbitrary: previous ends bytes)
  case (Cons i rest)
  let ?ends = "ends(pi_key i \<mapsto> stop_of i)"
  have step: "(\<exists>out. check_rows (i # rest) previous ends bytes = Inr out) \<longleftrightarrow>
      interval_valid i \<and> (\<forall>p. previous = Some p \<longrightarrow> p < row_order i) \<and>
      (\<forall>e. ends (pi_key i) = Some e \<longrightarrow> e \<le> pi_valid_from_boundary_ms i) \<and>
      (\<exists>out. check_rows rest (Some (row_order i)) ?ends (bytes @ hash_row i) = Inr out)"
    by (auto simp: stop_of_def not_le not_less split: option.splits)
  have ends: "(\<forall>j \<in> set rest. \<forall>e. ?ends (pi_key j) = Some e \<longrightarrow> e \<le> pi_valid_from_boundary_ms j) \<longleftrightarrow>
      (\<forall>j \<in> set rest. pi_key i = pi_key j \<longrightarrow> stop_of i \<le> pi_valid_from_boundary_ms j) \<and>
      (\<forall>j \<in> set rest. pi_key i \<noteq> pi_key j \<longrightarrow> (\<forall>e. ends (pi_key j) = Some e \<longrightarrow> e \<le> pi_valid_from_boundary_ms j))"
    by auto
  let ?late = "\<lambda>j. \<forall>e. ends (pi_key j) = Some e \<longrightarrow> e \<le> pi_valid_from_boundary_ms j"
  have same: "?late j" if "interval_valid i" "?late i" "pi_key i = pi_key j" "stop_of i \<le> pi_valid_from_boundary_ms j" for j
    using that interval_valid_span [of i] by fastforce
  have pairs: "(\<forall>j \<in> set rest. precedes i j) \<longleftrightarrow> (\<forall>j \<in> set rest. row_order i < row_order j) \<and>
      (\<forall>j \<in> set rest. pi_key i = pi_key j \<longrightarrow> stop_of i \<le> pi_valid_from_boundary_ms j)"
    by (auto simp: precedes_def)
  let ?after = "\<forall>j \<in> set rest. row_order i < row_order j"
  let ?apart = "\<forall>j \<in> set rest. pi_key i = pi_key j \<longrightarrow> stop_of i \<le> pi_valid_from_boundary_ms j"
  have prev: "?after \<Longrightarrow> (\<forall>p. previous = Some p \<longrightarrow> (\<forall>j \<in> set (i # rest). p < row_order j)) \<longleftrightarrow>
      (\<forall>p. previous = Some p \<longrightarrow> p < row_order i)"
    by (metis (no_types, lifting) less_trans list.set_intros(1) set_ConsD)
  have lates: "interval_valid i \<Longrightarrow> ?late i \<Longrightarrow> ?apart \<Longrightarrow> (\<forall>j \<in> set (i # rest). ?late j) \<longleftrightarrow>
      (\<forall>j \<in> set rest. pi_key i \<noteq> pi_key j \<longrightarrow> ?late j)"
    using same by (metis (no_types, lifting) list.set_intros set_ConsD)
  show ?case
  proof (cases "interval_valid i \<and> ?late i \<and> ?after \<and> ?apart")
    case True
    then show ?thesis
      using prev lates unfolding step Cons.IH ends sorted_wrt.simps pairs list.pred_inject(2) by (simp add: conj_ac)
  next
    case False
    then show ?thesis
      unfolding step Cons.IH ends sorted_wrt.simps pairs list.pred_inject(2) by auto
  qed
qed simp

lemma content_hash_iff:
  "(\<exists>h. interval_content_hash sha256 rows = Inr h) \<longleftrightarrow> list_all interval_valid rows \<and> sorted_wrt precedes rows"
proof -
  have "(\<exists>h. interval_content_hash sha256 rows = Inr h) \<longleftrightarrow>
      (\<exists>out. check_rows rows None (\<lambda>_. None) (''strategy-one-pivot-interval-content-v1'' @ [char_of (0 :: nat)]) = Inr out)"
    by (auto simp: interval_content_hash_def bind_result_Inr_iff)
  then show ?thesis unfolding check_rows_iff by simp
qed

lemma precedes_start: "precedes i j \<Longrightarrow> pi_valid_from_boundary_ms i \<le> pi_valid_from_boundary_ms j"
  by (auto simp: precedes_def row_order_def)

lemma validated_starts_sorted:
  "sorted_wrt precedes rows \<Longrightarrow> j \<le> k \<Longrightarrow> k < length rows \<Longrightarrow>
   pi_valid_from_boundary_ms (rows ! j) \<le> pi_valid_from_boundary_ms (rows ! k)"
  using precedes_start by (cases "j = k") (auto simp: sorted_wrt_iff_nth_less)

section \<open>The state of the cursor\<close>

definition alive :: "int \<Rightarrow> PivotInterval \<Rightarrow> bool" where
  "alive boundary i \<longleftrightarrow> pi_valid_from_boundary_ms i \<le> boundary \<and>
     (case pi_valid_to_boundary_ms i of None \<Rightarrow> True | Some e \<Rightarrow> boundary < e)"

definition entries :: "int \<Rightarrow> PivotInterval list \<Rightarrow> nat \<Rightarrow> nat set \<Rightarrow> (nat, ConfirmedPivot) dict" where
  "entries origin rows n dead = map (\<lambda>k. (k, confirmed_pivot origin (rows ! k))) (filter (\<lambda>k. k \<notin> dead) [0..<n])"

definition dead_of :: "PivotTimeline \<Rightarrow> nat set" where
  "dead_of c = snd ` set (take (tl_next_end c) (tl_ends c))"

definition starts_of :: "int \<Rightarrow> PivotInterval list \<Rightarrow> (nat \<times> PivotInterval \<times> ConfirmedPivot) list" where
  "starts_of origin rows = map (\<lambda>(index, i). (index, i, confirmed_pivot origin i)) (enumerate 0 rows)"

text \<open>\<open>cursor_ok\<close> with boundary \<open>b\<close>: what is started or ended is due, and what is active is
  started and not ended.\<close>

definition cursor_ok :: "int \<Rightarrow> PivotInterval list \<Rightarrow> int \<Rightarrow> PivotTimeline \<Rightarrow> bool" where
  "cursor_ok origin rows b c \<longleftrightarrow>
     tl_starts c = starts_of origin rows \<and> tl_ends c = ends_of rows \<and>
     tl_next_start c \<le> length rows \<and> tl_next_end c \<le> length (ends_of rows) \<and>
     (\<forall>k < tl_next_start c. pi_valid_from_boundary_ms (rows ! k) \<le> b) \<and>
     (\<forall>k < tl_next_end c. fst (ends_of rows ! k) \<le> b) \<and>
     dead_of c \<subseteq> {..<tl_next_start c} \<and>
     tl_active c = entries origin rows (tl_next_start c) (dead_of c)"

lemma starts_of_nth:
  "k < length rows \<Longrightarrow> starts_of origin rows ! k = (k, rows ! k, confirmed_pivot origin (rows ! k))"
  "length (starts_of origin rows) = length rows"
  by (simp_all add: starts_of_def nth_enumerate_eq)

lemma set_ends_of:
  "(e, k) \<in> set (ends_of rows) \<longleftrightarrow> k < length rows \<and> pi_valid_to_boundary_ms (rows ! k) = Some e"
  by (auto simp: ends_of_def List.map_filter_def in_set_enumerate_eq image_iff split: prod.splits)

lemma entries_Suc:
  "n \<notin> dead \<Longrightarrow> entries origin rows (Suc n) dead = AList.update n (confirmed_pivot origin (rows ! n)) (entries origin rows n dead)"
proof -
  have new: "n \<notin> fst ` set al \<Longrightarrow> AList.update n v al = al @ [(n, v)]" for n v and al :: "(nat \<times> 'v) list"
    by (induction al) auto
  assume "n \<notin> dead"
  then show ?thesis by (subst new) (auto simp: entries_def)
qed

lemma entries_delete: "AList.delete k (entries origin rows n dead) = entries origin rows n (insert k dead)"
  by (auto simp: entries_def AList.delete_eq filter_map comp_def conj_commute intro!: arg_cong [where f = "map _"] filter_cong)

lemma open_started_ok:
  assumes "cursor_ok origin rows b c" "sorted_wrt precedes rows"
  shows "cursor_ok origin rows b (open_started b c) \<and> tl_next_end (open_started b c) = tl_next_end c \<and>
    tl_boundary_ms (open_started b c) = tl_boundary_ms c \<and>
    (\<forall>k < length rows. pi_valid_from_boundary_ms (rows ! k) \<le> b \<longleftrightarrow> k < tl_next_start (open_started b c))"
  using assms(1)
proof (induction b c rule: open_started.induct)
  case (1 b c)
  let ?n = "tl_next_start c"
  have st: "tl_starts c = starts_of origin rows" using "1.prems" by (simp add: cursor_ok_def)
  show ?case
  proof (cases "?n < length rows \<and> pi_valid_from_boundary_ms (rows ! ?n) \<le> b")
    case True
    let ?d = "c\<lparr>tl_active := AList.update ?n (confirmed_pivot origin (rows ! ?n)) (tl_active c), tl_next_start := ?n + 1\<rparr>"
    have "dead_of ?d = dead_of c" by (simp add: dead_of_def)
    moreover have "?n \<notin> dead_of c" using "1.prems" by (auto simp: cursor_ok_def)
    ultimately have "cursor_ok origin rows b ?d"
      using "1.prems" True entries_Suc [of ?n "dead_of c" origin rows]
      by (auto simp: cursor_ok_def less_Suc_eq)
    moreover have "open_started b c = open_started b ?d"
      using True by (subst open_started.simps) (simp add: st starts_of_nth)
    ultimately show ?thesis using "1.IH" True by (simp add: st starts_of_nth)
  next
    case False
    then have "open_started b c = c"
      by (subst open_started.simps) (auto simp: st starts_of_nth)
    moreover have "pi_valid_from_boundary_ms (rows ! k) \<le> b \<longleftrightarrow> k < ?n" if "k < length rows" for k
      using False "1.prems" validated_starts_sorted [OF assms(2), of ?n k] that
      by (cases "k < ?n") (auto simp: cursor_ok_def not_less)
    ultimately show ?thesis using "1.prems" by simp
  qed
qed

lemma close_ended_ok:
  assumes "cursor_ok origin rows b c" "list_all interval_valid rows"
    and "\<forall>k < length rows. pi_valid_from_boundary_ms (rows ! k) \<le> b \<longleftrightarrow> k < tl_next_start c"
  shows "cursor_ok origin rows b (close_ended b c) \<and> tl_next_start (close_ended b c) = tl_next_start c \<and>
    tl_boundary_ms (close_ended b c) = tl_boundary_ms c \<and>
    (\<forall>k < length (ends_of rows). fst (ends_of rows ! k) \<le> b \<longleftrightarrow> k < tl_next_end (close_ended b c))"
  using assms(1,3)
proof (induction b c rule: close_ended.induct)
  case (1 b c)
  let ?n = "tl_next_end c"
  have en: "tl_ends c = ends_of rows" using "1.prems" by (simp add: cursor_ok_def)
  show ?case
  proof (cases "?n < length (ends_of rows) \<and> fst (ends_of rows ! ?n) \<le> b")
    case True
    let ?k = "snd (ends_of rows ! ?n)"
    let ?d = "c\<lparr>tl_active := AList.delete ?k (tl_active c), tl_next_end := ?n + 1\<rparr>"
    have "(fst (ends_of rows ! ?n), ?k) \<in> set (ends_of rows)" using True by simp
    then have k: "?k < length rows" "pi_valid_to_boundary_ms (rows ! ?k) = Some (fst (ends_of rows ! ?n))"
      unfolding set_ends_of by auto
    then have "pi_valid_from_boundary_ms (rows ! ?k) \<le> b"
      using True interval_valid_span [of "rows ! ?k"] assms(2) by (simp add: stop_of_def list_all_length)
    then have started: "?k < tl_next_start c" using "1.prems"(2) k(1) by simp
    have dead: "dead_of ?d = insert ?k (dead_of c)"
      using True by (simp add: dead_of_def en take_Suc_conv_app_nth)
    have ok: "cursor_ok origin rows b ?d"
      using "1.prems"(1) True started unfolding cursor_ok_def dead
      by (auto simp: entries_delete less_Suc_eq)
    have "close_ended b c = close_ended b ?d"
      using True by (subst close_ended.simps) (simp add: en)
    then show ?thesis using "1.IH" True ok "1.prems"(2) by (simp add: en)
  next
    case False
    then have "close_ended b c = c" by (subst close_ended.simps) (auto simp: en)
    moreover have "fst (ends_of rows ! k) \<le> b \<longleftrightarrow> k < ?n" if "k < length (ends_of rows)" for k
    proof (cases "k < ?n")
      case True
      with "1.prems"(1) show ?thesis by (simp add: cursor_ok_def)
    next
      case late: False
      have "sorted (ends_of rows)" by (simp add: ends_of_def)
      then have "ends_of rows ! ?n \<le> ends_of rows ! k" using late that by (intro sorted_nth_mono) auto
      then have "fst (ends_of rows ! ?n) \<le> fst (ends_of rows ! k)" by (auto simp: less_eq_prod_def)
      with False late that show ?thesis by auto
    qed
    ultimately show ?thesis using "1.prems" by simp
  qed
qed

lemma cursor_ok_boundary [simp]: "cursor_ok origin rows b (c\<lparr>tl_boundary_ms := x\<rparr>) = cursor_ok origin rows b c"
  by (simp add: cursor_ok_def dead_of_def)

lemma take_is_filter:
  assumes "\<forall>k < length xs. P (xs ! k) \<longleftrightarrow> k < n"
  shows "take n xs = filter P xs"
proof -
  have "\<forall>x \<in> set (take n xs). P x" "\<forall>x \<in> set (drop n xs). \<not> P x"
    using assms by (auto simp: in_set_conv_nth)
  then have "filter P (take n xs) = take n xs" "filter P (drop n xs) = []"
    by (simp_all add: filter_id_conv filter_empty_conv)
  then show ?thesis by (metis append_Nil2 append_take_drop_id filter_append)
qed

lemma cursor_answers:
  assumes ok: "cursor_ok origin rows b0 c" "tl_boundary_ms c = b0" and rows: "list_all interval_valid rows" "sorted_wrt precedes rows"
    and b: "b0 < b" "b \<le> 57600000" "b mod 100 = 0"
  shows "fst (timeline_at b c) = Inr (sort_key pivot_order (map (confirmed_pivot origin) (filter (alive b) rows))) \<and>
    cursor_ok origin rows b (snd (timeline_at b c)) \<and> tl_boundary_ms (snd (timeline_at b c)) = b"
proof -
  let ?o = "open_started b c" and ?d = "close_ended b (open_started b c)"
  have "cursor_ok origin rows b c" using ok(1) b(1) by (fastforce simp: cursor_ok_def)
  note o = open_started_ok [OF this rows(2)]
  note d = close_ended_ok [OF o [THEN conjunct1] rows(1) o [THEN conjunct2, THEN conjunct2, THEN conjunct2]]
  have started: "\<forall>k < length rows. pi_valid_from_boundary_ms (rows ! k) \<le> b \<longleftrightarrow> k < tl_next_start ?d" using o d by simp
  have dead: "k \<in> dead_of ?d \<longleftrightarrow> (\<exists>e. pi_valid_to_boundary_ms (rows ! k) = Some e \<and> e \<le> b)" if "k < length rows" for k
  proof -
    have "take (tl_next_end ?d) (ends_of rows) = filter (\<lambda>x. fst x \<le> b) (ends_of rows)"
      using d by (intro take_is_filter) simp
    then have "dead_of ?d = {k. \<exists>e. (e, k) \<in> set (ends_of rows) \<and> e \<le> b}"
      using d by (force simp: dead_of_def cursor_ok_def)
    then show ?thesis using that by (auto simp: set_ends_of)
  qed
  have "filter (\<lambda>k. k \<notin> dead_of ?d) [0..<tl_next_start ?d] = filter (\<lambda>k. alive b (rows ! k)) [0..<length rows]"
  proof -
    have len: "tl_next_start ?d \<le> length rows" using d by (simp add: cursor_ok_def)
    then have "[0..<length rows] = [0..<tl_next_start ?d] @ [tl_next_start ?d..<length rows]"
      by (metis le_add_diff_inverse upt_add_eq_append zero_le)
    moreover have "filter (\<lambda>k. alive b (rows ! k)) [tl_next_start ?d..<length rows] = []"
      using started by (auto simp: filter_empty_conv alive_def)
    moreover have "filter (\<lambda>k. alive b (rows ! k)) [0..<tl_next_start ?d] = filter (\<lambda>k. k \<notin> dead_of ?d) [0..<tl_next_start ?d]"
      using started dead len by (intro filter_cong) (auto simp: alive_def not_le split: option.splits)
    ultimately show ?thesis by simp
  qed
  moreover have "tl_active ?d = entries origin rows (tl_next_start ?d) (dead_of ?d)" using d by (simp add: cursor_ok_def)
  moreover have "map (\<lambda>k. confirmed_pivot origin (rows ! k)) (filter (\<lambda>k. alive b (rows ! k)) [0..<length rows]) =
      map (confirmed_pivot origin) (filter (alive b) rows)"
  proof -
    have "filter (alive b) rows = map (\<lambda>k. rows ! k) (filter (\<lambda>k. alive b (rows ! k)) [0..<length rows])"
      by (metis (no_types, lifting) comp_apply filter_cong filter_map map_nth)
    then show ?thesis by (simp add: comp_def)
  qed
  ultimately have "dvalues (tl_active ?d) = map (confirmed_pivot origin) (filter (alive b) rows)"
    by (simp add: dvalues_def entries_def comp_def)
  then show ?thesis using d b ok(2) by (simp add: timeline_at_def Let_def)
qed

end
