(* ===== verification/PivotLaws.thy ===== *)
theory PivotLaws
  imports PivotCursor
begin

text \<open>
  Producer and consumer of the pivot intervals together: the rows the builder publishes pass
  the consumer's validation, and the cursor over them shows at every boundary exactly the
  pivots of the snapshot of its second.
\<close>

section \<open>The times an interval set covers\<close>

definition observe_rows :: "(int \<times> json) list \<Rightarrow> PivotIntervalBuilder \<Rightarrow> PivotIntervalBuilder result" where
  "observe_rows = fold_result (\<lambda>(boundary, row). builder_observe boundary row)"

definition shows_pivot :: "json \<Rightarrow> pivot_key \<Rightarrow> bool" where
  "shows_pivot row k \<longleftrightarrow> (case snapshot_confirmed_pivots row of Inl _ \<Rightarrow> False | Inr visible \<Rightarrow> k \<in> set visible)"

declare split_paired_All [simp del] split_paired_Ex [simp del]

text \<open>The snapshot of the second that contains \<open>t\<close> shows the pivot.\<close>

definition shown :: "(int \<times> json) list \<Rightarrow> int \<Rightarrow> pivot_key \<Rightarrow> bool" where
  "shown snaps t k \<longleftrightarrow> (\<exists>(boundary, row) \<in> set snaps. boundary \<le> t \<and> t < boundary + 1000 \<and> shows_pivot row k)"

definition covered :: "PivotIntervalBuilder \<Rightarrow> int \<Rightarrow> pivot_key \<Rightarrow> bool" where
  "covered b t k \<longleftrightarrow>
     (\<exists>i \<in> set (ib_closed b). pi_key i = k \<and> pi_valid_from_boundary_ms i \<le> t \<and> t < stop_of i) \<or>
     (\<exists>s. (k, s) \<in> set (ib_active b) \<and> s \<le> t)"

fun key_ok :: "pivot_key \<Rightarrow> bool" where
  "key_ok (side, price, occurred, confirmed) \<longleftrightarrow>
     side \<in> {''low'', ''high''} \<and> 0 < price \<and> 0 < occurred \<and> occurred < confirmed"

lemma interval_of_simps [simp]:
  "pi_key (interval_of k s e) = k" "pi_valid_from_boundary_ms (interval_of k s e) = s"
  "pi_valid_to_boundary_ms (interval_of k s e) = e" "stop_of (interval_of k s (Some n)) = n"
  by (auto simp: interval_of_def pi_key_def stop_of_def split: prod.splits)

lemma pivot_entry_key_ok: "pivot_entry effective p = Inr (Some k) \<Longrightarrow> key_ok k"
  by (auto simp: pivot_entry_def pivot_side_def Let_def split: json.splits option.splits if_splits sum.splits)

lemma snapshot_keys_ok: "snapshot_confirmed_pivots row = Inr visible \<Longrightarrow> k \<in> set visible \<Longrightarrow> key_ok k"
  by (auto simp: snapshot_confirmed_pivots_def swing_pivots_def List.map_filter_def bind_result_Inr_iff
      dest!: map_result_Inr_set intro: pivot_entry_key_ok split: json.splits if_splits)

lemma snapshot_distinct: "snapshot_confirmed_pivots row = Inr visible \<Longrightarrow> distinct visible"
  by (auto simp: snapshot_confirmed_pivots_def bind_result_Inr_iff split: json.splits if_splits)

section \<open>The builder\<close>

definition apart :: "PivotInterval \<Rightarrow> PivotInterval \<Rightarrow> bool" where
  "apart i j \<longleftrightarrow> (i \<noteq> j \<and> pi_key i = pi_key j \<longrightarrow>
     stop_of i \<le> pi_valid_from_boundary_ms j \<or> stop_of j \<le> pi_valid_from_boundary_ms i)"

definition second_clock :: "int \<Rightarrow> bool" where
  "second_clock t \<longleftrightarrow> 0 < t \<and> t mod 1000 = 0"

definition closed_ok :: "int \<Rightarrow> PivotInterval \<Rightarrow> bool" where
  "closed_ok L i \<longleftrightarrow> (\<exists>k s e. i = interval_of k s (Some e) \<and> key_ok k \<and> second_clock s \<and> second_clock e \<and> s < e \<and> e \<le> L)"

definition builder_ok :: "int \<Rightarrow> PivotIntervalBuilder \<Rightarrow> bool" where
  "builder_ok L b \<longleftrightarrow>
     distinct (map fst (ib_active b)) \<and> distinct (ib_closed b) \<and>
     (\<forall>k s. (k, s) \<in> set (ib_active b) \<longrightarrow> key_ok k \<and> second_clock s \<and> s \<le> L) \<and>
     (\<forall>i \<in> set (ib_closed b). closed_ok L i) \<and>
     (\<forall>i \<in> set (ib_closed b). \<forall>j \<in> set (ib_closed b). apart i j) \<and>
     (\<forall>i \<in> set (ib_closed b). \<forall>s. (pi_key i, s) \<in> set (ib_active b) \<longrightarrow> stop_of i \<le> s)"

lemma builder_okD:
  assumes "builder_ok L b"
  shows "distinct (map fst (ib_active b))" "distinct (ib_closed b)"
    "(k, s) \<in> set (ib_active b) \<Longrightarrow> key_ok k \<and> second_clock s \<and> s \<le> L"
    "i \<in> set (ib_closed b) \<Longrightarrow> closed_ok L i"
    "i \<in> set (ib_closed b) \<Longrightarrow> j \<in> set (ib_closed b) \<Longrightarrow> apart i j"
    "i \<in> set (ib_closed b) \<Longrightarrow> (pi_key i, s) \<in> set (ib_active b) \<Longrightarrow> stop_of i \<le> s"
  using assms unfolding builder_ok_def by blast+

lemma closed_ok_stop: "closed_ok L i \<Longrightarrow> stop_of i \<le> L"
  by (auto simp: closed_ok_def)

lemma closed_ok_mono: "closed_ok L i \<Longrightarrow> L \<le> M \<Longrightarrow> closed_ok M i"
  unfolding closed_ok_def by (elim exE conjE) (intro exI conjI, assumption+, rule order_trans)

lemmas builder_stop = closed_ok_stop [OF builder_okD(4)]

text \<open>Closing some of the active pivots at a later boundary.\<close>

definition close_some :: "int \<Rightarrow> (pivot_key \<Rightarrow> bool) \<Rightarrow> PivotIntervalBuilder \<Rightarrow> PivotIntervalBuilder" where
  "close_some e P b =
     b\<lparr>ib_closed := ib_closed b @ map (\<lambda>(k, start). interval_of k start (Some e)) (sort (filter (\<lambda>(k, s). P k) (ib_active b))),
       ib_active := filter (\<lambda>(k, s). \<not> P k) (ib_active b)\<rparr>"

lemma close_is_close_some:
  "close_all e b = close_some e (\<lambda>_. True) b"
  "close_missing e visible b = close_some e (\<lambda>k. k \<notin> set visible) b"
  by (simp_all add: close_all_def close_some_def close_missing_def)

lemma close_some_ok:
  assumes ok: "builder_ok L b" and e: "L < e" "e mod 1000 = 0" "0 \<le> L"
  shows "builder_ok e (close_some e P b)"
proof -
  let ?new = "map (\<lambda>(k, start). interval_of k start (Some e)) (sort (filter (\<lambda>(k, s). P k) (ib_active b)))"
  note act = builder_okD(3) [OF ok] and cl = builder_okD(4) [OF ok] and ca = builder_okD(6) [OF ok]
    and ap = builder_okD(5) [OF ok] and da = builder_okD(1) [OF ok] and dc = builder_okD(2) [OF ok]
    and stops = builder_stop [OF ok]
  have uniq: "(k, s) \<in> set (ib_active b) \<Longrightarrow> (k, u) \<in> set (ib_active b) \<Longrightarrow> s = u" for k s u
    using da by (meson eq_key_imp_eq_value)
  have new: "i \<in> set ?new \<longleftrightarrow> (\<exists>k s. (k, s) \<in> set (ib_active b) \<and> P k \<and> i = interval_of k s (Some e))" for i
    by (force simp: image_iff)
  have inj: "inj_on (\<lambda>(k, start). interval_of k start (Some e)) (set (ib_active b))"
    by (rule inj_onI) (auto dest: arg_cong [where f = pi_key] arg_cong [where f = pi_valid_from_boundary_ms])
  have "distinct (ib_active b)" using da by (simp add: distinct_map)
  then have "distinct ?new" using inj by (auto simp: distinct_map intro: inj_on_subset)
  moreover have "set (ib_closed b) \<inter> set ?new = {}"
  proof -
    have "i \<notin> set ?new" if "i \<in> set (ib_closed b)" for i
    proof
      assume "i \<in> set ?new"
      then have "stop_of i = e" unfolding new by auto
      with stops [OF that] e show False by simp
    qed
    then show ?thesis by blast
  qed
  moreover have "closed_ok e i" if i: "i \<in> set (ib_closed b @ ?new)" for i
  proof (cases "i \<in> set (ib_closed b)")
    case True
    then show ?thesis using closed_ok_mono [OF cl [OF True]] e by simp
  next
    case False
    then obtain k s where ks: "(k, s) \<in> set (ib_active b)" "i = interval_of k s (Some e)"
      using i new [of i] unfolding set_append Un_iff by blast
    have "second_clock e" "s < e" using act [OF ks(1)] e by (simp_all add: second_clock_def)
    then show ?thesis using act [OF ks(1)] ks(2) unfolding closed_ok_def by blast
  qed
  moreover have "apart i j" if ij: "i \<in> set (ib_closed b @ ?new)" "j \<in> set (ib_closed b @ ?new)" for i j
  proof -
    have old_new: "apart x y" "apart y x" if "x \<in> set (ib_closed b)" "y \<in> set ?new" for x y
    proof -
      from that(2) obtain k s where "(k, s) \<in> set (ib_active b)" "y = interval_of k s (Some e)" unfolding new by blast
      then show "apart x y" "apart y x" using ca [OF that(1), of s] by (auto simp: apart_def)
    qed
    have new_new: "apart x y" if xy: "x \<in> set ?new" "y \<in> set ?new" for x y
    proof -
      from xy obtain k s l u where "(k, s) \<in> set (ib_active b)" "x = interval_of k s (Some e)"
        "(l, u) \<in> set (ib_active b)" "y = interval_of l u (Some e)" unfolding new by blast
      then show ?thesis using uniq [of k s u] by (auto simp: apart_def)
    qed
    from ij show ?thesis unfolding set_append Un_iff by (elim disjE) (simp_all add: ap old_new new_new)
  qed
  moreover have "stop_of i \<le> s" if i: "i \<in> set (ib_closed b @ ?new)" "(pi_key i, s) \<in> set (ib_active b)" "\<not> P (pi_key i)" for i s
    using i ca new [of i] unfolding set_append Un_iff by (elim disjE) auto
  moreover have "key_ok k \<and> second_clock s \<and> s \<le> e" if "(k, s) \<in> set (ib_active b) \<and> \<not> P k" for k s
    using act [OF that [THEN conjunct1]] e by simp
  moreover have "distinct (map fst (filter (\<lambda>(k, s). \<not> P k) (ib_active b)))"
    using da by (rule distinct_map_filter)
  ultimately show ?thesis
    using dc unfolding builder_ok_def close_some_def
    by (simp del: set_map set_sort) blast
qed

lemma close_some_covered:
  assumes ok: "builder_ok L b" and e: "L < e"
  shows "covered (close_some e P b) t k \<longleftrightarrow> (if t < e then covered b t k else \<exists>s. (k, s) \<in> set (ib_active b) \<and> \<not> P k)"
proof -
  let ?new = "map (\<lambda>(k, start). interval_of k start (Some e)) (sort (filter (\<lambda>(k, s). P k) (ib_active b)))"
  note act = builder_okD(3) [OF ok] and stops = builder_stop [OF ok]
  have new: "(\<exists>i \<in> set ?new. pi_key i = k \<and> pi_valid_from_boundary_ms i \<le> t \<and> t < stop_of i) \<longleftrightarrow>
      (\<exists>s. (k, s) \<in> set (ib_active b) \<and> P k \<and> s \<le> t \<and> t < e)"
    by force
  have "covered (close_some e P b) t k \<longleftrightarrow>
      (\<exists>i \<in> set (ib_closed b). pi_key i = k \<and> pi_valid_from_boundary_ms i \<le> t \<and> t < stop_of i) \<or>
      (\<exists>s. (k, s) \<in> set (ib_active b) \<and> P k \<and> s \<le> t \<and> t < e) \<or>
      (\<exists>s. (k, s) \<in> set (ib_active b) \<and> \<not> P k \<and> s \<le> t)"
    unfolding covered_def close_some_def new [symmetric] by (simp add: bex_Un del: set_map set_sort)
  also have "\<dots> \<longleftrightarrow> (if t < e then covered b t k else \<exists>s. (k, s) \<in> set (ib_active b) \<and> \<not> P k)"
  proof (cases "t < e")
    case False
    have "\<not> t < stop_of i" if "i \<in> set (ib_closed b)" for i using stops [OF that] False e by linarith
    moreover have "s \<le> t" if "(k, s) \<in> set (ib_active b)" for s using act [OF that] False e by linarith
    ultimately show ?thesis using False by auto
  qed (auto simp: covered_def)
  finally show ?thesis .
qed

lemma open_new_ok:
  assumes ok: "builder_ok L b" and B: "L \<le> B" "second_clock B" and vis: "distinct visible" "\<forall>k \<in> set visible. key_ok k"
  shows "builder_ok B (open_new B visible b)"
proof -
  let ?added = "map (\<lambda>k. (k, B)) (filter (\<lambda>k. k \<notin> fst ` set (ib_active b)) visible)"
  have added: "(k, s) \<in> set ?added \<Longrightarrow> k \<in> set visible \<and> s = B" for k s by auto
  have "distinct (map fst (ib_active b @ ?added))"
    using builder_okD(1) [OF ok] vis(1) by (auto simp: comp_def)
  moreover have "key_ok k \<and> second_clock s \<and> s \<le> B" if "(k, s) \<in> set (ib_active b @ ?added)" for k s
    using that builder_okD(3) [OF ok, of k s] added [of k s] vis(2) B unfolding set_append Un_iff by auto
  moreover have "closed_ok B i" if "i \<in> set (ib_closed b)" for i
    using closed_ok_mono [OF builder_okD(4) [OF ok that] B(1)] .
  moreover have "stop_of i \<le> s" if "i \<in> set (ib_closed b)" "(pi_key i, s) \<in> set (ib_active b @ ?added)" for i s
    using that builder_okD(6) [OF ok, of i s] added [of "pi_key i" s] builder_stop [OF ok that(1)] B(1)
    unfolding set_append Un_iff by auto
  ultimately show ?thesis
    using builder_okD(2,5) [OF ok] unfolding builder_ok_def open_new_def by simp
qed

lemma open_new_covered:
  assumes "L \<le> B"
  shows "covered (open_new B visible b) t k \<longleftrightarrow>
    covered b t k \<or> (B \<le> t \<and> k \<in> set visible \<and> k \<notin> fst ` set (ib_active b))"
  by (auto simp: covered_def open_new_def)

lemma next_second: "L < B \<Longrightarrow> L mod 1000 = 0 \<Longrightarrow> B mod 1000 = 0 \<Longrightarrow> L + 1000 \<le> (B :: int)"
  by (auto simp: mod_eq_0_iff_dvd elim!: dvdE)

lemma builder_step:
  assumes ok: "builder_ok L b" "ib_last_boundary b = L" "0 \<le> L" "L mod 1000 = 0" "L = 0 \<longrightarrow> ib_active b = []"
    and B: "L < B" "B mod 1000 = 0" and vis: "distinct visible" "\<forall>k \<in> set visible. key_ok k"
  defines "b1 \<equiv> (if L \<noteq> 0 \<and> B \<noteq> L + 1000 then close_all (L + 1000) b else b)"
  shows "builder_ok B (open_new B visible (close_missing B visible b1)) \<and>
    (\<forall>t < B + 1000. \<forall>k. covered (open_new B visible (close_missing B visible b1)) t k \<longleftrightarrow>
       (if t < L + 1000 \<and> t < B then covered b t k else B \<le> t \<and> k \<in> set visible))"
proof -
  have later: "L + 1000 \<le> B" using next_second [OF B(1) ok(4) B(2)] .
  define M where "M = (if L \<noteq> 0 \<and> B \<noteq> L + 1000 then L + 1000 else L)"
  have "M < B" "0 \<le> M" using later B ok(3) by (auto simp: M_def)
  have b1: "builder_ok M b1"
    using close_some_ok [OF ok(1), of "L + 1000"] ok by (auto simp: b1_def M_def close_is_close_some)
  have gap: "covered b1 t k \<longleftrightarrow> (if t < L + 1000 then covered b t k else False)" if "t < B" for t k
  proof (cases "L \<noteq> 0 \<and> B \<noteq> L + 1000")
    case True
    then show ?thesis
      using close_some_covered [OF ok(1), of "L + 1000" "\<lambda>_. True" t k] by (simp add: b1_def close_is_close_some)
  next
    case False
    have "\<not> covered b t k" if "L + 1000 \<le> t"
    proof -
      have "ib_active b = []" using False ok(5) that \<open>t < B\<close> by auto
      moreover have "\<not> t < stop_of i" if "i \<in> set (ib_closed b)" for i
        using builder_stop [OF ok(1) that] \<open>L + 1000 \<le> t\<close> by linarith
      ultimately show ?thesis by (auto simp: covered_def)
    qed
    then show ?thesis using False by (auto simp: b1_def)
  qed
  let ?c = "close_missing B visible b1"
  have c: "builder_ok B ?c"
    unfolding close_is_close_some using close_some_ok [OF b1 \<open>M < B\<close> B(2) \<open>0 \<le> M\<close>] .
  have "second_clock B" using B ok(3) by (simp add: second_clock_def)
  then have "builder_ok B (open_new B visible ?c)" by (intro open_new_ok [OF c] vis) auto
  moreover have "covered (open_new B visible ?c) t k \<longleftrightarrow>
      (if t < L + 1000 \<and> t < B then covered b t k else B \<le> t \<and> k \<in> set visible)" if "t < B + 1000" for t k
  proof -
    have act: "ib_active ?c = filter (\<lambda>(k, s). k \<in> set visible) (ib_active b1)" by (simp add: close_missing_def)
    show ?thesis
      unfolding open_new_covered [OF order_refl, of B] act
      unfolding close_is_close_some close_some_covered [OF b1 \<open>M < B\<close>]
      using gap [of t k] by (auto simp: image_iff)
  qed
  ultimately show ?thesis by blast
qed

definition builder_shows :: "(int \<times> json) list \<Rightarrow> PivotIntervalBuilder \<Rightarrow> bool" where
  "builder_shows snaps b \<longleftrightarrow>
     builder_ok (ib_last_boundary b) b \<and> 0 \<le> ib_last_boundary b \<and> ib_last_boundary b mod 1000 = 0 \<and>
     (ib_last_boundary b = 0 \<longrightarrow> snaps = [] \<and> ib_active b = []) \<and>
     (snaps \<noteq> [] \<longrightarrow> ib_last_boundary b = fst (last snaps)) \<and>
     (\<forall>(boundary, row) \<in> set snaps. boundary \<le> ib_last_boundary b) \<and>
     (\<forall>t < ib_last_boundary b + 1000. \<forall>k. covered b t k \<longleftrightarrow> shown snaps t k)"

lemma builder_shows_step:
  assumes "builder_shows snaps b" "builder_observe B row b = Inr c"
  shows "builder_shows (snaps @ [(B, row)]) c"
proof -
  let ?L = "ib_last_boundary b"
  obtain visible where B: "?L < B" "B mod 1000 = 0" and v: "snapshot_confirmed_pivots row = Inr visible"
    and c: "c = (open_new B visible (close_missing B visible
        (if ?L \<noteq> 0 \<and> B \<noteq> ?L + 1000 then close_all (?L + 1000) b else b)))\<lparr>ib_last_boundary := B\<rparr>"
    using assms(2) by (auto simp: builder_observe_def bind_result_Inr_iff Let_def split: if_splits)
  have b: "builder_ok ?L b" "0 \<le> ?L" "?L mod 1000 = 0" "?L = 0 \<longrightarrow> ib_active b = []"
    and cov: "\<And>t k. t < ?L + 1000 \<Longrightarrow> covered b t k \<longleftrightarrow> shown snaps t k"
    and old: "\<And>x r. (x, r) \<in> set snaps \<Longrightarrow> x \<le> ?L"
    using assms(1) by (auto simp: builder_shows_def)
  have later: "?L + 1000 \<le> B" using next_second [OF B(1) b(3) B(2)] .
  note step = builder_step [OF b(1) refl b(2-4) B snapshot_distinct [OF v], folded c]
  have vis: "\<forall>k \<in> set visible. key_ok k" using snapshot_keys_ok [OF v] by blast
  have rest [simp]: "builder_ok B (d\<lparr>ib_last_boundary := B\<rparr>) = builder_ok B d"
    "covered (d\<lparr>ib_last_boundary := B\<rparr>) t k = covered d t k" for d t k
    by (simp_all add: builder_ok_def covered_def)
  have seen: "shows_pivot row k \<longleftrightarrow> k \<in> set visible" for k by (simp add: shows_pivot_def v)
  have none: "\<not> shown snaps t k" if "?L + 1000 \<le> t" for t k
  proof
    assume "shown snaps t k"
    then obtain x r where "(x, r) \<in> set snaps" "t < x + 1000" unfolding shown_def by blast
    with old [of x r] that show False by linarith
  qed
  have snoc: "shown (snaps @ [(B, row)]) t k \<longleftrightarrow> shown snaps t k \<or> (B \<le> t \<and> t < B + 1000 \<and> k \<in> set visible)" for t k
    unfolding shown_def set_append bex_Un seen [symmetric] by simp
  have new: "shown (snaps @ [(B, row)]) t k \<longleftrightarrow> (if t < ?L + 1000 \<and> t < B then shown snaps t k else B \<le> t \<and> k \<in> set visible)"
    if "t < B + 1000" for t k
    using later none [of t k] that unfolding snoc by auto
  have "builder_ok B c" using step [OF vis] unfolding c rest by (rule conjunct1)
  moreover have "covered c t k \<longleftrightarrow> shown (snaps @ [(B, row)]) t k" if "t < B + 1000" for t k
  proof -
    have "covered c t k \<longleftrightarrow> (if t < ?L + 1000 \<and> t < B then covered b t k else B \<le> t \<and> k \<in> set visible)"
      using step [OF vis, THEN conjunct2] that unfolding c rest by blast
    then show ?thesis unfolding new [OF that] by (simp add: cov)
  qed
  moreover have "ib_last_boundary c = B" "0 < B" using B b by (simp_all add: c)
  moreover have "fst x \<le> B" if "x \<in> set (snaps @ [(B, row)])" for x
    using that old [of "fst x" "snd x"] B by auto
  ultimately show ?thesis using B unfolding builder_shows_def by (simp add: case_prod_beta')
qed

lemma observe_rows_shows:
  "observe_rows snaps new_builder = Inr b \<Longrightarrow> builder_shows snaps b"
proof (induction snaps arbitrary: b rule: rev_induct)
  case Nil
  then have "b = new_builder" by (simp add: observe_rows_def)
  then show ?case by (simp add: builder_shows_def builder_ok_def new_builder_def covered_def shown_def)
next
  case (snoc s snaps)
  then obtain c where "observe_rows snaps new_builder = Inr c" "builder_observe (fst s) (snd s) c = Inr b"
    by (auto simp: observe_rows_def fold_result_append bind_result_Inr_iff split: prod.splits)
  with snoc.IH builder_shows_step show ?case by fastforce
qed

section \<open>The published rows\<close>

definition published :: "PivotIntervalBuilder \<Rightarrow> PivotInterval list" where
  "published b = ib_closed b @ map (\<lambda>(k, start). interval_of k start None) (sort (ib_active b))"

lemma interval_of_None_stop [simp]: "stop_of (interval_of k s None) = 57600001"
  by (simp add: stop_of_def)

lemma published_member:
  "i \<in> set (published b) \<longleftrightarrow> i \<in> set (ib_closed b) \<or> (\<exists>k s. (k, s) \<in> set (ib_active b) \<and> i = interval_of k s None)"
  by (force simp: published_def image_iff)

lemma key_ok_interval: "key_ok k \<Longrightarrow> 0 < s \<Longrightarrow> s \<le> 57600000 \<Longrightarrow> s mod 1000 = 0 \<Longrightarrow>
  (\<forall>e. stop = Some e \<longrightarrow> s < e \<and> e \<le> 57600000 \<and> e mod 1000 = 0) \<Longrightarrow> interval_valid (interval_of k s stop)"
  by (cases k; cases stop) (auto simp: interval_valid_def interval_of_def)

lemma published_valid:
  assumes ok: "builder_ok L b" and L: "L \<le> 57600000"
  shows "\<forall>i \<in> set (published b). interval_valid i"
proof
  fix i assume "i \<in> set (published b)"
  then consider "i \<in> set (ib_closed b)" | k s where "(k, s) \<in> set (ib_active b)" "i = interval_of k s None"
    unfolding published_member by blast
  then show "interval_valid i"
  proof cases
    case 1
    from builder_okD(4) [OF ok 1] obtain k s e where "i = interval_of k s (Some e)" "key_ok k"
      "second_clock s" "second_clock e" "s < e" "e \<le> L" unfolding closed_ok_def by blast
    then show ?thesis using L by (auto simp: second_clock_def intro!: key_ok_interval)
  next
    case 2
    then show ?thesis using builder_okD(3) [OF ok 2(1)] L by (auto simp: second_clock_def intro!: key_ok_interval)
  qed
qed

lemma published_apart:
  assumes ok: "builder_ok L b"
  shows "\<forall>i \<in> set (published b). \<forall>j \<in> set (published b). apart i j"
proof (intro ballI)
  have mixed: "apart x y" "apart y x"
    if "x \<in> set (ib_closed b)" "(k, s) \<in> set (ib_active b)" "y = interval_of k s None" for x y k s
    using builder_okD(6) [OF ok that(1), of s] that(2,3) by (auto simp: apart_def)
  have active: "apart x y" if "(k, s) \<in> set (ib_active b)" "x = interval_of k s None"
    "(l, u) \<in> set (ib_active b)" "y = interval_of l u None" for x y k s l u
    using that eq_key_imp_eq_value [OF builder_okD(1) [OF ok], of k s u] by (auto simp: apart_def)
  fix i j assume "i \<in> set (published b)" "j \<in> set (published b)"
  then show "apart i j"
    unfolding published_member using mixed active builder_okD(5) [OF ok] by blast
qed

lemma published_distinct:
  assumes ok: "builder_ok L b"
  shows "distinct (published b)"
proof -
  have "inj_on (\<lambda>(k, start). interval_of k start None) (set (ib_active b))"
    by (rule inj_onI) (auto dest: arg_cong [where f = pi_key] arg_cong [where f = pi_valid_from_boundary_ms])
  moreover have "distinct (ib_active b)" using builder_okD(1) [OF ok] by (simp add: distinct_map)
  moreover have "interval_of k s None \<notin> set (ib_closed b)" for k s
  proof
    assume "interval_of k s None \<in> set (ib_closed b)"
    then have "\<exists>l u e. interval_of k s None = interval_of l u (Some e)"
      using builder_okD(4) [OF ok] unfolding closed_ok_def by blast
    then show False by (auto dest: arg_cong [where f = pi_valid_to_boundary_ms])
  qed
  ultimately show ?thesis
    using builder_okD(2) [OF ok] by (auto simp: published_def distinct_map)
qed

text \<open>Sorting rows that are apart puts every row before those it precedes.\<close>

lemma sorted_rows_precede:
  assumes "distinct rows" "\<forall>i \<in> set rows. \<forall>j \<in> set rows. apart i j" "\<forall>i \<in> set rows. interval_valid i"
  shows "sorted_wrt precedes (sort_key row_order rows)"
proof -
  let ?r = "sort_key row_order rows"
  have "precedes (?r ! m) (?r ! n)" if mn: "m < n" "n < length ?r" for m n
  proof -
    let ?i = "?r ! m" and ?j = "?r ! n"
    have mem: "?i \<in> set rows" "?j \<in> set rows" using nth_mem [of m ?r] nth_mem [of n ?r] mn by simp_all
    have "?i \<noteq> ?j" using assms(1) mn by (simp add: nth_eq_iff_index_eq)
    moreover have le: "row_order ?i \<le> row_order ?j"
      using sorted_nth_mono [of "map row_order ?r" m n] mn by simp
    then have "pi_valid_from_boundary_ms ?i \<le> pi_valid_from_boundary_ms ?j" by (auto simp: row_order_def)
    moreover have "apart ?i ?j" using assms(2) mem by blast
    moreover have span: "pi_valid_from_boundary_ms ?i < stop_of ?i" "pi_valid_from_boundary_ms ?j < stop_of ?j"
      using assms(3) mem interval_valid_span by blast+
    ultimately have "pi_key ?i = pi_key ?j \<longrightarrow> stop_of ?i \<le> pi_valid_from_boundary_ms ?j"
      by (fastforce simp: apart_def)
    moreover from this span have "row_order ?i \<noteq> row_order ?j" by (auto simp: row_order_def)
    ultimately show ?thesis using le by (simp add: precedes_def)
  qed
  then show ?thesis by (simp add: sorted_wrt_iff_nth_less)
qed

lemma finished_rows_valid:
  assumes "builder_ok L b" "L \<le> 57600000" "builder_finish b = Inr rows"
  shows "set rows = set (published b) \<and> list_all interval_valid rows \<and> sorted_wrt precedes rows"
proof -
  have rows: "rows = sort_key row_order (published b)"
    using assms(3) by (simp add: builder_finish_def published_def split: if_splits)
  then show ?thesis
    using sorted_rows_precede [OF published_distinct published_apart published_valid] assms(1,2) published_valid
    by (simp add: list_all_iff)
qed

text \<open>A pivot has a live row exactly when the builder covers the time.\<close>

lemma published_alive:
  assumes ok: "builder_ok L b"
  shows "(\<exists>i \<in> set (published b). pi_key i = k \<and> alive t i) \<longleftrightarrow> covered b t k"
proof -
  have closed: "alive t i \<longleftrightarrow> pi_valid_from_boundary_ms i \<le> t \<and> t < stop_of i" if "i \<in> set (ib_closed b)" for i
  proof -
    from builder_okD(4) [OF ok that] obtain l s e where "i = interval_of l s (Some e)" unfolding closed_ok_def by blast
    then show ?thesis by (simp add: alive_def)
  qed
  have "alive t (interval_of k s None) \<longleftrightarrow> s \<le> t" for k s by (simp add: alive_def)
  then show ?thesis
    unfolding covered_def Bex_def published_member using closed by (metis interval_of_simps(1))
qed

section \<open>Producer and consumer\<close>

definition ask_all :: "int list \<Rightarrow> PivotTimeline \<Rightarrow> PivotTimeline" where
  "ask_all bs c = fold (\<lambda>b c. snd (timeline_at b c)) bs c"

definition pivot_of_key :: "int \<Rightarrow> pivot_key \<Rightarrow> ConfirmedPivot" where
  "pivot_of_key origin k = confirmed_pivot origin (interval_of k 0 None)"

lemma confirmed_pivot_key: "confirmed_pivot origin i = pivot_of_key origin (pi_key i)"
  by (simp add: pivot_of_key_def confirmed_pivot_def interval_of_def pi_key_def pivot_identity_def)

definition query_boundaries :: "int list \<Rightarrow> bool" where
  "query_boundaries bs \<longleftrightarrow> sorted_wrt (<) (0 # bs) \<and> (\<forall>b \<in> set bs. b mod 100 = 0 \<and> b \<le> 57600000)"

lemma timeline_made:
  assumes "list_all interval_valid rows" "sorted_wrt precedes rows" "list_all (causal_clocks origin) rows"
  obtains c where "timeline sha256 origin rows = Inr c" "cursor_ok origin rows 0 c" "tl_boundary_ms c = 0"
proof -
  obtain h where "interval_content_hash sha256 rows = Inr h" using content_hash_iff assms(1,2) by blast
  then have "timeline sha256 origin rows = Inr \<lparr>tl_starts = starts_of origin rows, tl_ends = ends_of rows,
      tl_next_start = 0, tl_next_end = 0, tl_active = [], tl_boundary_ms = 0\<rparr>"
    using assms(3) by (simp add: timeline_def starts_of_def)
  then show thesis by (rule that) (simp_all add: cursor_ok_def dead_of_def entries_def)
qed

lemma ask_all_ok:
  assumes "cursor_ok origin rows 0 c" "tl_boundary_ms c = 0" "list_all interval_valid rows" "sorted_wrt precedes rows"
    and "query_boundaries bs"
  shows "cursor_ok origin rows (last (0 # bs)) (ask_all bs c) \<and> tl_boundary_ms (ask_all bs c) = last (0 # bs)"
  using assms(5)
proof (induction bs rule: rev_induct)
  case (snoc b bs)
  have le: "last (0 # bs) < b" using snoc.prems by (cases bs rule: rev_cases) (auto simp: query_boundaries_def sorted_wrt_append)
  have "query_boundaries bs" using snoc.prems by (auto simp: query_boundaries_def sorted_wrt_append)
  note IH = snoc.IH [OF this]
  show ?case
    using cursor_answers [OF IH [THEN conjunct1] IH [THEN conjunct2] assms(3,4) le] snoc.prems
    by (simp add: ask_all_def query_boundaries_def)
qed (use assms in \<open>simp add: ask_all_def\<close>)

lemma alive_keys_distinct:
  assumes "sorted_wrt precedes rows" "t \<le> 57600000"
  shows "distinct (map pi_key (filter (alive t) rows))"
  using assms(1)
proof (induction rows)
  case (Cons i rows)
  have "pi_key i \<noteq> pi_key j" if "alive t i" "alive t j" "j \<in> set rows" for j
    using Cons.prems that assms(2)
    by (fastforce simp: precedes_def alive_def stop_of_def split: option.splits)
  with Cons show ?case by auto
qed simp

text \<open>
  C35. The rows the builder publishes from any accepted sequence of detector snapshots pass the
  consumer's validation, and after any earlier queries the cursor over them shows at boundary
  \<open>t\<close> exactly the pivots of the snapshot of the second that contains \<open>t\<close>, each once and in
  order: none in a gap, and none the detector has dropped.
\<close>

theorem timeline_shows_detector_snapshots:
  assumes build: "observe_rows snaps new_builder = Inr b" "builder_finish b = Inr rows"
    and clocks: "list_all (causal_clocks origin) rows" "fst (last snaps) \<le> 57600000"
    and queries: "query_boundaries (earlier @ [t])" "t < fst (last snaps) + 1000"
  shows "\<exists>c ps. timeline sha256 origin rows = Inr c \<and> fst (timeline_at t (ask_all earlier c)) = Inr ps \<and>
    set ps = pivot_of_key origin ` {k. shown snaps t k} \<and> length ps = card {k. shown snaps t k} \<and>
    sorted (map pivot_order ps)"
proof -
  have sh: "builder_shows snaps b" using build(1) by (rule observe_rows_shows)
  have "ib_last_boundary b \<noteq> 0" using build(2) by (auto simp: builder_finish_def split: if_splits)
  then have last: "ib_last_boundary b = fst (last snaps)" and "snaps \<noteq> []"
    using sh build(1) by (auto simp: builder_shows_def observe_rows_def new_builder_def)
  have ok: "builder_ok (fst (last snaps)) b" using sh last by (simp add: builder_shows_def)
  note rows = finished_rows_valid [OF ok clocks(2) build(2)]
  obtain c where c: "timeline sha256 origin rows = Inr c" "cursor_ok origin rows 0 c" "tl_boundary_ms c = 0"
    using timeline_made rows clocks(1) by blast
  have early: "query_boundaries earlier" and t: "last (0 # earlier) < t" "t \<le> 57600000" "t mod 100 = 0"
    using queries(1) by (auto simp: query_boundaries_def sorted_wrt_append)
  note asked = ask_all_ok [OF c(2,3) rows [THEN conjunct2, THEN conjunct1] rows [THEN conjunct2, THEN conjunct2] early]
  let ?live = "filter (alive t) rows" and ?ps = "sort_key pivot_order (map (confirmed_pivot origin) (filter (alive t) rows))"
  have ans: "fst (timeline_at t (ask_all earlier c)) = Inr ?ps"
    using cursor_answers [OF asked [THEN conjunct1] asked [THEN conjunct2] _ _ t] rows by blast
  have "{k. shown snaps t k} = {k. covered b t k}" using sh queries(2) last by (auto simp: builder_shows_def)
  also have "\<dots> = pi_key ` set ?live"
    unfolding published_alive [OF ok, symmetric] using rows by (simp add: image_def Bex_def conj_ac eq_commute)
  finally have keys: "{k. shown snaps t k} = pi_key ` set ?live" .
  have "set ?ps = pivot_of_key origin ` {k. shown snaps t k}"
    unfolding keys by (auto simp: confirmed_pivot_key image_image)
  moreover have "length ?ps = card {k. shown snaps t k}"
    unfolding keys using distinct_card [OF alive_keys_distinct [OF _ t(2)], of rows] rows by simp
  ultimately show ?thesis using c(1) ans by (intro exI conjI) (assumption | simp)+
qed

definition demo_swing :: json where
  "demo_swing = JObj [(''state'', JStr ''active''), (''side'', JNum 1), (''price'', JNum (21 / 2)),
     (''pivot_at'', JNum (2001 / 2)), (''confirmed_at'', JNum 1001)]"

definition demo_snapshot :: "int \<Rightarrow> json list \<Rightarrow> json" where
  "demo_snapshot at_s swings = JObj [(''contract'', JStr DETECTOR_VERSION), (''effective_at'', JNum (of_int at_s)),
     (''local_swings'', JArr swings), (''confirmed_swings'', JArr [])]"

definition demo_snaps :: "(int \<times> json) list" where
  "demo_snaps = [(1000, demo_snapshot 1001 [demo_swing]), (2000, demo_snapshot 1002 [demo_swing]), (3000, demo_snapshot 1003 [])]"

definition demo_rows :: "PivotInterval list" where
  "demo_rows = [interval_of (''low'', 105000, 1000500000, 1001000000) 1000 (Some 3000)]"

theorem timeline_shows_detector_snapshots_witness:
  "\<exists>c ps. timeline id 1000000000 demo_rows = Inr c \<and> fst (timeline_at 2500 (ask_all [1000] c)) = Inr ps \<and>
    set ps = pivot_of_key 1000000000 ` {(''low'', 105000, 1000500000, 1001000000)} \<and> length ps = 1"
proof -
  have "\<exists>b. observe_rows demo_snaps new_builder = Inr b \<and> builder_finish b = Inr demo_rows"
    by (rule exI [of _ "projr (observe_rows demo_snaps new_builder)"]) code_simp
  then obtain b where b: "observe_rows demo_snaps new_builder = Inr b" "builder_finish b = Inr demo_rows" by blast
  have clocks: "list_all (causal_clocks 1000000000) demo_rows" "fst (last demo_snaps) \<le> 57600000"
    "2500 < fst (last demo_snaps) + 1000" by code_simp+
  have q: "query_boundaries ([1000] @ [2500])" by (simp add: query_boundaries_def)
  have seen: "snapshot_confirmed_pivots (demo_snapshot 1002 [demo_swing]) = Inr [(''low'', 105000, 1000500000, 1001000000)]"
    by code_simp
  have "shown demo_snaps 2500 k \<longleftrightarrow> k = (''low'', 105000, 1000500000, 1001000000)" for k
    by (simp add: shown_def demo_snaps_def shows_pivot_def seen)
  then show ?thesis
    using timeline_shows_detector_snapshots [OF b clocks(1,2) q clocks(3), of id] by auto
qed

declare split_paired_All [simp] split_paired_Ex [simp]

end
