(* ===== verification/Campaign.thy ===== *)
theory Campaign
  imports Payload
begin

text \<open>
  \<open>src/trading_runtime/strategy_campaign.py\<close>: which strategy campaign owns a ticker in a book,
  with the durable session ownership of \<open>src/trading_runtime/journal.py\<close> it relies on.

  An assignment is the record of the fields the module reads; \<open>state\<close> and \<open>parameters\<close> are JSON
  objects. A set of assignment ids is a list without duplicates. The journal's table is shared
  by every orchestrator that is bound to it: an operation takes it with the orchestrator and
  returns both, changed as far as the operation got. \<open>now\<close> is the text of the current time.
\<close>

section \<open>Session ownership in the journal\<close>

record OwnershipRow =
  ow_owner_id :: string
  ow_state :: string
  ow_epoch :: int
  ow_updated_at :: string

type_synonym ownership_table = "(string \<times> string, OwnershipRow) dict"

definition acquire_campaign_session_ownership ::
    "string \<Rightarrow> string \<Rightarrow> string \<Rightarrow> string \<Rightarrow> string \<Rightarrow> (ownership_table, OwnershipRow option) act" where
  "acquire_campaign_session_ownership now resource session owner state table =
     (if resource = [] \<or> session = [] \<or> owner = []
      then (Inl (ValueError ''Campaign ownership requires resource, session, and owner''), table)
      else if state \<notin> {''reserved'', ''confirmed''}
      then (Inl (ValueError ''Campaign ownership state must be reserved or confirmed''), table)
      else (case map_of table (resource, session) of
          None \<Rightarrow>
            (let row = \<lparr>ow_owner_id = owner, ow_state = state, ow_epoch = 1, ow_updated_at = now\<rparr>
             in (Inr (Some row), AList.update (resource, session) row table))
        | Some old \<Rightarrow>
            if ow_owner_id old \<noteq> owner then (Inr None, table)
            else
              (let row = \<lparr>ow_owner_id = owner,
                     ow_state = (if ow_state old = ''confirmed'' then ''confirmed'' else state),
                     ow_epoch = ow_epoch old + 1, ow_updated_at = now\<rparr>
               in (Inr (Some row), AList.update (resource, session) row table))))"

definition campaign_session_ownership :: "string \<Rightarrow> string \<Rightarrow> ownership_table \<Rightarrow> OwnershipRow option" where
  "campaign_session_ownership resource session table = map_of table (resource, session)"

definition release_campaign_session_reservation ::
    "string \<Rightarrow> string \<Rightarrow> string \<Rightarrow> (ownership_table, bool) act" where
  "release_campaign_session_reservation resource session owner table =
     (case map_of table (resource, session) of
        Some row \<Rightarrow>
          if ow_owner_id row = owner \<and> ow_state row = ''reserved''
          then (Inr True, AList.delete (resource, session) table) else (Inr False, table)
      | None \<Rightarrow> (Inr False, table))"

section \<open>Reading an assignment\<close>

definition TERMINAL_ASSIGNMENT_STATUSES :: "string set" where
  "TERMINAL_ASSIGNMENT_STATUSES = {''disabled'', ''completed'', ''error''}"

definition SUPPORTED_AUTHORITIES :: "string set" where
  "SUPPORTED_AUTHORITIES = {''disabled'', ''manual'', ''confirm'', ''automatic''}"

datatype CampaignPhase =
    WATCHING_INITIAL
  | ENTRY_PENDING
  | MANAGING_POSITION
  | EXIT_PENDING
  | REENTRY_WAIT
  | PHASE_PAUSED
  | PHASE_COMPLETED
  | PHASE_ERROR

fun CampaignPhase_value :: "CampaignPhase \<Rightarrow> string" where
  "CampaignPhase_value WATCHING_INITIAL = ''watching_initial''"
| "CampaignPhase_value ENTRY_PENDING = ''entry_pending''"
| "CampaignPhase_value MANAGING_POSITION = ''managing_position''"
| "CampaignPhase_value EXIT_PENDING = ''exit_pending''"
| "CampaignPhase_value REENTRY_WAIT = ''reentry_wait''"
| "CampaignPhase_value PHASE_PAUSED = ''paused''"
| "CampaignPhase_value PHASE_COMPLETED = ''completed''"
| "CampaignPhase_value PHASE_ERROR = ''error''"

record Assignment =
  sa_assignment_id :: string
  sa_strategy_id :: string
  sa_ticker :: string
  sa_status :: string
  sa_state :: json
  sa_parameters :: json

record CampaignLease =
  le_campaign_id :: string
  le_book_id :: string
  le_ticker :: string
  le_side :: string
  le_state :: string

type_synonym lease_key = "string \<times> string"

definition lease_key :: "CampaignLease \<Rightarrow> lease_key" where
  "lease_key l = (le_book_id l, upper (le_ticker l))"

definition resource_id :: "CampaignLease \<Rightarrow> string" where
  "resource_id l = le_book_id l @ ''|'' @ upper (le_ticker l)"

definition campaign_side_for :: "(json \<Rightarrow> string) \<Rightarrow> Assignment \<Rightarrow> string result" where
  "campaign_side_for render a =
     bind_result
       (if truthy (jget (sa_state a) ''campaign_side'') then Inr (jget (sa_state a) ''campaign_side'')
        else (case dict_or (jget (sa_parameters a) ''strategy_behavior'') of
            JObj kvs \<Rightarrow> Inr (jget (JObj kvs) ''side'')
          | _ \<Rightarrow> Inl (PyTypeError ''object is not iterable'')))
       (\<lambda>v. let side = lower (strip (str_or render v ''long''))
            in if side \<in> {''long'', ''short''} then Inr side
               else Inl (ValueError ''Strategy Campaign side must be long or short''))"

definition campaign_id_for :: "(json \<Rightarrow> string) \<Rightarrow> Assignment \<Rightarrow> string result" where
  "campaign_id_for render a =
     (let explicit = strip (str_or render (jget (sa_state a) ''campaign_id'') [])
      in if explicit \<noteq> [] then Inr explicit
         else bind_result (campaign_side_for render a) (\<lambda>side.
           Inr ((if sa_strategy_id a = [] then ''strategy'' else sa_strategy_id a) @ '':'' @
                upper (sa_ticker a) @ '':'' @ side)))"

definition campaign_book_for :: "(json \<Rightarrow> string) \<Rightarrow> Assignment \<Rightarrow> string" where
  "campaign_book_for render a =
     (let book = strip (str_or render (jget (sa_state a) ''campaign_book_id'') ''default'')
      in if book = [] then ''default'' else book)"

definition campaign_phase_for :: "Assignment \<Rightarrow> f64 \<Rightarrow> CampaignPhase result" where
  "campaign_phase_for a position_quantity =
     (let status = sa_status a in
      if status = ''error'' then Inr PHASE_ERROR
      else if status \<in> {''disabled'', ''completed''} then Inr PHASE_COMPLETED
      else if status = ''paused'' then Inr PHASE_PAUSED
      else if status = ''entry_pending'' then Inr ENTRY_PENDING
      else if status = ''exit_pending'' then Inr EXIT_PENDING
      else if 0 < \<bar>position_quantity\<bar> \<or> status = ''managing'' then Inr MANAGING_POSITION
      else bind_result (int_or (jget (sa_state a) ''reentries'') 0) (\<lambda>reentries.
        Inr (if 0 < reentries \<or> status = ''reentry_cooldown'' then REENTRY_WAIT else WATCHING_INITIAL)))"

section \<open>The orchestrator\<close>

record Orchestrator =
  oc_leases :: "(lease_key, CampaignLease) dict"
  oc_assignment_campaigns :: "(string, string) dict"
  oc_active_legs :: "(string, string list) dict"
  oc_session_key :: "string option"

definition new_orchestrator :: Orchestrator where
  "new_orchestrator = \<lparr>oc_leases = [], oc_assignment_campaigns = [], oc_active_legs = [], oc_session_key = None\<rparr>"

definition bind_durable_authority :: "string \<Rightarrow> Orchestrator \<Rightarrow> Orchestrator result" where
  "bind_durable_authority session oc =
     (if session = [] then Inl (ValueError ''Campaign durable authority requires a session key'')
      else Inr (oc\<lparr>oc_session_key := Some session\<rparr>))"

definition add_leg :: "string \<Rightarrow> string \<Rightarrow> Orchestrator \<Rightarrow> Orchestrator" where
  "add_leg campaign assignment oc =
     oc\<lparr>oc_active_legs := AList.update campaign (List.insert assignment (dget (oc_active_legs oc) campaign []))
         (oc_active_legs oc)\<rparr>"

definition remove_leg :: "string \<Rightarrow> string \<Rightarrow> Orchestrator \<Rightarrow> Orchestrator" where
  "remove_leg campaign assignment oc =
     (case map_of (oc_active_legs oc) campaign of
        None \<Rightarrow> oc
      | Some legs \<Rightarrow>
          (let left = removeAll assignment legs in
           if left \<noteq> [] then oc\<lparr>oc_active_legs := AList.update campaign left (oc_active_legs oc)\<rparr>
           else oc\<lparr>oc_active_legs := AList.delete campaign (oc_active_legs oc),
                   oc_leases := filter (\<lambda>(k, l). le_campaign_id l \<noteq> campaign) (oc_leases oc)\<rparr>))"

definition lease_for :: "string \<Rightarrow> string \<Rightarrow> Orchestrator \<Rightarrow> CampaignLease option" where
  "lease_for book ticker oc = map_of (oc_leases oc) (if book = [] then ''default'' else book, upper ticker)"

definition lease_for_assignment :: "(json \<Rightarrow> string) \<Rightarrow> Assignment \<Rightarrow> Orchestrator \<Rightarrow> CampaignLease option" where
  "lease_for_assignment render a = lease_for (campaign_book_for render a) (sa_ticker a)"

definition already_owned :: pyexc where
  "already_owned = ValueError ''is already owned by active Strategy Campaign''"

definition identity_required :: pyexc where
  "identity_required = ValueError ''Campaign assignments require assignment identity and ticker''"

type_synonym 'a campaign_act = "(Orchestrator \<times> ownership_table, 'a) act"

text \<open>The durable part of \<open>_claim\<close>: the lease with the state the journal settled.\<close>

definition durable_lease :: "string \<Rightarrow> CampaignLease \<Rightarrow> CampaignLease campaign_act" where
  "durable_lease now lease st =
     (case st of (oc, table) \<Rightarrow>
      (case oc_session_key oc of
         None \<Rightarrow> (Inr lease, (oc, table))
       | Some session \<Rightarrow>
           (case acquire_campaign_session_ownership now (resource_id lease) session
                   (le_campaign_id lease) (le_state lease) table of
              (Inl e, table') \<Rightarrow> (Inl e, (oc, table'))
            | (Inr None, table') \<Rightarrow> (Inl already_owned, (oc, table'))
            | (Inr (Some row), table') \<Rightarrow> (Inr (lease\<lparr>le_state := ow_state row\<rparr>), (oc, table')))))"

definition proposed_lease :: "(json \<Rightarrow> string) \<Rightarrow> Assignment \<Rightarrow> string \<Rightarrow> CampaignLease result" where
  "proposed_lease render a state =
     bind_result (campaign_id_for render a) (\<lambda>campaign.
     bind_result (campaign_side_for render a) (\<lambda>side.
     Inr \<lparr>le_campaign_id = campaign, le_book_id = campaign_book_for render a,
          le_ticker = upper (strip (sa_ticker a)), le_side = side, le_state = state\<rparr>))"

definition spans_tickers :: "CampaignLease \<Rightarrow> Orchestrator \<Rightarrow> bool" where
  "spans_tickers lease oc =
     list_ex (\<lambda>(k, l). le_campaign_id l = le_campaign_id lease \<and> lease_key l \<noteq> lease_key lease) (oc_leases oc)"

definition claim_as :: "string \<Rightarrow> (json \<Rightarrow> string) \<Rightarrow> string \<Rightarrow> Assignment \<Rightarrow> CampaignLease campaign_act" where
  "claim_as now render state a st =
     (case st of (oc, table) \<Rightarrow>
      if strip (sa_assignment_id a) = [] \<or> strip (sa_ticker a) = [] then (Inl identity_required, st)
      else (case proposed_lease render a state of
          Inl e \<Rightarrow> (Inl e, st)
        | Inr lease \<Rightarrow>
            if spans_tickers lease oc
            then (Inl (ValueError ''Strategy Campaign cannot span multiple ticker leases''), st)
            else (case durable_lease now lease st of
                (Inl e, st') \<Rightarrow> (Inl e, st')
              | (Inr settled, (oc', table')) \<Rightarrow>
                  (let current = map_of (oc_leases oc) (lease_key lease) in
                   if (case current of None \<Rightarrow> False | Some c \<Rightarrow> le_campaign_id c \<noteq> le_campaign_id lease)
                   then (Inl already_owned, (oc', table'))
                   else
                     (let kept = (case current of
                            Some c \<Rightarrow> if le_state c = ''confirmed'' then c else settled
                          | None \<Rightarrow> settled)
                      in (Inr kept,
                          (add_leg (le_campaign_id lease) (strip (sa_assignment_id a))
                             (oc'\<lparr>oc_leases := AList.update (lease_key kept) kept (oc_leases oc')\<rparr>), table')))))))"

definition reserve_lease :: "string \<Rightarrow> (json \<Rightarrow> string) \<Rightarrow> Assignment \<Rightarrow> CampaignLease campaign_act" where
  "reserve_lease now render = claim_as now render ''reserved''"

definition claim_lease :: "string \<Rightarrow> (json \<Rightarrow> string) \<Rightarrow> Assignment \<Rightarrow> CampaignLease campaign_act" where
  "claim_lease now render = claim_as now render ''confirmed''"

definition register :: "string \<Rightarrow> (json \<Rightarrow> string) \<Rightarrow> Assignment \<Rightarrow> CampaignLease option campaign_act" where
  "register now render a st =
     (case st of (oc, table) \<Rightarrow>
      let aid = strip (sa_assignment_id a) in
      if aid = [] \<or> upper (strip (sa_ticker a)) = [] then (Inl identity_required, st)
      else (case campaign_id_for render a of
          Inl e \<Rightarrow> (Inl e, st)
        | Inr campaign \<Rightarrow>
            (let moved = (case map_of (oc_assignment_campaigns oc) aid of
                   None \<Rightarrow> oc
                 | Some previous \<Rightarrow> if previous \<noteq> [] \<and> previous \<noteq> campaign then remove_leg previous aid oc else oc);
                 known = moved\<lparr>oc_assignment_campaigns := AList.update aid campaign (oc_assignment_campaigns moved)\<rparr>
             in if sa_status a \<in> TERMINAL_ASSIGNMENT_STATUSES
                then (Inr (lease_for_assignment render a known), (known, table))
                else
                  (let watching = add_leg campaign aid known in
                   if sa_status a \<in> {''managing'', ''exit_pending'', ''reentry_cooldown''}
                   then (case claim_lease now render a (watching, table) of
                       (Inl e, st') \<Rightarrow> (Inl e, st')
                     | (Inr lease, st') \<Rightarrow> (Inr (Some lease), st'))
                   else (Inr (lease_for_assignment render a watching), (watching, table))))))"

definition release_reservation :: "(json \<Rightarrow> string) \<Rightarrow> Assignment \<Rightarrow> unit campaign_act" where
  "release_reservation render a st =
     (case st of (oc, table) \<Rightarrow>
      (case lease_for_assignment render a oc of
         None \<Rightarrow> (Inr (), st)
       | Some lease \<Rightarrow>
           if le_state lease \<noteq> ''reserved'' then (Inr (), st)
           else
             (let table' = (case oc_session_key oc of
                  None \<Rightarrow> table
                | Some session \<Rightarrow>
                    snd (release_campaign_session_reservation (resource_id lease) session (le_campaign_id lease) table))
              in (Inr (), (oc\<lparr>oc_leases := AList.delete (lease_key lease) (oc_leases oc)\<rparr>, table')))))"

definition can_evaluate :: "(json \<Rightarrow> string) \<Rightarrow> Assignment \<Rightarrow> Orchestrator \<times> ownership_table \<Rightarrow> bool result" where
  "can_evaluate render a st =
     (case st of (oc, table) \<Rightarrow>
      let locally = (case lease_for_assignment render a oc of
            None \<Rightarrow> Inr True
          | Some l \<Rightarrow> bind_result (campaign_id_for render a) (\<lambda>campaign. Inr (le_campaign_id l = campaign)))
      in case oc_session_key oc of
           None \<Rightarrow> locally
         | Some session \<Rightarrow>
             bind_result (campaign_id_for render a) (\<lambda>campaign.
             bind_result (campaign_side_for render a) (\<lambda>side.
               case campaign_session_ownership
                   (campaign_book_for render a @ ''|'' @ upper (sa_ticker a)) session table of
                 Some row \<Rightarrow> Inr (ow_owner_id row = campaign)
               | None \<Rightarrow> locally)))"

definition assert_owner :: "(json \<Rightarrow> string) \<Rightarrow> Assignment \<Rightarrow> Orchestrator \<Rightarrow> unit result" where
  "assert_owner render a oc =
     bind_result (campaign_id_for render a) (\<lambda>campaign.
       case lease_for_assignment render a oc of
         Some l \<Rightarrow>
           if le_campaign_id l = campaign then Inr () else Inl (ValueError ''Strategy Campaign does not own'')
       | None \<Rightarrow> Inl (ValueError ''Strategy Campaign does not own''))"

definition campaign_state ::
    "string \<Rightarrow> string \<Rightarrow> string \<Rightarrow> string \<Rightarrow> string \<Rightarrow> string \<Rightarrow> json result" where
  "campaign_state campaign deployment profile book universe side =
     (if side \<notin> {''long'', ''short''} then Inl (ValueError ''Strategy Campaign side must be long or short'')
      else Inr (JObj [(''campaign_id'', JStr campaign), (''campaign_deployment_id'', JStr deployment),
        (''campaign_profile_id'', JStr profile), (''campaign_book_id'', JStr (if book = [] then ''default'' else book)),
        (''campaign_universe_id'', JStr universe), (''campaign_side'', JStr side)]))"

definition text_in :: "(json \<Rightarrow> string) \<Rightarrow> json \<Rightarrow> string \<Rightarrow> string set \<Rightarrow> bool" where
  "text_in render policy k allowed \<longleftrightarrow> str_or render (jget policy k) [] \<in> allowed"

definition nonnegative_count :: "json \<Rightarrow> string \<Rightarrow> string \<Rightarrow> unit result" where
  "nonnegative_count policy k message =
     bind_result (int_or (jget policy k) 0) (\<lambda>n. if n < 0 then Inl (ValueError message) else Inr ())"

definition validate_campaign_policy :: "(json \<Rightarrow> string) \<Rightarrow> json \<Rightarrow> unit result" where
  "validate_campaign_policy render policy =
     (let interactive = {''manual'', ''confirm'', ''automatic''} in
      if \<not> text_in render policy ''initial_entry_authority'' interactive
      then Inl (ValueError ''Campaign policy initial_entry_authority is unsupported'')
      else if \<not> text_in render policy ''reentry_authority'' SUPPORTED_AUTHORITIES
      then Inl (ValueError ''Campaign policy reentry_authority is unsupported'')
      else if \<not> text_in render policy ''exit_authority'' interactive
      then Inl (ValueError ''Campaign policy exit_authority is unsupported'')
      else if \<not> text_in render policy ''protective_exit_authority'' {''automatic''}
      then Inl (ValueError ''Protective exits must remain automatic'')
      else bind_result (nonnegative_count policy ''maximum_reentries'' ''Campaign maximum reentries cannot be negative'') (\<lambda>_.
           bind_result (nonnegative_count policy ''reentry_cooldown_ms'' ''Campaign reentry cooldown cannot be negative'') (\<lambda>_.
           bind_result (nonnegative_count policy ''maximum_initial_watch_ms'' ''Campaign initial watch duration cannot be negative'') (\<lambda>_.
             if text_in render policy ''session_end_behavior'' {''keep_watching'', ''stop_when_flat'', ''exit_and_stop''}
             then Inr () else Inl (ValueError ''Campaign session-end behavior is unsupported'')))))"

end
