(* ===== verification/CampaignLaws.thy ===== *)
theory CampaignLaws
  imports Campaign
begin

text \<open>
  The session ownership of the journal as an interface, and what the orchestrators that share
  it promise: through any interleaving of their operations no ticker of a book has two owners.
\<close>

declare split_paired_All [simp del] split_paired_Ex [simp del]

section \<open>The ownership interface\<close>

locale session_ownership =
  fixes acquire :: "'r \<Rightarrow> string \<Rightarrow> string \<Rightarrow> 't \<Rightarrow> OwnershipRow option result \<times> 't"
    and release :: "'r \<Rightarrow> string \<Rightarrow> 't \<Rightarrow> bool result \<times> 't"
    and owned :: "'r \<Rightarrow> 't \<Rightarrow> OwnershipRow option"
  assumes acquire_granted: "acquire r owner state t = (Inr (Some row), u) \<Longrightarrow>
      ow_owner_id row = owner \<and> owned r u = Some row \<and> (state = ''confirmed'' \<longrightarrow> ow_state row = ''confirmed'')"
    and acquire_not_granted: "acquire r owner state t = (out, u) \<Longrightarrow> \<forall>row. out \<noteq> Inr (Some row) \<Longrightarrow> u = t"
    and acquire_keeps: "owned q t = Some row \<Longrightarrow> \<exists>new. owned q (snd (acquire r owner state t)) = Some new \<and>
      ow_owner_id new = ow_owner_id row \<and> (ow_state row = ''confirmed'' \<longrightarrow> ow_state new = ''confirmed'') \<and>
      (q \<noteq> r \<or> ow_owner_id row \<noteq> owner \<longrightarrow> new = row)"
    and release_keeps: "owned q t = Some row \<Longrightarrow> q \<noteq> r \<or> ow_owner_id row \<noteq> owner \<or> ow_state row = ''confirmed'' \<Longrightarrow>
      owned q (snd (release r owner t)) = Some row"
begin

text \<open>A call is an acquisition or a release by anybody.\<close>

definition call :: "('t \<Rightarrow> 't) \<Rightarrow> bool" where
  "call f \<longleftrightarrow> (\<exists>r owner state. f = (\<lambda>t. snd (acquire r owner state t))) \<or> (\<exists>r owner. f = (\<lambda>t. snd (release r owner t)))"

text \<open>A confirmed owner stays the owner whatever calls follow.\<close>

lemma confirmed_for_good:
  "\<forall>f \<in> set fs. call f \<Longrightarrow> owned r t = Some row \<Longrightarrow> ow_state row = ''confirmed'' \<Longrightarrow>
   \<exists>new. owned r (fold (\<lambda>f. f) fs t) = Some new \<and> ow_owner_id new = ow_owner_id row \<and> ow_state new = ''confirmed''"
proof (induction fs arbitrary: t row)
  case (Cons f fs)
  from Cons.prems(1) have "call f" by simp
  then obtain new where "owned r (f t) = Some new" "ow_owner_id new = ow_owner_id row" "ow_state new = ''confirmed''"
    using acquire_keeps [OF Cons.prems(2)] release_keeps [OF Cons.prems(2)] Cons.prems(3)
    unfolding call_def by (metis (no_types, lifting))
  then show ?case using Cons.IH [of "f t" new] Cons.prems(1) by auto
qed simp

lemma acquire_refused: "owned r t = Some row \<Longrightarrow> ow_owner_id row \<noteq> owner \<Longrightarrow> fst (acquire r owner state t) \<noteq> Inr (Some new)"
  by (metis acquire_granted acquire_keeps option.inject prod.collapse snd_conv)

end

interpretation journal: session_ownership
    "\<lambda>r. acquire_campaign_session_ownership now r session"
    "\<lambda>r. release_campaign_session_reservation r session"
    "\<lambda>r. campaign_session_ownership r session"
  for now session
  by unfold_locales
    (auto simp: acquire_campaign_session_ownership_def release_campaign_session_reservation_def
      campaign_session_ownership_def Let_def split: if_splits option.splits)

section \<open>Resources\<close>

definition plain_ticker :: "string \<Rightarrow> bool" where
  "plain_ticker s \<longleftrightarrow> CHR ''|'' \<notin> set s"

lemma upper_char_bar: "upper_char c = CHR ''|'' \<longleftrightarrow> c = CHR ''|''"
proof
  assume u: "upper_char c = CHR ''|''"
  show "c = CHR ''|''"
  proof (cases "97 \<le> (of_char c :: nat) \<and> (of_char c :: nat) \<le> 122")
    case True
    then have "char_of (of_char c - 32 :: nat) = (CHR ''|'' :: char)" using u by (simp add: upper_char_def Let_def)
    then have "(of_char (char_of (of_char c - 32 :: nat) :: char) :: nat) = of_char (CHR ''|'')" by (rule arg_cong)
    then have "(of_char c - 32 :: nat) mod 256 = 124" by simp
    moreover have "(of_char c - 32 :: nat) < 124" using True by linarith
    ultimately show ?thesis by simp
  next
    case False
    then have "upper_char c = c" by (auto simp: upper_char_def Let_def)
    with u show ?thesis by simp
  qed
qed (simp add: upper_char_def)

lemma plain_upper [simp]: "plain_ticker (upper s) = plain_ticker s"
  unfolding plain_ticker_def upper_def set_map by (metis image_iff upper_char_bar)

lemma plain_strip: "plain_ticker s \<Longrightarrow> plain_ticker (strip s)"
  by (auto simp: plain_ticker_def strip_def dest!: set_dropWhileD)

lemma resource_id_key: "resource_id l = fst (lease_key l) @ ''|'' @ snd (lease_key l)"
  by (simp add: resource_id_def lease_key_def)

lemma split_at_last:
  assumes "x \<notin> set t" "x \<notin> set u"
  shows "b @ x # t = c @ x # u \<longleftrightarrow> b = c \<and> t = u"
proof
  assume e: "b @ x # t = c @ x # u"
  then have "takeWhile (\<lambda>y. y \<noteq> x) (rev (b @ x # t)) = takeWhile (\<lambda>y. y \<noteq> x) (rev (c @ x # u))" by simp
  moreover have "takeWhile (\<lambda>y. y \<noteq> x) (rev (d @ x # v)) = rev v" if "x \<notin> set v" for d v
    using that by (simp add: takeWhile_append)
  ultimately have "t = u" using assms by (metis rev_rev_ident)
  with e show "b = c \<and> t = u" by simp
qed simp

lemma resource_inj:
  assumes "plain_ticker (le_ticker l)" "plain_ticker (le_ticker m)"
  shows "resource_id l = resource_id m \<longleftrightarrow> lease_key l = lease_key m"
proof -
  have "CHR ''|'' \<notin> set (upper (le_ticker l))" "CHR ''|'' \<notin> set (upper (le_ticker m))"
    using assms plain_upper unfolding plain_ticker_def by blast+
  then show ?thesis using split_at_last [of "CHR ''|''"] by (simp add: resource_id_def lease_key_def)
qed

section \<open>Orchestrators that share a journal\<close>

text \<open>A lease is backed when the journal names its campaign as the owner, at least as firmly.\<close>

definition backed :: "string \<Rightarrow> ownership_table \<Rightarrow> CampaignLease \<Rightarrow> bool" where
  "backed session table l \<longleftrightarrow>
     (\<exists>row. campaign_session_ownership (resource_id l) session table = Some row \<and>
        ow_owner_id row = le_campaign_id l \<and> (le_state l = ''confirmed'' \<longrightarrow> ow_state row = ''confirmed''))"

definition lease_ok :: "(string \<Rightarrow> bool) \<Rightarrow> string \<Rightarrow> ownership_table \<Rightarrow> lease_key \<Rightarrow> CampaignLease \<Rightarrow> bool" where
  "lease_ok own session table k l \<longleftrightarrow>
     k = lease_key l \<and> backed session table l \<and> own (le_campaign_id l) \<and> plain_ticker (le_ticker l)"

definition orchestrator_ok :: "(string \<Rightarrow> bool) \<Rightarrow> string \<Rightarrow> ownership_table \<Rightarrow> Orchestrator \<Rightarrow> bool" where
  "orchestrator_ok own session table oc \<longleftrightarrow>
     oc_session_key oc = Some session \<and> well_keyed (oc_leases oc) \<and>
     (\<forall>k l. map_of (oc_leases oc) k = Some l \<longrightarrow> lease_ok own session table k l)"

text \<open>Rows of other owners are left alone.\<close>

definition foreign_kept :: "(string \<Rightarrow> bool) \<Rightarrow> ownership_table \<Rightarrow> ownership_table \<Rightarrow> bool" where
  "foreign_kept own t u \<longleftrightarrow> (\<forall>k row. map_of t k = Some row \<and> \<not> own (ow_owner_id row) \<longrightarrow> map_of u k = Some row)"

lemma foreign_kept_refl [simp]: "foreign_kept own t t"
  by (simp add: foreign_kept_def)

lemma orchestrator_ok_foreign:
  assumes "orchestrator_ok own session t oc" "foreign_kept other t u" "\<And>c. own c \<Longrightarrow> \<not> other c"
  shows "orchestrator_ok own session u oc"
proof -
  have "lease_ok own session u k l" if "map_of (oc_leases oc) k = Some l" for k l
  proof -
    have "lease_ok own session t k l" using assms(1) that by (simp add: orchestrator_ok_def)
    then obtain row where row: "map_of t (resource_id l, session) = Some row" "ow_owner_id row = le_campaign_id l"
      "le_state l = ''confirmed'' \<longrightarrow> ow_state row = ''confirmed''" and l: "k = lease_key l" "own (le_campaign_id l)" "plain_ticker (le_ticker l)"
      by (auto simp: lease_ok_def backed_def campaign_session_ownership_def)
    with assms(2,3) have "map_of u (resource_id l, session) = Some row" by (simp add: foreign_kept_def)
    with row l show ?thesis by (auto simp: lease_ok_def backed_def campaign_session_ownership_def)
  qed
  then show ?thesis using assms(1) by (simp add: orchestrator_ok_def)
qed

lemma acquire_foreign:
  "own owner \<Longrightarrow> foreign_kept own t (snd (acquire_campaign_session_ownership now r session owner state t))"
  by (auto simp: foreign_kept_def acquire_campaign_session_ownership_def Let_def split: option.splits)

lemma release_foreign:
  "own owner \<Longrightarrow> foreign_kept own t (snd (release_campaign_session_reservation r session owner t))"
  by (auto simp: foreign_kept_def release_campaign_session_reservation_def split: option.splits)

lemma backed_acquire: "backed session t l \<Longrightarrow> backed session (snd (acquire_campaign_session_ownership now r session owner state t)) l"
proof -
  assume "backed session t l"
  then obtain row where row: "campaign_session_ownership (resource_id l) session t = Some row"
    "ow_owner_id row = le_campaign_id l" "le_state l = ''confirmed'' \<longrightarrow> ow_state row = ''confirmed''"
    by (auto simp: backed_def)
  from journal.acquire_keeps [OF row(1), of now r owner state] row(2,3) show ?thesis
    unfolding backed_def by auto
qed

definition outcome_ok :: "(string \<Rightarrow> bool) \<Rightarrow> string \<Rightarrow> ownership_table \<Rightarrow> Orchestrator \<times> ownership_table \<Rightarrow> bool" where
  "outcome_ok own session t st \<longleftrightarrow> orchestrator_ok own session (snd st) (fst st) \<and> foreign_kept own t (snd st)"

lemma orchestrator_ok_cong:
  "oc_leases d = oc_leases c \<Longrightarrow> oc_session_key d = oc_session_key c \<Longrightarrow>
   orchestrator_ok own session t d = orchestrator_ok own session t c"
  by (simp add: orchestrator_ok_def)

lemma add_leg_ok [simp]: "orchestrator_ok own session t (add_leg campaign a oc) = orchestrator_ok own session t oc"
  by (rule orchestrator_ok_cong) (simp_all add: add_leg_def)

lemma remove_leg_ok: "orchestrator_ok own session t oc \<Longrightarrow> orchestrator_ok own session t (remove_leg campaign a oc)"
  by (auto simp: remove_leg_def orchestrator_ok_def well_keyed_map_of_iff Let_def split: option.splits)

definition admissible :: "(json \<Rightarrow> string) \<Rightarrow> (string \<Rightarrow> bool) \<Rightarrow> Assignment \<Rightarrow> bool" where
  "admissible render own a \<longleftrightarrow> plain_ticker (sa_ticker a) \<and>
     (\<forall>c. campaign_id_for render a = Inr c \<longrightarrow> own c)"

lemma claim_ok:
  assumes ok: "orchestrator_ok own session t oc" and a: "admissible render own a"
    and state: "state \<in> {''reserved'', ''confirmed''}"
  shows "outcome_ok own session t (snd (claim_as now render state a (oc, t)))"
proof (cases "proposed_lease render a state")
  case (Inl e)
  then show ?thesis using ok by (simp add: claim_as_def outcome_ok_def)
next
  case (Inr lease)
  then have own: "own (le_campaign_id lease)" and plain: "plain_ticker (le_ticker lease)" and ls: "le_state lease = state"
    using a by (auto simp: proposed_lease_def admissible_def bind_result_Inr_iff plain_strip)
  have sess: "oc_session_key oc = Some session" using ok by (simp add: orchestrator_ok_def)
  obtain out u where acq: "acquire_campaign_session_ownership now (resource_id lease) session (le_campaign_id lease) state t = (out, u)"
    by fastforce
  have kept: "orchestrator_ok own session u oc"
    using ok backed_acquire [of session t _ now "resource_id lease" "le_campaign_id lease" state] acq
    by (auto simp: orchestrator_ok_def lease_ok_def)
  have foreign: "foreign_kept own t u" using acquire_foreign [where own = own, OF own, of t now "resource_id lease" session state] acq by simp
  show ?thesis
  proof (cases out)
    case (Inr granted)
    show ?thesis
    proof (cases granted)
      case (Some row)
      let ?settled = "lease\<lparr>le_state := ow_state row\<rparr>"
      have got: "ow_owner_id row = le_campaign_id lease" "campaign_session_ownership (resource_id lease) session u = Some row"
        using journal.acquire_granted acq Inr Some by metis+
      have settled: "lease_ok own session u (lease_key ?settled) ?settled"
        using got own plain by (simp add: lease_ok_def backed_def resource_id_def)
      have stored: "orchestrator_ok own session u (oc\<lparr>oc_leases := AList.update (lease_key l) l (oc_leases oc)\<rparr>)"
        if "lease_ok own session u (lease_key l) l" for l
        using kept that by (auto simp: orchestrator_ok_def)
      have current: "lease_ok own session u (lease_key c) c" if "map_of (oc_leases oc) k = Some c" for k c
        using kept that by (auto simp: orchestrator_ok_def lease_ok_def)
      show ?thesis
        using ok kept foreign stored settled current acq Inr Some ls sess \<open>proposed_lease render a state = Inr lease\<close>
        by (auto simp: claim_as_def durable_lease_def outcome_ok_def Let_def split: option.splits)
    qed (use ok kept foreign acq Inr ls sess \<open>proposed_lease render a state = Inr lease\<close> in
        \<open>auto simp: claim_as_def durable_lease_def outcome_ok_def\<close>)
  qed (use ok kept foreign acq ls sess \<open>proposed_lease render a state = Inr lease\<close> in
      \<open>auto simp: claim_as_def durable_lease_def outcome_ok_def\<close>)
qed

lemma outcome_step:
  "orchestrator_ok own session t oc \<Longrightarrow> outcome_ok own session t (oc, t)"
  by (simp add: outcome_ok_def)

lemma register_ok:
  assumes ok: "orchestrator_ok own session t oc" and a: "admissible render own a"
  shows "outcome_ok own session t (snd (register now render a (oc, t)))"
proof (cases "campaign_id_for render a")
  case (Inl e)
  then show ?thesis using ok by (simp add: register_def outcome_ok_def Let_def)
next
  case (Inr campaign)
  let ?aid = "strip (sa_assignment_id a)"
  let ?moved = "case map_of (oc_assignment_campaigns oc) ?aid of None \<Rightarrow> oc
    | Some previous \<Rightarrow> if previous \<noteq> [] \<and> previous \<noteq> campaign then remove_leg previous ?aid oc else oc"
  let ?known = "?moved\<lparr>oc_assignment_campaigns := AList.update ?aid campaign (oc_assignment_campaigns ?moved)\<rparr>"
  have "orchestrator_ok own session t ?moved" using ok by (auto intro: remove_leg_ok split: option.splits)
  then have known: "orchestrator_ok own session t ?known" by (simp add: orchestrator_ok_def)
  then have watching: "orchestrator_ok own session t (add_leg campaign ?aid ?known)" by simp
  have claimed: "outcome_ok own session t (snd (claim_lease now render a (add_leg campaign ?aid ?known, t)))"
    unfolding claim_lease_def by (rule claim_ok [OF watching a]) simp
  show ?thesis
    using ok known watching claimed Inr
    by (auto simp: register_def outcome_ok_def Let_def split: prod.splits sum.splits)
qed

lemma release_ok:
  assumes ok: "orchestrator_ok own session t oc"
  shows "outcome_ok own session t (snd (release_reservation render a (oc, t)))"
proof (cases "lease_for_assignment render a oc")
  case None
  then show ?thesis using ok by (simp add: release_reservation_def outcome_ok_def)
next
  case (Some lease)
  have sess: "oc_session_key oc = Some session" using ok by (simp add: orchestrator_ok_def)
  obtain key where "map_of (oc_leases oc) key = Some lease"
    using Some by (auto simp: lease_for_assignment_def lease_for_def)
  then have lease: "own (le_campaign_id lease)" "plain_ticker (le_ticker lease)" "key = lease_key lease"
    using ok by (auto simp: orchestrator_ok_def lease_ok_def)
  let ?u = "snd (release_campaign_session_reservation (resource_id lease) session (le_campaign_id lease) t)"
  have foreign: "foreign_kept own t ?u" by (rule release_foreign) (rule lease(1))
  have "lease_ok own session ?u k l" if l: "map_of (AList.delete (lease_key lease) (oc_leases oc)) k = Some l" for k l
  proof -
    from l have "k \<noteq> lease_key lease" "map_of (oc_leases oc) k = Some l" by (auto simp: delete_conv' split: if_splits)
    then have old: "lease_ok own session t k l" and ne: "lease_key l \<noteq> lease_key lease"
      using ok by (auto simp: orchestrator_ok_def lease_ok_def)
    then have "resource_id l \<noteq> resource_id lease" using resource_inj [of l lease] lease(2) by (simp add: lease_ok_def)
    then have "campaign_session_ownership (resource_id l) session ?u = campaign_session_ownership (resource_id l) session t"
      by (simp add: release_campaign_session_reservation_def campaign_session_ownership_def delete_conv' split: option.splits)
    with old show ?thesis by (simp add: lease_ok_def backed_def)
  qed
  then have "orchestrator_ok own session ?u (oc\<lparr>oc_leases := AList.delete (lease_key lease) (oc_leases oc)\<rparr>)"
    using ok by (simp add: orchestrator_ok_def)
  then show ?thesis using ok foreign Some sess by (simp add: release_reservation_def outcome_ok_def)
qed

section \<open>Interleavings\<close>

text \<open>A run is a list of calls, each of one orchestrator, in the order the journal serves them.\<close>

datatype CampaignCall = Register Assignment | Reserve Assignment | Claim Assignment | Release Assignment

fun call_assignment :: "CampaignCall \<Rightarrow> Assignment" where
  "call_assignment (Register a) = a"
| "call_assignment (Reserve a) = a"
| "call_assignment (Claim a) = a"
| "call_assignment (Release a) = a"

fun perform :: "string \<Rightarrow> (json \<Rightarrow> string) \<Rightarrow> CampaignCall \<Rightarrow> Orchestrator \<times> ownership_table \<Rightarrow> Orchestrator \<times> ownership_table" where
  "perform now render (Register a) st = snd (register now render a st)"
| "perform now render (Reserve a) st = snd (reserve_lease now render a st)"
| "perform now render (Claim a) st = snd (claim_lease now render a st)"
| "perform now render (Release a) st = snd (release_reservation render a st)"

type_synonym fleet = "(nat \<Rightarrow> Orchestrator) \<times> ownership_table"

fun fleet_step :: "(json \<Rightarrow> string) \<Rightarrow> nat \<times> string \<times> CampaignCall \<Rightarrow> fleet \<Rightarrow> fleet" where
  "fleet_step render (i, now, c) (ocs, table) =
     (let (oc, table') = perform now render c (ocs i, table) in (ocs(i := oc), table'))"

definition fleet_run :: "(json \<Rightarrow> string) \<Rightarrow> (nat \<times> string \<times> CampaignCall) list \<Rightarrow> fleet \<Rightarrow> fleet" where
  "fleet_run render calls start = fold (fleet_step render) calls start"

definition admissible_calls ::
    "(json \<Rightarrow> string) \<Rightarrow> (string \<Rightarrow> nat) \<Rightarrow> (nat \<times> string \<times> CampaignCall) list \<Rightarrow> bool" where
  "admissible_calls render owner calls =
     list_all (\<lambda>(i, now, c). plain_ticker (sa_ticker (call_assignment c)) \<and>
       (case campaign_id_for render (call_assignment c) of Inl e \<Rightarrow> True | Inr campaign \<Rightarrow> owner campaign = i)) calls"

definition bound_to :: "string \<Rightarrow> Orchestrator" where
  "bound_to session = new_orchestrator\<lparr>oc_session_key := Some session\<rparr>"

definition fleet_ok :: "(string \<Rightarrow> nat) \<Rightarrow> string \<Rightarrow> fleet \<Rightarrow> bool" where
  "fleet_ok owner session f \<longleftrightarrow> (\<forall>i. orchestrator_ok (\<lambda>c. owner c = i) session (snd f) (fst f i))"

lemma perform_ok:
  "orchestrator_ok own session t oc \<Longrightarrow> admissible render own (call_assignment c) \<Longrightarrow>
   outcome_ok own session t (perform now render c (oc, t))"
  by (cases c) (auto simp: reserve_lease_def claim_lease_def intro: register_ok claim_ok release_ok)

lemma fleet_step_ok:
  assumes "fleet_ok owner session f" "admissible_calls render owner [c]"
  shows "fleet_ok owner session (fleet_step render c f)"
proof -
  obtain i now op where c: "c = (i, now, op)" by (cases c)
  obtain ocs t where f: "f = (ocs, t)" by (cases f)
  obtain oc u where p: "perform now render op (ocs i, t) = (oc, u)" by fastforce
  have "outcome_ok (\<lambda>c. owner c = i) session t (oc, u)"
    using perform_ok [of "\<lambda>c. owner c = i" session t "ocs i" render op now] assms p
    by (auto simp: c f fleet_ok_def admissible_calls_def admissible_def split: sum.splits)
  then have mine: "orchestrator_ok (\<lambda>c. owner c = i) session u oc" and foreign: "foreign_kept (\<lambda>c. owner c = i) t u"
    by (auto simp: outcome_ok_def)
  have "orchestrator_ok (\<lambda>c. owner c = j) session u (ocs j)" if "j \<noteq> i" for j
    using assms(1) foreign that by (auto simp: f fleet_ok_def intro: orchestrator_ok_foreign)
  with mine p show ?thesis by (simp add: c f fleet_ok_def)
qed

lemma fleet_run_ok:
  "fleet_ok owner session f \<Longrightarrow> admissible_calls render owner calls \<Longrightarrow> fleet_ok owner session (fleet_run render calls f)"
proof (induction calls arbitrary: f)
  case (Cons c calls)
  then have "fleet_ok owner session (fleet_step render c f)" by (auto simp: admissible_calls_def intro: fleet_step_ok)
  then show ?case using Cons by (simp add: fleet_run_def admissible_calls_def)
qed (simp add: fleet_run_def)

lemma fleet_start_ok: "fleet_ok owner session (\<lambda>_. bound_to session, table)"
  by (simp add: fleet_ok_def bound_to_def new_orchestrator_def orchestrator_ok_def)

lemma backed_unique: "backed session t l \<Longrightarrow> backed session t m \<Longrightarrow> resource_id l = resource_id m \<Longrightarrow> le_campaign_id l = le_campaign_id m"
  by (auto simp: backed_def)

text \<open>
  C36. When every campaign id belongs to one orchestrator, orchestrators that share a journal
  session, in any interleaving of their operations on plain tickers (without a bar, which
  separates book and ticker), refused and failing operations included, never both own a ticker of a book. The journal
  names the owner's campaign, and has confirmed it when the lease is confirmed. The hypothesis on
  campaign ids is needed: \<open>shared_campaign_granted_twice\<close> below.
\<close>

lemma one_owner_per_ticker:
  assumes "admissible_calls render owner calls"
    and "fleet_run render calls (\<lambda>_. bound_to session, table) = (ocs, final)"
    and "lease_for book ticker (ocs i) = Some l" "lease_for book ticker (ocs j) = Some m"
  shows "i = j \<and> (\<exists>row. campaign_session_ownership ((if book = [] then ''default'' else book) @ ''|'' @ upper ticker) session final =
      Some row \<and> ow_owner_id row = le_campaign_id l \<and> (le_state l = ''confirmed'' \<longrightarrow> ow_state row = ''confirmed''))"
proof -
  let ?k = "(if book = [] then ''default'' else book, upper ticker)"
  have "fleet_ok owner session (ocs, final)"
    using fleet_run_ok [OF fleet_start_ok assms(1)] assms(2) by metis
  then have leases: "lease_ok (\<lambda>c. owner c = n) session final ?k x" if "lease_for book ticker (ocs n) = Some x" for n x
    using that by (simp add: fleet_ok_def orchestrator_ok_def lease_for_def)
  from leases [OF assms(3)] leases [OF assms(4)] have
    l: "lease_key l = ?k" "backed session final l" "owner (le_campaign_id l) = i" and
    m: "lease_key m = ?k" "backed session final m" "owner (le_campaign_id m) = j"
    by (auto simp: lease_ok_def)
  then have same: "resource_id l = resource_id m" and "resource_id l = fst ?k @ ''|'' @ snd ?k"
    by (simp_all add: resource_id_key del: fst_conv snd_conv split del: if_split)
  with l m backed_unique [OF l(2) m(2) same] show ?thesis by (auto simp: backed_def)
qed

definition demo_campaign :: "string \<Rightarrow> string \<Rightarrow> Assignment" where
  "demo_campaign campaign status =
     \<lparr>sa_assignment_id = ''a-'' @ campaign, sa_strategy_id = ''hod'', sa_ticker = ''aapl'', sa_status = status,
      sa_state = JObj [(''campaign_id'', JStr campaign)], sa_parameters = JObj []\<rparr>"

definition demo_calls :: "(nat \<times> string \<times> CampaignCall) list" where
  "demo_calls =
     [(0, ''t0'', Register (demo_campaign ''c0'' ''watching'')),
      (1, ''t1'', Reserve (demo_campaign ''c1'' ''watching'')),
      (0, ''t2'', Reserve (demo_campaign ''c0'' ''watching'')),
      (1, ''t3'', Release (demo_campaign ''c1'' ''watching'')),
      (0, ''t4'', Register (demo_campaign ''c0'' ''managing'')),
      (1, ''t5'', Claim (demo_campaign ''c1'' ''watching''))]"

definition demo_fleet :: fleet where
  "demo_fleet = fleet_run (\<lambda>_. ''x'') demo_calls (\<lambda>_. bound_to ''day'', [])"

lemma demo_admissible: "admissible_calls (\<lambda>_. ''x'') (\<lambda>c. if c = ''c0'' then 0 else 1) demo_calls"
  by code_simp

lemma demo_leases:
  "lease_for ''default'' ''AAPL'' (fst demo_fleet 0) = Some \<lparr>le_campaign_id = ''c0'', le_book_id = ''default'', le_ticker = ''AAPL'',
      le_side = ''long'', le_state = ''confirmed''\<rparr>"
  "lease_for ''default'' ''AAPL'' (fst demo_fleet 1) = None"
  by code_simp+

lemma one_owner_per_ticker_witness:
  "lease_for ''default'' ''AAPL'' (fst demo_fleet 1) = None \<and>
   (\<exists>row. campaign_session_ownership ''default|AAPL'' ''day'' (snd demo_fleet) = Some row \<and>
      ow_owner_id row = ''c0'' \<and> ow_state row = ''confirmed'')"
proof -
  have "upper ''AAPL'' = ''AAPL''" by code_simp
  then show ?thesis
    using one_owner_per_ticker [OF demo_admissible, of "''day''" "[]" "fst demo_fleet" "snd demo_fleet", OF _ demo_leases(1) demo_leases(1)]
      demo_leases(2) by (simp add: demo_fleet_def)
qed

section \<open>Observations\<close>

text \<open>Two orchestrators whose assignments leave the campaign to the default share its id, and both are granted the ticker.\<close>

lemma shared_campaign_granted_twice:
  "let a = (demo_campaign ''c0'' ''watching'')\<lparr>sa_state := JObj []\<rparr>;
       final = fleet_run (\<lambda>_. ''x'') [(0, ''t0'', Reserve a), (1, ''t1'', Reserve a)] (\<lambda>_. bound_to ''day'', [])
   in lease_for ''default'' ''AAPL'' (fst final 0) \<noteq> None \<and> lease_for ''default'' ''AAPL'' (fst final 1) \<noteq> None"
  by code_simp

text \<open>A release by another campaign's assignment drops the reservation of the owner.\<close>

lemma release_ignores_campaign:
  "let (oc, table) = snd (reserve_lease ''t0'' (\<lambda>_. ''x'') (demo_campaign ''c0'' ''watching'') (bound_to ''day'', []));
       (freed, table') = snd (release_reservation (\<lambda>_. ''x'') (demo_campaign ''c1'' ''watching'') (oc, table))
   in (\<exists>l. lease_for ''default'' ''AAPL'' oc = Some l \<and> le_campaign_id l = ''c0'') \<and>
      lease_for ''default'' ''AAPL'' freed = None \<and> table \<noteq> [] \<and> table' = []"
proof -
  have "snd (release_reservation (\<lambda>_. ''x'') (demo_campaign ''c1'' ''watching'')
      (snd (reserve_lease ''t0'' (\<lambda>_. ''x'') (demo_campaign ''c0'' ''watching'') (bound_to ''day'', [])))) =
    (bound_to ''day''\<lparr>oc_active_legs := [(''c0'', [''a-c0''])]\<rparr>, [])"
    "map_option le_campaign_id (lease_for ''default'' ''AAPL''
      (fst (snd (reserve_lease ''t0'' (\<lambda>_. ''x'') (demo_campaign ''c0'' ''watching'') (bound_to ''day'', []))))) = Some ''c0''"
    "snd (snd (reserve_lease ''t0'' (\<lambda>_. ''x'') (demo_campaign ''c0'' ''watching'') (bound_to ''day'', []))) \<noteq> []"
    by code_simp+
  then show ?thesis by (auto simp: lease_for_def bound_to_def new_orchestrator_def split: prod.splits)
qed

text \<open>A lease claimed for a ticker with blanks around it is not found again by its own assignment.\<close>

lemma blank_ticker_lease_lost:
  "let a = (demo_campaign ''c0'' ''managing'')\<lparr>sa_ticker := '' aapl ''\<rparr>;
       (out, oc, table) = register ''t0'' (\<lambda>_. ''x'') a (bound_to ''day'', [])
   in out \<noteq> Inr None \<and> lease_for_assignment (\<lambda>_. ''x'') a oc = None"
  by code_simp

declare split_paired_All [simp] split_paired_Ex [simp]

end
