(* ===== verification/Projector.thy ===== *)
theory Projector
  imports Domain "HOL-Library.Product_Lexorder" "HOL-Library.List_Lexorder" "HOL-Library.Char_ord"
begin

text \<open>
  \<open>src/trading_runtime/projector.py\<close>: the current state of the accounts, projected from the
  broker's events and snapshots, with \<open>merge_ledger_delta\<close> of
  \<open>src/trading_runtime/ibkr_normalizer.py\<close>. A set of accounts is a list without duplicates and
  \<open>utc_now()\<close> is an argument.
\<close>

section \<open>The ledger delta\<close>

type_synonym ledger_key = "string \<times> string"

definition ledger_key :: "LedgerBalance \<Rightarrow> ledger_key" where
  "ledger_key r = (lb_account_id r, lb_currency r)"

definition ledger_order :: "LedgerBalance \<Rightarrow> string \<times> bool \<times> string" where
  "ledger_order r = (lb_account_id r, \<not> lb_is_base r, lb_currency r)"

definition apply_ledger_update :: "LedgerBalance \<Rightarrow> (ledger_key, LedgerBalance) dict \<Rightarrow> (ledger_key, LedgerBalance) dict" where
  "apply_ledger_update u merged =
     (let values = (case map_of merged (ledger_key u) of Some old \<Rightarrow> lb_values old | None \<Rightarrow> [])
      in AList.update (ledger_key u) (u\<lparr>lb_values := dupdate values (lb_values u)\<rparr>) merged)"

definition merge_ledger_delta :: "LedgerBalance list \<Rightarrow> LedgerBalance list \<Rightarrow> LedgerBalance list" where
  "merge_ledger_delta current delta =
     sort_key ledger_order (dvalues (fold apply_ledger_update delta (dict_of ledger_key id current)))"

section \<open>The projector\<close>

type_synonym position_key = "string \<times> int \<times> string"

record Projector =
  pj_mode :: TradingMode
  pj_provider :: BrokerProvider
  pj_accounts :: "(string, BrokerAccount) dict"
  pj_account_values :: "(string \<times> string \<times> string \<times> string, AccountValue) dict"
  pj_ledger :: "(ledger_key, LedgerBalance) dict"
  pj_orders :: "(string \<times> string, OrderState) dict"
  pj_executions :: "(string \<times> string, Execution) dict"
  pj_positions :: "(position_key, PositionState) dict"
  pj_closed_trades :: "(string, RoundTripTrade) dict"
  pj_activity :: "BrokerEventEnvelope list"
  pj_last_complete :: "(string, string) dict"
  pj_incomplete :: "string list"
  pj_as_of :: "utc option"
  pj_complete :: bool
  pj_stale :: bool
  pj_stale_reason :: string

definition new_projector :: "TradingMode \<Rightarrow> BrokerProvider \<Rightarrow> Projector" where
  "new_projector mode provider =
     \<lparr>pj_mode = mode, pj_provider = provider, pj_accounts = [], pj_account_values = [], pj_ledger = [], pj_orders = [],
      pj_executions = [], pj_positions = [], pj_closed_trades = [], pj_activity = [], pj_last_complete = [],
      pj_incomplete = [], pj_as_of = None, pj_complete = False, pj_stale = False,
      pj_stale_reason = ''Initial broker snapshot has not completed.''\<rparr>"

text \<open>\<open>_advance\<close>\<close>

definition later :: "utc option \<Rightarrow> utc list \<Rightarrow> utc option" where
  "later as_of valid =
     (if valid = [] then as_of
      else Some (Max (set ((case as_of of Some t \<Rightarrow> [t] | None \<Rightarrow> []) @ valid))))"

definition advance :: "utc list \<Rightarrow> Projector \<Rightarrow> Projector" where
  "advance timestamps p = p\<lparr>pj_as_of := later (pj_as_of p) timestamps\<rparr>"

text \<open>The loop \<open>for row in rows: table[key(row)] = row\<close>.\<close>

definition put_rows :: "('a \<Rightarrow> 'k) \<Rightarrow> 'a list \<Rightarrow> ('k, 'a) dict \<Rightarrow> ('k, 'a) dict" where
  "put_rows key rows table = fold (\<lambda>r. AList.update (key r) r) rows table"

text \<open>The loop that deletes the rows of one account.\<close>

definition drop_account :: "string \<Rightarrow> (string \<times> 'k, 'a) dict \<Rightarrow> (string \<times> 'k, 'a) dict" where
  "drop_account account table = filter (\<lambda>(k, r). fst k \<noteq> account) table"

definition order_key :: "OrderState \<Rightarrow> string \<times> string" where
  "order_key r = (os_account_id r, if os_broker_order_id r \<noteq> [] then os_broker_order_id r else os_client_order_id r)"

definition report_key :: "Execution \<Rightarrow> string \<times> string" where
  "report_key r = (ex_account_id r, ex_execution_id r)"

definition value_key :: "AccountValue \<Rightarrow> string \<times> string \<times> string \<times> string" where
  "value_key r = (av_account_id r, av_key r, av_segment r, av_currency r)"

definition position_key :: "PositionState \<Rightarrow> position_key" where
  "position_key r = (ps_account_id r, ic_conid (ps_instrument r), ps_model r)"

definition set_accounts :: "BrokerAccount list \<Rightarrow> Projector \<Rightarrow> Projector" where
  "set_accounts rows p = advance (map ba_valid_at rows) (p\<lparr>pj_accounts := dict_of ba_account_id id rows\<rparr>)"

definition set_orders :: "OrderState list \<Rightarrow> Projector \<Rightarrow> Projector" where
  "set_orders rows p =
     advance (map os_source_event_time rows) (p\<lparr>pj_orders := put_rows order_key rows (pj_orders p)\<rparr>)"

definition set_executions :: "Execution list \<Rightarrow> Projector \<Rightarrow> Projector" where
  "set_executions rows p =
     advance (map ex_source_event_time rows) (p\<lparr>pj_executions := put_rows report_key rows (pj_executions p)\<rparr>)"

definition set_account_values :: "AccountValue list \<Rightarrow> Projector \<Rightarrow> Projector" where
  "set_account_values rows p =
     advance (map av_source_event_time rows) (p\<lparr>pj_account_values := put_rows value_key rows (pj_account_values p)\<rparr>)"

definition replace_account_values :: "string \<Rightarrow> AccountValue list \<Rightarrow> Projector \<Rightarrow> Projector" where
  "replace_account_values account rows p =
     set_account_values rows (p\<lparr>pj_account_values := drop_account account (pj_account_values p)\<rparr>)"

definition merge_ledger :: "LedgerBalance list \<Rightarrow> Projector \<Rightarrow> Projector" where
  "merge_ledger rows p =
     advance (map lb_source_event_time rows)
       (p\<lparr>pj_ledger := dict_of ledger_key id (merge_ledger_delta (dvalues (pj_ledger p)) rows)\<rparr>)"

definition replace_ledger :: "string \<Rightarrow> LedgerBalance list \<Rightarrow> Projector \<Rightarrow> Projector" where
  "replace_ledger account rows p =
     advance (map lb_source_event_time rows)
       (p\<lparr>pj_ledger := dupdate (drop_account account (pj_ledger p)) (dict_of ledger_key id rows)\<rparr>)"

definition apply_position_snapshot :: "string \<Rightarrow> string \<Rightarrow> bool \<Rightarrow> PositionState list \<Rightarrow> Projector \<Rightarrow> Projector" where
  "apply_position_snapshot account snapshot_id is_complete rows p =
     (if \<not> is_complete
      then p\<lparr>pj_incomplete := List.insert account (pj_incomplete p), pj_stale := True,
             pj_stale_reason := ''Position snapshot '' @ snapshot_id @ '' is incomplete; prior positions were retained.''\<rparr>
      else
        (let incoming = dict_of position_key id rows;
             kept = filter (\<lambda>(k, r). \<not> (fst k = account \<and> k \<notin> set (dkeys incoming))) (pj_positions p);
             completed = AList.update account snapshot_id (pj_last_complete p);
             incomplete = removeAll account (pj_incomplete p);
             all_in = incomplete = [] \<and>
               list_all (\<lambda>a. ba_can_view a \<longrightarrow> ba_account_id a \<in> set (dkeys completed)) (dvalues (pj_accounts p))
         in advance (map ps_source_event_time rows)
              (p\<lparr>pj_positions := dupdate kept incoming, pj_last_complete := completed, pj_incomplete := incomplete,
                 pj_complete := all_in, pj_stale := \<not> all_in,
                 pj_stale_reason := (if all_in then [] else ''One or more account position snapshots are incomplete.'')\<rparr>)))"

definition apply_commission :: "string \<Rightarrow> string \<Rightarrow> dec \<Rightarrow> string \<Rightarrow> Projector \<Rightarrow> Projector" where
  "apply_commission account execution commission currency p =
     (case map_of (pj_executions p) (account, execution) of
        None \<Rightarrow> p
      | Some e \<Rightarrow> p\<lparr>pj_executions := AList.update (account, execution)
            (e\<lparr>ex_commission := Some commission, ex_commission_currency := currency, ex_commission_status := ''final''\<rparr>)
            (pj_executions p)\<rparr>)"

definition record_activity :: "int \<Rightarrow> BrokerEventEnvelope \<Rightarrow> Projector \<Rightarrow> Projector" where
  "record_activity max_events event p =
     (let activity = pj_activity p @ [event];
          excess = int (List.length activity) - max_events
      in advance [be_source_event_time event]
           (p\<lparr>pj_activity := (if 0 < excess then drop (nat excess) activity else activity)\<rparr>))"

definition projector_snapshot :: "utc \<Rightarrow> string list \<Rightarrow> Projector \<Rightarrow> TradingStateSnapshot" where
  "projector_snapshot now account_ids p =
     (let selected = set (if account_ids \<noteq> [] then account_ids else dkeys (pj_accounts p))
      in \<lparr>ts_schema_version = 2, ts_mode = pj_mode p, ts_provider = pj_provider p,
          ts_as_of = (case pj_as_of p of Some t \<Rightarrow> t | None \<Rightarrow> now),
          ts_account_ids = sorted_list_of_set selected, ts_complete = pj_complete p, ts_stale = pj_stale p,
          ts_stale_reason = pj_stale_reason p,
          ts_accounts = map snd (filter (\<lambda>(k, r). k \<in> selected) (sort_key fst (pj_accounts p))),
          ts_account_values = filter (\<lambda>r. av_account_id r \<in> selected) (dvalues (pj_account_values p)),
          ts_ledger = filter (\<lambda>r. lb_account_id r \<in> selected) (dvalues (pj_ledger p)),
          ts_positions = filter (\<lambda>r. ps_account_id r \<in> selected) (dvalues (pj_positions p)),
          ts_orders = filter (\<lambda>r. os_account_id r \<in> selected) (dvalues (pj_orders p)),
          ts_executions = filter (\<lambda>r. ex_account_id r \<in> selected) (dvalues (pj_executions p)),
          ts_closed_trades = filter (\<lambda>r. rt_account_id r \<in> selected) (dvalues (pj_closed_trades p)),
          ts_activity = filter (\<lambda>r. be_account_id r \<in> selected) (pj_activity p),
          ts_protection_events = []\<rparr>)"

end
