(* ===== verification/ProjectorLaws.thy ===== *)
theory ProjectorLaws
  imports Projector
begin

text \<open>
  What the projection of a run shows, against an abstract specification that only looks at the
  run itself: the positions of an account are the rows of its last complete snapshot.
\<close>

section \<open>Runs\<close>

datatype ProjectorCall =
    SetAccounts "BrokerAccount list"
  | SetOrders "OrderState list"
  | SetExecutions "Execution list"
  | SetAccountValues "AccountValue list"
  | ReplaceAccountValues string "AccountValue list"
  | MergeLedger "LedgerBalance list"
  | ReplaceLedger string "LedgerBalance list"
  | PositionSnapshot string string bool "PositionState list"
  | Commission string string dec string
  | Activity BrokerEventEnvelope

fun project :: "ProjectorCall \<Rightarrow> Projector \<Rightarrow> Projector" where
  "project (SetAccounts rows) p = set_accounts rows p"
| "project (SetOrders rows) p = set_orders rows p"
| "project (SetExecutions rows) p = set_executions rows p"
| "project (SetAccountValues rows) p = set_account_values rows p"
| "project (ReplaceAccountValues a rows) p = replace_account_values a rows p"
| "project (MergeLedger rows) p = merge_ledger rows p"
| "project (ReplaceLedger a rows) p = replace_ledger a rows p"
| "project (PositionSnapshot a s c rows) p = apply_position_snapshot a s c rows p"
| "project (Commission a e amount currency) p = apply_commission a e amount currency p"
| "project (Activity e) p = record_activity 10000 e p"

definition project_all :: "ProjectorCall list \<Rightarrow> Projector \<Rightarrow> Projector" where
  "project_all calls p = fold project calls p"

lemma project_all_simps [simp]:
  "project_all [] p = p"
  "project_all (calls @ [c]) p = project c (project_all calls p)"
  by (simp_all add: project_all_def)

section \<open>The specification\<close>

text \<open>The reports of an account in order, and the rows of the newest complete one.\<close>

fun reports_of :: "string \<Rightarrow> ProjectorCall list \<Rightarrow> (string \<times> bool \<times> PositionState list) list" where
  "reports_of a [] = []"
| "reports_of a (PositionSnapshot b s c rows # calls) =
     (if b = a then [(s, c, rows)] else []) @ reports_of a calls"
| "reports_of a (_ # calls) = reports_of a calls"

definition complete_reports :: "string \<Rightarrow> ProjectorCall list \<Rightarrow> (string \<times> bool \<times> PositionState list) list" where
  "complete_reports a calls = filter (\<lambda>(s, c, rows). c) (reports_of a calls)"

definition shown_rows :: "string \<Rightarrow> ProjectorCall list \<Rightarrow> PositionState list" where
  "shown_rows a calls = (case rev (complete_reports a calls) of [] \<Rightarrow> [] | (s, c, rows) # _ \<Rightarrow> rows)"

definition shown_snapshot :: "string \<Rightarrow> ProjectorCall list \<Rightarrow> string option" where
  "shown_snapshot a calls = (case rev (complete_reports a calls) of [] \<Rightarrow> None | (s, c, rows) # _ \<Rightarrow> Some s)"

definition newest_complete :: "string \<Rightarrow> ProjectorCall list \<Rightarrow> bool" where
  "newest_complete a calls = (case rev (reports_of a calls) of [] \<Rightarrow> True | (s, c, rows) # _ \<Rightarrow> c)"

text \<open>Every row of a position snapshot belongs to the account it is reported for.\<close>

definition own_rows :: "ProjectorCall \<Rightarrow> bool" where
  "own_rows x = (case x of PositionSnapshot a s c rows \<Rightarrow> list_all (\<lambda>r. ps_account_id r = a) rows | _ \<Rightarrow> True)"

lemma reports_of_append: "reports_of a (calls @ later_calls) = reports_of a calls @ reports_of a later_calls"
  by (induction a calls rule: reports_of.induct) simp_all

text \<open>Only a position snapshot touches the positions and what is known about their completeness.\<close>

definition position_part :: "Projector \<Rightarrow> (position_key, PositionState) dict \<times> (string, string) dict \<times> string list \<times> bool \<times> bool" where
  "position_part p = (pj_positions p, pj_last_complete p, pj_incomplete p, pj_complete p, pj_stale p)"

definition is_snapshot :: "ProjectorCall \<Rightarrow> bool" where
  "is_snapshot x = (case x of PositionSnapshot a s c rows \<Rightarrow> True | _ \<Rightarrow> False)"

lemma project_frame: "\<not> is_snapshot c \<Longrightarrow> position_part (project c p) = position_part p"
  by (cases c) (simp_all add: is_snapshot_def position_part_def set_accounts_def set_orders_def set_executions_def
    set_account_values_def replace_account_values_def merge_ledger_def replace_ledger_def apply_commission_def
    record_activity_def advance_def Let_def split: option.splits)

lemma spec_frame:
  assumes "\<not> is_snapshot c"
  shows "reports_of a (calls @ [c]) = reports_of a calls"
  using assms by (cases c) (simp_all add: is_snapshot_def reports_of_append)

text \<open>A complete snapshot has been applied since the accounts were set.\<close>

fun accounts_settled :: "bool \<Rightarrow> ProjectorCall list \<Rightarrow> bool" where
  "accounts_settled b [] = b"
| "accounts_settled b (SetAccounts rows # calls) = accounts_settled False calls"
| "accounts_settled b (PositionSnapshot a s c rows # calls) = accounts_settled (b \<or> c) calls"
| "accounts_settled b (_ # calls) = accounts_settled b calls"

lemma accounts_settled_append: "accounts_settled b (calls @ later_calls) = accounts_settled (accounts_settled b calls) later_calls"
  by (induction b calls rule: accounts_settled.induct) simp_all

definition viewable_known :: "Projector \<Rightarrow> bool" where
  "viewable_known p \<longleftrightarrow> list_all (\<lambda>r. ba_can_view r \<longrightarrow> ba_account_id r \<in> set (dkeys (pj_last_complete p))) (dvalues (pj_accounts p))"

definition positions_shown :: "ProjectorCall list \<Rightarrow> Projector \<Rightarrow> bool" where
  "positions_shown calls p \<longleftrightarrow>
     (\<forall>a k. map_of (pj_positions p) (a, k) = map_of (dict_of position_key id (shown_rows a calls)) (a, k)) \<and>
     (\<forall>a. map_of (pj_last_complete p) a = shown_snapshot a calls) \<and>
     (\<forall>a. a \<in> set (pj_incomplete p) \<longleftrightarrow> \<not> newest_complete a calls)"

definition freshness_shown :: "ProjectorCall list \<Rightarrow> Projector \<Rightarrow> bool" where
  "freshness_shown calls p \<longleftrightarrow>
     (\<not> pj_stale p \<longrightarrow> pj_incomplete p = []) \<and>
     (\<not> pj_stale p \<and> accounts_settled False calls \<longrightarrow> viewable_known p)"

lemma spec_snapshot:
  "reports_of a (calls @ [PositionSnapshot b s c rows]) = reports_of a calls @ (if b = a then [(s, c, rows)] else [])"
  by (simp add: reports_of_append)

lemma map_of_kept:
  "map_of (filter (\<lambda>(k, r). \<not> (fst k = a \<and> k \<notin> S)) d) k =
   (if fst k = a \<and> k \<notin> S then None else map_of d k)"
  by (induction d) auto

lemma dict_of_member: "map_of (dict_of key v rows) k = Some r \<Longrightarrow> k \<in> key ` set rows"
  using set_dict_of_keys [of key v rows] by (metis map_of_SomeD fst_conv image_eqI)

lemma map_of_rev_well_keyed: "well_keyed d \<Longrightarrow> map_of (rev d) = map_of d"
  unfolding well_keyed_def by (simp add: map_of_inject_set rev_map [symmetric])

lemma snapshot_positions:
  assumes "list_all (\<lambda>r. ps_account_id r = b) rows"
  shows "map_of (pj_positions (apply_position_snapshot b s True rows p)) (a, k) =
    (if a = b then map_of (dict_of position_key id rows) (a, k) else map_of (pj_positions p) (a, k))"
proof -
  let ?in = "dict_of position_key id rows"
  have own: "a = b" if "map_of ?in (a, k) = Some r" for r
    using dict_of_member [OF that] assms by (auto simp: position_key_def list_all_iff)
  let ?kept = "filter (\<lambda>(k, r). \<not> (fst k = b \<and> k \<notin> set (dkeys ?in))) (pj_positions p)"
  have keys: "set (dkeys ?in) = dom (map_of ?in)" by (simp add: dkeys_def dom_map_of_conv_image_fst)
  have "pj_positions (apply_position_snapshot b s True rows p) = dupdate ?kept ?in"
    by (simp add: apply_position_snapshot_def advance_def Let_def)
  then have "map_of (pj_positions (apply_position_snapshot b s True rows p)) (a, k) =
      (case map_of ?in (a, k) of None \<Rightarrow> map_of ?kept (a, k) | Some r \<Rightarrow> Some r)"
    by (simp only: map_of_dupdate map_of_rev_well_keyed well_keyed_dict_of)
  also have "\<dots> = (case map_of ?in (a, k) of None \<Rightarrow> if a = b then None else map_of (pj_positions p) (a, k) | Some r \<Rightarrow> Some r)"
  proof (cases "map_of ?in (a, k)")
    case None
    then have "(a, k) \<notin> set (dkeys ?in)" by (simp add: keys domIff)
    then have "map_of ?kept (a, k) = (if a = b then None else map_of (pj_positions p) (a, k))"
      by (simp only: map_of_kept fst_conv simp_thms)
    with None show ?thesis by (simp only: option.case)
  qed simp
  finally show ?thesis by (cases "map_of ?in (a, k)") (auto dest: own)
qed

lemma positions_shown_step:
  assumes shown: "positions_shown calls p" and own: "own_rows c"
  shows "positions_shown (calls @ [c]) (project c p)"
proof (cases "is_snapshot c")
  case False
  then show ?thesis
    using shown project_frame [OF False, of p] spec_frame [OF False]
    by (simp add: positions_shown_def position_part_def shown_rows_def shown_snapshot_def newest_complete_def complete_reports_def)
next
  case True
  then obtain b s full rows where c: "c = PositionSnapshot b s full rows" by (cases c) (auto simp: is_snapshot_def)
  show ?thesis
  proof (cases full)
    case False
    have "shown_rows a (calls @ [c]) = shown_rows a calls" "shown_snapshot a (calls @ [c]) = shown_snapshot a calls"
      "newest_complete a (calls @ [c]) = (a \<noteq> b \<and> newest_complete a calls)" for a
      using False by (simp_all add: c shown_rows_def shown_snapshot_def newest_complete_def complete_reports_def spec_snapshot)
    then show ?thesis using shown False by (simp add: positions_shown_def c apply_position_snapshot_def)
  next
    case True
    have "shown_rows a (calls @ [c]) = (if a = b then rows else shown_rows a calls)"
      "shown_snapshot a (calls @ [c]) = (if a = b then Some s else shown_snapshot a calls)"
      "newest_complete a (calls @ [c]) = (a = b \<or> newest_complete a calls)" for a
      using True by (simp_all add: c shown_rows_def shown_snapshot_def newest_complete_def complete_reports_def spec_snapshot)
    moreover have "list_all (\<lambda>r. ps_account_id r = b) rows" using own by (simp add: own_rows_def c)
    moreover have "pj_last_complete (project c p) = AList.update b s (pj_last_complete p)"
      "pj_incomplete (project c p) = removeAll b (pj_incomplete p)"
      using True by (simp_all add: c apply_position_snapshot_def advance_def Let_def)
    ultimately show ?thesis using shown True snapshot_positions [of b rows] by (auto simp: positions_shown_def c)
  qed
qed

lemma freshness_shown_step:
  assumes "freshness_shown calls p"
  shows "freshness_shown (calls @ [c]) (project c p)"
proof (cases c)
  case (SetAccounts rows)
  then show ?thesis using assms by (simp add: freshness_shown_def accounts_settled_append set_accounts_def advance_def)
next
  case (PositionSnapshot a s full rows)
  then show ?thesis using assms
    by (cases full) (simp_all add: freshness_shown_def accounts_settled_append apply_position_snapshot_def viewable_known_def advance_def Let_def)
qed (use assms in \<open>simp_all add: freshness_shown_def accounts_settled_append viewable_known_def set_orders_def set_executions_def
    set_account_values_def replace_account_values_def merge_ledger_def replace_ledger_def apply_commission_def
    record_activity_def advance_def Let_def split: option.splits\<close>)

lemma run_shown:
  "list_all own_rows calls \<Longrightarrow>
   positions_shown calls (project_all calls (new_projector mode provider)) \<and> freshness_shown calls (project_all calls (new_projector mode provider))"
proof (induction calls rule: rev_induct)
  case Nil
  have "map_of (dict_of position_key id []) = Map.empty" by (simp add: dict_of_def)
  then show ?case by (simp add: positions_shown_def freshness_shown_def new_projector_def shown_rows_def shown_snapshot_def
    newest_complete_def complete_reports_def)
qed (simp add: positions_shown_step freshness_shown_step)

section \<open>The ledger\<close>

text \<open>What the ledger says of a value of an account in a currency, and what a list of updates says.\<close>

definition ledger_view :: "(ledger_key, LedgerBalance) dict \<Rightarrow> ledger_key \<Rightarrow> string \<Rightarrow> ledger_value option" where
  "ledger_view d k name = (case map_of d k of None \<Rightarrow> None | Some r \<Rightarrow> map_of (lb_values r) name)"

definition told :: "LedgerBalance list \<Rightarrow> ledger_key \<Rightarrow> string \<Rightarrow> ledger_value option" where
  "told rows k name = map_of (concat (map (\<lambda>u. rev (lb_values u)) (rev (filter (\<lambda>u. ledger_key u = k) rows)))) name"

definition keyed_by :: "('a \<Rightarrow> 'k) \<Rightarrow> ('k, 'a) dict \<Rightarrow> bool" where
  "keyed_by key d \<longleftrightarrow> well_keyed d \<and> (\<forall>(k, r) \<in> set d. k = key r)"

lemma keyed_by_update: "keyed_by key d \<Longrightarrow> key r = k \<Longrightarrow> keyed_by key (AList.update k r d)"
  by (auto simp: keyed_by_def well_keyed_map_of_iff [symmetric] split: if_splits)

lemma keyed_by_Nil: "keyed_by key []"
  by (simp add: keyed_by_def)

lemma keyed_by_dict_of: "keyed_by key (dict_of key id rows)"
  by (induction rows rule: rev_induct) (auto simp: dict_of_snoc intro: keyed_by_update, simp add: dict_of_def keyed_by_Nil)

lemma map_of_dict_of:
  "distinct (map key rows) \<Longrightarrow> map_of (dict_of key id rows) k = Some r \<longleftrightarrow> r \<in> set rows \<and> key r = k"
proof (induction rows rule: rev_induct)
  case (snoc x rows)
  then show ?case by (auto simp: dict_of_snoc image_iff)
qed (simp add: dict_of_def)

lemma keyed_values: "keyed_by key d \<Longrightarrow> map key (dvalues d) = map fst d"
  by (auto simp: keyed_by_def dvalues_def)

lemma resorted: "keyed_by key d \<Longrightarrow> map_of (dict_of key id (sort_key f (dvalues d))) = map_of d"
proof
  fix k
  assume d: "keyed_by key d"
  then have "distinct (map key (dvalues d))" by (simp add: keyed_values) (simp add: keyed_by_def well_keyed_def)
  then have "distinct (map key (sort_key f (dvalues d)))" by (simp add: distinct_map)
  then have "map_of (dict_of key id (sort_key f (dvalues d))) k = Some r \<longleftrightarrow> r \<in> set (dvalues d) \<and> key r = k" for r
    by (simp only: map_of_dict_of set_sort)
  moreover have "r \<in> set (dvalues d) \<and> key r = k \<longleftrightarrow> map_of d k = Some r" for r
    using d unfolding keyed_by_def by (force simp: dvalues_def well_keyed_map_of_iff)
  ultimately have "map_of (dict_of key id (sort_key f (dvalues d))) k = Some r \<longleftrightarrow> map_of d k = Some r" for r
    by simp
  then show "map_of (dict_of key id (sort_key f (dvalues d))) k = map_of d k"
    by (cases "map_of d k"; cases "map_of (dict_of key id (sort_key f (dvalues d))) k") auto
qed

lemma ledger_update_keyed: "keyed_by ledger_key d \<Longrightarrow> keyed_by ledger_key (apply_ledger_update u d)"
  by (simp add: apply_ledger_update_def Let_def keyed_by_update ledger_key_def)

lemma ledger_update_view:
  "ledger_view (apply_ledger_update u d) k name =
   (if ledger_key u = k then (case map_of (rev (lb_values u)) name of Some v \<Rightarrow> Some v | None \<Rightarrow> ledger_view d k name)
    else ledger_view d k name)"
  by (auto simp: ledger_view_def apply_ledger_update_def Let_def map_of_dupdate split: option.splits)

lemma ledger_updates:
  "keyed_by ledger_key d \<Longrightarrow> keyed_by ledger_key (fold apply_ledger_update rows d) \<and>
   ledger_view (fold apply_ledger_update rows d) k name =
     (case told rows k name of Some v \<Rightarrow> Some v | None \<Rightarrow> ledger_view d k name)"
proof (induction rows arbitrary: d)
  case (Cons u rows)
  have "told (u # rows) k name = (case told rows k name of Some v \<Rightarrow> Some v | None \<Rightarrow>
      if ledger_key u = k then map_of (rev (lb_values u)) name else None)"
    by (simp add: told_def map_add_def split: option.splits)
  with Cons.IH [of "apply_ledger_update u d"] Cons.prems show ?case
    by (simp add: ledger_update_keyed ledger_update_view split: option.splits)
qed (simp add: told_def)

text \<open>A merged delta overrides exactly the values it names, the later row winning, and keeps the rest.\<close>

lemma merge_ledger_view:
  assumes "keyed_by ledger_key (pj_ledger p)"
  shows "ledger_view (pj_ledger (merge_ledger rows p)) k name =
    (case told rows k name of Some v \<Rightarrow> Some v | None \<Rightarrow> ledger_view (pj_ledger p) k name)"
proof -
  let ?d = "dict_of ledger_key id (dvalues (pj_ledger p))"
  have "distinct (map ledger_key (dvalues (pj_ledger p)))"
    using assms by (simp add: keyed_values) (simp add: keyed_by_def well_keyed_def)
  then have same: "map_of ?d q = map_of (pj_ledger p) q" for q
    using resorted [of ledger_key "pj_ledger p" "\<lambda>_. 0 :: nat"] assms by (simp add: sort_key_const)
  have "keyed_by ledger_key ?d" by (rule keyed_by_dict_of)
  then have "keyed_by ledger_key (fold apply_ledger_update rows ?d)"
    "ledger_view (fold apply_ledger_update rows ?d) k name = (case told rows k name of Some v \<Rightarrow> Some v | None \<Rightarrow> ledger_view ?d k name)"
    using ledger_updates [of ?d rows k name] by simp_all
  moreover have "ledger_view ?d k name = ledger_view (pj_ledger p) k name" by (simp add: ledger_view_def same)
  moreover have "ledger_view (pj_ledger (merge_ledger rows p)) k name = ledger_view (fold apply_ledger_update rows ?d) k name"
    using calculation(1) by (simp add: ledger_view_def merge_ledger_def merge_ledger_delta_def advance_def resorted)
  ultimately show ?thesis by (cases "told rows k name") simp_all
qed

section \<open>The projection of a run\<close>

text \<open>
  C37. After any run of events and snapshots whose position rows belong to the account they are
  reported for, the projector shows of every account exactly the positions of its last complete
  snapshot, an incomplete one changing none, and names that snapshot. When it does not report
  itself stale, the newest report of every account is complete, and every viewable account has
  one, provided a complete snapshot came after the accounts were set.
\<close>

lemma projection_shows_last_snapshots:
  assumes "list_all own_rows calls"
    and "project_all calls (new_projector mode provider) = p"
  shows "map_of (pj_positions p) (a, conid, model) = map_of (dict_of position_key id (shown_rows a calls)) (a, conid, model) \<and>
    map_of (pj_last_complete p) a = shown_snapshot a calls \<and>
    (pj_stale p \<or> newest_complete a calls) \<and>
    (pj_stale p \<or> \<not> accounts_settled False calls \<or> \<not> list_ex (\<lambda>r. ba_account_id r = a \<and> ba_can_view r) (dvalues (pj_accounts p)) \<or>
      shown_snapshot a calls \<noteq> None)"
proof -
  have shown: "positions_shown calls p" and fresh: "freshness_shown calls p"
    using run_shown [OF assms(1), of mode provider] assms(2) by simp_all
  have known: "shown_snapshot a calls \<noteq> None"
    if "viewable_known p" "list_ex (\<lambda>r. ba_account_id r = a \<and> ba_can_view r) (dvalues (pj_accounts p))"
  proof -
    have "a \<in> set (dkeys (pj_last_complete p))" using that by (auto simp: viewable_known_def list_all_iff list_ex_iff)
    then have "map_of (pj_last_complete p) a \<noteq> None" by (simp add: dkeys_def map_of_eq_None_iff)
    then show ?thesis using shown by (simp add: positions_shown_def)
  qed
  have "newest_complete a calls" if "\<not> pj_stale p"
    using shown fresh that by (auto simp: positions_shown_def freshness_shown_def)
  with known show ?thesis using shown fresh by (auto simp: positions_shown_def freshness_shown_def)
qed

definition demo_instrument :: "int \<Rightarrow> InstrumentContract" where
  "demo_instrument conid =
     \<lparr>ic_instrument_id = ''i'', ic_conid = conid, ic_symbol = ''AAPL'', ic_security_type = ''STK'', ic_currency = ''USD'',
      ic_exchange = ''SMART'', ic_primary_exchange = ''NASDAQ'', ic_local_symbol = [], ic_trading_class = [],
      ic_multiplier = 1, ic_expiry = [], ic_strike = None, ic_right = [], ic_provider_ids = []\<rparr>"

definition demo_position :: "string \<Rightarrow> int \<Rightarrow> dec \<Rightarrow> PositionState" where
  "demo_position account conid quantity =
     \<lparr>ps_snapshot_id = ''s'', ps_account_id = account, ps_instrument = demo_instrument conid, ps_quantity = quantity,
      ps_market_price = 10, ps_market_value = 10, ps_average_cost = 10, ps_average_price = 10, ps_realized_pnl = 0,
      ps_unrealized_pnl = 0, ps_max_unrealized_pnl = None, ps_max_unrealized_pnl_observed_from = [],
      ps_max_unrealized_pnl_as_of = [], ps_max_unrealized_pnl_basis = [], ps_model = [], ps_is_last_to_liquidate = False,
      ps_source_event_time = conid, ps_received_at = 0, ps_raw = JNull\<rparr>"

definition demo_account :: "string \<Rightarrow> BrokerAccount" where
  "demo_account account =
     \<lparr>ba_provider = PROVIDER_SIMULATED, ba_account_id = account, ba_base_currency = ''USD'', ba_account_type = [],
      ba_alias = [], ba_title = [], ba_parent_account_id = [], ba_can_view = True, ba_can_trade = True,
      ba_valid_at = 5, ba_raw = JNull\<rparr>"

definition demo_projection :: "ProjectorCall list" where
  "demo_projection =
     [SetAccounts [demo_account ''A''],
      PositionSnapshot ''A'' ''s1'' True [demo_position ''A'' 1 100, demo_position ''A'' 2 50],
      PositionSnapshot ''A'' ''s2'' False [demo_position ''A'' 1 30],
      PositionSnapshot ''A'' ''s3'' True [demo_position ''A'' 1 70]]"

lemma demo_projection_runs:
  "list_all own_rows demo_projection"
  "pj_stale (project_all demo_projection (new_projector MODE_PAPER PROVIDER_SIMULATED)) = False"
  "map_of (dict_of position_key id (shown_rows ''A'' demo_projection)) (''A'', 2, []) = None"
  by code_simp+

lemma projection_shows_last_snapshots_witness:
  "map_of (pj_positions (project_all demo_projection (new_projector MODE_PAPER PROVIDER_SIMULATED))) (''A'', 2, []) = None \<and>
   newest_complete ''A'' demo_projection"
  using projection_shows_last_snapshots [OF demo_projection_runs(1) refl, of MODE_PAPER PROVIDER_SIMULATED "''A''" 2 "[]"]
    demo_projection_runs(2,3) by simp

text \<open>Setting the accounts does not look at the snapshots again, so an account that has none goes unnoticed.\<close>

lemma late_account_not_stale:
  "let p = project_all [SetAccounts [demo_account ''A''], PositionSnapshot ''A'' ''s1'' True [], SetAccounts [demo_account ''A'', demo_account ''B'']]
        (new_projector MODE_PAPER PROVIDER_SIMULATED)
   in pj_complete p \<and> \<not> pj_stale p \<and> map_of (pj_last_complete p) ''B'' = None"
  by code_simp

end
