(* ===== verification/Portfolio.thy ===== *)
theory Portfolio
  imports Domain
begin

text \<open>
  The account controls of \<open>src/trading_runtime/portfolio.py\<close>: account policies with their
  checks, defaults and narrowing, account profiles, and the operations of
  \<open>PortfolioManagementEngine\<close> that change what an account may do. Of an account's state it
  holds what these operations read and write; journal records are not part of it. \<open>by_key\<close>
  shares the state objects of \<open>states\<close>, so it maps an account key to the account id.
\<close>

section \<open>Policies\<close>

datatype PortfolioSyncState =
    SYNC_INITIALIZING
  | SYNC_SYNCHRONIZED
  | SYNC_DEGRADED
  | SYNC_RECONCILING
  | SYNC_ENTRIES_BLOCKED
  | SYNC_FULLY_BLOCKED
  | SYNC_DISABLED

fun PortfolioSyncState_value :: "PortfolioSyncState \<Rightarrow> string" where
  "PortfolioSyncState_value SYNC_INITIALIZING = ''initializing''"
| "PortfolioSyncState_value SYNC_SYNCHRONIZED = ''synchronized''"
| "PortfolioSyncState_value SYNC_DEGRADED = ''degraded''"
| "PortfolioSyncState_value SYNC_RECONCILING = ''reconciling''"
| "PortfolioSyncState_value SYNC_ENTRIES_BLOCKED = ''entries_blocked''"
| "PortfolioSyncState_value SYNC_FULLY_BLOCKED = ''fully_blocked''"
| "PortfolioSyncState_value SYNC_DISABLED = ''disabled''"

datatype PortfolioControlMode =
    CONTROL_ENABLED
  | CONTROL_ENTRIES_PAUSED
  | CONTROL_REDUCE_ONLY
  | CONTROL_DISABLED

fun PortfolioControlMode_value :: "PortfolioControlMode \<Rightarrow> string" where
  "PortfolioControlMode_value CONTROL_ENABLED = ''enabled''"
| "PortfolioControlMode_value CONTROL_ENTRIES_PAUSED = ''entries_paused''"
| "PortfolioControlMode_value CONTROL_REDUCE_ONLY = ''reduce_only''"
| "PortfolioControlMode_value CONTROL_DISABLED = ''disabled''"

record PortfolioPolicy =
  pp_policy_id :: string
  pp_revision :: int
  pp_eligible_equity_fraction :: f64
  pp_minimum_cash_reserve :: f64
  pp_entry_fee_buffer_bps :: f64
  pp_maximum_buying_power_utilization :: f64
  pp_maximum_gross_exposure :: f64
  pp_maximum_net_long_exposure :: f64
  pp_maximum_net_short_exposure :: f64
  pp_maximum_position_fraction :: f64
  pp_maximum_ticker_fraction :: f64
  pp_maximum_strategy_fraction :: f64
  pp_maximum_sector_fraction :: f64
  pp_maximum_industry_fraction :: f64
  pp_maximum_correlated_group_fraction :: f64
  pp_maximum_planned_risk_fraction :: f64
  pp_maximum_open_risk_fraction :: f64
  pp_maximum_open_positions :: int
  pp_maximum_order_quantity :: f64
  pp_maximum_order_notional :: f64
  pp_maximum_daily_loss :: f64
  pp_maximum_drawdown :: f64
  pp_daily_loss_warning :: f64
  pp_emergency_loss :: f64
  pp_maximum_snapshot_age_ms :: int
  pp_maximum_protection_slices :: int
  pp_maximum_internal_reaction_ms :: int
  pp_allow_long :: bool
  pp_allow_short :: bool
  pp_allow_margin :: bool
  pp_allow_unsettled_cash :: bool
  pp_allow_outside_rth :: bool
  pp_allow_overnight :: bool
  pp_allowed_security_types :: "string list"
  pp_allowed_currencies :: "string list"
  pp_restricted_symbols :: "string list"
  pp_block_on_unattributed_position :: bool
  pp_allow_stop_limit_protection :: bool
  pp_allow_partial_profit_pocket :: bool
  pp_allow_emergency_auto_liquidation :: bool
  pp_allowed_execution_policies :: "string list"
  pp_allowed_protection_profiles :: "string list"

definition default_portfolio_policy :: PortfolioPolicy where
  "default_portfolio_policy =
     \<lparr>pp_policy_id = ''default'',
      pp_revision = 1,
      pp_eligible_equity_fraction = 1,
      pp_minimum_cash_reserve = 0,
      pp_entry_fee_buffer_bps = 50,
      pp_maximum_buying_power_utilization = 1,
      pp_maximum_gross_exposure = 5000000,
      pp_maximum_net_long_exposure = 5000000,
      pp_maximum_net_short_exposure = 0,
      pp_maximum_position_fraction = 1 / 4,
      pp_maximum_ticker_fraction = 1 / 4,
      pp_maximum_strategy_fraction = 1,
      pp_maximum_sector_fraction = 1,
      pp_maximum_industry_fraction = 1,
      pp_maximum_correlated_group_fraction = 1,
      pp_maximum_planned_risk_fraction = fl (1 / 100),
      pp_maximum_open_risk_fraction = fl (1 / 20),
      pp_maximum_open_positions = 100,
      pp_maximum_order_quantity = 100000,
      pp_maximum_order_notional = 1000000,
      pp_maximum_daily_loss = 100000,
      pp_maximum_drawdown = 250000,
      pp_daily_loss_warning = 0,
      pp_emergency_loss = 0,
      pp_maximum_snapshot_age_ms = 6000,
      pp_maximum_protection_slices = 4,
      pp_maximum_internal_reaction_ms = 100,
      pp_allow_long = True,
      pp_allow_short = False,
      pp_allow_margin = False,
      pp_allow_unsettled_cash = False,
      pp_allow_outside_rth = False,
      pp_allow_overnight = True,
      pp_allowed_security_types = [''STK''],
      pp_allowed_currencies = [''USD'', ''CAD''],
      pp_restricted_symbols = [],
      pp_block_on_unattributed_position = True,
      pp_allow_stop_limit_protection = False,
      pp_allow_partial_profit_pocket = True,
      pp_allow_emergency_auto_liquidation = False,
      pp_allowed_execution_policies = [''*''],
      pp_allowed_protection_profiles = [''*'']\<rparr>"

definition policy_fractions :: "PortfolioPolicy \<Rightarrow> f64 list" where
  "policy_fractions p =
     [pp_eligible_equity_fraction p, pp_maximum_buying_power_utilization p, pp_maximum_position_fraction p,
      pp_maximum_ticker_fraction p, pp_maximum_strategy_fraction p, pp_maximum_sector_fraction p,
      pp_maximum_industry_fraction p, pp_maximum_correlated_group_fraction p,
      pp_maximum_planned_risk_fraction p, pp_maximum_open_risk_fraction p]"

definition policy_limits :: "PortfolioPolicy \<Rightarrow> f64 list" where
  "policy_limits p =
     [pp_minimum_cash_reserve p, pp_maximum_gross_exposure p, pp_maximum_net_long_exposure p,
      pp_maximum_net_short_exposure p, pp_maximum_order_quantity p, pp_maximum_order_notional p,
      pp_maximum_daily_loss p, pp_maximum_drawdown p, pp_daily_loss_warning p, pp_emergency_loss p]"

definition PortfolioPolicy_check :: "PortfolioPolicy \<Rightarrow> PortfolioPolicy result" where
  "PortfolioPolicy_check p =
     (if pp_policy_id p = [] \<or> pp_revision p < 1
      then Inl (ValueError ''Portfolio policy identity and positive revision are required'')
      else if list_ex (\<lambda>v. \<not> (0 \<le> v \<and> v \<le> 1)) (policy_fractions p)
      then Inl (ValueError ''Portfolio policy fractions must be between zero and one'')
      else if list_ex (\<lambda>v. v < 0) (policy_limits p)
      then Inl (ValueError ''Portfolio policy limits cannot be negative'')
      else if \<not> (0 \<le> pp_entry_fee_buffer_bps p \<and> pp_entry_fee_buffer_bps p \<le> 10000)
      then Inl (ValueError ''Entry fee buffer must be finite and between zero and 10000 bps'')
      else if pp_maximum_open_positions p < 0 \<or> pp_maximum_snapshot_age_ms p < 1 \<or>
        pp_maximum_protection_slices p < 1 \<or> pp_maximum_internal_reaction_ms p < 1
      then Inl (ValueError ''Portfolio position count and freshness limits are invalid'')
      else if pp_daily_loss_warning p \<noteq> 0 \<and> pp_maximum_daily_loss p < pp_daily_loss_warning p
      then Inl (ValueError ''daily loss warning cannot exceed the hard daily loss limit'')
      else if pp_emergency_loss p \<noteq> 0 \<and> pp_emergency_loss p < pp_maximum_daily_loss p
      then Inl (ValueError ''emergency loss cannot be below the hard daily loss limit'')
      else Inr p)"

lemma PortfolioPolicy_check_Inr:
  "PortfolioPolicy_check p = Inr q \<Longrightarrow>
     q = p \<and> list_all (\<lambda>v. 0 \<le> v) (policy_limits p) \<and> 1 \<le> pp_maximum_internal_reaction_ms p \<and>
     (pp_daily_loss_warning p = 0 \<or> pp_daily_loss_warning p \<le> pp_maximum_daily_loss p) \<and>
     (pp_emergency_loss p = 0 \<or> pp_maximum_daily_loss p \<le> pp_emergency_loss p)"
  by (auto simp: PortfolioPolicy_check_def list_ex_iff list_all_iff not_less split: if_splits)

definition policy_identity :: "PortfolioPolicy \<Rightarrow> string" where
  "policy_identity p = pp_policy_id p @ ''@'' @ show_int (pp_revision p)"

definition default_policy_for_account :: "string \<Rightarrow> PortfolioPolicy" where
  "default_policy_for_account account_class =
     (let normalized = lower (strip account_class);
          long_only = default_portfolio_policy
            \<lparr>pp_allow_short := False, pp_allow_margin := False, pp_maximum_net_short_exposure := 0,
             pp_maximum_buying_power_utilization := fl (95 / 100)\<rparr>
      in if normalized \<in> {''rrsp'', ''registered'', ''tfsa''}
         then long_only\<lparr>pp_policy_id := ''registered-long-only'', pp_minimum_cash_reserve := 500\<rparr>
         else if normalized = ''cash'' then long_only\<lparr>pp_policy_id := ''cash-long-only''\<rparr>
         else if normalized = ''margin''
         then default_portfolio_policy
           \<lparr>pp_policy_id := ''margin'', pp_allow_short := True, pp_allow_margin := True,
            pp_maximum_net_short_exposure := 2500000\<rparr>
         else default_portfolio_policy
           \<lparr>pp_policy_id := (if normalized = [] then ''default'' else normalized) @ ''-portfolio''\<rparr>)"

definition narrow_policy_for_account_class :: "PortfolioPolicy \<Rightarrow> string \<Rightarrow> PortfolioPolicy" where
  "narrow_policy_for_account_class policy account_class =
     (if lower (strip account_class) \<in> {''cash'', ''rrsp'', ''registered'', ''tfsa''}
      then policy\<lparr>pp_allow_margin := False, pp_allow_short := False, pp_maximum_net_short_exposure := 0\<rparr>
      else policy)"

text \<open>Narrowing a checked policy leaves it a checked one, so \<open>replace\<close> never raises.\<close>

lemma narrow_policy_checked:
  assumes "PortfolioPolicy_check p = Inr p"
  shows "PortfolioPolicy_check (narrow_policy_for_account_class p c) = Inr (narrow_policy_for_account_class p c)"
proof -
  let ?q = "p\<lparr>pp_allow_margin := False, pp_allow_short := False, pp_maximum_net_short_exposure := 0\<rparr>"
  have fractions: "policy_fractions ?q = policy_fractions p" by (simp add: policy_fractions_def)
  have limits: "list_ex (\<lambda>v. v < 0) (policy_limits p)" if "list_ex (\<lambda>v. v < 0) (policy_limits ?q)"
    using that by (simp add: policy_limits_def) blast
  show ?thesis
  proof (cases "narrow_policy_for_account_class p c = p")
    case False
    then have "narrow_policy_for_account_class p c = ?q" by (auto simp: narrow_policy_for_account_class_def)
    moreover have "\<not> list_ex (\<lambda>v. v < 0) (policy_limits p)"
      using assms by (simp add: PortfolioPolicy_check_def split: if_split_asm)
    then have "\<not> list_ex (\<lambda>v. v < 0) (policy_limits ?q)" using limits by blast
    ultimately show ?thesis using assms fractions by (auto simp: PortfolioPolicy_check_def split: if_split_asm)
  qed (use assms in simp)
qed

section \<open>Accounts\<close>

record PortfolioAccountProfile =
  pr_account_key :: string
  pr_account_id :: string
  pr_mode :: string
  pr_account_class :: string
  pr_policy :: PortfolioPolicy
  pr_session_key :: string
  pr_enabled :: bool
  pr_base_currency :: string
  pr_strategy_allocations :: "(string, f64) dict"
  pr_strategy_mandates :: json

definition PortfolioAccountProfile_check :: "PortfolioAccountProfile \<Rightarrow> PortfolioAccountProfile result" where
  "PortfolioAccountProfile_check p =
     (if pr_account_key p = [] \<or> pr_account_id p = []
      then Inl (ValueError ''Portfolio account_key and account_id are required'')
      else if pr_mode p \<notin> {''live'', ''paper'', ''replay'', ''backtest'', ''backtest_debug''}
      then Inl (ValueError ''Unsupported portfolio account mode'')
      else if list_ex (\<lambda>v. \<not> (0 \<le> v \<and> v \<le> 1)) (dvalues (pr_strategy_allocations p))
      then Inl (ValueError ''Strategy allocation fractions must be between zero and one'')
      else Inr p)"

record PortfolioAccountState =
  pa_profile :: PortfolioAccountProfile
  pa_sync_state :: PortfolioSyncState
  pa_control_mode :: PortfolioControlMode
  pa_policy_override :: "PortfolioPolicy option"
  pa_disabled_allocations :: "string list"

record Portfolio =
  pf_states :: "(string, PortfolioAccountState) dict"
  pf_by_key :: "(string, string) dict"
  pf_control_modes :: "(string, string) dict option"

definition new_portfolio :: "bool \<Rightarrow> PortfolioAccountProfile list \<Rightarrow> Portfolio result" where
  "new_portfolio shared profiles =
     (if profiles = [] then Inl (ValueError ''Portfolio management requires at least one account profile'')
      else
        (let states = dict_of pr_account_id (\<lambda>p. \<lparr>pa_profile = p, pa_sync_state = SYNC_INITIALIZING,
               pa_control_mode = CONTROL_ENABLED, pa_policy_override = None, pa_disabled_allocations = []\<rparr>) profiles;
             by_key = dict_of pr_account_key pr_account_id profiles
         in if List.length states \<noteq> List.length profiles then Inl (ValueError ''Portfolio broker account ids must be unique'')
            else if List.length by_key \<noteq> List.length profiles then Inl (ValueError ''Portfolio account keys must be unique'')
            else Inr \<lparr>pf_states = states, pf_by_key = by_key, pf_control_modes = (if shared then Some [] else None)\<rparr>))"

definition account_state :: "string \<Rightarrow> Portfolio \<Rightarrow> PortfolioAccountState result" where
  "account_state account_id pf =
     (case map_of (pf_states pf) account_id of
        None \<Rightarrow> Inl (PyKeyError ''Unknown portfolio account'')
      | Some s \<Rightarrow> Inr s)"

definition policy_of :: "PortfolioAccountState \<Rightarrow> PortfolioPolicy" where
  "policy_of s = (case pa_policy_override s of Some p \<Rightarrow> p | None \<Rightarrow> pr_policy (pa_profile s))"

text \<open>\<open>self.by_key.get(account_key)\<close>: the account with the state object it shares.\<close>

definition keyed_state :: "string \<Rightarrow> Portfolio \<Rightarrow> (string \<times> PortfolioAccountState) option" where
  "keyed_state account_key pf =
     (case map_of (pf_by_key pf) account_key of
        None \<Rightarrow> None
      | Some account_id \<Rightarrow> map_option (Pair account_id) (map_of (pf_states pf) account_id))"

definition set_control :: "string \<Rightarrow> PortfolioControlMode \<Rightarrow> (Portfolio, unit) act" where
  "set_control account_key mode pf =
     (case keyed_state account_key pf of
        None \<Rightarrow> (Inl (PyKeyError account_key), pf)
      | Some (account_id, s) \<Rightarrow>
          if \<not> pr_enabled (pa_profile s) \<and> mode \<noteq> CONTROL_DISABLED
          then (Inl (ValueError ''A disabled account profile cannot be enabled by an operational command''), pf)
          else (Inr (),
            pf\<lparr>pf_states := AList.update account_id (s\<lparr>pa_control_mode := mode\<rparr>) (pf_states pf),
               pf_control_modes := map_option (AList.update (pr_account_id (pa_profile s)) (PortfolioControlMode_value mode))
                 (pf_control_modes pf)\<rparr>))"

definition set_strategy_allocation_enabled :: "string \<Rightarrow> string \<Rightarrow> bool \<Rightarrow> (Portfolio, unit) act" where
  "set_strategy_allocation_enabled account_key strategy enabled pf =
     (case keyed_state account_key pf of
        None \<Rightarrow> (Inl (PyKeyError account_key), pf)
      | Some (account_id, s) \<Rightarrow>
          (Inr (), pf\<lparr>pf_states := AList.update account_id
             (s\<lparr>pa_disabled_allocations :=
                (if enabled then removeAll strategy (pa_disabled_allocations s)
                 else List.insert strategy (pa_disabled_allocations s))\<rparr>) (pf_states pf)\<rparr>))"

definition select_policy :: "string \<Rightarrow> PortfolioPolicy \<Rightarrow> (Portfolio, unit) act" where
  "select_policy account_key policy pf =
     (case keyed_state account_key pf of
        None \<Rightarrow> (Inl (PyKeyError account_key), pf)
      | Some (account_id, s) \<Rightarrow>
          (Inr (), pf\<lparr>pf_states := AList.update account_id
             (s\<lparr>pa_policy_override := Some (narrow_policy_for_account_class policy (pr_account_class (pa_profile s))),
                pa_control_mode := CONTROL_ENTRIES_PAUSED\<rparr>) (pf_states pf)\<rparr>))"

end
