(* ===== verification/RiskSupervisor.thy ===== *)
theory RiskSupervisor
  imports Portfolio "HOL-Library.List_Lexorder" "HOL-Library.Char_ord"
begin

text \<open>
  \<open>src/trading_runtime/risk_supervisor.py\<close>: the continuous account risk state over the
  portfolio authority. The metrics of the account, which the portfolio computes from the
  broker's balances, enter as an argument, and the awaited emergency callback as its outcome.
\<close>

section \<open>Risk states\<close>

datatype AccountRiskState =
    RISK_NORMAL
  | RISK_ENTRIES_PAUSED
  | RISK_REDUCE_ONLY
  | RISK_EMERGENCY_EXIT
  | RISK_RECONCILING
  | RISK_FULLY_BLOCKED

fun risk_severity :: "AccountRiskState \<Rightarrow> nat" where
  "risk_severity RISK_NORMAL = 0"
| "risk_severity RISK_ENTRIES_PAUSED = 1"
| "risk_severity RISK_RECONCILING = 2"
| "risk_severity RISK_REDUCE_ONLY = 3"
| "risk_severity RISK_EMERGENCY_EXIT = 4"
| "risk_severity RISK_FULLY_BLOCKED = 5"

text \<open>The states are ordered by severity.\<close>

lemma risk_severity_inj: "risk_severity a = risk_severity b \<longleftrightarrow> a = b"
  by (cases a; cases b) simp_all

instantiation AccountRiskState :: linorder
begin

definition less_eq_AccountRiskState :: "AccountRiskState \<Rightarrow> AccountRiskState \<Rightarrow> bool" where
  "less_eq_AccountRiskState a b \<longleftrightarrow> risk_severity a \<le> risk_severity b"

definition less_AccountRiskState :: "AccountRiskState \<Rightarrow> AccountRiskState \<Rightarrow> bool" where
  "less_AccountRiskState a b \<longleftrightarrow> risk_severity a < risk_severity b"

instance
  by standard (auto simp: less_eq_AccountRiskState_def less_AccountRiskState_def risk_severity_inj)

end

instantiation AccountRiskState :: order_bot
begin

definition bot_AccountRiskState :: AccountRiskState where
  "bot_AccountRiskState = RISK_NORMAL"

instance
  by standard (simp add: bot_AccountRiskState_def less_eq_AccountRiskState_def)

end

text \<open>\<open>max(target, state, key=_risk_severity)\<close>\<close>

definition worse :: "AccountRiskState \<Rightarrow> AccountRiskState \<Rightarrow> AccountRiskState" where
  "worse target state = (if risk_severity target < risk_severity state then state else target)"

lemma worse_max [simp]: "worse a b = max a b"
  by (auto simp: worse_def max_def less_eq_AccountRiskState_def risk_severity_inj)

record RiskEvaluation =
  re_account_id :: string
  re_account_key :: string
  re_state :: AccountRiskState
  re_reasons :: "string list"
  re_metrics :: "(string, f64) dict"
  re_observed_at :: utc
  re_protection_required :: f64
  re_protection_coverage :: f64
  re_internal_reaction_ms :: "f64 option"

record Supervisor =
  sv_portfolio :: Portfolio
  sv_mode :: string
  sv_enabled :: bool
  sv_states :: "(string, RiskEvaluation) dict"
  sv_broker_connected :: bool

definition new_supervisor :: "Portfolio \<Rightarrow> string \<Rightarrow> bool \<Rightarrow> (string, RiskEvaluation) dict \<Rightarrow> Supervisor result" where
  "new_supervisor portfolio mode enabled shared_states =
     (if mode \<in> {''live'', ''paper''} \<and> \<not> enabled
      then Inl (ValueError ''Trading Safety Supervisor cannot be disabled for Live or Paper'')
      else Inr \<lparr>sv_portfolio = portfolio, sv_mode = mode, sv_enabled = enabled, sv_states = shared_states,
             sv_broker_connected = True\<rparr>)"

definition set_broker_connected :: "bool \<Rightarrow> Supervisor \<Rightarrow> Supervisor" where
  "set_broker_connected online sv = sv\<lparr>sv_broker_connected := online\<rparr>"

section \<open>Evaluation\<close>

type_synonym escalation = "AccountRiskState \<times> string list"

definition escalate :: "bool \<Rightarrow> AccountRiskState \<Rightarrow> string list \<Rightarrow> escalation \<Rightarrow> escalation" where
  "escalate triggered state reasons e =
     (if triggered then (worse (fst e) state, snd e @ reasons) else e)"

definition sync_check :: "PortfolioSyncState \<Rightarrow> escalation" where
  "sync_check sync =
     (if sync \<in> {SYNC_FULLY_BLOCKED, SYNC_DISABLED}
      then (RISK_FULLY_BLOCKED, [''sync_'' @ PortfolioSyncState_value sync])
      else if sync \<notin> {SYNC_SYNCHRONIZED, SYNC_DEGRADED}
      then (RISK_RECONCILING, [''sync_'' @ PortfolioSyncState_value sync])
      else (RISK_NORMAL, []))"

definition reaction_too_slow :: "string \<Rightarrow> f64 option \<Rightarrow> PortfolioPolicy \<Rightarrow> bool" where
  "reaction_too_slow mode reaction policy \<longleftrightarrow>
     mode \<in> {''live'', ''paper''} \<and>
     (case reaction of None \<Rightarrow> False | Some ms \<Rightarrow> of_int (pp_maximum_internal_reaction_ms policy) < ms)"

definition loss_check :: "PortfolioPolicy \<Rightarrow> f64 \<Rightarrow> f64 \<Rightarrow> escalation \<Rightarrow> escalation" where
  "loss_check policy daily_loss drawdown e =
     (if pp_emergency_loss policy \<noteq> 0 \<and> pp_emergency_loss policy \<le> daily_loss
      then escalate True RISK_EMERGENCY_EXIT [''emergency_daily_loss''] e
      else if pp_maximum_daily_loss policy \<le> daily_loss \<or> pp_maximum_drawdown policy \<le> drawdown
      then escalate True RISK_REDUCE_ONLY
        ((if pp_maximum_daily_loss policy \<le> daily_loss then [''daily_loss_limit''] else []) @
         (if pp_maximum_drawdown policy \<le> drawdown then [''drawdown_limit''] else [])) e
      else if pp_daily_loss_warning policy \<noteq> 0 \<and> pp_daily_loss_warning policy \<le> daily_loss
      then escalate True RISK_ENTRIES_PAUSED [''daily_loss_warning''] e
      else e)"

definition assess ::
    "string \<Rightarrow> bool \<Rightarrow> PortfolioSyncState \<Rightarrow> PortfolioPolicy \<Rightarrow> (string, f64) dict \<Rightarrow> f64 \<Rightarrow> f64 \<Rightarrow> f64 option \<Rightarrow> escalation" where
  "assess mode online sync policy metrics required coverage reaction =
     loss_check policy (dget metrics ''daily_loss'' 0) (dget metrics ''drawdown'' 0)
       (escalate (reaction_too_slow mode reaction policy) RISK_ENTRIES_PAUSED [''internal_reaction_latency'']
       (escalate (fadd coverage lit_1e9 < required) RISK_EMERGENCY_EXIT [''protection_deficit'']
       (escalate (\<not> online) RISK_ENTRIES_PAUSED [''broker_disconnected''] (sync_check sync))))"

text \<open>A restriction is only lifted by an operator.\<close>

definition awaiting_resume :: "RiskEvaluation option \<Rightarrow> PortfolioControlMode \<Rightarrow> bool \<Rightarrow> bool" where
  "awaiting_resume previous control allow_operator_resume \<longleftrightarrow>
     \<not> allow_operator_resume \<and>
     ((case previous of None \<Rightarrow> False | Some p \<Rightarrow> re_state p \<noteq> RISK_NORMAL) \<or> control \<noteq> CONTROL_ENABLED)"

definition latch :: "bool \<Rightarrow> escalation \<Rightarrow> escalation" where
  "latch awaiting e =
     (if fst e = RISK_NORMAL \<and> awaiting then (RISK_ENTRIES_PAUSED, snd e @ [''awaiting_operator_resume'']) else e)"

fun desired_control :: "AccountRiskState \<Rightarrow> PortfolioControlMode option" where
  "desired_control RISK_NORMAL = None"
| "desired_control RISK_ENTRIES_PAUSED = Some CONTROL_ENTRIES_PAUSED"
| "desired_control RISK_REDUCE_ONLY = Some CONTROL_REDUCE_ONLY"
| "desired_control RISK_EMERGENCY_EXIT = Some CONTROL_REDUCE_ONLY"
| "desired_control RISK_RECONCILING = Some CONTROL_ENTRIES_PAUSED"
| "desired_control RISK_FULLY_BLOCKED = Some CONTROL_DISABLED"

definition on_portfolio :: "(Portfolio, 'a) act \<Rightarrow> (Supervisor, 'a) act" where
  "on_portfolio f sv = (case f (sv_portfolio sv) of (out, pf) \<Rightarrow> (out, sv\<lparr>sv_portfolio := pf\<rparr>))"

definition apply_control :: "RiskEvaluation \<Rightarrow> (Supervisor, unit) act" where
  "apply_control ev sv =
     (case desired_control (re_state ev) of
        None \<Rightarrow> (Inr (), sv)
      | Some desired \<Rightarrow>
          (case keyed_state (re_account_key ev) (sv_portfolio sv) of
             None \<Rightarrow> (Inl (PyKeyError (re_account_key ev)), sv)
           | Some (account_id, s) \<Rightarrow>
               if pa_control_mode s = desired then (Inr (), sv)
               else on_portfolio (set_control (re_account_key ev) desired) sv))"

definition put_evaluation :: "RiskEvaluation \<Rightarrow> Supervisor \<Rightarrow> Supervisor" where
  "put_evaluation ev sv = sv\<lparr>sv_states := AList.update (re_account_id ev) ev (sv_states sv)\<rparr>"

record RiskInput =
  ri_account_id :: string
  ri_reason :: string
  ri_protection_required :: f64
  ri_protection_coverage :: f64
  ri_internal_reaction_ms :: "f64 option"
  ri_allow_operator_resume :: bool
  ri_now :: utc
  ri_metrics :: "(string, f64) dict"

definition evaluation_of :: "RiskInput \<Rightarrow> PortfolioAccountState \<Rightarrow> Supervisor \<Rightarrow> RiskEvaluation" where
  "evaluation_of i s sv =
     (if \<not> sv_enabled sv
      then \<lparr>re_account_id = ri_account_id i, re_account_key = pr_account_key (pa_profile s), re_state = RISK_NORMAL,
            re_reasons = [''safety_supervisor_disabled'', ri_reason i], re_metrics = ri_metrics i,
            re_observed_at = ri_now i, re_protection_required = 0, re_protection_coverage = 0,
            re_internal_reaction_ms = None\<rparr>
      else
        (let e = latch (awaiting_resume (map_of (sv_states sv) (ri_account_id i)) (pa_control_mode s) (ri_allow_operator_resume i))
               (assess (sv_mode sv) (sv_broker_connected sv) (pa_sync_state s) (policy_of s) (ri_metrics i)
                  (ri_protection_required i) (ri_protection_coverage i) (ri_internal_reaction_ms i))
         in \<lparr>re_account_id = ri_account_id i, re_account_key = pr_account_key (pa_profile s), re_state = fst e,
             re_reasons = dkeys (dict_of id (\<lambda>_. ()) (ri_reason i # snd e)), re_metrics = ri_metrics i,
             re_observed_at = ri_now i, re_protection_required = ri_protection_required i,
             re_protection_coverage = ri_protection_coverage i, re_internal_reaction_ms = ri_internal_reaction_ms i\<rparr>))"

definition evaluate_risk ::
    "(RiskEvaluation \<Rightarrow> unit result) option \<Rightarrow> RiskInput \<Rightarrow> (Supervisor, RiskEvaluation) act" where
  "evaluate_risk callback i sv =
     (case account_state (ri_account_id i) (sv_portfolio sv) of
        Inl e \<Rightarrow> (Inl e, sv)
      | Inr s \<Rightarrow>
          (let ev = evaluation_of i s sv in
           if \<not> sv_enabled sv then (Inr ev, put_evaluation ev sv)
           else abind (apply_control ev) (\<lambda>_.
             (case (re_state ev, callback) of
                (RISK_EMERGENCY_EXIT, Some call) \<Rightarrow> abind (alift (call ev)) (\<lambda>_. aret ev)
              | _ \<Rightarrow> aret ev)) (put_evaluation ev sv)))"

definition resume_input :: "string \<Rightarrow> string \<Rightarrow> utc \<Rightarrow> (string, f64) dict \<Rightarrow> RiskInput" where
  "resume_input account reason now metrics =
     \<lparr>ri_account_id = account, ri_reason = ''resume_check:'' @ reason, ri_protection_required = 0,
      ri_protection_coverage = 0, ri_internal_reaction_ms = None, ri_allow_operator_resume = True,
      ri_now = now, ri_metrics = metrics\<rparr>"

definition resume_account ::
    "(RiskEvaluation \<Rightarrow> unit result) option \<Rightarrow> string \<Rightarrow> string \<Rightarrow> utc \<Rightarrow> (string, f64) dict \<Rightarrow> (Supervisor, RiskEvaluation) act" where
  "resume_account callback account reason now metrics =
     abind (aupd (\<lambda>sv. sv\<lparr>sv_states := AList.delete account (sv_states sv)\<rparr>)) (\<lambda>_.
     abind (evaluate_risk callback (resume_input account reason now metrics)) (\<lambda>ev.
     abind (aguard (re_state ev = RISK_NORMAL)
       (ValueError ''Account cannot resume until broker, portfolio, loss, and protection state are normal'')) (\<lambda>_.
     abind (on_portfolio (set_control (re_account_key ev) CONTROL_ENABLED)) (\<lambda>_. aret ev))))"

definition risk_payload :: "Supervisor \<Rightarrow> RiskEvaluation list" where
  "risk_payload sv = map snd (sort_key fst (sv_states sv))"

end
