(* ===== verification/RiskSupervisorLaws.thy ===== *)
theory RiskSupervisorLaws
  imports RiskSupervisor
begin

text \<open>
  The evaluated state is the worst of the conditions that hold, and a restricted account stays
  restricted until an operator resumes it.
\<close>

section \<open>The worst condition\<close>

definition loss_conditions :: "PortfolioPolicy \<Rightarrow> f64 \<Rightarrow> f64 \<Rightarrow> AccountRiskState list" where
  "loss_conditions policy daily_loss drawdown =
     (if pp_emergency_loss policy \<noteq> 0 \<and> pp_emergency_loss policy \<le> daily_loss then [RISK_EMERGENCY_EXIT] else []) @
     (if pp_maximum_daily_loss policy \<le> daily_loss then [RISK_REDUCE_ONLY] else []) @
     (if pp_maximum_drawdown policy \<le> drawdown then [RISK_REDUCE_ONLY] else []) @
     (if pp_daily_loss_warning policy \<noteq> 0 \<and> pp_daily_loss_warning policy \<le> daily_loss then [RISK_ENTRIES_PAUSED] else [])"

definition conditions ::
    "string \<Rightarrow> bool \<Rightarrow> PortfolioSyncState \<Rightarrow> PortfolioPolicy \<Rightarrow> (string, f64) dict \<Rightarrow> f64 \<Rightarrow> f64 \<Rightarrow> f64 option \<Rightarrow> AccountRiskState list" where
  "conditions mode online sync policy metrics required coverage reaction =
     (if sync \<in> {SYNC_FULLY_BLOCKED, SYNC_DISABLED} then [RISK_FULLY_BLOCKED] else []) @
     (if sync \<in> {SYNC_INITIALIZING, SYNC_RECONCILING, SYNC_ENTRIES_BLOCKED} then [RISK_RECONCILING] else []) @
     (if \<not> online then [RISK_ENTRIES_PAUSED] else []) @
     (if fadd coverage lit_1e9 < required then [RISK_EMERGENCY_EXIT] else []) @
     (if reaction_too_slow mode reaction policy then [RISK_ENTRIES_PAUSED] else []) @
     loss_conditions policy (dget metrics ''daily_loss'' 0) (dget metrics ''drawdown'' 0)"

definition worst :: "AccountRiskState list \<Rightarrow> AccountRiskState" where
  "worst xs = foldr max xs RISK_NORMAL"

lemma normal_least [simp]: "RISK_NORMAL \<le> a"
  by (simp add: less_eq_AccountRiskState_def)

lemma max_normal [simp]: "max RISK_NORMAL a = a" "max a RISK_NORMAL = a"
  by (simp_all add: max_absorb1 max_absorb2)

lemma worst_append [simp]: "worst [] = RISK_NORMAL" "worst [a] = a" "worst (xs @ ys) = max (worst xs) (worst ys)"
proof -
  have "foldr max xs (max RISK_NORMAL z) = max (worst xs) z" for z
    by (induction xs) (simp_all add: worst_def max.assoc)
  from this [of "worst ys"] show "worst (xs @ ys) = max (worst xs) (worst ys)" by (simp add: worst_def)
qed (simp_all add: worst_def)

lemma worst_Cons: "worst (a # xs) = max a (worst xs)"
  by (simp add: worst_def)

lemma worst_if [simp]: "worst (if b then xs else []) = (if b then worst xs else RISK_NORMAL)"
  by simp

lemma worst_ge: "a \<in> set xs \<Longrightarrow> a \<le> worst xs"
  by (induction xs) (auto simp: worst_def le_max_iff_disj)

lemma worst_normal: "worst xs = RISK_NORMAL \<longleftrightarrow> set xs \<subseteq> {RISK_NORMAL}"
proof
  assume w: "worst xs = RISK_NORMAL"
  show "set xs \<subseteq> {RISK_NORMAL}"
  proof
    fix a
    assume "a \<in> set xs"
    then have "a \<le> RISK_NORMAL" using worst_ge w by metis
    then show "a \<in> {RISK_NORMAL}" by (simp add: antisym)
  qed
qed (induction xs; simp add: worst_def)

lemma escalate_state: "fst (escalate b s r e) = max (fst e) (if b then s else RISK_NORMAL)"
  by (simp add: escalate_def)

lemma sync_state_worst:
  "fst (sync_check sync) = max (if sync \<in> {SYNC_FULLY_BLOCKED, SYNC_DISABLED} then RISK_FULLY_BLOCKED else RISK_NORMAL)
     (if sync \<in> {SYNC_INITIALIZING, SYNC_RECONCILING, SYNC_ENTRIES_BLOCKED} then RISK_RECONCILING else RISK_NORMAL)"
  by (cases sync) (simp_all add: sync_check_def)

lemma severities [simp]:
  "max RISK_REDUCE_ONLY RISK_ENTRIES_PAUSED = RISK_REDUCE_ONLY"
  "max RISK_EMERGENCY_EXIT RISK_REDUCE_ONLY = RISK_EMERGENCY_EXIT"
  "max RISK_EMERGENCY_EXIT RISK_ENTRIES_PAUSED = RISK_EMERGENCY_EXIT"
  by (simp_all add: max_def less_eq_AccountRiskState_def)

lemma loss_worst: "fst (loss_check policy daily_loss drawdown e) = max (fst e) (worst (loss_conditions policy daily_loss drawdown))"
  by (cases "pp_emergency_loss policy \<noteq> 0 \<and> pp_emergency_loss policy \<le> daily_loss";
      cases "pp_maximum_daily_loss policy \<le> daily_loss"; cases "pp_maximum_drawdown policy \<le> drawdown";
      cases "pp_daily_loss_warning policy \<noteq> 0 \<and> pp_daily_loss_warning policy \<le> daily_loss")
    (simp_all only: loss_check_def loss_conditions_def escalate_state worst_append worst_Cons if_True if_False simp_thms append.simps max_normal severities max.idem)

lemma assess_worst:
  "fst (assess mode online sync policy metrics required coverage reaction) =
   worst (conditions mode online sync policy metrics required coverage reaction)"
  by (simp only: assess_def conditions_def loss_worst escalate_state sync_state_worst worst_append worst_if max.assoc)

section \<open>The accounts of a portfolio\<close>

definition portfolio_ok :: "Portfolio \<Rightarrow> bool" where
  "portfolio_ok pf \<longleftrightarrow>
     (\<forall>a s. map_of (pf_states pf) a = Some s \<longrightarrow>
        pr_account_id (pa_profile s) = a \<and> map_of (pf_by_key pf) (pr_account_key (pa_profile s)) = Some a)"

text \<open>An enabled account the portfolio knows.\<close>

definition known :: "string \<Rightarrow> Portfolio \<Rightarrow> bool" where
  "known a pf \<longleftrightarrow> portfolio_ok pf \<and> (\<exists>s. map_of (pf_states pf) a = Some s \<and> pr_enabled (pa_profile s))"

lemma known_keyed:
  "known a pf \<Longrightarrow> map_of (pf_states pf) b = Some s \<Longrightarrow> keyed_state (pr_account_key (pa_profile s)) pf = Some (b, s)"
  by (simp add: known_def portfolio_ok_def keyed_state_def)

lemma keyed_state_Some: "keyed_state k pf = Some (b, s) \<Longrightarrow> map_of (pf_states pf) b = Some s"
  by (auto simp: keyed_state_def split: option.splits)

lemma known_write:
  assumes "known a pf" "map_of (pf_states pf) b = Some s" "pa_profile t = pa_profile s"
  shows "known a (pf\<lparr>pf_states := AList.update b t (pf_states pf)\<rparr>)" "known a (pf\<lparr>pf_states := AList.update b t (pf_states pf), pf_control_modes := m\<rparr>)"
  using assms by (auto simp: known_def portfolio_ok_def)

lemma known_set_control [keeps_intros]: "keeps (known a) (set_control k mode)"
  by (rule keepsI) (auto simp: set_control_def intro!: known_write dest: keyed_state_Some split: option.splits)

lemma known_select_policy [keeps_intros]: "keeps (known a) (select_policy k policy)"
  by (rule keepsI) (auto simp: select_policy_def intro!: known_write dest: keyed_state_Some split: option.splits)

lemma set_control_enabled:
  assumes "known a pf" "map_of (pf_states pf) a = Some s"
  shows "\<exists>t. set_control (pr_account_key (pa_profile s)) mode pf = (Inr (), t) \<and>
    map_of (pf_states t) a = Some (s\<lparr>pa_control_mode := mode\<rparr>)"
  using assms known_keyed [OF assms] by (auto simp: set_control_def known_def)

text \<open>A dictionary as long as the list it is built from has lost no row.\<close>

lemma full_dict_distinct: "length (dict_of k v xs) = length xs \<Longrightarrow> distinct (map k xs)"
proof -
  assume "length (dict_of k v xs) = length xs"
  moreover have "card (fst ` set (dict_of k v xs)) = length (dict_of k v xs)"
    using well_keyed_dict_of [of k v xs] distinct_card [of "map fst (dict_of k v xs)"] by (simp add: well_keyed_def)
  ultimately have "card (set (map k xs)) = length (map k xs)" by (simp add: set_dict_of_keys)
  then show ?thesis by (rule card_distinct)
qed

lemma full_dict_lookup:
  "distinct (map k xs) \<Longrightarrow> map_of (dict_of k v xs) a = Some y \<longleftrightarrow> (\<exists>x \<in> set xs. k x = a \<and> v x = y)"
proof (induction xs rule: rev_induct)
  case (snoc x xs)
  then show ?case by (auto simp: dict_of_snoc image_iff)
qed (simp add: dict_of_def)

lemma new_portfolio_known:
  assumes made: "new_portfolio shared profiles = Inr pf" and p: "p \<in> set profiles" "pr_enabled p"
  shows "known (pr_account_id p) pf"
proof -
  let ?state = "\<lambda>p. \<lparr>pa_profile = p, pa_sync_state = SYNC_INITIALIZING, pa_control_mode = CONTROL_ENABLED,
      pa_policy_override = None, pa_disabled_allocations = []\<rparr>"
  have len: "length (dict_of pr_account_id ?state profiles) = length profiles"
    "length (dict_of pr_account_key pr_account_id profiles) = length profiles"
    and pf: "pf_states pf = dict_of pr_account_id ?state profiles" "pf_by_key pf = dict_of pr_account_key pr_account_id profiles"
    using made by (auto simp: new_portfolio_def Let_def split: if_splits)
  have s: "map_of (pf_states pf) a = Some y \<longleftrightarrow> (\<exists>x \<in> set profiles. pr_account_id x = a \<and> ?state x = y)" for a y
    unfolding pf by (rule full_dict_lookup [OF full_dict_distinct [OF len(1)]])
  have k: "map_of (pf_by_key pf) q = Some a \<longleftrightarrow> (\<exists>x \<in> set profiles. pr_account_key x = q \<and> pr_account_id x = a)" for q a
    unfolding pf by (rule full_dict_lookup [OF full_dict_distinct [OF len(2)]])
  have "portfolio_ok pf" unfolding portfolio_ok_def by (auto simp: s k)
  moreover have "map_of (pf_states pf) (pr_account_id p) = Some (?state p)" using p by (auto simp: s)
  ultimately show ?thesis using p(2) by (simp add: known_def)
qed

section \<open>The latch\<close>

text \<open>A restricted account: enabled, known and last evaluated as anything but normal.\<close>

definition restricted :: "string \<Rightarrow> Supervisor \<Rightarrow> bool" where
  "restricted a sv \<longleftrightarrow> sv_enabled sv \<and> known a (sv_portfolio sv) \<and>
     (\<exists>e. map_of (sv_states sv) a = Some e \<and> re_state e \<noteq> RISK_NORMAL)"

lemma on_portfolio_parts:
  "on_portfolio f sv = (out, u) \<Longrightarrow>
   f (sv_portfolio sv) = (out, sv_portfolio u) \<and> u = sv\<lparr>sv_portfolio := sv_portfolio u\<rparr>"
  by (auto simp: on_portfolio_def split: prod.splits)

lemma restricted_on_portfolio [keeps_intros]: "keeps (known a) f \<Longrightarrow> keeps (restricted a) (on_portfolio f)"
  by (rule keepsI) (auto simp: restricted_def on_portfolio_def dest: keepsD split: prod.splits)

lemma restricted_apply_control [keeps_intros]: "keeps (restricted a) (apply_control ev)"
proof (rule keepsI)
  fix sv
  assume "restricted a sv"
  then show "restricted a (snd (apply_control ev sv))"
    using keepsD [OF restricted_on_portfolio [OF known_set_control], of a sv]
    by (auto simp: apply_control_def split: option.splits)
qed

lemma restricted_put:
  "restricted a sv \<Longrightarrow> re_account_id ev = a \<longrightarrow> re_state ev \<noteq> RISK_NORMAL \<Longrightarrow> restricted a (put_evaluation ev sv)"
  by (auto simp: restricted_def put_evaluation_def)

lemma evaluation_account: "re_account_id (evaluation_of i s sv) = ri_account_id i"
  by (simp add: evaluation_of_def Let_def)

lemma evaluation_latched:
  assumes "restricted (ri_account_id i) sv" "\<not> ri_allow_operator_resume i"
  shows "re_state (evaluation_of i s sv) \<noteq> RISK_NORMAL"
  using assms by (auto simp: restricted_def evaluation_of_def latch_def awaiting_resume_def Let_def)

text \<open>What follows the recording of an evaluation only touches the controls.\<close>

lemma evaluate_restricts:
  assumes sv: "restricted a (put_evaluation (evaluation_of i s sv) sv)" "sv_enabled sv"
    and s: "account_state (ri_account_id i) (sv_portfolio sv) = Inr s"
  shows "restricted a (snd (evaluate_risk callback i sv))"
proof -
  have "keeps (restricted a) (abind (apply_control ev) (\<lambda>_. case (re_state ev, callback) of
      (RISK_EMERGENCY_EXIT, Some call) \<Rightarrow> abind (alift (call ev)) (\<lambda>_. aret ev) | _ \<Rightarrow> aret ev))" for ev
    by (auto intro!: keeps_intros split: AccountRiskState.split option.split)
  from keepsD [OF this sv(1)] show ?thesis using sv(2) s by (simp add: evaluate_risk_def Let_def)
qed

lemma evaluate_keeps_restricted:
  assumes "restricted a sv" "\<not> ri_allow_operator_resume i"
  shows "restricted a (snd (evaluate_risk callback i sv))"
proof (cases "account_state (ri_account_id i) (sv_portfolio sv)")
  case (Inl e)
  then show ?thesis using assms by (simp add: evaluate_risk_def)
next
  case (Inr s)
  show ?thesis
    by (rule evaluate_restricts [OF restricted_put _ Inr])
      (use assms evaluation_latched in \<open>auto simp: evaluation_account restricted_def\<close>)
qed

lemma emergency_part:
  "(case st of RISK_EMERGENCY_EXIT \<Rightarrow> (case callback of None \<Rightarrow> aret ev | Some call \<Rightarrow> abind (alift (call ev)) (\<lambda>_. aret ev))
     | _ \<Rightarrow> aret ev) w = (Inr out, u)
   \<Longrightarrow> out = ev \<and> u = w"
  by (cases st; cases callback) (auto simp: abind_def split: sum.splits)

text \<open>An evaluation that returns has brought the control of the account to what its state demands.\<close>

lemma evaluate_controls:
  assumes a: "known a (sv_portfolio sv)" "sv_enabled sv" "ri_account_id i = a"
    and run: "evaluate_risk callback i sv = (Inr ev, u)"
  shows "\<exists>s t. map_of (pf_states (sv_portfolio sv)) a = Some s \<and> ev = evaluation_of i s sv \<and>
    map_of (pf_states (sv_portfolio u)) a = Some t \<and>
    pa_control_mode t = (case desired_control (re_state ev) of None \<Rightarrow> pa_control_mode s | Some m \<Rightarrow> m)"
proof -
  obtain s where s: "map_of (pf_states (sv_portfolio sv)) a = Some s" using a(1) by (auto simp: known_def)
  let ?ev = "evaluation_of i s sv" and ?sv = "put_evaluation (evaluation_of i s sv) sv"
  have acc: "account_state (ri_account_id i) (sv_portfolio sv) = Inr s" using s a(3) by (simp add: account_state_def)
  have same: "sv_portfolio ?sv = sv_portfolio sv" by (simp add: put_evaluation_def)
  have key: "re_account_key ?ev = pr_account_key (pa_profile s)" by (simp add: evaluation_of_def Let_def)
  obtain w where w: "apply_control ?ev ?sv = (Inr (), w)" "ev = ?ev" "u = w"
    using run acc a(2) by (auto simp: evaluate_risk_def Let_def abind_Inr_iff dest!: emergency_part)
  have "\<exists>t. map_of (pf_states (sv_portfolio w)) a = Some t \<and>
      pa_control_mode t = (case desired_control (re_state ?ev) of None \<Rightarrow> pa_control_mode s | Some m \<Rightarrow> m)"
  proof (cases "desired_control (re_state ?ev)")
    case None
    then show ?thesis using w(1) s same by (simp add: apply_control_def)
  next
    case (Some m)
    have keyed: "keyed_state (pr_account_key (pa_profile s)) (sv_portfolio sv) = Some (a, s)" by (rule known_keyed [OF a(1) s])
    obtain t where t: "set_control (pr_account_key (pa_profile s)) m (sv_portfolio sv) = (Inr (), t)"
      "map_of (pf_states t) a = Some (s\<lparr>pa_control_mode := m\<rparr>)"
      using set_control_enabled [OF a(1) s] by blast
    then show ?thesis using w(1) s same Some keyed
      by (auto simp: apply_control_def key on_portfolio_def split: if_splits)
  qed
  with s w show ?thesis by auto
qed

lemma desired_not_enabled: "st \<noteq> RISK_NORMAL \<Longrightarrow> \<exists>m. desired_control st = Some m \<and> m \<noteq> CONTROL_ENABLED"
  by (cases st) auto

lemma resume_keeps_restricted:
  assumes sv: "restricted a sv" and run: "resume_account callback b reason now metrics sv = (out, u)"
    and refused: "b \<noteq> a \<or> (\<exists>e. out = Inl e)"
  shows "restricted a u"
proof -
  let ?cleared = "sv\<lparr>sv_states := AList.delete b (sv_states sv)\<rparr>" and ?i = "resume_input b reason now metrics"
  obtain got w where ev: "evaluate_risk callback ?i ?cleared = (got, w)" by fastforce
  have rest: "restricted a u" if "restricted a w"
  proof -
    have "keeps (restricted a) (abind (alift got) (\<lambda>ev. abind (aguard (re_state ev = RISK_NORMAL)
        (ValueError ''Account cannot resume until broker, portfolio, loss, and protection state are normal'')) (\<lambda>_.
        abind (on_portfolio (set_control (re_account_key ev) CONTROL_ENABLED)) (\<lambda>_. aret ev))))"
      by (intro keeps_intros)
    from keepsD [OF this that] show ?thesis using run ev
      by (auto simp: resume_account_def abind_def split: sum.splits)
  qed
  show ?thesis
  proof (cases "b = a")
    case False
    then have cleared: "restricted a ?cleared" using sv by (auto simp: restricted_def)
    show ?thesis
    proof (rule rest, cases "account_state b (sv_portfolio ?cleared)")
      case (Inl e)
      then show "restricted a w" using ev cleared by (auto simp: evaluate_risk_def resume_input_def)
    next
      case (Inr s)
      have "restricted a (snd (evaluate_risk callback ?i ?cleared))"
        by (rule evaluate_restricts [OF restricted_put [OF cleared]])
          (use False Inr sv in \<open>auto simp: evaluation_account resume_input_def restricted_def\<close>)
      with ev show "restricted a w" by simp
    qed
  next
    case True
    have known: "known a (sv_portfolio ?cleared)" "sv_enabled ?cleared" using sv by (auto simp: restricted_def)
    then obtain s where s: "map_of (pf_states (sv_portfolio sv)) a = Some s" by (auto simp: known_def)
    let ?ev = "evaluation_of ?i s ?cleared"
    have acc: "account_state (ri_account_id ?i) (sv_portfolio ?cleared) = Inr s"
      using s True by (simp add: account_state_def resume_input_def)
    have id: "re_account_id ?ev = a" using True by (simp add: evaluation_account resume_input_def)
    show ?thesis
    proof (cases "re_state ?ev = RISK_NORMAL")
      case False
      then have "restricted a (put_evaluation ?ev ?cleared)" using known id by (simp add: restricted_def put_evaluation_def)
      from evaluate_restricts [OF this known(2) acc] show ?thesis using rest ev by (metis snd_conv)
    next
      case normal: True
      have got: "got = Inr ?ev" "w = put_evaluation ?ev ?cleared"
        using ev acc known(2) normal by (auto simp: evaluate_risk_def apply_control_def abind_def Let_def)
      have "re_account_key ?ev = pr_account_key (pa_profile s)" by (simp add: evaluation_of_def Let_def)
      then obtain t where "set_control (re_account_key ?ev) CONTROL_ENABLED (sv_portfolio w) = (Inr (), t)"
        using set_control_enabled [OF known(1), of s CONTROL_ENABLED] s got(2) by (auto simp: put_evaluation_def)
      then have "\<exists>e. out = Inr e" using run ev got normal
        by (auto simp: resume_account_def abind_def on_portfolio_def)
      with refused True show ?thesis by auto
    qed
  qed
qed

section \<open>Runs\<close>

text \<open>The calls of the runtime and the operator, with the portfolio's own changes between them.\<close>

datatype SupervisorCall =
    Evaluate RiskInput
  | Connection bool
  | Resume string string utc "(string, f64) dict"
  | SyncChange string PortfolioSyncState
  | Control string PortfolioControlMode
  | PolicySelection string PortfolioPolicy

definition change_sync :: "string \<Rightarrow> PortfolioSyncState \<Rightarrow> Portfolio \<Rightarrow> Portfolio" where
  "change_sync a sync pf =
     (case map_of (pf_states pf) a of None \<Rightarrow> pf | Some s \<Rightarrow> pf\<lparr>pf_states := AList.update a (s\<lparr>pa_sync_state := sync\<rparr>) (pf_states pf)\<rparr>)"

fun supervise :: "(RiskEvaluation \<Rightarrow> unit result) option \<Rightarrow> SupervisorCall \<Rightarrow> Supervisor \<Rightarrow> Supervisor" where
  "supervise cb (Evaluate i) sv = snd (evaluate_risk cb i sv)"
| "supervise cb (Connection b) sv = set_broker_connected b sv"
| "supervise cb (Resume a reason now metrics) sv = snd (resume_account cb a reason now metrics sv)"
| "supervise cb (SyncChange a sync) sv = sv\<lparr>sv_portfolio := change_sync a sync (sv_portfolio sv)\<rparr>"
| "supervise cb (Control k mode) sv = snd (on_portfolio (set_control k mode) sv)"
| "supervise cb (PolicySelection k policy) sv = snd (on_portfolio (select_policy k policy) sv)"

text \<open>A call the runtime makes: only the operator's resume passes the permission to resume. A resume
  of the account that returns lifts its restriction.\<close>

fun runtime_call :: "SupervisorCall \<Rightarrow> bool" where
  "runtime_call (Evaluate i) = (\<not> ri_allow_operator_resume i)"
| "runtime_call _ = True"

fun lifts :: "(RiskEvaluation \<Rightarrow> unit result) option \<Rightarrow> string \<Rightarrow> SupervisorCall \<Rightarrow> Supervisor \<Rightarrow> bool" where
  "lifts cb a (Resume b reason now metrics) sv =
     (b = a \<and> (case fst (resume_account cb b reason now metrics sv) of Inl e \<Rightarrow> False | Inr ev \<Rightarrow> True))"
| "lifts cb a _ sv = False"

fun never_lifted :: "(RiskEvaluation \<Rightarrow> unit result) option \<Rightarrow> string \<Rightarrow> SupervisorCall list \<Rightarrow> Supervisor \<Rightarrow> bool" where
  "never_lifted cb a [] sv = True"
| "never_lifted cb a (c # cs) sv = (runtime_call c \<and> \<not> lifts cb a c sv \<and> never_lifted cb a cs (supervise cb c sv))"

definition supervise_all :: "(RiskEvaluation \<Rightarrow> unit result) option \<Rightarrow> SupervisorCall list \<Rightarrow> Supervisor \<Rightarrow> Supervisor" where
  "supervise_all cb cs sv = fold (supervise cb) cs sv"

lemma known_change_sync: "known a pf \<Longrightarrow> known a (change_sync b sync pf)"
  by (auto simp: change_sync_def intro!: known_write split: option.splits)

lemma supervise_keeps_restricted:
  assumes "restricted a sv" "runtime_call c" "\<not> lifts cb a c sv"
  shows "restricted a (supervise cb c sv)"
proof (cases c)
  case (Evaluate i)
  then show ?thesis using assms by (simp add: evaluate_keeps_restricted)
next
  case (Resume b reason now metrics)
  obtain out u where run: "resume_account cb b reason now metrics sv = (out, u)" by fastforce
  then show ?thesis using resume_keeps_restricted [OF assms(1) run] assms(3) Resume by (cases out) auto
next
  case (Control k mode)
  then show ?thesis using keepsD [OF restricted_on_portfolio [OF known_set_control] assms(1)] by simp
next
  case (PolicySelection k policy)
  then show ?thesis using keepsD [OF restricted_on_portfolio [OF known_select_policy] assms(1)] by simp
qed (use assms in \<open>auto simp: restricted_def set_broker_connected_def intro: known_change_sync\<close>)

lemma run_keeps_restricted:
  "restricted a sv \<Longrightarrow> never_lifted cb a cs sv \<Longrightarrow> restricted a (supervise_all cb cs sv)"
proof (induction cs arbitrary: sv)
  case (Cons c cs)
  then have "restricted a (supervise cb c sv)" by (auto intro: supervise_keeps_restricted)
  with Cons show ?case by (simp add: supervise_all_def)
qed (simp add: supervise_all_def)

lemma conditions_calm:
  assumes "worst (conditions mode online sync policy metrics required coverage reaction) = RISK_NORMAL"
  shows "online" "sync = SYNC_SYNCHRONIZED \<or> sync = SYNC_DEGRADED"
    "dget metrics ''daily_loss'' 0 < pp_maximum_daily_loss policy" "dget metrics ''drawdown'' 0 < pp_maximum_drawdown policy"
  using assms unfolding worst_normal by (cases sync; auto simp: conditions_def loss_conditions_def split: if_splits)+

lemma evaluation_state:
  "sv_enabled sv \<Longrightarrow> re_state (evaluation_of i s sv) =
   (let w = worst (conditions (sv_mode sv) (sv_broker_connected sv) (pa_sync_state s) (policy_of s) (ri_metrics i)
          (ri_protection_required i) (ri_protection_coverage i) (ri_internal_reaction_ms i))
    in if w = RISK_NORMAL \<and> awaiting_resume (map_of (sv_states sv) (ri_account_id i)) (pa_control_mode s) (ri_allow_operator_resume i)
       then RISK_ENTRIES_PAUSED else w)"
  by (simp add: evaluation_of_def latch_def Let_def assess_worst)

section \<open>The promises\<close>

text \<open>
  C38. Once an account is evaluated as anything but normal, every later evaluation of it that the
  runtime makes is restricted too and leaves its control short of enabled, whatever evaluations,
  connection changes, portfolio changes, control commands and refused resumes come between, until
  a resume of that account returns. Between two evaluations an operator's control command may set
  the account to enabled; the next evaluation takes that back.
\<close>

lemma restricted_until_resumed:
  assumes "sv_enabled sv" "known a (sv_portfolio sv)"
    and "map_of (sv_states sv) a = Some e" "re_state e \<noteq> RISK_NORMAL"
    and "never_lifted cb a calls sv"
    and "evaluate_risk cb i (supervise_all cb calls sv) = (Inr ev, u)" "ri_account_id i = a" "\<not> ri_allow_operator_resume i"
  shows "re_state ev \<noteq> RISK_NORMAL \<and>
    (\<exists>t. map_of (pf_states (sv_portfolio u)) a = Some t \<and> pa_control_mode t \<noteq> CONTROL_ENABLED)"
proof -
  let ?w = "supervise_all cb calls sv"
  have w: "restricted a ?w" using run_keeps_restricted [of a sv cb calls] assms(1-5) by (simp add: restricted_def)
  then have "known a (sv_portfolio ?w)" "sv_enabled ?w" by (simp_all add: restricted_def)
  from evaluate_controls [OF this assms(7,6)] obtain s t where ev: "ev = evaluation_of i s ?w"
    and t: "map_of (pf_states (sv_portfolio u)) a = Some t"
      "pa_control_mode t = (case desired_control (re_state ev) of None \<Rightarrow> pa_control_mode s | Some m \<Rightarrow> m)" by blast
  have "re_state ev \<noteq> RISK_NORMAL" using evaluation_latched [of i ?w s] w assms(7,8) ev by simp
  with desired_not_enabled [OF this] t show ?thesis by auto
qed

text \<open>
  C39. An evaluation reports the worst of the conditions that hold: synchronisation, connection,
  protection, reaction time, losses and drawdown; with none it reports normal, or entries paused
  while an operator's resume is awaited. A resume that returns has found none of the conditions it
  looks at: the broker is connected, the account is synchronised, and loss and drawdown are below
  their limits.
\<close>

lemma evaluation_reports_worst_condition:
  assumes "sv_enabled sv" "known a (sv_portfolio sv)" "map_of (pf_states (sv_portfolio sv)) a = Some s"
  shows "(ri_account_id i = a \<and> evaluate_risk cb i sv = (Inr ev, u) \<longrightarrow> re_state ev =
      (let w = worst (conditions (sv_mode sv) (sv_broker_connected sv) (pa_sync_state s) (policy_of s) (ri_metrics i)
             (ri_protection_required i) (ri_protection_coverage i) (ri_internal_reaction_ms i))
       in if w = RISK_NORMAL \<and> awaiting_resume (map_of (sv_states sv) a) (pa_control_mode s) (ri_allow_operator_resume i)
          then RISK_ENTRIES_PAUSED else w)) \<and>
    (resume_account cb a reason now metrics sv = (Inr ev, u) \<longrightarrow>
       sv_broker_connected sv \<and> (pa_sync_state s = SYNC_SYNCHRONIZED \<or> pa_sync_state s = SYNC_DEGRADED) \<and>
       dget metrics ''daily_loss'' 0 < pp_maximum_daily_loss (policy_of s) \<and>
       dget metrics ''drawdown'' 0 < pp_maximum_drawdown (policy_of s))"
proof -
  let ?cleared = "sv\<lparr>sv_states := AList.delete a (sv_states sv)\<rparr>" and ?i = "resume_input a reason now metrics"
  have calm: "worst (conditions (sv_mode sv) (sv_broker_connected sv) (pa_sync_state s) (policy_of s) metrics 0 0 None) = RISK_NORMAL"
    if run: "resume_account cb a reason now metrics sv = (Inr ev, u)"
  proof -
    have "\<exists>w. evaluate_risk cb ?i ?cleared = (Inr ev, w) \<and> re_state ev = RISK_NORMAL"
      using run by (auto simp: resume_account_def abind_Inr_iff aguard_def split: if_splits)
    then obtain w where w: "evaluate_risk cb ?i ?cleared = (Inr ev, w)" "re_state ev = RISK_NORMAL" by blast
    have "re_state (evaluation_of ?i s ?cleared) = RISK_NORMAL"
      using evaluate_controls [of a ?cleared, OF _ _ _ w(1)] assms w(2) by (auto simp: resume_input_def)
    moreover have "sv_enabled ?cleared" using assms(1) by simp
    ultimately show ?thesis using evaluation_state [of ?cleared ?i s]
      by (simp add: resume_input_def Let_def split: if_splits)
  qed
  have "re_state ev = re_state (evaluation_of i s sv)" if "ri_account_id i = a" "evaluate_risk cb i sv = (Inr ev, u)"
    using evaluate_controls [OF assms(2,1) that] assms(3) by auto
  then show ?thesis using evaluation_state [OF assms(1), of i s] conditions_calm [OF calm] by auto
qed

section \<open>Witnesses\<close>

definition demo_profile :: PortfolioAccountProfile where
  "demo_profile =
     \<lparr>pr_account_key = ''main'', pr_account_id = ''A'', pr_mode = ''paper'', pr_account_class = ''margin'',
      pr_policy = default_portfolio_policy\<lparr>pp_maximum_daily_loss := 1000, pp_daily_loss_warning := 500\<rparr>,
      pr_session_key = [], pr_enabled = True, pr_base_currency = ''USD'', pr_strategy_allocations = [],
      pr_strategy_mandates = JObj []\<rparr>"

definition demo_portfolio :: Portfolio where
  "demo_portfolio = \<lparr>pf_states = [(''A'', \<lparr>pa_profile = demo_profile, pa_sync_state = SYNC_SYNCHRONIZED,
       pa_control_mode = CONTROL_ENABLED, pa_policy_override = None, pa_disabled_allocations = []\<rparr>)],
     pf_by_key = [(''main'', ''A'')], pf_control_modes = None\<rparr>"

definition demo_supervisor :: Supervisor where
  "demo_supervisor = \<lparr>sv_portfolio = demo_portfolio, sv_mode = ''paper'', sv_enabled = True, sv_states = [], sv_broker_connected = True\<rparr>"

definition demo_input :: "f64 \<Rightarrow> f64 \<Rightarrow> RiskInput" where
  "demo_input loss required = \<lparr>ri_account_id = ''A'', ri_reason = ''check'', ri_protection_required = required,
     ri_protection_coverage = 0, ri_internal_reaction_ms = None, ri_allow_operator_resume = False, ri_now = 0,
     ri_metrics = [(''daily_loss'', loss)]\<rparr>"

definition demo_restricted :: Supervisor where
  "demo_restricted = snd (evaluate_risk None (demo_input 1500 0) demo_supervisor)"

lemma demo_known: "known ''A'' demo_portfolio" "known ''A'' (sv_portfolio demo_restricted)"
proof -
  show "known ''A'' demo_portfolio" by (simp add: known_def portfolio_ok_def demo_portfolio_def demo_profile_def)
  have "sv_portfolio demo_restricted =
      demo_portfolio\<lparr>pf_states := map_values (\<lambda>s. s\<lparr>pa_control_mode := CONTROL_REDUCE_ONLY\<rparr>) (pf_states demo_portfolio)\<rparr>"
    by code_simp
  then show "known ''A'' (sv_portfolio demo_restricted)"
    by (simp add: known_def portfolio_ok_def demo_portfolio_def demo_profile_def map_values_def)
qed

definition demo_later_calls :: "SupervisorCall list" where
  "demo_later_calls =
     [Evaluate (demo_input 0 0), Connection False, Resume ''A'' ''too early'' 0 [], Connection True, Control ''main'' CONTROL_ENABLED]"

lemma demo_restricted_run:
  "sv_enabled demo_restricted"
  "map_option re_state (map_of (sv_states demo_restricted) ''A'') = Some RISK_REDUCE_ONLY"
  "never_lifted None ''A'' demo_later_calls demo_restricted"
  "map_sum id re_state (fst (evaluate_risk None (demo_input 0 0) (supervise_all None demo_later_calls demo_restricted))) = Inr RISK_ENTRIES_PAUSED"
  by code_simp+

lemma restricted_until_resumed_witness:
  "\<exists>t. map_of (pf_states (sv_portfolio (snd (evaluate_risk None (demo_input 0 0) (supervise_all None demo_later_calls demo_restricted)))) ) ''A'' = Some t \<and>
     pa_control_mode t \<noteq> CONTROL_ENABLED"
proof -
  obtain e where e: "map_of (sv_states demo_restricted) ''A'' = Some e" "re_state e \<noteq> RISK_NORMAL"
    using demo_restricted_run(2) by auto
  obtain ev u where run: "evaluate_risk None (demo_input 0 0) (supervise_all None demo_later_calls demo_restricted) = (Inr ev, u)"
    using demo_restricted_run(4) by (cases "evaluate_risk None (demo_input 0 0) (supervise_all None demo_later_calls demo_restricted)") (auto simp: map_sum_def split: sum.splits)
  have "ri_account_id (demo_input 0 0) = ''A''" "\<not> ri_allow_operator_resume (demo_input 0 0)" by (simp_all add: demo_input_def)
  from restricted_until_resumed [OF demo_restricted_run(1) demo_known(2) e demo_restricted_run(3) run this] show ?thesis
    by (simp add: run)
qed

lemma evaluation_reports_worst_condition_witness:
  "re_state (evaluation_of (demo_input 700 0) (snd (hd (pf_states demo_portfolio))) demo_supervisor) = RISK_ENTRIES_PAUSED \<and>
   (\<exists>ev u. evaluate_risk None (demo_input 700 0) demo_supervisor = (Inr ev, u) \<and> re_state ev = RISK_ENTRIES_PAUSED)"
proof -
  let ?s = "snd (hd (pf_states demo_portfolio))"
  have s: "map_of (pf_states (sv_portfolio demo_supervisor)) ''A'' = Some ?s" "known ''A'' (sv_portfolio demo_supervisor)" "sv_enabled demo_supervisor"
    using demo_known(1) by (simp_all add: demo_supervisor_def) (simp add: demo_portfolio_def)
  have "case fst (evaluate_risk None (demo_input 700 0) demo_supervisor) of Inl e \<Rightarrow> False | Inr ev \<Rightarrow> True" by code_simp
  then obtain ev u where run: "evaluate_risk None (demo_input 700 0) demo_supervisor = (Inr ev, u)"
    by (cases "evaluate_risk None (demo_input 700 0) demo_supervisor") (auto split: sum.splits)
  have "worst (conditions (sv_mode demo_supervisor) (sv_broker_connected demo_supervisor) (pa_sync_state ?s) (policy_of ?s)
      [(''daily_loss'', 700)] 0 0 None) = RISK_ENTRIES_PAUSED"
    "re_state (evaluation_of (demo_input 700 0) ?s demo_supervisor) = RISK_ENTRIES_PAUSED"
    by code_simp+
  with evaluation_reports_worst_condition [OF s(3,2,1), of "demo_input 700 0" None ev u "[]" 0 "[]"] run
  show ?thesis by (simp add: demo_input_def)
qed

text \<open>A resume evaluates the account with no protection required, so a protection deficit does not refuse it.\<close>

lemma resume_ignores_protection:
  "let sv = snd (evaluate_risk None (demo_input 0 100) demo_supervisor) in
   map_option re_state (map_of (sv_states sv) ''A'') = Some RISK_EMERGENCY_EXIT \<and>
   map_sum id re_state (fst (resume_account None ''A'' ''operator'' 1 [] sv)) = Inr RISK_NORMAL"
  by code_simp

end
