(* ===== verification/HodTargets.thy ===== *)
theory HodTargets
  imports PyNum "HOL-Library.Product_Lexorder" "HOL-Library.List_Lexorder" "HOL-Library.Char_ord"
begin

text \<open>
  The level and target selection of \<open>src/trading_runtime/historical_hod.py\<close>. A level is the
  record of the entries these functions read; a missing entry is \<open>None\<close>, an empty text or
  \<open>False\<close>. The date of an instant in New York and the rendering of a price in a level's name
  are arguments. A tick is positive, so divisions by it do not raise.
\<close>

section \<open>Levels\<close>

datatype level_side = SIDE_NUM int | SIDE_TEXT string | SIDE_NONE

record PriceLevel =
  lv_price :: f64
  lv_lower :: f64
  lv_upper :: f64
  lv_side :: level_side
  lv_role :: string
  lv_transition_from :: string
  lv_book_version :: string
  lv_historical :: bool
  lv_oldest_member_confirmed_at_ms :: "f64 option"
  lv_all_origins :: bool
  lv_encounter_eligible :: bool
  lv_reference_kind :: string
  lv_unified_level_id :: string

record TargetPolicy =
  tp_stop_buffer_bps :: f64
  tp_target_offset_ticks :: f64
  tp_target_distance_fraction :: f64
  tp_v7_zone_enabled :: bool
  tp_v7_transition_entries_enabled :: bool

definition V7_BOOK :: string where
  "V7_BOOK = ''causal-level-book-v7-mle-1''"

definition historical :: "(f64 \<Rightarrow> string) \<Rightarrow> PriceLevel \<Rightarrow> string \<Rightarrow> bool" where
  "historical ny_date r session =
     (if lv_book_version r = V7_BOOK then lv_historical r
      else (case lv_oldest_member_confirmed_at_ms r of
          None \<Rightarrow> False
        | Some stamp \<Rightarrow> ny_date (fquo stamp 1000) < session))"

definition resistance :: "PriceLevel \<Rightarrow> bool" where
  "resistance r \<longleftrightarrow> lv_side r \<in> {SIDE_NUM (- 1), SIDE_TEXT ''resistance''} \<or>
     (lv_all_origins r \<and> lv_role r = ''transition'' \<and> (lv_transition_from r = ''resistance'' \<or> lv_encounter_eligible r))"

definition acquisition_level :: "TargetPolicy \<Rightarrow> PriceLevel \<Rightarrow> bool" where
  "acquisition_level s r \<longleftrightarrow> resistance r \<or>
     (tp_v7_transition_entries_enabled s \<and> lv_book_version r = V7_BOOK \<and> lv_role r = ''transition'')"

definition eligible_origin :: "(f64 \<Rightarrow> string) \<Rightarrow> string \<Rightarrow> TargetPolicy option \<Rightarrow> PriceLevel \<Rightarrow> bool" where
  "eligible_origin ny_date session policy r \<longleftrightarrow>
     lv_all_origins r \<or>
     (case policy of None \<Rightarrow> False | Some p \<Rightarrow> tp_v7_zone_enabled p \<and> lv_book_version r = V7_BOOK) \<or>
     historical ny_date r session"

definition flat_level :: "string \<Rightarrow> string \<Rightarrow> level_side \<Rightarrow> f64 \<Rightarrow> PriceLevel" where
  "flat_level kind name side value =
     \<lparr>lv_price = value, lv_lower = value, lv_upper = value, lv_side = side, lv_role = [], lv_transition_from = [],
      lv_book_version = [], lv_historical = False, lv_oldest_member_confirmed_at_ms = None, lv_all_origins = False,
      lv_encounter_eligible = False, lv_reference_kind = kind, lv_unified_level_id = name\<rparr>"

text \<open>\<open>min(rows, key=key)\<close> and \<open>max(rows, key=key)\<close>: the first row with the least or greatest key.\<close>

fun first_least :: "('a \<Rightarrow> 'k :: linorder) \<Rightarrow> 'a \<Rightarrow> 'a list \<Rightarrow> 'a" where
  "first_least key x [] = x"
| "first_least key x (y # ys) = first_least key (if key y < key x then y else x) ys"

fun first_greatest :: "('a \<Rightarrow> 'k :: linorder) \<Rightarrow> 'a \<Rightarrow> 'a list \<Rightarrow> 'a" where
  "first_greatest key x [] = x"
| "first_greatest key x (y # ys) = first_greatest key (if key x < key y then y else x) ys"

definition min_by :: "('a \<Rightarrow> 'k :: linorder) \<Rightarrow> 'a list \<Rightarrow> 'a option" where
  "min_by key xs = (case xs of [] \<Rightarrow> None | x # rest \<Rightarrow> Some (first_least key x rest))"

definition max_by :: "('a \<Rightarrow> 'k :: linorder) \<Rightarrow> 'a list \<Rightarrow> 'a option" where
  "max_by key xs = (case xs of [] \<Rightarrow> None | x # rest \<Rightarrow> Some (first_greatest key x rest))"

lemma first_least_in: "first_least key x ys \<in> insert x (set ys)"
  by (induction ys arbitrary: x) (force split: if_splits)+

lemma first_least_le: "y \<in> insert x (set ys) \<Longrightarrow> key (first_least key x ys) \<le> key y"
proof (induction ys arbitrary: x y)
  case (Cons z zs)
  have "key (first_least key x (z # zs)) \<le> key (if key z < key x then z else x)"
    by (simp add: Cons.IH)
  then show ?case using Cons.prems Cons.IH [of y "if key z < key x then z else x"]
    by (auto split: if_splits)
qed simp

lemma min_by_Some: "min_by key xs = Some x \<Longrightarrow> x \<in> set xs \<and> (\<forall>y \<in> set xs. key x \<le> key y)"
proof (cases xs)
  case (Cons z zs)
  moreover assume "min_by key xs = Some x"
  ultimately have "x = first_least key z zs" by (simp add: min_by_def)
  then show ?thesis using first_least_in [of key z zs] first_least_le [of _ z zs key] Cons by auto
qed (simp add: min_by_def)

lemma min_by_None [simp]: "min_by key xs = None \<longleftrightarrow> xs = []"
  by (cases xs) (simp_all add: min_by_def)

definition entry_level :: "(f64 \<Rightarrow> string) \<Rightarrow> string \<Rightarrow> f64 \<Rightarrow> PriceLevel list \<Rightarrow> PriceLevel" where
  "entry_level ny_date session hod rows =
     (let below = filter (\<lambda>r. resistance r \<and> lv_upper r \<le> hod) rows;
          old = filter (eligible_origin ny_date session None) below
      in case max_by (\<lambda>r. (lv_upper r, lv_price r)) (if old \<noteq> [] then old else below) of
           Some r \<Rightarrow> r
         | None \<Rightarrow> flat_level ''hod'' [] SIDE_NONE hod)"

section \<open>Prices on the tick grid\<close>

definition grid_floor :: "f64 \<Rightarrow> f64 \<Rightarrow> f64" where
  "grid_floor tick x = fmul (float_of_int \<lfloor>fadd (fquo x tick) lit_1e9\<rfloor>) tick"

definition grid_ceil :: "f64 \<Rightarrow> f64 \<Rightarrow> f64" where
  "grid_ceil tick x = fmul (float_of_int \<lceil>fsub (fquo x tick) lit_1e9\<rceil>) tick"

definition stop_below :: "TargetPolicy \<Rightarrow> f64 \<Rightarrow> f64 \<Rightarrow> f64" where
  "stop_below s tick value =
     grid_floor tick (fsub value (max tick (fquo (fmul value (tp_stop_buffer_bps s)) 10000)))"

definition stop_clears_quote :: "f64 \<Rightarrow> f64 \<Rightarrow> f64 \<Rightarrow> f64 \<Rightarrow> bool" where
  "stop_clears_quote stop bid ask minimum_spreads \<longleftrightarrow>
     0 < fsub bid stop \<and> fmul minimum_spreads (fsub ask bid) \<le> fadd (fsub bid stop) lit_1e9"

section \<open>Targets\<close>

record TargetSelection =
  tg_price :: f64
  tg_level :: PriceLevel
  tg_reference :: f64
  tg_broken_level :: PriceLevel
  tg_trigger_level :: PriceLevel
  tg_placement :: string
  tg_synthetic_step_fraction :: "f64 option"
  tg_selection_method :: string

definition next_historical_resistance :: "(f64 \<Rightarrow> string) \<Rightarrow> string \<Rightarrow> PriceLevel list \<Rightarrow> f64 \<Rightarrow> PriceLevel option" where
  "next_historical_resistance ny_date session rows price =
     min_by (\<lambda>r. (lv_lower r, lv_price r))
       (filter (\<lambda>r. resistance r \<and> eligible_origin ny_date session None r \<and> price < lv_lower r) rows)"

definition target_placement :: "TargetPolicy \<Rightarrow> f64 \<Rightarrow> f64 \<Rightarrow> PriceLevel \<Rightarrow> f64" where
  "target_placement s tick reference r =
     (let offset = fmul (tp_target_offset_ticks s) tick
      in if lv_price r < reference then grid_ceil tick (fadd (lv_upper r) offset)
         else grid_floor tick (fsub (lv_lower r) offset))"

definition target_selection ::
    "(f64 \<Rightarrow> string) \<Rightarrow> string \<Rightarrow> TargetPolicy \<Rightarrow> f64 \<Rightarrow> f64 \<Rightarrow> PriceLevel list \<Rightarrow> PriceLevel \<Rightarrow> f64 \<Rightarrow> TargetSelection option" where
  "target_selection ny_date session s tick minimum_target rows broken price =
     (let reference = fmul (lv_price broken) (fadd 1 (tp_target_distance_fraction s));
          placement = target_placement s tick reference
      in case min_by (\<lambda>r. (\<bar>fsub (lv_price r) reference\<bar>, lv_price r))
            (filter (\<lambda>r. resistance r \<and> eligible_origin ny_date session None r \<and> lv_upper broken < lv_lower r \<and>
               price < placement r) rows) of
           None \<Rightarrow> None
         | Some level \<Rightarrow>
             if placement level \<le> fadd minimum_target (fquo tick 2) then None
             else Some \<lparr>tg_price = placement level, tg_level = level, tg_reference = reference, tg_broken_level = broken,
                    tg_trigger_level = broken,
                    tg_placement = (if lv_price level < reference then ''above_upper_band'' else ''below_lower_band''),
                    tg_synthetic_step_fraction = None,
                    tg_selection_method = (if tp_v7_zone_enabled s then ''v7_resistance_nearest_configured_ratio''
                      else ''resistance_nearest_five_percent_above_broken_level'')\<rparr>)"

text \<open>One step of the synthetic ladder, and its climb above the price. The loop has no bound of
  its own, so not returning is \<open>None\<close>.\<close>

definition lit_1_10 :: f64 where
  "lit_1_10 = fl (11 / 10)"

definition ladder_step :: "f64 \<Rightarrow> f64 \<Rightarrow> f64" where
  "ladder_step tick value = grid_ceil tick (fmul value lit_1_10)"

partial_function (option) climb :: "f64 \<Rightarrow> f64 \<Rightarrow> f64 \<Rightarrow> f64 option" where
  [code]: "climb tick price value = (if value \<le> price then climb tick price (ladder_step tick value) else Some value)"

definition synthetic_level :: "(f64 \<Rightarrow> string) \<Rightarrow> f64 \<Rightarrow> PriceLevel" where
  "synthetic_level render value = flat_level ''synthetic'' (''synthetic:'' @ render value) (SIDE_TEXT ''resistance'') value"

definition synthetic_target ::
    "(f64 \<Rightarrow> string) \<Rightarrow> TargetPolicy \<Rightarrow> f64 \<Rightarrow> f64 \<Rightarrow> f64 \<Rightarrow> PriceLevel \<Rightarrow> TargetSelection option" where
  "synthetic_target render s tick minimum_target price anchor =
     (let level_price = ladder_step tick (lv_upper anchor);
          target = grid_floor tick (fsub level_price (fmul (tp_target_offset_ticks s) tick))
      in if target \<le> max price (fadd minimum_target (fquo tick 2)) then None
         else Some \<lparr>tg_price = target, tg_level = synthetic_level render level_price, tg_reference = level_price,
                tg_broken_level = anchor, tg_trigger_level = anchor, tg_placement = ''below_lower_band'',
                tg_synthetic_step_fraction = Some (fl (1 / 10)),
                tg_selection_method = ''synthetic_ten_percent_resistance_ladder''\<rparr>)"

definition available_target ::
    "(f64 \<Rightarrow> string) \<Rightarrow> (f64 \<Rightarrow> string) \<Rightarrow> string \<Rightarrow> TargetPolicy \<Rightarrow> f64 \<Rightarrow> f64 \<Rightarrow> f64 option \<Rightarrow> f64 option \<Rightarrow>
     PriceLevel list \<Rightarrow> f64 \<Rightarrow> TargetSelection option option" where
  "available_target ny_date render session s tick minimum_target synthetic_base reference_price rows price =
     (case next_historical_resistance ny_date session rows (case reference_price of None \<Rightarrow> price | Some p \<Rightarrow> p) of
        Some anchor \<Rightarrow>
          (case target_selection ny_date session s tick minimum_target rows anchor price of
             Some selected \<Rightarrow> Some (Some selected)
           | None \<Rightarrow>
               if target_selection ny_date session s tick 0 rows anchor price \<noteq> None then Some None
               else Some (synthetic_target render s tick minimum_target price anchor))
      | None \<Rightarrow>
          (let base = (case synthetic_base of None \<Rightarrow> price | Some b \<Rightarrow> b)
           in case climb tick price (ladder_step tick base) of
                None \<Rightarrow> None
              | Some value \<Rightarrow> Some (synthetic_target render s tick minimum_target price (synthetic_level render value))))"

end
