(* ===== verification/HodTargetsLaws.thy ===== *)
theory HodTargetsLaws
  imports HodTargets
begin

text \<open>
  The synthetic ladder ends: each step gains at least one tick in spite of rounding, as long as
  the ladder starts at a tick or more. Every target found lies above the price and the minimum
  asked for, on the tick grid.
\<close>

section \<open>Rounding of the ladder\<close>

lemma fl_low: "0 \<le> x \<Longrightarrow> x - x / 1000000000000000 - 1 / 1000000000000000000 \<le> fl x"
  using fl_err [of x] by linarith

lemma fl_above: "c \<le> x \<Longrightarrow> 0 \<le> c \<Longrightarrow> c - c / 1000000000000000 - 1 / 1000000000000000000 \<le> fl x"
  using fl_low [of c] fl_mono [of c x] by linarith

lemma lit_1_10_bounds: "1099 / 1000 \<le> lit_1_10" "0 < lit_1_10"
  using fl_low [of "11 / 10"] by (simp_all add: lit_1_10_def)

lemma ticks_low: "1 / 1000000 \<le> tick \<Longrightarrow> 1 \<le> r \<Longrightarrow> 1 / 1000000 \<le> r * (tick :: rat)"
  using mult_mono [of 1 r "1 / 1000000" tick] by auto

definition rung :: "f64 \<Rightarrow> int \<Rightarrow> f64" where
  "rung tick k = fmul (float_of_int k) tick"

definition next_rung :: "f64 \<Rightarrow> f64 \<Rightarrow> int" where
  "next_rung tick value = \<lceil>fsub (fquo (fmul value lit_1_10) tick) lit_1e9\<rceil>"

lemma ladder_step_rung: "ladder_step tick value = rung tick (next_rung tick value)"
  by (simp add: ladder_step_def grid_ceil_def rung_def next_rung_def)

text \<open>A value of at least \<open>r\<close> ticks, up to a relative error.\<close>

definition reaches :: "f64 \<Rightarrow> rat \<Rightarrow> f64 \<Rightarrow> bool" where
  "reaches tick r value \<longleftrightarrow> r * tick - r * tick / 100000000000 \<le> value"

lemma next_rung_grows:
  assumes tick: "1 / 1000000 \<le> tick" and r: "1 \<le> r" and v: "reaches tick r value"
  shows "r < of_int (next_rung tick value)"
proof -
  let ?X = "r * tick"
  have X: "1 / 1000000 \<le> ?X" by (rule ticks_low [OF tick r])
  have v1: "?X - ?X / 100000000000 \<le> value" using v by (simp add: reaches_def)
  have v0: "0 \<le> value" using v1 X by linarith
  have "value * (1099 / 1000) \<le> value * lit_1_10" using lit_1_10_bounds(1) v0 by (intro mult_left_mono)
  moreover have "?X * (10989 / 10000) \<le> value * (1099 / 1000)" using v1 X by linarith
  ultimately have p: "?X * (10989 / 10000) \<le> value * lit_1_10" by linarith
  then have "?X * (1098 / 1000) \<le> fl (value * lit_1_10)" using fl_low [of "value * lit_1_10"] X by linarith
  then have m: "r * (1098 / 1000) \<le> fmul value lit_1_10 / tick" using tick
    by (simp add: fmul_def pos_le_divide_eq ac_simps)
  from fl_above [OF this] r have q: "r * (1097 / 1000) \<le> fquo (fmul value lit_1_10) tick"
    unfolding fquo_def by linarith
  have d: "r * (1096 / 1000) \<le> fquo (fmul value lit_1_10) tick - lit_1e9" using q lit_1e9_bounds r by linarith
  from fl_above [OF this] r have "r < fsub (fquo (fmul value lit_1_10) tick) lit_1e9"
    unfolding fsub_def by linarith
  then show ?thesis unfolding next_rung_def by linarith
qed

lemma rung_reaches:
  assumes tick: "1 / 1000000 \<le> tick" and k: "1 \<le> k"
  shows "reaches tick (of_int k) (rung tick k)"
proof -
  have k1: "(1 :: rat) \<le> of_int k" using k by simp
  let ?X = "of_int k * tick"
  have X: "1 / 1000000 \<le> ?X" by (rule ticks_low [OF tick k1])
  have f: "of_int k - of_int k / 500000000000000 \<le> float_of_int k"
    using fl_low [of "of_int k"] k1 unfolding float_of_int_def by linarith
  have "(of_int k - of_int k / 500000000000000) * tick \<le> float_of_int k * tick"
    using f tick by (intro mult_right_mono) simp_all
  then have p: "?X - ?X / 500000000000000 \<le> float_of_int k * tick" by (simp add: algebra_simps)
  have "0 \<le> float_of_int k * tick" using p X by linarith
  from fl_low [OF this] p X show ?thesis unfolding reaches_def rung_def fmul_def by linarith
qed

lemma base_reaches: "0 < tick \<Longrightarrow> tick \<le> base \<Longrightarrow> reaches tick 1 base"
  by (simp add: reaches_def)

section \<open>The ladder ends\<close>

lemma climb_from_rung:
  assumes tick: "1 / 1000000 \<le> tick"
  shows "1 \<le> k \<Longrightarrow> \<exists>v j. climb tick price (rung tick k) = Some v \<and> price < v \<and> v = rung tick j \<and> 1 \<le> j"
proof (induction "nat (\<lceil>2 * \<bar>price\<bar> / tick\<rceil> + 1 - k)" arbitrary: k rule: less_induct)
  case less
  show ?case
  proof (cases "price < rung tick k")
    case True
    then show ?thesis using less.prems by (subst climb.simps) auto
  next
    case False
    let ?j = "next_rung tick (rung tick k)"
    have X: "1 / 1000000 \<le> of_int k * tick" using ticks_low [OF tick] less.prems by simp
    have "of_int k < (of_int ?j :: rat)"
      by (rule next_rung_grows [OF tick _ rung_reaches [OF tick less.prems]]) (use less.prems in simp)
    then have j: "k < ?j" by simp
    have "of_int k * tick - of_int k * tick / 100000000000 \<le> price"
      using rung_reaches [OF tick less.prems] False by (simp add: reaches_def)
    then have "of_int k * tick \<le> 2 * \<bar>price\<bar>" using X by linarith
    then have "of_int k \<le> 2 * \<bar>price\<bar> / tick" using tick by (simp add: pos_le_divide_eq)
    then have "k \<le> \<lceil>2 * \<bar>price\<bar> / tick\<rceil>" by linarith
    with j have "nat (\<lceil>2 * \<bar>price\<bar> / tick\<rceil> + 1 - ?j) < nat (\<lceil>2 * \<bar>price\<bar> / tick\<rceil> + 1 - k)" by linarith
    then obtain v i where "climb tick price (rung tick ?j) = Some v \<and> price < v \<and> v = rung tick i \<and> 1 \<le> i"
      using less.hyps [of ?j] j less.prems by auto
    then show ?thesis using False ladder_step_rung [of tick "rung tick k"] by (subst climb.simps) auto
  qed
qed

lemma ladder_ends:
  assumes tick: "1 / 1000000 \<le> tick" and base: "tick \<le> base"
  shows "\<exists>v j. climb tick price (ladder_step tick base) = Some v \<and> price < v \<and> v = rung tick j \<and> 1 \<le> j"
proof -
  have "(1 :: rat) < of_int (next_rung tick base)"
    using next_rung_grows [OF tick _ base_reaches [OF _ base]] tick by simp
  then have "1 \<le> next_rung tick base" by simp
  from climb_from_rung [OF tick this] show ?thesis by (simp add: ladder_step_rung)
qed

text \<open>A ladder that starts at zero never ends, whatever the tick.\<close>

lemma next_rung_zero: "next_rung tick 0 = 0"
proof -
  have "fsub (fquo (fmul 0 lit_1_10) tick) lit_1e9 = - lit_1e9"
    by (simp add: fmul_def fquo_def fsub_def fl_uminus lit_1e9_def)
  then show ?thesis unfolding next_rung_def using lit_1e9_pos lit_1e9_small by (simp add: ceiling_eq_iff)
qed

lemma zero_ladder_never_ends:
  assumes "0 \<le> price"
  shows "climb tick price 0 = None"
proof -
  have zero: "ladder_step t 0 = 0" for t
    by (simp add: ladder_step_rung next_rung_zero rung_def float_of_int_def fmul_def)
  have "climb t p v = Some w \<Longrightarrow> v = 0 \<longrightarrow> \<not> 0 \<le> p" for t p v w
    by (erule climb.raw_induct [of "\<lambda>t p v w. v = 0 \<longrightarrow> \<not> 0 \<le> p", rotated]) (auto simp: zero split: if_splits)
  then show ?thesis using assms by (cases "climb tick price 0") auto
qed

section \<open>Targets\<close>

text \<open>
  C40. The search for a target always returns, although the loop that extends the ladder has no
  bound: from a base of at least one tick it passes the price after finitely many rungs, rounding
  included. A target it returns lies on the tick grid, strictly above the price and above the
  minimum by more than half a tick.
\<close>

lemma available_target_returns:
  assumes "1 / 1000000 \<le> tick"
    and "tick \<le> (case synthetic_base of None \<Rightarrow> price | Some b \<Rightarrow> b)"
  shows "\<exists>r. available_target ny_date render session s tick minimum_target synthetic_base reference_price rows price = Some r \<and>
    (case r of None \<Rightarrow> True
     | Some t \<Rightarrow> price < tg_price t \<and> fadd minimum_target (fquo tick 2) < tg_price t \<and> (\<exists>k. tg_price t = fmul (float_of_int k) tick))"
proof -
  have grid: "\<exists>k. grid_floor tick x = fmul (float_of_int k) tick" "\<exists>k. grid_ceil tick x = fmul (float_of_int k) tick" for x
    by (auto simp: grid_floor_def grid_ceil_def)
  have placed: "\<exists>k. target_placement s tick reference r = fmul (float_of_int k) tick" for reference r
    using grid by (simp add: target_placement_def Let_def)
  have selected: "price < tg_price t \<and> fadd minimum_target (fquo tick 2) < tg_price t \<and> (\<exists>k. tg_price t = fmul (float_of_int k) tick)"
    if "target_selection ny_date session s tick minimum_target rows anchor price = Some t" for anchor t
    using that placed by (auto simp: target_selection_def Let_def not_le dest!: min_by_Some split: option.splits if_splits)
  have synthetic: "price < tg_price t \<and> fadd minimum_target (fquo tick 2) < tg_price t \<and> (\<exists>k. tg_price t = fmul (float_of_int k) tick)"
    if "synthetic_target render s tick minimum_target price anchor = Some t" for anchor t
    using that grid by (auto simp: synthetic_target_def Let_def split: if_splits)
  obtain v where ladder: "climb tick price (ladder_step tick (case synthetic_base of None \<Rightarrow> price | Some b \<Rightarrow> b)) = Some v"
    using ladder_ends [OF assms] by blast
  show ?thesis
    using selected synthetic ladder by (auto simp: available_target_def Let_def split: option.splits)
qed

definition demo_policy :: TargetPolicy where
  "demo_policy = \<lparr>tp_stop_buffer_bps = 5, tp_target_offset_ticks = 1, tp_target_distance_fraction = fl (5 / 100),
     tp_v7_zone_enabled = False, tp_v7_transition_entries_enabled = False\<rparr>"

lemma demo_target:
  "map_option (map_option tg_price)
     (available_target (\<lambda>_. ''2024-01-02'') (\<lambda>_. ''x'') ''2024-01-03'' demo_policy (fl (1 / 100)) 0 (Some 5) None [] 10) = Some (Some (fmul 1182 (fl (1 / 100))))"
  by code_simp

lemma available_target_returns_witness:
  "\<exists>t. available_target (\<lambda>_. ''2024-01-02'') (\<lambda>_. ''x'') ''2024-01-03'' demo_policy (fl (1 / 100)) 0 (Some 5) None [] 10 = Some (Some t) \<and>
     10 < tg_price t"
proof -
  have tick: "1 / 1000000 \<le> fl (1 / 100)" "fl (1 / 100) \<le> (case Some 5 of None \<Rightarrow> 10 | Some b \<Rightarrow> b)" by code_simp+
  obtain t where "available_target (\<lambda>_. ''2024-01-02'') (\<lambda>_. ''x'') ''2024-01-03'' demo_policy (fl (1 / 100)) 0 (Some 5) None [] 10 = Some (Some t)"
    using demo_target by auto
  with available_target_returns [OF tick, of "\<lambda>_. ''2024-01-02''" "\<lambda>_. ''x''" "''2024-01-03''" demo_policy 0 None "[]"]
  show ?thesis by auto
qed

end
