(* ===== verification/OrderGroups.thy ===== *)
theory OrderGroups
  imports StrategyOrders
begin

text \<open>
  The parts of \<open>src/trading_runtime/order_management.py\<close> that decide: the prices an execution
  may work at, the roles of the orders of a group, and the accounting of their fills. A group is
  the record of the fields these functions read and write; a \<open>LiveOrder\<close> carries the integer id
  of the simulated broker, which is printed as the key of the group's tables. The reconcilers of
  the entry stop and of the momentum target, which a report awaits in between, change prices and
  metadata of the intent but none of these fields; they act only on intents that carry their
  metadata. \<open>log10\<close> is the function of the C library, \<open>now\<close> the wall clock.
\<close>

section \<open>States and policies\<close>

datatype OrderManagementState =
    OM_CREATED
  | OM_RISK_RESERVED
  | OM_SUBMITTING
  | OM_WARNING_PENDING
  | OM_ACKNOWLEDGED
  | OM_WORKING
  | OM_PARTIALLY_FILLED
  | OM_CANCEL_PENDING
  | OM_OUTCOME_UNKNOWN
  | OM_FILLED
  | OM_CANCELLED
  | OM_REJECTED
  | OM_POLICY_BLOCKED

definition TERMINAL_MANAGEMENT_STATES :: "OrderManagementState set" where
  "TERMINAL_MANAGEMENT_STATES = {OM_FILLED, OM_CANCELLED, OM_REJECTED, OM_POLICY_BLOCKED}"

definition mandatory_broker_target :: "StrategyIntent \<Rightarrow> bool result" where
  "mandatory_broker_target i =
     (if truthy (jget (si_metadata i) ''mandatory_broker_target'') then Inr True
      else (case si_protection_profile i of
          None \<Rightarrow> Inr False
        | Some p \<Rightarrow>
            if (pr_profile_id p, pr_revision p) \<noteq> (''early-squeeze-fixed-stop-full-target'', 1) then Inr False
            else (case pr_slices p of
                [s] \<Rightarrow>
                  if sl_quantity_fraction s \<noteq> 1 \<or> sl_profit_target_price s = None \<or>
                     si_profit_target_price i \<noteq> sl_profit_target_price s \<or> si_invalidation_price i \<noteq> sr_price (sl_stop s)
                  then Inl (ValueError ''Full-target profile differs from the typed intent'') else Inr True
              | _ \<Rightarrow> Inl (ValueError ''Full-target profile differs from the typed intent''))))"

datatype ExecutionUrgency = URG_VERY_URGENT | URG_URGENT | URG_REGULAR | URG_PATIENT

record ExecutionQuote =
  xq_bid :: f64
  xq_ask :: f64
  xq_observed_at :: datetime
  xq_tick_size :: f64

definition ExecutionQuote_check :: "ExecutionQuote \<Rightarrow> ExecutionQuote result" where
  "ExecutionQuote_check q =
     (if xq_bid q \<le> 0 \<or> xq_ask q \<le> 0 \<or> xq_ask q < xq_bid q
      then Inl (ValueError ''Execution quote requires a positive non-crossed NBBO'')
      else if xq_tick_size q \<le> 0 then Inl (ValueError ''Execution quote tick_size must be positive'')
      else if \<not> is_aware (xq_observed_at q) then Inl (ValueError ''Execution quote observed_at must include a timezone'')
      else Inr q)"

definition xq_midpoint :: "ExecutionQuote \<Rightarrow> f64" where
  "xq_midpoint q = fquo (fadd (xq_bid q) (xq_ask q)) 2"

record PriceStep =
  st_after_ms :: int
  st_price :: f64

record ExecutionTactic =
  et_urgency :: ExecutionUrgency
  et_side :: string
  et_steps :: "PriceStep list"
  et_quote :: ExecutionQuote
  et_maximum_duration_ms :: int

record BrokerCommunicationPolicy =
  bp_version :: int
  bp_suppressed_message_ids :: "string list"
  bp_auto_confirm_message_ids :: "string list"
  bp_maximum_reply_chain :: int
  bp_maximum_quote_age_ms :: int
  bp_unknown_warning_action :: string
  bp_maximum_reprice_ticks :: int

definition default_communication_policy :: BrokerCommunicationPolicy where
  "default_communication_policy =
     \<lparr>bp_version = 1, bp_suppressed_message_ids = [], bp_auto_confirm_message_ids = [], bp_maximum_reply_chain = 8,
      bp_maximum_quote_age_ms = 750, bp_unknown_warning_action = ''decline'', bp_maximum_reprice_ticks = 4\<rparr>"

definition BrokerCommunicationPolicy_check :: "BrokerCommunicationPolicy \<Rightarrow> BrokerCommunicationPolicy result" where
  "BrokerCommunicationPolicy_check p =
     (if 51 < List.length (bp_suppressed_message_ids p)
      then Inl (ValueError ''IBKR supports at most 51 suppressed order message IDs'')
      else if bp_unknown_warning_action p \<noteq> ''decline'' then Inl (ValueError ''Unknown IBKR order warnings must fail closed'')
      else if bp_maximum_reply_chain p < 1 then Inl (ValueError ''maximum_reply_chain must be positive'')
      else if bp_maximum_quote_age_ms p < 1 then Inl (ValueError ''maximum_quote_age_ms must be positive'')
      else if \<not> (0 \<le> bp_maximum_reprice_ticks p \<and> bp_maximum_reprice_ticks p \<le> 6)
      then Inl (ValueError ''maximum_reprice_ticks must be between 0 and 6'')
      else Inr p)"

definition warning_decision :: "BrokerCommunicationPolicy \<Rightarrow> string list \<Rightarrow> bool" where
  "warning_decision p message_ids \<longleftrightarrow>
     message_ids \<noteq> [] \<and> list_all (\<lambda>m. m \<in> set (bp_auto_confirm_message_ids p)) message_ids"

record ShortabilitySnapshot =
  sh_conid :: int
  sh_available_shares :: f64
  sh_classification :: string
  sh_observed_at :: datetime

definition shortable :: "ShortabilitySnapshot \<Rightarrow> bool" where
  "shortable s \<longleftrightarrow> 0 < sh_available_shares s \<and>
     lower (strip (sh_classification s)) \<notin> {[], ''not shortable'', ''unavailable'', ''none'', ''0'', ''false''}"

section \<open>Roles\<close>

definition opening_actions :: "string set" where
  "opening_actions = {''enter_long'', ''enter_short'', ''add_long'', ''add_short''}"

definition infer_order_role :: "string \<Rightarrow> bool \<Rightarrow> string \<Rightarrow> string" where
  "infer_order_role order_type child action =
     (if \<not> child then (if action \<in> opening_actions then ''entry'' else ''managed_exit'')
      else if upper order_type = ''LMT'' then ''profit_target''
      else if upper order_type \<in> {''STP'', ''STOP_LIMIT''} then ''protective_stop''
      else if upper order_type \<in> {''TRAIL'', ''TRAILLMT''} then ''trailing_stop''
      else ''protective_exit'')"

definition has_parent :: "OrderRequest \<Rightarrow> bool" where
  "has_parent r = (case or_parentId r of None \<Rightarrow> False | Some p \<Rightarrow> p \<noteq> [])"

definition order_role :: "OrderRequest \<Rightarrow> string \<Rightarrow> string" where
  "order_role r action = infer_order_role (or_orderType r) (has_parent r) action"

definition fill_action :: "StrategyIntent \<Rightarrow> string \<Rightarrow> string" where
  "fill_action i role =
     (if role \<in> {''profit_target'', ''protective_stop'', ''trailing_stop'', ''protective_exit''} then ''exit'' else si_action i)"

definition protective_repair_raw :: "OrderLineage \<Rightarrow> OrderLineage" where
  "protective_repair_raw raw =
     (let metadata = dict_or (ol_metadata raw);
          kvs = (case metadata of JObj kvs \<Rightarrow> kvs | _ \<Rightarrow> []);
          stop_reason = (if has_key metadata ''stop_exit_reason'' then jget metadata ''stop_exit_reason'' else JStr ''protective_stop'');
          extra = (if truthy (jget metadata ''momentum_target'') then [(''exit_reason'', stop_reason)] else [])
      in raw\<lparr>ol_metadata := JObj (dupdate kvs
           ([(''execution_role'', JStr ''protective_stop''), (''reason'', JStr ''protective_stop_filled'')] @ extra))\<rparr>)"

definition intent_side :: "StrategyIntent \<Rightarrow> string" where
  "intent_side i = (if si_action i \<in> {''enter_long'', ''add_long'', ''reduce_short'', ''cover''} then ''BUY'' else ''SELL'')"

section \<open>Prices\<close>

fun execution_policy_urgency :: "ExecutionPolicyName \<Rightarrow> ExecutionUrgency" where
  "execution_policy_urgency XP_PASSIVE = URG_PATIENT"
| "execution_policy_urgency XP_ADAPTIVE_PATIENT = URG_PATIENT"
| "execution_policy_urgency XP_ADAPTIVE_URGENT = URG_URGENT"
| "execution_policy_urgency XP_IMMEDIATE_WITH_LIMIT = URG_URGENT"
| "execution_policy_urgency XP_IBKR_NATIVE_ADAPTIVE = URG_URGENT"
| "execution_policy_urgency XP_ADAPTIVE_VERY_URGENT = URG_VERY_URGENT"
| "execution_policy_urgency _ = URG_REGULAR"

definition normalize_urgency :: "string \<Rightarrow> ExecutionUrgency result" where
  "normalize_urgency value =
     (case map_of [(''market'', URG_VERY_URGENT), (''very_urgent'', URG_VERY_URGENT), (''aggressive_limit'', URG_URGENT),
        (''urgent'', URG_URGENT), (''regular'', URG_REGULAR), (''passive_limit'', URG_PATIENT), (''patient'', URG_PATIENT)]
        (lower (strip value)) of
        Some u \<Rightarrow> Inr u
      | None \<Rightarrow> Inl (ValueError ''Unsupported execution urgency''))"

fun adaptive_interval_ms :: "ExecutionPolicyName \<Rightarrow> int" where
  "adaptive_interval_ms XP_ADAPTIVE_VERY_URGENT = 50"
| "adaptive_interval_ms XP_ADAPTIVE_URGENT = 100"
| "adaptive_interval_ms XP_IMMEDIATE_WITH_LIMIT = 100"
| "adaptive_interval_ms XP_ADAPTIVE_PATIENT = 500"
| "adaptive_interval_ms XP_PASSIVE = 500"
| "adaptive_interval_ms _ = 250"

text \<open>\<open>round(x, decimals)\<close>: the nearest decimal of the exact value, then the nearest double.\<close>

definition round_decimals :: "f64 \<Rightarrow> int \<Rightarrow> f64" where
  "round_decimals x decimals = fl (of_int (rhe (x * 10 ^ nat decimals)) / 10 ^ nat decimals)"

definition round_to_tick :: "(f64 \<Rightarrow> f64) \<Rightarrow> f64 \<Rightarrow> f64 \<Rightarrow> string \<Rightarrow> f64" where
  "round_to_tick log10 value tick side =
     (let units = fquo value tick;
          rounded = (if side = ''BUY'' then \<lceil>fsub units lit_1e9\<rceil> else \<lfloor>fadd units lit_1e9\<rfloor>);
          decimals = max 0 (min 8 (if tick < 1 then \<lceil>- log10 tick\<rceil> else 0))
      in round_decimals (fmul (float_of_int rounded) tick) decimals)"

definition touch_price :: "string \<Rightarrow> ExecutionQuote \<Rightarrow> f64" where
  "touch_price side q = (if side = ''BUY'' then xq_ask q else xq_bid q)"

definition passive_price :: "string \<Rightarrow> ExecutionQuote \<Rightarrow> f64" where
  "passive_price side q = (if side = ''BUY'' then xq_bid q else xq_ask q)"

definition beyond_touch :: "string \<Rightarrow> ExecutionQuote \<Rightarrow> int \<Rightarrow> f64" where
  "beyond_touch side q index =
     fadd (touch_price side q) (fmul (fmul (if side = ''BUY'' then 1 else - 1) (xq_tick_size q)) (float_of_int index))"

definition raw_steps :: "string \<Rightarrow> ExecutionUrgency \<Rightarrow> ExecutionQuote \<Rightarrow> int \<Rightarrow> (int \<times> f64) list" where
  "raw_steps side urgency q ticks =
     (let touch = touch_price side q; passive = passive_price side q in
      case urgency of
        URG_URGENT \<Rightarrow> [(0, touch)]
      | URG_VERY_URGENT \<Rightarrow> map (\<lambda>index. (index * 150, beyond_touch side q index)) [0..ticks]
      | URG_PATIENT \<Rightarrow> [(0, passive), (500, xq_midpoint q)]
      | URG_REGULAR \<Rightarrow>
          [(0, xq_midpoint q), (250, fadd passive (fmul (fsub touch passive) (1 / 2))),
           (500, fadd passive (fmul (fsub touch passive) (3 / 4))), (750, touch)])"

text \<open>The loop that drops a step whose price is close to the last one kept.\<close>

definition keep_step :: "PriceStep \<Rightarrow> PriceStep list \<Rightarrow> PriceStep list" where
  "keep_step s kept =
     (if kept = [] \<or> \<not> isclose lit_1e9 0 (st_price (last kept)) (st_price s) then kept @ [s] else kept)"

definition deduplicated :: "PriceStep list \<Rightarrow> PriceStep list" where
  "deduplicated steps = fold keep_step steps []"

definition price_steps :: "(f64 \<Rightarrow> f64) \<Rightarrow> string \<Rightarrow> ExecutionUrgency \<Rightarrow> ExecutionQuote \<Rightarrow> int \<Rightarrow> PriceStep list" where
  "price_steps log10 side urgency q ticks =
     deduplicated (map (\<lambda>(after, value). \<lparr>st_after_ms = after, st_price = round_to_tick log10 value (xq_tick_size q) side\<rparr>)
       (raw_steps side urgency q ticks))"

definition adaptive_raw :: "string \<Rightarrow> ExecutionPolicyName \<Rightarrow> ExecutionQuote \<Rightarrow> int \<Rightarrow> int \<Rightarrow> f64" where
  "adaptive_raw side name q reprice_index ticks =
     (let touch = touch_price side q; passive = passive_price side q in
      case name of
        XP_PASSIVE \<Rightarrow> passive
      | XP_MIDPOINT \<Rightarrow> xq_midpoint q
      | XP_ADAPTIVE_PATIENT \<Rightarrow> if 1 < reprice_index then xq_midpoint q else passive
      | XP_ADAPTIVE_URGENT \<Rightarrow> touch
      | XP_IMMEDIATE_WITH_LIMIT \<Rightarrow> touch
      | XP_IBKR_NATIVE_ADAPTIVE \<Rightarrow> touch
      | XP_ADAPTIVE_VERY_URGENT \<Rightarrow> beyond_touch side q (min reprice_index ticks)
      | _ \<Rightarrow> fadd passive (fmul (fsub touch passive)
               (min 1 (fquo (of_int reprice_index) (of_int (max 1 ticks))))))"

definition adaptive_price :: "(f64 \<Rightarrow> f64) \<Rightarrow> string \<Rightarrow> ExecutionPolicyName \<Rightarrow> ExecutionQuote \<Rightarrow> int \<Rightarrow> int \<Rightarrow> f64" where
  "adaptive_price log10 side name q reprice_index ticks =
     round_to_tick log10 (adaptive_raw (upper side) name q reprice_index ticks) (xq_tick_size q) side"

definition float_or_zero :: "json \<Rightarrow> f64 result" where
  "float_or_zero v = (if truthy v then to_float v else Inr 0)"

definition metadata_quote :: "(json \<Rightarrow> string) \<Rightarrow> StrategyIntent \<Rightarrow> ExecutionQuote option result" where
  "metadata_quote render i =
     (let observed = (if truthy (jget (si_metadata i) ''quote_observed_at'') then jget (si_metadata i) ''quote_observed_at''
            else JTime (si_event_time i))
      in bind_result (float_or_zero (jget (si_metadata i) ''bid'')) (\<lambda>bid.
         bind_result (float_or_zero (jget (si_metadata i) ''ask'')) (\<lambda>ask.
         bind_result (float_or_zero (jget (si_metadata i) ''tick_size'')) (\<lambda>tick.
         bind_result (case observed of JTime t \<Rightarrow> Inr t
           | v \<Rightarrow> (case parse_iso (utc_suffix (str_of render v)) of
               Some t \<Rightarrow> Inr t | None \<Rightarrow> Inl (ValueError ''Invalid isoformat string''))) (\<lambda>seen.
         if bid \<le> 0 \<or> ask \<le> 0 \<or> tick \<le> 0 then Inr None
         else bind_result (ExecutionQuote_check
             \<lparr>xq_bid = bid, xq_ask = ask, xq_observed_at = seen, xq_tick_size = tick\<rparr>) (\<lambda>q. Inr (Some q)))))))"

definition quote_age_ms :: "utc \<Rightarrow> ExecutionQuote \<Rightarrow> f64" where
  "quote_age_ms now q = max 0 (fmul (fl (of_int (now - instant (xq_observed_at q)) / 1000000)) 1000)"

definition bounded_tactic ::
    "(f64 \<Rightarrow> f64) \<Rightarrow> (json \<Rightarrow> string) \<Rightarrow> utc \<Rightarrow> bool \<Rightarrow> BrokerCommunicationPolicy \<Rightarrow> StrategyIntent \<Rightarrow> ExecutionQuote \<Rightarrow> ExecutionTactic result" where
  "bounded_tactic log10 render now enforce policy i q =
     (if enforce \<and> of_int (bp_maximum_quote_age_ms policy) < quote_age_ms now q
      then Inl (ValueError ''Execution quote is stale'')
      else bind_result (resolved_execution_policy render i) (\<lambda>xp.
        (let urgency = execution_policy_urgency (xp_name xp);
             side = intent_side i;
             steps = deduplicated (map (\<lambda>s. s\<lparr>st_price := envelope_bound (xp_envelope xp) side (st_price s)\<rparr>)
               (price_steps log10 side urgency q (bp_maximum_reprice_ticks policy)))
         in if steps = [] then Inl (ValueError ''max() iterable argument is empty'')
            else Inr \<lparr>et_urgency = urgency, et_side = side, et_steps = steps, et_quote = q,
                et_maximum_duration_ms = Max (set (map st_after_ms steps))\<rparr>)))"

definition execution_tactic ::
    "(f64 \<Rightarrow> f64) \<Rightarrow> (json \<Rightarrow> string) \<Rightarrow> utc \<Rightarrow> bool \<Rightarrow> BrokerCommunicationPolicy \<Rightarrow> ExecutionQuote option \<Rightarrow> StrategyIntent \<Rightarrow>
     ExecutionTactic option result" where
  "execution_tactic log10 render now enforce policy given i =
     (if si_action i \<notin> set sized_actions then Inr None
      else bind_result (case given of Some q \<Rightarrow> Inr (Some q) | None \<Rightarrow> metadata_quote render i) (\<lambda>quote.
        case quote of
          None \<Rightarrow> Inr None
        | Some q \<Rightarrow> bind_result (bounded_tactic log10 render now enforce policy i q) (\<lambda>t. Inr (Some t))))"

definition is_root_limit :: "OrderRequest \<Rightarrow> bool" where
  "is_root_limit r \<longleftrightarrow> or_orderType r = ''LMT'' \<and> \<not> has_parent r"

definition apply_initial_tactic :: "ExecutionTactic option \<Rightarrow> OrderRequest list \<Rightarrow> OrderRequest list result" where
  "apply_initial_tactic tactic orders =
     (case tactic of
        None \<Rightarrow> Inr orders
      | Some t \<Rightarrow> map_result (\<lambda>r. if is_root_limit r
            then OrderRequest_check (r\<lparr>or_price := Some (st_price (hd (et_steps t)))\<rparr>) else Inr r) orders)"

section \<open>Groups\<close>

text \<open>A fingerprint is the tuple of fields whose change makes a report news: of a \<open>LiveOrder\<close>, or
  of a broker-neutral \<open>OrderState\<close>.\<close>

datatype fingerprint =
    LiveFingerprint OrderStatus f64 f64 f64 f64 f64 string
  | CanonicalFingerprint OrderLifecycleState string f64 f64 f64 f64 f64 string string string

definition price_or_zero :: "f64 option \<Rightarrow> f64" where
  "price_or_zero p = (case p of None \<Rightarrow> 0 | Some x \<Rightarrow> x)"

definition live_order_state_fingerprint :: "LiveOrder \<Rightarrow> fingerprint" where
  "live_order_state_fingerprint r =
     LiveFingerprint (lo_order_status r) (lo_filledQuantity r) (lo_remainingQuantity r) (lo_avgPrice r)
       (price_or_zero (lo_price r)) (price_or_zero (lo_auxPrice r)) (lo_statusDescription r)"

definition canonical_order_state_fingerprint :: "OrderState \<Rightarrow> fingerprint" where
  "canonical_order_state_fingerprint r =
     CanonicalFingerprint (os_lifecycle_state r) (os_broker_status_raw r) (fl (os_filled_quantity r))
       (fl (os_remaining_quantity r)) (fl (os_average_fill_price r))
       (fl (price_or_zero (os_limit_price r))) (fl (price_or_zero (os_stop_price r)))
       (os_warning r) (os_rejection_code r) (os_rejection_reason r)"

definition management_state :: "LiveOrder \<Rightarrow> OrderManagementState" where
  "management_state r =
     (if lo_order_status r = ST_FILLED then OM_FILLED
      else if lo_order_status r = ST_CANCELLED then OM_CANCELLED
      else if lo_order_status r \<in> {ST_PENDING_CANCEL, ST_PRE_CANCELLED} then OM_CANCEL_PENDING
      else if 0 < lo_filledQuantity r then OM_PARTIALLY_FILLED
      else if is_open_status (lo_order_status r) then OM_WORKING
      else OM_OUTCOME_UNKNOWN)"

fun canonical_management_state :: "OrderLifecycleState \<Rightarrow> OrderManagementState" where
  "canonical_management_state LS_FILLED = OM_FILLED"
| "canonical_management_state LS_CANCELLED = OM_CANCELLED"
| "canonical_management_state LS_REJECTED = OM_REJECTED"
| "canonical_management_state LS_CANCEL_PENDING = OM_CANCEL_PENDING"
| "canonical_management_state LS_PARTIALLY_FILLED = OM_PARTIALLY_FILLED"
| "canonical_management_state LS_WORKING = OM_WORKING"
| "canonical_management_state LS_TRIGGER_PENDING = OM_WORKING"
| "canonical_management_state LS_PENDING_SUBMISSION = OM_SUBMITTING"
| "canonical_management_state _ = OM_OUTCOME_UNKNOWN"

record ManagedOrderGroup =
  mg_group_id :: string
  mg_intent :: StrategyIntent
  mg_account_id :: string
  mg_plan :: StrategyOrderPlan
  mg_state :: OrderManagementState
  mg_orders :: "OrderRequest list"
  mg_tactic :: "ExecutionTactic option"
  mg_broker_order_ids :: "string list"
  mg_roles :: "(string, string) dict"
  mg_slices :: "(string, string) dict"
  mg_request_indexes :: "(string, nat) dict"
  mg_filled_by_order :: "(string, f64) dict"
  mg_fingerprints :: "(string, fingerprint) dict"
  mg_terminal_ids :: "string set"
  mg_filled_quantity :: f64
  mg_remaining_quantity :: f64
  mg_current_limit_price :: "f64 option"
  mg_protection_delegated :: bool

text \<open>The group \<open>submit_intent\<close> creates.\<close>

definition new_group ::
    "string \<Rightarrow> StrategyIntent \<Rightarrow> string \<Rightarrow> StrategyOrderPlan \<Rightarrow> OrderRequest list \<Rightarrow> ExecutionTactic option \<Rightarrow> ManagedOrderGroup" where
  "new_group gid i account p orders tactic =
     \<lparr>mg_group_id = gid, mg_intent = i, mg_account_id = account, mg_plan = p, mg_state = OM_CREATED,
      mg_orders = orders, mg_tactic = tactic, mg_broker_order_ids = [], mg_roles = [], mg_slices = [],
      mg_request_indexes = [], mg_filled_by_order = [], mg_fingerprints = [], mg_terminal_ids = {},
      mg_filled_quantity = 0, mg_remaining_quantity = si_quantity i,
      mg_current_limit_price = (case tactic of
          Some t \<Rightarrow> (case et_steps t of [] \<Rightarrow> None | s # _ \<Rightarrow> Some (st_price s))
        | None \<Rightarrow> None), mg_protection_delegated = False\<rparr>"

fun cut_batches :: "nat list \<Rightarrow> 'a list \<Rightarrow> 'a list list" where
  "cut_batches [] _ = []"
| "cut_batches (n # ns) xs = take n xs # cut_batches ns (drop n xs)"

definition group_batches :: "ManagedOrderGroup \<Rightarrow> OrderRequest list list result" where
  "group_batches g =
     (if pl_batches (mg_plan g) = [] then Inr [mg_orders g]
      else if sum_list (map length (pl_batches (mg_plan g))) \<noteq> length (mg_orders g)
      then Inl (RuntimeError ''Order plan batch boundaries do not cover the managed orders'')
      else Inr (cut_batches (map length (pl_batches (mg_plan g))) (mg_orders g)))"

definition extend_managed_plan :: "StrategyOrderPlan \<Rightarrow> OrderRequest list \<Rightarrow> string \<Rightarrow> StrategyOrderPlan result" where
  "extend_managed_plan p managed slice =
     (if length managed \<noteq> length (pl_orders p) + 1
      then Inl (ValueError ''Managed order extension must append exactly one order'')
      else
        (let lengths = (if pl_batches p \<noteq> [] then map length (pl_batches p) else [length (pl_orders p)]);
             slices = (if pl_order_slice_ids p \<noteq> [] then pl_order_slice_ids p else replicate (length (pl_orders p)) [])
         in StrategyOrderPlan_check (p\<lparr>pl_orders := managed, pl_batches := cut_batches lengths managed @ [[last managed]],
              pl_order_slice_ids := slices @ [slice]\<rparr>)))"

text \<open>The first order of the group an identity names, by its client id or its parent.\<close>

definition names_request :: "string \<Rightarrow> OrderRequest \<Rightarrow> bool" where
  "names_request identity r \<longleftrightarrow> or_cOID r = identity \<or> or_parentId r = Some identity"

definition first_index :: "('a \<Rightarrow> bool) \<Rightarrow> 'a list \<Rightarrow> nat option" where
  "first_index P xs = (case filter (\<lambda>i. P (xs ! i)) [0 ..< length xs] of [] \<Rightarrow> None | i # _ \<Rightarrow> Some i)"

definition request_index_for_identity :: "ManagedOrderGroup \<Rightarrow> string \<Rightarrow> nat option" where
  "request_index_for_identity g identity =
     (if identity = [] then None else first_index (names_request identity) (mg_orders g))"

definition slice_for_client_identity :: "ManagedOrderGroup \<Rightarrow> string \<Rightarrow> string result" where
  "slice_for_client_identity g identity =
     (if identity = [] \<or> pl_order_slice_ids (mg_plan g) = [] then Inr []
      else (case first_index (names_request identity) (mg_orders g) of
          None \<Rightarrow> Inr []
        | Some i \<Rightarrow> if i < length (pl_order_slice_ids (mg_plan g)) then Inr (pl_order_slice_ids (mg_plan g) ! i)
                    else Inl (IndexError ''tuple index out of range'')))"

section \<open>Fills\<close>

text \<open>\<open>_apply_cumulative_fill\<close>: a broker reports cumulative quantities, in any order and more than
  once. The builtin \<open>sum\<close> adds from the left.\<close>

definition role_quantities :: "ManagedOrderGroup \<Rightarrow> string \<Rightarrow> f64 list" where
  "role_quantities g role =
     map snd (filter (\<lambda>(oid, quantity). map_of (mg_roles g) oid = Some role) (mg_filled_by_order g))"

definition remaining_of :: "ManagedOrderGroup \<Rightarrow> f64 \<Rightarrow> f64" where
  "remaining_of g filled = max 0 (fsub (si_quantity (mg_intent g)) filled)"

definition apply_cumulative_fill :: "string \<Rightarrow> f64 \<Rightarrow> string \<Rightarrow> ManagedOrderGroup \<Rightarrow> ManagedOrderGroup \<times> f64" where
  "apply_cumulative_fill oid quantity role g =
     (let previous = dget (mg_filled_by_order g) oid 0;
          cumulative = max previous quantity;
          g1 = g\<lparr>mg_filled_by_order := AList.update oid cumulative (mg_filled_by_order g)\<rparr>;
          filled = (if role = ''entry'' then fsum (role_quantities g1 ''entry'')
                    else if role = ''managed_exit'' then min (si_quantity (mg_intent g)) (fsum (role_quantities g1 ''managed_exit''))
                    else mg_filled_quantity g);
          g2 = (if role \<in> {''entry'', ''managed_exit''}
                then g1\<lparr>mg_filled_quantity := filled, mg_remaining_quantity := remaining_of g filled\<rparr> else g1)
      in (g2, max 0 (fsub cumulative previous)))"

definition open_root_row :: "ManagedOrderGroup \<Rightarrow> string \<Rightarrow> string \<Rightarrow> (string \<times> nat) option" where
  "open_root_row g role oid =
     (if map_of (mg_roles g) oid \<noteq> Some role \<or> oid \<in> mg_terminal_ids g then None
      else (case map_of (mg_request_indexes g) oid of
          None \<Rightarrow> None
        | Some i \<Rightarrow>
            if fadd (dget (mg_filled_by_order g) oid 0) lit_1e9 < price_or_zero (or_quantity (mg_orders g ! i))
            then Some (oid, i) else None))"

definition open_roots_for_role :: "ManagedOrderGroup \<Rightarrow> string \<Rightarrow> (string \<times> nat) list" where
  "open_roots_for_role g role = List.map_filter (open_root_row g role) (mg_broker_order_ids g)"

definition open_entry_roots :: "ManagedOrderGroup \<Rightarrow> (string \<times> nat) list" where
  "open_entry_roots g = open_roots_for_role g ''entry''"

definition open_adaptive_roots :: "ManagedOrderGroup \<Rightarrow> (string \<times> nat) list" where
  "open_adaptive_roots g =
     open_roots_for_role g
       (if si_action (mg_intent g) \<in> {''reduce_long'', ''take_profit'', ''exit'', ''reduce_short'', ''cover''}
        then ''managed_exit'' else ''entry'')"

section \<open>Acknowledgements\<close>

text \<open>A reply row of the broker, as far as the engine reads it.\<close>

record BrokerRow =
  br_order_id :: string
  br_error :: string
  br_error_code :: string
  br_message :: string
  br_reply_id :: string
  br_message_ids :: "string list"

definition warning_response :: "BrokerRow list \<Rightarrow> bool" where
  "warning_response rows =
     list_ex (\<lambda>r. br_reply_id r \<noteq> [] \<and> (br_message r \<noteq> [] \<or> br_message_ids r \<noteq> [])) rows"

definition row_failed :: "BrokerRow \<Rightarrow> bool" where
  "row_failed r \<longleftrightarrow> br_error r \<noteq> [] \<or> br_error_code r \<noteq> []"

definition require_modify_acknowledgement :: "BrokerRow list \<Rightarrow> unit result" where
  "require_modify_acknowledgement rows =
     (if rows = [] \<or> warning_response rows then Inl (ValueError ''Broker modification is not acknowledged'')
      else (case filter row_failed rows of
          [] \<Rightarrow> Inr ()
        | r # _ \<Rightarrow> Inl (ValueError (if br_error r \<noteq> [] then br_error r
            else if br_message r \<noteq> [] then br_message r else br_error_code r))))"

text \<open>\<open>response_request_indexes\<close> of \<open>_submit\<close>: the replies of each batch, and the orders they answer.\<close>

fun request_indexes :: "nat \<Rightarrow> nat \<Rightarrow> (nat \<times> nat) list \<Rightarrow> nat list" where
  "request_indexes orders offset [] = []"
| "request_indexes orders offset ((planned, replies) # rest) =
     map (\<lambda>index. min (offset + index) (orders - 1)) [0 ..< replies] @ request_indexes orders (offset + planned) rest"

definition acknowledge_row :: "(BrokerRow \<times> nat) \<Rightarrow> ManagedOrderGroup \<Rightarrow> ManagedOrderGroup" where
  "acknowledge_row p g =
     (let oid = br_order_id (fst p); i = snd p in
      if oid = [] then g
      else
        (let g1 = (if oid \<in> set (mg_broker_order_ids g) then g
                   else g\<lparr>mg_broker_order_ids := mg_broker_order_ids g @ [oid]\<rparr>);
             g2 = g1\<lparr>mg_roles := AList.update oid (order_role (mg_orders g ! i) (si_action (mg_intent g))) (mg_roles g1),
                     mg_request_indexes := AList.update oid i (mg_request_indexes g1)\<rparr>
         in if pl_order_slice_ids (mg_plan g) = [] then g2
            else g2\<lparr>mg_slices := AList.update oid (pl_order_slice_ids (mg_plan g) ! i) (mg_slices g2)\<rparr>))"

text \<open>The end of \<open>_submit\<close>: a failed row rejects the group, otherwise every row is recorded.\<close>

definition acknowledge :: "(BrokerRow \<times> nat) list \<Rightarrow> ManagedOrderGroup \<Rightarrow> ManagedOrderGroup" where
  "acknowledge rows g =
     (if mg_state g = OM_POLICY_BLOCKED then g
      else if list_ex (\<lambda>p. row_failed (fst p)) rows then g\<lparr>mg_state := OM_REJECTED\<rparr>
      else (fold acknowledge_row rows g)\<lparr>mg_state := OM_ACKNOWLEDGED\<rparr>)"

section \<open>Reports\<close>

text \<open>What a report says, whichever of the two formats it came in.\<close>

record OrderReport =
  rp_order_id :: string
  rp_identity :: string
  rp_order_type :: string
  rp_has_parent :: bool
  rp_filled :: f64
  rp_fingerprint :: fingerprint
  rp_state :: OrderManagementState

definition text_or :: "string \<Rightarrow> string \<Rightarrow> string" where
  "text_or a b = (if a \<noteq> [] then a else b)"

definition opt_text :: "string option \<Rightarrow> string" where
  "opt_text x = (case x of None \<Rightarrow> [] | Some s \<Rightarrow> s)"

definition live_report :: "LiveOrder \<Rightarrow> OrderReport" where
  "live_report r =
     \<lparr>rp_order_id = show_int (lo_orderId r), rp_identity = text_or (lo_cOID r) (opt_text (lo_parentId r)),
      rp_order_type = lo_orderType r, rp_has_parent = (opt_text (lo_parentId r) \<noteq> []), rp_filled = lo_filledQuantity r,
      rp_fingerprint = live_order_state_fingerprint r, rp_state = management_state r\<rparr>"

definition canonical_report :: "OrderState \<Rightarrow> OrderReport" where
  "canonical_report r =
     \<lparr>rp_order_id = os_broker_order_id r, rp_identity = text_or (os_client_order_id r) (os_parent_order_id r),
      rp_order_type = os_order_type r, rp_has_parent = (os_parent_order_id r \<noteq> []), rp_filled = fl (os_filled_quantity r),
      rp_fingerprint = canonical_order_state_fingerprint r, rp_state = canonical_management_state (os_lifecycle_state r)\<rparr>"

text \<open>A child order the group did not place is adopted when it is first reported.\<close>

definition adopt_order :: "OrderReport \<Rightarrow> ManagedOrderGroup \<Rightarrow> ManagedOrderGroup result" where
  "adopt_order r g =
     (let oid = rp_order_id r in
      if oid = [] \<or> oid \<in> set (mg_broker_order_ids g) then Inr g
      else bind_result (slice_for_client_identity g (rp_identity r)) (\<lambda>slice.
        (let g1 = g\<lparr>mg_broker_order_ids := mg_broker_order_ids g @ [oid],
               mg_roles := AList.update oid
                 (infer_order_role (rp_order_type r) (rp_has_parent r) (si_action (mg_intent g))) (mg_roles g),
               mg_slices := AList.update oid slice (mg_slices g)\<rparr>
         in Inr (case request_index_for_identity g (rp_identity r) of
               None \<Rightarrow> g1
             | Some i \<Rightarrow> g1\<lparr>mg_request_indexes := AList.update oid i (mg_request_indexes g1)\<rparr>))))"

definition exit_child_roles :: "string set" where
  "exit_child_roles = {''profit_target'', ''protective_stop'', ''trailing_stop''}"

definition filled_or_partial :: "ManagedOrderGroup \<Rightarrow> OrderManagementState" where
  "filled_or_partial g = (if mg_remaining_quantity g \<le> lit_1e9 then OM_FILLED else OM_PARTIALLY_FILLED)"

definition next_group_state :: "OrderReport \<Rightarrow> string \<Rightarrow> f64 \<Rightarrow> ManagedOrderGroup \<Rightarrow> OrderManagementState" where
  "next_group_state r role incremental g =
     (if role \<in> {''entry'', ''managed_exit''} \<and> 0 < rp_filled r then filled_or_partial g
      else if role \<in> exit_child_roles \<and> incremental \<le> 0 \<and> rp_state r \<in> TERMINAL_MANAGEMENT_STATES
      then (if mg_remaining_quantity g \<le> lit_1e9 then OM_FILLED
            else if 0 < mg_filled_quantity g then OM_PARTIALLY_FILLED else OM_WORKING)
      else rp_state r)"

record OrderGroupSnapshot =
  gs_group_id :: string
  gs_intent_id :: string
  gs_action :: string
  gs_state :: OrderManagementState
  gs_filled_quantity :: f64
  gs_remaining_quantity :: f64
  gs_fill_role :: string
  gs_broker_order_id :: string
  gs_slice_id :: string
  gs_fill_cumulative_quantity :: f64
  gs_fill_incremental_quantity :: f64
  gs_entry_submission_closed :: bool

definition group_snapshot ::
    "string option \<Rightarrow> string \<Rightarrow> string \<Rightarrow> f64 \<Rightarrow> f64 \<Rightarrow> ManagedOrderGroup \<Rightarrow> OrderGroupSnapshot" where
  "group_snapshot action role oid cumulative incremental g =
     \<lparr>gs_group_id = mg_group_id g, gs_intent_id = si_intent_id (mg_intent g), gs_action = text_or (opt_text action) (si_action (mg_intent g)), gs_state = mg_state g,
      gs_filled_quantity = mg_filled_quantity g, gs_remaining_quantity = mg_remaining_quantity g,
      gs_fill_role = role, gs_broker_order_id = oid, gs_slice_id = dget (mg_slices g) oid [],
      gs_fill_cumulative_quantity = cumulative, gs_fill_incremental_quantity = incremental,
      gs_entry_submission_closed = (0 < mg_filled_quantity g \<and> open_entry_roots g = [])\<rparr>"

text \<open>The body of \<open>on_order_update\<close> and \<open>_on_canonical_order_state\<close> up to the snapshot they return:
  an unchanged report only answers, a new one is accounted for and moves the group.\<close>

definition account_report :: "OrderReport \<Rightarrow> ManagedOrderGroup \<Rightarrow> ManagedOrderGroup \<times> OrderGroupSnapshot" where
  "account_report r g =
     (let oid = rp_order_id r; role = dget (mg_roles g) oid [] in
      if map_of (mg_fingerprints g) oid = Some (rp_fingerprint r) then (g, group_snapshot None role oid 0 0 g)
      else
        (let (g1, incremental) = apply_cumulative_fill oid (rp_filled r) role g;
             g2 = g1\<lparr>mg_fingerprints := AList.update oid (rp_fingerprint r) (mg_fingerprints g1),
                     mg_terminal_ids := (if rp_state r \<in> TERMINAL_MANAGEMENT_STATES
                       then insert oid (mg_terminal_ids g1) else mg_terminal_ids g1)\<rparr>;
             g3 = g2\<lparr>mg_state := next_group_state r role incremental g2\<rparr>
         in (g3, group_snapshot (if 0 < incremental then Some (fill_action (mg_intent g3) role) else None)
               role oid (rp_filled r) incremental g3)))"

definition order_update :: "OrderReport \<Rightarrow> ManagedOrderGroup \<Rightarrow> (ManagedOrderGroup \<times> OrderGroupSnapshot) result" where
  "order_update r g = bind_result (adopt_order r g) (\<lambda>g1. Inr (account_report r g1))"

text \<open>The reports of a group in the order they arrive, with the snapshots handed to the strategy.\<close>

fun order_updates :: "OrderReport list \<Rightarrow> ManagedOrderGroup \<Rightarrow> (ManagedOrderGroup \<times> OrderGroupSnapshot list) result" where
  "order_updates [] g = Inr (g, [])"
| "order_updates (r # rs) g =
     bind_result (order_update r g) (\<lambda>(g1, s).
       bind_result (order_updates rs g1) (\<lambda>(g2, ss). Inr (g2, s # ss)))"

section \<open>Exit quantities and the short-sale check\<close>

definition working_exit_quantity :: "string \<Rightarrow> string \<Rightarrow> ManagedOrderGroup list \<Rightarrow> f64" where
  "working_exit_quantity ticker account groups =
     fsum (map (\<lambda>g. max 0 (mg_remaining_quantity g))
       (filter (\<lambda>g. mg_account_id g = account \<and> upper (si_ticker (mg_intent g)) = upper ticker \<and>
          si_action (mg_intent g) \<in> {''exit'', ''cover''} \<and> mg_state g \<notin> TERMINAL_MANAGEMENT_STATES) groups))"

definition list_max0 :: "f64 list \<Rightarrow> f64" where
  "list_max0 xs = (case xs of [] \<Rightarrow> 0 | x # ys \<Rightarrow> foldl max x ys)"

definition live_remaining :: "LiveOrder list \<Rightarrow> string \<Rightarrow> f64 option" where
  "live_remaining orders oid =
     map_of (dict_of (\<lambda>r. show_int (lo_orderId r)) lo_remainingQuantity
       (filter (\<lambda>r. is_open_status (lo_order_status r)) orders)) oid"

definition pending_exit_quantity :: "LiveOrder list \<Rightarrow> StrategyIntent \<Rightarrow> string \<Rightarrow> ManagedOrderGroup list \<Rightarrow> f64" where
  "pending_exit_quantity orders i account groups =
     foldl (\<lambda>pending g.
       if mg_account_id g \<noteq> account \<or> si_ticker (mg_intent g) \<noteq> si_ticker i \<or>
          jget (si_metadata (mg_intent g)) ''assignment_id'' \<noteq> jget (si_metadata i) ''assignment_id'' \<or>
          si_action (mg_intent g) \<notin> {''exit'', ''cover''} then pending
       else if mg_state g = OM_OUTCOME_UNKNOWN then fadd pending (mg_remaining_quantity g)
       else fadd pending (list_max0 (List.map_filter (live_remaining orders) (mg_broker_order_ids g)))) 0 groups"

definition require_shortability ::
    "StrategyIntent \<Rightarrow> StrategyOrderPlan \<Rightarrow> (int \<Rightarrow> ShortabilitySnapshot) option \<Rightarrow> unit result" where
  "require_shortability i p provider =
     (if si_action i \<notin> {''enter_short'', ''add_short''} then Inr ()
      else (case provider of
          None \<Rightarrow> Inl (ValueError ''Short order skipped: IBKR shortability is unavailable'')
        | Some f \<Rightarrow>
            (case pl_orders p of
               [] \<Rightarrow> Inl (IndexError ''tuple index out of range'')
             | r # _ \<Rightarrow>
                 (let s = f (or_conid r) in
                  if \<not> shortable s \<or> sh_available_shares s < si_quantity i
                  then Inl (ValueError ''Short order skipped: IBKR does not report sufficient shortable shares'')
                  else Inr ()))))"

section \<open>Routing\<close>

text \<open>The engine's maps: its groups, and the group each broker and client order id belongs to. A
  \<open>LiveOrder\<close> is also found by the client id of its parent.\<close>

record OrderRegistry =
  rg_groups :: "(string, ManagedOrderGroup) dict"
  rg_by_broker_id :: "(string, string) dict"
  rg_by_client_id :: "(string, string) dict"

definition group_id_for :: "OrderRegistry \<Rightarrow> string \<Rightarrow> string list \<Rightarrow> string" where
  "group_id_for reg oid clients =
     fold (\<lambda>c found. if found = [] \<and> c \<noteq> [] then dget (rg_by_client_id reg) c [] else found) clients
       (dget (rg_by_broker_id reg) oid [])"

definition group_for :: "OrderRegistry \<Rightarrow> string \<Rightarrow> string list \<Rightarrow> ManagedOrderGroup option" where
  "group_for reg oid clients =
     (if group_id_for reg oid clients = [] then None else map_of (rg_groups reg) (group_id_for reg oid clients))"

definition register_group :: "ManagedOrderGroup \<Rightarrow> OrderRegistry \<Rightarrow> OrderRegistry" where
  "register_group g reg =
     reg\<lparr>rg_groups := AList.update (mg_group_id g) g (rg_groups reg),
         rg_by_client_id := fold (\<lambda>r d. if or_cOID r = [] then d else AList.update (or_cOID r) (mg_group_id g) d)
           (mg_orders g) (rg_by_client_id reg)\<rparr>"

definition route_report ::
    "OrderReport \<Rightarrow> string list \<Rightarrow> OrderRegistry \<Rightarrow> (OrderRegistry \<times> OrderGroupSnapshot option) result" where
  "route_report r clients reg =
     (case group_for reg (rp_order_id r) clients of
        None \<Rightarrow> Inr (reg, None)
      | Some g \<Rightarrow> bind_result (order_update r g) (\<lambda>(g1, s).
          Inr (reg\<lparr>rg_groups := AList.update (mg_group_id g) g1 (rg_groups reg),
                   rg_by_broker_id := (if rp_order_id r = [] \<or> rp_order_id r \<in> set (mg_broker_order_ids g)
                     then rg_by_broker_id reg
                     else AList.update (rp_order_id r) (mg_group_id g) (rg_by_broker_id reg))\<rparr>, Some s)))"

definition on_order_update :: "LiveOrder \<Rightarrow> OrderRegistry \<Rightarrow> (OrderRegistry \<times> OrderGroupSnapshot option) result" where
  "on_order_update r = route_report (live_report r) [lo_cOID r, opt_text (lo_parentId r)]"

definition on_canonical_order_state :: "OrderState \<Rightarrow> OrderRegistry \<Rightarrow> (OrderRegistry \<times> OrderGroupSnapshot option) result" where
  "on_canonical_order_state r = route_report (canonical_report r) [os_client_order_id r]"

definition acknowledged_ids :: "(BrokerRow \<times> nat) list \<Rightarrow> ManagedOrderGroup \<Rightarrow> string list" where
  "acknowledged_ids rows g =
     (if mg_state g = OM_POLICY_BLOCKED \<or> list_ex (\<lambda>p. row_failed (fst p)) rows then []
      else filter (\<lambda>oid. oid \<noteq> [] \<and> oid \<notin> set (mg_broker_order_ids g)) (map (br_order_id \<circ> fst) rows))"

definition acknowledge_group :: "ManagedOrderGroup \<Rightarrow> (BrokerRow \<times> nat) list \<Rightarrow> OrderRegistry \<Rightarrow> OrderRegistry" where
  "acknowledge_group g rows reg =
     reg\<lparr>rg_groups := AList.update (mg_group_id g) (acknowledge rows g) (rg_groups reg),
         rg_by_broker_id := fold (\<lambda>oid. AList.update oid (mg_group_id g)) (acknowledged_ids rows g) (rg_by_broker_id reg)\<rparr>"

end
