(* ===== verification/Allocation.thy ===== *)
theory Allocation
  imports Portfolio OrderGroups
begin

text \<open>
  Sizing in \<open>src/trading_runtime/portfolio.py\<close>: reservations and allocation lots, the price and
  planned loss an entry is sized for, the metrics of an account, and the capacities that limit an
  entry. An \<open>AdmissionState\<close> is a \<open>PortfolioAccountState\<close> with the broker snapshot these
  functions read. Numbers are finite doubles; a whole JSON number is an \<open>int\<close>.
\<close>

section \<open>Records\<close>

record PortfolioGroupPolicy =
  gp_group_id :: string
  gp_account_keys :: "string list"
  gp_maximum_gross_exposure :: f64
  gp_maximum_ticker_exposure :: f64

definition PortfolioGroupPolicy_check :: "PortfolioGroupPolicy \<Rightarrow> PortfolioGroupPolicy result" where
  "PortfolioGroupPolicy_check g =
     (if gp_group_id g = [] \<or> gp_account_keys g = []
      then Inl (ValueError ''Portfolio group identity and accounts are required'')
      else if gp_maximum_gross_exposure g < 0 \<or> gp_maximum_ticker_exposure g < 0
      then Inl (ValueError ''Portfolio group limits cannot be negative'')
      else Inr g)"

record PortfolioReservation =
  rv_reservation_id :: string
  rv_decision_id :: string
  rv_intent_id :: string
  rv_account_key :: string
  rv_account_id :: string
  rv_strategy_id :: string
  rv_assignment_id :: string
  rv_ticker :: string
  rv_action :: string
  rv_quantity :: f64
  rv_remaining_quantity :: f64
  rv_reference_price :: f64
  rv_reserved_notional :: f64
  rv_reserved_planned_risk :: f64
  rv_created_at :: utc
  rv_status :: string
  rv_filled_quantity :: f64
  rv_admission_epoch :: int
  rv_admission_owner :: string
  rv_reserved_entry_fees :: f64
  rv_cash_tranche_key :: string
  rv_cash_tranche_size :: f64
  rv_cash_tranche_count :: int
  rv_cash_tranche_next :: int
  rv_cash_tranche_budget :: f64

record PortfolioAllocationLot =
  lt_allocation_id :: string
  lt_account_key :: string
  lt_account_id :: string
  lt_strategy_id :: string
  lt_strategy_revision :: int
  lt_assignment_id :: string
  lt_ticker :: string
  lt_quantity :: f64
  lt_average_price :: f64
  lt_planned_risk :: f64
  lt_realized_pnl :: f64
  lt_source :: string
  lt_updated_at :: utc

record PortfolioReconciliationDifference =
  df_account_key :: string
  df_ticker :: string
  df_broker_quantity :: f64
  df_attributed_quantity :: f64
  df_unattributed_quantity :: f64
  df_observed_at :: utc

record AdmissionState = PortfolioAccountState +
  sz_summary :: "AccountSummary option"
  sz_ledger :: "AccountLedger option"
  sz_positions :: "(string, PortfolioPosition) dict"
  sz_observed_at :: "utc option"
  sz_snapshot_id :: string
  sz_open_orders :: "(LiveOrder + OrderState) list"
  sz_watermarks :: "(string, utc) dict"
  sz_stale_reason :: string
  sz_realized_pnl_baseline :: "f64 option"
  sz_realized_pnl_today :: f64
  sz_peak_net_liquidation :: f64
  sz_pending_requests :: "(string, string list) dict"

record PortfolioEngine =
  pe_strategy_id :: string
  pe_strategy_revision :: int
  pe_allocation_identity :: string
  pe_unprotected_contracts :: "string list"
  pe_states :: "(string, AdmissionState) dict"
  pe_groups :: "PortfolioGroupPolicy list"
  pe_control_modes :: "(string, PortfolioControlMode) dict option"
  pe_reservations :: "(string, PortfolioReservation) dict"
  pe_allocations :: "(string, PortfolioAllocationLot) dict"
  pe_differences :: "(string \<times> string, PortfolioReconciliationDifference) dict"
  pe_last_filled :: "(string, f64) dict"

definition admission_policy :: "AdmissionState \<Rightarrow> PortfolioPolicy" where
  "admission_policy s = policy_of (PortfolioAccountState.truncate s)"

definition account_id_of :: "AdmissionState \<Rightarrow> string" where
  "account_id_of s = pr_account_id (pa_profile s)"

definition ENTRY_ACTIONS :: "string set" where
  "ENTRY_ACTIONS = {''enter_long'', ''add_long'', ''enter_short'', ''add_short''}"

definition REDUCTION_ACTIONS :: "string set" where
  "REDUCTION_ACTIONS = {''reduce_long'', ''take_profit'', ''exit'', ''reduce_short'', ''cover''}"

definition PROTECTION_ACTIONS :: "string set" where
  "PROTECTION_ACTIONS = {''replace_profit_target'', ''replace_protective_stop''}"

definition closed_reservation_statuses :: "string set" where
  "closed_reservation_statuses = {''released'', ''filled'', ''cancelled'', ''rejected'', ''policy_blocked''}"

definition open_reservation :: "PortfolioReservation \<Rightarrow> bool" where
  "open_reservation r \<longleftrightarrow> rv_status r \<notin> closed_reservation_statuses"

text \<open>The rows of an account that still hold capital.\<close>

definition account_reservations :: "PortfolioEngine \<Rightarrow> string \<Rightarrow> PortfolioReservation list" where
  "account_reservations e account =
     filter (\<lambda>r. rv_account_id r = account \<and> open_reservation r) (dvalues (pe_reservations e))"

definition account_lots :: "PortfolioEngine \<Rightarrow> string \<Rightarrow> PortfolioAllocationLot list" where
  "account_lots e account = filter (\<lambda>l. lt_account_id l = account) (dvalues (pe_allocations e))"

section \<open>Prices and planned losses\<close>

definition float_or :: "json \<Rightarrow> f64 \<Rightarrow> f64 result" where
  "float_or v d = (if truthy v then to_float v else Inr d)"

definition nonzero_or :: "f64 option \<Rightarrow> f64 \<Rightarrow> f64" where
  "nonzero_or x d = (case x of Some p \<Rightarrow> if p = 0 then d else p | None \<Rightarrow> d)"

definition worst_entry_price :: "(json \<Rightarrow> string) \<Rightarrow> StrategyIntent \<Rightarrow> f64 result" where
  "worst_entry_price render i =
     bind_result (resolved_execution_policy render i) (\<lambda>xp.
       (let reference = si_reference_price i; envelope = xp_envelope xp in
        if si_action i \<in> {''enter_long'', ''add_long''}
        then bind_result (float_or (jget (si_metadata i) ''ask'') 0) (\<lambda>ask.
          Inr (nonzero_or (xe_maximum_buy_price envelope) (max reference ask)))
        else if si_action i \<in> {''enter_short'', ''add_short''}
        then bind_result (float_or (jget (si_metadata i) ''bid'') 0) (\<lambda>bid.
          Inr (nonzero_or (xe_minimum_sell_price envelope) (if 0 < bid then min reference bid else reference)))
        else Inr reference))"

definition slice_stop :: "StrategyIntent \<Rightarrow> ProtectionProfile \<Rightarrow> ProtectionSlice \<Rightarrow> f64 \<Rightarrow> f64 \<Rightarrow> f64 \<Rightarrow> f64 result" where
  "slice_stop i profile s entry quantity volatility =
     (let side = (if si_action i \<in> {''enter_short'', ''add_short''} then ''short'' else ''long'') in
      if si_action i \<in> {''add_long'', ''add_short''} \<and> pr_add_policy profile = AP_INHERIT_POSITION_STOP
      then bind_result (float_or (jget (si_metadata i) ''position_stop_price'') 0) (\<lambda>stop.
        if stop \<le> 0 then Inl (ValueError ''inherit_position_stop add policy requires position_stop_price'')
        else if (side = ''long'' \<and> entry \<le> stop) \<or> (side = ''short'' \<and> stop \<le> entry)
        then Inl (ValueError ''inherited position stop is on the wrong side of the add'')
        else Inr stop)
      else resolve_stop (sl_stop s) entry side quantity volatility)"

text \<open>\<open>given\<close> is the optional argument \<open>entry_price\<close>.\<close>

definition planned_loss :: "(json \<Rightarrow> string) \<Rightarrow> StrategyIntent \<Rightarrow> f64 \<Rightarrow> f64 option \<Rightarrow> f64 result" where
  "planned_loss render i quantity given =
     (if si_action i \<notin> ENTRY_ACTIONS then Inr 0
      else bind_result (resolved_protection_profile i) (\<lambda>profile.
        case profile of
          None \<Rightarrow> Inr 0
        | Some p \<Rightarrow>
            bind_result (case given of Some x \<Rightarrow> Inr x | None \<Rightarrow> worst_entry_price render i) (\<lambda>entry.
            bind_result (float_or (jget (si_metadata i) ''volatility'') 0) (\<lambda>volatility.
            fold_result (\<lambda>s planned.
              (let q = fmul quantity (sl_quantity_fraction s) in
               bind_result (slice_stop i p s entry q volatility) (\<lambda>stop.
               Inr (fadd planned (fmul \<bar>fsub entry stop\<bar> q))))) (pr_slices p) 0))))"

definition completion_quote :: "StrategyIntent \<Rightarrow> bool" where
  "completion_quote i \<longleftrightarrow> jget (si_metadata i) ''entry_completion_quote'' \<in> {JStr ''bid'', JStr ''ask''}"

definition reserved_entry_loss :: "(json \<Rightarrow> string) \<Rightarrow> StrategyIntent \<Rightarrow> f64 \<Rightarrow> f64 result" where
  "reserved_entry_loss render i quantity =
     bind_result (planned_loss render i quantity None) (\<lambda>actual.
       if si_action i \<in> {''enter_long'', ''add_long''} \<and> completion_quote i
       then bind_result (worst_entry_price render i) (\<lambda>price.
         bind_result (float_or (jget (si_metadata i) ''entry_funding_price'') 0) (\<lambda>funding.
         bind_result (planned_loss render i quantity (Some (max price funding))) (\<lambda>funded.
         Inr (max actual funded))))
       else Inr actual)"

definition risk_per_share :: "(json \<Rightarrow> string) \<Rightarrow> StrategyIntent \<Rightarrow> f64 \<Rightarrow> f64 result" where
  "risk_per_share render i quantity =
     (let q = max quantity lit_1e12 in
      bind_result (reserved_entry_loss render i q) (\<lambda>loss. Inr (fquo loss q)))"

text \<open>\<open>max(price, float(metadata.get("entry_funding_price") or price))\<close>.\<close>

definition funded_price :: "StrategyIntent \<Rightarrow> f64 \<Rightarrow> f64 result" where
  "funded_price i price =
     bind_result (float_or (jget (si_metadata i) ''entry_funding_price'') price) (\<lambda>f. Inr (max price f))"

definition entry_funding_factor :: "(json \<Rightarrow> string) \<Rightarrow> StrategyIntent \<Rightarrow> PortfolioPolicy \<Rightarrow> f64 result" where
  "entry_funding_factor render i p =
     (if \<not> completion_quote i then Inr 1
      else bind_result (worst_entry_price render i) (\<lambda>price.
        bind_result (funded_price i price) (\<lambda>reserved.
        bind_result (fdiv reserved price) (\<lambda>markup.
        Inr (fmul markup (fadd 1 (fquo (pp_entry_fee_buffer_bps p) 10000)))))))"

definition entry_fee_per_share :: "(json \<Rightarrow> string) \<Rightarrow> StrategyIntent \<Rightarrow> PortfolioPolicy \<Rightarrow> f64 \<Rightarrow> f64 result" where
  "entry_fee_per_share render i p base_price =
     (if \<not> completion_quote i then Inr 0
      else bind_result (worst_entry_price render i) (\<lambda>price.
        bind_result (funded_price i price) (\<lambda>funded.
        bind_result (fdiv (fmul base_price funded) price) (\<lambda>cost.
        Inr (fquo (fmul cost (pp_entry_fee_buffer_bps p)) 10000)))))"

section \<open>Metrics\<close>

record PortfolioMetrics =
  pm_net_liquidation :: f64
  pm_available_funds :: f64
  pm_buying_power :: f64
  pm_gross_exposure :: f64
  pm_net_exposure :: f64
  pm_reserved_notional :: f64
  pm_open_risk :: f64
  pm_daily_loss :: f64
  pm_drawdown :: f64
  pm_position_count :: f64

definition summary_amount :: "(AccountSummary \<Rightarrow> f64) \<Rightarrow> AdmissionState \<Rightarrow> f64" where
  "summary_amount field s = (case sz_summary s of None \<Rightarrow> 0 | Some a \<Rightarrow> field a)"

definition gross_value :: "AdmissionState \<Rightarrow> f64" where
  "gross_value s = fsum (map (\<lambda>p. \<bar>pp_mktValue p\<bar>) (dvalues (sz_positions s)))"

definition net_value :: "AdmissionState \<Rightarrow> f64" where
  "net_value s = fsum (map pp_mktValue (dvalues (sz_positions s)))"

definition reserved_notional_of :: "PortfolioEngine \<Rightarrow> AdmissionState \<Rightarrow> f64" where
  "reserved_notional_of e s = fsum (map rv_reserved_notional (account_reservations e (account_id_of s)))"

definition reserved_risk_of :: "PortfolioEngine \<Rightarrow> AdmissionState \<Rightarrow> f64" where
  "reserved_risk_of e s = fsum (map rv_reserved_planned_risk (account_reservations e (account_id_of s)))"

definition allocated_risk_of :: "PortfolioEngine \<Rightarrow> AdmissionState \<Rightarrow> f64" where
  "allocated_risk_of e s = fsum (map lt_planned_risk (account_lots e (account_id_of s)))"

definition portfolio_metrics :: "PortfolioEngine \<Rightarrow> AdmissionState \<Rightarrow> PortfolioMetrics" where
  "portfolio_metrics e s =
     (let unrealized = fsum (map pp_unrealizedPnl (dvalues (sz_positions s))) in
      \<lparr>pm_net_liquidation = summary_amount as_netliquidation s, pm_available_funds = summary_amount as_availablefunds s,
       pm_buying_power = summary_amount as_buyingpower s, pm_gross_exposure = gross_value s, pm_net_exposure = net_value s,
       pm_reserved_notional = reserved_notional_of e s, pm_open_risk = fadd (reserved_risk_of e s) (allocated_risk_of e s),
       pm_daily_loss = max 0 (- fadd (sz_realized_pnl_today s) unrealized),
       pm_drawdown = max 0 (fsub (sz_peak_net_liquidation s) (summary_amount as_netliquidation s)),
       pm_position_count = of_nat (length (filter (\<lambda>p. lit_1e12 < \<bar>pp_position p\<bar>) (dvalues (sz_positions s))))\<rparr>)"

definition snapshot_stale :: "AdmissionState \<Rightarrow> utc \<Rightarrow> bool" where
  "snapshot_stale s now =
     (case sz_observed_at s of
        None \<Rightarrow> True
      | Some t \<Rightarrow>
          pr_mode (pa_profile s) \<notin> {''replay'', ''backtest'', ''backtest_debug''} \<and>
          of_int (pp_maximum_snapshot_age_ms (admission_policy s)) < fmul (fl (of_int (now - t) / 1000000)) 1000)"

section \<open>Capacities\<close>

definition broker_cash_capacity :: "AdmissionState \<Rightarrow> f64" where
  "broker_cash_capacity s =
     (case sz_summary s of
        None \<Rightarrow> 0
      | Some a \<Rightarrow>
          max 0 (case sz_ledger s of
              Some l \<Rightarrow> if \<not> pp_allow_margin (admission_policy s) \<and> \<not> pp_allow_unsettled_cash (admission_policy s)
                then min (as_availablefunds a) (al_settledcash l) else as_availablefunds a
            | None \<Rightarrow> as_availablefunds a))"

text \<open>What an account may still spend: \<open>available_cash\<close> of \<open>_entry_capacity\<close>, also the base of a
  fraction of unreserved cash.\<close>

definition unreserved_cash :: "PortfolioEngine \<Rightarrow> AdmissionState \<Rightarrow> f64" where
  "unreserved_cash e s =
     max 0 (fsub (fsub (fmul (broker_cash_capacity s) (pp_maximum_buying_power_utilization (admission_policy s)))
       (pp_minimum_cash_reserve (admission_policy s))) (reserved_notional_of e s))"

definition capital_request_quantity :: "(json \<Rightarrow> string) \<Rightarrow> PortfolioEngine \<Rightarrow> AdmissionState \<Rightarrow> StrategyIntent \<Rightarrow> f64 result" where
  "capital_request_quantity render e s i =
     (case si_capital_request i of
        None \<Rightarrow> Inl (PyTypeError ''NoneType object has no attribute'')
      | Some c \<Rightarrow>
          (let bounded = (\<lambda>q. Inr (max (cr_minimum_quantity c)
                 (case cr_maximum_quantity c of Some m \<Rightarrow> min q m | None \<Rightarrow> q)));
               cash = broker_cash_capacity s
           in if cr_mode c = ''fixed_quantity'' then bounded (cr_value c)
              else bind_result (worst_entry_price render i) (\<lambda>price.
                if sz_summary s = None \<or> price \<le> 0 then Inr 0
                else if cr_mode c = ''fixed_notional'' then bounded (fquo (cr_value c) price)
                else if cr_mode c = ''mandate_fraction''
                then bounded (fquo (fmul (if truthy (jget (si_metadata i) ''cash_fraction_of_unreserved'')
                  then unreserved_cash e s else cash) (cr_value c)) price)
                else if cr_mode c = ''risk_fraction''
                then bind_result (risk_per_share render i (max (si_quantity i) 1)) (\<lambda>risk.
                  bounded (if 0 < risk then fquo (fmul cash (cr_value c)) risk else 0))
                else bounded (fquo cash price))))"

definition group_rows :: "PortfolioEngine \<Rightarrow> PortfolioGroupPolicy \<Rightarrow> PortfolioReservation list" where
  "group_rows e g =
     filter (\<lambda>r. rv_account_key r \<in> set (gp_account_keys g) \<and> open_reservation r) (dvalues (pe_reservations e))"

definition keyed_states :: "PortfolioEngine \<Rightarrow> string list \<Rightarrow> AdmissionState list" where
  "keyed_states e keys =
     List.map_filter (\<lambda>k. find (\<lambda>s. pr_account_key (pa_profile s) = k) (dvalues (pe_states e))) keys"

definition group_limits :: "PortfolioEngine \<Rightarrow> string \<Rightarrow> f64 \<Rightarrow> PortfolioGroupPolicy \<Rightarrow> f64 list" where
  "group_limits e ticker price g =
     (let states = keyed_states e (gp_account_keys g);
          gross = fsum (concat (map (\<lambda>s. map (\<lambda>p. \<bar>pp_mktValue p\<bar>) (dvalues (sz_positions s))) states));
          held = fsum (List.map_filter (\<lambda>s. map_option (\<lambda>p. \<bar>pp_mktValue p\<bar>) (map_of (sz_positions s) (upper ticker))) states);
          reserved = fsum (map rv_reserved_notional (group_rows e g));
          ticker_reserved = fsum (map rv_reserved_notional (filter (\<lambda>r. rv_ticker r = upper ticker) (group_rows e g)))
      in [fquo (max 0 (fsub (fsub (gp_maximum_gross_exposure g) gross) reserved)) price,
          fquo (max 0 (fsub (fsub (gp_maximum_ticker_exposure g) held) ticker_reserved)) price])"

definition min_list1 :: "f64 list \<Rightarrow> f64" where
  "min_list1 xs = foldl min (hd xs) (tl xs)"

definition group_capacity :: "PortfolioEngine \<Rightarrow> AdmissionState \<Rightarrow> string \<Rightarrow> f64 \<Rightarrow> f64 option" where
  "group_capacity e s ticker price =
     (let limits = concat (map (group_limits e ticker price)
            (filter (\<lambda>g. pr_account_key (pa_profile s) \<in> set (gp_account_keys g)) (pe_groups e)))
      in if limits = [] then None else Some (min_list1 limits))"

text \<open>\<open>dict(mandates.get(identity) or mandates.get(strategy_id) or {})\<close>.\<close>

definition strategy_mandate :: "PortfolioEngine \<Rightarrow> AdmissionState \<Rightarrow> json" where
  "strategy_mandate e s =
     (let mandates = pr_strategy_mandates (pa_profile s); named = jget mandates (pe_allocation_identity e) in
      dict_or (if truthy named then named else jget mandates (pe_strategy_id e)))"

definition strategy_fraction :: "PortfolioEngine \<Rightarrow> AdmissionState \<Rightarrow> f64" where
  "strategy_fraction e s =
     (let fractions = pr_strategy_allocations (pa_profile s) in
      dget fractions (pe_allocation_identity e) (dget fractions (pe_strategy_id e)
        (dget fractions ''default'' (pp_maximum_strategy_fraction (admission_policy s)))))"

definition attributed_value :: "PortfolioEngine \<Rightarrow> AdmissionState \<Rightarrow> f64" where
  "attributed_value e s =
     fsum (map (\<lambda>l. \<bar>fmul (lt_quantity l) (lt_average_price l)\<bar>)
       (filter (\<lambda>l. lt_strategy_id l \<in> {pe_strategy_id e, pe_allocation_identity e}) (account_lots e (account_id_of s))))"

definition position_value :: "AdmissionState \<Rightarrow> string \<Rightarrow> f64" where
  "position_value s ticker = (case map_of (sz_positions s) ticker of Some p \<Rightarrow> \<bar>pp_mktValue p\<bar> | None \<Rightarrow> 0)"

definition risk_capital_of :: "PortfolioEngine \<Rightarrow> AdmissionState \<Rightarrow> f64" where
  "risk_capital_of e s =
     (let funded_cost = fsum (map (\<lambda>p. \<bar>fmul (pp_position p) (pp_avgCost p)\<bar>) (dvalues (sz_positions s)));
          fees = fsum (map rv_reserved_entry_fees (account_reservations e (account_id_of s)))
      in max 0 (fsub (fsub (fadd (broker_cash_capacity s) funded_cost) (pp_minimum_cash_reserve (admission_policy s))) fees))"

definition notional_capacities ::
    "PortfolioEngine \<Rightarrow> AdmissionState \<Rightarrow> StrategyIntent \<Rightarrow> f64 \<Rightarrow> f64 \<Rightarrow> f64 \<Rightarrow> f64 \<Rightarrow> (string \<times> f64) list" where
  "notional_capacities e s i requested unit capacity_price acquired =
     (let p = admission_policy s;
          equity = max 0 (fmul (summary_amount as_netliquidation s) (pp_eligible_equity_fraction p));
          held = position_value s (upper (si_ticker i));
          reserved = reserved_notional_of e s;
          room = (\<lambda>limit used. fquo (max 0 (fsub limit used)) capacity_price)
      in [(''requested'', requested),
          (''order_notional'', fquo (pp_maximum_order_notional p) capacity_price),
          (''available_funds'', fquo (unreserved_cash e s) unit),
          (''gross_exposure'', room (fsub (pp_maximum_gross_exposure p) (gross_value s)) reserved),
          (''position'', room (fmul equity (pp_maximum_position_fraction p)) held),
          (''ticker'', room (fmul equity (pp_maximum_ticker_fraction p)) held),
          (''strategy'', room (fsub (fmul equity (strategy_fraction e s)) (attributed_value e s)) reserved)] @
         (if pr_mode (pa_profile s) \<in> {''live'', ''paper''}
          then [(''account_cash_percentage'', fquo (max 0 (fsub (fsub (fsub
                  (fmul (fadd (broker_cash_capacity s) acquired) (strategy_fraction e s)) acquired)
                  (pp_minimum_cash_reserve p)) reserved)) unit)]
          else []) @
         [(''net_exposure'', if si_action i \<in> {''enter_long'', ''add_long''}
             then room (fsub (pp_maximum_net_long_exposure p) (max 0 (net_value s))) reserved
             else room (fsub (pp_maximum_net_short_exposure p) (max 0 (- net_value s))) reserved)])"

definition planned_risk_fraction :: "PortfolioEngine \<Rightarrow> AdmissionState \<Rightarrow> f64 result" where
  "planned_risk_fraction e s =
     (let p = admission_policy s; own = jget (strategy_mandate e s) ''maximum_planned_risk_fraction'' in
      bind_result (if own \<noteq> JNull then to_float own else Inr (pp_maximum_planned_risk_fraction p)) (\<lambda>f.
      Inr (min (pp_maximum_planned_risk_fraction p) (max 0 f))))"

definition risk_capacities ::
    "(json \<Rightarrow> string) \<Rightarrow> PortfolioEngine \<Rightarrow> AdmissionState \<Rightarrow> StrategyIntent \<Rightarrow> f64 \<Rightarrow> f64 \<Rightarrow> (string \<times> f64) list result" where
  "risk_capacities render e s i requested base_price =
     bind_result (risk_per_share render i requested) (\<lambda>loss.
     bind_result (float_or (jget (si_metadata i) ''fx_to_base'') 1) (\<lambda>fx.
       (let risk = fmul loss fx; p = admission_policy s; capital = risk_capital_of e s in
        if \<not> 0 < risk then Inr []
        else bind_result (entry_fee_per_share render i p base_price) (\<lambda>fee.
          bind_result (planned_risk_fraction e s) (\<lambda>fraction.
          Inr [(''planned_risk'', fquo (max 0 (fmul capital fraction)) (fadd risk (fmul fee fraction))),
               (''open_risk'', fquo (max 0 (fsub (fsub (fmul capital (pp_maximum_open_risk_fraction p))
                  (allocated_risk_of e s)) (reserved_risk_of e s)))
                 (fadd risk (fmul fee (pp_maximum_open_risk_fraction p))))])))))"

definition occupied_tickers :: "PortfolioEngine \<Rightarrow> AdmissionState \<Rightarrow> string set" where
  "occupied_tickers e s =
     set (map fst (filter (\<lambda>(ticker, p). lit_1e12 < \<bar>pp_position p\<bar>) (sz_positions s))) \<union>
     set (map rv_ticker (filter (\<lambda>r. 0 < rv_reserved_notional r) (account_reservations e (account_id_of s))))"

definition count_capacity :: "PortfolioEngine \<Rightarrow> AdmissionState \<Rightarrow> StrategyIntent \<Rightarrow> (string \<times> f64) list" where
  "count_capacity e s i =
     (if upper (si_ticker i) \<notin> occupied_tickers e s \<and>
         pp_maximum_open_positions (admission_policy s) \<le> int (card (occupied_tickers e s))
      then [(''position_count'', 0)] else [])"

definition dimension_capacity ::
    "(json \<Rightarrow> string) \<Rightarrow> AdmissionState \<Rightarrow> StrategyIntent \<Rightarrow> f64 \<Rightarrow> string \<times> f64 \<Rightarrow> (string \<times> f64) list" where
  "dimension_capacity render s i capacity_price d =
     (let value = strip (str_or render (jget (si_metadata i) (fst d)) []);
          equity = max 0 (fmul (summary_amount as_netliquidation s) (pp_eligible_equity_fraction (admission_policy s)));
          existing = fsum (map (\<lambda>p. \<bar>pp_mktValue p\<bar>)
            (filter (\<lambda>p. strip (str_or render (jget (pp_raw p) (fst d)) []) = value) (dvalues (sz_positions s))))
      in if value = [] then [] else [(fst d, fquo (max 0 (fsub (fmul equity (snd d)) existing)) capacity_price)])"

definition capacity_price_of :: "(json \<Rightarrow> string) \<Rightarrow> StrategyIntent \<Rightarrow> f64 \<Rightarrow> f64 result" where
  "capacity_price_of render i base_price =
     bind_result (worst_entry_price render i) (\<lambda>price.
       if completion_quote i \<and> 0 < price
       then bind_result (funded_price i price) (\<lambda>funded. Inr (fmul base_price (fquo funded price)))
       else Inr base_price)"

text \<open>Every limit on an entry, in the order of the source, and the smallest of them with the names
  of the limits that bind. A base price of zero makes the first division raise.\<close>

definition entry_capacities ::
    "(json \<Rightarrow> string) \<Rightarrow> PortfolioEngine \<Rightarrow> AdmissionState \<Rightarrow> StrategyIntent \<Rightarrow> f64 \<Rightarrow> f64 \<Rightarrow> f64 \<Rightarrow> (string \<times> f64) list result" where
  "entry_capacities render e s i requested base_price acquired =
     (let p = admission_policy s in
      bind_result (capacity_price_of render i base_price) (\<lambda>capacity_price.
      bind_result (entry_funding_factor render i p) (\<lambda>factor.
        if capacity_price = 0 \<or> fmul base_price factor = 0 then Inl ZeroDivisionError
        else bind_result (risk_capacities render e s i requested base_price) (\<lambda>risks.
          Inr (notional_capacities e s i requested (fmul base_price factor) capacity_price acquired @ risks @ count_capacity e s i @
            concat (map (dimension_capacity render s i capacity_price)
              [(''sector'', pp_maximum_sector_fraction p), (''industry'', pp_maximum_industry_fraction p),
               (''correlation_group'', pp_maximum_correlated_group_fraction p)]) @
            (case group_capacity e s (si_ticker i) capacity_price of
               None \<Rightarrow> [] | Some c \<Rightarrow> [(''portfolio_group'', c)]))))))"

definition entry_capacity ::
    "(json \<Rightarrow> string) \<Rightarrow> PortfolioEngine \<Rightarrow> AdmissionState \<Rightarrow> StrategyIntent \<Rightarrow> f64 \<Rightarrow> f64 \<Rightarrow> f64 \<Rightarrow> (f64 \<times> string list) result" where
  "entry_capacity render e s i requested base_price acquired =
     bind_result (entry_capacities render e s i requested base_price acquired) (\<lambda>capacities.
       (let approved = min_list1 (map snd capacities) in
        Inr (max 0 approved,
          map (\<lambda>(name, value). ''limited_by_'' @ name)
            (filter (\<lambda>(name, value). value \<le> fadd approved lit_1e9 \<and> name \<noteq> ''requested'') capacities))))"

end
