(* ===== verification/ProtectedExits.thy ===== *)
theory ProtectedExits
  imports Allocation
begin

text \<open>
  \<open>_modify_existing_protected_exit\<close> of \<open>src/trading_runtime/order_management.py\<close>: an exit takes
  over the profit targets an entry group already has in the book. The targets are repriced at the
  broker and a new group, the managed exit, becomes the owner of their order ids, while the entry
  group goes on listing them. Then the steps of the registry. The broker's answer to a modification
  (with the dialogue about its warnings, if there is one) is the parameter \<open>broker\<close>; the id of the
  new group, a uuid, is an argument.
\<close>

section \<open>The targets that can be taken over\<close>

definition lit_1e6 :: f64 where "lit_1e6 = fl (1 / 10 ^ 6)"

record ExitTarget =
  xt_group :: ManagedOrderGroup
  xt_order_id :: string
  xt_index :: nat
  xt_request :: OrderRequest
  xt_live :: LiveOrder

definition open_live_by_id :: "LiveOrder list \<Rightarrow> (string, LiveOrder) dict" where
  "open_live_by_id orders =
     dict_of (\<lambda>r. show_int (lo_orderId r)) id (filter (\<lambda>r. is_open_status (lo_order_status r)) orders)"

definition protected_candidates :: "string \<Rightarrow> StrategyIntent \<Rightarrow> OrderRegistry \<Rightarrow> ManagedOrderGroup list" where
  "protected_candidates account i reg =
     filter (\<lambda>g. mg_account_id g = account \<and> upper (si_ticker (mg_intent g)) = upper (si_ticker i) \<and>
         si_action (mg_intent g) \<in> set entry_actions \<and> mg_broker_order_ids g \<noteq> [])
       (dvalues (rg_groups reg))"

definition sliced_target :: "(string, LiveOrder) dict \<Rightarrow> StrategyIntent \<Rightarrow> ManagedOrderGroup \<Rightarrow> string \<Rightarrow> ExitTarget option" where
  "sliced_target live i g oid =
     (if map_of (mg_roles g) oid \<noteq> Some ''profit_target'' then None
      else (case (map_of live oid, map_of (mg_request_indexes g) oid) of
          (Some l, Some n) \<Rightarrow>
            (let r = mg_orders g ! n in
             if upper (or_orderType r) = ''LMT'' \<and> upper (or_side r) = intent_side i
             then Some \<lparr>xt_group = g, xt_order_id = oid, xt_index = n, xt_request = r, xt_live = l\<rparr> else None)
        | _ \<Rightarrow> None))"

definition sliced_targets :: "(string, LiveOrder) dict \<Rightarrow> StrategyIntent \<Rightarrow> ManagedOrderGroup list \<Rightarrow> ExitTarget list" where
  "sliced_targets live i groups =
     concat (map (\<lambda>g. List.map_filter (sliced_target live i g) (mg_broker_order_ids g)) groups)"

text \<open>The one target of a group with a single slice: its order id is found by the position of its request.\<close>

definition is_target_index :: "StrategyIntent \<Rightarrow> ManagedOrderGroup \<Rightarrow> nat \<Rightarrow> bool" where
  "is_target_index i g n \<longleftrightarrow>
     (let r = mg_orders g ! n in
      has_parent r \<and> or_orderType r = ''LMT'' \<and> upper (or_side r) = intent_side i \<and> n < length (mg_broker_order_ids g))"

definition single_target :: "(string, LiveOrder) dict \<Rightarrow> StrategyIntent \<Rightarrow> ManagedOrderGroup \<Rightarrow> ExitTarget option" where
  "single_target live i g =
     (case filter (is_target_index i g) [0 ..< length (mg_orders g)] of
        [] \<Rightarrow> None
      | n # _ \<Rightarrow>
          (let oid = mg_broker_order_ids g ! n in
           case map_of live oid of
             None \<Rightarrow> None
           | Some l \<Rightarrow>
               if isclose 0 lit_1e6 (lo_remainingQuantity l) (si_quantity i)
               then Some \<lparr>xt_group = g, xt_order_id = oid, xt_index = n, xt_request = mg_orders g ! n, xt_live = l\<rparr>
               else None))"

section \<open>Taking them over\<close>

definition initial_exit_price :: "ExecutionTactic option \<Rightarrow> StrategyOrderPlan \<Rightarrow> StrategyIntent \<Rightarrow> f64 result" where
  "initial_exit_price tactic p i =
     (case tactic of
        Some t \<Rightarrow> (case et_steps t of [] \<Rightarrow> Inl (IndexError ''tuple index out of range'') | s # _ \<Rightarrow> Inr (st_price s))
      | None \<Rightarrow> (case pl_orders p of
            [] \<Rightarrow> Inl (IndexError ''tuple index out of range'')
          | r # _ \<Rightarrow> Inr (nonzero_or (or_price r) (si_reference_price i))))"

definition exit_replacement ::
    "(json \<Rightarrow> string) \<Rightarrow> StrategyIntent \<Rightarrow> f64 \<Rightarrow> f64 option \<Rightarrow> OrderRequest \<Rightarrow> OrderRequest result" where
  "exit_replacement render i price quantity r =
     OrderRequest_check (r\<lparr>or_quantity := quantity, or_price := Some price,
       or_raw := (or_raw r)\<lparr>ol_metadata := merged (dict_or (ol_metadata (or_raw r)))
         [(''execution_role'', JStr ''managed_exit''),
          (''reason'', JStr (str_or render (jget (si_metadata i) ''reason_code'') ''strategy_exit''))]\<rparr>\<rparr>)"

definition change_group :: "string \<Rightarrow> (ManagedOrderGroup \<Rightarrow> ManagedOrderGroup) \<Rightarrow> OrderRegistry \<Rightarrow> OrderRegistry" where
  "change_group gid f reg =
     (case map_of (rg_groups reg) gid of
        None \<Rightarrow> reg
      | Some g \<Rightarrow> reg\<lparr>rg_groups := AList.update gid (f g) (rg_groups reg)\<rparr>)"

text \<open>The managed exit: its orders are the replacements, in the order of their targets, and what the
  targets had filled before is the baseline of its accounting.\<close>

definition exit_group ::
    "string \<Rightarrow> StrategyIntent \<Rightarrow> string \<Rightarrow> ExecutionTactic option \<Rightarrow> (ExitTarget \<times> OrderRequest) list \<Rightarrow>
     OrderManagementState \<Rightarrow> f64 option \<Rightarrow> ManagedOrderGroup" where
  "exit_group gid i account tactic rows state price =
     (new_group gid i account (orders_plan (map snd rows)) (map snd rows) tactic)
       \<lparr>mg_state := state, mg_broker_order_ids := map (xt_order_id \<circ> fst) rows,
        mg_roles := dict_of (xt_order_id \<circ> fst) (\<lambda>_. ''managed_exit'') rows,
        mg_request_indexes := dict_of (xt_order_id \<circ> fst \<circ> snd) fst (enumerate 0 rows),
        mg_filled_by_order := dict_of (xt_order_id \<circ> fst) (lo_filledQuantity \<circ> xt_live \<circ> fst) rows,
        mg_current_limit_price := price\<rparr>"

definition hand_over :: "ManagedOrderGroup \<Rightarrow> string list \<Rightarrow> OrderRegistry \<Rightarrow> OrderRegistry" where
  "hand_over x sources reg =
     fold (\<lambda>source. change_group source (\<lambda>g. g\<lparr>mg_protection_delegated := True\<rparr>)) sources
       (reg\<lparr>rg_groups := AList.update (mg_group_id x) x (rg_groups reg),
            rg_by_broker_id := fold (\<lambda>oid. AList.update oid (mg_group_id x)) (mg_broker_order_ids x) (rg_by_broker_id reg)\<rparr>)"

datatype exit_reply = ExitAnswered "BrokerRow list" | ExitBlocked

type_synonym modify_broker = "string \<Rightarrow> OrderRequest \<Rightarrow> exit_reply result"

definition replace_target ::
    "(json \<Rightarrow> string) \<Rightarrow> modify_broker \<Rightarrow> StrategyIntent \<Rightarrow> f64 \<Rightarrow> ExitTarget \<Rightarrow> (OrderRegistry, ExitTarget \<times> OrderRequest) act" where
  "replace_target render broker i price t reg =
     (case bind_result (exit_replacement render i price (or_quantity (xt_request t)) (xt_request t)) (\<lambda>r.
           bind_result (broker (xt_order_id t) r) (\<lambda>_. Inr r)) of
        Inl e \<Rightarrow> (Inl e, reg)
      | Inr r \<Rightarrow> (Inr (t, r), change_group (mg_group_id (xt_group t)) (\<lambda>g. g\<lparr>mg_orders := (mg_orders g)[xt_index t := r]\<rparr>) reg))"

definition group_answer :: "string \<Rightarrow> OrderRegistry \<Rightarrow> OrderGroupSnapshot option" where
  "group_answer gid reg = map_option (group_snapshot None [] [] 0 0) (map_of (rg_groups reg) gid)"

definition set_state :: "string \<Rightarrow> OrderManagementState \<Rightarrow> OrderRegistry \<Rightarrow> OrderRegistry" where
  "set_state gid state = change_group gid (\<lambda>g. g\<lparr>mg_state := state\<rparr>)"

text \<open>Several sliced targets: all are repriced, in their groups too, then handed over together. An
  exception of the broker leaves the ones before it repriced and nothing handed over.\<close>

definition sliced_exit ::
    "(json \<Rightarrow> string) \<Rightarrow> modify_broker \<Rightarrow> string \<Rightarrow> StrategyIntent \<Rightarrow> string \<Rightarrow> ExecutionTactic option \<Rightarrow> ExitTarget list \<Rightarrow> f64 \<Rightarrow>
     (OrderRegistry, OrderGroupSnapshot option) act" where
  "sliced_exit render broker gid i account tactic targets price =
     abind (for_each (replace_target render broker i price) targets) (\<lambda>rows reg.
       (let handed = set_state gid OM_ACKNOWLEDGED
              (hand_over (exit_group gid i account tactic rows OM_SUBMITTING (Some price))
                (map (mg_group_id \<circ> xt_group) targets) reg)
        in (Inr (group_answer gid handed), handed)))"

definition delegated :: "bool \<Rightarrow> string \<Rightarrow> OrderRegistry \<Rightarrow> OrderRegistry" where
  "delegated value gid = change_group gid (\<lambda>g. g\<lparr>mg_protection_delegated := value\<rparr>)"

text \<open>One target: it is handed over before the broker is asked, and stays with the new group whatever
  the answer; a failure, a blocked warning or a rejection only ends the delegation.\<close>

definition single_exit ::
    "(json \<Rightarrow> string) \<Rightarrow> modify_broker \<Rightarrow> string \<Rightarrow> StrategyIntent \<Rightarrow> string \<Rightarrow> ExecutionTactic option \<Rightarrow> StrategyOrderPlan \<Rightarrow>
     ExitTarget \<Rightarrow> (OrderRegistry, OrderGroupSnapshot option) act" where
  "single_exit render broker gid i account tactic p t reg =
     (case bind_result (initial_exit_price tactic p i) (\<lambda>price.
           exit_replacement render i price (Some (fadd (lo_filledQuantity (xt_live t)) (si_quantity i))) (xt_request t)) of
        Inl e \<Rightarrow> (Inl e, reg)
      | Inr r \<Rightarrow>
          (let source = mg_group_id (xt_group t);
               handed = set_state gid OM_SUBMITTING
                 (hand_over (exit_group gid i account tactic [(t, r)] OM_CREATED None) [source] reg);
               settled = (\<lambda>state ok. set_state gid state (if ok then handed else delegated False source handed))
           in case broker (xt_order_id t) r of
                Inl e \<Rightarrow> (Inl e, delegated False source handed)
              | Inr ExitBlocked \<Rightarrow>
                  (Inr (group_answer gid (settled OM_POLICY_BLOCKED False)), settled OM_POLICY_BLOCKED False)
              | Inr (ExitAnswered rows) \<Rightarrow>
                  (let state = (if list_ex row_failed rows then OM_REJECTED else OM_ACKNOWLEDGED);
                       reg' = settled state (state = OM_ACKNOWLEDGED)
                   in (Inr (group_answer gid reg'), reg'))))"

text \<open>A partial exit may not take over a target: the sibling stop would keep the whole quantity.\<close>

definition partial_exit_check :: "StrategyIntent \<Rightarrow> unit result" where
  "partial_exit_check i =
     bind_result (float_or (jget (si_metadata i) ''position_quantity'') (si_quantity i)) (\<lambda>position.
       if fadd (si_quantity i) lit_1e9 < fl (of_int (py_floor (fmul position 1000000)) / 1000000)
       then Inl (ValueError ''Partial protected exit is blocked'') else Inr ())"

definition modify_existing_protected_exit ::
    "(json \<Rightarrow> string) \<Rightarrow> modify_broker \<Rightarrow> string \<Rightarrow> bool \<Rightarrow> LiveOrder list \<Rightarrow> string \<Rightarrow> StrategyOrderPlan \<Rightarrow> ExecutionTactic option \<Rightarrow>
     StrategyIntent \<Rightarrow> (OrderRegistry, OrderGroupSnapshot option) act" where
  "modify_existing_protected_exit render broker gid strategy_one orders account p tactic i reg =
     (if strategy_one \<or> si_action i \<notin> {''take_profit'', ''reduce_long'', ''cover'', ''reduce_short''} then (Inr None, reg)
      else (case partial_exit_check i of
          Inl e \<Rightarrow> (Inl e, reg)
        | Inr _ \<Rightarrow>
            (let live = open_live_by_id orders;
                 candidates = protected_candidates account i reg;
                 sliced = sliced_targets live i candidates in
             if 1 < length sliced \<and>
                isclose 0 lit_1e6 (fsum (map (lo_remainingQuantity \<circ> xt_live) sliced)) (si_quantity i)
             then abind (alift (initial_exit_price tactic p i)) (sliced_exit render broker gid i account tactic sliced) reg
             else (case List.map_filter (single_target live i) (rev candidates) of
                 [] \<Rightarrow> (Inr None, reg)
               | t # _ \<Rightarrow> single_exit render broker gid i account tactic p t reg))))"

section \<open>The registry's steps\<close>

definition empty_registry :: OrderRegistry where
  "empty_registry = \<lparr>rg_groups = [], rg_by_broker_id = [], rg_by_client_id = []\<rparr>"

text \<open>
  A group is created, its submission is acknowledged, a report arrives, a managed exit takes over
  order ids other groups list; and whatever else the engine does to a group: it may change every
  field but the id and list further orders, as a protection repair does, and the client ids may
  change with it. A new group has a new id, and the broker gives no two submissions the same order
  id. The label of a step is the group that takes over and the ids it takes.
\<close>

inductive registry_step :: "OrderRegistry \<Rightarrow> (string \<times> string list) \<Rightarrow> OrderRegistry \<Rightarrow> bool" where
  Create: "\<lbrakk>mg_group_id g \<noteq> []; map_of (rg_groups reg) (mg_group_id g) = None; mg_broker_order_ids g = []\<rbrakk>
    \<Longrightarrow> registry_step reg ([], []) (register_group g reg)"
| Acknowledge: "\<lbrakk>map_of (rg_groups reg) gid = Some g;
    \<forall>oid \<in> set (acknowledged_ids rows g). map_of (rg_by_broker_id reg) oid \<in> {None, Some gid}\<rbrakk>
    \<Longrightarrow> registry_step reg ([], []) (acknowledge_group g rows reg)"
| Report: "route_report r clients reg = Inr (reg', s) \<Longrightarrow> registry_step reg ([], []) reg'"
| HandOver: "\<lbrakk>mg_group_id x \<noteq> []; map_of (rg_groups reg) (mg_group_id x) = None;
    \<forall>oid \<in> set (mg_broker_order_ids x). map_of (rg_by_broker_id reg) oid \<noteq> None\<rbrakk>
    \<Longrightarrow> registry_step reg (mg_group_id x, mg_broker_order_ids x) (hand_over x sources reg)"
| Manage: "\<lbrakk>map_of (rg_groups reg) gid = Some g; mg_group_id g' = mg_group_id g;
    set (mg_broker_order_ids g') = set (mg_broker_order_ids g) \<union> set new;
    \<forall>oid \<in> set new. map_of (rg_by_broker_id reg) oid \<in> {None, Some gid}\<rbrakk>
    \<Longrightarrow> registry_step reg ([], []) (reg\<lparr>rg_groups := AList.update gid g' (rg_groups reg),
      rg_by_broker_id := fold (\<lambda>oid. AList.update oid gid) new (rg_by_broker_id reg), rg_by_client_id := clients\<rparr>)"

inductive_cases registry_stepE: "registry_step reg l reg'"

inductive registry_run :: "OrderRegistry \<Rightarrow> (string \<times> string list) list \<Rightarrow> OrderRegistry \<Rightarrow> bool" where
  start: "registry_run reg [] reg"
| more: "registry_run reg ls reg' \<Longrightarrow> registry_step reg' l reg'' \<Longrightarrow> registry_run reg (ls @ [l]) reg''"

text \<open>The ids taken over in a run, and the group an id belongs to after it.\<close>

definition taken_over :: "(string \<times> string list) list \<Rightarrow> string set" where
  "taken_over ls = (\<Union>(gid, oids) \<in> set ls. set oids)"

fun owner_after :: "(string \<times> string list) list \<Rightarrow> string \<Rightarrow> string \<Rightarrow> string" where
  "owner_after [] oid gid = gid"
| "owner_after ((x, oids) # ls) oid gid = owner_after ls oid (if oid \<in> set oids then x else gid)"

end
