(* ===== verification/OrderGroupsLaws.thy ===== *)
theory OrderGroupsLaws
  imports OrderGroups StrategyOrdersLaws
begin

text \<open>
  What the order manager guarantees: the prices of a tactic respect the intent's envelope, and the
  fill accounting of a group is exact whatever order the broker's reports arrive in.
\<close>

section \<open>Prices\<close>

definition strictly_later :: "PriceStep list \<Rightarrow> bool" where
  "strictly_later steps \<longleftrightarrow> sorted_wrt (\<lambda>a b. st_after_ms a < st_after_ms b) steps"

lemma keep_step_subseq: "set (keep_step s kept) \<subseteq> insert s (set kept)"
  by (auto simp: keep_step_def)

lemma keep_step_hd: "kept \<noteq> [] \<Longrightarrow> keep_step s kept \<noteq> [] \<and> hd (keep_step s kept) = hd kept"
  by (auto simp: keep_step_def)

lemma fold_keep_step:
  assumes "kept \<noteq> []" "strictly_later (kept @ steps)"
  shows "fold keep_step steps kept \<noteq> [] \<and> hd (fold keep_step steps kept) = hd kept \<and>
    set (fold keep_step steps kept) \<subseteq> set kept \<union> set steps \<and> strictly_later (fold keep_step steps kept)"
  using assms
proof (induction steps arbitrary: kept)
  case (Cons s steps)
  have "strictly_later (keep_step s kept @ steps)"
    using Cons.prems by (auto simp: keep_step_def strictly_later_def sorted_wrt_append)
  from Cons.IH [OF _ this] keep_step_hd [OF Cons.prems(1), of s] keep_step_subseq [of s kept]
  show ?case by auto
qed simp

lemma deduplicated_steps:
  assumes "steps \<noteq> []" "strictly_later steps"
  shows "deduplicated steps \<noteq> [] \<and> hd (deduplicated steps) = hd steps \<and>
    set (deduplicated steps) \<subseteq> set steps \<and> strictly_later (deduplicated steps)"
proof -
  from assms(1) obtain s rest where [simp]: "steps = s # rest" by (cases steps) auto
  have "keep_step s [] = [s]" by (simp add: keep_step_def)
  with fold_keep_step [of "[s]" rest] assms(2) show ?thesis by (auto simp: deduplicated_def)
qed

lemma strictly_later_map:
  "(\<And>s. st_after_ms (f s) = st_after_ms s) \<Longrightarrow> strictly_later (map f steps) = strictly_later steps"
  by (simp add: strictly_later_def sorted_wrt_map)

lemma strictly_later_Max:
  "strictly_later steps \<Longrightarrow> steps \<noteq> [] \<Longrightarrow> Max (set (map st_after_ms steps)) = st_after_ms (last steps)"
proof (induction steps rule: rev_induct)
  case (snoc s steps)
  then show ?case
    by (intro Max_eqI) (auto simp: strictly_later_def sorted_wrt_append less_imp_le)
qed simp

lemma raw_steps_timed:
  assumes "0 \<le> ticks"
  shows "raw_steps side urgency q ticks \<noteq> [] \<and> fst (hd (raw_steps side urgency q ticks)) = 0 \<and>
    sorted_wrt (\<lambda>a b. fst a < fst b) (raw_steps side urgency q ticks)"
proof (cases urgency)
  case URG_VERY_URGENT
  have "sorted_wrt (<) [0..ticks]" by simp
  with URG_VERY_URGENT assms show ?thesis
    by (simp add: raw_steps_def Let_def sorted_wrt_map upto_rec1 hd_map)
qed (simp_all add: raw_steps_def Let_def)

lemma price_steps_timed:
  assumes "0 \<le> ticks"
  shows "price_steps log10 side urgency q ticks \<noteq> [] \<and>
    st_after_ms (hd (price_steps log10 side urgency q ticks)) = 0 \<and>
    strictly_later (price_steps log10 side urgency q ticks)"
proof -
  let ?f = "\<lambda>(after, value). \<lparr>st_after_ms = after, st_price = round_to_tick log10 value (xq_tick_size q) side\<rparr>"
  let ?raw = "raw_steps side urgency q ticks"
  have raw: "?raw \<noteq> []" "fst (hd ?raw) = 0" "sorted_wrt (\<lambda>a b. fst a < fst b) ?raw"
    using raw_steps_timed [OF assms] by auto
  then have "strictly_later (map ?f ?raw)"
    by (simp add: strictly_later_def sorted_wrt_map case_prod_beta)
  with deduplicated_steps [of "map ?f ?raw"] raw show ?thesis
    by (simp add: price_steps_def hd_map case_prod_beta)
qed

text \<open>A fresh quote always yields a tactic.\<close>

lemma bounded_tactic_returns:
  assumes "\<not> of_int (bp_maximum_quote_age_ms policy) < quote_age_ms now q" "resolved_execution_policy render i = Inr xp"
    and "0 \<le> bp_maximum_reprice_ticks policy"
  shows "\<exists>t. bounded_tactic log10 render now enforce policy i q = Inr t"
proof -
  let ?raw = "price_steps log10 (intent_side i) (execution_policy_urgency (xp_name xp)) q (bp_maximum_reprice_ticks policy)"
  let ?bound = "\<lambda>s. s\<lparr>st_price := envelope_bound (xp_envelope xp) (intent_side i) (st_price s)\<rparr>"
  have "?raw \<noteq> []" "strictly_later ?raw" using price_steps_timed [OF assms(3)] by auto
  then have "strictly_later (map ?bound ?raw)" by (simp add: strictly_later_map)
  with deduplicated_steps [of "map ?bound ?raw"] \<open>?raw \<noteq> []\<close> have "deduplicated (map ?bound ?raw) \<noteq> []" by auto
  with assms(1,2) show ?thesis by (simp add: bounded_tactic_def Let_def)
qed

text \<open>C32. A tactic works only at prices the intent's envelope permits: it starts at once, its steps
  follow one another strictly in time, the last one ends it, and every price is one that
  \<open>ExecutionEnvelope.permits\<close> accepts. So an entry is never worked above its maximum buy price nor
  an exit below its minimum sell price, however the quote moves.\<close>

theorem tactic_within_envelope:
  assumes "bounded_tactic log10 render now enforce policy i q = Inr t"
    and "resolved_execution_policy render i = Inr xp"
    and "0 \<le> bp_maximum_reprice_ticks policy"
  shows "et_steps t \<noteq> [] \<and> st_after_ms (hd (et_steps t)) = 0 \<and>
    sorted_wrt (\<lambda>a b. st_after_ms a < st_after_ms b) (et_steps t) \<and>
    et_maximum_duration_ms t = st_after_ms (last (et_steps t)) \<and> et_side t = intent_side i \<and>
    (\<forall>s \<in> set (et_steps t). envelope_permits (xp_envelope xp) (et_side t) (st_price s) \<and>
      (\<forall>m. intent_side i = ''BUY'' \<and> xe_maximum_buy_price (xp_envelope xp) = Some m \<longrightarrow> st_price s \<le> m) \<and>
      (\<forall>m. intent_side i = ''SELL'' \<and> xe_minimum_sell_price (xp_envelope xp) = Some m \<longrightarrow> m \<le> st_price s))"
proof -
  let ?raw = "price_steps log10 (intent_side i) (execution_policy_urgency (xp_name xp)) q (bp_maximum_reprice_ticks policy)"
  let ?bound = "\<lambda>s. s\<lparr>st_price := envelope_bound (xp_envelope xp) (intent_side i) (st_price s)\<rparr>"
  let ?steps = "deduplicated (map ?bound ?raw)"
  have raw: "?raw \<noteq> []" "st_after_ms (hd ?raw) = 0" "strictly_later ?raw"
    using price_steps_timed [OF assms(3)] by auto
  then have "strictly_later (map ?bound ?raw)" by (simp add: strictly_later_map)
  with deduplicated_steps [of "map ?bound ?raw"] raw(1)
  have steps: "?steps \<noteq> []" "hd ?steps = hd (map ?bound ?raw)" "set ?steps \<subseteq> set (map ?bound ?raw)" "strictly_later ?steps"
    by auto
  have t: "et_steps t = ?steps" "et_side t = intent_side i" "et_maximum_duration_ms t = Max (set (map st_after_ms ?steps))"
    using assms(1) steps(1) by (auto simp: bounded_tactic_def assms(2) Let_def split: if_splits)
  have "\<exists>p. st_price s = envelope_bound (xp_envelope xp) (intent_side i) p" if "s \<in> set ?steps" for s
  proof -
    from that steps(3) have "s \<in> set (map ?bound ?raw)" by blast
    then show ?thesis by auto
  qed
  moreover have "upper (intent_side i) = intent_side i" by (simp add: intent_side_def upper_def upper_char_def)
  ultimately have "envelope_permits (xp_envelope xp) (et_side t) (st_price s) \<and>
      (\<forall>m. intent_side i = ''BUY'' \<and> xe_maximum_buy_price (xp_envelope xp) = Some m \<longrightarrow> st_price s \<le> m) \<and>
      (\<forall>m. intent_side i = ''SELL'' \<and> xe_minimum_sell_price (xp_envelope xp) = Some m \<longrightarrow> m \<le> st_price s)"
    if "s \<in> set (et_steps t)" for s
    using that unfolding t by (fastforce simp: envelope_permits_def envelope_bound_def split: option.splits)
  moreover have "st_after_ms (hd ?steps) = 0" unfolding steps(2) by (subst hd_map) (simp_all add: raw)
  moreover have "et_maximum_duration_ms t = st_after_ms (last ?steps)"
    unfolding t(3) by (rule strictly_later_Max [OF steps(4,1)])
  ultimately show ?thesis using steps(1,4) unfolding t(1,2) strictly_later_def by blast
qed

section \<open>Fills\<close>

text \<open>The specification: an order has filled the largest quantity any report gave it, whichever
  order the reports came in.\<close>

definition reported :: "string \<Rightarrow> OrderReport list \<Rightarrow> f64" where
  "reported oid rs = foldl max 0 (map rp_filled (filter (\<lambda>r. rp_order_id r = oid) rs))"

definition broker_report :: "OrderReport \<Rightarrow> bool" where
  "broker_report r \<longleftrightarrow> r \<in> range live_report \<or> r \<in> range canonical_report"

definition root_role :: "ManagedOrderGroup \<Rightarrow> string" where
  "root_role g = (if si_action (mg_intent g) \<in> opening_actions then ''entry'' else ''managed_exit'')"

definition root_roles_only :: "ManagedOrderGroup \<Rightarrow> bool" where
  "root_roles_only g \<longleftrightarrow> (\<forall>oid role. map_of (mg_roles g) oid = Some role \<longrightarrow>
     role \<in> {''entry'', ''managed_exit''} \<longrightarrow> role = root_role g)"

definition slices_aligned :: "ManagedOrderGroup \<Rightarrow> bool" where
  "slices_aligned g \<longleftrightarrow> pl_order_slice_ids (mg_plan g) = [] \<or> length (pl_order_slice_ids (mg_plan g)) = length (mg_orders g)"

text \<open>A group no report has been accounted to.\<close>

definition unreported :: "ManagedOrderGroup \<Rightarrow> bool" where
  "unreported g \<longleftrightarrow> mg_filled_by_order g = [] \<and> mg_fingerprints g = [] \<and> mg_filled_quantity g = 0 \<and>
     mg_remaining_quantity g = si_quantity (mg_intent g) \<and> root_roles_only g \<and> slices_aligned g"

fun fingerprint_filled :: "fingerprint \<Rightarrow> f64" where
  "fingerprint_filled (LiveFingerprint _ filled _ _ _ _ _) = filled"
| "fingerprint_filled (CanonicalFingerprint _ _ filled _ _ _ _ _ _ _) = filled"

lemma broker_report_filled: "broker_report r \<Longrightarrow> fingerprint_filled (rp_fingerprint r) = rp_filled r"
  by (auto simp: broker_report_def live_report_def canonical_report_def live_order_state_fingerprint_def
      canonical_order_state_fingerprint_def)

lemma reported_Nil [simp]: "reported oid [] = 0"
  by (simp add: reported_def)

lemma reported_snoc:
  "reported oid (rs @ [r]) = (if rp_order_id r = oid then max (reported oid rs) (rp_filled r) else reported oid rs)"
  by (simp add: reported_def)

lemma reported_nonneg: "0 \<le> reported oid rs"
  by (induction rs rule: rev_induct) (auto simp: reported_snoc)

lemma reported_ge: "r \<in> set rs \<Longrightarrow> rp_order_id r = oid \<Longrightarrow> rp_filled r \<le> reported oid rs"
  by (induction rs rule: rev_induct) (auto simp: reported_snoc)

lemma reported_cases: "reported oid rs = 0 \<or> (\<exists>r \<in> set rs. rp_order_id r = oid \<and> reported oid rs = rp_filled r)"
  by (induction rs rule: rev_induct) (auto simp: reported_snoc max_def)

definition share_report :: "OrderReport \<Rightarrow> bool" where
  "share_report r \<longleftrightarrow> is_share (rp_filled r) \<and> 0 \<le> rp_filled r"

lemma reported_share: "\<forall>r \<in> set rs. share_report r \<Longrightarrow> is_share (reported oid rs)"
  using reported_cases [of oid rs] by (auto simp: share_report_def)

text \<open>What a group that has seen the reports \<open>rs\<close> holds.\<close>

definition root_total :: "ManagedOrderGroup \<Rightarrow> f64" where
  "root_total g = (let t = fsum (role_quantities g (root_role g)) in
     if root_role g = ''entry'' then t else min (si_quantity (mg_intent g)) t)"

definition accounted :: "OrderReport list \<Rightarrow> ManagedOrderGroup \<Rightarrow> bool" where
  "accounted rs g \<longleftrightarrow>
     well_keyed (mg_filled_by_order g) \<and> (\<forall>oid. dget (mg_filled_by_order g) oid 0 = reported oid rs) \<and>
     fst ` set (mg_filled_by_order g) \<subseteq> rp_order_id ` set rs \<and>
     rp_order_id ` set rs \<subseteq> set (mg_broker_order_ids g) \<and>
     (\<forall>oid fp. map_of (mg_fingerprints g) oid = Some fp \<longrightarrow> fingerprint_filled fp \<le> reported oid rs) \<and>
     root_roles_only g \<and> slices_aligned g \<and>
     mg_filled_quantity g = root_total g \<and> mg_remaining_quantity g = remaining_of g (mg_filled_quantity g)"

lemma first_index_bound: "first_index P xs = Some i \<Longrightarrow> i < length xs \<and> P (xs ! i)"
proof -
  assume "first_index P xs = Some i"
  then have "i \<in> set (filter (\<lambda>i. P (xs ! i)) [0 ..< length xs])"
    by (cases "filter (\<lambda>i. P (xs ! i)) [0 ..< length xs]") (auto simp: first_index_def)
  then show ?thesis by simp
qed

lemma slice_found: "slices_aligned g \<Longrightarrow> \<exists>s. slice_for_client_identity g identity = Inr s"
  by (auto simp: slice_for_client_identity_def slices_aligned_def dest: first_index_bound split: option.splits)

lemma infer_role_root:
  "infer_order_role ty child action \<in> {''entry'', ''managed_exit''} \<Longrightarrow>
   infer_order_role ty child action = (if action \<in> opening_actions then ''entry'' else ''managed_exit'')"
  by (auto simp: infer_order_role_def split: if_splits)

text \<open>Adopting an order keeps what is accounted.\<close>

lemma role_quantities_cong:
  assumes "mg_filled_by_order g' = mg_filled_by_order g"
    and "\<And>oid. oid \<in> fst ` set (mg_filled_by_order g) \<Longrightarrow> map_of (mg_roles g') oid = map_of (mg_roles g) oid"
  shows "role_quantities g' role = role_quantities g role"
proof -
  have "map_of (mg_roles g') (fst p) = map_of (mg_roles g) (fst p)" if "p \<in> set (mg_filled_by_order g)" for p
    using that by (intro assms(2)) simp
  then show ?thesis
    unfolding role_quantities_def assms(1) by (intro arg_cong [of _ _ "map snd"] filter_cong) auto
qed

lemma adopt_order_known: "rp_order_id r \<in> set (mg_broker_order_ids g) \<Longrightarrow> adopt_order r g = Inr g"
  by (simp add: adopt_order_def)

lemma adopt_order_new:
  assumes "slices_aligned g" "rp_order_id r \<noteq> []" "rp_order_id r \<notin> set (mg_broker_order_ids g)"
  obtains s ix where "adopt_order r g = Inr (g\<lparr>mg_broker_order_ids := mg_broker_order_ids g @ [rp_order_id r],
      mg_roles := AList.update (rp_order_id r)
        (infer_order_role (rp_order_type r) (rp_has_parent r) (si_action (mg_intent g))) (mg_roles g),
      mg_slices := s, mg_request_indexes := ix\<rparr>)"
proof -
  obtain slice where "slice_for_client_identity g (rp_identity r) = Inr slice"
    using slice_found [OF assms(1)] by blast
  then show thesis
    using that [of "case request_index_for_identity g (rp_identity r) of None \<Rightarrow> mg_request_indexes g
       | Some i \<Rightarrow> AList.update (rp_order_id r) i (mg_request_indexes g)"
      "AList.update (rp_order_id r) slice (mg_slices g)"] assms
    by (auto simp: adopt_order_def Let_def split: option.splits)
qed

lemma root_roles_adopted:
  assumes "root_roles_only g"
  shows "root_roles_only (g\<lparr>mg_broker_order_ids := ids, mg_roles := AList.update oid
        (infer_order_role ty child (si_action (mg_intent g))) (mg_roles g), mg_slices := s, mg_request_indexes := ix\<rparr>)"
  (is "root_roles_only ?g")
  unfolding root_roles_only_def
proof (intro allI impI)
  fix k role assume role: "map_of (mg_roles ?g) k = Some role" "role \<in> {''entry'', ''managed_exit''}"
  have [simp]: "root_role ?g = root_role g" by (simp add: root_role_def)
  show "role = root_role ?g"
  proof (cases "k = oid")
    case True
    with role infer_role_root [of ty child "si_action (mg_intent g)"] show ?thesis
      by (simp add: root_role_def)
  next
    case False
    with role have "map_of (mg_roles g) k = Some role" by simp
    with assms role(2) have "role = root_role g" unfolding root_roles_only_def by blast
    then show ?thesis by simp
  qed
qed

lemma root_total_cong:
  assumes "mg_intent g' = mg_intent g" "role_quantities g' (root_role g) = role_quantities g (root_role g)"
  shows "root_total g' = root_total g"
proof -
  have "root_role g' = root_role g" by (simp add: root_role_def assms(1))
  with assms show ?thesis by (simp add: root_total_def Let_def)
qed

lemma adopt_accounted:
  assumes "accounted rs g" "rp_order_id r \<noteq> []"
  obtains g' where "adopt_order r g = Inr g'" "accounted rs g'" "rp_order_id r \<in> set (mg_broker_order_ids g')"
    "mg_intent g' = mg_intent g"
proof (cases "rp_order_id r \<in> set (mg_broker_order_ids g)")
  case True
  with that [OF adopt_order_known assms(1)] show thesis by blast
next
  case False
  from assms(1) have "slices_aligned g" by (simp add: accounted_def)
  with False assms(2) obtain s ix where A: "adopt_order r g = Inr (g\<lparr>mg_broker_order_ids := mg_broker_order_ids g @ [rp_order_id r],
      mg_roles := AList.update (rp_order_id r)
        (infer_order_role (rp_order_type r) (rp_has_parent r) (si_action (mg_intent g))) (mg_roles g),
      mg_slices := s, mg_request_indexes := ix\<rparr>)" (is "_ = Inr ?g")
    using adopt_order_new by blast
  from assms(1) False have new: "rp_order_id r \<notin> fst ` set (mg_filled_by_order g)" by (auto simp: accounted_def)
  have "role_quantities ?g (root_role g) = role_quantities g (root_role g)"
    by (rule role_quantities_cong) (use new in force)+
  then have "root_total ?g = root_total g" by (rule root_total_cong [rotated]) simp
  moreover have "root_roles_only ?g" using assms(1) by (intro root_roles_adopted) (simp add: accounted_def)
  ultimately have "accounted rs ?g"
    using assms(1) by (auto simp: accounted_def slices_aligned_def remaining_of_def)
  with that [OF A] show thesis by simp
qed

text \<open>Accounting for a report.\<close>

lemma role_quantities_fill:
  assumes "map_of (mg_roles g) oid \<noteq> Some role" "well_keyed (mg_filled_by_order g)"
  shows "role_quantities (g\<lparr>mg_filled_by_order := AList.update oid v (mg_filled_by_order g)\<rparr>) role = role_quantities g role"
proof -
  have "filter (\<lambda>(k, q). map_of (mg_roles g) k = Some role) (AList.update oid v d) =
      filter (\<lambda>(k, q). map_of (mg_roles g) k = Some role) d" for d :: "(string, f64) dict"
    using assms(1) by (induction d) auto
  then show ?thesis by (simp add: role_quantities_def)
qed

lemma account_report_new:
  assumes "map_of (mg_fingerprints g) (rp_order_id r) \<noteq> Some (rp_fingerprint r)"
  shows "fst (account_report r g) =
    (let (g1, incremental) = apply_cumulative_fill (rp_order_id r) (rp_filled r) (dget (mg_roles g) (rp_order_id r) []) g;
         g2 = g1\<lparr>mg_fingerprints := AList.update (rp_order_id r) (rp_fingerprint r) (mg_fingerprints g1),
                 mg_terminal_ids := (if rp_state r \<in> TERMINAL_MANAGEMENT_STATES
                   then insert (rp_order_id r) (mg_terminal_ids g1) else mg_terminal_ids g1)\<rparr>
     in g2\<lparr>mg_state := next_group_state r (dget (mg_roles g) (rp_order_id r) []) incremental g2\<rparr>)"
    and "gs_fill_incremental_quantity (snd (account_report r g)) =
      max 0 (fsub (max (dget (mg_filled_by_order g) (rp_order_id r) 0) (rp_filled r)) (dget (mg_filled_by_order g) (rp_order_id r) 0))"
    and "gs_broker_order_id (snd (account_report r g)) = rp_order_id r"
  using assms by (simp_all add: account_report_def apply_cumulative_fill_def Let_def group_snapshot_def case_prod_beta)

lemma account_report_same:
  assumes "map_of (mg_fingerprints g) (rp_order_id r) = Some (rp_fingerprint r)"
  shows "fst (account_report r g) = g"
    and "gs_fill_incremental_quantity (snd (account_report r g)) = 0"
    and "gs_broker_order_id (snd (account_report r g)) = rp_order_id r"
  using assms by (simp_all add: account_report_def Let_def group_snapshot_def)

lemma dget_update [simp]: "dget (AList.update k v d) k' x = (if k' = k then v else dget d k' x)"
  by (simp add: dget_def)

lemma root_role_cases: "root_role g = ''entry'' \<or> root_role g = ''managed_exit''"
  by (simp add: root_role_def)

text \<open>The fields of a group after a new report.\<close>

definition filled_after :: "OrderReport \<Rightarrow> ManagedOrderGroup \<Rightarrow> ManagedOrderGroup" where
  "filled_after r g = g\<lparr>mg_filled_by_order :=
     AList.update (rp_order_id r) (max (dget (mg_filled_by_order g) (rp_order_id r) 0) (rp_filled r)) (mg_filled_by_order g)\<rparr>"

lemma account_report_fields:
  assumes "map_of (mg_fingerprints g) (rp_order_id r) \<noteq> Some (rp_fingerprint r)" "root_roles_only g"
    and "well_keyed (mg_filled_by_order g)"
    and "mg_filled_quantity g = root_total g" "mg_remaining_quantity g = remaining_of g (mg_filled_quantity g)"
  defines "g' \<equiv> fst (account_report r g)"
  shows "mg_intent g' = mg_intent g" "mg_orders g' = mg_orders g" "mg_plan g' = mg_plan g" "mg_roles g' = mg_roles g"
    "mg_broker_order_ids g' = mg_broker_order_ids g"
    "mg_filled_by_order g' = mg_filled_by_order (filled_after r g)"
    "mg_fingerprints g' = AList.update (rp_order_id r) (rp_fingerprint r) (mg_fingerprints g)"
    "mg_filled_quantity g' = root_total (filled_after r g)"
    "mg_remaining_quantity g' = remaining_of g (root_total (filled_after r g))"
proof -
  let ?role = "dget (mg_roles g) (rp_order_id r) []"
  have A: "g' = (let (g1, incremental) = apply_cumulative_fill (rp_order_id r) (rp_filled r) ?role g;
         g2 = g1\<lparr>mg_fingerprints := AList.update (rp_order_id r) (rp_fingerprint r) (mg_fingerprints g1),
                 mg_terminal_ids := (if rp_state r \<in> TERMINAL_MANAGEMENT_STATES
                   then insert (rp_order_id r) (mg_terminal_ids g1) else mg_terminal_ids g1)\<rparr>
     in g2\<lparr>mg_state := next_group_state r ?role incremental g2\<rparr>)"
    unfolding g'_def by (rule account_report_new [OF assms(1)])
  show "mg_intent g' = mg_intent g" "mg_orders g' = mg_orders g" "mg_plan g' = mg_plan g" "mg_roles g' = mg_roles g"
    "mg_broker_order_ids g' = mg_broker_order_ids g"
    "mg_filled_by_order g' = mg_filled_by_order (filled_after r g)"
    "mg_fingerprints g' = AList.update (rp_order_id r) (rp_fingerprint r) (mg_fingerprints g)"
    by (simp_all add: A apply_cumulative_fill_def Let_def filled_after_def)
  have root: "root_role (filled_after r g) = root_role g" by (simp add: root_role_def filled_after_def)
  have "mg_filled_quantity g' = root_total (filled_after r g) \<and>
      mg_remaining_quantity g' = remaining_of g (root_total (filled_after r g))"
  proof (cases "?role \<in> {''entry'', ''managed_exit''}")
    case True
    then have "map_of (mg_roles g) (rp_order_id r) = Some ?role" by (auto simp: dget_def split: option.splits)
    with True assms(2) have "?role = root_role g" unfolding root_roles_only_def by blast
    with root_role_cases [of g] root show ?thesis
      by (auto simp: A apply_cumulative_fill_def Let_def root_total_def filled_after_def remaining_of_def)
  next
    case False
    then have "map_of (mg_roles g) (rp_order_id r) \<noteq> Some (root_role g)"
      using root_role_cases [of g] by (auto simp: dget_def)
    then have "role_quantities (filled_after r g) (root_role g) = role_quantities g (root_role g)"
      unfolding filled_after_def by (rule role_quantities_fill) (rule assms(3))
    then have "root_total (filled_after r g) = root_total g"
      by (intro root_total_cong) (simp_all add: filled_after_def)
    with False assms(4,5) show ?thesis
      by (auto simp: A apply_cumulative_fill_def Let_def)
  qed
  then show "mg_filled_quantity g' = root_total (filled_after r g)"
    "mg_remaining_quantity g' = remaining_of g (root_total (filled_after r g))" by auto
qed

lemma report_again:
  assumes "accounted rs g" "broker_report r" "map_of (mg_fingerprints g) (rp_order_id r) = Some (rp_fingerprint r)"
  shows "rp_filled r \<le> reported (rp_order_id r) rs"
proof -
  from assms(1,3) have "fingerprint_filled (rp_fingerprint r) \<le> reported (rp_order_id r) rs"
    unfolding accounted_def by blast
  with broker_report_filled [OF assms(2)] show ?thesis by simp
qed

lemma accounted_step:
  assumes acc: "accounted rs g" and rep: "broker_report r" and known: "rp_order_id r \<in> set (mg_broker_order_ids g)"
  shows "accounted (rs @ [r]) (fst (account_report r g))"
    and "mg_intent (fst (account_report r g)) = mg_intent g"
proof -
  have *: "accounted (rs @ [r]) (fst (account_report r g)) \<and> mg_intent (fst (account_report r g)) = mg_intent g"
  proof (cases "map_of (mg_fingerprints g) (rp_order_id r) = Some (rp_fingerprint r)")
    case True
    then have "rp_filled r \<le> reported (rp_order_id r) rs" by (rule report_again [OF acc rep])
    then have "reported oid (rs @ [r]) = reported oid rs" for oid by (auto simp: reported_snoc)
    with acc known account_report_same(1) [OF True] show ?thesis
      by (auto simp: accounted_def)
  next
    case False
    note fields = account_report_fields [OF False]
    let ?g = "fst (account_report r g)"
    have pre: "root_roles_only g" "well_keyed (mg_filled_by_order g)" "mg_filled_quantity g = root_total g"
      "mg_remaining_quantity g = remaining_of g (mg_filled_quantity g)" "slices_aligned g"
      using acc by (simp_all add: accounted_def)
    note f = fields [OF pre(1-4)]
    have "root_total ?g = root_total (filled_after r g)"
    proof (rule root_total_cong)
      show "mg_intent ?g = mg_intent (filled_after r g)" by (simp add: f filled_after_def)
      show "role_quantities ?g (root_role (filled_after r g)) = role_quantities (filled_after r g) (root_role (filled_after r g))"
        by (rule role_quantities_cong) (simp_all add: f filled_after_def)
    qed
    moreover have "root_roles_only ?g" "slices_aligned ?g"
      using pre by (simp_all add: root_roles_only_def root_role_def slices_aligned_def f)
    moreover have "well_keyed (mg_filled_by_order ?g)" using pre by (simp add: f filled_after_def)
    moreover have led: "dget (mg_filled_by_order g) k 0 = reported k rs" for k using acc by (simp add: accounted_def)
    then have "dget (mg_filled_by_order ?g) k 0 = reported k (rs @ [r])" for k
      by (simp add: f filled_after_def reported_snoc)
    moreover have "fst ` set (mg_filled_by_order ?g) \<subseteq> rp_order_id ` set (rs @ [r])"
      using acc by (auto simp: accounted_def f filled_after_def dom_update)
    moreover have "rp_order_id ` set (rs @ [r]) \<subseteq> set (mg_broker_order_ids ?g)"
      using acc known by (auto simp: accounted_def f)
    moreover have "fingerprint_filled fp \<le> reported k (rs @ [r])" if "map_of (mg_fingerprints ?g) k = Some fp" for k fp
      using that acc broker_report_filled [OF rep]
      by (fastforce simp: accounted_def f reported_snoc split: if_splits)
    ultimately show ?thesis using f by (simp add: accounted_def remaining_of_def)
  qed
  then show "accounted (rs @ [r]) (fst (account_report r g))"
    "mg_intent (fst (account_report r g)) = mg_intent g" by auto
qed

lemma report_increment:
  assumes acc: "accounted rs g" and rep: "broker_report r" and share: "\<forall>r \<in> set (rs @ [r]). share_report r"
  shows "gs_fill_incremental_quantity (snd (account_report r g)) =
    reported (rp_order_id r) (rs @ [r]) - reported (rp_order_id r) rs"
proof (cases "map_of (mg_fingerprints g) (rp_order_id r) = Some (rp_fingerprint r)")
  case True
  then have "rp_filled r \<le> reported (rp_order_id r) rs" by (rule report_again [OF acc rep])
  with account_report_same(2) [OF True] show ?thesis by (simp add: reported_snoc)
next
  case False
  let ?p = "reported (rp_order_id r) rs"
  have "is_share ?p" using share by (intro reported_share) simp
  moreover have "is_share (reported (rp_order_id r) (rs @ [r]))" using share by (rule reported_share)
  then have "is_share (max ?p (rp_filled r))" by (simp add: reported_snoc)
  ultimately have "is_share (max ?p (rp_filled r) - ?p)"
    by (intro is_share_diff) (simp_all add: reported_nonneg)
  with account_report_new(2) [OF False] acc show ?thesis
    by (simp add: accounted_def fsub_share reported_snoc)
qed

definition increments :: "string \<Rightarrow> OrderGroupSnapshot list \<Rightarrow> f64" where
  "increments oid ss = (\<Sum>s \<leftarrow> filter (\<lambda>s. gs_broker_order_id s = oid) ss. gs_fill_incremental_quantity s)"

lemma snapshot_order: "gs_broker_order_id (snd (account_report r g)) = rp_order_id r"
  using account_report_new(3) account_report_same(3) by blast

lemma updates_accounted:
  assumes "accounted done_rs g" "\<forall>r \<in> set rs. broker_report r \<and> rp_order_id r \<noteq> []"
    and "\<forall>r \<in> set (done_rs @ rs). share_report r"
  shows "\<exists>g' ss. order_updates rs g = Inr (g', ss) \<and> accounted (done_rs @ rs) g' \<and> mg_intent g' = mg_intent g \<and>
    (\<forall>oid. reported oid done_rs + increments oid ss = reported oid (done_rs @ rs))"
  using assms
proof (induction rs arbitrary: done_rs g)
  case Nil
  then show ?case by (simp add: increments_def)
next
  case (Cons r rs)
  then have r: "broker_report r" "rp_order_id r \<noteq> []" by auto
  obtain g1 where g1: "adopt_order r g = Inr g1" "accounted done_rs g1" "rp_order_id r \<in> set (mg_broker_order_ids g1)"
      "mg_intent g1 = mg_intent g"
    using adopt_accounted [OF Cons.prems(1) r(2)] by metis
  obtain g2 s where g2: "account_report r g1 = (g2, s)" by (metis surj_pair)
  note step = accounted_step [OF g1(2) r(1) g1(3), unfolded g2 fst_conv]
  have inc: "gs_fill_incremental_quantity s = reported (rp_order_id r) (done_rs @ [r]) - reported (rp_order_id r) done_rs"
    using report_increment [OF g1(2) r(1)] Cons.prems(3) by (simp add: g2)
  have sid: "gs_broker_order_id s = rp_order_id r" using snapshot_order [of r g1] by (simp add: g2)
  from Cons.IH [OF step(1)] Cons.prems obtain g' ss where
    rest: "order_updates rs g2 = Inr (g', ss)" "accounted ((done_rs @ [r]) @ rs) g'" "mg_intent g' = mg_intent g2"
      "\<forall>oid. reported oid (done_rs @ [r]) + increments oid ss = reported oid ((done_rs @ [r]) @ rs)"
    by auto
  have "reported oid done_rs + increments oid (s # ss) = reported oid (done_rs @ r # rs)" for oid
    using rest(4) [rule_format, of oid] inc sid by (auto simp: increments_def reported_snoc)
  then show ?case
    using g1 g2 step(2) rest by (auto simp: order_update_def)
qed

lemma unreported_accounted:
  assumes "unreported g" "is_share (si_quantity (mg_intent g))" "0 \<le> si_quantity (mg_intent g)"
  shows "accounted [] g"
proof -
  have "fsub (si_quantity (mg_intent g)) 0 = si_quantity (mg_intent g)"
    using fsub_share [of "si_quantity (mg_intent g)" 0] assms(2) by simp
  with assms show ?thesis
    by (simp add: accounted_def unreported_def dget_def root_total_def role_quantities_def fsum_def remaining_of_def)
qed

lemma well_keyed_Cons: "well_keyed ((k, v) # d) \<longleftrightarrow> k \<notin> fst ` set d \<and> well_keyed d"
  by (simp add: well_keyed_def)

lemma role_sum:
  assumes "well_keyed d"
  shows "sum_list (map snd (filter (\<lambda>(k, q). P k) d)) = (\<Sum>k \<in> {k \<in> fst ` set d. P k}. dget d k 0)"
  using assms
proof (induction d)
  case (Cons p d)
  obtain k v where [simp]: "p = (k, v)" by (cases p)
  from Cons.prems have k: "k \<notin> fst ` set d" and d: "well_keyed d" by (simp_all add: well_keyed_Cons)
  let ?S = "{k \<in> fst ` set d. P k}"
  have tail: "(\<Sum>j \<in> ?S. dget ((k, v) # d) j 0) = (\<Sum>j \<in> ?S. dget d j 0)"
    by (rule sum.cong) (use k in \<open>auto simp: dget_def\<close>)
  have S: "{j \<in> fst ` set ((k, v) # d). P j} = (if P k then insert k ?S else ?S)" by auto
  have "(\<Sum>j \<in> {j \<in> fst ` set ((k, v) # d). P j}. dget ((k, v) # d) j 0) =
      (if P k then v else 0) + (\<Sum>j \<in> ?S. dget ((k, v) # d) j 0)"
    unfolding S using k by (auto simp: sum.insert dget_def [of "(k, v) # d" k])
  then show ?case unfolding tail using Cons.IH [OF d] by simp
qed simp

lemma dget_absent: "k \<notin> fst ` set d \<Longrightarrow> dget d k x = x"
proof -
  assume "k \<notin> fst ` set d"
  then have "map_of d k = None" by (simp add: map_of_eq_None_iff)
  then show ?thesis by (simp add: dget_def)
qed

text \<open>The specification's total: what the reports say the root orders of the group filled.\<close>

definition root_filled :: "ManagedOrderGroup \<Rightarrow> OrderReport list \<Rightarrow> f64" where
  "root_filled g rs = (\<Sum>oid \<in> {oid \<in> rp_order_id ` set rs. map_of (mg_roles g) oid = Some (root_role g)}. reported oid rs)"

lemma accounted_total:
  assumes acc: "accounted rs g" and share: "\<forall>r \<in> set rs. share_report r"
    and bound: "(\<Sum>oid \<in> rp_order_id ` set rs. reported oid rs) \<le> 2 ^ 53"
  shows "fsum (role_quantities g (root_role g)) = root_filled g rs \<and> is_share (root_filled g rs) \<and> 0 \<le> root_filled g rs"
proof -
  let ?d = "mg_filled_by_order g" and ?P = "\<lambda>k. map_of (mg_roles g) k = Some (root_role g)"
  let ?A = "{k \<in> fst ` set ?d. ?P k}" and ?B = "{k \<in> rp_order_id ` set rs. ?P k}"
  have wk: "well_keyed ?d" and led: "\<And>k. dget ?d k 0 = reported k rs" and keys: "fst ` set ?d \<subseteq> rp_order_id ` set rs"
    using acc by (auto simp: accounted_def)
  have "sum_list (role_quantities g (root_role g)) = (\<Sum>k \<in> ?A. reported k rs)"
    by (simp add: role_quantities_def role_sum [OF wk] led)
  also have "\<dots> = (\<Sum>k \<in> ?B. reported k rs)"
  proof (rule sum.mono_neutral_left)
    show "\<forall>k \<in> ?B - ?A. reported k rs = 0" using dget_absent [of _ ?d 0] led by auto
  qed (use keys in auto)
  finally have total: "sum_list (role_quantities g (root_role g)) = root_filled g rs" by (simp add: root_filled_def)
  have "root_filled g rs \<le> (\<Sum>oid \<in> rp_order_id ` set rs. reported oid rs)"
    unfolding root_filled_def by (rule sum_mono2) (auto simp: reported_nonneg)
  with bound have small: "root_filled g rs \<le> 2 ^ 53" by simp
  have vals: "\<forall>x \<in> set (role_quantities g (root_role g)). x \<in> \<int> \<and> 0 \<le> x"
  proof
    fix x assume "x \<in> set (role_quantities g (root_role g))"
    then obtain k where "(k, x) \<in> set ?d" by (auto simp: role_quantities_def)
    with wk have "map_of ?d k = Some x" by (simp add: well_keyed_def)
    then have "x = reported k rs" using led [of k] by (simp add: dget_def)
    with reported_share [OF share, of k] reported_nonneg [of k rs] show "x \<in> \<int> \<and> 0 \<le> x" by (auto simp: is_share_def)
  qed
  from fsum_shares [OF vals] small total
  have eq: "fsum (role_quantities g (root_role g)) = root_filled g rs" and int: "root_filled g rs \<in> \<int>" "0 \<le> root_filled g rs"
    by auto
  from int obtain n where n: "root_filled g rs = of_int n" by (elim Ints_cases)
  with small int(2) have "(of_int n :: rat) \<le> of_int (2 ^ 53)" "(0 :: rat) \<le> of_int n" by auto
  then have "\<bar>n\<bar> \<le> 2 ^ 53" by (simp only: of_int_le_iff of_int_0_le_iff)
  with n eq int(2) show ?thesis by (auto simp: is_share_def)
qed

lemma remaining_exact:
  assumes "is_share q" "0 \<le> q" "is_share x" "0 \<le> x"
  shows "max 0 (fsub q x) = max 0 (q - x)"
proof (cases "x \<le> q")
  case True
  with assms have "is_share (q - x)" by (intro is_share_diff)
  then show ?thesis by (simp add: fsub_share)
next
  case False
  with assms have "is_share (x - q)" by (intro is_share_diff) auto
  then have "is_share (q - x)" by (metis is_share_def minus_diff_eq of_int_minus abs_minus_cancel)
  then show ?thesis by (simp add: fsub_share)
qed

text \<open>C30. The fill accounting of an order group is exact. Whatever sequence of reports the broker
  sends -- live rows and canonical states mixed, repeated, late or out of order, orders the group
  never placed among them -- every report is accepted, each order's cumulative quantity is the
  largest one reported, the increments handed to the strategy add up to it (so no share is counted
  twice and none is lost), the group's filled quantity is the total of its root orders (an exit
  never more than its intent), and what remains is the rest of the intent.\<close>

theorem group_fills_exact:
  assumes "unreported g" and "is_share (si_quantity (mg_intent g))" "0 \<le> si_quantity (mg_intent g)"
    and "\<forall>r \<in> set rs. broker_report r \<and> rp_order_id r \<noteq> [] \<and> share_report r"
    and "(\<Sum>oid \<in> rp_order_id ` set rs. reported oid rs) \<le> 2 ^ 53"
  shows "\<exists>g' ss. order_updates rs g = Inr (g', ss) \<and>
    (\<forall>oid. dget (mg_filled_by_order g') oid 0 = reported oid rs \<and> increments oid ss = reported oid rs) \<and>
    mg_filled_quantity g' = (if root_role g = ''entry'' then root_filled g' rs
      else min (si_quantity (mg_intent g)) (root_filled g' rs)) \<and>
    mg_remaining_quantity g' = max 0 (si_quantity (mg_intent g) - mg_filled_quantity g')"
proof -
  let ?q = "si_quantity (mg_intent g)"
  from updates_accounted [OF unreported_accounted [OF assms(1-3)], of rs] assms(4)
  obtain g' ss where g': "order_updates rs g = Inr (g', ss)" "accounted rs g'" "mg_intent g' = mg_intent g"
    "\<forall>oid. increments oid ss = reported oid rs" by auto
  have root: "root_role g' = root_role g" by (simp add: root_role_def g'(3))
  from accounted_total [OF g'(2) _ assms(5)] assms(4)
  have T: "fsum (role_quantities g' (root_role g')) = root_filled g' rs" "is_share (root_filled g' rs)" "0 \<le> root_filled g' rs"
    by auto
  have filled: "mg_filled_quantity g' = (if root_role g = ''entry'' then root_filled g' rs else min ?q (root_filled g' rs))"
  proof -
    have "mg_filled_quantity g' = root_total g'" using g'(2) by (simp add: accounted_def)
    then show ?thesis unfolding root_total_def Let_def T(1) unfolding root g'(3) .
  qed
  then have "is_share (mg_filled_quantity g')" "0 \<le> mg_filled_quantity g'"
    using T(2,3) assms(2,3) by (auto simp: min_def)
  then have "mg_remaining_quantity g' = max 0 (?q - mg_filled_quantity g')"
    using remaining_exact [OF assms(2,3)] g'(2) by (simp add: accounted_def remaining_of_def g'(3))
  with g' filled show ?thesis by (auto simp: accounted_def)
qed

text \<open>A freshly created group, also after its submission was acknowledged, is unreported.\<close>

lemma acknowledge_row_keeps:
  assumes "root_roles_only g"
  shows "root_roles_only (acknowledge_row p g) \<and> mg_intent (acknowledge_row p g) = mg_intent g \<and>
    mg_orders (acknowledge_row p g) = mg_orders g \<and> mg_plan (acknowledge_row p g) = mg_plan g \<and>
    mg_filled_by_order (acknowledge_row p g) = mg_filled_by_order g \<and> mg_fingerprints (acknowledge_row p g) = mg_fingerprints g \<and>
    mg_filled_quantity (acknowledge_row p g) = mg_filled_quantity g \<and>
    mg_remaining_quantity (acknowledge_row p g) = mg_remaining_quantity g \<and> mg_group_id (acknowledge_row p g) = mg_group_id g"
proof -
  have "root_roles_only (acknowledge_row p g)"
    unfolding root_roles_only_def
  proof (intro allI impI)
    fix k role assume role: "map_of (mg_roles (acknowledge_row p g)) k = Some role" "role \<in> {''entry'', ''managed_exit''}"
    have [simp]: "root_role (acknowledge_row p g) = root_role g" by (simp add: root_role_def acknowledge_row_def Let_def)
    have "map_of (mg_roles g) k = Some role \<or> role = order_role (mg_orders g ! snd p) (si_action (mg_intent g))"
      using role(1) by (auto simp: acknowledge_row_def Let_def split: if_splits)
    then have "role = root_role g"
    proof
      assume "map_of (mg_roles g) k = Some role"
      with assms role(2) show ?thesis unfolding root_roles_only_def by blast
    next
      assume "role = order_role (mg_orders g ! snd p) (si_action (mg_intent g))"
      with role(2) infer_role_root show ?thesis unfolding order_role_def root_role_def by metis
    qed
    then show "role = root_role (acknowledge_row p g)" by simp
  qed
  then show ?thesis by (simp add: acknowledge_row_def Let_def)
qed

lemma acknowledge_rows_keep:
  assumes "root_roles_only g"
  shows "root_roles_only (fold acknowledge_row rows g) \<and> mg_intent (fold acknowledge_row rows g) = mg_intent g \<and>
    mg_orders (fold acknowledge_row rows g) = mg_orders g \<and> mg_plan (fold acknowledge_row rows g) = mg_plan g \<and>
    mg_filled_by_order (fold acknowledge_row rows g) = mg_filled_by_order g \<and>
    mg_fingerprints (fold acknowledge_row rows g) = mg_fingerprints g \<and>
    mg_filled_quantity (fold acknowledge_row rows g) = mg_filled_quantity g \<and>
    mg_remaining_quantity (fold acknowledge_row rows g) = mg_remaining_quantity g \<and>
    mg_group_id (fold acknowledge_row rows g) = mg_group_id g"
  using assms
proof (induction rows arbitrary: g)
  case (Cons p rows)
  with acknowledge_row_keeps [OF Cons.prems, of p] Cons.IH [of "acknowledge_row p g"] show ?case by simp
qed simp

lemma unreported_state [simp]: "unreported (g\<lparr>mg_state := st\<rparr>) = unreported g"
  by (simp add: unreported_def root_roles_only_def root_role_def slices_aligned_def)

lemma submitted_unreported:
  assumes "pl_order_slice_ids p = [] \<or> length (pl_order_slice_ids p) = length orders"
  shows "unreported (acknowledge rows (new_group gid i account p orders tactic))"
proof -
  let ?g = "new_group gid i account p orders tactic"
  have roles: "root_roles_only ?g" by (simp add: root_roles_only_def new_group_def)
  with assms have fresh: "unreported ?g" by (simp add: unreported_def slices_aligned_def new_group_def)
  from fresh acknowledge_rows_keep [OF roles, of rows] have "unreported (fold acknowledge_row rows ?g)"
    by (simp add: unreported_def slices_aligned_def)
  with fresh show ?thesis by (simp add: acknowledge_def)
qed

section \<open>Instances\<close>

definition demo_capped :: StrategyIntent where
  "demo_capped = demo_intent\<lparr>si_execution_policy := Some
     \<lparr>xp_policy_id = ''capped'', xp_revision = 1, xp_name = XP_ADAPTIVE_VERY_URGENT,
      xp_envelope = ExecutionEnvelope_default\<lparr>xe_maximum_buy_price := Some 100\<rparr>,
      xp_partial_fill_policy = PF_ACCEPT_PARTIAL, xp_quote_source = ''qmd''\<rparr>\<rparr>"

definition demo_quote :: ExecutionQuote where
  "demo_quote = \<lparr>xq_bid = 100, xq_ask = 100 + 1 / 16, xq_observed_at = Aware 5, xq_tick_size = 1 / 64\<rparr>"

theorem tactic_within_envelope_witness:
  "\<exists>t. bounded_tactic (\<lambda>_. - 2) no_render 5 True default_communication_policy demo_capped demo_quote = Inr t \<and>
     (\<forall>s \<in> set (et_steps t). st_price s \<le> 100)"
proof -
  let ?r = "bounded_tactic (\<lambda>_. - 2) no_render 5 True default_communication_policy demo_capped demo_quote"
  have policy: "resolved_execution_policy no_render demo_capped = Inr (the (si_execution_policy demo_capped))"
    "0 \<le> bp_maximum_reprice_ticks default_communication_policy" "intent_side demo_capped = ''BUY''"
    by code_simp+
  have "\<not> of_int (bp_maximum_quote_age_ms default_communication_policy) < quote_age_ms 5 demo_quote" by code_simp
  from bounded_tactic_returns [OF this policy(1,2)] obtain t where t: "?r = Inr t" by blast
  from tactic_within_envelope [OF t policy(1,2)] policy(3) have "\<forall>s \<in> set (et_steps t). st_price s \<le> 100"
    by (auto simp: demo_capped_def)
  with t show ?thesis by blast
qed

definition demo_group :: ManagedOrderGroup where
  "demo_group = new_group ''g1'' demo_intent ''U1'' (orders_plan []) [] None"

definition demo_live :: "int \<Rightarrow> f64 \<Rightarrow> LiveOrder" where
  "demo_live oid filled =
     \<lparr>lo_account = ''U1'', lo_orderId = oid, lo_conid = 1, lo_ticker = ''ABC'', lo_side = ''BUY'', lo_orderType = ''LMT'',
      lo_tif = ''DAY'', lo_totalSize = 6, lo_filledQuantity = filled, lo_remainingQuantity = 6 - filled, lo_avgPrice = 100,
      lo_order_status = ST_SUBMITTED, lo_cOID = ''c'', lo_parentId = None, lo_price = Some 100, lo_auxPrice = None,
      lo_outsideRTH = False, lo_lastExecutionTime = None, lo_statusDescription = [],
      lo_raw = \<lparr>lr_oca_group = None, lr_submitted_at = None, lr_strategy_id = [], lr_strategy_revision = 1,
        lr_metadata = JObj []\<rparr>\<rparr>"

definition demo_reports :: "OrderReport list" where
  "demo_reports = map live_report [demo_live 1 3, demo_live 2 1, demo_live 1 2, demo_live 1 5, demo_live 1 3]"

theorem group_fills_exact_witness:
  "\<exists>g' ss. order_updates demo_reports demo_group = Inr (g', ss) \<and> increments ''1'' ss = 5 \<and> increments ''2'' ss = 1 \<and>
     mg_remaining_quantity g' = max 0 (10 - mg_filled_quantity g')"
proof -
  have "unreported (acknowledge [] demo_group)"
    unfolding demo_group_def by (rule submitted_unreported) (simp add: orders_plan_def)
  moreover have "mg_state demo_group = OM_CREATED" by (simp add: demo_group_def new_group_def)
  ultimately have "unreported demo_group" by (simp add: acknowledge_def)
  moreover have "si_quantity (mg_intent demo_group) = 10" by (simp add: demo_group_def new_group_def demo_intent_def)
  moreover have "\<forall>r \<in> set demo_reports. broker_report r \<and> rp_order_id r \<noteq> [] \<and> share_report r"
  proof -
    have "list_all (\<lambda>r. rp_order_id r \<noteq> [] \<and> rp_filled r \<in> {1, 2, 3, 5}) demo_reports" by code_simp
    moreover have "is_share x" if "x \<in> {1, 2, 3, 5}" for x
      using that is_share_of_int [of 1] is_share_of_int [of 2] is_share_of_int [of 3] is_share_of_int [of 5] by auto
    moreover have "\<forall>r \<in> set demo_reports. broker_report r" by (auto simp: demo_reports_def broker_report_def)
    ultimately show ?thesis by (auto simp: list_all_iff share_report_def)
  qed
  moreover have "rp_order_id ` set demo_reports = {''1'', ''2''}" by code_simp
  moreover have R: "reported ''1'' demo_reports = 5" "reported ''2'' demo_reports = 1" by code_simp+
  ultimately show ?thesis using group_fills_exact [of demo_group demo_reports] is_share_of_int [of 10] by auto
qed

end
