(* ===== verification/ProtectedExitLaws.thy ===== *)
theory ProtectedExitLaws
  imports ProtectedExits OrderGroupsLaws
begin

text \<open>
  Whose order is it? The registry accounts every broker order id to one group, also when a managed
  exit takes it over from the group that placed it; and \<open>_modify_existing_protected_exit\<close> does to the
  registry what its steps say.
\<close>

section \<open>Routing\<close>

text \<open>\<open>H\<close> holds the ids that were ever taken over: only those may be listed by a second group.\<close>

definition routed :: "string set \<Rightarrow> OrderRegistry \<Rightarrow> bool" where
  "routed H reg \<longleftrightarrow> (\<forall>gid g. map_of (rg_groups reg) gid = Some g \<longrightarrow> gid \<noteq> [] \<and> mg_group_id g = gid \<and>
       (\<forall>oid \<in> set (mg_broker_order_ids g). map_of (rg_by_broker_id reg) oid = Some gid \<or>
          oid \<in> H \<and> map_of (rg_by_broker_id reg) oid \<noteq> None)) \<and>
     (\<forall>oid gid. map_of (rg_by_broker_id reg) oid = Some gid \<longrightarrow>
       (\<exists>g. map_of (rg_groups reg) gid = Some g \<and> oid \<in> set (mg_broker_order_ids g)))"

lemma routed_group:
  "routed H reg \<Longrightarrow> map_of (rg_groups reg) gid = Some g \<Longrightarrow> gid \<noteq> [] \<and> mg_group_id g = gid"
  by (simp add: routed_def)

lemma routed_ids:
  "routed H reg \<Longrightarrow> map_of (rg_groups reg) gid = Some g \<Longrightarrow> oid \<in> set (mg_broker_order_ids g) \<Longrightarrow>
   map_of (rg_by_broker_id reg) oid = Some gid \<or> oid \<in> H \<and> map_of (rg_by_broker_id reg) oid \<noteq> None"
  unfolding routed_def by blast

lemma routed_back:
  "routed H reg \<Longrightarrow> map_of (rg_by_broker_id reg) oid = Some gid \<Longrightarrow>
   \<exists>g. map_of (rg_groups reg) gid = Some g \<and> oid \<in> set (mg_broker_order_ids g)"
  by (simp add: routed_def)

lemma routedI:
  assumes "\<And>gid g. map_of (rg_groups reg) gid = Some g \<Longrightarrow> gid \<noteq> [] \<and> mg_group_id g = gid"
    and "\<And>gid g oid. map_of (rg_groups reg) gid = Some g \<Longrightarrow> oid \<in> set (mg_broker_order_ids g) \<Longrightarrow>
      map_of (rg_by_broker_id reg) oid = Some gid \<or> oid \<in> H \<and> map_of (rg_by_broker_id reg) oid \<noteq> None"
    and "\<And>oid gid. map_of (rg_by_broker_id reg) oid = Some gid \<Longrightarrow>
      \<exists>g. map_of (rg_groups reg) gid = Some g \<and> oid \<in> set (mg_broker_order_ids g)"
  shows "routed H reg"
  unfolding routed_def using assms by blast

lemma found_kept: "found \<noteq> [] \<Longrightarrow> fold (\<lambda>c found. if found = [] \<and> c \<noteq> [] then f c else found) clients found = found"
  by (induction clients) auto

lemma group_for_known:
  assumes "routed H reg" "map_of (rg_by_broker_id reg) oid = Some gid"
  shows "group_for reg oid clients = map_of (rg_groups reg) gid"
proof -
  obtain g where "map_of (rg_groups reg) gid = Some g" using routed_back [OF assms] by blast
  then have "gid \<noteq> []" using routed_group [OF assms(1)] by blast
  moreover have "dget (rg_by_broker_id reg) oid [] = gid" using assms(2) by (simp add: dget_def)
  ultimately show ?thesis using found_kept [of gid "\<lambda>c. dget (rg_by_client_id reg) c []" clients]
    by (simp add: group_for_def group_id_for_def)
qed

lemma group_for_Some:
  "group_for reg oid clients = Some g \<Longrightarrow> \<exists>gid. gid \<noteq> [] \<and> map_of (rg_groups reg) gid = Some g"
  by (auto simp: group_for_def split: if_splits)

lemma account_report_ids:
  "mg_broker_order_ids (fst (account_report r g)) = mg_broker_order_ids g \<and>
   mg_group_id (fst (account_report r g)) = mg_group_id g"
  by (simp add: account_report_def apply_cumulative_fill_def Let_def)

lemma adopt_order_ids:
  assumes "adopt_order r g = Inr g'"
  shows "mg_group_id g' = mg_group_id g \<and> mg_broker_order_ids g' =
    (if rp_order_id r = [] \<or> rp_order_id r \<in> set (mg_broker_order_ids g) then mg_broker_order_ids g
     else mg_broker_order_ids g @ [rp_order_id r])"
  using assms
  by (auto simp: adopt_order_def Let_def bind_result_def split: if_splits sum.splits option.splits)

lemma order_update_ids:
  assumes "order_update r g = Inr (g', s)"
  shows "mg_group_id g' = mg_group_id g \<and> mg_broker_order_ids g' =
    (if rp_order_id r = [] \<or> rp_order_id r \<in> set (mg_broker_order_ids g) then mg_broker_order_ids g
     else mg_broker_order_ids g @ [rp_order_id r])"
proof -
  from assms obtain g1 where g1: "adopt_order r g = Inr g1" "g' = fst (account_report r g1)"
    by (cases "adopt_order r g") (auto simp: order_update_def)
  with adopt_order_ids [OF g1(1)] account_report_ids [of r g1] show ?thesis by simp
qed

lemma fold_update_same:
  "map_of (fold (\<lambda>k. AList.update k v) ks d) = map_of d ++ (\<lambda>k. if k \<in> set ks then Some v else None)"
  by (induction ks arbitrary: d) (auto simp: map_add_def fun_eq_iff)

lemma map_add_same [simp]:
  "(m ++ (\<lambda>k. if k \<in> K then Some v else None)) k = (if k \<in> K then Some v else m k)"
  by (simp add: map_add_def)

text \<open>Replacing a group by one with more order ids, each of them new to the registry or its own.\<close>

lemma routed_extend:
  assumes "routed H reg" "map_of (rg_groups reg) gid = Some g" "mg_group_id g' = gid"
    and ids: "set (mg_broker_order_ids g') = set (mg_broker_order_ids g) \<union> set new"
    and free: "\<forall>oid \<in> set new. map_of (rg_by_broker_id reg) oid \<in> {None, Some gid}"
    and reg': "rg_groups reg' = AList.update gid g' (rg_groups reg)"
      "rg_by_broker_id reg' = fold (\<lambda>oid. AList.update oid gid) new (rg_by_broker_id reg)"
  shows "routed H reg' \<and> (\<forall>oid k. map_of (rg_by_broker_id reg) oid = Some k \<longrightarrow> map_of (rg_by_broker_id reg') oid = Some k)"
proof
  have known: "map_of (rg_by_broker_id reg') oid = (if oid \<in> set new then Some gid else map_of (rg_by_broker_id reg) oid)" for oid
    by (simp add: reg' fold_update_same)
  then show "\<forall>oid k. map_of (rg_by_broker_id reg) oid = Some k \<longrightarrow> map_of (rg_by_broker_id reg') oid = Some k"
    using free by auto
  show "routed H reg'"
  proof (rule routedI)
    fix k h assume h: "map_of (rg_groups reg') k = Some h"
    then show "k \<noteq> [] \<and> mg_group_id h = k"
      using assms(2,3) routed_group [OF assms(1)] by (auto simp: reg' split: if_splits)
    fix oid assume oid: "oid \<in> set (mg_broker_order_ids h)"
    show "map_of (rg_by_broker_id reg') oid = Some k \<or> oid \<in> H \<and> map_of (rg_by_broker_id reg') oid \<noteq> None"
    proof (cases "k = gid")
      case True
      with h oid ids have "oid \<in> set (mg_broker_order_ids g) \<or> oid \<in> set new" by (auto simp: reg')
      with True routed_ids [OF assms(1,2)] show ?thesis by (auto simp: known)
    next
      case False
      with h oid have "map_of (rg_by_broker_id reg) oid = Some k \<or> oid \<in> H \<and> map_of (rg_by_broker_id reg) oid \<noteq> None"
        using routed_ids [OF assms(1)] by (simp add: reg')
      with False free show ?thesis by (auto simp: known)
    qed
  next
    fix oid k assume k: "map_of (rg_by_broker_id reg') oid = Some k"
    show "\<exists>h. map_of (rg_groups reg') k = Some h \<and> oid \<in> set (mg_broker_order_ids h)"
    proof (cases "oid \<in> set new")
      case True
      with k have "k = gid" by (simp add: known)
      with True ids show ?thesis by (simp add: reg')
    next
      case False
      with k have "map_of (rg_by_broker_id reg) oid = Some k" by (simp add: known)
      then obtain h where "map_of (rg_groups reg) k = Some h" "oid \<in> set (mg_broker_order_ids h)"
        using routed_back [OF assms(1)] by blast
      with ids assms(2) show ?thesis by (cases "k = gid") (auto simp: reg')
    qed
  qed
qed

lemma acknowledge_row_ids:
  "set (mg_broker_order_ids (fold acknowledge_row rows g)) =
   set (mg_broker_order_ids g) \<union> {oid \<in> set (map (br_order_id \<circ> fst) rows). oid \<noteq> []}"
  by (induction rows arbitrary: g) (auto simp: acknowledge_row_def Let_def)

lemma acknowledge_row_group_id: "mg_group_id (fold acknowledge_row rows g) = mg_group_id g"
  by (induction rows arbitrary: g) (auto simp: acknowledge_row_def Let_def)

lemma acknowledge_ids:
  "mg_group_id (acknowledge rows g) = mg_group_id g \<and>
   set (mg_broker_order_ids (acknowledge rows g)) = set (mg_broker_order_ids g) \<union> set (acknowledged_ids rows g)"
  by (auto simp: acknowledge_def acknowledged_ids_def acknowledge_row_ids acknowledge_row_group_id)

lemma fresh_order:
  assumes "routed H reg" "group_for reg oid clients = Some g" "oid \<notin> set (mg_broker_order_ids g)"
  shows "map_of (rg_by_broker_id reg) oid = None"
proof (rule ccontr)
  assume "map_of (rg_by_broker_id reg) oid \<noteq> None"
  then obtain gid where gid: "map_of (rg_by_broker_id reg) oid = Some gid" by blast
  with group_for_known [OF assms(1) gid] assms(2) have "map_of (rg_groups reg) gid = Some g" by simp
  with routed_back [OF assms(1) gid] assms(3) show False by auto
qed

section \<open>Taking over\<close>

text \<open>A change of a group that keeps its id and its order ids.\<close>

definition keeps_ids :: "(ManagedOrderGroup \<Rightarrow> ManagedOrderGroup) \<Rightarrow> bool" where
  "keeps_ids f \<longleftrightarrow> (\<forall>g. mg_group_id (f g) = mg_group_id g \<and> mg_broker_order_ids (f g) = mg_broker_order_ids g)"

lemma change_group_broker [simp]: "rg_by_broker_id (change_group gid f reg) = rg_by_broker_id reg"
  by (simp add: change_group_def split: option.splits)

lemma change_group_groups:
  "map_of (rg_groups (change_group gid f reg)) k =
     (if k = gid then map_option f (map_of (rg_groups reg) k) else map_of (rg_groups reg) k)"
  by (auto simp: change_group_def split: option.splits)

lemma routed_change:
  assumes "routed H reg" "keeps_ids f"
  shows "routed H (change_group gid f reg)"
proof (rule routedI)
  fix k h assume "map_of (rg_groups (change_group gid f reg)) k = Some h"
  then obtain g where g: "map_of (rg_groups reg) k = Some g" "mg_group_id h = mg_group_id g"
    "mg_broker_order_ids h = mg_broker_order_ids g" using assms(2)
    by (auto simp: change_group_groups keeps_ids_def split: if_splits)
  then show "k \<noteq> [] \<and> mg_group_id h = k" using routed_group [OF assms(1)] by auto
  fix oid assume "oid \<in> set (mg_broker_order_ids h)"
  with g routed_ids [OF assms(1)]
  show "map_of (rg_by_broker_id (change_group gid f reg)) oid = Some k \<or>
      oid \<in> H \<and> map_of (rg_by_broker_id (change_group gid f reg)) oid \<noteq> None" by auto
next
  fix oid k assume "map_of (rg_by_broker_id (change_group gid f reg)) oid = Some k"
  then obtain g where "map_of (rg_groups reg) k = Some g" "oid \<in> set (mg_broker_order_ids g)"
    using routed_back [OF assms(1)] by auto
  with assms(2) show "\<exists>h. map_of (rg_groups (change_group gid f reg)) k = Some h \<and> oid \<in> set (mg_broker_order_ids h)"
    by (auto simp: change_group_groups keeps_ids_def)
qed

lemma fold_change_broker [simp]: "rg_by_broker_id (fold (\<lambda>s. change_group s f) sources reg) = rg_by_broker_id reg"
  by (induction sources arbitrary: reg) simp_all

lemma routed_fold_change: "routed H reg \<Longrightarrow> keeps_ids f \<Longrightarrow> routed H (fold (\<lambda>s. change_group s f) sources reg)"
  by (induction sources arbitrary: reg) (simp_all add: routed_change)

lemma hand_over_broker:
  "map_of (rg_by_broker_id (hand_over x sources reg)) oid =
     (if oid \<in> set (mg_broker_order_ids x) then Some (mg_group_id x) else map_of (rg_by_broker_id reg) oid)"
  by (simp add: hand_over_def fold_update_same)

lemma routed_hand_over:
  assumes "routed H reg" "mg_group_id x \<noteq> []" "map_of (rg_groups reg) (mg_group_id x) = None"
    and known: "\<forall>oid \<in> set (mg_broker_order_ids x). map_of (rg_by_broker_id reg) oid \<noteq> None"
  shows "routed (H \<union> set (mg_broker_order_ids x)) (hand_over x sources reg)"
proof -
  let ?reg = "reg\<lparr>rg_groups := AList.update (mg_group_id x) x (rg_groups reg),
    rg_by_broker_id := fold (\<lambda>oid. AList.update oid (mg_group_id x)) (mg_broker_order_ids x) (rg_by_broker_id reg)\<rparr>"
  have "routed (H \<union> set (mg_broker_order_ids x)) ?reg"
  proof (rule routedI)
    fix k h assume h: "map_of (rg_groups ?reg) k = Some h"
    with assms(2) routed_group [OF assms(1)] show "k \<noteq> [] \<and> mg_group_id h = k" by (auto split: if_splits)
    fix oid assume "oid \<in> set (mg_broker_order_ids h)"
    with h routed_ids [OF assms(1)] show "map_of (rg_by_broker_id ?reg) oid = Some k \<or>
        oid \<in> H \<union> set (mg_broker_order_ids x) \<and> map_of (rg_by_broker_id ?reg) oid \<noteq> None"
      by (auto simp: fold_update_same split: if_splits)
  next
    fix oid k assume "map_of (rg_by_broker_id ?reg) oid = Some k"
    with routed_back [OF assms(1)] assms(3)
    show "\<exists>h. map_of (rg_groups ?reg) k = Some h \<and> oid \<in> set (mg_broker_order_ids h)"
      by (fastforce simp: fold_update_same split: if_splits)
  qed
  then show ?thesis unfolding hand_over_def by (rule routed_fold_change) (simp add: keeps_ids_def)
qed

section \<open>Runs\<close>

lemma registry_step_routed:
  assumes "registry_step reg l reg'" "routed H reg"
  shows "routed (H \<union> set (snd l)) reg' \<and> (\<forall>oid gid. map_of (rg_by_broker_id reg) oid = Some gid \<longrightarrow>
    map_of (rg_by_broker_id reg') oid = Some (if oid \<in> set (snd l) then fst l else gid))"
  using assms(1)
proof cases
  case (Create g)
  have "routed H reg'"
  proof (rule routedI)
    fix gid h assume "map_of (rg_groups reg') gid = Some h"
    with Create assms(2) show "gid \<noteq> [] \<and> mg_group_id h = gid"
      by (auto simp: register_group_def routed_def split: if_splits)
    fix oid assume "oid \<in> set (mg_broker_order_ids h)"
    with \<open>map_of (rg_groups reg') gid = Some h\<close> Create routed_ids [OF assms(2)]
    show "map_of (rg_by_broker_id reg') oid = Some gid \<or> oid \<in> H \<and> map_of (rg_by_broker_id reg') oid \<noteq> None"
      by (auto simp: register_group_def split: if_splits)
  next
    fix oid gid assume "map_of (rg_by_broker_id reg') oid = Some gid"
    then have "map_of (rg_by_broker_id reg) oid = Some gid" by (simp add: Create register_group_def)
    from routed_back [OF assms(2) this] Create(4)
    show "\<exists>g. map_of (rg_groups reg') gid = Some g \<and> oid \<in> set (mg_broker_order_ids g)"
      by (auto simp: Create(2) register_group_def)
  qed
  then show ?thesis by (simp add: Create register_group_def)
next
  case (Acknowledge gid g rows)
  note gid = routed_group [OF assms(2) Acknowledge(3)]
  have "routed H reg' \<and> (\<forall>oid k. map_of (rg_by_broker_id reg) oid = Some k \<longrightarrow> map_of (rg_by_broker_id reg') oid = Some k)"
    by (rule routed_extend [OF assms(2) Acknowledge(3), where new = "acknowledged_ids rows g" and g' = "acknowledge rows g"])
      (use gid Acknowledge in \<open>simp_all add: acknowledge_ids acknowledge_group_def\<close>)
  then show ?thesis by (simp add: Acknowledge(1))
next
  case (Report r clients s)
  show ?thesis
  proof (cases "group_for reg (rp_order_id r) clients")
    case None
    with Report assms(2) show ?thesis by (simp add: route_report_def)
  next
    case (Some g)
    then obtain gid where gid: "map_of (rg_groups reg) gid = Some g" "mg_group_id g = gid"
      using group_for_Some [OF Some] routed_group [OF assms(2)] by blast
    obtain g1 s1 where g1: "order_update r g = Inr (g1, s1)" using Report Some
      by (cases "order_update r g") (auto simp: route_report_def)
    let ?new = "if rp_order_id r = [] \<or> rp_order_id r \<in> set (mg_broker_order_ids g) then [] else [rp_order_id r]"
    have free: "\<forall>oid \<in> set ?new. map_of (rg_by_broker_id reg) oid \<in> {None, Some gid}"
      using fresh_order [OF assms(2) Some] by auto
    have "routed H reg' \<and> (\<forall>oid k. map_of (rg_by_broker_id reg) oid = Some k \<longrightarrow> map_of (rg_by_broker_id reg') oid = Some k)"
      by (rule routed_extend [OF assms(2) gid(1) _ _ free, where g' = g1])
        (use order_update_ids [OF g1] gid(2) Report Some g1 in \<open>auto simp: route_report_def split: if_splits\<close>)
    then show ?thesis by (simp add: Report(1))
  qed
next
  case (HandOver x sources)
  with routed_hand_over [OF assms(2) HandOver(3-5)] show ?thesis by (simp add: hand_over_broker)
next
  case (Manage gid g g' new clients)
  have "routed H reg' \<and> (\<forall>oid k. map_of (rg_by_broker_id reg) oid = Some k \<longrightarrow> map_of (rg_by_broker_id reg') oid = Some k)"
    by (rule routed_extend [OF assms(2) Manage(3) _ Manage(5,6)])
      (use Manage routed_group [OF assms(2) Manage(3)] in simp_all)
  then show ?thesis by (simp add: Manage(1))
qed

lemma owner_after_snoc: "owner_after (ls @ [l]) oid gid = (if oid \<in> set (snd l) then fst l else owner_after ls oid gid)"
  by (induction ls arbitrary: gid) (cases l, auto)

lemma taken_over_snoc: "taken_over (ls @ [l]) = taken_over ls \<union> set (snd l)"
  by (cases l) (auto simp: taken_over_def)

lemma registry_run_routed:
  assumes "registry_run reg ls reg'" "routed H reg"
  shows "routed (H \<union> taken_over ls) reg' \<and> (\<forall>oid gid. map_of (rg_by_broker_id reg) oid = Some gid \<longrightarrow>
    map_of (rg_by_broker_id reg') oid = Some (owner_after ls oid gid))"
  using assms
proof (induction rule: registry_run.induct)
  case (start reg)
  then show ?case by (simp add: taken_over_def)
next
  case (more reg ls reg' l reg'')
  from registry_step_routed [OF more.hyps(2), of "H \<union> taken_over ls"] more.IH [OF more.prems] show ?case
    by (simp add: owner_after_snoc taken_over_snoc Un_assoc)
qed

lemma taken_over_append: "taken_over (ls @ ms) = taken_over ls \<union> taken_over ms"
  by (simp add: taken_over_def)

text \<open>C31. Every broker order belongs to exactly one group. Once the registry knows an order id --
  placed by a submission, adopted from a report or registered by a repair -- every later report of
  it is accounted to the group that owns it, whatever client ids the report carries and whatever
  groups, submissions, reports and changes of the groups come in between. The owner changes only
  when a managed exit takes the order over, and then it is that new group; and no group but the
  owner lists the order, unless it is one that was taken over.\<close>

theorem order_stays_with_group:
  assumes "registry_run empty_registry past reg" "map_of (rg_by_broker_id reg) oid = Some gid"
    and "registry_run reg ls reg'"
  defines "owner \<equiv> owner_after ls oid gid"
  shows "\<exists>g. (\<forall>clients. group_for reg' oid clients = Some g) \<and> mg_group_id g = owner \<and> oid \<in> set (mg_broker_order_ids g) \<and>
    (\<forall>k h. map_of (rg_groups reg') k = Some h \<and> oid \<in> set (mg_broker_order_ids h) \<and> oid \<notin> taken_over (past @ ls) \<longrightarrow> k = owner)"
proof -
  have "routed {} empty_registry" by (simp add: routed_def empty_registry_def)
  then have "routed (taken_over past) reg" using registry_run_routed [OF assms(1), of "{}"] by simp
  from registry_run_routed [OF assms(3) this] assms(2)
  have reg': "routed (taken_over (past @ ls)) reg'" "map_of (rg_by_broker_id reg') oid = Some owner"
    by (auto simp: taken_over_append owner_def)
  obtain g where g: "map_of (rg_groups reg') owner = Some g" "oid \<in> set (mg_broker_order_ids g)"
    using routed_back [OF reg'] by blast
  have "k = owner" if "map_of (rg_groups reg') k = Some h" "oid \<in> set (mg_broker_order_ids h)" "oid \<notin> taken_over (past @ ls)" for k h
    using routed_ids [OF reg'(1) that(1,2)] reg'(2) that(3) by simp
  moreover have "group_for reg' oid clients = Some g" for clients using group_for_known [OF reg'] g(1) by simp
  moreover have "mg_group_id g = owner" using routed_group [OF reg'(1) g(1)] by simp
  ultimately show ?thesis using g(2) by blast
qed

section \<open>The handler as a run\<close>

text \<open>What the handler does beside taking over keeps the owners.\<close>

definition managed :: "OrderRegistry \<Rightarrow> OrderRegistry \<Rightarrow> bool" where
  "managed reg reg' \<longleftrightarrow> (\<exists>ls. registry_run reg ls reg' \<and> (\<forall>l \<in> set ls. snd l = [])) \<and>
     rg_by_broker_id reg' = rg_by_broker_id reg \<and> dom (map_of (rg_groups reg')) = dom (map_of (rg_groups reg))"

lemma registry_run_append: "registry_run reg' ms reg'' \<Longrightarrow> registry_run reg ls reg' \<Longrightarrow> registry_run reg (ls @ ms) reg''"
  by (induction rule: registry_run.induct) (auto intro: registry_run.more simp flip: append_assoc)

interpretation handling: state_preorder managed
proof
  show "managed reg reg" for reg unfolding managed_def by (auto intro: registry_run.start)
  show "managed reg reg''" if m: "managed reg reg'" "managed reg' reg''" for reg reg' reg''
  proof -
    from m(1) obtain ls where ls: "registry_run reg ls reg'" "\<forall>l \<in> set ls. snd l = []" by (auto simp: managed_def)
    from m(2) obtain ms where "registry_run reg' ms reg''" "\<forall>l \<in> set ms. snd l = []" by (auto simp: managed_def)
    with ls have "registry_run reg (ls @ ms) reg'' \<and> (\<forall>l \<in> set (ls @ ms). snd l = [])"
      by (auto intro: registry_run_append)
    moreover from m have "rg_by_broker_id reg'' = rg_by_broker_id reg"
        "dom (map_of (rg_groups reg'')) = dom (map_of (rg_groups reg))" by (auto simp: managed_def)
    ultimately show ?thesis unfolding managed_def by blast
  qed
qed

lemma change_group_managed:
  assumes "keeps_ids f"
  shows "managed reg (change_group gid f reg)"
proof (cases "map_of (rg_groups reg) gid")
  case None
  then show ?thesis by (simp add: change_group_def handling.R_refl)
next
  case (Some g)
  have "registry_step reg ([], []) (reg\<lparr>rg_groups := AList.update gid (f g) (rg_groups reg),
      rg_by_broker_id := fold (\<lambda>oid. AList.update oid gid) [] (rg_by_broker_id reg), rg_by_client_id := rg_by_client_id reg\<rparr>)"
    by (rule registry_step.Manage [OF Some, where new = "[]"]) (use assms in \<open>simp_all add: keeps_ids_def\<close>)
  then have "registry_step reg ([], []) (change_group gid f reg)" by (simp add: change_group_def Some)
  then have "registry_run reg ([] @ [([], [])]) (change_group gid f reg)" by (rule registry_run.more [OF registry_run.start])
  moreover have "dom (map_of (rg_groups (change_group gid f reg))) = dom (map_of (rg_groups reg))"
    by (auto simp: change_group_groups dom_def)
  ultimately show ?thesis unfolding managed_def by fastforce
qed

lemma set_state_managed: "managed reg (set_state gid state reg)"
  unfolding set_state_def by (rule change_group_managed) (simp add: keeps_ids_def)

lemma delegated_managed: "managed reg (delegated value gid reg)"
  unfolding delegated_def by (rule change_group_managed) (simp add: keeps_ids_def)

lemma replace_targets_managed: "relates managed (for_each (replace_target render broker i price) targets)"
proof (rule handling.relates_for_each)
  fix t
  show "relates managed (replace_target render broker i price t)"
    by (rule relatesI) (auto simp: replace_target_def keeps_ids_def intro: handling.R_refl change_group_managed split: sum.splits)
qed

lemma replace_targets_rows:
  "for_each (replace_target render broker i price) targets reg = (Inr rows, reg') \<Longrightarrow> map fst rows = targets"
proof (induction targets arbitrary: reg rows)
  case (Cons t targets)
  then show ?case by (auto simp: abind_Inr_iff replace_target_def split: sum.splits)
qed simp

text \<open>Runs in which only the group \<open>gid\<close> takes orders over.\<close>

definition run_of :: "string \<Rightarrow> OrderRegistry \<Rightarrow> OrderRegistry \<Rightarrow> bool" where
  "run_of gid reg reg' \<longleftrightarrow> (\<exists>ls. registry_run reg ls reg' \<and> (\<forall>l \<in> set ls. snd l = [] \<or> fst l = gid))"

lemma run_of_managed: "managed reg reg' \<Longrightarrow> run_of gid reg reg'"
  unfolding managed_def run_of_def by blast

lemma run_of_trans: "run_of gid reg reg' \<Longrightarrow> run_of gid reg' reg'' \<Longrightarrow> run_of gid reg reg''"
proof -
  assume r: "run_of gid reg reg'" "run_of gid reg' reg''"
  from r(1) obtain ls where ls: "registry_run reg ls reg'" "\<forall>l \<in> set ls. snd l = [] \<or> fst l = gid" by (auto simp: run_of_def)
  from r(2) obtain ms where "registry_run reg' ms reg''" "\<forall>l \<in> set ms. snd l = [] \<or> fst l = gid" by (auto simp: run_of_def)
  with ls have "registry_run reg (ls @ ms) reg'' \<and> (\<forall>l \<in> set (ls @ ms). snd l = [] \<or> fst l = gid)"
    by (auto intro: registry_run_append)
  then show ?thesis unfolding run_of_def by blast
qed

lemma hand_over_run:
  assumes "mg_group_id x \<noteq> []" "map_of (rg_groups reg) (mg_group_id x) = None"
    and "\<forall>oid \<in> set (mg_broker_order_ids x). map_of (rg_by_broker_id reg) oid \<noteq> None"
  shows "run_of (mg_group_id x) reg (hand_over x sources reg)"
  using registry_run.more [OF registry_run.start registry_step.HandOver [OF assms]] unfolding run_of_def by fastforce

lemma exit_group_fields [simp]:
  "mg_group_id (exit_group gid i account tactic rows state price) = gid"
  "mg_broker_order_ids (exit_group gid i account tactic rows state price) = map (xt_order_id \<circ> fst) rows"
  by (simp_all add: exit_group_def new_group_def)

text \<open>Every target the handler finds is an order the registry knows.\<close>

lemma candidate_ids_known:
  assumes "routed H reg" "well_keyed (rg_groups reg)" "g \<in> set (protected_candidates account i reg)"
    and "oid \<in> set (mg_broker_order_ids g)"
  shows "map_of (rg_by_broker_id reg) oid \<noteq> None"
proof -
  from assms(3) have "g \<in> set (dvalues (rg_groups reg))" by (simp add: protected_candidates_def)
  then obtain k where "map_of (rg_groups reg) k = Some g" using dvalues_map_of [OF _ assms(2)] by blast
  from routed_ids [OF assms(1) this assms(4)] show ?thesis by auto
qed

lemma sliced_target_id: "sliced_target live i g oid = Some t \<Longrightarrow> xt_order_id t = oid"
  by (auto simp: sliced_target_def Let_def split: if_splits option.splits)

lemma sliced_targets_known:
  assumes "routed H reg" "well_keyed (rg_groups reg)" "t \<in> set (sliced_targets live i (protected_candidates account i reg))"
  shows "map_of (rg_by_broker_id reg) (xt_order_id t) \<noteq> None"
  using assms(3) candidate_ids_known [OF assms(1,2)]
  by (fastforce simp: sliced_targets_def List.map_filter_def dest: sliced_target_id)

lemma single_target_id: "single_target live i g = Some t \<Longrightarrow> xt_order_id t \<in> set (mg_broker_order_ids g)"
proof -
  assume s: "single_target live i g = Some t"
  then obtain n ns where n: "filter (is_target_index i g) [0 ..< length (mg_orders g)] = n # ns"
    and t: "xt_order_id t = mg_broker_order_ids g ! n"
    by (auto simp: single_target_def Let_def split: list.splits option.splits if_splits)
  from n have "n \<in> set (filter (is_target_index i g) [0 ..< length (mg_orders g)])" by simp
  then have "n < length (mg_broker_order_ids g)" by (simp add: is_target_index_def Let_def)
  with t show ?thesis by simp
qed

lemma sliced_exit_run:
  assumes "gid \<noteq> []" "map_of (rg_groups reg) gid = None"
    and "\<forall>t \<in> set targets. map_of (rg_by_broker_id reg) (xt_order_id t) \<noteq> None"
  shows "run_of gid reg (snd (sliced_exit render broker gid i account tactic targets price reg))"
proof (cases "for_each (replace_target render broker i price) targets reg")
  case (Pair out mid)
  have m: "managed reg mid" using relatesD [OF replace_targets_managed [of render broker i price targets], of reg] by (simp add: Pair)
  show ?thesis
  proof (cases out)
    case (Inl e)
    with m show ?thesis by (simp add: sliced_exit_def abind_def Pair run_of_managed)
  next
    case (Inr rows)
    let ?x = "exit_group gid i account tactic rows OM_SUBMITTING (Some price)"
    have "map (xt_order_id \<circ> fst) rows = map xt_order_id targets"
      using replace_targets_rows [of render broker i price targets reg rows mid] Pair Inr by (metis map_map)
    moreover have "map_of (rg_groups mid) gid = None"
      using m assms(2) by (auto simp: managed_def domIff dest: equalityD1)
    ultimately have "run_of gid mid (hand_over ?x (map (mg_group_id \<circ> xt_group) targets) mid)"
      using hand_over_run [of ?x mid] m assms(1,3) by (auto simp: managed_def)
    from run_of_trans [OF run_of_trans [OF run_of_managed [OF m] this] run_of_managed [OF set_state_managed]]
    show ?thesis by (simp add: sliced_exit_def abind_def Pair Inr Let_def)
  qed
qed

lemma single_exit_run:
  assumes "gid \<noteq> []" "map_of (rg_groups reg) gid = None" "map_of (rg_by_broker_id reg) (xt_order_id t) \<noteq> None"
  shows "run_of gid reg (snd (single_exit render broker gid i account tactic p t reg))"
proof -
  have handed: "run_of gid reg (set_state gid OM_SUBMITTING (hand_over (exit_group gid i account tactic [(t, r)] OM_CREATED None) ss reg))" for r ss
    by (rule run_of_trans [OF _ run_of_managed [OF set_state_managed]])
      (use hand_over_run [of "exit_group gid i account tactic [(t, r)] OM_CREATED None" reg ss] assms in simp)
  note after = run_of_trans [OF handed run_of_managed]
  show ?thesis
    by (auto simp: single_exit_def Let_def split: sum.splits exit_reply.splits
      intro!: after handed run_of_managed [OF handling.R_refl] set_state_managed delegated_managed
      intro: handling.R_trans [OF delegated_managed set_state_managed])
qed

text \<open>The handler is a run of the registry: it changes groups, and only the new group takes orders over.\<close>

theorem protected_exit_is_a_run:
  assumes "routed H reg" "well_keyed (rg_groups reg)" "gid \<noteq> []" "map_of (rg_groups reg) gid = None"
  shows "run_of gid reg (snd (modify_existing_protected_exit render broker gid one orders account p tactic i reg))"
proof -
  have same: "run_of gid reg reg" by (rule run_of_managed [OF handling.R_refl])
  let ?live = "open_live_by_id orders" and ?cs = "protected_candidates account i reg"
  have sliced: "run_of gid reg (snd (sliced_exit render broker gid i account tactic (sliced_targets ?live i ?cs) price reg))" for price
    by (rule sliced_exit_run [OF assms(3,4)]) (use sliced_targets_known [OF assms(1,2)] in blast)
  have single: "run_of gid reg (snd (single_exit render broker gid i account tactic p t reg))"
    if "List.map_filter (single_target ?live i) (rev ?cs) = t # ts" for t ts
  proof (rule single_exit_run [OF assms(3,4)])
    from that have "t \<in> set (List.map_filter (single_target ?live i) (rev ?cs))" by simp
    then obtain g where "g \<in> set ?cs" "single_target ?live i g = Some t" by (auto simp: List.map_filter_def)
    with candidate_ids_known [OF assms(1,2)] single_target_id
    show "map_of (rg_by_broker_id reg) (xt_order_id t) \<noteq> None" by blast
  qed
  from same sliced single show ?thesis
    by (auto simp: modify_existing_protected_exit_def Let_def abind_def split: sum.splits list.splits)
qed

text \<open>Nothing undoes the take-over of a single target: also when the broker fails, blocks or rejects the
  modification, and the order goes on working at its old price, its fills are accounted to the
  managed exit that never came about.\<close>

lemma failed_takeover_kept:
  assumes "bind_result (initial_exit_price tactic p i) (\<lambda>price.
      exit_replacement render i price (Some (fadd (lo_filledQuantity (xt_live t)) (si_quantity i))) (xt_request t)) = Inr r"
  shows "map_of (rg_by_broker_id (snd (single_exit render broker gid i account tactic p t reg))) (xt_order_id t) = Some gid"
  using assms
  by (auto simp: single_exit_def Let_def set_state_def delegated_def hand_over_broker split: sum.splits exit_reply.splits)

section \<open>Instances\<close>

definition demo_leg :: "string \<Rightarrow> string option \<Rightarrow> f64 \<Rightarrow> f64 \<Rightarrow> OrderRequest" where
  "demo_leg client parent quantity price =
     \<lparr>or_acctId = ''U1'', or_conid = 1, or_orderType = ''LMT'', or_side = (if parent = None then ''BUY'' else ''SELL''),
      or_quantity = Some quantity, or_cashQty = None, or_secType = ''STK'', or_cOID = client, or_parentId = parent,
      or_ticker = ''ABC'', or_tif = ''DAY'', or_outsideRTH = False, or_price = Some price, or_auxPrice = None,
      or_trailingAmt = None, or_trailingType = None, or_listingExchange = ''SMART'', or_isSingleGroup = True,
      or_manualIndicator = False, or_extOperator = None, or_referrer = None, or_strategy = None, or_strategyParameters = [],
      or_raw = no_lineage\<rparr>"

text \<open>An entry and its target, acknowledged as 1 and 2.\<close>

definition demo_legs :: "OrderRequest list" where
  "demo_legs = [demo_leg ''e1'' None 7 100, demo_leg ''t1'' (Some ''e1'') 7 110]"

definition demo_submitted :: ManagedOrderGroup where
  "demo_submitted = new_group ''g1'' demo_intent ''U1'' (orders_plan demo_legs) demo_legs None"

definition demo_row :: "string \<Rightarrow> nat \<Rightarrow> BrokerRow \<times> nat" where
  "demo_row oid n = (\<lparr>br_order_id = oid, br_error = [], br_error_code = [], br_message = [], br_reply_id = [],
     br_message_ids = []\<rparr>, n)"

definition demo_rows :: "(BrokerRow \<times> nat) list" where
  "demo_rows = [demo_row ''1'' 0, demo_row ''2'' 1]"

definition demo_registry :: OrderRegistry where
  "demo_registry = acknowledge_group demo_submitted demo_rows (register_group demo_submitted empty_registry)"

definition demo_open_target :: "int \<Rightarrow> f64 \<Rightarrow> LiveOrder" where
  "demo_open_target oid quantity =
     (demo_live oid 0)\<lparr>lo_side := ''SELL'', lo_totalSize := quantity, lo_remainingQuantity := quantity\<rparr>"

definition demo_take :: StrategyIntent where
  "demo_take = demo_intent\<lparr>si_action := ''take_profit'', si_quantity := 7\<rparr>"

definition demo_taken :: OrderRegistry where
  "demo_taken = snd (modify_existing_protected_exit no_render (\<lambda>_ _. Inr (ExitAnswered [])) ''x1'' False
     [demo_open_target 2 7] ''U1'' (orders_plan [demo_leg ''x'' None 7 105]) None demo_take demo_registry)"

text \<open>Taking the profit of all seven shares takes over the target: the group that placed it goes on
  listing it and is delegated, the new group holds it at the new price; the entry stays.\<close>

definition demo_view :: "OrderRegistry \<Rightarrow> (string, string) dict \<times> (bool \<times> string list \<times> f64 option list) list" where
  "demo_view reg = (rg_by_broker_id reg, map (\<lambda>(k, g). (mg_protection_delegated g, mg_broker_order_ids g, map or_price (mg_orders g)))
     (rg_groups reg))"

lemma demo_take_over:
  "demo_view demo_taken = ([(''1'', ''g1''), (''2'', ''x1'')],
     [(True, [''1'', ''2''], [Some 100, Some 110]), (False, [''2''], [Some 105])])"
  by code_simp

definition demo_exit_group :: ManagedOrderGroup where
  "demo_exit_group = exit_group ''x1'' demo_take ''U1'' None
     [(\<lparr>xt_group = demo_submitted, xt_order_id = ''2'', xt_index = 1, xt_request = demo_legs ! 1,
        xt_live = demo_open_target 2 7\<rparr>, demo_legs ! 1)] OM_SUBMITTING None"

text \<open>Order 2 has gone to the managed exit, order 1 stays with the entry and is listed nowhere else.\<close>

theorem order_stays_with_group_witness:
  "(\<exists>g. (\<forall>clients. group_for (hand_over demo_exit_group [''g1''] demo_registry) ''2'' clients = Some g) \<and> mg_group_id g = ''x1'') \<and>
   (\<exists>g. (\<forall>clients. group_for (hand_over demo_exit_group [''g1''] demo_registry) ''1'' clients = Some g) \<and> mg_group_id g = ''g1'' \<and>
     (\<forall>k h. map_of (rg_groups (hand_over demo_exit_group [''g1''] demo_registry)) k = Some h \<and> ''1'' \<in> set (mg_broker_order_ids h) \<longrightarrow> k = ''g1''))"
proof -
  let ?reg = "register_group demo_submitted empty_registry"
  have new: "mg_group_id demo_submitted = ''g1''" "mg_broker_order_ids demo_submitted = []" "mg_state demo_submitted = OM_CREATED"
    by (simp_all add: demo_submitted_def new_group_def)
  have "registry_step empty_registry ([], []) ?reg"
    by (rule registry_step.Create) (simp_all add: new empty_registry_def)
  then have "registry_run empty_registry ([] @ [([], [])]) ?reg" by (rule registry_run.more [OF registry_run.start])
  moreover have "registry_step ?reg ([], []) demo_registry" unfolding demo_registry_def
    by (rule registry_step.Acknowledge [of _ "''g1''"]) (simp_all add: register_group_def new empty_registry_def)
  ultimately have past: "registry_run empty_registry (([] @ [([], [])]) @ [([], [])]) demo_registry" by (rule registry_run.more)
  have known: "map_of (rg_by_broker_id demo_registry) ''2'' = Some ''g1''" "map_of (rg_by_broker_id demo_registry) ''1'' = Some ''g1''"
    by code_simp+
  have taken: "mg_group_id demo_exit_group = ''x1''" "mg_broker_order_ids demo_exit_group = [''2'']"
    by (simp_all add: demo_exit_group_def)
  have "map_of (rg_groups demo_registry) ''x1'' = None" by (simp add: demo_registry_def acknowledge_group_def new register_group_def empty_registry_def)
  then have "registry_step demo_registry (mg_group_id demo_exit_group, mg_broker_order_ids demo_exit_group)
      (hand_over demo_exit_group [''g1''] demo_registry)"
    by (intro registry_step.HandOver) (simp_all add: taken known)
  then have "registry_run demo_registry ([] @ [(''x1'', [''2''])]) (hand_over demo_exit_group [''g1''] demo_registry)"
    unfolding taken by (rule registry_run.more [OF registry_run.start])
  from order_stays_with_group [OF past known(1) this] order_stays_with_group [OF past known(2) this] show ?thesis
    by (auto simp: taken_over_def)
qed

end
