(* ===== verification/Admission.thy ===== *)
theory Admission
  imports Allocation "HOL-Library.List_Lexorder" "HOL-Library.Char_ord"
begin

text \<open>
  Admission in \<open>src/trading_runtime/portfolio.py\<close> and \<open>entry_quality.py\<close>: the decision on an
  intent with the reservation it leaves, the release of reservations, the attribution of fills to
  allocation lots, and the reconciliation of lots with broker positions. \<open>now\<close> is the event
  clock, \<open>ids\<close> the identifiers \<open>uuid4\<close> hands out, \<open>fence\<close> the admission lease with the journal's
  answer whether it is still current, \<open>correlation\<close> the identity service. Journal records and
  the audit lists of decisions and proposals are not part of the state. A call that raises gives no
  state back; the guards that raise come before the first row is written.
\<close>

section \<open>Decisions\<close>

datatype PortfolioDecisionStatus = PD_APPROVED | PD_RESIZED | PD_REJECTED | PD_DEFERRED

record PortfolioDecision =
  pd_decision_id :: string
  pd_request_id :: string
  pd_account_key :: string
  pd_account_id :: string
  pd_policy_id :: string
  pd_policy_revision :: int
  pd_snapshot_id :: string
  pd_status :: PortfolioDecisionStatus
  pd_requested_quantity :: f64
  pd_approved_quantity :: f64
  pd_approved_notional :: f64
  pd_planned_loss :: f64
  pd_reservation_id :: string
  pd_reasons :: "string list"
  pd_metrics_before :: PortfolioMetrics
  pd_metrics_after :: PortfolioMetrics
  pd_decided_at :: utc

record AdmissionIds =
  ai_decision :: string
  ai_reservation :: string
  ai_hold :: string

record AdmissionFence =
  fe_epoch :: int
  fe_owner :: string
  fe_current :: bool

text \<open>\<open>dict.fromkeys(reasons)\<close>: the first occurrence of each reason.\<close>

definition first_occurrences :: "'a list \<Rightarrow> 'a list" where
  "first_occurrences xs = fold (\<lambda>x acc. if x \<in> set acc then acc else acc @ [x]) xs []"

definition put_state :: "AdmissionState \<Rightarrow> PortfolioEngine \<Rightarrow> PortfolioEngine" where
  "put_state s e = e\<lparr>pe_states := AList.update (account_id_of s) s (pe_states e)\<rparr>"

text \<open>\<open>_decision\<close>: a deferred request stays pending, any other outcome clears it.\<close>

definition track_request :: "StrategyIntent \<Rightarrow> PortfolioDecisionStatus \<Rightarrow> string list \<Rightarrow> AdmissionState \<Rightarrow> AdmissionState" where
  "track_request i status reasons s =
     s\<lparr>sz_pending_requests :=
        (if status = PD_DEFERRED then AList.update (si_intent_id i) reasons (sz_pending_requests s)
         else AList.delete (si_intent_id i) (sz_pending_requests s))\<rparr>"

definition make_decision ::
    "StrategyIntent \<Rightarrow> AdmissionState \<Rightarrow> PortfolioDecisionStatus \<Rightarrow> f64 \<Rightarrow> f64 \<Rightarrow> f64 \<Rightarrow> string \<Rightarrow> string list \<Rightarrow>
     PortfolioMetrics \<Rightarrow> PortfolioMetrics \<Rightarrow> utc \<Rightarrow> AdmissionIds \<Rightarrow> PortfolioEngine \<Rightarrow>
     (PortfolioEngine \<times> PortfolioDecision) result" where
  "make_decision i s status requested approved loss reservation_id reasons before after now ids e =
     bind_result (float_or (jget (si_metadata i) ''fx_to_base'') 1) (\<lambda>fx.
       Inr (put_state (track_request i status reasons s) e,
         \<lparr>pd_decision_id = ai_decision ids, pd_request_id = si_intent_id i,
          pd_account_key = pr_account_key (pa_profile s), pd_account_id = account_id_of s,
          pd_policy_id = pp_policy_id (admission_policy s), pd_policy_revision = pp_revision (admission_policy s),
          pd_snapshot_id = sz_snapshot_id s, pd_status = status, pd_requested_quantity = requested, pd_approved_quantity = approved,
          pd_approved_notional = fmul (fmul approved (si_reference_price i)) fx, pd_planned_loss = loss,
          pd_reservation_id = reservation_id, pd_reasons = first_occurrences reasons,
          pd_metrics_before = before, pd_metrics_after = after, pd_decided_at = now\<rparr>))"

type_synonym admission = "(PortfolioEngine \<times> PortfolioDecision \<times> StrategyIntent option) result"

definition refuse ::
    "StrategyIntent \<Rightarrow> AdmissionState \<Rightarrow> PortfolioDecisionStatus \<Rightarrow> f64 \<Rightarrow> string list \<Rightarrow> utc \<Rightarrow> AdmissionIds \<Rightarrow>
     PortfolioEngine \<Rightarrow> admission" where
  "refuse i s status requested reasons now ids e =
     bind_result (make_decision i s status requested 0 0 [] reasons (portfolio_metrics e s) (portfolio_metrics e s) now ids e)
       (\<lambda>(e1, d). Inr (e1, d, None))"

section \<open>Tranches\<close>

record CashTranche =
  ct_key :: string
  ct_count :: int
  ct_index :: int
  ct_fraction :: f64

definition whole_number :: "json \<Rightarrow> int option" where
  "whole_number v = (case v of JNum n \<Rightarrow> if of_int \<lfloor>n\<rfloor> = n then Some \<lfloor>n\<rfloor> else None | _ \<Rightarrow> None)"

definition cash_tranche :: "StrategyIntent \<Rightarrow> CashTranche option result" where
  "cash_tranche i =
     (let v = jget (si_metadata i) ''cash_tranche'' in
      if si_action i \<notin> ENTRY_ACTIONS \<or> \<not> truthy v then Inr None
      else
        (case (si_action i \<in> {''enter_long'', ''add_long''}, jget v ''key'', whole_number (jget v ''count''),
               whole_number (jget v ''index'')) of
           (True, JStr key, Some count, Some index) \<Rightarrow>
             if key = [] \<or> \<not> (2 \<le> count \<and> count \<le> 20) \<or> \<not> (0 \<le> index \<and> index < count)
             then Inl (ValueError ''Invalid cash tranche request'')
             else (case (if has_key v ''initial_fraction'' then jget v ''initial_fraction'' else JNum 1) of
                 JNum f \<Rightarrow> if 0 < f \<and> f \<le> 1
                   then Inr (Some \<lparr>ct_key = key, ct_count = count, ct_index = index, ct_fraction = f\<rparr>)
                   else Inl (ValueError ''Invalid initial cash tranche fraction'')
               | _ \<Rightarrow> Inl (ValueError ''Invalid initial cash tranche fraction''))
         | _ \<Rightarrow> Inl (ValueError ''Invalid cash tranche request'')))"

definition assignment_of :: "(json \<Rightarrow> string) \<Rightarrow> StrategyIntent \<Rightarrow> string" where
  "assignment_of render i = str_or render (jget (si_metadata i) ''assignment_id'') []"

definition tranche_hold :: "(json \<Rightarrow> string) \<Rightarrow> PortfolioEngine \<Rightarrow> AdmissionState \<Rightarrow> StrategyIntent \<Rightarrow> CashTranche \<Rightarrow> PortfolioReservation option" where
  "tranche_hold render e s i t =
     find (\<lambda>r. rv_account_id r = account_id_of s \<and> rv_cash_tranche_key r = ct_key t \<and>
       rv_assignment_id r = assignment_of render i \<and> rv_ticker r = upper (si_ticker i)) (dvalues (pe_reservations e))"

definition tranche_out_of_sequence :: "StrategyIntent \<Rightarrow> CashTranche \<Rightarrow> PortfolioReservation option \<Rightarrow> bool" where
  "tranche_out_of_sequence i t hold \<longleftrightarrow>
     (if ct_index t = 0 then hold \<noteq> None \<or> si_action i \<noteq> ''enter_long''
      else (case hold of
          None \<Rightarrow> True
        | Some r \<Rightarrow> si_action i \<noteq> ''add_long'' \<or> rv_status r \<noteq> ''reserved'' \<or>
            rv_cash_tranche_next r \<noteq> ct_index t \<or> rv_cash_tranche_count r \<noteq> ct_count t))"

section \<open>Reasons to reject\<close>

definition effective_control_mode :: "PortfolioEngine \<Rightarrow> AdmissionState \<Rightarrow> PortfolioControlMode" where
  "effective_control_mode e s =
     (case pe_control_modes e of None \<Rightarrow> pa_control_mode s | Some modes \<Rightarrow> dget modes (account_id_of s) (pa_control_mode s))"

definition policy_allows :: "string list \<Rightarrow> string \<Rightarrow> string \<Rightarrow> bool" where
  "policy_allows allowed identity name \<longleftrightarrow> ''*'' \<in> set allowed \<or> identity \<in> set allowed \<or> name \<in> set allowed"

definition reason_if :: "bool \<Rightarrow> string \<Rightarrow> string list" where
  "reason_if condition reason = (if condition then [reason] else [])"

definition account_reasons :: "PortfolioEngine \<Rightarrow> AdmissionState \<Rightarrow> StrategyIntent \<Rightarrow> utc \<Rightarrow> string list" where
  "account_reasons e s i now =
     (let entry = (si_action i \<in> ENTRY_ACTIONS); mode = effective_control_mode e s in
      reason_if (\<not> pr_enabled (pa_profile s) \<or> mode = CONTROL_DISABLED) ''account_disabled'' @
      reason_if (entry \<and> mode \<in> {CONTROL_ENTRIES_PAUSED, CONTROL_REDUCE_ONLY}) ''entries_paused'' @
      reason_if (entry \<and> pe_allocation_identity e \<in> set (pa_disabled_allocations s)) ''strategy_allocation_disabled'' @
      reason_if (\<not> entry \<and> si_action i \<notin> REDUCTION_ACTIONS \<and> si_action i \<notin> PROTECTION_ACTIONS) ''unsupported_portfolio_action'' @
      reason_if (pa_sync_state s \<notin> {SYNC_SYNCHRONIZED, SYNC_DEGRADED}) ''account_not_synchronized'' @
      reason_if (entry \<and> snapshot_stale s now) ''portfolio_snapshot_stale'' @
      reason_if (upper (si_ticker i) \<in> upper ` set (pp_restricted_symbols (admission_policy s))) ''symbol_restricted'')"

definition session_reasons :: "(json \<Rightarrow> string) \<Rightarrow> PortfolioPolicy \<Rightarrow> StrategyIntent \<Rightarrow> string list result" where
  "session_reasons render p i =
     (let eligible = jget (si_metadata i) ''eligible_sessions'' in
      bind_result (if truthy eligible then string_items render eligible else Inr []) (\<lambda>sessions.
        (let extended = (jget (si_metadata i) ''session_routing'' = JStr ''smart'' \<and>
               (''premarket'' \<in> set sessions \<or> ''after_hours'' \<in> set sessions)) \<or> si_outside_rth i
         in Inr (reason_if (extended \<and> \<not> pp_allow_outside_rth p) ''outside_rth_not_allowed'' @
              reason_if (truthy (jget (si_metadata i) ''would_hold_overnight'') \<and> \<not> pp_allow_overnight p)
                ''overnight_position_not_allowed''))))"

definition intent_currency :: "(json \<Rightarrow> string) \<Rightarrow> AdmissionState \<Rightarrow> StrategyIntent \<Rightarrow> string" where
  "intent_currency render s i = upper (str_or render (jget (si_metadata i) ''currency'') (pr_base_currency (pa_profile s)))"

definition intent_security_type :: "(json \<Rightarrow> string) \<Rightarrow> StrategyIntent \<Rightarrow> string" where
  "intent_security_type render i = upper (str_or render (jget (si_metadata i) ''security_type'') ''STK'')"

definition fx_to_base :: "(json \<Rightarrow> string) \<Rightarrow> AdmissionState \<Rightarrow> StrategyIntent \<Rightarrow> f64 result" where
  "fx_to_base render s i =
     float_or (jget (si_metadata i) ''fx_to_base'')
       (if intent_currency render s i = pr_base_currency (pa_profile s) then 1 else 0)"

definition instrument_reasons :: "(json \<Rightarrow> string) \<Rightarrow> AdmissionState \<Rightarrow> StrategyIntent \<Rightarrow> f64 \<Rightarrow> string list" where
  "instrument_reasons render s i fx =
     (let p = admission_policy s in
      reason_if (intent_security_type render i \<notin> upper ` set (pp_allowed_security_types p)) ''security_type_not_allowed'' @
      reason_if (intent_currency render s i \<notin> upper ` set (pp_allowed_currencies p)) ''currency_not_allowed'' @
      reason_if (fx \<le> 0) ''fx_rate_unavailable'' @
      reason_if (si_action i \<in> {''enter_short'', ''add_short''} \<and> \<not> pp_allow_short p) ''short_not_allowed'' @
      reason_if (si_action i \<in> {''enter_long'', ''add_long''} \<and> \<not> pp_allow_long p) ''long_not_allowed'')"

definition unprotected_contract :: "PortfolioEngine \<Rightarrow> StrategyIntent \<Rightarrow> bool" where
  "unprotected_contract e i \<longleftrightarrow>
     (case jget (si_metadata i) ''contract'' of JStr c \<Rightarrow> c \<in> set (pe_unprotected_contracts e) | _ \<Rightarrow> False)"

definition protection_reasons :: "PortfolioPolicy \<Rightarrow> ProtectionProfile \<Rightarrow> string list" where
  "protection_reasons p profile =
     reason_if (\<not> policy_allows (pp_allowed_protection_profiles p) (profile_identity profile) (pr_profile_id profile))
       ''protection_profile_not_allowed'' @
     reason_if (pp_maximum_protection_slices p < int (length (pr_slices profile))) ''too_many_protection_slices'' @
     reason_if (\<not> pp_allow_stop_limit_protection p \<and>
         list_ex (\<lambda>s. sr_order_type (sl_stop s) = SO_STOP_LIMIT) (pr_slices profile)) ''stop_limit_protection_not_allowed''"

definition profile_reasons :: "PortfolioEngine \<Rightarrow> AdmissionState \<Rightarrow> StrategyIntent \<Rightarrow> ExecutionPolicy \<Rightarrow> ProtectionProfile option \<Rightarrow> string list" where
  "profile_reasons e s i xp profile =
     (let p = admission_policy s; entry = (si_action i \<in> ENTRY_ACTIONS) in
      reason_if (entry \<and> \<not> policy_allows (pp_allowed_execution_policies p) (ExecPolicy.policy_identity xp)
          (ExecutionPolicyName_value (xp_name xp))) ''execution_policy_not_allowed'' @
      reason_if (entry \<and> profile = None \<and> \<not> unprotected_contract e i) ''protection_profile_required'' @
      (case profile of None \<Rightarrow> [] | Some q \<Rightarrow> protection_reasons p q))"

definition current_quantity :: "AdmissionState \<Rightarrow> StrategyIntent \<Rightarrow> f64" where
  "current_quantity s i = (case map_of (sz_positions s) (upper (si_ticker i)) of Some p \<Rightarrow> pp_position p | None \<Rightarrow> 0)"

definition exposure_reasons :: "PortfolioEngine \<Rightarrow> AdmissionState \<Rightarrow> StrategyIntent \<Rightarrow> f64 \<Rightarrow> string list" where
  "exposure_reasons e s i requested =
     (let p = admission_policy s; metrics = portfolio_metrics e s in
      reason_if (pp_block_on_unattributed_position p \<and> si_action i \<in> ENTRY_ACTIONS \<and>
          map_of (pe_differences e) (pr_account_key (pa_profile s), upper (si_ticker i)) \<noteq> None) ''unattributed_position'' @
      reason_if (si_action i \<in> REDUCTION_ACTIONS \<and> si_action i \<noteq> ''exit'' \<and>
          fadd requested lit_1e9 < \<bar>current_quantity s i\<bar> \<and> \<not> pp_allow_partial_profit_pocket p) ''partial_profit_pocket_not_allowed'' @
      reason_if (sz_summary s = None) ''account_summary_unavailable'' @
      reason_if (pp_maximum_daily_loss p < pm_daily_loss metrics) ''daily_loss_limit'' @
      reason_if (pp_maximum_drawdown p < pm_drawdown metrics) ''drawdown_limit'')"

definition admission_reasons ::
    "(json \<Rightarrow> string) \<Rightarrow> PortfolioEngine \<Rightarrow> AdmissionState \<Rightarrow> StrategyIntent \<Rightarrow> f64 \<Rightarrow> string list \<Rightarrow> f64 \<Rightarrow> utc \<Rightarrow>
     string list result" where
  "admission_reasons render e s i requested sessions fx now =
     bind_result (resolved_execution_policy render i) (\<lambda>xp.
     bind_result (resolved_protection_profile i) (\<lambda>profile.
       Inr (account_reasons e s i now @ sessions @ instrument_reasons render s i fx @
         profile_reasons e s i xp profile @ exposure_reasons e s i requested)))"

section \<open>Entry quality\<close>

definition json_number :: "json \<Rightarrow> f64 option" where
  "json_number v = (case v of JNum n \<Rightarrow> Some n | _ \<Rightarrow> None)"

definition quality_number :: "json \<Rightarrow> string \<Rightarrow> f64 result" where
  "quality_number policy k = bind_result (item policy k) number_value"

definition entry_quality_blocked ::
    "json \<Rightarrow> f64 option \<Rightarrow> f64 option \<Rightarrow> f64 option \<Rightarrow> f64 option \<Rightarrow> f64 \<Rightarrow> string result" where
  "entry_quality_blocked policy bid ask stop target quantity =
     (if \<not> truthy policy then Inr []
      else (case (bid, ask, stop, target) of
          (Some b, Some a, Some st, Some tg) \<Rightarrow>
            if \<not> (0 < st \<and> st < b \<and> b \<le> a \<and> a < tg) \<or> quantity \<le> 0 then Inr ''entry_quality_invalid_geometry''
            else
              (let spread = fsub a b in
               bind_result (quality_number policy ''quote_clearance_spreads'') (\<lambda>clearance.
               if fadd (fsub b st) lit_1e9 < fmul clearance spread then Inr ''entry_stop_inside_quote_noise''
               else
                 bind_result (quality_number policy ''minimum_fee'') (\<lambda>minimum_fee.
                 bind_result (quality_number policy ''fee_per_share'') (\<lambda>per_share.
                 bind_result (quality_number policy ''slippage_bps'') (\<lambda>slippage.
                 bind_result (quality_number policy ''reward_cap_r'') (\<lambda>cap.
                 bind_result (quality_number policy ''minimum_reward_cost_multiple'') (\<lambda>multiple.
                   (let fee = max minimum_fee (fmul per_share quantity);
                        costs = fadd (fmul 2 fee)
                          (fmul quantity (fadd spread (fquo (fmul (fmul 2 a) slippage) 10000)));
                        reward = fmul quantity (min (fsub tg a) (fmul cap (fsub a st)))
                    in Inr (if fadd reward lit_1e9 < fmul costs multiple then ''entry_reward_below_execution_cost'' else [])))))))))
        | _ \<Rightarrow> Inr ''entry_quality_missing_geometry''))"

definition intent_quality :: "StrategyIntent \<Rightarrow> f64 \<Rightarrow> string result" where
  "intent_quality i quantity =
     (if si_action i \<in> ENTRY_ACTIONS
      then entry_quality_blocked (jget (si_metadata i) ''entry_quality'')
        (json_number (jget (si_metadata i) ''bid'')) (json_number (jget (si_metadata i) ''ask''))
        (si_invalidation_price i) (si_profit_target_price i) quantity
      else Inr [])"

section \<open>Sizing a decision\<close>

text \<open>The price an intent is sized at; an entry at a completion quote freezes the price it funds.\<close>

definition sized_price :: "(json \<Rightarrow> string) \<Rightarrow> StrategyIntent \<Rightarrow> f64 result" where
  "sized_price render i = (if si_action i \<in> ENTRY_ACTIONS then worst_entry_price render i else Inr (si_reference_price i))"

definition frozen_funding :: "StrategyIntent \<Rightarrow> f64 \<Rightarrow> StrategyIntent result" where
  "frozen_funding i price =
     (if si_action i \<in> ENTRY_ACTIONS \<and> completion_quote i
      then bind_result (if has_key (si_metadata i) ''entry_acquisition_buffer_bps''
          then to_float (jget (si_metadata i) ''entry_acquisition_buffer_bps'') else Inr 0) (\<lambda>buffer.
        if buffer < 0 then Inl (ValueError ''Acquisition funding buffer must be finite and nonnegative'')
        else StrategyIntent_check (i\<lparr>si_metadata := merged (si_metadata i)
          [(''entry_funding_price'', JNum (fmul price (fadd 1 (fquo buffer 10000))))]\<rparr>))
      else Inr i)"

text \<open>A first tranche is cut to its fraction of the broker's cash, a later one to its hold.\<close>

definition tranche_request ::
    "(json \<Rightarrow> string) \<Rightarrow> AdmissionState \<Rightarrow> StrategyIntent \<Rightarrow> CashTranche option \<Rightarrow> PortfolioReservation option \<Rightarrow> f64 \<Rightarrow> f64 \<Rightarrow> f64 result" where
  "tranche_request render s i tranche hold base_price requested =
     (case tranche of
        None \<Rightarrow> Inr requested
      | Some t \<Rightarrow>
          (let unit = bind_result (entry_funding_factor render i (admission_policy s)) (\<lambda>f. Inr (fmul base_price f)) in
           case hold of
             None \<Rightarrow>
               (case si_capital_request i of
                  Some c \<Rightarrow>
                    if cr_mode c \<noteq> ''mandate_fraction''
                    then Inl (ValueError ''Initial cash tranche requires a cash fraction request'')
                    else if \<not> 0 < base_price then Inr 0
                    else bind_result unit (\<lambda>u. bind_result (fdiv (fmul (broker_cash_capacity s) (cr_value c)) u) (\<lambda>q.
                      Inr (min requested q)))
                | None \<Rightarrow> Inl (ValueError ''Initial cash tranche requires a cash fraction request''))
           | Some r \<Rightarrow>
               bind_result (if \<not> 0 < base_price then Inr 0
                 else bind_result unit (\<lambda>u. bind_result (fdiv (rv_reserved_notional r) u) (\<lambda>q.
                   Inr (min (rv_cash_tranche_size r) q)))) (\<lambda>q.
               Inr (case si_capital_request i of
                   Some c \<Rightarrow> (case cr_maximum_quantity c of Some m \<Rightarrow> min q m | None \<Rightarrow> q)
                 | None \<Rightarrow> q))))"

text \<open>While the slice's capacity is computed its own hold is not counted.\<close>

definition without_hold :: "PortfolioReservation option \<Rightarrow> PortfolioEngine \<Rightarrow> PortfolioEngine" where
  "without_hold hold e =
     (case hold of
        None \<Rightarrow> e
      | Some r \<Rightarrow> e\<lparr>pe_reservations := AList.update (rv_reservation_id r)
          (r\<lparr>rv_reserved_notional := 0, rv_reserved_planned_risk := 0, rv_reserved_entry_fees := 0\<rparr>) (pe_reservations e)\<rparr>)"

definition capacity_for ::
    "(json \<Rightarrow> string) \<Rightarrow> PortfolioEngine \<Rightarrow> AdmissionState \<Rightarrow> StrategyIntent \<Rightarrow> PortfolioReservation option \<Rightarrow> f64 \<Rightarrow> f64 \<Rightarrow>
     (f64 \<times> string list) result" where
  "capacity_for render e s i hold requested base_price =
     (let held = current_quantity s i in
      if si_action i \<in> REDUCTION_ACTIONS
      then (let available = (if si_action i \<in> {''reduce_long'', ''take_profit'', ''exit''} then max 0 held else max 0 (- held));
                approved = min requested available
            in Inr (approved, reason_if (approved \<le> 0) ''no_broker_position_to_reduce''))
      else if si_action i \<in> PROTECTION_ACTIONS
      then (let approved = min requested \<bar>held\<bar>
            in Inr (approved, reason_if (approved \<le> 0) ''no_broker_position_to_protect''))
      else entry_capacity render (without_hold hold e) s i requested base_price 0)"

text \<open>The quantity that can be ordered: whole shares of a stock entry, else millionths.\<close>

definition orderable :: "(json \<Rightarrow> string) \<Rightarrow> StrategyIntent \<Rightarrow> PortfolioPolicy \<Rightarrow> f64 \<Rightarrow> f64 \<times> string list" where
  "orderable render i p quantity =
     (let capped = min quantity (pp_maximum_order_quantity p) in
      if si_action i \<in> ENTRY_ACTIONS \<and> intent_security_type render i = ''STK''
      then (let whole = float_of_int (py_floor (fadd capped lit_1e9))
            in (whole, reason_if (fadd whole lit_1e9 < capped) ''rounded_to_whole_share_lot''))
      else (fquo (of_int (py_floor (fmul (fadd capped lit_1e12) 1000000))) 1000000, []))"

text \<open>The split of a first tranche: its quantity, the size of each later one, and all of them.\<close>

definition tranche_split :: "CashTranche option \<Rightarrow> f64 \<Rightarrow> (f64 \<times> f64 \<times> f64) option" where
  "tranche_split tranche approved =
     (case tranche of
        None \<Rightarrow> Some (approved, approved, approved)
      | Some t \<Rightarrow>
          if ct_index t \<noteq> 0 then Some (approved, approved, approved)
          else (let later = float_of_int (py_floor (fquo approved (of_int (ct_count t))));
                    now_quantity = float_of_int (py_floor (fmul later (ct_fraction t)))
                in if now_quantity < 1 then None
                   else Some (now_quantity, later, fadd now_quantity (fmul later (of_int (ct_count t - 1))))))"

definition rebalance_candidates :: "PortfolioEngine \<Rightarrow> AdmissionState \<Rightarrow> StrategyIntent \<Rightarrow> (string \<times> PortfolioPosition) list" where
  "rebalance_candidates e s i =
     filter (\<lambda>(ticker, p). ticker \<noteq> upper (si_ticker i) \<and> 0 < \<bar>pp_position p\<bar> \<and>
       list_ex (\<lambda>l. lt_ticker l = ticker) (account_lots e (account_id_of s))) (sz_positions s)"

definition position_return :: "PortfolioPosition \<Rightarrow> f64" where
  "position_return p = fquo (pp_unrealizedPnl p) (max \<bar>pp_mktValue p\<bar> 1)"

definition least_by :: "('a \<Rightarrow> f64) \<Rightarrow> 'a list \<Rightarrow> 'a option" where
  "least_by f xs = (case xs of [] \<Rightarrow> None
     | x # ys \<Rightarrow> Some (foldl (\<lambda>best y. if f y < f best then y else best) x ys))"

text \<open>\<open>_propose_rebalance\<close>, as far as the decision depends on it: whether a proposal is made.\<close>

definition rebalance_proposed :: "PortfolioEngine \<Rightarrow> AdmissionState \<Rightarrow> StrategyIntent \<Rightarrow> bool result" where
  "rebalance_proposed e s i =
     (let mandate = strategy_mandate e s in
      case si_capital_request i of
        None \<Rightarrow> Inr False
      | Some c \<Rightarrow>
          if \<not> cr_allow_replacement c \<or> \<not> truthy (jget mandate ''allow_replacement'') then Inr False
          else bind_result (float_or (jget (si_metadata i) ''opportunity_score'') 0) (\<lambda>score.
            bind_result (float_or (jget mandate ''minimum_replacement_improvement_pct'') 0) (\<lambda>minimum.
              case least_by (\<lambda>(_, p). position_return p) (rebalance_candidates e s i) of
                None \<Rightarrow> Inr False
              | Some (_, p) \<Rightarrow> Inr (\<not> fsub (fmul score 100) (fmul (position_return p) 100) < minimum))))"

section \<open>Approval\<close>

text \<open>What an approval commits: the reservation, and the hold of the tranches that follow.\<close>

definition admitted_reservation ::
    "(json \<Rightarrow> string) \<Rightarrow> PortfolioEngine \<Rightarrow> AdmissionState \<Rightarrow> StrategyIntent \<Rightarrow> f64 \<Rightarrow> f64 \<Rightarrow> f64 \<Rightarrow> f64 \<Rightarrow> f64 \<Rightarrow> utc \<Rightarrow>
     AdmissionIds \<Rightarrow> AdmissionFence \<Rightarrow> PortfolioReservation" where
  "admitted_reservation render e s i approved price notional loss fees now ids fence =
     (let entry = (si_action i \<in> ENTRY_ACTIONS) in
      \<lparr>rv_reservation_id = ai_reservation ids, rv_decision_id = ai_decision ids, rv_intent_id = si_intent_id i,
       rv_account_key = pr_account_key (pa_profile s), rv_account_id = account_id_of s,
       rv_strategy_id = pe_strategy_id e, rv_assignment_id = assignment_of render i, rv_ticker = upper (si_ticker i),
       rv_action = si_action i, rv_quantity = approved, rv_remaining_quantity = approved, rv_reference_price = price,
       rv_reserved_notional = (if entry then notional else 0), rv_reserved_planned_risk = (if entry then loss else 0),
       rv_created_at = now, rv_status = ''reserved'', rv_filled_quantity = 0,
       rv_admission_epoch = fe_epoch fence, rv_admission_owner = fe_owner fence, rv_reserved_entry_fees = fees,
       rv_cash_tranche_key = [], rv_cash_tranche_size = 0, rv_cash_tranche_count = 0, rv_cash_tranche_next = 0,
       rv_cash_tranche_budget = 0\<rparr>)"

definition consumed_hold :: "CashTranche \<Rightarrow> PortfolioReservation \<Rightarrow> PortfolioReservation \<Rightarrow> PortfolioReservation" where
  "consumed_hold t used hold =
     (let left = hold\<lparr>rv_reserved_notional := max 0 (fsub (rv_reserved_notional hold) (rv_reserved_notional used)),
             rv_reserved_planned_risk := max 0 (fsub (rv_reserved_planned_risk hold) (rv_reserved_planned_risk used)),
             rv_reserved_entry_fees := max 0 (fsub (rv_reserved_entry_fees hold) (rv_reserved_entry_fees used)),
             rv_cash_tranche_next := ct_index t + 1\<rparr>
      in if rv_cash_tranche_next left = rv_cash_tranche_count left
         then left\<lparr>rv_status := ''released'', rv_reserved_notional := 0, rv_reserved_planned_risk := 0,
                rv_reserved_entry_fees := 0, rv_remaining_quantity := 0\<rparr>
         else left)"

definition opened_hold :: "CashTranche \<Rightarrow> AdmissionIds \<Rightarrow> f64 \<Rightarrow> f64 \<Rightarrow> f64 \<Rightarrow> PortfolioReservation \<Rightarrow> PortfolioReservation" where
  "opened_hold t ids approved later budget_quantity used =
     (let multiplier = fsub (fquo budget_quantity approved) 1 in
      used\<lparr>rv_reservation_id := ai_hold ids, rv_intent_id := rv_intent_id used @ '':cash-hold'',
           rv_quantity := 0, rv_remaining_quantity := 0,
           rv_reserved_notional := fmul (rv_reserved_notional used) multiplier,
           rv_reserved_planned_risk := fmul (rv_reserved_planned_risk used) multiplier,
           rv_reserved_entry_fees := fmul (rv_reserved_entry_fees used) multiplier,
           rv_cash_tranche_key := ct_key t, rv_cash_tranche_size := later, rv_cash_tranche_count := ct_count t,
           rv_cash_tranche_next := 1, rv_cash_tranche_budget := fmul (rv_reserved_notional used) (fadd multiplier 1)\<rparr>)"

definition put_reservation :: "PortfolioReservation \<Rightarrow> PortfolioEngine \<Rightarrow> PortfolioEngine" where
  "put_reservation r e = e\<lparr>pe_reservations := AList.update (rv_reservation_id r) r (pe_reservations e)\<rparr>"

definition next_hold ::
    "CashTranche option \<Rightarrow> PortfolioReservation option \<Rightarrow> AdmissionIds \<Rightarrow> f64 \<Rightarrow> f64 \<Rightarrow> f64 \<Rightarrow> PortfolioReservation \<Rightarrow>
     PortfolioReservation option" where
  "next_hold tranche hold ids approved later budget_quantity r =
     (case tranche of
        None \<Rightarrow> None
      | Some t \<Rightarrow> Some (case hold of Some h \<Rightarrow> consumed_hold t r h | None \<Rightarrow> opened_hold t ids approved later budget_quantity r))"

definition approved_entries ::
    "(json \<Rightarrow> string) \<Rightarrow> PortfolioEngine \<Rightarrow> AdmissionState \<Rightarrow> StrategyIntent \<Rightarrow> f64 \<Rightarrow> f64 \<Rightarrow> f64 \<Rightarrow> string \<Rightarrow> AdmissionIds \<Rightarrow>
     CashTranche option \<Rightarrow> PortfolioReservation option \<Rightarrow> (string \<times> json) list" where
  "approved_entries render e s i requested price fx correlation ids tranche hold =
     [(''portfolio_account_key'', JStr (pr_account_key (pa_profile s))),
      (''portfolio_decision_id'', JStr (ai_decision ids)),
      (''unprotected_backtest_authorized'', JBool (unprotected_contract e i)),
      (''portfolio_policy'', JStr (Portfolio.policy_identity (admission_policy s))),
      (''portfolio_reservation_id'', JStr (ai_reservation ids)),
      (''requested_quantity'', JNum requested)] @
     (if truthy (jget (si_metadata i) ''unreserved_cash_slice'')
      then [(''unreserved_slice_notional'', JNum (fmul requested price))] else []) @
     (case (tranche, hold) of
        (Some t, Some h) \<Rightarrow> [(''cash_tranche_allocation'', JObj
          [(''budget'', JNum (rv_cash_tranche_budget h)), (''tranche_size'', JNum (rv_cash_tranche_size h)),
           (''count'', JNum (of_int (rv_cash_tranche_count h))), (''index'', JNum (of_int (ct_index t))),
           (''remaining_budget'', JNum (rv_reserved_notional h))])]
      | _ \<Rightarrow> []) @
     [(''portfolio_fx_to_base'', JNum fx), (''correlation_id'', JStr correlation), (''causation_id'', JStr (ai_decision ids))]"

text \<open>The commit of a positive quantity: the price of it, the lease, the reservation and the hold, and
  the intent that goes on to order management.\<close>

definition commit_admission ::
    "(json \<Rightarrow> string) \<Rightarrow> (StrategyIntent \<Rightarrow> string) \<Rightarrow> AdmissionFence option \<Rightarrow> AdmissionIds \<Rightarrow> utc \<Rightarrow> PortfolioEngine \<Rightarrow> AdmissionState \<Rightarrow>
     StrategyIntent \<Rightarrow> CashTranche option \<Rightarrow> PortfolioReservation option \<Rightarrow> f64 \<Rightarrow> f64 \<Rightarrow> f64 \<Rightarrow> string list \<Rightarrow> f64 \<times> f64 \<times> f64 \<Rightarrow> admission" where
  "commit_admission render correlation fence ids now e s i tranche hold requested price fx reasons split =
     (let (approved, later, budget_quantity) = split; base_price = fmul price fx; p = admission_policy s;
          entry = (si_action i \<in> ENTRY_ACTIONS); before = portfolio_metrics e s in
      bind_result (entry_funding_factor render i p) (\<lambda>factor.
      bind_result (reserved_entry_loss render i approved) (\<lambda>loss.
      bind_result (entry_fee_per_share render i p base_price) (\<lambda>fee.
        (let notional = fmul (fmul approved base_price) factor;
             planned = fmul loss fx;
             status = (if isclose 0 lit_1e9 approved requested then PD_APPROVED else PD_RESIZED);
             plain_after = (if entry then before\<lparr>pm_reserved_notional := fadd (pm_reserved_notional before) notional,
               pm_gross_exposure := fadd (pm_gross_exposure before) notional,
               pm_open_risk := fadd (pm_open_risk before) planned\<rparr> else before)
         in case fence of
              None \<Rightarrow> Inl (RuntimeError ''Portfolio reservation requires a fenced admission lease'')
            | Some lease \<Rightarrow>
                if \<not> fe_current lease
                then Inl (RuntimeError ''Portfolio admission lease became stale before reservation commit'')
                else
                  (let r = admitted_reservation render e s i approved price notional planned
                         (if entry then fmul approved fee else 0) now ids lease;
                       h = next_hold tranche hold ids approved later budget_quantity r;
                       e1 = put_reservation r e;
                       e2 = (case h of None \<Rightarrow> e1 | Some x \<Rightarrow> put_reservation x e1);
                       after = (if tranche = None then plain_after else portfolio_metrics e2 s)
                   in bind_result (make_decision i s status requested approved planned (ai_reservation ids) reasons before after now ids e2)
                        (\<lambda>(e3, d).
                      bind_result (StrategyIntent_check (i\<lparr>si_quantity := approved, si_metadata := merged (si_metadata i)
                        (approved_entries render e s i requested price fx (correlation i) ids tranche h)\<rparr>)) (\<lambda>j.
                      Inr (e3, d, Some j)))))))))"

definition waits_for_capital :: "StrategyIntent \<Rightarrow> bool" where
  "waits_for_capital i \<longleftrightarrow> truthy (jget (si_metadata i) ''wait_for_capital'')"

definition refusal_status :: "StrategyIntent \<Rightarrow> PortfolioDecisionStatus" where
  "refusal_status i = (if si_action i \<in> ENTRY_ACTIONS \<and> waits_for_capital i then PD_DEFERRED else PD_REJECTED)"

text \<open>\<open>_approve_locked\<close> once the quantity asked for is known and nothing speaks against the intent.\<close>

definition size_admission ::
    "(json \<Rightarrow> string) \<Rightarrow> (StrategyIntent \<Rightarrow> string) \<Rightarrow> AdmissionFence option \<Rightarrow> AdmissionIds \<Rightarrow> utc \<Rightarrow> PortfolioEngine \<Rightarrow> AdmissionState \<Rightarrow>
     StrategyIntent \<Rightarrow> CashTranche option \<Rightarrow> PortfolioReservation option \<Rightarrow> f64 \<Rightarrow> f64 \<Rightarrow> f64 \<Rightarrow> admission" where
  "size_admission render correlation fence ids now e s i tranche hold requested price fx =
     bind_result (capacity_for render e s i hold requested (fmul price fx)) (\<lambda>(capacity, limits).
       if capacity \<le> 0
       then bind_result (rebalance_proposed e s i) (\<lambda>proposed.
         (let reasons = limits @ reason_if proposed ''rebalance_proposed'' in
          refuse i s (refusal_status i) requested (if reasons = [] then [''no_portfolio_capacity''] else reasons) now ids e))
       else
         (let (approved, rounding) = orderable render i (admission_policy s) capacity; reasons = limits @ rounding in
          if approved \<le> 0
          then refuse i s (refusal_status i) requested (reasons @ [''quantity_below_minimum_increment'']) now ids e
          else
            (case tranche_split tranche approved of
               None \<Rightarrow> refuse i s PD_REJECTED requested [''cash_budget_below_tranche_count''] now ids e
             | Some split \<Rightarrow>
                 (let all_reasons = reasons @ reason_if (case tranche of None \<Rightarrow> False | Some t \<Rightarrow> ct_index t = 0)
                        ''cash_budget_split_into_tranches'' in
                  bind_result (intent_quality i (fst split)) (\<lambda>blocked.
                    if blocked \<noteq> [] then refuse i s PD_REJECTED requested (all_reasons @ [blocked]) now ids e
                    else commit_admission render correlation fence ids now e s i tranche hold requested price fx all_reasons split)))))"

definition existing_request :: "PortfolioEngine \<Rightarrow> AdmissionState \<Rightarrow> StrategyIntent \<Rightarrow> PortfolioReservation option" where
  "existing_request e s i =
     find (\<lambda>r. rv_account_id r = account_id_of s \<and> rv_intent_id r = si_intent_id i) (dvalues (pe_reservations e))"

definition repeated_decision ::
    "StrategyIntent \<Rightarrow> AdmissionState \<Rightarrow> PortfolioReservation \<Rightarrow> utc \<Rightarrow> AdmissionIds \<Rightarrow> PortfolioEngine \<Rightarrow> admission" where
  "repeated_decision i s r now ids e =
     bind_result (make_decision i s PD_APPROVED (rv_quantity r) (rv_quantity r) (rv_reserved_planned_risk r)
         (rv_reservation_id r) [''entry_request_already_allocated''] (portfolio_metrics e s) (portfolio_metrics e s) now ids e)
       (\<lambda>(e1, d). Inr (e1, d, None))"

definition approve_locked ::
    "(json \<Rightarrow> string) \<Rightarrow> (StrategyIntent \<Rightarrow> string) \<Rightarrow> AdmissionFence option \<Rightarrow> AdmissionIds \<Rightarrow> utc \<Rightarrow> StrategyIntent \<Rightarrow>
     AdmissionState \<Rightarrow> PortfolioEngine \<Rightarrow> admission" where
  "approve_locked render correlation fence ids now i s e =
     (let entry = (si_action i \<in> ENTRY_ACTIONS) in
      bind_result (cash_tranche i) (\<lambda>tranche.
        (let hold = (case tranche of None \<Rightarrow> None | Some t \<Rightarrow> tranche_hold render e s i t) in
         case (if entry then existing_request e s i else None) of
           Some r \<Rightarrow> repeated_decision i s r now ids e
         | None \<Rightarrow>
             bind_result (if entry \<and> si_capital_request i \<noteq> None then capital_request_quantity render e s i
                 else Inr (si_quantity i)) (\<lambda>requested.
             bind_result (session_reasons render (admission_policy s) i) (\<lambda>sessions.
             bind_result (fx_to_base render s i) (\<lambda>fx.
             bind_result (admission_reasons render e s i requested sessions fx now) (\<lambda>reasons.
               (let all_reasons = reason_if (case tranche of None \<Rightarrow> False | Some t \<Rightarrow> tranche_out_of_sequence i t hold)
                      ''cash_tranche_sequence_invalid'' @ reasons in
                if all_reasons \<noteq> [] then refuse i s PD_REJECTED requested all_reasons now ids e
                else
                  bind_result (sized_price render i) (\<lambda>price.
                  bind_result (frozen_funding i price) (\<lambda>j.
                  bind_result (tranche_request render s j tranche hold (fmul price fx) requested) (\<lambda>sized.
                    if entry \<and> sized \<le> 0 \<and> 0 < price \<and> waits_for_capital j \<and> si_capital_request j \<noteq> None
                    then refuse j s PD_DEFERRED sized [''limited_by_available_funds''] now ids e
                    else if sized \<le> 0 \<or> price \<le> 0
                    then refuse j s PD_REJECTED sized [''invalid_quantity_or_reference_price''] now ids e
                    else size_admission render correlation fence ids now e s j tranche hold sized price fx)))))))))))"

text \<open>The assignment the caller names must agree with the intent's own.\<close>

definition with_assignment :: "string option \<Rightarrow> StrategyIntent \<Rightarrow> StrategyIntent result" where
  "with_assignment assignment i =
     (case assignment of
        None \<Rightarrow> Inr i
      | Some a \<Rightarrow>
          if a = [] \<or> jget (si_metadata i) ''assignment_id'' \<notin> {JNull, JStr a}
          then Inl (ValueError ''Portfolio assignment identity conflicts with intent'')
          else StrategyIntent_check (i\<lparr>si_metadata := merged (si_metadata i) [(''assignment_id'', JStr a)]\<rparr>))"

definition approve ::
    "(json \<Rightarrow> string) \<Rightarrow> (StrategyIntent \<Rightarrow> string) \<Rightarrow> AdmissionFence option \<Rightarrow> AdmissionIds \<Rightarrow> utc \<Rightarrow> string \<Rightarrow> string option \<Rightarrow>
     StrategyIntent \<Rightarrow> PortfolioEngine \<Rightarrow> admission" where
  "approve render correlation fence ids now account assignment i e =
     bind_result (with_assignment assignment i) (\<lambda>j.
       case map_of (pe_states e) account of
         None \<Rightarrow> Inl (PyKeyError ''Unknown portfolio account'')
       | Some s \<Rightarrow> approve_locked render correlation fence ids now j s e)"

section \<open>Release\<close>

definition release_row :: "PortfolioReservation \<Rightarrow> PortfolioEngine \<Rightarrow> PortfolioEngine" where
  "release_row r = put_reservation (r\<lparr>rv_status := ''released'', rv_remaining_quantity := 0\<rparr>)"

definition reserved_row :: "PortfolioEngine \<Rightarrow> string \<Rightarrow> PortfolioReservation option" where
  "reserved_row e intent = find (\<lambda>r. rv_intent_id r = intent \<and> rv_status r = ''reserved'') (dvalues (pe_reservations e))"

text \<open>The holds an initial reservation keeps for its later tranches.\<close>

definition holds_cash_for :: "PortfolioReservation \<Rightarrow> PortfolioReservation \<Rightarrow> bool" where
  "holds_cash_for r h \<longleftrightarrow> rv_cash_tranche_key h \<noteq> [] \<and> rv_status h = ''reserved'' \<and> rv_account_id h = rv_account_id r \<and>
     rv_strategy_id h = rv_strategy_id r \<and> rv_assignment_id h = rv_assignment_id r \<and> rv_ticker h = rv_ticker r"

text \<open>\<open>release_intent\<close> and \<open>_release_cash_holds\<close> call each other. Each call that goes on releases a
  reserved row first, so the number of rows bounds the depth.\<close>

primrec release_within :: "nat \<Rightarrow> string \<Rightarrow> PortfolioEngine \<Rightarrow> PortfolioEngine" where
  "release_within 0 intent e = e"
| "release_within (Suc n) intent e =
     (case reserved_row e intent of
        None \<Rightarrow> e
      | Some r \<Rightarrow>
          (let e1 = release_row r e in
           if rv_cash_tranche_key r = [] \<and> rv_action r = ''enter_long''
           then fold (\<lambda>h. if holds_cash_for r h then release_within n (rv_intent_id h) else id) (dvalues (pe_reservations e1)) e1
           else e1))"

definition release_intent :: "string \<Rightarrow> PortfolioEngine \<Rightarrow> PortfolioEngine" where
  "release_intent intent e = release_within (Suc (length (pe_reservations e))) intent e"

definition release_cash_holds :: "PortfolioReservation \<Rightarrow> PortfolioEngine \<Rightarrow> PortfolioEngine" where
  "release_cash_holds r e =
     fold (\<lambda>h. if holds_cash_for r h then release_intent (rv_intent_id h) else id) (dvalues (pe_reservations e)) e"

section \<open>Fills\<close>

definition lot_id_of :: "PortfolioReservation \<Rightarrow> string" where
  "lot_id_of r = rv_account_id r @ '':'' @ rv_strategy_id r @ '':'' @
     text_or (rv_assignment_id r) (rv_ticker r) @ '':'' @ rv_ticker r"

text \<open>The signed change of a lot: a reduction goes towards zero and stops there.\<close>

definition signed_fill :: "string \<Rightarrow> f64 \<Rightarrow> f64 \<Rightarrow> f64" where
  "signed_fill action quantity previous =
     (if action \<in> REDUCTION_ACTIONS
      then if 0 < previous then - min \<bar>quantity\<bar> previous
           else if previous < 0 then min \<bar>quantity\<bar> \<bar>previous\<bar>
           else 0
      else if action \<in> {''enter_short'', ''add_short''} then - quantity else quantity)"

definition lot_risk :: "string \<Rightarrow> f64 \<Rightarrow> f64 \<Rightarrow> f64 \<Rightarrow> f64 \<Rightarrow> f64" where
  "lot_risk action change previous previous_risk incremental_risk =
     (if action \<in> REDUCTION_ACTIONS
      then (let share = (if lit_1e12 < \<bar>previous\<bar> then min 1 (fquo \<bar>change\<bar> \<bar>previous\<bar>) else 0)
            in max 0 (fmul previous_risk (fsub 1 share)))
      else fadd previous_risk incremental_risk)"

definition lot_average :: "f64 \<Rightarrow> PortfolioAllocationLot option \<Rightarrow> f64 \<Rightarrow> f64 \<Rightarrow> f64 \<Rightarrow> f64" where
  "lot_average reference current previous change next_quantity =
     (case current of
        Some l \<Rightarrow> if lit_1e12 < \<bar>previous\<bar> \<and> 0 < fmul change previous
          then fquo (fadd (fmul \<bar>previous\<bar> (lt_average_price l)) (fmul \<bar>change\<bar> reference)) \<bar>next_quantity\<bar>
          else reference
      | None \<Rightarrow> reference)"

definition opt_lot :: "('l \<Rightarrow> f64) \<Rightarrow> 'l option \<Rightarrow> f64" where
  "opt_lot f l = (case l of None \<Rightarrow> 0 | Some x \<Rightarrow> f x)"

definition apply_fill :: "utc \<Rightarrow> PortfolioReservation \<Rightarrow> f64 \<Rightarrow> string \<Rightarrow> PortfolioEngine \<Rightarrow> PortfolioEngine" where
  "apply_fill now r quantity action e =
     (let effective = text_or action (rv_action r); lot_id = lot_id_of r;
          current = map_of (pe_allocations e) lot_id;
          previous = opt_lot lt_quantity current; previous_risk = opt_lot lt_planned_risk current;
          added_risk = (if 0 < rv_remaining_quantity r
            then fquo (fmul (rv_reserved_planned_risk r) quantity) (rv_remaining_quantity r) else 0);
          e1 = (if effective \<in> REDUCTION_ACTIONS then release_cash_holds r e else e);
          change = signed_fill effective quantity previous;
          next_risk = lot_risk effective change previous previous_risk added_risk;
          next_quantity = fadd previous change
      in if \<bar>next_quantity\<bar> \<le> lit_1e9 then e1\<lparr>pe_allocations := AList.delete lot_id (pe_allocations e1)\<rparr>
         else e1\<lparr>pe_allocations := AList.update lot_id
           \<lparr>lt_allocation_id = lot_id, lt_account_key = rv_account_key r, lt_account_id = rv_account_id r,
            lt_strategy_id = rv_strategy_id r, lt_strategy_revision = pe_strategy_revision e,
            lt_assignment_id = rv_assignment_id r, lt_ticker = rv_ticker r, lt_quantity = next_quantity,
            lt_average_price = lot_average (rv_reference_price r) current previous change next_quantity,
            lt_planned_risk = next_risk, lt_realized_pnl = opt_lot lt_realized_pnl current,
            lt_source = ''managed'', lt_updated_at = now\<rparr> (pe_allocations e1)\<rparr>)"

fun OrderManagementState_value :: "OrderManagementState \<Rightarrow> string" where
  "OrderManagementState_value OM_CREATED = ''created''"
| "OrderManagementState_value OM_RISK_RESERVED = ''risk_reserved''"
| "OrderManagementState_value OM_SUBMITTING = ''submitting''"
| "OrderManagementState_value OM_WARNING_PENDING = ''warning_pending''"
| "OrderManagementState_value OM_ACKNOWLEDGED = ''acknowledged''"
| "OrderManagementState_value OM_WORKING = ''working''"
| "OrderManagementState_value OM_PARTIALLY_FILLED = ''partially_filled''"
| "OrderManagementState_value OM_CANCEL_PENDING = ''cancel_pending''"
| "OrderManagementState_value OM_OUTCOME_UNKNOWN = ''outcome_unknown''"
| "OrderManagementState_value OM_FILLED = ''filled''"
| "OrderManagementState_value OM_CANCELLED = ''cancelled''"
| "OrderManagementState_value OM_REJECTED = ''rejected''"
| "OrderManagementState_value OM_POLICY_BLOCKED = ''policy_blocked''"

definition entry_snapshot :: "OrderGroupSnapshot \<Rightarrow> bool" where
  "entry_snapshot g \<longleftrightarrow> gs_fill_role g \<in> {[], ''entry''}"

definition scaled_amount :: "f64 \<Rightarrow> f64 \<Rightarrow> f64 \<Rightarrow> f64" where
  "scaled_amount amount remaining before = (if 0 < before then fquo (fmul amount remaining) before else 0)"

text \<open>The reservation after a report of its group.\<close>

definition updated_reservation :: "OrderGroupSnapshot \<Rightarrow> f64 \<Rightarrow> PortfolioReservation \<Rightarrow> PortfolioReservation" where
  "updated_reservation g filled r =
     (let entry_update = entry_snapshot g; closed = entry_update \<and> gs_entry_submission_closed g;
          terminal = gs_state g \<in> TERMINAL_MANAGEMENT_STATES \<or> closed;
          left = (if terminal then 0 else max 0 (fsub (rv_quantity r) filled))
      in r\<lparr>rv_status := (if closed then OrderManagementState_value OM_FILLED
             else if entry_update then OrderManagementState_value (gs_state g) else rv_status r),
           rv_filled_quantity := filled, rv_remaining_quantity := left,
           rv_reserved_notional := (if entry_update then scaled_amount (rv_reserved_notional r) left (rv_remaining_quantity r)
             else rv_reserved_notional r),
           rv_reserved_planned_risk := scaled_amount (rv_reserved_planned_risk r) left (rv_remaining_quantity r),
           rv_reserved_entry_fees := scaled_amount (rv_reserved_entry_fees r) left (rv_remaining_quantity r)\<rparr>)"

definition on_order_group_update :: "utc \<Rightarrow> OrderGroupSnapshot \<Rightarrow> PortfolioEngine \<Rightarrow> PortfolioEngine" where
  "on_order_group_update now g e =
     (case find (\<lambda>r. rv_intent_id r = gs_intent_id g) (dvalues (pe_reservations e)) of
        None \<Rightarrow> e
      | Some r \<Rightarrow>
          (let entry_update = entry_snapshot g;
               prior = dget (pe_last_filled e) (rv_reservation_id r) 0;
               filled = (if entry_update then max prior (gs_filled_quantity g) else prior);
               incremental = (if 0 < gs_fill_incremental_quantity g then gs_fill_incremental_quantity g
                 else max 0 (fsub filled prior));
               action = (if gs_fill_role g \<notin> {[], ''entry''} then gs_action g else rv_action r);
               e1 = (if incremental = 0 then e
                 else (let a = apply_fill now r incremental action e in
                       if entry_update then a\<lparr>pe_last_filled := AList.update (rv_reservation_id r) filled (pe_last_filled a)\<rparr> else a));
               terminal = gs_state g \<in> TERMINAL_MANAGEMENT_STATES \<or> (entry_update \<and> gs_entry_submission_closed g);
               e2 = (if terminal \<and> entry_update \<and> filled \<le> 0 \<and> rv_action r = ''enter_long'' then release_cash_holds r e1 else e1)
           in put_reservation (updated_reservation g filled r) e2))"

section \<open>Repricing an admitted entry\<close>

definition acquired_notional :: "PortfolioEngine \<Rightarrow> PortfolioReservation \<Rightarrow> f64" where
  "acquired_notional e r =
     fsum (map (\<lambda>l. \<bar>fmul (lt_quantity l) (lt_average_price l)\<bar>)
       (filter (\<lambda>l. lt_assignment_id l = rv_assignment_id r \<and> lt_ticker l = rv_ticker r) (account_lots e (rv_account_id r))))"

definition reprice_barred :: "PortfolioEngine \<Rightarrow> AdmissionState \<Rightarrow> StrategyIntent \<Rightarrow> string \<Rightarrow> PortfolioReservation \<Rightarrow> f64 \<Rightarrow> utc \<Rightarrow> bool" where
  "reprice_barred e s i account r remaining now \<longleftrightarrow>
     rv_account_id r \<noteq> account \<or> rv_intent_id r \<noteq> si_intent_id i \<or> fadd (rv_remaining_quantity r) lit_1e9 < remaining \<or>
     \<not> open_reservation r \<or> \<not> pr_enabled (pa_profile s) \<or> sz_summary s = None \<or> pa_control_mode s \<noteq> CONTROL_ENABLED \<or>
     pe_allocation_identity e \<in> set (pa_disabled_allocations s) \<or> pa_sync_state s \<noteq> SYNC_SYNCHRONIZED \<or> snapshot_stale s now"

definition repriced_intent :: "StrategyIntent \<Rightarrow> f64 \<Rightarrow> f64 \<Rightarrow> StrategyIntent result" where
  "repriced_intent i price remaining =
     StrategyIntent_check (i\<lparr>si_reference_price := price, si_quantity := remaining,
       si_metadata := merged (si_metadata i) [(''ask'', JNum price), (''bid'', JNum price)]\<rparr>)"

definition popped :: "PortfolioReservation \<Rightarrow> PortfolioEngine \<Rightarrow> PortfolioEngine" where
  "popped r e = e\<lparr>pe_reservations := AList.delete (rv_reservation_id r) (pe_reservations e)\<rparr>"

text \<open>Whether the remainder may be worked at a new price, with the reservation it then holds. An
  invalid protection at that price refuses it; the capacity leaves the own reservation out.\<close>

definition authorize_entry_reprice ::
    "(json \<Rightarrow> string) \<Rightarrow> AdmissionFence option \<Rightarrow> utc \<Rightarrow> StrategyIntent \<Rightarrow> string \<Rightarrow> f64 \<Rightarrow> f64 \<Rightarrow> PortfolioEngine \<Rightarrow>
     (bool \<times> PortfolioEngine) result" where
  "authorize_entry_reprice render fence now i account price remaining e =
     (if \<not> (0 < price \<and> 0 < remaining) then Inr (False, e)
      else (case map_of (pe_states e) account of
          None \<Rightarrow> Inl (PyKeyError ''Unknown portfolio account'')
        | Some s \<Rightarrow>
            (case map_of (pe_reservations e) (str_or render (jget (si_metadata i) ''portfolio_reservation_id'') []) of
               None \<Rightarrow> Inr (False, e)
             | Some r \<Rightarrow>
                 if reprice_barred e s i account r remaining now then Inr (False, e)
                 else
                   bind_result (float_or (jget (si_metadata i) ''portfolio_fx_to_base'') 1) (\<lambda>fx.
                     (let p = admission_policy s; metrics = portfolio_metrics e s in
                      if fx \<le> 0 \<or> pp_maximum_daily_loss p < pm_daily_loss metrics \<or> pp_maximum_drawdown p < pm_drawdown metrics
                      then Inr (False, e)
                      else
                        bind_result (repriced_intent i price remaining) (\<lambda>j.
                          (case reserved_entry_loss render j remaining of
                             Inl (ValueError _) \<Rightarrow> Inr (False, e)
                           | Inl err \<Rightarrow> Inl err
                           | Inr loss \<Rightarrow>
                               bind_result (entry_capacity render (popped r e) s j remaining
                                   (fmul price fx) (acquired_notional e r)) (\<lambda>(capacity, limits).
                                 if fadd capacity lit_1e9 < remaining then Inr (False, put_reservation r (popped r e))
                                 else (case fence of
                                     None \<Rightarrow> Inl (RuntimeError ''Portfolio reservation requires a fenced admission lease'')
                                   | Some lease \<Rightarrow>
                                       if \<not> fe_current lease
                                       then Inl (RuntimeError ''Portfolio admission lease became stale before reservation commit'')
                                       else bind_result (entry_funding_factor render j p) (\<lambda>factor.
                                         bind_result (entry_fee_per_share render j p (fmul price fx)) (\<lambda>fee.
                                         Inr (True, put_reservation (r\<lparr>rv_reference_price := price,
                                           rv_reserved_notional := fmul (fmul (fmul remaining price) fx) factor,
                                           rv_reserved_planned_risk := fmul loss fx,
                                           rv_reserved_entry_fees := fmul remaining fee\<rparr>)
                                           (popped r e)))))))))))))"

section \<open>Requests and reconciliation\<close>

definition has_pending_entry_requests :: "AdmissionState \<Rightarrow> bool" where
  "has_pending_entry_requests s \<longleftrightarrow> sz_pending_requests s \<noteq> []"

definition withdraw_invalidated_requests :: "string list \<Rightarrow> AdmissionState \<Rightarrow> AdmissionState" where
  "withdraw_invalidated_requests active s =
     s\<lparr>sz_pending_requests := filter (\<lambda>(request, _). request \<in> set active) (sz_pending_requests s)\<rparr>"

text \<open>The attributed quantity of each ticker: the managed lots of the account, added up.\<close>

definition attributed_quantities :: "PortfolioEngine \<Rightarrow> string \<Rightarrow> (string, f64) dict" where
  "attributed_quantities e account =
     fold (\<lambda>l acc. AList.update (lt_ticker l) (fadd (dget acc (lt_ticker l) 0) (lt_quantity l)) acc)
       (filter (\<lambda>l. lt_source l \<noteq> ''external'') (account_lots e account)) []"

definition broker_quantity :: "AdmissionState \<Rightarrow> string \<Rightarrow> f64" where
  "broker_quantity s ticker = (case map_of (sz_positions s) ticker of Some p \<Rightarrow> pp_position p | None \<Rightarrow> 0)"

definition ticker_difference :: "AdmissionState \<Rightarrow> (string, f64) dict \<Rightarrow> utc \<Rightarrow> string \<Rightarrow> PortfolioReconciliationDifference option" where
  "ticker_difference s attributed observed ticker =
     (let delta = fsub (broker_quantity s ticker) (dget attributed ticker 0) in
      if \<bar>delta\<bar> \<le> lit_1e9 then None
      else Some \<lparr>df_account_key = pr_account_key (pa_profile s), df_ticker = ticker,
        df_broker_quantity = broker_quantity s ticker, df_attributed_quantity = dget attributed ticker 0,
        df_unattributed_quantity = delta, df_observed_at = observed\<rparr>)"

definition reconcile_account :: "utc \<Rightarrow> AdmissionState \<Rightarrow> PortfolioEngine \<Rightarrow> PortfolioEngine" where
  "reconcile_account now s e =
     (let key = pr_account_key (pa_profile s);
          attributed = attributed_quantities e (account_id_of s);
          observed = (case sz_observed_at s of Some t \<Rightarrow> t | None \<Rightarrow> now);
          tickers = sorted_list_of_set (set (dkeys (sz_positions s)) \<union> set (dkeys attributed))
      in e\<lparr>pe_differences := fold (\<lambda>d. AList.update (key, df_ticker d) d)
           (List.map_filter (ticker_difference s attributed observed) tickers)
           (filter (\<lambda>((k, _), _). k \<noteq> key) (pe_differences e))\<rparr>)"

end
