(* ===== verification/AdmissionFills.thy ===== *)
theory AdmissionFills
  imports Admission OrderGroupsLaws
begin

text \<open>
  The portfolio's books against those of order management: the snapshots a group hands on leave an
  allocation lot that holds exactly what the group's reports filled, entries less exits.
\<close>

section \<open>Rows\<close>

text \<open>The row \<open>r\<close> is the only one of its intent.\<close>

definition sole_row :: "PortfolioEngine \<Rightarrow> PortfolioReservation \<Rightarrow> bool" where
  "sole_row e r \<longleftrightarrow> well_keyed (pe_reservations e) \<and>
     (\<forall>k x. (k, x) \<in> set (pe_reservations e) \<longrightarrow> rv_reservation_id x = k) \<and>
     (rv_reservation_id r, r) \<in> set (pe_reservations e) \<and>
     (\<forall>k x. (k, x) \<in> set (pe_reservations e) \<longrightarrow> rv_intent_id x = rv_intent_id r \<longrightarrow> x = r)"

text \<open>What a release leaves of a row.\<close>

definition row_identity :: "PortfolioReservation \<Rightarrow> PortfolioReservation" where
  "row_identity r = r\<lparr>rv_status := [], rv_remaining_quantity := 0\<rparr>"

lemma identity_fields:
  assumes "row_identity x = row_identity y"
  shows "rv_reservation_id x = rv_reservation_id y" "rv_intent_id x = rv_intent_id y"
  using assms by (cases x; cases y; simp add: row_identity_def)+

definition same_row :: "string \<times> PortfolioReservation \<Rightarrow> string \<times> PortfolioReservation \<Rightarrow> bool" where
  "same_row p q \<longleftrightarrow> fst p = fst q \<and> row_identity (snd p) = row_identity (snd q)"

definition released_from :: "PortfolioEngine \<Rightarrow> PortfolioEngine \<Rightarrow> bool" where
  "released_from e f \<longleftrightarrow> e\<lparr>pe_reservations := []\<rparr> = f\<lparr>pe_reservations := []\<rparr> \<and>
     list_all2 same_row (pe_reservations e) (pe_reservations f)"

lemma released_refl [simp]: "released_from e e"
  by (simp add: released_from_def list_all2_same same_row_def)

lemma released_trans [trans]:
  assumes "released_from e f" "released_from f g" shows "released_from e g"
proof -
  have "list_all2 same_row (pe_reservations e) (pe_reservations g)"
    using assms by (auto simp: released_from_def same_row_def intro: list_all2_trans [of same_row same_row same_row])
  with assms show ?thesis by (simp add: released_from_def)
qed

lemma released_fields:
  assumes "released_from e f"
  shows "pe_allocations f = pe_allocations e" "pe_last_filled f = pe_last_filled e"
    "pe_strategy_revision f = pe_strategy_revision e" "pe_states f = pe_states e"
  using assms by (cases e; cases f; simp add: released_from_def)+

definition keyed_rows :: "PortfolioEngine \<Rightarrow> bool" where
  "keyed_rows e \<longleftrightarrow> well_keyed (pe_reservations e) \<and>
     (\<forall>k x. (k, x) \<in> set (pe_reservations e) \<longrightarrow> rv_reservation_id x = k)"

lemma update_same:
  assumes "well_keyed d" "(k, x) \<in> set d" "row_identity y = row_identity x"
  shows "list_all2 same_row d (AList.update k y d)"
  using assms
proof (induction d)
  case (Cons p d)
  obtain j z where [simp]: "p = (j, z)" by (cases p)
  show ?case
  proof (cases "j = k")
    case True
    with Cons.prems(1) have "(k, x) \<notin> set d" by (force simp: well_keyed_def)
    with Cons.prems(2,3) True show ?thesis by (auto simp: same_row_def list_all2_same)
  next
    case False
    with Cons show ?thesis by (auto simp: well_keyed_def same_row_def)
  qed
qed simp

lemma found_row:
  assumes "find P (dvalues d) = Some x"
  shows "P x \<and> (\<exists>k. (k, x) \<in> set d)"
proof -
  from assms have "x \<in> set (dvalues d)" "P x" by (auto simp: find_Some_iff)
  then show ?thesis by (auto simp: dvalues_def)
qed

lemma put_released:
  assumes "keyed_rows e" "(k, r) \<in> set (pe_reservations e)" "row_identity y = row_identity r"
  shows "released_from e (put_reservation y e)"
proof -
  have "rv_reservation_id y = k" using assms(1,2) identity_fields(1) [OF assms(3)] by (auto simp: keyed_rows_def)
  with update_same [OF _ assms(2,3)] assms(1) show ?thesis
    by (simp add: released_from_def put_reservation_def keyed_rows_def)
qed

lemma same_row_back:
  assumes "list_all2 same_row xs ys" "(k, y) \<in> set ys"
  shows "\<exists>x. (k, x) \<in> set xs \<and> row_identity x = row_identity y"
  using assms by (induction rule: list_all2_induct) (auto simp: same_row_def)

lemma same_row_keys: "list_all2 same_row xs ys \<Longrightarrow> map fst ys = map fst xs"
  by (induction rule: list_all2_induct) (auto simp: same_row_def)

definition rows_from :: "PortfolioEngine \<Rightarrow> PortfolioEngine \<Rightarrow> bool" where
  "rows_from e f \<longleftrightarrow> list_all2 same_row (pe_reservations e) (pe_reservations f)"

lemma released_rows: "released_from e f \<Longrightarrow> rows_from e f"
  by (simp add: released_from_def rows_from_def)

lemma rows_from_trans: "rows_from e f \<Longrightarrow> rows_from f g \<Longrightarrow> rows_from e g"
  by (auto simp: rows_from_def same_row_def intro: list_all2_trans [of same_row same_row same_row])

lemma rows_keyed:
  assumes "rows_from e f" "keyed_rows e"
  shows "keyed_rows f"
proof -
  have rows: "list_all2 same_row (pe_reservations e) (pe_reservations f)" using assms(1) by (simp add: rows_from_def)
  have "rv_reservation_id y = k" if y: "(k, y) \<in> set (pe_reservations f)" for k y
  proof -
    obtain x where x: "(k, x) \<in> set (pe_reservations e)" "row_identity x = row_identity y"
      using same_row_back [OF rows y] by blast
    from x(1) assms(2) have "rv_reservation_id x = k" by (simp add: keyed_rows_def)
    with identity_fields(1) [OF x(2)] show ?thesis by simp
  qed
  with assms(2) same_row_keys [OF rows] show ?thesis by (simp add: keyed_rows_def well_keyed_def)
qed

lemmas released_keyed = rows_keyed [OF released_rows]

lemma release_row_released:
  "keyed_rows e \<Longrightarrow> (k, r) \<in> set (pe_reservations e) \<Longrightarrow> released_from e (release_row r e)"
  unfolding release_row_def by (rule put_released) (simp_all add: row_identity_def)

lemma fold_released:
  assumes "\<And>h f. keyed_rows f \<Longrightarrow> released_from f (step h f)" "keyed_rows e"
  shows "released_from e (fold step hs e)"
  using assms(2)
proof (induction hs arbitrary: e)
  case (Cons h hs)
  have "released_from e (step h e)" by (rule assms(1) [OF Cons.prems])
  moreover have "released_from (step h e) (fold step hs (step h e))"
    by (rule Cons.IH) (rule released_keyed [OF calculation Cons.prems])
  ultimately show ?case using released_trans by auto
qed simp

lemma release_within_released: "keyed_rows e \<Longrightarrow> released_from e (release_within n intent e)"
proof (induction n arbitrary: intent e)
  case (Suc n)
  show ?case
  proof (cases "reserved_row e intent")
    case (Some r)
    then obtain k where k: "(k, r) \<in> set (pe_reservations e)" unfolding reserved_row_def by (blast dest: found_row)
    let ?e = "release_row r e"
    let ?step = "\<lambda>h. if holds_cash_for r h then release_within n (rv_intent_id h) else id"
    have rel: "released_from e ?e" by (rule release_row_released [OF Suc.prems k])
    have "released_from ?e (fold ?step hs ?e)" for hs
      by (rule fold_released) (use Suc.IH released_keyed [OF rel Suc.prems] in auto)
    from released_trans [OF rel this] rel Some show ?thesis by (simp add: Let_def)
  qed simp
qed simp

lemma release_intent_released: "keyed_rows e \<Longrightarrow> released_from e (release_intent intent e)"
  unfolding release_intent_def by (rule release_within_released)

lemma release_holds_released: "keyed_rows e \<Longrightarrow> released_from e (release_cash_holds r e)"
  unfolding release_cash_holds_def by (rule fold_released) (auto simp: release_intent_released)

section \<open>One fill\<close>

text \<open>A row is found by its intent and stays found when it is updated.\<close>

lemma sole_row_keyed: "sole_row e r \<Longrightarrow> keyed_rows e"
  by (auto simp: sole_row_def keyed_rows_def)

lemma sole_row_found:
  assumes "sole_row e r"
  shows "find (\<lambda>x. rv_intent_id x = rv_intent_id r) (dvalues (pe_reservations e)) = Some r"
proof -
  have "(rv_reservation_id r, r) \<in> set (pe_reservations e)" using assms by (simp add: sole_row_def)
  then have r: "r \<in> set (dvalues (pe_reservations e))" by (force simp: dvalues_def)
  then have "find (\<lambda>x. rv_intent_id x = rv_intent_id r) (dvalues (pe_reservations e)) \<noteq> None"
    by (auto simp: find_None_iff)
  then obtain x where x: "find (\<lambda>x. rv_intent_id x = rv_intent_id r) (dvalues (pe_reservations e)) = Some x" by blast
  from found_row [OF x] assms have "x = r" unfolding sole_row_def by blast
  with x show ?thesis by simp
qed

lemma sole_row_put:
  assumes sole: "sole_row e r" and rel: "rows_from e f"
    and y: "rv_reservation_id y = rv_reservation_id r" "rv_intent_id y = rv_intent_id r"
  shows "sole_row (put_reservation y f) y"
proof -
  have rows: "list_all2 same_row (pe_reservations e) (pe_reservations f)" using rel by (simp add: rows_from_def)
  have keyed: "keyed_rows f" using rows_keyed [OF rel sole_row_keyed [OF sole]] .
  let ?rows = "AList.update (rv_reservation_id y) y (pe_reservations f)"
  have wk: "well_keyed (pe_reservations f)" using keyed by (simp add: keyed_rows_def)
  then have wk': "well_keyed ?rows" by simp
  have mem: "(k, x) \<in> set ?rows \<longleftrightarrow> (if k = rv_reservation_id y then x = y else (k, x) \<in> set (pe_reservations f))" for k x
  proof -
    have "(k, x) \<in> set ?rows \<longleftrightarrow> map_of ?rows k = Some x"
      using map_of_eq_Some_iff wk' unfolding well_keyed_def by metis
    moreover have "(k, x) \<in> set (pe_reservations f) \<longleftrightarrow> map_of (pe_reservations f) k = Some x"
      using map_of_eq_Some_iff wk unfolding well_keyed_def by metis
    ultimately show ?thesis by auto
  qed
  have sole': "x = y" if x: "(k, x) \<in> set ?rows" "rv_intent_id x = rv_intent_id y" for k x
  proof (cases "k = rv_reservation_id y")
    case False
    with x(1) mem have "(k, x) \<in> set (pe_reservations f)" by simp
    then obtain x0 where x0: "(k, x0) \<in> set (pe_reservations e)" "row_identity x0 = row_identity x"
      using same_row_back [OF rows] by blast
    from identity_fields(2) [OF x0(2)] x(2) y(2) have "rv_intent_id x0 = rv_intent_id r" by simp
    with x0(1) sole have "x0 = r" unfolding sole_row_def by blast
    with x0(1) sole have "k = rv_reservation_id r" unfolding sole_row_def by blast
    with False y(1) show ?thesis by simp
  qed (use x mem in auto)
  have keys: "rv_reservation_id x = k" if "(k, x) \<in> set ?rows" for k x
  proof (cases "k = rv_reservation_id y")
    case False
    with that mem have "(k, x) \<in> set (pe_reservations f)" by simp
    with keyed show ?thesis by (simp add: keyed_rows_def)
  qed (use that mem in simp)
  have "(rv_reservation_id y, y) \<in> set ?rows" using mem by simp
  moreover have "pe_reservations (put_reservation y f) = ?rows" by (simp add: put_reservation_def)
  ultimately show ?thesis using wk' keys sole' unfolding sole_row_def by metis
qed

lemma lot_id_cong:
  "rv_account_id y = rv_account_id r \<Longrightarrow> rv_strategy_id y = rv_strategy_id r \<Longrightarrow> rv_assignment_id y = rv_assignment_id r \<Longrightarrow>
   rv_ticker y = rv_ticker r \<Longrightarrow> lot_id_of y = lot_id_of r"
  by (simp add: lot_id_of_def)

definition lot_of :: "PortfolioEngine \<Rightarrow> string \<Rightarrow> f64" where
  "lot_of e lot_id = opt_lot lt_quantity (map_of (pe_allocations e) lot_id)"

text \<open>A lot after a fill. What is too small to keep is gone.\<close>

definition settled :: "f64 \<Rightarrow> f64" where
  "settled q = (if \<bar>q\<bar> \<le> lit_1e9 then 0 else q)"

lemma apply_fill_released:
  assumes "keyed_rows e"
  shows "\<exists>f. released_from e f \<and> (\<exists>a. apply_fill now r quantity action e = f\<lparr>pe_allocations := a\<rparr>) \<and>
    lot_of (apply_fill now r quantity action e) (lot_id_of r) =
      settled (fadd (lot_of e (lot_id_of r)) (signed_fill (text_or action (rv_action r)) quantity (lot_of e (lot_id_of r))))"
proof -
  let ?f = "if text_or action (rv_action r) \<in> REDUCTION_ACTIONS then release_cash_holds r e else e"
  have rel: "released_from e ?f" using release_holds_released [OF assms] by simp
  have "pe_allocations ?f = pe_allocations e" using released_fields(1) [OF rel] .
  then have "lot_of (apply_fill now r quantity action e) (lot_id_of r) =
      settled (fadd (lot_of e (lot_id_of r)) (signed_fill (text_or action (rv_action r)) quantity (lot_of e (lot_id_of r))))"
    by (simp add: apply_fill_def Let_def lot_of_def settled_def opt_lot_def)
  moreover have "\<exists>a. apply_fill now r quantity action e = ?f\<lparr>pe_allocations := a\<rparr>"
    by (auto simp: apply_fill_def Let_def)
  ultimately show ?thesis using rel by blast
qed

lemma settled_whole: "x \<in> \<int> \<Longrightarrow> settled x = x"
proof (cases "x = 0")
  case False
  assume "x \<in> \<int>"
  then obtain n where n: "x = of_int n" by (elim Ints_cases)
  with False have "1 \<le> \<bar>n\<bar>" by simp
  then have "1 \<le> \<bar>x\<bar>" unfolding n by (metis of_int_1_le_iff of_int_abs)
  then show ?thesis using lit_1e9_small by (simp add: settled_def)
qed (use lit_1e9_pos in \<open>simp add: settled_def\<close>)

section \<open>One snapshot\<close>

definition row_lineage :: "PortfolioReservation \<Rightarrow> string list" where
  "row_lineage r = [rv_reservation_id r, rv_intent_id r, rv_action r, rv_account_id r, rv_strategy_id r, rv_assignment_id r, rv_ticker r]"

lemma row_lineage_eq:
  "row_lineage y = row_lineage r \<longleftrightarrow> rv_reservation_id y = rv_reservation_id r \<and> rv_intent_id y = rv_intent_id r \<and>
     rv_action y = rv_action r \<and> rv_account_id y = rv_account_id r \<and> rv_strategy_id y = rv_strategy_id r \<and>
     rv_assignment_id y = rv_assignment_id r \<and> rv_ticker y = rv_ticker r"
  by (simp add: row_lineage_def)

text \<open>The books hold \<open>held\<close> shares for the row and have seen \<open>filled\<close> shares of its entry.\<close>

definition books :: "PortfolioEngine \<Rightarrow> PortfolioReservation \<Rightarrow> f64 \<Rightarrow> f64 \<Rightarrow> bool" where
  "books e r held filled \<longleftrightarrow> (\<exists>y. sole_row e y \<and> row_lineage y = row_lineage r) \<and>
     lot_of e (lot_id_of r) = held \<and> dget (pe_last_filled e) (rv_reservation_id r) 0 = filled"

lemma updated_reservation_lineage [simp]: "row_lineage (updated_reservation g filled r) = row_lineage r"
  by (simp add: updated_reservation_def row_lineage_def Let_def)

text \<open>What an update does to the books, whatever it does to the reservation.\<close>

lemma update_books:
  assumes books: "books e r held filled" and intent: "gs_intent_id g = rv_intent_id r"
  defines "entry \<equiv> entry_snapshot g"
  defines "next_filled \<equiv> if entry then max filled (gs_filled_quantity g) else filled"
  defines "incremental \<equiv> if 0 < gs_fill_incremental_quantity g then gs_fill_incremental_quantity g
    else max 0 (fsub next_filled filled)"
  defines "action \<equiv> text_or (if entry then rv_action r else gs_action g) (rv_action r)"
  shows "books (on_order_group_update now g e) r
    (if incremental = 0 then held else settled (fadd held (signed_fill action incremental held)))
    (if incremental = 0 then filled else next_filled)"
proof -
  from books obtain y where y: "sole_row e y" "row_lineage y = row_lineage r" by (auto simp: books_def)
  then have ids: "rv_intent_id y = rv_intent_id r" "rv_reservation_id y = rv_reservation_id r" "rv_action y = rv_action r"
    and lot: "lot_id_of y = lot_id_of r" by (simp_all add: row_lineage_eq lot_id_of_def)
  have found: "find (\<lambda>x. rv_intent_id x = gs_intent_id g) (dvalues (pe_reservations e)) = Some y"
    using sole_row_found [OF y(1)] intent ids by simp
  have prior: "dget (pe_last_filled e) (rv_reservation_id y) 0 = filled" and held: "lot_of e (lot_id_of y) = held"
    using books ids lot by (simp_all add: books_def)
  define e1 where "e1 = (if incremental = 0 then e
    else (let a = apply_fill now y incremental (if entry then rv_action y else gs_action g) e in
      if entry then a\<lparr>pe_last_filled := AList.update (rv_reservation_id y) next_filled (pe_last_filled a)\<rparr> else a))"
  define e2 where "e2 = (if (gs_state g \<in> TERMINAL_MANAGEMENT_STATES \<or> (entry \<and> gs_entry_submission_closed g)) \<and> entry \<and>
      next_filled \<le> 0 \<and> rv_action y = ''enter_long'' then release_cash_holds y e1 else e1)"
  have up: "on_order_group_update now g e = put_reservation (updated_reservation g next_filled y) e2"
  proof -
    have act: "(if gs_fill_role g \<notin> {[], ''entry''} then gs_action g else rv_action y) = (if entry then rv_action y else gs_action g)"
      by (simp add: entry_def entry_snapshot_def)
    show ?thesis
      unfolding on_order_group_update_def found option.case Let_def prior act entry_def [symmetric]
      unfolding e2_def e1_def Let_def incremental_def next_filled_def by (rule refl)
  qed
  obtain f a where f: "released_from e f"
      "apply_fill now y incremental (if entry then rv_action y else gs_action g) e = f\<lparr>pe_allocations := a\<rparr>"
    and lot1: "lot_of (apply_fill now y incremental (if entry then rv_action y else gs_action g) e) (lot_id_of y) =
      settled (fadd held (signed_fill action incremental held))"
    using apply_fill_released [OF sole_row_keyed [OF y(1)], of now y incremental "if entry then rv_action y else gs_action g"] held ids
    by (auto simp: action_def)
  have rows1: "rows_from e e1" using released_rows [OF f(1)] f(2) released_rows [OF released_refl]
    by (auto simp: e1_def Let_def rows_from_def)
  have keyed1: "keyed_rows e1" by (rule rows_keyed [OF rows1 sole_row_keyed [OF y(1)]])
  have rel2: "released_from e1 e2" using release_holds_released [OF keyed1] by (simp add: e2_def)
  have rows2: "rows_from e e2" using rows_from_trans [OF rows1 released_rows [OF rel2]] .
  have "sole_row (on_order_group_update now g e) (updated_reservation g next_filled y)"
    unfolding up by (rule sole_row_put [OF y(1) rows2])
      (use updated_reservation_lineage [of g next_filled y] in \<open>simp_all only: row_lineage_eq\<close>)
  moreover have "row_lineage (updated_reservation g next_filled y) = row_lineage r" using y(2) by simp
  moreover have "lot_of (on_order_group_update now g e) (lot_id_of r) =
      (if incremental = 0 then held else settled (fadd held (signed_fill action incremental held)))"
  proof -
    have "lot_of e1 (lot_id_of y) = (if incremental = 0 then held else settled (fadd held (signed_fill action incremental held)))"
      using lot1 held by (auto simp: e1_def Let_def lot_of_def)
    moreover have "lot_of (put_reservation x e2) l = lot_of e1 l" for x l
      using released_fields(1) [OF rel2] by (simp add: lot_of_def put_reservation_def)
    ultimately show ?thesis by (simp add: up lot)
  qed
  moreover have "dget (pe_last_filled (on_order_group_update now g e)) (rv_reservation_id r) 0 =
      (if incremental = 0 then filled else next_filled)"
  proof -
    have "dget (pe_last_filled e1) (rv_reservation_id y) 0 = (if incremental = 0 then filled else next_filled)"
      using prior released_fields(2) [OF f(1)] f(2) by (auto simp: e1_def Let_def next_filled_def)
    moreover have "pe_last_filled (put_reservation x e2) = pe_last_filled e1" for x
      using released_fields(2) [OF rel2] by (simp add: put_reservation_def)
    ultimately show ?thesis by (simp add: up ids)
  qed
  ultimately show ?thesis unfolding books_def by blast
qed

section \<open>The reports of a group\<close>

definition child_roles :: "string set" where
  "child_roles = {''profit_target'', ''protective_stop'', ''trailing_stop'', ''protective_exit''}"

text \<open>Every order the group knows has the role of an entry or of one of its children.\<close>

definition entry_roles :: "ManagedOrderGroup \<Rightarrow> bool" where
  "entry_roles g \<longleftrightarrow> si_action (mg_intent g) \<in> {''enter_long'', ''add_long''} \<and>
     (\<forall>oid \<in> set (mg_broker_order_ids g). \<exists>role. map_of (mg_roles g) oid = Some role \<and> role \<in> insert ''entry'' child_roles)"

text \<open>What the reports filled of the orders in \<open>ids\<close> that satisfy \<open>P\<close>.\<close>

definition filled_where :: "(string \<Rightarrow> bool) \<Rightarrow> string set \<Rightarrow> OrderReport list \<Rightarrow> f64" where
  "filled_where P ids rs = (\<Sum>oid \<in> {oid \<in> ids. P oid}. reported oid rs)"

lemma filled_where_snoc:
  assumes "finite ids" "rp_order_id r \<in> ids"
  shows "filled_where P ids (rs @ [r]) = filled_where P ids rs +
    (if P (rp_order_id r) then reported (rp_order_id r) (rs @ [r]) - reported (rp_order_id r) rs else 0)"
proof -
  let ?A = "{oid \<in> ids. P oid}" and ?k = "rp_order_id r"
  have other: "reported oid (rs @ [r]) = reported oid rs" if "oid \<noteq> ?k" for oid using that by (simp add: reported_snoc)
  have rest: "(\<Sum>oid \<in> ?A - {?k}. reported oid (rs @ [r])) = (\<Sum>oid \<in> ?A - {?k}. reported oid rs)"
    by (rule sum.cong) (auto simp: other)
  show ?thesis
  proof (cases "P ?k")
    case True
    with assms have "?k \<in> ?A" "finite ?A" by auto
    then show ?thesis using True rest unfolding filled_where_def
      by (simp add: sum.remove [of ?A ?k])
  next
    case False
    then have "?A - {?k} = ?A" by auto
    with rest False show ?thesis unfolding filled_where_def by simp
  qed
qed

lemma reported_mono: "reported oid rs \<le> reported oid (rs @ rs')"
  by (induction rs' rule: rev_induct) (auto simp: reported_snoc simp flip: append_assoc intro: order_trans)

lemma filled_where_mono: "filled_where P ids rs \<le> filled_where P ids (rs @ rs')"
  unfolding filled_where_def by (rule sum_mono) (rule reported_mono)

lemma filled_where_nonneg: "0 \<le> filled_where P ids rs"
  unfolding filled_where_def by (rule sum_nonneg) (rule reported_nonneg)

lemma ints_share:
  assumes "x \<in> \<int>" "0 \<le> x" "x \<le> 2 ^ 53" shows "is_share x"
proof -
  obtain n where n: "x = of_int n" using assms(1) by (elim Ints_cases)
  with assms(2,3) have "(of_int n :: rat) \<le> of_int (2 ^ 53)" "(0 :: rat) \<le> of_int n" by auto
  then have "\<bar>n\<bar> \<le> 2 ^ 53" by (simp only: of_int_le_iff of_int_0_le_iff)
  with n show ?thesis by (auto simp: is_share_def)
qed

lemma share_int: "is_share x \<Longrightarrow> x \<in> \<int>"
  by (auto simp: is_share_def)

lemma filled_where_share:
  assumes "finite ids" "\<forall>r \<in> set rs. share_report r" "(\<Sum>oid \<in> ids. reported oid rs) \<le> 2 ^ 53"
  shows "is_share (filled_where P ids rs)"
proof -
  have "filled_where P ids rs \<le> (\<Sum>oid \<in> ids. reported oid rs)"
    unfolding filled_where_def by (rule sum_mono2) (use assms(1) in \<open>auto simp: reported_nonneg\<close>)
  with assms(3) have small: "filled_where P ids rs \<le> 2 ^ 53" by simp
  have "reported oid rs \<in> \<int>" for oid using reported_share [OF assms(2), of oid] by (rule share_int)
  then have "filled_where P ids rs \<in> \<int>" unfolding filled_where_def by (intro Ints_sum) auto
  from ints_share [OF this filled_where_nonneg small] show ?thesis .
qed

text \<open>Adopting an order never changes the role of one already known.\<close>

lemma adopt_roles:
  assumes "adopt_order r g = Inr g1" "entry_roles g" "slices_aligned g"
  shows "entry_roles g1 \<and> mg_filled_quantity g1 = mg_filled_quantity g \<and> mg_intent g1 = mg_intent g \<and>
    set (mg_broker_order_ids g) \<subseteq> set (mg_broker_order_ids g1) \<and>
    (\<forall>oid \<in> set (mg_broker_order_ids g). map_of (mg_roles g1) oid = map_of (mg_roles g) oid)"
proof (cases "rp_order_id r = [] \<or> rp_order_id r \<in> set (mg_broker_order_ids g)")
  case True
  with assms show ?thesis by (auto simp: adopt_order_def)
next
  case False
  from False have new: "rp_order_id r \<noteq> []" "rp_order_id r \<notin> set (mg_broker_order_ids g)" by auto
  obtain s ix where "adopt_order r g = Inr (g\<lparr>mg_broker_order_ids := mg_broker_order_ids g @ [rp_order_id r],
      mg_roles := AList.update (rp_order_id r)
        (infer_order_role (rp_order_type r) (rp_has_parent r) (si_action (mg_intent g))) (mg_roles g),
      mg_slices := s, mg_request_indexes := ix\<rparr>)" (is "_ = Inr ?g")
    using adopt_order_new [OF assms(3) new] .
  with assms(1) have g1: "g1 = ?g" by simp
  have "infer_order_role (rp_order_type r) (rp_has_parent r) (si_action (mg_intent g)) \<in> insert ''entry'' child_roles"
    using assms(2) by (auto simp: infer_order_role_def entry_roles_def opening_actions_def child_roles_def)
  with assms(2) False show ?thesis by (auto simp: g1 entry_roles_def)
qed

text \<open>What a snapshot says of the report it answers.\<close>

lemma report_roles: "mg_roles (fst (account_report r g)) = mg_roles g \<and> mg_broker_order_ids (fst (account_report r g)) = mg_broker_order_ids g
    \<and> mg_intent (fst (account_report r g)) = mg_intent g"
  by (simp add: account_report_def apply_cumulative_fill_def Let_def case_prod_beta)

lemma group_snapshot_fields:
  "gs_intent_id (group_snapshot a role oid c x g) = si_intent_id (mg_intent g)"
  "gs_fill_role (group_snapshot a role oid c x g) = role"
  "gs_filled_quantity (group_snapshot a role oid c x g) = mg_filled_quantity g"
  "gs_action (group_snapshot a role oid c x g) = text_or (opt_text a) (si_action (mg_intent g))"
  "gs_fill_incremental_quantity (group_snapshot a role oid c x g) = x"
  by (simp_all add: group_snapshot_def)

lemma report_snapshot:
  assumes "account_report r g = (g1, s)"
  shows "gs_intent_id s = si_intent_id (mg_intent g)" "gs_fill_role s = dget (mg_roles g) (rp_order_id r) []"
    "gs_filled_quantity s = mg_filled_quantity g1"
    "0 < gs_fill_incremental_quantity s \<Longrightarrow> gs_action s = text_or (fill_action (mg_intent g) (gs_fill_role s)) (si_action (mg_intent g))"
proof -
  let ?role = "dget (mg_roles g) (rp_order_id r) []"
  have "mg_intent g1 = mg_intent g" using report_roles [of r g] assms by simp
  moreover have "\<exists>a c x. s = group_snapshot a ?role (rp_order_id r) c x g1 \<and> (0 < x \<longrightarrow> a = Some (fill_action (mg_intent g1) ?role))"
  proof (cases "map_of (mg_fingerprints g) (rp_order_id r) = Some (rp_fingerprint r)")
    case True
    with assms have "s = group_snapshot None ?role (rp_order_id r) 0 0 g1" by (auto simp: account_report_def Let_def)
    then show ?thesis by blast
  next
    case False
    obtain g0 x where cum: "apply_cumulative_fill (rp_order_id r) (rp_filled r) ?role g = (g0, x)" by (metis surj_pair)
    from assms False have "s = group_snapshot (if 0 < x then Some (fill_action (mg_intent g1) ?role) else None) ?role
        (rp_order_id r) (rp_filled r) x g1"
      by (simp only: account_report_def Let_def cum if_False prod.case prod.inject) blast
    then show ?thesis by (intro exI conjI) (assumption, simp)
  qed
  ultimately show "gs_intent_id s = si_intent_id (mg_intent g)" "gs_fill_role s = ?role" "gs_filled_quantity s = mg_filled_quantity g1"
    "0 < gs_fill_incremental_quantity s \<Longrightarrow> gs_action s = text_or (fill_action (mg_intent g) (gs_fill_role s)) (si_action (mg_intent g))"
    by (auto simp: group_snapshot_fields opt_text_def)
qed

lemma update_roles:
  assumes "order_update r g = Inr (g2, s)" "entry_roles g" "slices_aligned g"
  shows "entry_roles g2 \<and> mg_intent g2 = mg_intent g \<and> set (mg_broker_order_ids g) \<subseteq> set (mg_broker_order_ids g2) \<and>
    (\<forall>oid \<in> set (mg_broker_order_ids g). map_of (mg_roles g2) oid = map_of (mg_roles g) oid) \<and>
    gs_intent_id s = si_intent_id (mg_intent g) \<and> gs_fill_role s = dget (mg_roles g2) (rp_order_id r) [] \<and>
    gs_filled_quantity s = mg_filled_quantity g2 \<and>
    (0 < gs_fill_incremental_quantity s \<longrightarrow>
      gs_action s = text_or (fill_action (mg_intent g) (gs_fill_role s)) (si_action (mg_intent g)))"
proof -
  from assms(1) obtain g1 where g1: "adopt_order r g = Inr g1" "account_report r g1 = (g2, s)"
    by (auto simp: order_update_def bind_result_Inr_iff)
  note a = adopt_roles [OF g1(1) assms(2,3)]
  have g2: "mg_roles g2 = mg_roles g1" "mg_broker_order_ids g2 = mg_broker_order_ids g1" "mg_intent g2 = mg_intent g1"
    using report_roles [of r g1] by (simp_all add: g1(2))
  from a report_snapshot [OF g1(2)] show ?thesis by (auto simp: g2 entry_roles_def)
qed

lemma entry_action_signed: "action \<in> {''enter_long'', ''add_long''} \<Longrightarrow> signed_fill (text_or action action) x h = x"
  by (auto simp: signed_fill_def text_or_def REDUCTION_ACTIONS_def)

lemma exit_signed: "0 \<le> h \<Longrightarrow> 0 < x \<Longrightarrow> signed_fill (text_or ''exit'' a) x h = - min x h"
  by (auto simp: signed_fill_def text_or_def REDUCTION_ACTIONS_def)

text \<open>An entry's increment is added to the lot, a child's is taken from it as far as the lot goes.\<close>

lemma entry_step:
  assumes books: "books e r held filled" and intent: "gs_intent_id s = rv_intent_id r"
    and role: "entry_snapshot s" and action: "rv_action r \<in> {''enter_long'', ''add_long''}"
    and inc: "gs_fill_incremental_quantity s = inc" "0 \<le> inc" and total: "gs_filled_quantity s = filled + inc"
    and held: "is_share (held + inc)"
  shows "books (on_order_group_update now s e) r (held + inc) (filled + inc)"
proof -
  have "fadd held inc = held + inc" "settled (held + inc) = held + inc"
    using held by (simp_all add: fadd_share settled_whole share_int)
  moreover have "fsub filled filled = 0" using fsub_share [of filled filled] by simp
  ultimately show ?thesis
    using update_books [OF books intent, of now] inc total role entry_action_signed [OF action, of inc held]
    by (cases "inc = 0") (simp_all add: max_def)
qed

lemma child_step:
  assumes books: "books e r held filled" and intent: "gs_intent_id s = rv_intent_id r"
    and role: "\<not> entry_snapshot s" and action: "0 < inc \<Longrightarrow> gs_action s = ''exit''"
    and inc: "gs_fill_incremental_quantity s = inc" "0 \<le> inc"
    and held: "0 \<le> held" "is_share (max 0 (held - inc))"
  shows "books (on_order_group_update now s e) r (max 0 (held - inc)) filled"
proof -
  have cut: "held - min inc held = max 0 (held - inc)" by (simp add: max_def min_def)
  have "fadd held (- min inc held) = held - min inc held" "settled (held - min inc held) = held - min inc held"
    using held(2) fadd_share [of held "- min inc held"] by (simp_all add: settled_whole share_int cut)
  moreover have "fsub filled filled = 0" using fsub_share [of filled filled] by simp
  ultimately show ?thesis
    using update_books [OF books intent, of now] inc action role exit_signed [OF held(1), of inc "rv_action r"] held(1)
    by (cases "inc = 0") (simp_all add: cut)
qed

text \<open>An update of an accounted group, with all it keeps.\<close>

lemma accounted_update:
  assumes "order_update r g = Inr (g2, s)" "accounted rs g" "broker_report r" "rp_order_id r \<noteq> []"
    and "\<forall>r \<in> set (rs @ [r]). share_report r"
  shows "accounted (rs @ [r]) g2 \<and> rp_order_id r \<in> set (mg_broker_order_ids g2) \<and>
    gs_fill_incremental_quantity s = reported (rp_order_id r) (rs @ [r]) - reported (rp_order_id r) rs"
proof -
  obtain g1 where g1: "adopt_order r g = Inr g1" "accounted rs g1" "rp_order_id r \<in> set (mg_broker_order_ids g1)"
    using adopt_accounted [OF assms(2,4)] by metis
  with assms(1) have g2: "account_report r g1 = (g2, s)" by (simp add: order_update_def)
  from accounted_step(1) [OF g1(2) assms(3) g1(3)] report_increment [OF g1(2) assms(3,5)] report_roles [of r g1] g1(3)
  show ?thesis by (simp add: g2)
qed

lemma accounted_slices: "accounted rs g \<Longrightarrow> slices_aligned g"
  by (simp add: accounted_def)

lemma updates_roles:
  assumes "order_updates rs g = Inr (g', ss)" "accounted rs0 g" "entry_roles g"
    and "\<forall>r \<in> set rs. broker_report r \<and> rp_order_id r \<noteq> []" "\<forall>r \<in> set (rs0 @ rs). share_report r"
  shows "set (mg_broker_order_ids g) \<subseteq> set (mg_broker_order_ids g') \<and>
    (\<forall>oid \<in> set (mg_broker_order_ids g). map_of (mg_roles g') oid = map_of (mg_roles g) oid)"
  using assms
proof (induction rs arbitrary: rs0 g ss)
  case (Cons r rs)
  then obtain g2 s ss' where upd: "order_update r g = Inr (g2, s)" "order_updates rs g2 = Inr (g', ss')"
    by (fastforce simp: bind_result_Inr_iff)
  from accounted_update [OF upd(1) Cons.prems(2)] Cons.prems(4,5) have acc: "accounted (rs0 @ [r]) g2" by simp
  note roles = update_roles [OF upd(1) Cons.prems(3) accounted_slices [OF Cons.prems(2)]]
  from Cons.IH [OF upd(2) acc] roles Cons.prems(4,5) show ?case by fastforce
qed simp

text \<open>The filled quantity of an entry group is what its entry orders filled.\<close>

lemma entry_filled:
  assumes acc: "accounted rs g" and roles: "entry_roles g" and share: "\<forall>r \<in> set rs. share_report r"
    and ids: "finite ids" "rp_order_id ` set rs \<subseteq> ids" "(\<Sum>oid \<in> ids. reported oid rs) \<le> 2 ^ 53"
    and P: "\<And>oid. oid \<in> rp_order_id ` set rs \<Longrightarrow> P oid = (map_of (mg_roles g) oid = Some ''entry'')"
  shows "mg_filled_quantity g = filled_where P ids rs"
proof -
  have root: "root_role g = ''entry''" using roles by (auto simp: root_role_def entry_roles_def opening_actions_def)
  have absent: "reported oid rs = 0" if "oid \<notin> rp_order_id ` set rs" for oid
    using reported_cases [of oid rs] that by auto
  have "(\<Sum>oid \<in> rp_order_id ` set rs. reported oid rs) \<le> (\<Sum>oid \<in> ids. reported oid rs)"
    by (rule sum_mono2) (use ids in \<open>auto simp: reported_nonneg\<close>)
  with ids(3) accounted_total [OF acc share] have "fsum (role_quantities g ''entry'') = root_filled g rs"
    by (simp add: root)
  moreover have "mg_filled_quantity g = fsum (role_quantities g ''entry'')"
    using acc by (simp add: accounted_def root_total_def root)
  moreover have "root_filled g rs = filled_where P ids rs"
    unfolding root_filled_def filled_where_def root
  proof (rule sum.mono_neutral_cong_left)
    show "\<forall>i \<in> {oid \<in> ids. P oid} - {oid \<in> rp_order_id ` set rs. map_of (mg_roles g) oid = Some ''entry''}. reported i rs = 0"
      using P absent by blast
  qed (use ids(1,2) P in auto)
  ultimately show ?thesis by simp
qed

text \<open>The running lot: an entry order's new shares are added, any other order's are taken from what is
  held, never below zero. \<open>past\<close> are the reports before.\<close>

fun held_after :: "(string \<Rightarrow> bool) \<Rightarrow> OrderReport list \<Rightarrow> OrderReport list \<Rightarrow> f64 \<Rightarrow> f64" where
  "held_after P past [] held = held"
| "held_after P past (r # rs) held =
     (let d = reported (rp_order_id r) (past @ [r]) - reported (rp_order_id r) past
      in held_after P (past @ [r]) rs (if P (rp_order_id r) then held + d else max 0 (held - d)))"

lemma attribution_run:
  assumes "order_updates rs g = Inr (g', ss)" "length stamps = length ss" "accounted rs0 g" "entry_roles g"
    and "\<forall>r \<in> set rs. broker_report r \<and> rp_order_id r \<noteq> []" "\<forall>r \<in> set (rs0 @ rs). share_report r"
    and "rv_intent_id row = si_intent_id (mg_intent g)" "rv_action row = si_action (mg_intent g)"
    and "finite ids" "rp_order_id ` set (rs0 @ rs) \<subseteq> ids" "(\<Sum>oid \<in> ids. reported oid (rs0 @ rs)) \<le> 2 ^ 53"
    and P: "P = (\<lambda>oid. map_of (mg_roles g') oid = Some ''entry'')"
    and "0 \<le> held \<and> held \<le> filled_where P ids rs0 \<and> held \<in> \<int>"
    and "books e row held (filled_where P ids rs0)"
  shows "books (fold (\<lambda>(now, s). on_order_group_update now s) (zip stamps ss) e) row
      (held_after P rs0 rs held) (filled_where P ids (rs0 @ rs))"
  using assms(1-11,13,14)
proof (induction rs arbitrary: rs0 g ss stamps e held)
  case (Cons r rs)
  let ?I = "filled_where P ids"
  obtain g2 s ss' where upd: "order_update r g = Inr (g2, s)" "order_updates rs g2 = Inr (g', ss')" and ss: "ss = s # ss'"
    using Cons.prems(1) by (fastforce simp: bind_result_Inr_iff)
  obtain now stamps' where stamps: "stamps = now # stamps'" "length stamps' = length ss'"
    using Cons.prems(2) ss by (cases stamps) auto
  have share: "\<forall>x \<in> set (rs0 @ [r]). share_report x" and rep: "broker_report r" "rp_order_id r \<noteq> []"
    and ids: "finite ids" "rp_order_id r \<in> ids" using Cons.prems(5,6,9,10) by auto
  note acc = accounted_update [OF upd(1) Cons.prems(3) rep share]
  note roles = update_roles [OF upd(1) Cons.prems(4) accounted_slices [OF Cons.prems(3)]]
  have later: "\<forall>oid \<in> set (mg_broker_order_ids g2). map_of (mg_roles g') oid = map_of (mg_roles g2) oid"
    using updates_roles [OF upd(2), of "rs0 @ [r]"] acc roles Cons.prems(5,6) by auto
  have seen: "rp_order_id ` set (rs0 @ [r]) \<subseteq> set (mg_broker_order_ids g2)" using acc by (simp add: accounted_def)
  let ?d = "reported (rp_order_id r) (rs0 @ [r]) - reported (rp_order_id r) rs0"
  have d: "0 \<le> ?d" using reported_mono [of "rp_order_id r" rs0 "[r]"] by simp
  have bound: "(\<Sum>oid \<in> ids. reported oid (rs0 @ [r])) \<le> 2 ^ 53"
  proof -
    have "(\<Sum>oid \<in> ids. reported oid (rs0 @ [r])) \<le> (\<Sum>oid \<in> ids. reported oid ((rs0 @ [r]) @ rs))"
      by (rule sum_mono) (rule reported_mono)
    with Cons.prems(11) show ?thesis by simp
  qed
  have I: "?I (rs0 @ [r]) = ?I rs0 + (if P (rp_order_id r) then ?d else 0)"
    using filled_where_snoc [OF ids, of P rs0] by auto
  have whole: "is_share (?I (rs0 @ [r]))" by (rule filled_where_share [OF ids(1) share bound])
  have "\<forall>x \<in> set rs0. share_report x" using share by simp
  from reported_share [OF this, of "rp_order_id r"] reported_share [OF share, of "rp_order_id r"]
  have int: "?d \<in> \<int>" by (intro Ints_diff share_int)
  define next_held where "next_held = (if P (rp_order_id r) then held + ?d else max 0 (held - ?d))"
  have next_held: "0 \<le> next_held \<and> next_held \<le> ?I (rs0 @ [r]) \<and> next_held \<in> \<int>"
    using Cons.prems(12) d int by (auto simp: next_held_def I max_def)
  moreover have "?I (rs0 @ [r]) \<le> 2 ^ 53" using whole by (auto simp: is_share_def abs_le_iff)
  ultimately have held: "is_share next_held" by (intro ints_share) auto
  have filled: "gs_filled_quantity s = ?I (rs0 @ [r])"
  proof -
    have "P oid = (map_of (mg_roles g2) oid = Some ''entry'')" if "oid \<in> rp_order_id ` set (rs0 @ [r])" for oid
      using that seen later P by auto
    moreover have "rp_order_id ` set (rs0 @ [r]) \<subseteq> ids" using Cons.prems(10) by auto
    ultimately have "mg_filled_quantity g2 = ?I (rs0 @ [r])"
      using entry_filled [OF _ _ share ids(1) _ bound] acc roles by blast
    with roles show ?thesis by simp
  qed
  have role: "entry_snapshot s \<longleftrightarrow> P (rp_order_id r)"
    "\<not> P (rp_order_id r) \<Longrightarrow> gs_fill_role s \<in> child_roles"
    using roles acc later by (auto simp: entry_snapshot_def dget_def entry_roles_def P child_roles_def)
  have intent: "gs_intent_id s = rv_intent_id row" using roles Cons.prems(7) by simp
  have act: "rv_action row \<in> {''enter_long'', ''add_long''}" using Cons.prems(4,8) by (simp add: entry_roles_def)
  have inc: "gs_fill_incremental_quantity s = ?d" using acc by blast
  have "books (on_order_group_update now s e) row next_held (?I (rs0 @ [r]))"
  proof (cases "P (rp_order_id r)")
    case True
    then have "books (on_order_group_update now s e) row (held + ?d) (?I rs0 + ?d)"
      by (intro entry_step [OF Cons.prems(13) intent _ act inc d]) (use role(1) filled held I in \<open>simp_all add: next_held_def\<close>)
    with True show ?thesis by (simp add: next_held_def I)
  next
    case False
    have "gs_action s = ''exit''" if "0 < ?d"
      using roles that role(2) [OF False] by (auto simp: inc fill_action_def child_roles_def text_or_def)
    then have "books (on_order_group_update now s e) row (max 0 (held - ?d)) (?I rs0)"
      by (intro child_step [OF Cons.prems(13) intent _ _ inc d])
        (use False role(1) Cons.prems(12) held in \<open>simp_all add: next_held_def\<close>)
    with False show ?thesis by (simp add: next_held_def I)
  qed
  from Cons.IH [OF upd(2) stamps(2), of "rs0 @ [r]" next_held "on_order_group_update now s e"] this next_held acc roles Cons.prems(5-11)
  show ?case by (simp add: ss stamps(1) next_held_def Let_def)
qed simp

text \<open>The lot never falls behind entries less exits, and is exactly that when no exit came too early.\<close>

lemma held_after_bounds:
  assumes ids: "finite ids" "rp_order_id ` set rs \<subseteq> ids"
    and "filled_where P ids rs0 - filled_where (\<lambda>oid. \<not> P oid) ids rs0 \<le> held"
  shows "filled_where P ids (rs0 @ rs) - filled_where (\<lambda>oid. \<not> P oid) ids (rs0 @ rs) \<le> held_after P rs0 rs held"
  using assms
proof (induction rs arbitrary: rs0 held)
  case (Cons r rs)
  let ?d = "reported (rp_order_id r) (rs0 @ [r]) - reported (rp_order_id r) rs0"
  have "rp_order_id r \<in> ids" using Cons.prems(2) by simp
  note snoc = filled_where_snoc [OF Cons.prems(1) this]
  have "filled_where P ids (rs0 @ [r]) - filled_where (\<lambda>oid. \<not> P oid) ids (rs0 @ [r]) \<le>
      (if P (rp_order_id r) then held + ?d else max 0 (held - ?d))"
    using Cons.prems(3) snoc [of P rs0] snoc [of "\<lambda>oid. \<not> P oid" rs0] by (auto simp: max_def)
  from Cons.IH [OF Cons.prems(1) _ this] Cons.prems(2) show ?case by (simp add: Let_def)
qed simp

lemma held_after_covered:
  assumes ids: "finite ids" "rp_order_id ` set rs \<subseteq> ids"
    and "\<And>n. n \<le> length rs \<Longrightarrow> filled_where (\<lambda>oid. \<not> P oid) ids (rs0 @ take n rs) \<le> filled_where P ids (rs0 @ take n rs)"
    and "held = filled_where P ids rs0 - filled_where (\<lambda>oid. \<not> P oid) ids rs0"
  shows "held_after P rs0 rs held = filled_where P ids (rs0 @ rs) - filled_where (\<lambda>oid. \<not> P oid) ids (rs0 @ rs)"
  using assms
proof (induction rs arbitrary: rs0 held)
  case (Cons r rs)
  let ?d = "reported (rp_order_id r) (rs0 @ [r]) - reported (rp_order_id r) rs0"
  have "rp_order_id r \<in> ids" using Cons.prems(2) by simp
  note snoc = filled_where_snoc [OF Cons.prems(1) this]
  have "(if P (rp_order_id r) then held + ?d else max 0 (held - ?d)) =
      filled_where P ids (rs0 @ [r]) - filled_where (\<lambda>oid. \<not> P oid) ids (rs0 @ [r])"
    using Cons.prems(4) Cons.prems(3) [of 1] snoc [of P rs0] snoc [of "\<lambda>oid. \<not> P oid" rs0]
    by (cases "P (rp_order_id r)") (simp_all add: max_def)
  moreover have "filled_where (\<lambda>oid. \<not> P oid) ids ((rs0 @ [r]) @ take n rs) \<le> filled_where P ids ((rs0 @ [r]) @ take n rs)"
    if "n \<le> length rs" for n using Cons.prems(3) [of "Suc n"] that by simp
  ultimately show ?case using Cons.IH [of "rs0 @ [r]"] Cons.prems(1,2) by (simp add: Let_def)
qed simp

text \<open>C19. The portfolio's books agree with the order manager's. Take a long entry the portfolio
  reserved for and whose group has seen no report. However the broker's reports arrive -- live rows
  and canonical states mixed, repeated, late, out of order, child orders adopted on the way -- the
  reservation has seen exactly the group's filled quantity, no entry fill booked twice and none
  lost, whatever the portfolio releases in between; and the allocation lot is the running balance:
  each report adds the new shares of an entry order, or takes those of a target or stop from what
  the lot still holds. So the lot never holds less than the entries less the exits, and holds
  exactly that when at no point more had been reported sold than bought -- an exit reported before
  the entry it closes finds nothing to reduce and is not made up for later.\<close>

theorem portfolio_books_match_fills:
  assumes "order_updates rs g = Inr (g', ss)" "length stamps = length ss" "unreported g" "entry_roles g"
    and "is_share (si_quantity (mg_intent g))" "0 \<le> si_quantity (mg_intent g)"
    and "\<forall>r \<in> set rs. broker_report r \<and> rp_order_id r \<noteq> [] \<and> share_report r"
    and "(\<Sum>oid \<in> rp_order_id ` set rs. reported oid rs) \<le> 2 ^ 53"
    and "sole_row e row" "rv_intent_id row = si_intent_id (mg_intent g)" "rv_action row = si_action (mg_intent g)"
    and "lot_of e (lot_id_of row) = 0" "dget (pe_last_filled e) (rv_reservation_id row) 0 = 0"
    and "P = (\<lambda>oid. map_of (mg_roles g') oid = Some ''entry'')"
    and "entered = filled_where P (rp_order_id ` set rs)" "sold = filled_where (\<lambda>oid. \<not> P oid) (rp_order_id ` set rs)"
    and "e' = fold (\<lambda>(now, s). on_order_group_update now s) (zip stamps ss) e"
  shows "lot_of e' (lot_id_of row) = held_after P [] rs 0 \<and> entered rs - sold rs \<le> lot_of e' (lot_id_of row) \<and>
    ((\<forall>n \<le> length rs. sold (take n rs) \<le> entered (take n rs)) \<longrightarrow> lot_of e' (lot_id_of row) = entered rs - sold rs) \<and>
    dget (pe_last_filled e') (rv_reservation_id row) 0 = entered rs \<and> mg_filled_quantity g' = entered rs"
proof -
  let ?ids = "rp_order_id ` set rs"
  have acc: "accounted [] g" by (rule unreported_accounted [OF assms(3,5,6)])
  have none: "filled_where P ids [] = 0" for P ids by (simp add: filled_where_def)
  have "books e row 0 0" using assms(9,12,13) by (auto simp: books_def)
  with attribution_run [OF assms(1,2) acc assms(4) _ _ assms(10,11), of ?ids P 0 e] assms(7,8,14)
  have "books e' row (held_after P [] rs 0) (entered rs)" by (simp add: none assms(15,17))
  then have lot: "lot_of e' (lot_id_of row) = held_after P [] rs 0" "dget (pe_last_filled e') (rv_reservation_id row) 0 = entered rs"
    by (simp_all add: books_def)
  moreover have "entered rs - sold rs \<le> held_after P [] rs 0"
    using held_after_bounds [of ?ids rs P "[]" 0] by (simp add: none assms(15,16))
  moreover have "held_after P [] rs 0 = entered rs - sold rs" if "\<forall>n \<le> length rs. sold (take n rs) \<le> entered (take n rs)"
    using held_after_covered [of ?ids rs P "[]" 0] that by (simp add: none assms(15,16))
  moreover have "mg_filled_quantity g' = entered rs"
  proof -
    from updates_accounted [OF acc, of rs] assms(1,7) have acc': "accounted rs g'" "mg_intent g' = mg_intent g" by auto
    have share: "\<forall>r \<in> set rs. share_report r" using assms(7) by simp
    have "root_role g' = ''entry''"
      using assms(4) by (auto simp: root_role_def acc'(2) entry_roles_def opening_actions_def)
    moreover have "mg_filled_quantity g' = root_total g'" using acc'(1) by (simp add: accounted_def)
    moreover have "fsum (role_quantities g' (root_role g')) = root_filled g' rs"
      using accounted_total [OF acc'(1) share assms(8)] by simp
    ultimately show ?thesis by (simp add: root_total_def root_filled_def filled_where_def assms(14,15))
  qed
  ultimately show ?thesis by simp
qed

section \<open>An instance\<close>

definition demo_reservation :: PortfolioReservation where
  "demo_reservation =
     \<lparr>rv_reservation_id = ''r1'', rv_decision_id = ''d1'', rv_intent_id = ''i1'', rv_account_key = ''main'', rv_account_id = ''U1'',
      rv_strategy_id = ''s'', rv_assignment_id = ''a1'', rv_ticker = ''ABC'', rv_action = ''enter_long'', rv_quantity = 10,
      rv_remaining_quantity = 10, rv_reference_price = 100, rv_reserved_notional = 1000, rv_reserved_planned_risk = 20,
      rv_created_at = 0, rv_status = ''reserved'', rv_filled_quantity = 0, rv_admission_epoch = 1, rv_admission_owner = ''o'',
      rv_reserved_entry_fees = 0, rv_cash_tranche_key = [], rv_cash_tranche_size = 0, rv_cash_tranche_count = 0,
      rv_cash_tranche_next = 0, rv_cash_tranche_budget = 0\<rparr>"

definition demo_books :: PortfolioEngine where
  "demo_books =
     \<lparr>pe_strategy_id = ''s'', pe_strategy_revision = 1, pe_allocation_identity = ''s@1'', pe_unprotected_contracts = [],
      pe_states = [], pe_groups = [], pe_control_modes = None, pe_reservations = [(''r1'', demo_reservation)],
      pe_allocations = [], pe_differences = [], pe_last_filled = []\<rparr>"

definition demo_stop :: "f64 \<Rightarrow> LiveOrder" where
  "demo_stop filled = (demo_live 2 filled)\<lparr>lo_orderType := ''STP'', lo_side := ''SELL'', lo_parentId := Some ''1''\<rparr>"

text \<open>Five shares bought in two late and repeated reports, two of them sold by the stop.\<close>

definition demo_fills :: "OrderReport list" where
  "demo_fills = map live_report [demo_live 1 3, demo_stop 1, demo_live 1 2, demo_live 1 5, demo_stop 2, demo_stop 1]"

theorem portfolio_books_match_fills_witness:
  "\<exists>g' ss. order_updates demo_fills demo_group = Inr (g', ss) \<and>
     lot_of (fold (\<lambda>(now, s). on_order_group_update now s) (zip [1, 2, 3, 4, 5, 6] ss) demo_books) (lot_id_of demo_reservation) = 3"
proof -
  let ?run = "order_updates demo_fills demo_group"
  have "unreported (acknowledge [] demo_group)"
    unfolding demo_group_def by (rule submitted_unreported) (simp add: orders_plan_def)
  moreover have "mg_state demo_group = OM_CREATED" by (simp add: demo_group_def new_group_def)
  ultimately have new: "unreported demo_group" by (simp add: acknowledge_def)
  have group: "mg_intent demo_group = demo_intent" "mg_broker_order_ids demo_group = []" by (simp_all add: demo_group_def new_group_def)
  have fills: "\<forall>r \<in> set demo_fills. broker_report r \<and> rp_order_id r \<noteq> [] \<and> share_report r"
  proof -
    have "list_all (\<lambda>r. rp_order_id r \<noteq> [] \<and> rp_filled r \<in> {1, 2, 3, 5}) demo_fills" by code_simp
    moreover have "is_share x \<and> 0 \<le> x" if "x \<in> {1, 2, 3, 5}" for x
      using that is_share_of_int [of 1] is_share_of_int [of 2] is_share_of_int [of 3] is_share_of_int [of 5] by auto
    moreover have "\<forall>r \<in> set demo_fills. broker_report r" by (auto simp: demo_fills_def broker_report_def)
    ultimately show ?thesis by (auto simp: list_all_iff share_report_def)
  qed
  have "case ?run of Inr (g', ss) \<Rightarrow> length ss = 6 \<and> map_of (mg_roles g') ''1'' = Some ''entry'' \<and>
      map_of (mg_roles g') ''2'' = Some ''protective_stop'' | Inl _ \<Rightarrow> False" by code_simp
  then obtain g' ss where run: "?run = Inr (g', ss)" "length ss = 6" and
    roles: "map_of (mg_roles g') ''1'' = Some ''entry''" "map_of (mg_roles g') ''2'' = Some ''protective_stop''"
    by (auto split: sum.splits prod.splits)
  have ids: "rp_order_id ` set demo_fills = {''1'', ''2''}" by code_simp
  let ?P = "\<lambda>oid. map_of (mg_roles g') oid = Some ''entry''"
  let ?I = "filled_where ?P {''1'', ''2''}" and ?O = "filled_where (\<lambda>oid. \<not> ?P oid) {''1'', ''2''}"
  have "{oid \<in> {''1'', ''2''}. map_of (mg_roles g') oid = Some ''entry''} = {''1''}"
    "{oid \<in> {''1'', ''2''}. map_of (mg_roles g') oid \<noteq> Some ''entry''} = {''2''}" using roles by auto
  then have parts: "?I rs = reported ''1'' rs" "?O rs = reported ''2'' rs" for rs by (simp_all add: filled_where_def)
  have "list_all (\<lambda>n. reported ''2'' (take n demo_fills) \<le> reported ''1'' (take n demo_fills)) [0 ..< 7]" by code_simp
  moreover have "length demo_fills = 6" by (simp add: demo_fills_def)
  ultimately have covered: "\<forall>n \<le> length demo_fills. reported ''2'' (take n demo_fills) \<le> reported ''1'' (take n demo_fills)"
    by (auto simp: list_all_iff)
  have R: "reported ''1'' demo_fills = 5" "reported ''2'' demo_fills = 2" by code_simp+
  have books: "sole_row demo_books demo_reservation" "lot_of demo_books (lot_id_of demo_reservation) = 0"
    "dget (pe_last_filled demo_books) (rv_reservation_id demo_reservation) 0 = 0"
    "rv_intent_id demo_reservation = ''i1''" "rv_action demo_reservation = ''enter_long''"
    by (simp_all add: sole_row_def demo_books_def demo_reservation_def lot_of_def opt_lot_def well_keyed_def dget_def)
  have "entry_roles demo_group" by (simp add: entry_roles_def group demo_intent_def)
  moreover have "is_share (si_quantity demo_intent)" "0 \<le> si_quantity demo_intent"
    using is_share_of_int [of 10] by (simp_all add: demo_intent_def)
  moreover have "si_intent_id demo_intent = ''i1''" "si_action demo_intent = ''enter_long''" by (simp_all add: demo_intent_def)
  ultimately have "lot_of (fold (\<lambda>(now, s). on_order_group_update now s) (zip [1, 2, 3, 4, 5, 6] ss) demo_books)
      (lot_id_of demo_reservation) = ?I demo_fills - ?O demo_fills"
    using portfolio_books_match_fills [OF run(1) _ new, of "[1, 2, 3, 4, 5, 6]" demo_books demo_reservation ?P ?I ?O]
      fills books covered R group run(2) by (simp add: ids parts)
  with run(1) R parts show ?thesis by auto
qed

text \<open>The stop's report overtakes the entry's: one share is sold, yet the lot holds all five.\<close>

lemma early_exit_lost:
  "case order_updates (map live_report [demo_live 1 0, demo_stop 1, demo_live 1 5]) demo_group of
     Inr (g', ss) \<Rightarrow> lot_of (fold (\<lambda>(now, s). on_order_group_update now s) (zip [1, 2, 3] ss) demo_books) (lot_id_of demo_reservation) = 5
   | Inl _ \<Rightarrow> False"
  by code_simp

end
