(* ===== verification/AdmissionLaws.thy ===== *)
theory AdmissionLaws
  imports AdmissionFills
begin

text \<open>
  What admission guarantees: an approved entry stays within every limit of its account, an entry
  request holds at most one reservation whatever happens in between, the two functions that release
  reservations end, and a reconciliation reports exactly the positions no lot explains.
\<close>

section \<open>Decisions\<close>

lemma make_decision_Inr:
  assumes "make_decision i s status requested approved loss rid reasons before after now ids e = Inr (e1, d)"
  shows "e1 = put_state (track_request i status reasons s) e \<and> pd_status d = status \<and>
    pd_approved_quantity d = approved \<and> pd_reservation_id d = rid \<and> pd_requested_quantity d = requested"
  using assms by (auto simp: make_decision_def bind_result_Inr_iff)

lemma refuse_Inr:
  assumes "refuse i s status requested reasons now ids e = Inr (e1, d, x)"
  shows "e1 = put_state (track_request i status reasons s) e \<and> x = None \<and> pd_status d = status"
  using assms by (auto simp: refuse_def bind_result_Inr_iff dest: make_decision_Inr)

lemma repeated_Inr:
  assumes "repeated_decision i s r now ids e = Inr (e1, d, x)"
  shows "e1 = put_state (track_request i PD_APPROVED [''entry_request_already_allocated''] s) e \<and> x = None"
  using assms by (auto simp: repeated_decision_def bind_result_Inr_iff dest: make_decision_Inr)

lemma put_state_rows [simp]:
  "pe_reservations (put_state s e) = pe_reservations e" "pe_allocations (put_state s e) = pe_allocations e"
  "pe_differences (put_state s e) = pe_differences e"
  by (simp_all add: put_state_def)

lemma reason_if_Nil [simp]: "reason_if c x = [] \<longleftrightarrow> \<not> c"
  by (simp add: reason_if_def)

section \<open>Quantities\<close>

lemma foldl_min_le: "foldl min (a :: f64) xs \<le> a \<and> (\<forall>x \<in> set xs. foldl min a xs \<le> x)"
proof (induction xs arbitrary: a)
  case (Cons x xs)
  from Cons.IH [of "min a x"] show ?case by auto
qed simp

lemma min_list1_le: "x \<in> set xs \<Longrightarrow> min_list1 xs \<le> x"
  using foldl_min_le [of "hd xs" "tl xs"] by (cases xs) (auto simp: min_list1_def)

lemma entry_capacity_Inr:
  assumes "entry_capacity render e s i requested base acquired = Inr (c, limits)"
  shows "\<exists>caps. entry_capacities render e s i requested base acquired = Inr caps \<and>
    (0 < c \<longrightarrow> (\<forall>(name, limit) \<in> set caps. c \<le> limit))"
proof -
  obtain caps where caps: "entry_capacities render e s i requested base acquired = Inr caps" "c = max 0 (min_list1 (map snd caps))"
    using assms by (auto simp: entry_capacity_def bind_result_Inr_iff Let_def)
  have "c \<le> limit" if "0 < c" "(name, limit) \<in> set caps" for name limit
  proof -
    have "min_list1 (map snd caps) \<le> limit" by (rule min_list1_le) (use that(2) in force)
    with that(1) caps(2) show ?thesis by (simp add: max_def split: if_splits)
  qed
  with caps(1) show ?thesis by blast
qed

lemma fadd_mono: "x \<le> y \<Longrightarrow> fadd x z \<le> fadd y z"
  by (simp add: fadd_def fl_mono)

text \<open>A whole-share order never exceeds what it was cut from, up to the tolerance of the floor.\<close>

lemma orderable_whole:
  assumes "orderable render i p c = (approved, rounding)" "si_action i \<in> ENTRY_ACTIONS" "intent_security_type render i = ''STK''"
  shows "approved \<in> \<int> \<and> approved \<le> fadd c lit_1e9 \<and> approved \<le> fadd (pp_maximum_order_quantity p) lit_1e9"
proof -
  let ?x = "fadd (min c (pp_maximum_order_quantity p)) lit_1e9"
  have a: "approved = fl (of_int \<lfloor>?x\<rfloor>)" using assms by (auto simp: orderable_def Let_def float_of_int_def py_floor_def)
  then have "approved \<in> \<int>" by (simp add: fl_Ints)
  moreover have "approved \<le> ?x" unfolding a by (rule fl_le_iff) (simp_all add: fadd_def)
  moreover have "?x \<le> fadd c lit_1e9" "?x \<le> fadd (pp_maximum_order_quantity p) lit_1e9" by (intro fadd_mono; simp)+
  ultimately show ?thesis by (blast intro: order_trans)
qed

section \<open>Approval\<close>

text \<open>What a commit does: the row and the hold are stored, the decision and the intent carry the
  approved quantity.\<close>

lemma commit_Inr:
  assumes "commit_admission render correlation fence ids now e s i tranche hold requested price fx reasons (approved, later, budget) =
    Inr (e', d, x)"
  obtains lease factor loss fee r j entries where
    "fence = Some lease" "fe_current lease" "entry_funding_factor render i (admission_policy s) = Inr factor"
    "r = admitted_reservation render e s i approved price (fmul (fmul approved (fmul price fx)) factor) (fmul loss fx)
       (if si_action i \<in> ENTRY_ACTIONS then fmul approved fee else 0) now ids lease"
    "pe_reservations e' = (case next_hold tranche hold ids approved later budget r of
       None \<Rightarrow> AList.update (ai_reservation ids) r (pe_reservations e)
     | Some h \<Rightarrow> AList.update (rv_reservation_id h) h (AList.update (ai_reservation ids) r (pe_reservations e)))"
    "pe_allocations e' = pe_allocations e"
    "StrategyIntent_check (i\<lparr>si_quantity := approved, si_metadata := merged (si_metadata i) entries\<rparr>) = Inr j" "x = Some j"
    "pd_approved_quantity d = approved" "pd_reservation_id d = ai_reservation ids"
proof -
  from assms obtain factor where factor: "entry_funding_factor render i (admission_policy s) = Inr factor"
    by (cases "entry_funding_factor render i (admission_policy s)") (auto simp: commit_admission_def Let_def)
  from assms obtain loss where loss: "reserved_entry_loss render i approved = Inr loss"
    by (cases "reserved_entry_loss render i approved") (auto simp: commit_admission_def Let_def factor)
  from assms obtain fee where fee: "entry_fee_per_share render i (admission_policy s) (fmul price fx) = Inr fee"
    by (cases "entry_fee_per_share render i (admission_policy s) (fmul price fx)") (auto simp: commit_admission_def Let_def factor loss)
  from assms obtain lease where lease: "fence = Some lease" "fe_current lease"
    by (cases fence) (auto simp: commit_admission_def Let_def factor loss fee split: if_splits)
  define r where "r = admitted_reservation render e s i approved price (fmul (fmul approved (fmul price fx)) factor) (fmul loss fx)
       (if si_action i \<in> ENTRY_ACTIONS then fmul approved fee else 0) now ids lease"
  define h where "h = next_hold tranche hold ids approved later budget r"
  define e2 where "e2 = (case h of None \<Rightarrow> put_reservation r e | Some y \<Rightarrow> put_reservation y (put_reservation r e))"
  define entries where "entries = approved_entries render e s i requested price fx (correlation i) ids tranche h"
  obtain status before after where "bind_result (make_decision i s status requested approved (fmul loss fx) (ai_reservation ids) reasons before after now ids e2)
      (\<lambda>(e3, d). bind_result (StrategyIntent_check (i\<lparr>si_quantity := approved, si_metadata := merged (si_metadata i) entries\<rparr>))
        (\<lambda>j. Inr (e3, d, Some j))) = Inr (e', d, x)"
    using assms unfolding commit_admission_def Let_def prod.case factor loss fee lease(1) bind_result_simps option.case
    unfolding r_def [symmetric] h_def [symmetric] e2_def [symmetric] entries_def [symmetric]
    by (simp add: lease(2) del: bind_result_simps split del: if_split)
  then obtain j where made: "make_decision i s status requested approved (fmul loss fx) (ai_reservation ids) reasons before after now ids e2 = Inr (e', d)"
    and j: "StrategyIntent_check (i\<lparr>si_quantity := approved, si_metadata := merged (si_metadata i) entries\<rparr>) = Inr j" "x = Some j"
    by (auto simp: bind_result_Inr_iff)
  have rid: "rv_reservation_id r = ai_reservation ids" by (simp add: r_def admitted_reservation_def Let_def)
  have e2: "pe_reservations e2 = (case h of None \<Rightarrow> AList.update (ai_reservation ids) r (pe_reservations e)
     | Some h \<Rightarrow> AList.update (rv_reservation_id h) h (AList.update (ai_reservation ids) r (pe_reservations e)))"
    "pe_allocations e2 = pe_allocations e"
    by (auto simp: e2_def put_reservation_def rid split: option.splits)
  have e': "pe_reservations e' = pe_reservations e2" "pe_allocations e' = pe_allocations e2"
      "pd_approved_quantity d = approved" "pd_reservation_id d = ai_reservation ids"
    using make_decision_Inr [OF made] by auto
  show thesis by (rule that [OF lease factor r_def _ _ j e'(3,4)]) (use e2 in \<open>simp_all add: e' h_def\<close>)
qed

lemma refuse_rows:
  "refuse i s status requested reasons now ids e = Inr (e1, d, x) \<Longrightarrow>
   x = None \<and> pe_reservations e1 = pe_reservations e \<and> pe_allocations e1 = pe_allocations e"
  using refuse_Inr [of i s status requested reasons now ids e e1 d x] by auto

text \<open>The outcome of sizing: a refusal that leaves the rows alone, or a commit.\<close>

lemma size_admission_cases:
  assumes "size_admission render correlation fence ids now e s i tranche hold requested price fx = Inr (e', d, x)"
  obtains (refused) "x = None" "pe_reservations e' = pe_reservations e" "pe_allocations e' = pe_allocations e"
  | (committed) capacity limits approved rounding split reasons where
      "capacity_for render e s i hold requested (fmul price fx) = Inr (capacity, limits)" "0 < capacity"
      "orderable render i (admission_policy s) capacity = (approved, rounding)" "0 < approved"
      "tranche_split tranche approved = Some split"
      "commit_admission render correlation fence ids now e s i tranche hold requested price fx reasons split = Inr (e', d, x)"
proof -
  from assms obtain capacity limits where c: "capacity_for render e s i hold requested (fmul price fx) = Inr (capacity, limits)"
    by (auto simp: size_admission_def bind_result_Inr_iff)
  obtain approved rounding where o: "orderable render i (admission_policy s) capacity = (approved, rounding)" by (metis surj_pair)
  show thesis
  proof (cases "capacity \<le> 0")
    case True
    with assms obtain proposed reasons st where "refuse i s st requested reasons now ids e = Inr (e', d, x)"
      by (auto simp: size_admission_def c bind_result_Inr_iff Let_def split del: if_split)
    from refuse_rows [OF this] show thesis by (intro refused) auto
  next
    case False
    show thesis
    proof (cases "approved \<le> 0")
      case True
      with assms False obtain reasons where "refuse i s (refusal_status i) requested reasons now ids e = Inr (e', d, x)"
        by (auto simp: size_admission_def c o Let_def)
      from refuse_rows [OF this] show thesis by (intro refused) auto
    next
      case approved: False
      show thesis
      proof (cases "tranche_split tranche approved")
        case None
        with assms False approved have "refuse i s PD_REJECTED requested [''cash_budget_below_tranche_count''] now ids e = Inr (e', d, x)"
          by (auto simp: size_admission_def c o Let_def)
        from refuse_rows [OF this] show thesis by (intro refused) auto
      next
        case (Some split)
        with assms False approved obtain blocked reasons where
          "(if blocked \<noteq> [] then refuse i s PD_REJECTED requested (reasons @ [blocked]) now ids e
            else commit_admission render correlation fence ids now e s i tranche hold requested price fx reasons split) = Inr (e', d, x)"
          by (auto simp: size_admission_def c o Let_def bind_result_Inr_iff split del: if_split)
        then consider "refuse i s PD_REJECTED requested (reasons @ [blocked]) now ids e = Inr (e', d, x)"
          | "commit_admission render correlation fence ids now e s i tranche hold requested price fx reasons split = Inr (e', d, x)"
          by (auto split: if_splits)
        then show thesis
        proof cases
          case 1
          from refuse_rows [OF this] show thesis by (intro refused) auto
        next
          case 2
          show thesis by (rule committed [OF c _ o _ Some 2]) (use False approved in auto)
        qed
      qed
    qed
  qed
qed

lemma frozen_same:
  assumes "frozen_funding i price = Inr j"
  shows "\<exists>m. j = i\<lparr>si_metadata := m\<rparr> \<and> (\<forall>k. k \<noteq> ''entry_funding_price'' \<longrightarrow> jget m k = jget (si_metadata i) k)"
proof (cases "si_action i \<in> ENTRY_ACTIONS \<and> completion_quote i")
  case True
  with assms obtain v where "StrategyIntent_check (i\<lparr>si_metadata := merged (si_metadata i) [(''entry_funding_price'', v)]\<rparr>) = Inr j"
    by (auto simp: frozen_funding_def bind_result_Inr_iff split: if_splits)
  then have "j = i\<lparr>si_metadata := merged (si_metadata i) [(''entry_funding_price'', v)]\<rparr>"
    by (auto simp: StrategyIntent_check_def split: if_splits)
  moreover have "jget (merged (si_metadata i) [(''entry_funding_price'', v)]) k = jget (si_metadata i) k" if "k \<noteq> ''entry_funding_price''" for k
    using that by (simp add: jget_merged)
  ultimately show ?thesis by blast
next
  case False
  with assms have "j = i" by (auto simp: frozen_funding_def)
  then show ?thesis by (intro exI [of _ "si_metadata i"]) simp
qed

text \<open>The outcome of a decision.\<close>

lemma approve_locked_cases:
  assumes "approve_locked render correlation fence ids now i s e = Inr (e', d, x)"
  obtains (refused) "x = None" "pe_reservations e' = pe_reservations e" "pe_allocations e' = pe_allocations e"
  | (committed) tranche requested sessions fx price j sized capacity limits approved rounding split reasons where
      "cash_tranche i = Inr tranche" "si_action i \<in> ENTRY_ACTIONS \<longrightarrow> existing_request e s i = None"
      "fx_to_base render s i = Inr fx" "admission_reasons render e s i requested sessions fx now = Inr []"
      "frozen_funding i price = Inr j" "0 < sized" "0 < price"
      "capacity_for render e s j (case tranche of None \<Rightarrow> None | Some t \<Rightarrow> tranche_hold render e s i t) sized (fmul price fx) = Inr (capacity, limits)" "0 < capacity"
      "orderable render j (admission_policy s) capacity = (approved, rounding)" "0 < approved"
      "tranche_split tranche approved = Some split"
      "commit_admission render correlation fence ids now e s j tranche
         (case tranche of None \<Rightarrow> None | Some t \<Rightarrow> tranche_hold render e s i t) sized price fx reasons split = Inr (e', d, x)"
      "sized_price render i = Inr price"
      "(if si_action i \<in> ENTRY_ACTIONS \<and> si_capital_request i \<noteq> None then capital_request_quantity render e s i
        else Inr (si_quantity i)) = Inr requested"
      "tranche_request render s j tranche (case tranche of None \<Rightarrow> None | Some t \<Rightarrow> tranche_hold render e s i t) (fmul price fx) requested = Inr sized"
proof -
  from assms obtain tranche where t: "cash_tranche i = Inr tranche" by (auto simp: approve_locked_def Let_def bind_result_Inr_iff)
  define hold where "hold = (case tranche of None \<Rightarrow> None | Some t \<Rightarrow> tranche_hold render e s i t)"
  define bad where "bad = reason_if (case tranche of None \<Rightarrow> False | Some t \<Rightarrow> tranche_out_of_sequence i t hold)
    ''cash_tranche_sequence_invalid''"
  show thesis
  proof (cases "if si_action i \<in> ENTRY_ACTIONS then existing_request e s i else None")
    case (Some r)
    with assms t have "repeated_decision i s r now ids e = Inr (e', d, x)" by (simp add: approve_locked_def Let_def)
    from repeated_Inr [OF this] show thesis by (intro refused) auto
  next
    case None
    from assms obtain requested sessions fx reasons where fx: "fx_to_base render s i = Inr fx"
      and asked: "(if si_action i \<in> ENTRY_ACTIONS \<and> si_capital_request i \<noteq> None then capital_request_quantity render e s i
        else Inr (si_quantity i)) = Inr requested"
      and reasons: "admission_reasons render e s i requested sessions fx now = Inr reasons"
      and rest: "(if bad @ reasons \<noteq> [] then refuse i s PD_REJECTED requested (bad @ reasons) now ids e
        else bind_result (sized_price render i) (\<lambda>price. bind_result (frozen_funding i price) (\<lambda>j.
          bind_result (tranche_request render s j tranche hold (fmul price fx) requested) (\<lambda>sized.
            if si_action i \<in> ENTRY_ACTIONS \<and> sized \<le> 0 \<and> 0 < price \<and> waits_for_capital j \<and> si_capital_request j \<noteq> None
            then refuse j s PD_DEFERRED sized [''limited_by_available_funds''] now ids e
            else if sized \<le> 0 \<or> price \<le> 0
            then refuse j s PD_REJECTED sized [''invalid_quantity_or_reference_price''] now ids e
            else size_admission render correlation fence ids now e s j tranche hold sized price fx)))) = Inr (e', d, x)"
      unfolding approve_locked_def t bind_result_simps Let_def hold_def [symmetric] bad_def [symmetric] None option.case
      unfolding bind_result_Inr_iff by blast
    show thesis
    proof (cases "bad @ reasons = []")
      case False
      with rest have "refuse i s PD_REJECTED requested (bad @ reasons) now ids e = Inr (e', d, x)" by simp
      from refuse_rows [OF this] show thesis by (intro refused) auto
    next
      case True
      from rest obtain price j sized where p: "frozen_funding i price = Inr j" and priced: "sized_price render i = Inr price"
        and cut: "tranche_request render s j tranche hold (fmul price fx) requested = Inr sized"
        and out: "(if si_action i \<in> ENTRY_ACTIONS \<and> sized \<le> 0 \<and> 0 < price \<and> waits_for_capital j \<and> si_capital_request j \<noteq> None
            then refuse j s PD_DEFERRED sized [''limited_by_available_funds''] now ids e
            else if sized \<le> 0 \<or> price \<le> 0
            then refuse j s PD_REJECTED sized [''invalid_quantity_or_reference_price''] now ids e
            else size_admission render correlation fence ids now e s j tranche hold sized price fx) = Inr (e', d, x)"
        using True by (auto simp: bind_result_Inr_iff split del: if_split)
      show thesis
      proof (cases "sized \<le> 0 \<or> price \<le> 0")
        case True
        with out have "\<exists>st rs. refuse j s st sized rs now ids e = Inr (e', d, x)" by (auto split: if_splits)
        then obtain st rs where "refuse j s st sized rs now ids e = Inr (e', d, x)" by blast
        from refuse_rows [OF this] show thesis by (intro refused) auto
      next
        case False
        then have "size_admission render correlation fence ids now e s j tranche hold sized price fx = Inr (e', d, x)"
          using out by auto
        then show thesis
        proof (cases rule: size_admission_cases)
          case refused
          then show thesis by (rule that(1))
        next
          case (committed capacity limits approved rounding split rs)
          have "si_action i \<in> ENTRY_ACTIONS \<longrightarrow> existing_request e s i = None" using None by auto
          with True False reasons show thesis
            using that(2) [OF t _ fx _ p _ _ committed(1-5) [unfolded hold_def] committed(6) [unfolded hold_def] priced asked
              cut [unfolded hold_def]] by auto
        qed
      qed
    qed
  qed
qed

lemma admission_reasons_Nil:
  assumes "admission_reasons render e s i requested sessions fx now = Inr []" "si_action i \<in> ENTRY_ACTIONS"
  shows "pr_enabled (pa_profile s) \<and> effective_control_mode e s = CONTROL_ENABLED \<and>
    pe_allocation_identity e \<notin> set (pa_disabled_allocations s) \<and> pa_sync_state s \<in> {SYNC_SYNCHRONIZED, SYNC_DEGRADED} \<and>
    \<not> snapshot_stale s now \<and> upper (si_ticker i) \<notin> upper ` set (pp_restricted_symbols (admission_policy s)) \<and> 0 < fx \<and>
    sz_summary s \<noteq> None \<and> pm_daily_loss (portfolio_metrics e s) \<le> pp_maximum_daily_loss (admission_policy s) \<and>
    pm_drawdown (portfolio_metrics e s) \<le> pp_maximum_drawdown (admission_policy s)"
proof -
  from assms(1) have "account_reasons e s i now = []" "instrument_reasons render s i fx = []" "exposure_reasons e s i requested = []"
    by (auto simp: admission_reasons_def bind_result_Inr_iff)
  then show ?thesis using assms(2)
    by (cases "effective_control_mode e s") (auto simp: account_reasons_def instrument_reasons_def exposure_reasons_def Let_def not_less)
qed

lemma without_no_hold [simp]: "without_hold None e = e"
  by (simp add: without_hold_def)

text \<open>What committing an intent that is no tranche leaves behind.\<close>

lemma commit_without_tranche:
  assumes "commit_admission render correlation fence ids now e s k None hold requested price fx reasons (approved, approved, approved) =
      Inr (e', d, Some j)"
  obtains lease factor loss fee r entries where "fence = Some lease" "fe_current lease"
    "entry_funding_factor render k (admission_policy s) = Inr factor" "si_quantity j = approved"
    "r = admitted_reservation render e s k approved price (fmul (fmul approved (fmul price fx)) factor) (fmul loss fx)
      (if si_action k \<in> ENTRY_ACTIONS then fmul approved fee else 0) now ids lease"
    "pe_reservations e' = AList.update (ai_reservation ids) r (pe_reservations e)"
proof -
  from assms obtain lease factor loss fee r entries where c: "fence = Some lease" "fe_current lease"
      "entry_funding_factor render k (admission_policy s) = Inr factor"
      "r = admitted_reservation render e s k approved price (fmul (fmul approved (fmul price fx)) factor) (fmul loss fx)
         (if si_action k \<in> ENTRY_ACTIONS then fmul approved fee else 0) now ids lease"
      "pe_reservations e' = AList.update (ai_reservation ids) r (pe_reservations e)"
      "StrategyIntent_check (k\<lparr>si_quantity := approved, si_metadata := merged (si_metadata k) entries\<rparr>) = Inr j"
    by (elim commit_Inr) (auto simp: next_hold_def)
  moreover from c(6) have "si_quantity j = approved" by (auto simp: StrategyIntent_check_def split: if_splits)
  ultimately show thesis by (intro that)
qed

text \<open>C18. An entry is only admitted within every limit of its account. When the portfolio approves a
  stock entry that is no tranche, the account is enabled and takes entries, the strategy's
  allocation is not disabled, the broker snapshot is there, synchronised and fresh, the symbol is
  not restricted, daily loss and drawdown are within the policy, and the admission lease is
  current. The approved quantity is a positive whole number of shares, no more than the policy's
  largest order and than each of the capacities -- requested, notional, cash, gross and net
  exposure, position, ticker, strategy, planned and open risk, sector, group -- up to the
  tolerance of the floor. The capacities are computed for the quantity asked for (the intent's, or
  the one its capital request comes to) at the worst price the entry may execute at. Exactly one
  reservation is written: it carries the approved quantity and its notional at that worst price in
  the base currency, with the buffers of a completion quote, and the intent that goes on to order
  management asks for no more.\<close>

theorem approved_entry_within_limits:
  assumes "approve_locked render correlation fence ids now i s e = Inr (e', d, Some j)"
    and "si_action i \<in> ENTRY_ACTIONS" "cash_tranche i = Inr None" "intent_security_type render i = ''STK''"
  defines "p \<equiv> admission_policy s"
  shows "pr_enabled (pa_profile s) \<and> effective_control_mode e s = CONTROL_ENABLED \<and>
    pe_allocation_identity e \<notin> set (pa_disabled_allocations s) \<and> pa_sync_state s \<in> {SYNC_SYNCHRONIZED, SYNC_DEGRADED} \<and>
    \<not> snapshot_stale s now \<and> upper (si_ticker i) \<notin> upper ` set (pp_restricted_symbols p) \<and> sz_summary s \<noteq> None \<and>
    pm_daily_loss (portfolio_metrics e s) \<le> pp_maximum_daily_loss p \<and> pm_drawdown (portfolio_metrics e s) \<le> pp_maximum_drawdown p \<and>
    (\<exists>lease. fence = Some lease \<and> fe_current lease) \<and>
    0 < si_quantity j \<and> si_quantity j \<in> \<int> \<and> si_quantity j \<le> fadd (pp_maximum_order_quantity p) lit_1e9 \<and>
    (\<exists>k sized price fx factor caps r. worst_entry_price render i = Inr price \<and> 0 < price \<and>
      (if si_capital_request i = None then sized = si_quantity i else capital_request_quantity render e s i = Inr sized) \<and>
      frozen_funding i price = Inr k \<and> fx_to_base render s i = Inr fx \<and>
      entry_capacities render e s k sized (fmul price fx) 0 = Inr caps \<and>
      (\<forall>(name, limit) \<in> set caps. si_quantity j \<le> fadd limit lit_1e9) \<and>
      entry_funding_factor render k p = Inr factor \<and>
      pe_reservations e' = AList.update (rv_reservation_id r) r (pe_reservations e) \<and> existing_request e s i = None \<and>
      rv_account_id r = account_id_of s \<and> rv_intent_id r = si_intent_id i \<and> rv_status r = ''reserved'' \<and>
      rv_quantity r = si_quantity j \<and> rv_reserved_notional r = fmul (fmul (si_quantity j) (fmul price fx)) factor)"
  using assms(1)
proof (cases rule: approve_locked_cases)
  case (committed tranche requested sessions fx price k sized capacity limits approved rounding split reasons)
  note admitted = admission_reasons_Nil [OF committed(4) assms(2)]
  from assms(3) committed(1) have [simp]: "tranche = None" by simp
  obtain m where k: "k = i\<lparr>si_metadata := m\<rparr>" "\<And>x. x \<noteq> ''entry_funding_price'' \<Longrightarrow> jget m x = jget (si_metadata i) x"
    using frozen_same [OF committed(5)] by blast
  have action: "si_action k \<in> ENTRY_ACTIONS" and stk: "intent_security_type render k = ''STK''"
    using assms(2,4) k by (simp_all add: intent_security_type_def)
  have no_exit: "si_action k \<notin> REDUCTION_ACTIONS" "si_action k \<notin> PROTECTION_ACTIONS"
    using action by (auto simp: ENTRY_ACTIONS_def REDUCTION_ACTIONS_def PROTECTION_ACTIONS_def)
  then have "entry_capacity render e s k sized (fmul price fx) 0 = Inr (capacity, limits)"
    using committed(8) by (simp add: capacity_for_def)
  from entry_capacity_Inr [OF this] committed(9) obtain caps where caps:
    "entry_capacities render e s k sized (fmul price fx) 0 = Inr caps" "\<forall>(name, limit) \<in> set caps. capacity \<le> limit" by auto
  note whole = orderable_whole [OF committed(10) action stk]
  have split: "split = (approved, approved, approved)" using committed(12) by (simp add: tranche_split_def)
  from committed(13) [unfolded split \<open>tranche = None\<close>] obtain lease factor loss fee r where c: "fence = Some lease" "fe_current lease"
      "entry_funding_factor render k (admission_policy s) = Inr factor" and j: "si_quantity j = approved" and
      row: "r = admitted_reservation render e s k approved price (fmul (fmul approved (fmul price fx)) factor) (fmul loss fx)
         (if si_action k \<in> ENTRY_ACTIONS then fmul approved fee else 0) now ids lease"
      "pe_reservations e' = AList.update (ai_reservation ids) r (pe_reservations e)"
    by (rule commit_without_tranche)
  have r: "rv_reservation_id r = ai_reservation ids" "rv_account_id r = account_id_of s" "rv_intent_id r = si_intent_id i"
    "rv_status r = ''reserved''" "rv_quantity r = approved" "rv_reserved_notional r = fmul (fmul approved (fmul price fx)) factor"
    using action by (simp_all add: row(1) admitted_reservation_def Let_def k(1))
  have "approved \<le> fadd limit lit_1e9" if "(name, limit) \<in> set caps" for name limit
  proof -
    have "capacity \<le> limit" using caps(2) that by auto
    with whole fadd_mono [of capacity limit lit_1e9] show ?thesis by simp
  qed
  moreover have "worst_entry_price render i = Inr price" using committed(14) assms(2) by (simp add: sized_price_def)
  moreover have "if si_capital_request i = None then sized = si_quantity i else capital_request_quantity render e s i = Inr sized"
    using committed(15,16) assms(2) by (auto simp: tranche_request_def)
  ultimately have "\<exists>k sized price fx factor caps r. worst_entry_price render i = Inr price \<and> 0 < price \<and>
      (if si_capital_request i = None then sized = si_quantity i else capital_request_quantity render e s i = Inr sized) \<and>
      frozen_funding i price = Inr k \<and> fx_to_base render s i = Inr fx \<and>
      entry_capacities render e s k sized (fmul price fx) 0 = Inr caps \<and>
      (\<forall>(name, limit) \<in> set caps. si_quantity j \<le> fadd limit lit_1e9) \<and>
      entry_funding_factor render k p = Inr factor \<and>
      pe_reservations e' = AList.update (rv_reservation_id r) r (pe_reservations e) \<and> existing_request e s i = None \<and>
      rv_account_id r = account_id_of s \<and> rv_intent_id r = si_intent_id i \<and> rv_status r = ''reserved'' \<and>
      rv_quantity r = si_quantity j \<and> rv_reserved_notional r = fmul (fmul (si_quantity j) (fmul price fx)) factor"
    using committed(2,3,5,7) caps(1) c(3) row(2) r j assms(2) unfolding p_def by (intro exI [of _ k] exI [of _ sized] exI [of _ price]
      exI [of _ fx] exI [of _ factor] exI [of _ caps] exI [of _ r]) auto
  with admitted whole j c(1,2) committed(11) show ?thesis unfolding p_def by blast
qed simp

section \<open>One reservation for an entry request\<close>

text \<open>What never changes in a row.\<close>

definition same_entry :: "PortfolioReservation \<Rightarrow> PortfolioReservation \<Rightarrow> bool" where
  "same_entry x y \<longleftrightarrow> rv_reservation_id x = rv_reservation_id y \<and> rv_intent_id x = rv_intent_id y \<and>
     rv_account_id x = rv_account_id y \<and> rv_action x = rv_action y \<and> rv_cash_tranche_key x = rv_cash_tranche_key y \<and>
     rv_quantity x = rv_quantity y \<and> rv_ticker x = rv_ticker y"

definition rows_kept :: "PortfolioEngine \<Rightarrow> PortfolioEngine \<Rightarrow> bool" where
  "rows_kept e f \<longleftrightarrow> keyed_rows f \<and> (\<forall>k. rel_option same_entry (map_of (pe_reservations e) k) (map_of (pe_reservations f) k))"

lemma same_entry_refl [simp]: "same_entry x x"
  by (simp add: same_entry_def)

lemma same_entry_trans: "same_entry x y \<Longrightarrow> same_entry y z \<Longrightarrow> same_entry x z"
  by (simp add: same_entry_def)

lemma same_entry_option: "rel_option same_entry a a"
  by (cases a) auto

lemma rows_kept_same: "keyed_rows e \<Longrightarrow> pe_reservations f = pe_reservations e \<Longrightarrow> rows_kept e f"
  by (simp add: rows_kept_def same_entry_option keyed_rows_def)

lemma rows_kept_trans:
  assumes "rows_kept e f" "rows_kept f g" shows "rows_kept e g"
proof -
  have "rel_option same_entry a c" if "rel_option same_entry a b" "rel_option same_entry b c" for a b c
    using that by (cases a; cases b; cases c) (auto intro: same_entry_trans)
  with assms show ?thesis unfolding rows_kept_def by blast
qed

lemma identity_same_entry: "row_identity x = row_identity y \<Longrightarrow> same_entry x y"
  by (cases x; cases y) (simp add: row_identity_def same_entry_def)

lemma rows_from_kept:
  assumes "rows_from e f" "keyed_rows e" shows "rows_kept e f"
proof -
  have "rel_option same_entry (map_of xs k) (map_of ys k)" if "list_all2 same_row xs ys" for xs ys k
    using that by (induction rule: list_all2_induct) (auto simp: same_row_def identity_same_entry)
  with rows_keyed [OF assms] assms(1) show ?thesis unfolding rows_kept_def rows_from_def by blast
qed

lemma keyed_lookup: "keyed_rows e \<Longrightarrow> map_of (pe_reservations e) k = Some x \<Longrightarrow> rv_reservation_id x = k"
  by (auto simp: keyed_rows_def dest: map_of_SomeD)

lemma keyed_row: "keyed_rows e \<Longrightarrow> (k, x) \<in> set (pe_reservations e) \<longleftrightarrow> map_of (pe_reservations e) k = Some x"
  unfolding keyed_rows_def well_keyed_def by (metis map_of_eq_Some_iff)

lemma keyed_put: "keyed_rows e \<Longrightarrow> keyed_rows (put_reservation y e)"
proof -
  assume e: "keyed_rows e"
  let ?f = "put_reservation y e"
  have wk: "well_keyed (pe_reservations ?f)" using e by (simp add: put_reservation_def keyed_rows_def)
  have "rv_reservation_id x = k" if "(k, x) \<in> set (pe_reservations ?f)" for k x
  proof -
    from that wk have "map_of (pe_reservations ?f) k = Some x" by (simp add: well_keyed_def)
    with keyed_lookup [OF e] show ?thesis by (auto simp: put_reservation_def split: if_splits)
  qed
  with wk show ?thesis by (simp add: keyed_rows_def)
qed

lemma put_kept:
  assumes "keyed_rows e" "map_of (pe_reservations e) (rv_reservation_id y) = Some x" "same_entry x y"
  shows "rows_kept e (put_reservation y e)"
  using assms keyed_put [OF assms(1)] by (simp add: rows_kept_def put_reservation_def same_entry_option)

lemma release_kept: "keyed_rows e \<Longrightarrow> rows_kept e (release_intent intent e)"
  by (rule rows_from_kept [OF released_rows [OF release_intent_released]])

lemma found_by_intent:
  assumes "keyed_rows e" "find P (dvalues (pe_reservations e)) = Some r"
  shows "map_of (pe_reservations e) (rv_reservation_id r) = Some r"
proof -
  from found_row [OF assms(2)] obtain k where "(k, r) \<in> set (pe_reservations e)" by blast
  with keyed_row [OF assms(1)] keyed_lookup [OF assms(1)] show ?thesis by metis
qed

lemma update_kept:
  assumes "keyed_rows e" shows "rows_kept e (on_order_group_update now g e)"
proof (cases "find (\<lambda>x. rv_intent_id x = gs_intent_id g) (dvalues (pe_reservations e))")
  case None
  then show ?thesis using rows_kept_same [OF assms] by (simp add: on_order_group_update_def)
next
  case (Some y)
  define prior where "prior = dget (pe_last_filled e) (rv_reservation_id y) 0"
  define filled where "filled = (if entry_snapshot g then max prior (gs_filled_quantity g) else prior)"
  define inc where "inc = (if 0 < gs_fill_incremental_quantity g then gs_fill_incremental_quantity g else max 0 (fsub filled prior))"
  define action where "action = (if gs_fill_role g \<notin> {[], ''entry''} then gs_action g else rv_action y)"
  define e1 where "e1 = (if inc = 0 then e
    else (let a = apply_fill now y inc action e in
      if entry_snapshot g then a\<lparr>pe_last_filled := AList.update (rv_reservation_id y) filled (pe_last_filled a)\<rparr> else a))"
  define e2 where "e2 = (if (gs_state g \<in> TERMINAL_MANAGEMENT_STATES \<or> (entry_snapshot g \<and> gs_entry_submission_closed g)) \<and> entry_snapshot g \<and>
      filled \<le> 0 \<and> rv_action y = ''enter_long'' then release_cash_holds y e1 else e1)"
  have up: "on_order_group_update now g e = put_reservation (updated_reservation g filled y) e2"
    unfolding on_order_group_update_def Some option.case Let_def prior_def [symmetric] filled_def [symmetric] inc_def [symmetric]
      action_def [symmetric]
    unfolding e2_def e1_def Let_def by (rule refl)
  obtain f a where f: "released_from e f" "apply_fill now y inc action e = f\<lparr>pe_allocations := a\<rparr>"
    using apply_fill_released [OF assms, of now y inc action] by blast
  have rows1: "rows_from e e1" using released_rows [OF f(1)] f(2) released_rows [OF released_refl]
    by (auto simp: e1_def Let_def rows_from_def)
  have keyed1: "keyed_rows e1" by (rule rows_keyed [OF rows1 assms])
  have rel2: "released_from e1 e2" using release_holds_released [OF keyed1] by (simp add: e2_def)
  have rows: "rows_kept e e2" by (rule rows_from_kept [OF rows_from_trans [OF rows1 released_rows [OF rel2]] assms])
  have y: "map_of (pe_reservations e) (rv_reservation_id y) = Some y" by (rule found_by_intent [OF assms Some])
  from rows have "rel_option same_entry (map_of (pe_reservations e) (rv_reservation_id y)) (map_of (pe_reservations e2) (rv_reservation_id y))"
    unfolding rows_kept_def by blast
  with y obtain z where z: "map_of (pe_reservations e2) (rv_reservation_id y) = Some z" "same_entry y z"
    by (cases "map_of (pe_reservations e2) (rv_reservation_id y)") auto
  let ?u = "updated_reservation g filled y"
  have u: "rv_reservation_id ?u = rv_reservation_id y" "same_entry y ?u"
    by (simp_all add: updated_reservation_def same_entry_def Let_def)
  have "same_entry z ?u" using z(2) u(2) by (simp add: same_entry_def)
  then have "rows_kept e2 (put_reservation ?u e2)"
    using rows z(1) u(1) by (intro put_kept [of e2 ?u z]) (simp_all add: rows_kept_def)
  with rows_kept_trans [OF rows] show ?thesis unfolding up by blast
qed

lemma popped_keyed: "keyed_rows e \<Longrightarrow> keyed_rows (popped r e)"
  by (auto simp: keyed_rows_def popped_def well_keyed_def AList.delete_eq distinct_map_filter)

lemma popped_put_kept:
  assumes "keyed_rows e" "map_of (pe_reservations e) (rv_reservation_id r) = Some r" "same_entry r y"
  shows "rows_kept e (put_reservation y (popped r e))"
proof -
  have "rv_reservation_id y = rv_reservation_id r" using assms(3) by (simp add: same_entry_def)
  with assms keyed_put [OF popped_keyed [OF assms(1)], of y r] show ?thesis
    by (auto simp: rows_kept_def put_reservation_def popped_def same_entry_option delete_conv)
qed

lemma reprice_outcome:
  assumes "authorize_entry_reprice render fence now i account price quantity e = Inr (ok, e')"
  shows "e' = e \<or> (\<exists>k r y. map_of (pe_reservations e) k = Some r \<and> same_entry r y \<and> e' = put_reservation y (popped r e))"
proof (rule ccontr)
  assume no: "\<not> ?thesis"
  let ?k = "str_or render (jget (si_metadata i) ''portfolio_reservation_id'') []"
  from assms no obtain s where s: "map_of (pe_states e) account = Some s" "0 < price \<and> 0 < quantity"
    by (auto simp: authorize_entry_reprice_def split: if_splits option.splits)
  from assms no s obtain r where r: "map_of (pe_reservations e) ?k = Some r"
    by (cases "map_of (pe_reservations e) ?k") (simp_all add: authorize_entry_reprice_def)
  from no r have fresh: "e' \<noteq> e" "\<And>y. same_entry r y \<Longrightarrow> e' \<noteq> put_reservation y (popped r e)" by blast+
  from assms fresh(1) obtain fx where fx: "float_or (jget (si_metadata i) ''portfolio_fx_to_base'') 1 = Inr fx"
      "\<not> reprice_barred e s i account r quantity now"
    by (cases "float_or (jget (si_metadata i) ''portfolio_fx_to_base'') 1")
      (auto simp: authorize_entry_reprice_def s r split: if_splits)
  from assms fresh(1) obtain j where j: "repriced_intent i price quantity = Inr j"
    by (cases "repriced_intent i price quantity") (auto simp: authorize_entry_reprice_def s r fx Let_def split: if_splits)
  from assms fresh(1) obtain loss where loss: "reserved_entry_loss render j quantity = Inr loss"
    by (cases "reserved_entry_loss render j quantity")
      (auto simp: authorize_entry_reprice_def s r fx j Let_def split: if_splits pyexc.splits)
  from assms fresh(1) obtain c limits where c: "entry_capacity render (popped r e) s j quantity (fmul price fx) (acquired_notional e r) = Inr (c, limits)"
    by (cases "entry_capacity render (popped r e) s j quantity (fmul price fx) (acquired_notional e r)")
      (auto simp: authorize_entry_reprice_def s r fx j loss Let_def split: if_splits)
  have "e' \<noteq> put_reservation r (popped r e)" by (rule fresh(2)) simp
  moreover have "e' \<noteq> put_reservation (r\<lparr>rv_reference_price := a1, rv_reserved_notional := a2, rv_reserved_planned_risk := a3,
      rv_reserved_entry_fees := a4\<rparr>) (popped r e)" for a1 a2 a3 a4 by (rule fresh(2)) (simp add: same_entry_def)
  ultimately show False using assms fresh(1)
    by (auto simp: authorize_entry_reprice_def s r fx j loss c Let_def bind_result_Inr_iff split: if_splits option.splits)
qed

lemma reprice_kept:
  assumes "keyed_rows e" "authorize_entry_reprice render fence now i account price quantity e = Inr (ok, e')"
  shows "rows_kept e e'"
  using reprice_outcome [OF assms(2)]
proof
  assume "\<exists>k r y. map_of (pe_reservations e) k = Some r \<and> same_entry r y \<and> e' = put_reservation y (popped r e)"
  then obtain k r y where y: "map_of (pe_reservations e) k = Some r" "same_entry r y" "e' = put_reservation y (popped r e)" by blast
  with keyed_lookup [OF assms(1) y(1)] popped_put_kept [OF assms(1) _ y(2)] show ?thesis by simp
qed (use rows_kept_same [OF assms(1)] in auto)

text \<open>An entry's own row, as against the hold of its later tranches.\<close>

definition entry_row :: "PortfolioReservation \<Rightarrow> bool" where
  "entry_row r \<longleftrightarrow> rv_action r \<in> ENTRY_ACTIONS \<and> rv_cash_tranche_key r = []"

definition requests_once :: "PortfolioEngine \<Rightarrow> bool" where
  "requests_once e \<longleftrightarrow> keyed_rows e \<and>
     (\<forall>k x k' x'. map_of (pe_reservations e) k = Some x \<and> map_of (pe_reservations e) k' = Some x' \<and> entry_row x \<and> entry_row x' \<and>
       rv_account_id x = rv_account_id x' \<and> rv_intent_id x = rv_intent_id x' \<longrightarrow> k = k')"

definition fresh_ids :: "AdmissionIds \<Rightarrow> PortfolioEngine \<Rightarrow> bool" where
  "fresh_ids ids e \<longleftrightarrow> map_of (pe_reservations e) (ai_reservation ids) = None \<and>
     map_of (pe_reservations e) (ai_hold ids) = None \<and> ai_hold ids \<noteq> ai_reservation ids"

lemma same_entry_row: "same_entry x y \<Longrightarrow> entry_row x = entry_row y"
  by (simp add: same_entry_def entry_row_def)

lemma kept_once:
  assumes "rows_kept e f" "requests_once e" shows "requests_once f"
  unfolding requests_once_def
proof (intro conjI allI impI)
  show "keyed_rows f" using assms(1) by (simp add: rows_kept_def)
  have origin: "\<exists>x. map_of (pe_reservations e) k = Some x \<and> same_entry x y" if "map_of (pe_reservations f) k = Some y" for k y
  proof -
    have "rel_option same_entry (map_of (pe_reservations e) k) (map_of (pe_reservations f) k)"
      using assms(1) unfolding rows_kept_def by blast
    with that show ?thesis by (cases "map_of (pe_reservations e) k") auto
  qed
  fix k y k' y' assume A: "map_of (pe_reservations f) k = Some y \<and> map_of (pe_reservations f) k' = Some y' \<and> entry_row y \<and> entry_row y' \<and>
    rv_account_id y = rv_account_id y' \<and> rv_intent_id y = rv_intent_id y'"
  then obtain x x' where x: "map_of (pe_reservations e) k = Some x" "same_entry x y"
      "map_of (pe_reservations e) k' = Some x'" "same_entry x' y'" using origin by blast
  with A have "entry_row x \<and> entry_row x' \<and> rv_account_id x = rv_account_id x' \<and> rv_intent_id x = rv_intent_id x'"
    using same_entry_row [OF x(2)] same_entry_row [OF x(4)] x(2,4) by (simp add: same_entry_def)
  with x assms(2) show "k = k'" unfolding requests_once_def by blast
qed

lemma cash_tranche_key: "cash_tranche i = Inr (Some t) \<Longrightarrow> ct_key t \<noteq> []"
proof -
  assume A: "cash_tranche i = Inr (Some t)"
  let ?v = "jget (si_metadata i) ''cash_tranche''" and ?long = "si_action i \<in> {''enter_long'', ''add_long''}"
  show ?thesis
  proof (cases "whole_number (jget ?v ''count'')"; cases "whole_number (jget ?v ''index'')"; cases "jget ?v ''key''"; cases ?long)
    fix count index key
    assume parts: "whole_number (jget ?v ''count'') = Some count" "whole_number (jget ?v ''index'') = Some index"
      "jget ?v ''key'' = JStr key" "?long"
    obtain initial where body: "(if key = [] \<or> \<not> (2 \<le> count \<and> count \<le> 20) \<or> \<not> (0 \<le> index \<and> index < count)
        then Inl (ValueError ''Invalid cash tranche request'')
        else case initial of JNum f \<Rightarrow> if 0 < f \<and> f \<le> 1
             then Inr (Some \<lparr>ct_key = key, ct_count = count, ct_index = index, ct_fraction = f\<rparr>)
             else Inl (ValueError ''Invalid initial cash tranche fraction'')
           | _ \<Rightarrow> Inl (ValueError ''Invalid initial cash tranche fraction'')) = Inr (Some t)"
      using A parts by (auto simp only: cash_tranche_def Let_def parts eq_True [THEN iffD2, OF parts(4)]
          prod.case json.case option.case bool.case split: if_split_asm)
    show "ct_key t \<noteq> []" using body by (cases initial) (auto split: if_splits)
  qed (use A in \<open>simp_all add: cash_tranche_def Let_def split: if_splits\<close>)
qed

text \<open>What a decision adds to the rows: at most the request's own row and a hold.\<close>

lemma approve_rows:
  assumes out: "approve_locked render correlation fence ids now i s e = Inr (e', d, x)"
    and keyed: "keyed_rows e" and fresh: "fresh_ids ids e"
  shows "\<exists>f. rows_kept e f \<and> keyed_rows e' \<and> (\<forall>k y. map_of (pe_reservations e') k = Some y \<longrightarrow>
    map_of (pe_reservations f) k = Some y \<or> \<not> entry_row y \<or>
    (k = ai_reservation ids \<and> map_of (pe_reservations e) k = None \<and> rv_account_id y = account_id_of s \<and> rv_intent_id y = si_intent_id i \<and>
      existing_request e s i = None))"
  using out
proof (cases rule: approve_locked_cases)
  case refused
  have "rows_kept e e'" using rows_kept_same [OF keyed refused(2)] .
  moreover from this have "keyed_rows e'" by (simp add: rows_kept_def)
  ultimately show ?thesis by blast
next
  case (committed tranche requested sessions fx price j sized capacity limits approved rounding split reasons)
  let ?hold = "case tranche of None \<Rightarrow> None | Some t \<Rightarrow> tranche_hold render e s i t"
  obtain m where j: "j = i\<lparr>si_metadata := m\<rparr>" using frozen_same [OF committed(5)] by blast
  obtain a later budget where split: "split = (a, later, budget)" by (metis surj_pair)
  from committed(13) obtain r loss fee factor lease where r: "r = admitted_reservation render e s j a price (fmul (fmul a (fmul price fx)) factor) (fmul loss fx)
       (if si_action j \<in> ENTRY_ACTIONS then fmul a fee else 0) now ids lease"
    and rows: "pe_reservations e' = (case next_hold tranche ?hold ids a later budget r of
       None \<Rightarrow> AList.update (ai_reservation ids) r (pe_reservations e)
     | Some h \<Rightarrow> AList.update (rv_reservation_id h) h (AList.update (ai_reservation ids) r (pe_reservations e)))"
    unfolding split by (elim commit_Inr) blast
  have rf: "rv_reservation_id r = ai_reservation ids" "rv_account_id r = account_id_of s" "rv_intent_id r = si_intent_id i"
      "rv_action r = si_action i" by (simp_all add: r admitted_reservation_def Let_def j)
  let ?e1 = "put_reservation r e"
  have keyed1: "keyed_rows ?e1" by (rule keyed_put [OF keyed])
  have own: "\<not> entry_row r \<or> existing_request e s i = None" using committed(2) rf by (auto simp: entry_row_def)
  have fresh_r: "map_of (pe_reservations e) (ai_reservation ids) = None" using fresh by (simp add: fresh_ids_def)
  have rows': "pe_reservations e' = pe_reservations (case next_hold tranche ?hold ids a later budget r of None \<Rightarrow> ?e1 | Some h \<Rightarrow> put_reservation h ?e1)"
    unfolding rows by (simp add: put_reservation_def rf split: option.splits)
  have same: "keyed_rows e' = keyed_rows (case next_hold tranche ?hold ids a later budget r of None \<Rightarrow> ?e1 | Some h \<Rightarrow> put_reservation h ?e1)"
    by (simp add: keyed_rows_def rows')
  have ke': "keyed_rows e'" unfolding same using keyed1 keyed_put by (auto split: option.splits)
  show ?thesis
  proof (cases tranche)
    case None
    then have "pe_reservations e' = pe_reservations ?e1" using rows' by (simp add: next_hold_def)
    with rows_kept_same [OF keyed, of e] ke' own rf fresh_r show ?thesis by (intro exI [of _ e]) (auto simp: put_reservation_def)
  next
    case (Some t)
    have key: "ct_key t \<noteq> []" using committed(1) Some by (intro cash_tranche_key) simp
    show ?thesis
    proof (cases "tranche_hold render e s i t")
      case None
      then have "pe_reservations e' = pe_reservations (put_reservation (opened_hold t ids a later budget r) ?e1)"
        using rows' Some by (simp add: next_hold_def)
      moreover have "\<not> entry_row (opened_hold t ids a later budget r)" by (simp add: entry_row_def opened_hold_def Let_def key)
      ultimately show ?thesis using rows_kept_same [OF keyed, of e] ke' own rf fresh_r
        by (intro exI [of _ e]) (auto simp: put_reservation_def)
    next
      case (Some h)
      from found_by_intent [OF keyed Some [unfolded tranche_hold_def]]
      have h: "map_of (pe_reservations e) (rv_reservation_id h) = Some h" .
      let ?h = "consumed_hold t r h"
      have "rv_reservation_id ?h = rv_reservation_id h" "same_entry h ?h"
        by (simp_all add: consumed_hold_def same_entry_def Let_def)
      with put_kept [OF keyed, of ?h h] h have "rows_kept e (put_reservation ?h e)" by simp
      moreover have "pe_reservations e' = pe_reservations (put_reservation ?h ?e1)"
        using rows' \<open>tranche = Some t\<close> Some by (simp add: next_hold_def)
      ultimately show ?thesis using ke' own rf fresh_r
        by (intro exI [of _ "put_reservation ?h e"]) (auto simp: put_reservation_def)
    qed
  qed
qed

text \<open>Everything that can happen to the rows. What does not touch them is \<open>Elsewhere\<close>: account
  snapshots, controls, reconciliation.\<close>

inductive admission_step :: "PortfolioEngine \<Rightarrow> PortfolioEngine \<Rightarrow> bool" where
  Approve: "approve render correlation fence ids now account assignment i e = Inr (e', d, x) \<Longrightarrow> fresh_ids ids e \<Longrightarrow> admission_step e e'"
| Update: "admission_step e (on_order_group_update now g e)"
| Release: "admission_step e (release_intent intent e)"
| Reprice: "authorize_entry_reprice render fence now i account price quantity e = Inr (ok, e') \<Longrightarrow> admission_step e e'"
| Elsewhere: "pe_reservations e' = pe_reservations e \<Longrightarrow> admission_step e e'"

lemma existing_request_None:
  assumes "existing_request e s i = None" "map_of (pe_reservations e) k = Some x" "rv_account_id x = account_id_of s"
  shows "rv_intent_id x \<noteq> si_intent_id i"
proof -
  have "x \<in> set (dvalues (pe_reservations e))" using map_of_SomeD [OF assms(2)] by (force simp: dvalues_def)
  with assms(1,3) show ?thesis by (auto simp: existing_request_def find_None_iff)
qed

lemma approved_once:
  assumes out: "approve_locked render correlation fence ids now i s e = Inr (e', d, x)"
    and once: "requests_once e" and fresh: "fresh_ids ids e"
  shows "requests_once e'"
proof -
  have keyed: "keyed_rows e" using once by (simp add: requests_once_def)
  obtain f where f: "rows_kept e f" "keyed_rows e'" and rows: "\<And>k y. map_of (pe_reservations e') k = Some y \<Longrightarrow> entry_row y \<Longrightarrow>
      map_of (pe_reservations f) k = Some y \<or> (k = ai_reservation ids \<and> map_of (pe_reservations e) k = None \<and>
        rv_account_id y = account_id_of s \<and> rv_intent_id y = si_intent_id i \<and> existing_request e s i = None)"
    using approve_rows [OF out keyed fresh] by blast
  have once_f: "requests_once f" by (rule kept_once [OF f(1) once])
  have free: "rv_account_id y = account_id_of s \<Longrightarrow> rv_intent_id y \<noteq> si_intent_id i"
    if "existing_request e s i = None" "map_of (pe_reservations f) k = Some y" for k y
  proof -
    assume account: "rv_account_id y = account_id_of s"
    have "rel_option same_entry (map_of (pe_reservations e) k) (map_of (pe_reservations f) k)"
      using f(1) unfolding rows_kept_def by blast
    with that(2) obtain z where "map_of (pe_reservations e) k = Some z" "same_entry z y"
      by (cases "map_of (pe_reservations e) k") auto
    with existing_request_None [OF that(1)] account show ?thesis by (auto simp: same_entry_def)
  qed
  show ?thesis unfolding requests_once_def
  proof (intro conjI allI impI f(2))
    fix k y k' y' assume A: "map_of (pe_reservations e') k = Some y \<and> map_of (pe_reservations e') k' = Some y' \<and> entry_row y \<and> entry_row y' \<and>
      rv_account_id y = rv_account_id y' \<and> rv_intent_id y = rv_intent_id y'"
    then have "map_of (pe_reservations f) k = Some y \<or> (k = ai_reservation ids \<and>
        rv_account_id y = account_id_of s \<and> rv_intent_id y = si_intent_id i \<and> existing_request e s i = None)"
      "map_of (pe_reservations f) k' = Some y' \<or> (k' = ai_reservation ids \<and>
        rv_account_id y' = account_id_of s \<and> rv_intent_id y' = si_intent_id i \<and> existing_request e s i = None)"
      using rows by blast+
    with A free once_f show "k = k'" unfolding requests_once_def by metis
  qed
qed

lemma admission_step_once:
  assumes "admission_step e e'" "requests_once e" shows "requests_once e'"
proof -
  have keyed: "keyed_rows e" using assms(2) by (simp add: requests_once_def)
  from assms(1) show ?thesis
  proof cases
    case (Approve render correlation fence ids now account assignment i d x)
    from Approve(1) obtain j s where "approve_locked render correlation fence ids now j s e = Inr (e', d, x)"
      by (auto simp: approve_def bind_result_Inr_iff split: option.splits)
    from approved_once [OF this assms(2) Approve(2)] show ?thesis .
  next
    case (Update now g)
    with kept_once [OF update_kept [OF keyed] assms(2)] show ?thesis by blast
  next
    case (Release intent)
    with kept_once [OF release_kept [OF keyed] assms(2)] show ?thesis by blast
  next
    case (Reprice render fence now i account price quantity ok)
    from kept_once [OF reprice_kept [OF keyed this] assms(2)] show ?thesis .
  next
    case Elsewhere
    from kept_once [OF rows_kept_same [OF keyed this] assms(2)] show ?thesis .
  qed
qed

lemma admission_steps_once: "admission_step\<^sup>*\<^sup>* e e' \<Longrightarrow> requests_once e \<Longrightarrow> requests_once e'"
  by (induction rule: rtranclp_induct) (auto intro: admission_step_once)

text \<open>C20. An entry request is funded once. Whatever approvals, order reports, releases and repricings
  follow one another, an account never has two reservations for the same entry request (the cash
  held for later tranches aside); and once a request has a row -- open, filled or released -- asking
  again answers that it is allocated already: no order goes out and no reservation changes.\<close>

theorem entry_request_reserved_once:
  assumes "admission_step\<^sup>*\<^sup>* e0 e" "pe_reservations e0 = []"
    and "map_of (pe_reservations e) k = Some x" "entry_row x"
  shows "(\<forall>k' x'. map_of (pe_reservations e) k' = Some x' \<and> entry_row x' \<and> rv_account_id x' = rv_account_id x \<and>
      rv_intent_id x' = rv_intent_id x \<longrightarrow> k' = k) \<and>
    (\<forall>render correlation fence ids now i s e' d y. account_id_of s = rv_account_id x \<and> si_intent_id i = rv_intent_id x \<and>
      si_action i \<in> ENTRY_ACTIONS \<and> approve_locked render correlation fence ids now i s e = Inr (e', d, y) \<longrightarrow>
      y = None \<and> pe_reservations e' = pe_reservations e)"
proof -
  have "requests_once e0" using assms(2) by (simp add: requests_once_def keyed_rows_def well_keyed_def)
  with admission_steps_once [OF assms(1)] have once: "requests_once e" by blast
  have "y = None \<and> pe_reservations e' = pe_reservations e"
    if "account_id_of s = rv_account_id x \<and> si_intent_id i = rv_intent_id x \<and> si_action i \<in> ENTRY_ACTIONS \<and>
      approve_locked render correlation fence ids now i s e = Inr (e', d, y)" for render correlation fence ids now i s e' d y
  proof -
    have "existing_request e s i \<noteq> None" using existing_request_None [OF _ assms(3)] that by force
    moreover from that have "approve_locked render correlation fence ids now i s e = Inr (e', d, y)" by simp
    then show ?thesis by (cases rule: approve_locked_cases) (use calculation that in auto)
  qed
  moreover have "k' = k" if "map_of (pe_reservations e) k' = Some x' \<and> entry_row x' \<and> rv_account_id x' = rv_account_id x \<and>
      rv_intent_id x' = rv_intent_id x" for k' x'
    using that assms(3,4) once unfolding requests_once_def by metis
  ultimately show ?thesis by blast
qed

section \<open>Releases end\<close>

definition reserved_count :: "PortfolioEngine \<Rightarrow> nat" where
  "reserved_count e = length (filter (\<lambda>r. rv_status r = ''reserved'') (dvalues (pe_reservations e)))"

lemma update_count:
  assumes "distinct (map fst d)" "map_of d k = Some x" "P x" "\<not> P y"
  shows "Suc (length (filter P (dvalues (AList.update k y d)))) = length (filter P (dvalues d))"
  using assms
proof (induction d)
  case (Cons p d)
  obtain j z where p: "p = (j, z)" by (cases p)
  show ?case
  proof (cases "j = k")
    case True
    with Cons.prems show ?thesis by (simp add: p dvalues_def)
  next
    case False
    with Cons.prems have "Suc (length (filter P (dvalues (AList.update k y d)))) = length (filter P (dvalues d))"
      by (intro Cons.IH) (simp_all add: p)
    with False show ?thesis by (simp add: p dvalues_def)
  qed
qed simp

lemma reserved_row_Some:
  assumes "keyed_rows e" "reserved_row e intent = Some r"
  shows "map_of (pe_reservations e) (rv_reservation_id r) = Some r \<and> rv_status r = ''reserved'' \<and> rv_intent_id r = intent"
  using found_by_intent [OF assms(1) assms(2) [unfolded reserved_row_def]] found_row [OF assms(2) [unfolded reserved_row_def]] by simp

lemma release_row_count:
  assumes "keyed_rows e" "reserved_row e intent = Some r"
  shows "reserved_count (release_row r e) < reserved_count e"
proof -
  have "Suc (reserved_count (release_row r e)) = reserved_count e"
    using update_count [of "pe_reservations e" "rv_reservation_id r" r "\<lambda>r. rv_status r = ''reserved''" "r\<lparr>rv_status := ''released'', rv_remaining_quantity := 0\<rparr>"]
      reserved_row_Some [OF assms] assms(1)
    by (simp add: reserved_count_def release_row_def put_reservation_def keyed_rows_def well_keyed_def)
  then show ?thesis by simp
qed

text \<open>What a fold keeps when each step does.\<close>

lemma fold_keeps:
  assumes "\<And>h f. P f \<Longrightarrow> P (step h f)" "P e" shows "P (fold step hs e)"
  using assms(2) by (induction hs arbitrary: e) (auto intro: assms(1))

lemma fold_agrees:
  assumes "\<And>h f. P f \<Longrightarrow> step h f = step' h f" "\<And>h f. P f \<Longrightarrow> P (step h f)" "P e"
  shows "fold step hs e = fold step' hs e"
  using assms(3)
proof (induction hs arbitrary: e)
  case (Cons h hs)
  have "fold step hs (step h e) = fold step' hs (step h e)" by (rule Cons.IH) (rule assms(2) [OF Cons.prems])
  then show ?case by (simp add: assms(1) [OF Cons.prems])
qed simp

text \<open>A call never reserves anything again and leaves rows that are not reserved alone.\<close>

definition only_releases :: "PortfolioEngine \<Rightarrow> PortfolioEngine \<Rightarrow> bool" where
  "only_releases e f \<longleftrightarrow> keyed_rows f \<and> reserved_count f \<le> reserved_count e \<and>
     (\<forall>k z. map_of (pe_reservations e) k = Some z \<and> rv_status z \<noteq> ''reserved'' \<longrightarrow> map_of (pe_reservations f) k = Some z)"

lemma only_releases_trans: "only_releases e f \<Longrightarrow> only_releases f g \<Longrightarrow> only_releases e g"
  unfolding only_releases_def by auto

lemma release_row_only:
  assumes "keyed_rows e" "reserved_row e intent = Some r" shows "only_releases e (release_row r e)"
proof -
  have "keyed_rows (release_row r e)" unfolding release_row_def by (rule keyed_put [OF assms(1)])
  moreover have "map_of (pe_reservations (release_row r e)) k = Some z"
    if "map_of (pe_reservations e) k = Some z" "rv_status z \<noteq> ''reserved''" for k z
    using that reserved_row_Some [OF assms] by (auto simp: release_row_def put_reservation_def)
  ultimately show ?thesis using release_row_count [OF assms] by (simp add: only_releases_def)
qed

lemma release_within_only: "keyed_rows e \<Longrightarrow> only_releases e (release_within n intent e)"
proof (induction n arbitrary: intent e)
  case (Suc n)
  show ?case
  proof (cases "reserved_row e intent")
    case None
    with Suc.prems show ?thesis by (simp add: only_releases_def)
  next
    case (Some r)
    have row: "only_releases e (release_row r e)" by (rule release_row_only [OF Suc.prems Some])
    have "only_releases e (fold (\<lambda>h. if holds_cash_for r h then release_within n (rv_intent_id h) else id) hs (release_row r e))" for hs
    proof (rule fold_keeps [where P = "only_releases e"])
      show "only_releases e (release_row r e)" by (rule row)
      fix h :: PortfolioReservation and f assume f: "only_releases e f"
      then have "only_releases f (release_within n (rv_intent_id h) f)" by (intro Suc.IH) (simp add: only_releases_def)
      with f show "only_releases e ((if holds_cash_for r h then release_within n (rv_intent_id h) else id) f)"
        using only_releases_trans by auto
    qed
    with Some row show ?thesis by (simp add: Let_def)
  qed
qed (simp add: only_releases_def)

lemma release_fuel:
  "keyed_rows e \<Longrightarrow> reserved_count e < n \<Longrightarrow> reserved_count e < m \<Longrightarrow> release_within n intent e = release_within m intent e"
proof (induction n arbitrary: m intent e)
  case (Suc n)
  then obtain m' where m: "m = Suc m'" by (cases m) auto
  show ?case
  proof (cases "reserved_row e intent")
    case (Some r)
    let ?e = "release_row r e"
    let ?step = "\<lambda>n h. if holds_cash_for r h then release_within n (rv_intent_id h) else id"
    let ?P = "\<lambda>f. keyed_rows f \<and> reserved_count f \<le> reserved_count ?e"
    have less: "reserved_count ?e < reserved_count e" by (rule release_row_count [OF Suc.prems(1) Some])
    have "keyed_rows ?e" using release_row_only [OF Suc.prems(1) Some] by (simp add: only_releases_def)
    then have "fold (?step n) hs ?e = fold (?step m') hs ?e" for hs
    proof (intro fold_agrees [of ?P])
      fix h :: PortfolioReservation and f assume f: "?P f"
      with less Suc.prems m show "?step n h f = ?step m' h f" using Suc.IH [of f m'] by auto
      from release_within_only [of f n "rv_intent_id h"] f show "?P (?step n h f)" by (auto simp: only_releases_def)
    qed simp
    with Some show ?thesis by (simp add: m Let_def)
  qed (simp add: m)
qed simp

text \<open>C25. Releasing a reservation ends. \<open>release_intent\<close> and \<open>_release_cash_holds\<close> call each other without a
  bound of their own, but however much deeper the calls may go than the portfolio has rows, the
  outcome is the same; the reservation found for the intent is released and holds nothing any
  more, and no row that is not reserved is touched.\<close>

theorem release_intent_ends:
  assumes "keyed_rows e" "length (pe_reservations e) < n"
  shows "release_within n intent e = release_intent intent e \<and>
    (\<forall>k z. map_of (pe_reservations e) k = Some z \<and> rv_status z \<noteq> ''reserved'' \<longrightarrow>
      map_of (pe_reservations (release_intent intent e)) k = Some z) \<and>
    (\<forall>r. reserved_row e intent = Some r \<longrightarrow>
      map_of (pe_reservations (release_intent intent e)) (rv_reservation_id r) = Some (r\<lparr>rv_status := ''released'', rv_remaining_quantity := 0\<rparr>))"
proof -
  have "reserved_count e \<le> length (pe_reservations e)"
    unfolding reserved_count_def by (rule order_trans [OF length_filter_le]) (simp add: dvalues_def)
  then have "release_within n intent e = release_intent intent e"
    unfolding release_intent_def using assms by (intro release_fuel) auto
  moreover have "only_releases e (release_intent intent e)"
    unfolding release_intent_def by (rule release_within_only [OF assms(1)])
  moreover have "map_of (pe_reservations (release_intent intent e)) (rv_reservation_id r) = Some (r\<lparr>rv_status := ''released'', rv_remaining_quantity := 0\<rparr>)"
    if r: "reserved_row e intent = Some r" for r
  proof -
    let ?e = "release_row r e" and ?m = "length (pe_reservations e)"
    let ?step = "\<lambda>h. if holds_cash_for r h then release_within ?m (rv_intent_id h) else id"
    have keyed: "keyed_rows ?e" using release_row_only [OF assms(1) r] by (simp add: only_releases_def)
    have row: "map_of (pe_reservations ?e) (rv_reservation_id r) = Some (r\<lparr>rv_status := ''released'', rv_remaining_quantity := 0\<rparr>)"
      by (simp add: release_row_def put_reservation_def)
    have "only_releases ?e (fold ?step hs ?e)" for hs
    proof (rule fold_keeps [where P = "only_releases ?e"])
      show "only_releases ?e ?e" using keyed by (simp add: only_releases_def)
      fix h :: PortfolioReservation and f assume f: "only_releases ?e f"
      then have "only_releases f (release_within ?m (rv_intent_id h) f)" by (intro release_within_only) (simp add: only_releases_def)
      with f show "only_releases ?e (?step h f)" using only_releases_trans by auto
    qed
    then have "only_releases ?e (release_intent intent e)"
      using keyed r by (auto simp: release_intent_def Let_def only_releases_def)
    with row show ?thesis by (auto simp: only_releases_def)
  qed
  ultimately show ?thesis by (auto simp: only_releases_def)
qed

section \<open>Reconciliation\<close>

text \<open>What the managed lots of an account hold of a ticker.\<close>

definition managed_lots :: "PortfolioEngine \<Rightarrow> string \<Rightarrow> PortfolioAllocationLot list" where
  "managed_lots e account = filter (\<lambda>l. lt_source l \<noteq> ''external'') (account_lots e account)"

definition held_quantity :: "PortfolioEngine \<Rightarrow> string \<Rightarrow> string \<Rightarrow> f64" where
  "held_quantity e account t = (\<Sum>l \<leftarrow> filter (\<lambda>l. lt_ticker l = t) (managed_lots e account). lt_quantity l)"

lemma share_abs:
  assumes "x \<in> \<int>" "\<bar>x\<bar> \<le> 2 ^ 53" shows "is_share x"
proof -
  obtain n where n: "x = of_int n" using assms(1) by (elim Ints_cases)
  with assms(2) have "(of_int \<bar>n\<bar> :: rat) \<le> of_int (2 ^ 53)" by simp
  then have "\<bar>n\<bar> \<le> 2 ^ 53" by (simp only: of_int_le_iff)
  with n show ?thesis by (auto simp: is_share_def)
qed

lemma attributed_fold:
  assumes "\<forall>l \<in> set ls. lt_quantity l \<in> \<int>" "dget acc t 0 \<in> \<int>"
    and "\<bar>dget acc t 0\<bar> + (\<Sum>l \<leftarrow> ls. \<bar>lt_quantity l\<bar>) \<le> 2 ^ 53"
  shows "dget (fold (\<lambda>l acc. AList.update (lt_ticker l) (fadd (dget acc (lt_ticker l) 0) (lt_quantity l)) acc) ls acc) t 0 =
    dget acc t 0 + (\<Sum>l \<leftarrow> filter (\<lambda>l. lt_ticker l = t) ls. lt_quantity l)"
  using assms
proof (induction ls arbitrary: acc)
  case (Cons l ls)
  let ?acc = "AList.update (lt_ticker l) (fadd (dget acc (lt_ticker l) 0) (lt_quantity l)) acc"
  have pos: "0 \<le> (\<Sum>l \<leftarrow> ls. \<bar>lt_quantity l\<bar>)" by (rule sum_list_nonneg) auto
  show ?case
  proof (cases "lt_ticker l = t")
    case True
    have q: "lt_quantity l \<in> \<int>" using Cons.prems(1) by simp
    have "\<bar>dget acc t 0 + lt_quantity l\<bar> \<le> \<bar>dget acc t 0\<bar> + \<bar>lt_quantity l\<bar>" by (rule abs_triangle_ineq)
    with Cons.prems(3) pos have small: "\<bar>dget acc t 0 + lt_quantity l\<bar> \<le> 2 ^ 53"
      "\<bar>dget acc t 0 + lt_quantity l\<bar> + (\<Sum>l \<leftarrow> ls. \<bar>lt_quantity l\<bar>) \<le> 2 ^ 53" by simp_all
    have int: "dget acc t 0 + lt_quantity l \<in> \<int>" using q Cons.prems(2) by simp
    then have "fadd (dget acc t 0) (lt_quantity l) = dget acc t 0 + lt_quantity l"
      using small(1) by (intro fadd_share share_abs)
    then have acc: "dget ?acc t 0 = dget acc t 0 + lt_quantity l" using True by simp
    from Cons.IH [of ?acc] Cons.prems(1) int small(2) True show ?thesis unfolding acc by simp
  next
    case False
    then have acc: "dget ?acc t 0 = dget acc t 0" by simp
    from Cons.IH [of ?acc] Cons.prems pos False show ?thesis unfolding acc by simp
  qed
qed simp

lemma attributed_exact:
  assumes "\<forall>l \<in> set (managed_lots e account). lt_quantity l \<in> \<int>" "(\<Sum>l \<leftarrow> managed_lots e account. \<bar>lt_quantity l\<bar>) \<le> 2 ^ 53"
  shows "dget (attributed_quantities e account) t 0 = held_quantity e account t"
  using attributed_fold [of "managed_lots e account" "[]" t] assms
  by (simp add: attributed_quantities_def held_quantity_def managed_lots_def dget_def)

lemma attributed_keys: "dget (attributed_quantities e account) t 0 \<noteq> 0 \<Longrightarrow> t \<in> set (dkeys (attributed_quantities e account))"
  using dget_absent [of t "attributed_quantities e account" 0] by (auto simp: dkeys_def)

lemma map_of_other: "map_of (filter (\<lambda>((k, _), _). k \<noteq> key) d) (k', t) = (if k' = key then None else map_of d (k', t))"
  by (induction d) auto

lemma fold_update_differences:
  assumes "distinct ts"
  shows "map_of (fold (\<lambda>d. AList.update (key, df_ticker d) d) (List.map_filter (ticker_difference s a o1) ts) base) (k, t) =
    (if k = key \<and> t \<in> set ts \<and> ticker_difference s a o1 t \<noteq> None then ticker_difference s a o1 t else map_of base (k, t))"
  using assms
proof (induction ts arbitrary: base)
  case (Cons u ts)
  have ticker: "df_ticker d = u" if "ticker_difference s a o1 u = Some d" for d
    using that by (auto simp: ticker_difference_def Let_def split: if_splits)
  show ?case
    using Cons ticker by (cases "ticker_difference s a o1 u") (auto simp: List.map_filter_simps)
qed (simp add: List.map_filter_simps)

lemma small_int: "x \<in> \<int> \<Longrightarrow> \<bar>fl x\<bar> \<le> lit_1e9 \<longleftrightarrow> x = 0"
proof
  assume x: "x \<in> \<int>" "\<bar>fl x\<bar> \<le> lit_1e9"
  have "fl x \<in> \<int>" by (rule fl_Ints [OF x(1)])
  then have "fl x = 0" using settled_whole [of "fl x"] x(2) by (simp add: settled_def)
  show "x = 0"
  proof (rule ccontr)
    assume "x \<noteq> 0"
    obtain n where n: "x = of_int n" using x(1) by (elim Ints_cases)
    with \<open>x \<noteq> 0\<close> consider "1 \<le> n" | "n \<le> - 1" by force
    then show False
    proof cases
      case 1
      then have "1 \<le> x" using n by simp
      from fl_mono [OF this] \<open>fl x = 0\<close> show False by simp
    next
      case 2
      then have "x \<le> - 1" using n by (metis of_int_1 of_int_le_iff of_int_minus)
      from fl_mono [OF this] \<open>fl x = 0\<close> show False by (simp add: fl_uminus)
    qed
  qed
qed (simp add: lit_1e9_pos less_imp_le)

text \<open>C24. A reconciliation reports exactly the positions no lot explains. With whole shares, the
  account has a difference for a ticker just when the broker's position is not the sum of the lots
  the portfolio manages; it names both quantities and what is left over. What was reported for the
  account before is gone, and the differences of every other account stay as they are.\<close>

theorem reconciliation_exact:
  assumes "\<forall>l \<in> set (managed_lots e (account_id_of s)). lt_quantity l \<in> \<int>"
    and "(\<Sum>l \<leftarrow> managed_lots e (account_id_of s). \<bar>lt_quantity l\<bar>) \<le> 2 ^ 53" and "\<forall>t. broker_quantity s t \<in> \<int>"
  defines "held \<equiv> held_quantity e (account_id_of s)" and "key \<equiv> pr_account_key (pa_profile s)"
  shows "(map_of (pe_differences (reconcile_account now s e)) (key, t) = None \<longleftrightarrow> broker_quantity s t = held t) \<and>
    (\<forall>d. map_of (pe_differences (reconcile_account now s e)) (key, t) = Some d \<longrightarrow> df_account_key d = key \<and> df_ticker d = t \<and>
      df_broker_quantity d = broker_quantity s t \<and> df_attributed_quantity d = held t \<and>
      df_unattributed_quantity d = fsub (broker_quantity s t) (held t)) \<and>
    (\<forall>k. k \<noteq> key \<longrightarrow> map_of (pe_differences (reconcile_account now s e)) (k, t) = map_of (pe_differences e) (k, t))"
proof -
  let ?a = "attributed_quantities e (account_id_of s)"
  let ?o = "case sz_observed_at s of Some t \<Rightarrow> t | None \<Rightarrow> now"
  let ?T = "set (dkeys (sz_positions s)) \<union> set (dkeys ?a)"
  have exact: "dget ?a u 0 = held u" for u unfolding held_def by (rule attributed_exact [OF assms(1,2)])
  have rows: "map_of (pe_differences (reconcile_account now s e)) (k, t) =
      (if k = key \<and> t \<in> ?T \<and> ticker_difference s ?a ?o t \<noteq> None then ticker_difference s ?a ?o t
       else if k = key then None else map_of (pe_differences e) (k, t))" for k
    unfolding key_def by (simp add: reconcile_account_def Let_def fold_update_differences map_of_other)
  have int: "held t \<in> \<int>"
  proof -
    have "sum_list xs \<in> \<int>" if "\<forall>x \<in> set xs. x \<in> \<int>" for xs :: "rat list" using that by (induction xs) auto
    then show ?thesis unfolding held_def held_quantity_def using assms(1) by auto
  qed
  then have none: "ticker_difference s ?a ?o t = None \<longleftrightarrow> broker_quantity s t = held t"
    using small_int [of "broker_quantity s t - held t"] assms(3)
    by (auto simp: ticker_difference_def Let_def exact fsub_def)
  moreover have "broker_quantity s t = held t" if "t \<notin> ?T"
  proof -
    have "held t = 0" using attributed_keys [of e "account_id_of s" t] exact [of t] that by auto
    moreover have "t \<notin> fst ` set (sz_positions s)" using that by (auto simp: dkeys_def)
    then have "broker_quantity s t = 0" by (simp add: broker_quantity_def map_of_eq_None_iff [THEN iffD2])
    ultimately show ?thesis by simp
  qed
  ultimately show ?thesis
    unfolding rows by (auto simp: ticker_difference_def Let_def exact key_def split: if_splits)
qed

section \<open>Instances\<close>

text \<open>An account with 505 dollars to spend that asks for ten shares at 100: one per cent of the capital at risk
  pays for two of them.\<close>

definition demo_portfolio_account :: AdmissionState where
  "demo_portfolio_account =
     \<lparr>pa_profile = \<lparr>pr_account_key = ''main'', pr_account_id = ''U1'', pr_mode = ''backtest'', pr_account_class = ''simulated'',
        pr_policy = default_portfolio_policy, pr_session_key = ''default'', pr_enabled = True, pr_base_currency = ''USD'',
        pr_strategy_allocations = [], pr_strategy_mandates = JObj []\<rparr>,
      pa_sync_state = SYNC_SYNCHRONIZED, pa_control_mode = CONTROL_ENABLED, pa_policy_override = None, pa_disabled_allocations = [],
      sz_summary = Some \<lparr>as_account_id = ''U1'', as_netliquidation = 2000, as_totalcashvalue = 505, as_buyingpower = 505,
        as_grosspositionvalue = 0, as_availablefunds = 505, as_excessliquidity = 505, as_currency = ''USD'', as_timestamp = 5\<rparr>,
      sz_ledger = None, sz_positions = [], sz_observed_at = Some 5, sz_snapshot_id = ''n1'',
      sz_open_orders = [], sz_watermarks = [], sz_stale_reason = [], sz_realized_pnl_baseline = None, sz_realized_pnl_today = 0, sz_peak_net_liquidation = 2000,
      sz_pending_requests = []\<rparr>"

definition demo_engine :: PortfolioEngine where
  "demo_engine = demo_books\<lparr>pe_states := [(''U1'', demo_portfolio_account)], pe_reservations := []\<rparr>"

definition demo_ids :: AdmissionIds where
  "demo_ids = \<lparr>ai_decision = ''d1'', ai_reservation = ''r1'', ai_hold = ''h1''\<rparr>"

definition demo_fence :: "AdmissionFence option" where
  "demo_fence = Some \<lparr>fe_epoch = 1, fe_owner = ''o'', fe_current = True\<rparr>"

lemma demo_admitted:
  "case approve_locked no_render (\<lambda>_. ''c1'') demo_fence demo_ids 5 demo_intent demo_portfolio_account demo_engine of
     Inr (e', d, Some j) \<Rightarrow> si_quantity j = 2 \<and> (case map_of (pe_reservations e') ''r1'' of
       Some r \<Rightarrow> entry_row r | None \<Rightarrow> False) | _ \<Rightarrow> False"
  by code_simp

lemma demo_approval:
  "\<exists>e' d j r. approve_locked no_render (\<lambda>_. ''c1'') demo_fence demo_ids 5 demo_intent demo_portfolio_account demo_engine = Inr (e', d, Some j) \<and>
     si_quantity j = 2 \<and> map_of (pe_reservations e') ''r1'' = Some r \<and> entry_row r"
  using demo_admitted by (auto split: sum.splits prod.splits option.splits)

lemma demo_intent_plain: "si_action demo_intent \<in> ENTRY_ACTIONS" "cash_tranche demo_intent = Inr None"
  "intent_security_type no_render demo_intent = ''STK''"
  by code_simp+

text \<open>Its two shares are reserved at the 100 they may cost each.\<close>

lemma demo_prices: "worst_entry_price no_render demo_intent = Inr 100" "fx_to_base no_render demo_portfolio_account demo_intent = Inr 1"
  "frozen_funding demo_intent 100 = Inr demo_intent"
  "entry_funding_factor no_render demo_intent (admission_policy demo_portfolio_account) = Inr 1"
  "fmul (fmul 2 (fmul 100 1)) 1 = 200"
  by code_simp+

theorem approved_entry_within_limits_witness:
  "\<exists>e' d j r. approve_locked no_render (\<lambda>_. ''c1'') demo_fence demo_ids 5 demo_intent demo_portfolio_account demo_engine = Inr (e', d, Some j) \<and>
     si_quantity j = 2 \<and> effective_control_mode demo_engine demo_portfolio_account = CONTROL_ENABLED \<and>
     si_quantity j \<le> fadd (pp_maximum_order_quantity (admission_policy demo_portfolio_account)) lit_1e9 \<and>
     map_of (pe_reservations e') (rv_reservation_id r) = Some r \<and> rv_quantity r = 2 \<and> rv_reserved_notional r = 200"
proof -
  obtain e' d j where out: "approve_locked no_render (\<lambda>_. ''c1'') demo_fence demo_ids 5 demo_intent demo_portfolio_account demo_engine = Inr (e', d, Some j)"
    "si_quantity j = 2" using demo_approval by blast
  note within = approved_entry_within_limits [OF out(1) demo_intent_plain]
  have "effective_control_mode demo_engine demo_portfolio_account = CONTROL_ENABLED" using within by (elim conjE)
  moreover have "si_quantity j \<le> fadd (pp_maximum_order_quantity (admission_policy demo_portfolio_account)) lit_1e9"
    using within by (elim conjE)
  moreover obtain r where "pe_reservations e' = AList.update (rv_reservation_id r) r (pe_reservations demo_engine)"
      "rv_quantity r = 2" "rv_reserved_notional r = 200"
    using within out(2) by (elim conjE exE) (auto simp: demo_prices)
  moreover from this have "map_of (pe_reservations e') (rv_reservation_id r) = Some r" by simp
  ultimately show ?thesis using out by blast
qed

theorem entry_request_reserved_once_witness:
  "\<exists>e x. admission_step\<^sup>*\<^sup>* demo_engine e \<and> map_of (pe_reservations e) ''r1'' = Some x \<and>
     (\<forall>k' x'. map_of (pe_reservations e) k' = Some x' \<and> entry_row x' \<and> rv_account_id x' = rv_account_id x \<and>
       rv_intent_id x' = rv_intent_id x \<longrightarrow> k' = ''r1'')"
proof -
  obtain e' d j r where out: "approve_locked no_render (\<lambda>_. ''c1'') demo_fence demo_ids 5 demo_intent demo_portfolio_account demo_engine = Inr (e', d, Some j)"
    "map_of (pe_reservations e') ''r1'' = Some r" "entry_row r" using demo_approval by blast
  have rows: "pe_reservations demo_engine = []" "map_of (pe_states demo_engine) ''U1'' = Some demo_portfolio_account"
    by (simp_all add: demo_engine_def)
  have "approve no_render (\<lambda>_. ''c1'') demo_fence demo_ids 5 ''U1'' None demo_intent demo_engine = Inr (e', d, Some j)"
    using out(1) rows(2) by (simp add: approve_def with_assignment_def)
  moreover have "fresh_ids demo_ids demo_engine" by (simp add: fresh_ids_def rows demo_ids_def)
  ultimately have steps: "admission_step\<^sup>*\<^sup>* demo_engine e'" using admission_step.Approve by blast
  from entry_request_reserved_once [OF steps rows(1) out(2,3)] have "\<forall>k' x'. map_of (pe_reservations e') k' = Some x' \<and> entry_row x' \<and>
      rv_account_id x' = rv_account_id r \<and> rv_intent_id x' = rv_intent_id r \<longrightarrow> k' = ''r1''" by (elim conjE)
  with steps out(2) show ?thesis by (intro exI conjI)
qed

theorem release_intent_ends_witness:
  "release_within 7 ''i1'' demo_books = release_intent ''i1'' demo_books \<and>
   map_of (pe_reservations (release_intent ''i1'' demo_books)) ''r1'' =
     Some (demo_reservation\<lparr>rv_status := ''released'', rv_remaining_quantity := 0\<rparr>)"
proof -
  have "keyed_rows demo_books" "length (pe_reservations demo_books) < 7"
    by (simp_all add: keyed_rows_def well_keyed_def demo_books_def demo_reservation_def)
  moreover have "reserved_row demo_books ''i1'' = Some demo_reservation" "rv_reservation_id demo_reservation = ''r1''"
    by (simp_all add: reserved_row_def demo_books_def demo_reservation_def dvalues_def)
  ultimately show ?thesis using release_intent_ends [of demo_books 7 "''i1''"] by auto
qed

definition demo_held :: PortfolioEngine where
  "demo_held = demo_engine\<lparr>pe_allocations := [(''l1'',
     \<lparr>lt_allocation_id = ''l1'', lt_account_key = ''main'', lt_account_id = ''U1'', lt_strategy_id = ''s'', lt_strategy_revision = 1,
      lt_assignment_id = ''a1'', lt_ticker = ''ABC'', lt_quantity = 5, lt_average_price = 100, lt_planned_risk = 10,
      lt_realized_pnl = 0, lt_source = ''managed'', lt_updated_at = 1\<rparr>)]\<rparr>"

text \<open>Five shares are attributed and the broker holds none.\<close>

theorem reconciliation_exact_witness:
  "map_of (pe_differences (reconcile_account 7 demo_portfolio_account demo_held)) (''main'', ''ABC'') \<noteq> None"
proof -
  have lots: "managed_lots demo_held (account_id_of demo_portfolio_account) = dvalues (pe_allocations demo_held)"
    by (simp add: managed_lots_def account_lots_def demo_held_def account_id_of_def demo_portfolio_account_def dvalues_def)
  have "broker_quantity demo_portfolio_account t = 0" for t by (simp add: broker_quantity_def demo_portfolio_account_def)
  moreover have "held_quantity demo_held (account_id_of demo_portfolio_account) ''ABC'' = 5"
    unfolding held_quantity_def lots by (simp add: demo_held_def dvalues_def)
  moreover have "pr_account_key (pa_profile demo_portfolio_account) = ''main''" by (simp add: demo_portfolio_account_def)
  ultimately show ?thesis using reconciliation_exact [of demo_held demo_portfolio_account 7 "''ABC''"]
    unfolding lots by (auto simp: demo_held_def dvalues_def)
qed

end
