(* ===== verification/PortfolioSync.thy ===== *)
theory PortfolioSync
  imports Admission Projector
begin

text \<open>
  The construction of the portfolio of \<open>src/trading_runtime/portfolio.py\<close> and its synchronisation
  with the broker: directly, from a given snapshot, and from the canonical snapshot of the
  projector. \<open>fresh\<close> is the identifier \<open>uuid4\<close> hands out for the snapshot of an account,
  \<open>text_of_exception\<close> is \<open>str(exc)\<close>. Restoring and persisting state is the journal's.
\<close>

section \<open>Construction\<close>

definition new_admission_state :: "PortfolioAccountProfile \<Rightarrow> AdmissionState" where
  "new_admission_state profile =
     \<lparr>pa_profile = profile, pa_sync_state = SYNC_INITIALIZING, pa_control_mode = CONTROL_ENABLED, pa_policy_override = None,
      pa_disabled_allocations = [], sz_summary = None, sz_ledger = None, sz_positions = [], sz_observed_at = None,
      sz_snapshot_id = [], sz_open_orders = [], sz_watermarks = [],
      sz_stale_reason = ''Initial broker synchronization has not completed.'', sz_realized_pnl_baseline = None,
      sz_realized_pnl_today = 0, sz_peak_net_liquidation = 0, sz_pending_requests = []\<rparr>"

definition new_portfolio_engine ::
    "string \<Rightarrow> int \<Rightarrow> string \<Rightarrow> (string, PortfolioControlMode) dict option \<Rightarrow> PortfolioAccountProfile list \<Rightarrow> PortfolioGroupPolicy list \<Rightarrow>
     PortfolioEngine result" where
  "new_portfolio_engine strategy_id revision identity modes profiles groups =
     (let states = dict_of pr_account_id new_admission_state profiles; keys = dict_of pr_account_key pr_account_id profiles in
      if profiles = [] then Inl (ValueError ''Portfolio management requires at least one account profile'')
      else if length states \<noteq> length profiles then Inl (ValueError ''Portfolio broker account ids must be unique'')
      else if length keys \<noteq> length profiles then Inl (ValueError ''Portfolio account keys must be unique'')
      else if list_ex (\<lambda>g. \<not> set (gp_account_keys g) \<subseteq> set (dkeys keys)) groups
      then Inl (ValueError ''Portfolio groups reference unknown account keys'')
      else Inr \<lparr>pe_strategy_id = strategy_id, pe_strategy_revision = revision,
        pe_allocation_identity = text_or identity strategy_id, pe_unprotected_contracts = [], pe_states = states,
        pe_groups = dvalues (dict_of gp_group_id id groups), pe_control_modes = modes, pe_reservations = [],
        pe_allocations = [], pe_differences = [], pe_last_filled = []\<rparr>)"

section \<open>Accepting a snapshot\<close>

definition position_ticker :: "(json \<Rightarrow> string) \<Rightarrow> PortfolioPosition \<Rightarrow> string" where
  "position_ticker render p =
     (let raw = pp_raw p;
          name = upper (strip (str_or render (jget raw ''ticker'') (str_or render (jget raw ''symbol'') (pp_contractDesc p))))
      in text_or name (show_int (pp_conid p)))"

definition terminal_order :: "LiveOrder \<Rightarrow> bool" where
  "terminal_order o1 \<longleftrightarrow> lower (OrderStatus_value (lo_order_status o1)) \<in> {''filled'', ''cancelled'', ''inactive'', ''rejected''}"

definition update_realized_pnl :: "f64 \<Rightarrow> AdmissionState \<Rightarrow> AdmissionState" where
  "update_realized_pnl current s =
     (let base = (case sz_realized_pnl_baseline s of None \<Rightarrow> current | Some b \<Rightarrow> b)
      in s\<lparr>sz_realized_pnl_baseline := Some base, sz_realized_pnl_today := fsub current base\<rparr>)"

definition block_entries :: "string \<Rightarrow> AdmissionState \<Rightarrow> AdmissionState" where
  "block_entries reason s = s\<lparr>pa_sync_state := SYNC_ENTRIES_BLOCKED, sz_stale_reason := reason\<rparr>"

definition earliest :: "utc list \<Rightarrow> utc" where
  "earliest ts = foldl min (hd ts) (tl ts)"

text \<open>What every kind of synchronisation does with a coherent set of rows.\<close>

definition accept_snapshot ::
    "(json \<Rightarrow> string) \<Rightarrow> AccountSummary \<Rightarrow> AccountLedger \<Rightarrow> PortfolioPosition list \<Rightarrow> (LiveOrder + OrderState) list \<Rightarrow>
     (string, utc) dict \<Rightarrow> string \<Rightarrow> AdmissionState \<Rightarrow> AdmissionState" where
  "accept_snapshot render summary ledger positions orders watermarks snapshot_id s =
     (update_realized_pnl (al_realizedpnl ledger)
       (s\<lparr>sz_summary := Some summary, sz_ledger := Some ledger, sz_positions := dict_of (position_ticker render) id positions,
          sz_open_orders := orders, sz_watermarks := watermarks, sz_observed_at := Some (earliest (dvalues watermarks)),
          sz_snapshot_id := snapshot_id,
          sz_peak_net_liquidation := max (sz_peak_net_liquidation s) (as_netliquidation summary)\<rparr>))
     \<lparr>pa_sync_state := SYNC_SYNCHRONIZED, sz_stale_reason := []\<rparr>"

definition settle_account :: "utc \<Rightarrow> AdmissionState \<Rightarrow> PortfolioEngine \<Rightarrow> PortfolioEngine" where
  "settle_account now s e = reconcile_account now s (put_state s e)"

definition component_times :: "utc \<Rightarrow> utc \<Rightarrow> utc \<Rightarrow> (string, utc) dict" where
  "component_times summary ledger synchronized =
     [(''summary'', summary), (''ledger'', ledger), (''positions'', synchronized), (''orders'', synchronized)]"

definition synchronize_snapshot ::
    "(json \<Rightarrow> string) \<Rightarrow> utc \<Rightarrow> string \<Rightarrow> AccountSummary \<Rightarrow> AccountLedger \<Rightarrow> PortfolioPosition list \<Rightarrow> LiveOrder list \<Rightarrow>
     string \<Rightarrow> string \<Rightarrow> PortfolioEngine \<Rightarrow> PortfolioEngine result" where
  "synchronize_snapshot render now account summary ledger positions orders snapshot_id fresh e =
     (case map_of (pe_states e) account of
        None \<Rightarrow> Inl (PyKeyError ''Unknown portfolio account'')
      | Some s \<Rightarrow> Inr (settle_account now (accept_snapshot render summary ledger positions (map Inl orders)
          (component_times (as_timestamp summary) (al_timestamp ledger) (max (as_timestamp summary) (al_timestamp ledger)))
          (text_or snapshot_id fresh) s) e))"

text \<open>\<open>synchronize\<close>: an account whose broker reads fail is blocked, the others go on.\<close>

definition synchronize_account ::
    "(json \<Rightarrow> string) \<Rightarrow> (pyexc \<Rightarrow> string) \<Rightarrow> utc \<Rightarrow> (string \<Rightarrow> string) \<Rightarrow> LiveOrder list \<Rightarrow>
     (string \<Rightarrow> (AccountSummary \<times> AccountLedger \<times> PortfolioPosition list) result) \<Rightarrow> string \<times> AdmissionState \<Rightarrow> PortfolioEngine \<Rightarrow>
     PortfolioEngine" where
  "synchronize_account render text_of_exception now fresh orders broker row e =
     (let (account, s) = row in
      if \<not> pr_enabled (pa_profile s)
      then put_state (s\<lparr>pa_sync_state := SYNC_DISABLED, pa_control_mode := CONTROL_DISABLED,
        sz_stale_reason := ''Account profile is disabled.''\<rparr>) e
      else (case broker account of
          Inl exc \<Rightarrow> put_state (block_entries (text_of_exception exc) s) e
        | Inr (summary, ledger, positions) \<Rightarrow>
            settle_account now (accept_snapshot render summary ledger positions
              (map Inl (filter (\<lambda>o1. lo_account o1 = account \<and> \<not> terminal_order o1) orders))
              (component_times (as_timestamp summary) (al_timestamp ledger) now) (fresh account) s) e))"

definition synchronize ::
    "(json \<Rightarrow> string) \<Rightarrow> (pyexc \<Rightarrow> string) \<Rightarrow> utc \<Rightarrow> (string \<Rightarrow> string) \<Rightarrow> LiveOrder list result \<Rightarrow>
     (string \<Rightarrow> (AccountSummary \<times> AccountLedger \<times> PortfolioPosition list) result) \<Rightarrow> PortfolioEngine \<Rightarrow> PortfolioEngine result" where
  "synchronize render text_of_exception now fresh live_orders broker e =
     bind_result live_orders (\<lambda>orders.
       Inr (fold (synchronize_account render text_of_exception now fresh orders broker) (pe_states e) e))"

section \<open>The canonical snapshot\<close>

fun ledger_truthy :: "ledger_value \<Rightarrow> bool" where
  "ledger_truthy (LV_dec d) = (d \<noteq> 0)"
| "ledger_truthy (LV_str s) = (s \<noteq> [])"
| "ledger_truthy (LV_bool b) = b"

fun ledger_float :: "ledger_value \<Rightarrow> f64 result" where
  "ledger_float (LV_dec d) = Inr (fl d)"
| "ledger_float (LV_str s) = to_float (JStr s)"
| "ledger_float (LV_bool b) = Inr (if b then 1 else 0)"

text \<open>\<open>float(values.get(key) or fallback)\<close>.\<close>

definition ledger_or :: "ledger_value option \<Rightarrow> f64 \<Rightarrow> f64 result" where
  "ledger_or v d = (case v of Some x \<Rightarrow> if ledger_truthy x then ledger_float x else Inr d | None \<Rightarrow> Inr d)"

definition canonical_amount :: "AccountValue list \<Rightarrow> LedgerBalance list \<Rightarrow> string list \<Rightarrow> f64 result" where
  "canonical_amount values ledgers keys =
     (let wanted = lower ` set keys in
      case find (\<lambda>r. lower (av_key r) \<in> wanted \<and> av_segment r = ''base'') values of
        Some r \<Rightarrow> (case av_monetary_value r of Some m \<Rightarrow> Inr (fl m) | None \<Rightarrow> float_or (JStr (av_value r)) 0)
      | None \<Rightarrow>
          (case find (\<lambda>(k, v). lower k \<in> wanted) (concat (map lb_values (filter lb_is_base ledgers))) of
             Some (k, v) \<Rightarrow> ledger_or (Some v) 0
           | None \<Rightarrow> Inr 0))"

definition oldest_timestamp :: "utc list \<Rightarrow> utc \<Rightarrow> utc" where
  "oldest_timestamp ts fallback = (if ts = [] then fallback else earliest ts)"

definition canonical_summary :: "AdmissionState \<Rightarrow> string \<Rightarrow> AccountValue list \<Rightarrow> LedgerBalance list \<Rightarrow> utc \<Rightarrow> AccountSummary result" where
  "canonical_summary s account values ledgers as_of =
     (let amount = canonical_amount values ledgers in
      bind_result (amount [''netliquidation'', ''netliquidationvalue'']) (\<lambda>net.
      bind_result (amount [''totalcashvalue'', ''cashbalance'']) (\<lambda>cash.
      bind_result (amount [''buyingpower'']) (\<lambda>power.
      bind_result (amount [''grosspositionvalue'']) (\<lambda>gross.
      bind_result (amount [''availablefunds'']) (\<lambda>funds.
      bind_result (amount [''excessliquidity'']) (\<lambda>excess.
        Inr \<lparr>as_account_id = account, as_netliquidation = net, as_totalcashvalue = cash, as_buyingpower = power,
          as_grosspositionvalue = gross, as_availablefunds = funds, as_excessliquidity = excess,
          as_currency = pr_base_currency (pa_profile s),
          as_timestamp = oldest_timestamp (map av_source_event_time values @ map lb_source_event_time ledgers) as_of\<rparr>)))))))"

definition base_ledger :: "LedgerBalance list \<Rightarrow> LedgerBalance option" where
  "base_ledger ledgers = (case find lb_is_base ledgers of Some r \<Rightarrow> Some r | None \<Rightarrow> (case ledgers of [] \<Rightarrow> None | r # _ \<Rightarrow> Some r))"

definition canonical_ledger :: "AdmissionState \<Rightarrow> string \<Rightarrow> LedgerBalance list \<Rightarrow> AccountSummary \<Rightarrow> utc \<Rightarrow> AccountLedger result" where
  "canonical_ledger s account ledgers summary as_of =
     (let base = base_ledger ledgers; values = (case base of Some r \<Rightarrow> lb_values r | None \<Rightarrow> []); read = map_of values in
      bind_result (ledger_or (read ''cashbalance'') (as_totalcashvalue summary)) (\<lambda>cash.
      bind_result (case read ''settledcash'' of
          Some v \<Rightarrow> if ledger_truthy v then ledger_float v else ledger_or (read ''cashbalance'') (as_totalcashvalue summary)
        | None \<Rightarrow> ledger_or (read ''cashbalance'') (as_totalcashvalue summary)) (\<lambda>settled.
      bind_result (ledger_or (read ''stockmarketvalue'') (as_grosspositionvalue summary)) (\<lambda>stock.
      bind_result (ledger_or (read ''netliquidationvalue'') (as_netliquidation summary)) (\<lambda>net.
      bind_result (ledger_or (read ''realizedpnl'') 0) (\<lambda>realized.
      bind_result (ledger_or (read ''unrealizedpnl'') 0) (\<lambda>unrealized.
      bind_result (ledger_or (read ''exchangerate'') 1) (\<lambda>rate.
        Inr \<lparr>al_acctId = account, al_cashbalance = cash, al_settledcash = settled, al_stockmarketvalue = stock,
          al_netliquidationvalue = net, al_realizedpnl = realized, al_unrealizedpnl = unrealized,
          al_currency = (case base of Some r \<Rightarrow> lb_currency r | None \<Rightarrow> pr_base_currency (pa_profile s)),
          al_exchangerate = rate,
          al_timestamp = (case base of Some r \<Rightarrow> lb_source_event_time r | None \<Rightarrow> as_of)\<rparr>))))))))"

definition canonical_position :: "string \<Rightarrow> PositionState \<Rightarrow> PortfolioPosition" where
  "canonical_position account r =
     \<lparr>pp_acctId = account, pp_conid = ic_conid (ps_instrument r), pp_contractDesc = ic_symbol (ps_instrument r),
      pp_position = fl (ps_quantity r), pp_mktPrice = fl (ps_market_price r), pp_mktValue = fl (ps_market_value r),
      pp_avgCost = fl (ps_average_cost r), pp_avgPrice = fl (ps_average_price r), pp_realizedPnl = fl (ps_realized_pnl r),
      pp_unrealizedPnl = fl (ps_unrealized_pnl r), pp_currency = ic_currency (ps_instrument r),
      pp_assetClass = ic_security_type (ps_instrument r),
      pp_raw = merged (ps_raw r) [(''ticker'', JStr (ic_symbol (ps_instrument r))), (''model'', JStr (ps_model r)),
        (''snapshot_id'', JStr (ps_snapshot_id r))]\<rparr>"

text \<open>Why an account is not synchronised, if it is not.\<close>

definition canonical_blocked :: "TradingStateSnapshot \<Rightarrow> string \<Rightarrow> string option" where
  "canonical_blocked snapshot account =
     (if account \<notin> set (ts_account_ids snapshot)
      then Some ''Configured account is absent from the canonical broker snapshot.''
      else if \<not> ts_complete snapshot \<or> ts_stale snapshot
      then Some (text_or (ts_stale_reason snapshot) ''Canonical broker snapshot is incomplete or stale.'')
      else if filter (\<lambda>r. av_account_id r = account) (ts_account_values snapshot) = [] \<and>
        filter (\<lambda>r. lb_account_id r = account) (ts_ledger snapshot) = []
      then Some ''Canonical account values and ledger are unavailable.'' else None)"

definition canonical_state ::
    "(json \<Rightarrow> string) \<Rightarrow> (string \<Rightarrow> string) \<Rightarrow> TradingStateSnapshot \<Rightarrow> string \<Rightarrow> AdmissionState \<Rightarrow> AdmissionState result" where
  "canonical_state render fresh snapshot account s =
     (let as_of = ts_as_of snapshot;
          values = filter (\<lambda>r. av_account_id r = account) (ts_account_values snapshot);
          ledgers = filter (\<lambda>r. lb_account_id r = account) (ts_ledger snapshot);
          positions = filter (\<lambda>r. ps_account_id r = account) (ts_positions snapshot);
          orders = filter (\<lambda>r. os_account_id r = account) (ts_orders snapshot);
          executions = filter (\<lambda>r. ex_account_id r = account) (ts_executions snapshot)
      in bind_result (canonical_summary s account values ledgers as_of) (\<lambda>summary.
         bind_result (canonical_ledger s account ledgers summary as_of) (\<lambda>ledger.
           Inr (accept_snapshot render summary ledger (map (canonical_position account) positions)
             (map Inr (filter (\<lambda>r. \<not> os_terminal r) orders))
             [(''summary'', oldest_timestamp (map av_source_event_time values) as_of),
              (''ledger'', oldest_timestamp (map lb_source_event_time ledgers) as_of),
              (''positions'', oldest_timestamp (map ps_source_event_time positions) as_of),
              (''orders'', oldest_timestamp (map os_source_event_time orders) as_of),
              (''executions'', oldest_timestamp (map ex_source_event_time executions) as_of)]
             (case find (\<lambda>r. ps_snapshot_id r \<noteq> []) positions of Some r \<Rightarrow> ps_snapshot_id r | None \<Rightarrow> fresh account) s))))"

definition canonical_account ::
    "(json \<Rightarrow> string) \<Rightarrow> utc \<Rightarrow> (string \<Rightarrow> string) \<Rightarrow> TradingStateSnapshot \<Rightarrow> string \<times> AdmissionState \<Rightarrow> PortfolioEngine \<Rightarrow>
     PortfolioEngine result" where
  "canonical_account render now fresh snapshot row e =
     (let (account, s) = row in
      case canonical_blocked snapshot account of
        Some reason \<Rightarrow> Inr (put_state (block_entries reason s) e)
      | None \<Rightarrow> bind_result (canonical_state render fresh snapshot account s) (\<lambda>s1. Inr (settle_account now s1 e)))"

definition synchronize_canonical ::
    "(json \<Rightarrow> string) \<Rightarrow> utc \<Rightarrow> (string \<Rightarrow> string) \<Rightarrow> TradingStateSnapshot \<Rightarrow> PortfolioEngine \<Rightarrow> PortfolioEngine result" where
  "synchronize_canonical render now fresh snapshot e =
     fold_result (canonical_account render now fresh snapshot) (pe_states e) e"

end
