(* ===== verification/PortfolioSyncLaws.thy ===== *)
theory PortfolioSyncLaws
  imports PortfolioSync AdmissionLaws ProjectorLaws
begin

text \<open>
  What the synchronisation guarantees the admission: a snapshot that is not coherent closes the
  account and loses nothing, a coherent one shows exactly the positions of the broker's last
  complete report; and a reduction never asks for more than the broker holds.
\<close>

section \<open>One account\<close>

text \<open>What a canonical snapshot makes of an account's state.\<close>

definition sync_outcome ::
    "(json \<Rightarrow> string) \<Rightarrow> (string \<Rightarrow> string) \<Rightarrow> TradingStateSnapshot \<Rightarrow> string \<Rightarrow> AdmissionState \<Rightarrow> AdmissionState \<Rightarrow> bool" where
  "sync_outcome render fresh snapshot account s s' \<longleftrightarrow>
     (case canonical_blocked snapshot account of
        Some reason \<Rightarrow> s' = block_entries reason s
      | None \<Rightarrow> canonical_state render fresh snapshot account s = Inr s')"

definition states_keyed :: "PortfolioEngine \<Rightarrow> bool" where
  "states_keyed e \<longleftrightarrow> distinct (map fst (pe_states e)) \<and> (\<forall>(a, s) \<in> set (pe_states e). account_id_of s = a)"

lemma reconcile_keeps [simp]:
  "pe_states (reconcile_account now s e) = pe_states e" "pe_reservations (reconcile_account now s e) = pe_reservations e"
  "pe_allocations (reconcile_account now s e) = pe_allocations e"
  by (simp_all add: reconcile_account_def Let_def)

lemma accept_account [simp]: "account_id_of (accept_snapshot render summary ledger positions orders marks sid s) = account_id_of s"
  by (simp add: accept_snapshot_def update_realized_pnl_def Let_def account_id_of_def)

lemma block_account [simp]: "account_id_of (block_entries reason s) = account_id_of s"
  by (simp add: block_entries_def account_id_of_def)

lemma canonical_state_account: "canonical_state render fresh snapshot account s = Inr s' \<Longrightarrow> account_id_of s' = account_id_of s"
  by (auto simp: canonical_state_def Let_def bind_result_Inr_iff)

lemma canonical_account_Inr:
  assumes "canonical_account render now fresh snapshot (a, s) e = Inr e'" "account_id_of s = a"
  shows "\<exists>s'. sync_outcome render fresh snapshot a s s' \<and> account_id_of s' = a \<and> pe_states e' = AList.update a s' (pe_states e) \<and>
    pe_reservations e' = pe_reservations e \<and> pe_allocations e' = pe_allocations e"
proof (cases "canonical_blocked snapshot a")
  case (Some reason)
  with assms show ?thesis by (intro exI [of _ "block_entries reason s"])
    (auto simp: canonical_account_def sync_outcome_def put_state_def)
next
  case None
  with assms obtain s' where s': "canonical_state render fresh snapshot a s = Inr s'" "e' = settle_account now s' e"
    by (auto simp: canonical_account_def bind_result_Inr_iff)
  with canonical_state_account [OF s'(1)] None assms(2) show ?thesis
    by (intro exI [of _ s']) (auto simp: sync_outcome_def settle_account_def put_state_def)
qed

lemma canonical_accounts:
  assumes "fold_result (canonical_account render now fresh snapshot) rows e = Inr e'"
    and "distinct (map fst rows)" "\<forall>(a, s) \<in> set rows. account_id_of s = a"
  shows "(\<forall>(a, s) \<in> set rows. \<exists>s'. map_of (pe_states e') a = Some s' \<and> sync_outcome render fresh snapshot a s s' \<and> account_id_of s' = a) \<and>
    (\<forall>a. a \<notin> fst ` set rows \<longrightarrow> map_of (pe_states e') a = map_of (pe_states e) a) \<and>
    pe_reservations e' = pe_reservations e \<and> pe_allocations e' = pe_allocations e"
  using assms
proof (induction rows arbitrary: e)
  case (Cons row rows)
  obtain a s where row: "row = (a, s)" by (cases row)
  from Cons.prems(1) obtain e1 where e1: "canonical_account render now fresh snapshot (a, s) e = Inr e1"
    "fold_result (canonical_account render now fresh snapshot) rows e1 = Inr e'" by (auto simp: row bind_result_Inr_iff)
  from Cons.prems(3) have "account_id_of s = a" by (simp add: row)
  from canonical_account_Inr [OF e1(1) this] obtain s' where s': "sync_outcome render fresh snapshot a s s'" "account_id_of s' = a"
    "pe_states e1 = AList.update a s' (pe_states e)" "pe_reservations e1 = pe_reservations e" "pe_allocations e1 = pe_allocations e" by blast
  from Cons.IH [OF e1(2)] Cons.prems(2,3) have rest: "\<forall>(b, t) \<in> set rows. \<exists>t'. map_of (pe_states e') b = Some t' \<and>
      sync_outcome render fresh snapshot b t t' \<and> account_id_of t' = b"
    "\<forall>b. b \<notin> fst ` set rows \<longrightarrow> map_of (pe_states e') b = map_of (pe_states e1) b"
    "pe_reservations e' = pe_reservations e1" "pe_allocations e' = pe_allocations e1" by (simp_all add: row)
  from Cons.prems(2) have "a \<notin> fst ` set rows" by (simp add: row)
  with rest(2) have "map_of (pe_states e') a = Some s'" by (simp add: s'(3))
  with rest s' show ?case by (auto simp: row)
qed simp

lemma synchronized_account:
  assumes "synchronize_canonical render now fresh snapshot e = Inr e'" "states_keyed e" "map_of (pe_states e) a = Some s"
  obtains s' where "map_of (pe_states e') a = Some s'" "sync_outcome render fresh snapshot a s s'" "account_id_of s' = a"
    "pe_reservations e' = pe_reservations e" "pe_allocations e' = pe_allocations e"
proof -
  have "distinct (map fst (pe_states e))" "\<forall>(a, s) \<in> set (pe_states e). account_id_of s = a"
    using assms(2) by (simp_all add: states_keyed_def)
  from canonical_accounts [OF assms(1) [unfolded synchronize_canonical_def] this] map_of_SomeD [OF assms(3)] that
  show thesis by blast
qed

section \<open>A snapshot that is not coherent\<close>

lemma blocked_reasons:
  assumes "pa_sync_state s = SYNC_ENTRIES_BLOCKED" "admission_reasons render e s i requested sessions fx now = Inr []"
  shows False
proof -
  from assms(2) have "account_reasons e s i now = []" by (auto simp: admission_reasons_def bind_result_Inr_iff)
  with assms(1) show False by (simp add: account_reasons_def Let_def)
qed

text \<open>A blocked account sends no intent, whatever its action: \<open>_approve_locked\<close> refuses reductions and
  exits with the entries, where \<open>docs/architecture/PORTFOLIO_MANAGEMENT.md\<close> lets a stale snapshot
  permit a reduction the broker's position bounds.\<close>

lemma blocked_account_refuses:
  assumes "pa_sync_state s = SYNC_ENTRIES_BLOCKED" "approve_locked render correlation fence ids now i s e = Inr (e', d, x)"
  shows "x = None \<and> pe_reservations e' = pe_reservations e \<and> pe_allocations e' = pe_allocations e"
  using assms(2)
proof (cases rule: approve_locked_cases)
  case (committed tranche requested sessions fx price j sized capacity limits approved rounding split reasons)
  from blocked_reasons [OF assms(1) committed(4)] show ?thesis ..
qed simp

text \<open>C21. An account without a coherent broker snapshot takes on nothing and loses nothing. When the
  canonical snapshot is incomplete or stale, or leaves the account out, the portfolio keeps the
  account's last positions, summary and ledger, every reservation and every lot; the account is
  blocked, and until it is synchronised again every entry and add for it is refused: no order goes
  out, and no reservation or lot is written.\<close>

theorem incoherent_snapshot_blocks_account:
  assumes "synchronize_canonical render now fresh snapshot e = Inr e'" "states_keyed e" "map_of (pe_states e) a = Some s"
    and "\<not> ts_complete snapshot \<or> ts_stale snapshot \<or> a \<notin> set (ts_account_ids snapshot)"
  shows "\<exists>s'. map_of (pe_states e') a = Some s' \<and> pa_sync_state s' = SYNC_ENTRIES_BLOCKED \<and>
    sz_positions s' = sz_positions s \<and> sz_summary s' = sz_summary s \<and> sz_ledger s' = sz_ledger s \<and>
    pe_reservations e' = pe_reservations e \<and> pe_allocations e' = pe_allocations e \<and>
    (\<forall>correlation fence ids moment i e'' d x. si_action i \<in> ENTRY_ACTIONS \<and>
      approve_locked render correlation fence ids moment i s' e' = Inr (e'', d, x) \<longrightarrow>
      x = None \<and> pe_reservations e'' = pe_reservations e' \<and> pe_allocations e'' = pe_allocations e')"
proof -
  obtain s' where s': "map_of (pe_states e') a = Some s'" "sync_outcome render fresh snapshot a s s'"
    and rows: "pe_reservations e' = pe_reservations e" "pe_allocations e' = pe_allocations e"
    using synchronized_account [OF assms(1-3)] by metis
  have "canonical_blocked snapshot a \<noteq> None" using assms(4) by (auto simp: canonical_blocked_def)
  then obtain reason where "canonical_blocked snapshot a = Some reason" by blast
  with s'(2) have s'_def: "s' = block_entries reason s" by (simp add: sync_outcome_def)
  then have blocked: "pa_sync_state s' = SYNC_ENTRIES_BLOCKED" by (simp add: block_entries_def)
  from s'(1) rows blocked blocked_account_refuses [OF blocked] show ?thesis
    by (auto simp: s'_def block_entries_def)
qed

section \<open>A coherent snapshot\<close>

lemma map_of_dict_of_snoc: "map_of (dict_of key v (rows @ [x])) k = (if k = key x then Some (v x) else map_of (dict_of key v rows) k)"
  by (simp add: dict_of_def)

lemma dict_of_id: "map_of (dict_of key id rows) k = Some r \<Longrightarrow> key r = k \<and> r \<in> set rows"
proof (induction rows rule: rev_induct)
  case (snoc x rows)
  show ?case
  proof (cases "k = key x")
    case True
    with snoc.prems show ?thesis by (simp add: map_of_dict_of_snoc)
  next
    case False
    with snoc.prems have "map_of (dict_of key id rows) k = Some r" by (simp only: map_of_dict_of_snoc if_False)
    from snoc.IH [OF this] show ?thesis by (simp only: set_append Un_iff simp_thms)
  qed
qed (simp add: dict_of_def)

lemma dict_of_found: "r \<in> set rows \<Longrightarrow> \<exists>x. map_of (dict_of key id rows) (key r) = Some x"
proof (induction rows rule: rev_induct)
  case (snoc y rows)
  then show ?case by (auto simp: dict_of_def)
qed simp

text \<open>The positions of the projector are stored under their own keys.\<close>

definition positions_keyed :: "Projector \<Rightarrow> bool" where
  "positions_keyed p \<longleftrightarrow> (\<forall>k r. map_of (pj_positions p) k = Some r \<longrightarrow> position_key r = k) \<and> well_keyed (pj_positions p)"

lemma positions_keyedD: "positions_keyed p \<Longrightarrow> map_of (pj_positions p) k = Some r \<Longrightarrow> position_key r = k"
  unfolding positions_keyed_def by blast

lemma positions_keyed_step:
  assumes "positions_keyed p" "own_rows c" shows "positions_keyed (project c p)"
proof (cases "is_snapshot c")
  case False
  have "pj_positions (project c p) = pj_positions p" using project_frame [OF False, of p] by (simp add: position_part_def)
  with assms(1) show ?thesis by (simp add: positions_keyed_def)
next
  case True
  then obtain b s full rows where c: "c = PositionSnapshot b s full rows" by (cases c) (auto simp: is_snapshot_def)
  show ?thesis
  proof (cases full)
    case False
    with assms(1) show ?thesis by (simp add: c positions_keyed_def apply_position_snapshot_def)
  next
    case True
    have own: "list_all (\<lambda>r. ps_account_id r = b) rows" using assms(2) by (simp add: own_rows_def c)
    have "position_key r = k" if "map_of (pj_positions (project c p)) k = Some r" for k r
    proof -
      obtain a k' where k: "k = (a, k')" by (cases k)
      have "map_of (pj_positions (project c p)) k = (if a = b then map_of (dict_of position_key id rows) k else map_of (pj_positions p) k)"
        using snapshot_positions [OF own, of s p a k'] True by (simp add: k c)
      with that consider "map_of (dict_of position_key id rows) k = Some r" | "map_of (pj_positions p) k = Some r"
        by (cases "a = b") simp_all
      then show ?thesis
      proof cases
        case 1
        from dict_of_id [OF 1] show ?thesis ..
      next
        case 2
        then show ?thesis by (rule positions_keyedD [OF assms(1)])
      qed
    qed
    moreover have "well_keyed (pj_positions (project c p))"
    proof -
      have "well_keyed (pj_positions p)" using assms(1) by (simp add: positions_keyed_def)
      then have "well_keyed (filter q (pj_positions p))" for q by (simp add: well_keyed_def distinct_map_filter)
      then show ?thesis by (simp add: c True apply_position_snapshot_def advance_def Let_def well_keyed_dupdate)
    qed
    ultimately show ?thesis by (simp add: positions_keyed_def)
  qed
qed

lemma run_keyed: "list_all own_rows calls \<Longrightarrow> positions_keyed (project_all calls (new_projector mode provider))"
proof (induction calls rule: rev_induct)
  case Nil
  then show ?case by (simp add: positions_keyed_def new_projector_def well_keyed_def)
qed (simp add: positions_keyed_step)

lemma reports_own: "list_all own_rows calls \<Longrightarrow> (s, c, rows) \<in> set (reports_of a calls) \<Longrightarrow> r \<in> set rows \<Longrightarrow> ps_account_id r = a"
  by (induction a calls rule: reports_of.induct) (auto simp: own_rows_def list_all_iff split: if_splits)

lemma shown_own:
  assumes "list_all own_rows calls" "r \<in> set (shown_rows a calls)" shows "ps_account_id r = a"
proof -
  from assms(2) obtain s c rows where "(s, c, rows) \<in> set (rev (complete_reports a calls))" "r \<in> set rows"
    by (cases "rev (complete_reports a calls)") (auto simp: shown_rows_def)
  then have "(s, c, rows) \<in> set (reports_of a calls)" by (auto simp: complete_reports_def)
  from reports_own [OF assms(1) this \<open>r \<in> set rows\<close>] show ?thesis .
qed

text \<open>The rows an account has after its last complete report, one for each instrument and model.\<close>

definition broker_rows :: "string \<Rightarrow> ProjectorCall list \<Rightarrow> PositionState list" where
  "broker_rows a calls = dvalues (dict_of position_key id (shown_rows a calls))"

lemma projected_rows:
  assumes "list_all own_rows calls" "project_all calls (new_projector mode provider) = p"
  shows "{r \<in> set (dvalues (pj_positions p)). ps_account_id r = a} = set (broker_rows a calls)"
proof -
  have keyed: "positions_keyed p" using run_keyed [OF assms(1), of mode provider] assms(2) by simp
  then have wk: "well_keyed (pj_positions p)" by (simp add: positions_keyed_def)
  have shown: "map_of (pj_positions p) (b, k) = map_of (dict_of position_key id (shown_rows b calls)) (b, k)" for b k
    using run_shown [OF assms(1), of mode provider] unfolding assms(2) positions_shown_def by blast
  let ?d = "dict_of position_key id (shown_rows a calls)"
  have look: "r \<in> set (dvalues d) \<longleftrightarrow> (\<exists>k. map_of d k = Some r)" if "well_keyed d" for d :: "(position_key, PositionState) dict" and r
    using that by (force simp: dvalues_def well_keyed_def dest: map_of_SomeD)
  have "r \<in> set (broker_rows a calls)" if row: "r \<in> set (dvalues (pj_positions p))" "ps_account_id r = a" for r
  proof -
    from row(1) obtain k where k: "map_of (pj_positions p) k = Some r" using look [OF wk] by blast
    then have "position_key r = k" by (rule positions_keyedD [OF keyed])
    then obtain k' where "k = (a, k')" using row(2) by (auto simp: position_key_def)
    with k shown have "map_of ?d k = Some r" by simp
    then show ?thesis unfolding broker_rows_def by (subst look [OF well_keyed_dict_of]) blast
  qed
  moreover have "r \<in> set (dvalues (pj_positions p)) \<and> ps_account_id r = a" if "r \<in> set (broker_rows a calls)" for r
  proof -
    from that obtain k where k: "map_of ?d k = Some r" unfolding broker_rows_def by (subst (asm) look [OF well_keyed_dict_of]) blast
    from dict_of_id [OF k] have "position_key r = k" "ps_account_id r = a" using shown_own [OF assms(1)] by auto
    then obtain k' where "k = (a, k')" by (auto simp: position_key_def)
    with k shown have "map_of (pj_positions p) k = Some r" by simp
    with look [OF wk] \<open>ps_account_id r = a\<close> show ?thesis by blast
  qed
  ultimately show ?thesis by blast
qed

lemma accepted_positions:
  "canonical_state render fresh snapshot a s = Inr s' \<Longrightarrow> pa_sync_state s' = SYNC_SYNCHRONIZED \<and>
   sz_positions s' = dict_of (position_ticker render) id (map (canonical_position a) (filter (\<lambda>r. ps_account_id r = a) (ts_positions snapshot)))"
  by (auto simp: canonical_state_def Let_def bind_result_Inr_iff accept_snapshot_def update_realized_pnl_def)

text \<open>C22. The portfolio sees what the broker last reported. Whatever events and position reports the
  projector has consumed, when its snapshot synchronises an account the portfolio shows, for every
  ticker of the broker's last complete report, the quantity reported in a row of that ticker as a
  double -- of its row, when it has one only -- and no position in any other ticker: an incomplete
  report in between changes nothing, and a position that disappeared from a complete one is gone.
  Reservations and lots are not touched. (The projector keeps rows by contract and model, the
  portfolio by ticker: \<open>rows_of_one_ticker_collapse\<close> below.)\<close>

theorem portfolio_shows_last_complete_report:
  assumes "list_all own_rows calls" "project_all calls (new_projector mode provider) = p"
    and "synchronize_canonical render now fresh (projector_snapshot read_at accounts p) e = Inr e'"
    and "states_keyed e" "map_of (pe_states e) a = Some s"
    and "canonical_blocked (projector_snapshot read_at accounts p) a = None"
    and "ticker = (\<lambda>r. position_ticker render (canonical_position a r))"
  shows "\<exists>s'. map_of (pe_states e') a = Some s' \<and> pa_sync_state s' = SYNC_SYNCHRONIZED \<and>
    (\<forall>t \<in> ticker ` set (broker_rows a calls). \<exists>r \<in> set (broker_rows a calls). ticker r = t \<and>
       broker_quantity s' t = fl (ps_quantity r)) \<and>
    (\<forall>t. t \<notin> ticker ` set (broker_rows a calls) \<longrightarrow> broker_quantity s' t = 0) \<and>
    pe_reservations e' = pe_reservations e \<and> pe_allocations e' = pe_allocations e"
proof -
  let ?snap = "projector_snapshot read_at accounts p"
  obtain s' where s': "map_of (pe_states e') a = Some s'" "sync_outcome render fresh ?snap a s s'"
    and rows: "pe_reservations e' = pe_reservations e" "pe_allocations e' = pe_allocations e"
    using synchronized_account [OF assms(3-5)] by metis
  from s'(2) assms(6) have "canonical_state render fresh ?snap a s = Inr s'" by (simp add: sync_outcome_def)
  note state = accepted_positions [OF this]
  let ?P = "filter (\<lambda>r. ps_account_id r = a) (ts_positions ?snap)" and ?cp = "canonical_position a"
  have "a \<in> set (ts_account_ids ?snap)" using assms(6) by (auto simp: canonical_blocked_def split: if_splits)
  then have "a \<in> set (if accounts \<noteq> [] then accounts else dkeys (pj_accounts p))"
    by (simp add: projector_snapshot_def Let_def split: if_splits)
  then have "set ?P = {r \<in> set (dvalues (pj_positions p)). ps_account_id r = a}" by (auto simp: projector_snapshot_def Let_def)
  then have P: "set ?P = set (broker_rows a calls)" using projected_rows [OF assms(1,2), of a] by simp
  have "\<exists>r' \<in> set (broker_rows a calls). ticker r' = ticker r \<and> broker_quantity s' (ticker r) = fl (ps_quantity r')"
    if "r \<in> set (broker_rows a calls)" for r
  proof -
    have "?cp r \<in> set (map ?cp ?P)" using that P by auto
    from dict_of_found [OF this, of "position_ticker render"] obtain x
      where x: "map_of (sz_positions s') (ticker r) = Some x" by (auto simp: state assms(7))
    from dict_of_id [OF x [unfolded state [THEN conjunct2]]] obtain r' where "r' \<in> set ?P" "x = ?cp r'" "ticker r' = ticker r"
      by (auto simp: assms(7))
    with x P show ?thesis by (intro bexI [of _ r']) (auto simp: broker_quantity_def canonical_position_def)
  qed
  moreover have "broker_quantity s' t = 0" if "t \<notin> ticker ` set (broker_rows a calls)" for t
  proof -
    have "map_of (sz_positions s') t = None"
    proof (rule ccontr)
      assume "map_of (sz_positions s') t \<noteq> None"
      then obtain y where "map_of (dict_of (position_ticker render) id (map ?cp ?P)) t = Some y" using state by auto
      from dict_of_id [OF this] have "t \<in> ticker ` set ?P" by (auto simp: assms(7))
      with that P show False by simp
    qed
    then show ?thesis by (simp add: broker_quantity_def)
  qed
  ultimately show ?thesis using s'(1) state rows by blast
qed

section \<open>Reductions\<close>

lemma fraction_floor:
  assumes "0 \<le> h" "h \<le> 1000000000"
  shows "py_floor (fmul (fadd (of_int h) lit_1e12) 1000000) \<le> h * 1000000"
proof -
  have "is_f64 (1 / 2 ^ 37)" using is_f64_dyadic [of 1 37] by simp
  then have small: "lit_1e12 \<le> 1 / 2 ^ 37" unfolding lit_1e12_def by (rule fl_le_iff) simp
  have "fadd (of_int h) lit_1e12 \<le> of_int h + 1 / 8388608"
  proof -
    have eq: "of_int (h * 8388608 + 1) / 2 ^ 23 = (of_int h + 1 / 8388608 :: rat)" by (simp add: field_simps)
    have "is_f64 (of_int (h * 8388608 + 1) / 2 ^ 23)" by (rule is_f64_dyadic) (use assms in simp_all)
    then have "is_f64 (of_int h + 1 / 8388608 :: rat)" unfolding eq .
    moreover have "of_int h + lit_1e12 \<le> of_int h + 1 / 8388608" using small by simp
    ultimately show ?thesis unfolding fadd_def by (rule fl_le_iff)
  qed
  then have "fadd (of_int h) lit_1e12 * 1000000 \<le> of_int (h * 1000000) + 1 / 2"
    by (simp add: field_simps)
  moreover have "is_f64 (of_int (h * 1000000) + 1 / 2 :: rat)"
  proof -
    have eq: "of_int (h * 2000000 + 1) / 2 ^ 1 = (of_int (h * 1000000) + 1 / 2 :: rat)" by (simp add: field_simps)
    have "is_f64 (of_int (h * 2000000 + 1) / 2 ^ 1)" by (rule is_f64_dyadic) (use assms in simp_all)
    then show ?thesis unfolding eq .
  qed
  ultimately have "fmul (fadd (of_int h) lit_1e12) 1000000 \<le> of_int (h * 1000000) + 1 / 2"
    unfolding fmul_def by (intro fl_le_iff)
  then show ?thesis unfolding py_floor_def by linarith
qed

lemma fquo_mono: "x \<le> y \<Longrightarrow> 0 < z \<Longrightarrow> fquo x z \<le> fquo y z"
  unfolding fquo_def by (intro fl_mono divide_right_mono) simp_all

text \<open>Cutting a quantity to millionths never lifts it above a whole number it was bounded by.\<close>

lemma orderable_fraction:
  assumes "orderable render i p c = (approved, rounding)" "si_action i \<notin> ENTRY_ACTIONS"
    and "c \<le> of_int h" "0 \<le> h" "h \<le> 1000000000"
  shows "approved \<le> of_int h"
proof -
  let ?c = "min c (pp_maximum_order_quantity p)"
  have a: "approved = fquo (of_int (py_floor (fmul (fadd ?c lit_1e12) 1000000))) 1000000"
    using assms(1,2) by (simp add: orderable_def Let_def)
  have "fadd ?c lit_1e12 \<le> fadd (of_int h) lit_1e12" using assms(3) by (intro fadd_mono) simp
  then have "fmul (fadd ?c lit_1e12) 1000000 \<le> fmul (fadd (of_int h) lit_1e12) 1000000"
    unfolding fmul_def by (intro fl_mono) simp
  then have "py_floor (fmul (fadd ?c lit_1e12) 1000000) \<le> py_floor (fmul (fadd (of_int h) lit_1e12) 1000000)"
    unfolding py_floor_def by (rule floor_mono)
  with fraction_floor [OF assms(4,5)] have "py_floor (fmul (fadd ?c lit_1e12) 1000000) \<le> h * 1000000" by simp
  then have "(of_int (py_floor (fmul (fadd ?c lit_1e12) 1000000)) :: rat) \<le> of_int (h * 1000000)" by (simp only: of_int_le_iff)
  then have "approved \<le> fquo (of_int (h * 1000000)) 1000000" unfolding a by (rule fquo_mono) simp
  also have "\<dots> = of_int h" using assms(4,5) by (simp add: fquo_def fl_exact is_f64_of_int)
  finally show ?thesis .
qed

text \<open>C23. A reduction never reverses a position. With a whole-share broker position of up to a billion
  shares, an approved exit, reduction or profit take sells at most the shares that are held long,
  and a cover buys back at most those that are held short; there is something to reduce, and the
  reservation it leaves holds no capital.\<close>

theorem reduction_within_position:
  assumes "approve_locked render correlation fence ids now i s e = Inr (e', d, Some j)"
    and "si_action i \<in> REDUCTION_ACTIONS" "current_quantity s i = of_int h" "\<bar>h\<bar> \<le> 1000000000"
  shows "0 < si_quantity j \<and>
    (si_action i \<in> {''reduce_long'', ''take_profit'', ''exit''} \<longrightarrow> 0 < h \<and> si_quantity j \<le> of_int h) \<and>
    (si_action i \<notin> {''reduce_long'', ''take_profit'', ''exit''} \<longrightarrow> h < 0 \<and> si_quantity j \<le> of_int (- h)) \<and>
    (\<exists>r. map_of (pe_reservations e') (ai_reservation ids) = Some r \<and> rv_quantity r = si_quantity j \<and>
      rv_reserved_notional r = 0 \<and> rv_reserved_planned_risk r = 0 \<and> rv_reserved_entry_fees r = 0)"
  using assms(1)
proof (cases rule: approve_locked_cases)
  case (committed tranche requested sessions fx price k sized capacity limits approved rounding split reasons)
  have no_entry: "si_action i \<notin> ENTRY_ACTIONS" using assms(2) by (auto simp: REDUCTION_ACTIONS_def ENTRY_ACTIONS_def)
  then have [simp]: "tranche = None" using committed(1) by (simp add: cash_tranche_def Let_def)
  obtain m where k: "k = i\<lparr>si_metadata := m\<rparr>" using frozen_same [OF committed(5)] by blast
  have k': "si_action k = si_action i" "current_quantity s k = of_int h"
    using assms(3) by (simp_all add: k current_quantity_def)
  define n where "n = (if si_action i \<in> {''reduce_long'', ''take_profit'', ''exit''} then max 0 h else max 0 (- h))"
  have n: "0 \<le> n" "n \<le> 1000000000" using assms(4) by (auto simp: n_def)
  have "capacity = min sized (of_int n)"
    using committed(8) assms(2) k' by (auto simp: capacity_for_def Let_def n_def of_int_max)
  then have "capacity \<le> of_int n" "0 < (of_int n :: rat)" using committed(9) by auto
  then have bound: "approved \<le> of_int n" and pos: "0 < n"
    using orderable_fraction [OF committed(10) _ _ n] no_entry k' by auto
  have split: "split = (approved, approved, approved)" using committed(12) by (simp add: tranche_split_def)
  from committed(13) [unfolded split \<open>tranche = None\<close>] obtain lease factor loss fee r where j: "si_quantity j = approved" and
      c: "r = admitted_reservation render e s k approved price (fmul (fmul approved (fmul price fx)) factor) (fmul loss fx)
         (if si_action k \<in> ENTRY_ACTIONS then fmul approved fee else 0) now ids lease"
      "pe_reservations e' = AList.update (ai_reservation ids) r (pe_reservations e)"
    by (rule commit_without_tranche)
  have "rv_quantity r = approved \<and> rv_reserved_notional r = 0 \<and> rv_reserved_planned_risk r = 0 \<and> rv_reserved_entry_fees r = 0"
    using no_entry k'(1) by (simp add: c(1) admitted_reservation_def Let_def)
  moreover have "map_of (pe_reservations e') (ai_reservation ids) = Some r" by (simp add: c(2))
  moreover have "(si_action i \<in> {''reduce_long'', ''take_profit'', ''exit''} \<longrightarrow> 0 < h \<and> approved \<le> of_int h) \<and>
      (si_action i \<notin> {''reduce_long'', ''take_profit'', ''exit''} \<longrightarrow> h < 0 \<and> approved \<le> of_int (- h))"
    using bound pos unfolding n_def by (auto simp: max_def split: if_splits)
  ultimately show ?thesis using committed(11) j by auto
qed simp

section \<open>Instances\<close>

text \<open>The broker reports an account and its positions: two, then one of them alone and incomplete, then
  one, completely.\<close>

definition demo_calls :: "ProjectorCall list" where
  "demo_calls =
     [SetAccounts [demo_account ''U1''],
      SetAccountValues [\<lparr>av_account_id = ''U1'', av_key = ''NetLiquidation'', av_value = ''2000'', av_monetary_value = Some 2000,
        av_currency = ''USD'', av_segment = ''base'', av_is_null = False, av_severity = 0, av_source_event_time = 4,
        av_received_at = 4, av_raw = JNull\<rparr>],
      PositionSnapshot ''U1'' ''s1'' True [demo_position ''U1'' 1 100, demo_position ''U1'' 2 50],
      PositionSnapshot ''U1'' ''s2'' False [demo_position ''U1'' 1 30],
      PositionSnapshot ''U1'' ''s3'' True [demo_position ''U1'' 1 70]]"

definition demo_broker :: "ProjectorCall list \<Rightarrow> Projector" where
  "demo_broker calls = project_all calls (new_projector MODE_PAPER PROVIDER_SIMULATED)"

lemma demo_states: "states_keyed demo_engine" "map_of (pe_states demo_engine) ''U1'' = Some demo_portfolio_account"
  by (simp_all add: states_keyed_def demo_engine_def demo_portfolio_account_def account_id_of_def)

text \<open>Nothing goes out on the incomplete report.\<close>

lemma demo_incoherent:
  "case synchronize_canonical no_render 7 (\<lambda>_. ''f1'') (projector_snapshot 7 [] (demo_broker (take 2 demo_calls))) demo_engine of
     Inr e' \<Rightarrow> True | Inl _ \<Rightarrow> False"
  "\<not> ts_complete (projector_snapshot 7 [] (demo_broker (take 2 demo_calls)))"
  by code_simp+

theorem incoherent_snapshot_blocks_account_witness:
  "\<exists>e' s'. synchronize_canonical no_render 7 (\<lambda>_. ''f1'') (projector_snapshot 7 [] (demo_broker (take 2 demo_calls))) demo_engine = Inr e' \<and>
     map_of (pe_states e') ''U1'' = Some s' \<and> pa_sync_state s' = SYNC_ENTRIES_BLOCKED \<and>
     (\<forall>e'' d x. approve_locked no_render (\<lambda>_. ''c1'') demo_fence demo_ids 5 demo_intent s' e' = Inr (e'', d, x) \<longrightarrow> x = None)"
proof -
  obtain e' where e': "synchronize_canonical no_render 7 (\<lambda>_. ''f1'') (projector_snapshot 7 [] (demo_broker (take 2 demo_calls))) demo_engine = Inr e'"
    using demo_incoherent(1) by (auto split: sum.splits)
  with incoherent_snapshot_blocks_account [OF e' demo_states] demo_incoherent(2) demo_intent_plain(1) show ?thesis by blast
qed

lemma demo_coherent:
  "case synchronize_canonical no_render 7 (\<lambda>_. ''f1'') (projector_snapshot 7 [] (demo_broker demo_calls)) demo_engine of
     Inr e' \<Rightarrow> True | Inl _ \<Rightarrow> False"
  "canonical_blocked (projector_snapshot 7 [] (demo_broker demo_calls)) ''U1'' = None"
  "list_all own_rows demo_calls"
  "broker_rows ''U1'' demo_calls = [demo_position ''U1'' 1 70]"
  "position_ticker no_render (canonical_position ''U1'' (demo_position ''U1'' 1 70)) = ''AAPL''"
  by code_simp+

theorem portfolio_shows_last_complete_report_witness:
  "\<exists>e' s'. synchronize_canonical no_render 7 (\<lambda>_. ''f1'') (projector_snapshot 7 [] (demo_broker demo_calls)) demo_engine = Inr e' \<and>
     map_of (pe_states e') ''U1'' = Some s' \<and> broker_quantity s' ''AAPL'' = 70"
proof -
  obtain e' where e': "synchronize_canonical no_render 7 (\<lambda>_. ''f1'') (projector_snapshot 7 [] (demo_broker demo_calls)) demo_engine = Inr e'"
    using demo_coherent(1) by (auto split: sum.splits)
  from portfolio_shows_last_complete_report [OF demo_coherent(3) demo_broker_def [symmetric] e' demo_states demo_coherent(2) refl]
  obtain s' where "map_of (pe_states e') ''U1'' = Some s'" "broker_quantity s' ''AAPL'' = fl (ps_quantity (demo_position ''U1'' 1 70))"
    unfolding demo_coherent(4) by (auto simp: demo_coherent(5))
  moreover have "fl (ps_quantity (demo_position ''U1'' 1 70)) = 70" by code_simp
  ultimately show ?thesis using e' by auto
qed

text \<open>Two rows of one ticker, of two models: the projector keeps both, the portfolio one of them.\<close>

lemma rows_of_one_ticker_collapse:
  "case synchronize_canonical no_render 7 (\<lambda>_. ''f1'') (projector_snapshot 7 [] (demo_broker (take 2 demo_calls @
       [PositionSnapshot ''U1'' ''s1'' True [demo_position ''U1'' 1 70, demo_position ''U1'' 1 30\<lparr>ps_model := ''m''\<rparr>]]))) demo_engine of
     Inr e' \<Rightarrow> map_option (\<lambda>s. broker_quantity s ''AAPL'') (map_of (pe_states e') ''U1'') = Some 30 | Inl _ \<Rightarrow> False"
  by code_simp

text \<open>Five shares are held and an exit of ten is asked for.\<close>

definition demo_long :: AdmissionState where
  "demo_long = demo_portfolio_account\<lparr>sz_positions := [(''ABC'', (canonical_position ''U1'' (demo_position ''U1'' 1 5))\<lparr>pp_contractDesc := ''ABC''\<rparr>)]\<rparr>"

definition demo_exit :: StrategyIntent where
  "demo_exit = demo_intent\<lparr>si_action := ''exit''\<rparr>"

lemma demo_reduced:
  "case approve_locked no_render (\<lambda>_. ''c1'') demo_fence demo_ids 5 demo_exit demo_long demo_held of
     Inr (e', d, Some j) \<Rightarrow> si_quantity j = 5 | _ \<Rightarrow> False"
  "current_quantity demo_long demo_exit = of_int 5" "si_action demo_exit = ''exit''"
  by code_simp+

theorem reduction_within_position_witness:
  "\<exists>e' d j r. approve_locked no_render (\<lambda>_. ''c1'') demo_fence demo_ids 5 demo_exit demo_long demo_held = Inr (e', d, Some j) \<and>
     si_quantity j \<le> 5 \<and> map_of (pe_reservations e') ''r1'' = Some r \<and> rv_reserved_notional r = 0"
proof -
  obtain e' d j where out: "approve_locked no_render (\<lambda>_. ''c1'') demo_fence demo_ids 5 demo_exit demo_long demo_held = Inr (e', d, Some j)"
    using demo_reduced(1) by (auto split: sum.splits prod.splits option.splits)
  have "si_action demo_exit \<in> REDUCTION_ACTIONS" by (simp add: demo_reduced(3) REDUCTION_ACTIONS_def)
  from reduction_within_position [OF out this demo_reduced(2)] out show ?thesis
    by (auto simp: demo_reduced(3) demo_ids_def)
qed

end
