(* ===== verification/Spec2Isabelle.thy ===== *)
theory Spec2Isabelle
  imports SimAdmission SimShares RoundTrips Risk TradeVolumeLaws MarketPressureLaws CandleRange PivotLaws CampaignLaws ProjectorLaws RiskSupervisorLaws HodTargetsLaws ProtectedExitLaws AdmissionLaws PortfolioSyncLaws
begin

text \<open>
  A verification development of the trading runtime of this repository, the Python package
  \<open>src/trading_runtime\<close>. A strategy turns signals into intents, the planner turns intents into
  broker orders, the safety guard and the risk supervisor admit or restrict them, campaign
  ownership keeps strategies off each other's tickers, and the simulated broker executes orders
  against quotes, trades and completed one-second bars. Executions become closed trades, broker
  snapshots become the projected state of the accounts, and small causal detectors (volume,
  pressure, candle range, pivots, price ladders) feed the strategies.

  \<^bold>\<open>Conventions.\<close> \<open>Prelude\<close>, \<open>PyNum\<close>, \<open>Calendar\<close> and \<open>Payload\<close> are the language: a call that may
  raise returns \<open>pyexc + 'a\<close>; a method that mutates its object and may raise is an \<open>act\<close>, which
  gives the state back on both paths, changed as far as the call got; an ordered \<open>dict\<close> is an
  association list; a \<open>float\<close> is the rational it denotes with every operation rounded to
  binary64, a \<open>Decimal\<close> the same with 28 digits; a time stamp is an instant in microseconds; a
  loosely typed payload is a \<open>json\<close> value. Every definition is executable, including the
  rounding, so the witnesses evaluate the program on concrete input. Built-in \<open>sum\<close> over floats
  is the plain left-to-right sum of Python 3.11; non-finite floats are outside the model.

  \<^bold>\<open>What models what.\<close> A theory \<open>X\<close> holds the definitions of a component and \<open>XLaws\<close> what is proved
  of it, unless one theory holds both.
  \<^item> \<open>Domain\<close>: \<open>domain.py\<close>. \<open>Ibkr\<close>: \<open>ibkr_schema.py\<close> and \<open>market_engine/events.py\<close>.
  \<^item> \<open>SimState\<close>, \<open>SimFill\<close>, \<open>SimBook\<close>, \<open>SimMatch\<close>, \<open>SimOps\<close>: \<open>simulated_broker.py\<close>, from the
    adapter's fields over the price and size of a fill, the booking of an execution and the
    matching loops to the commands. \<open>SimLaws\<close> has the runs of the broker, its step relation and
    the preorder every action respects; \<open>SimOrders\<close>, \<open>SimAdmission\<close>, \<open>SimFills\<close> and \<open>SimShares\<close>
    have the invariants of orders, the commands and their errors, the execution journal, and
    the whole-share books that never go short.
  \<^item> \<open>RoundTrips\<close>: \<open>round_trips.py\<close>. \<open>Projector\<close>, \<open>ProjectorLaws\<close>: \<open>projector.py\<close> and the ledger
    merge of \<open>ibkr_normalizer.py\<close>, against a specification that reads the run alone.
  \<^item> \<open>ExecPolicy\<close>, \<open>ExecPolicyLaws\<close>: \<open>execution_policies.py\<close>. \<open>Taxonomy\<close>: \<open>taxonomy.py\<close>.
    \<open>Signals\<close>: \<open>signals.py\<close>. \<open>StrategyOrders\<close>, \<open>StrategyOrdersLaws\<close>: \<open>strategy_orders.py\<close>, the
    planner and its runtime adapter.
  \<^item> \<open>Risk\<close>: \<open>risk.py\<close>, with the planner's output refining what the guard demands.
    \<open>OrderGroups\<close>, \<open>OrderGroupsLaws\<close>: the deciding parts of \<open>order_management.py\<close>, namely
    execution tactics, the roles and routing of orders and the accounting of their fills.
    \<open>ProtectedExits\<close>, \<open>ProtectedExitLaws\<close>: the exits of the same file that take over protective
    orders, the step relation of the registry of groups, and the owner of every broker order.
    \<open>RiskSupervisor\<close>, \<open>RiskSupervisorLaws\<close>: \<open>risk_supervisor.py\<close>, whose severities are a linear
    order.
  \<^item> \<open>portfolio.py\<close> is in four theories. \<open>Portfolio\<close> has the policies and account controls,
    \<open>Allocation\<close> the rows, the metrics and the capacities an entry is cut to, \<open>Admission\<close> the
    decision \<open>_approve_locked\<close> with all its reasons, cash tranches, release, attribution of fills,
    repricing and reconciliation (and \<open>entry_quality.py\<close>), and \<open>PortfolioSync\<close> the construction
    and the synchronisation with a broker, a given snapshot or the projector's.
    \<open>AdmissionFills\<close> composes it with the order manager: fills against lots and reservations.
    \<open>AdmissionLaws\<close> has the limits an approval respects, the step relation of the books with the
    invariant that a request is funded once, the release of holds and the exactness of the
    reconciliation. \<open>PortfolioSyncLaws\<close> composes it with the projector and bounds reductions.
  \<^item> \<open>Campaign\<close>, \<open>CampaignLaws\<close>: \<open>strategy_campaign.py\<close> and the session ownership of
    \<open>journal.py\<close>, an interface that is interpreted on the journal's operations.
  \<^item> \<open>TradeVolume\<close>, \<open>MarketPressure\<close>, \<open>CandleRange\<close>: the modules of these names. \<open>Windows\<close> has
    the interface of a rolling window of time buckets, interpreted by the first two.
    \<open>PivotProduct\<close>, \<open>PivotTimeline\<close>: \<open>strategy_one_pivot_product.py\<close>,
    \<open>strategy_one_pivot_timeline.py\<close> and the transition of \<open>strategy_one_bos.py\<close>; \<open>PivotCursor\<close>
    proves the consumer equal to a filter and \<open>PivotLaws\<close> composes producer and consumer.
  \<^item> \<open>HodTargets\<close>, \<open>HodTargetsLaws\<close>: levels, stops on the tick grid and the target search of
    \<open>historical_hod.py\<close>, whose unbounded loop is a partial function that is proved to end.

  \<^bold>\<open>Parameters.\<close> What the source takes from outside is an argument: clocks, uuid and nonce
  generators, SHA-256, the rendering of values as text, New York dates and session clocks, the
  outcome of awaited broker calls and callbacks, and account metrics. One recursion has
  fuel: \<open>release_intent\<close> and \<open>_release_cash_holds\<close> call each other, each call that goes on
  releases a reserved row, so the number of rows is enough and more changes nothing. The other
  loops terminate by the length of what they consume, and the ladder ends for a tick of at least
  a millionth and a base of at least one tick, which every quoted price satisfies. The identifiers
  an approval draws from \<open>uuid4\<close>, the lease it is fenced with and the clock are its arguments.

  \<^bold>\<open>Not modelled.\<close> Checkpoints and the canonical command adapters of the simulated broker; the recovery
  of order management and its other awaited command sequences, its repricing and its protection repair; the decision logic of the strategies; the persistence of
  the portfolio, its restore and typed recovery paths and its payloads; the performance report; the normaliser of broker rows; journals,
  projections and services over SQLite, ClickHouse and HTTP, which are I/O and field lists;
  asynchronous scheduling, in place of which operations run one after the other in any order;
  research, pipelines, gateways, the Rust engine and the web interface, which are other programs.
\<close>

end
